(* ===== verification/Prelude.thy ===== *)
theory Prelude
  imports Main "HOL-Library.AList"
begin

text \<open>
  What every component of the development shares: the collections its automation is kept
  in, Go's 64-bit integers and durations, and association lists as Go maps.
\<close>

named_theorems go_map "facts about association lists used as Go maps"
named_theorems outcome_splits "case splits on the outcomes of fallible, stateful operations"

lemmas [outcome_splits] = option.splits sum.splits prod.splits if_splits

section \<open>Integers and durations\<close>

text \<open>
  Go's \<open>int\<close> and \<open>time.Duration\<close> are 64-bit two's complement. Values are kept in
  \<^typ>\<open>int\<close>, with the wrap-around written out where the code multiplies: \<open>wrap64\<close> is the
  value a 64-bit operation leaves. A \<open>time.Time\<close> is a number of nanoseconds on an unbounded
  axis, since its own range is far beyond any sum the broker forms; \<open>Time.Sub\<close> saturates.
\<close>

definition wrap64 :: "int \<Rightarrow> int" where
  "wrap64 x = (x + 2 ^ 63) mod 2 ^ 64 - 2 ^ 63"

definition sat64 :: "int \<Rightarrow> int" where
  "sat64 x = max (- (2 ^ 63)) (min (2 ^ 63 - 1) x)"

definition second :: int where "second = 1000000000"
definition minute :: int where "minute = 60000000000"

definition dur_mult :: "int \<Rightarrow> int \<Rightarrow> int" where
  "dur_mult n unit = wrap64 (n * unit)"

lemma wrap64_id: "- (2 ^ 63) \<le> x \<Longrightarrow> x < 2 ^ 63 \<Longrightarrow> wrap64 x = x"
  by (simp add: wrap64_def)

lemma wrap64_range: "- (2 ^ 63) \<le> wrap64 x \<and> wrap64 x < 2 ^ 63"
proof -
  have "0 \<le> (x + 2 ^ 63) mod 2 ^ 64" and "(x + 2 ^ 63) mod 2 ^ 64 < (2 ^ 64 :: int)"
    by (rule pos_mod_sign, simp, rule pos_mod_bound, simp)
  then show ?thesis by (simp add: wrap64_def)
qed

text \<open>The largest number of minutes that a \<open>time.Duration\<close> holds.\<close>

definition max_duration_minutes :: int where
  "max_duration_minutes = 153722867"

lemma dur_mult_minute:
  assumes "0 \<le> n" and "n \<le> max_duration_minutes"
  shows "dur_mult n minute = n * minute"
proof -
  have "0 \<le> n * minute" using assms(1) by (simp add: minute_def)
  moreover have "n * minute < 2 ^ 63"
    using assms(2) by (simp add: minute_def max_duration_minutes_def)
  ultimately show ?thesis by (simp add: dur_mult_def wrap64_id)
qed

text \<open>\<open>int(math.Ceil(d.Seconds()))\<close> for a non-negative duration.\<close>

definition ceil_seconds :: "int \<Rightarrow> int" where
  "ceil_seconds d = (d + second - 1) div second"

lemma ceil_seconds_bounds:
  "d \<le> ceil_seconds d * second \<and> ceil_seconds d * second < d + second"
proof -
  let ?q = "(d + second - 1) div second" and ?r = "(d + second - 1) mod second"
  have e: "d + second - 1 = ?q * second + ?r" by (rule div_mult_mod_eq [symmetric])
  have r: "0 \<le> ?r" "?r < second" by (simp_all add: second_def)
  have "d \<le> ?q * second" and "?q * second < d + second" using e r by linarith+
  then show ?thesis by (simp add: ceil_seconds_def)
qed

section \<open>Go maps\<close>

text \<open>
  A Go \<open>map\<close> is an association list with distinct keys. Its order is the order a \<open>range\<close>
  loop visits the entries in: Go leaves that order open, and the theorems quantify over
  every list, hence over every order.
\<close>

type_synonym 'v go_map = "(string \<times> 'v) list"

abbreviation go_get :: "'v go_map \<Rightarrow> string \<Rightarrow> 'v option" where
  "go_get m k \<equiv> map_of m k"

abbreviation go_set :: "'v go_map \<Rightarrow> string \<Rightarrow> 'v \<Rightarrow> 'v go_map" where
  "go_set m k v \<equiv> AList.update k v m"

abbreviation go_delete :: "'v go_map \<Rightarrow> string \<Rightarrow> 'v go_map" where
  "go_delete m k \<equiv> AList.delete k m"

definition wf_map :: "'v go_map \<Rightarrow> bool" where
  "wf_map m \<longleftrightarrow> distinct (map fst m)"

lemma wf_map_Nil [simp, go_map]: "wf_map []"
  by (simp add: wf_map_def)

lemma wf_map_set [simp, go_map]: "wf_map m \<Longrightarrow> wf_map (go_set m k v)"
  by (simp add: wf_map_def distinct_update)

lemma wf_map_delete [simp, go_map]: "wf_map m \<Longrightarrow> wf_map (go_delete m k)"
  by (simp add: wf_map_def distinct_delete)

lemma wf_map_filter [simp, go_map]: "wf_map m \<Longrightarrow> wf_map (filter P m)"
  by (induction m) (auto simp: wf_map_def)

lemma wf_map_map_values [simp, go_map]:
  "wf_map (map (\<lambda>(k, v). (k, f k v)) m) \<longleftrightarrow> wf_map m"
  by (simp add: wf_map_def case_prod_beta comp_def)

lemma go_get_set [simp, go_map]: "go_get (go_set m k v) = (go_get m)(k \<mapsto> v)"
  by (rule update_conv')

lemma go_get_delete [simp, go_map]: "go_get (go_delete m k) = (go_get m)(k := None)"
  by (rule delete_conv')

lemma go_get_filter [go_map]:
  "wf_map m \<Longrightarrow> go_get (filter P m) k =
     (case go_get m k of None \<Rightarrow> None | Some v \<Rightarrow> if P (k, v) then Some v else None)"
proof (induction m)
  case (Cons a m)
  then have "fst a \<notin> fst ` set m" and "wf_map m" by (auto simp: wf_map_def)
  with Cons.IH show ?case
    by (cases a) (auto simp: map_of_eq_None_iff split: option.splits)
qed simp

lemma go_get_map_values [simp, go_map]:
  "go_get (map (\<lambda>(k, v). (k, f k v)) m) k = map_option (f k) (go_get m k)"
  by (induction m) auto

lemma go_get_in_values [go_map]: "go_get m k = Some v \<Longrightarrow> v \<in> snd ` set m"
  by (metis image_eqI map_of_SomeD snd_conv)

lemma go_get_mem [go_map]: "wf_map m \<Longrightarrow> (k, v) \<in> set m \<longleftrightarrow> go_get m k = Some v"
  by (simp add: wf_map_def map_of_eq_Some_iff)

text \<open>Storing a fresh key and deleting it again, or storing back what was there, is a no-op.\<close>

lemma go_delete_set_fresh [go_map]:
  "go_get m k = None \<Longrightarrow> go_get ((go_delete (go_set m k v) k)) = go_get m"
  by (auto simp: fun_eq_iff)

lemma go_set_back [go_map]:
  "go_get m k = Some v \<Longrightarrow> go_get (go_set (go_set m k v') k v) = go_get m"
  by (auto simp: fun_eq_iff)

end
