(* ===== verification/GoStrings.thy ===== *)
theory GoStrings
  imports Prelude
begin

text \<open>
  Go's byte strings and the functions of the packages \<open>strings\<close>, \<open>strconv\<close>, \<open>unicode\<close>
  and \<open>unicode/utf8\<close> that the broker calls.

  A Go \<open>string\<close> is a sequence of bytes, and so is a HOL \<^typ>\<open>string\<close>: a list of
  \<^typ>\<open>char\<close>, each one byte. White space and UTF-8 decoding are exact. Case mapping is exact
  on ASCII and on the runes that map into ASCII (\<open>U+0130\<close>, \<open>U+0131\<close>, \<open>U+017F\<close>,
  \<open>U+212A\<close>). Every other rune beyond ASCII is left as it is, where Go consults the Unicode
  tables: no such rune maps to ASCII, so comparisons with ASCII constants are exact.
\<close>

named_theorems go_string "facts about the functions of the package strings"

section \<open>Byte strings\<close>

abbreviation byte :: "char \<Rightarrow> nat" where
  "byte c \<equiv> of_char c"

definition has_prefix :: "string \<Rightarrow> string \<Rightarrow> bool" where
  "has_prefix s p \<longleftrightarrow> take (length p) s = p"

definition has_suffix :: "string \<Rightarrow> string \<Rightarrow> bool" where
  "has_suffix s p \<longleftrightarrow> has_prefix (rev s) (rev p)"

fun contains :: "string \<Rightarrow> string \<Rightarrow> bool" where
  "contains [] p \<longleftrightarrow> p = []"
| "contains (c # cs) p \<longleftrightarrow> has_prefix (c # cs) p \<or> contains cs p"

definition contains_any :: "string \<Rightarrow> string \<Rightarrow> bool" where
  "contains_any s chars \<longleftrightarrow> list_ex (\<lambda>c. c \<in> set chars) s"

lemma has_prefix_iff [go_string]: "has_prefix s p \<longleftrightarrow> (\<exists>t. s = p @ t)"
  unfolding has_prefix_def by (metis append_eq_conv_conj append_take_drop_id)

lemma has_suffix_iff [go_string]: "has_suffix s p \<longleftrightarrow> (\<exists>t. s = t @ p)"
  unfolding has_suffix_def has_prefix_iff by (metis rev_append rev_rev_ident)

lemma contains_iff [go_string]: "contains s p \<longleftrightarrow> (\<exists>a b. s = a @ p @ b)"
proof (induction s)
  case Nil
  then show ?case by simp
next
  case (Cons c cs)
  have "(\<exists>a b. c # cs = a @ p @ b) \<longleftrightarrow> (\<exists>b. c # cs = p @ b) \<or> (\<exists>a b. cs = a @ p @ b)"
    by (metis append_Cons append_Nil neq_Nil_conv list.inject)
  with Cons show ?case by (simp add: has_prefix_iff)
qed

subsection \<open>Trimming white space\<close>

text \<open>
  \<open>strings.TrimSpace\<close> removes leading and trailing runes with the Unicode property
  White\_Space. These are their UTF-8 encodings. A trailing rune is found by its bytes, as
  \<open>utf8.DecodeLastRuneInString\<close> finds it: no entry is a suffix of another.
\<close>

definition space_runes :: "string list" where
  "space_runes =
     [[CHR 0x20], [CHR 0x09], [CHR 0x0A], [CHR 0x0B], [CHR 0x0C], [CHR 0x0D],
      [CHR 0xC2, CHR 0x85], [CHR 0xC2, CHR 0xA0], [CHR 0xE1, CHR 0x9A, CHR 0x80],
      [CHR 0xE2, CHR 0x80, CHR 0x80], [CHR 0xE2, CHR 0x80, CHR 0x81],
      [CHR 0xE2, CHR 0x80, CHR 0x82], [CHR 0xE2, CHR 0x80, CHR 0x83],
      [CHR 0xE2, CHR 0x80, CHR 0x84], [CHR 0xE2, CHR 0x80, CHR 0x85],
      [CHR 0xE2, CHR 0x80, CHR 0x86], [CHR 0xE2, CHR 0x80, CHR 0x87],
      [CHR 0xE2, CHR 0x80, CHR 0x88], [CHR 0xE2, CHR 0x80, CHR 0x89],
      [CHR 0xE2, CHR 0x80, CHR 0x8A], [CHR 0xE2, CHR 0x80, CHR 0xA8],
      [CHR 0xE2, CHR 0x80, CHR 0xA9], [CHR 0xE2, CHR 0x80, CHR 0xAF],
      [CHR 0xE2, CHR 0x81, CHR 0x9F], [CHR 0xE3, CHR 0x80, CHR 0x80]]"

definition leading_rune :: "string list \<Rightarrow> string \<Rightarrow> string option" where
  "leading_rune T s = find (\<lambda>w. w \<noteq> [] \<and> has_prefix s w) T"

lemma leading_rune_Some:
  "leading_rune T s = Some w \<Longrightarrow> w \<in> set T \<and> w \<noteq> [] \<and> has_prefix s w"
  by (auto simp: leading_rune_def find_Some_iff)

lemma leading_rune_None:
  "leading_rune T s = None \<longleftrightarrow> (\<forall>w\<in>set T. w \<noteq> [] \<longrightarrow> \<not> has_prefix s w)"
  by (auto simp: leading_rune_def find_None_iff)

function trim_runes :: "string list \<Rightarrow> string \<Rightarrow> string" where
  "trim_runes T s =
     (case leading_rune T s of None \<Rightarrow> s | Some w \<Rightarrow> trim_runes T (drop (length w) s))"
  by pat_completeness auto
termination
proof (relation "measure (length \<circ> snd)", goal_cases)
  case (2 T s w)
  then have "w \<noteq> []" and "has_prefix s w" by (auto dest: leading_rune_Some)
  then show ?case by (auto simp: has_prefix_iff)
qed simp

declare trim_runes.simps [simp del]

definition trim_left :: "string \<Rightarrow> string" where
  "trim_left s = trim_runes space_runes s"

definition trim_right :: "string \<Rightarrow> string" where
  "trim_right s = rev (trim_runes (map rev space_runes) (rev s))"

definition trim_space :: "string \<Rightarrow> string" where
  "trim_space s = trim_right (trim_left s)"

lemma trim_runes_None: "leading_rune T s = None \<Longrightarrow> trim_runes T s = s"
  by (subst trim_runes.simps) simp

lemma leading_rune_trim_runes: "leading_rune T (trim_runes T s) = None"
proof (induction T s rule: trim_runes.induct)
  case (1 T s)
  show ?case
    by (cases "leading_rune T s") (simp_all add: trim_runes.simps [of T s] 1)
qed

lemma trim_runes_suffix: "\<exists>t. s = t @ trim_runes T s"
proof (induction T s rule: trim_runes.induct)
  case (1 T s)
  show ?case
  proof (cases "leading_rune T s")
    case None
    then show ?thesis by (simp add: trim_runes_None)
  next
    case (Some w)
    with 1 obtain t where "drop (length w) s = t @ trim_runes T (drop (length w) s)" by blast
    then have "s = (take (length w) s @ t) @ trim_runes T (drop (length w) s)"
      by (metis append.assoc append_take_drop_id)
    with Some show ?thesis by (metis option.simps(5) trim_runes.simps)
  qed
qed

lemma trim_right_prefix: "\<exists>t. s = trim_right s @ t"
proof -
  obtain t where "rev s = t @ trim_runes (map rev space_runes) (rev s)"
    using trim_runes_suffix by blast
  then have "s = trim_right s @ rev t" by (metis rev_append rev_rev_ident trim_right_def)
  then show ?thesis ..
qed

lemma trim_left_of_trimmed:
  assumes "leading_rune space_runes s = None" shows "leading_rune space_runes (trim_right s) = None"
proof -
  obtain t where "s = trim_right s @ t" using trim_right_prefix by blast
  then have "has_prefix (trim_right s) w \<Longrightarrow> has_prefix s w" for w
    by (metis append.assoc has_prefix_iff)
  with assms show ?thesis by (auto simp: leading_rune_None)
qed

lemma trim_space_idem [simp, go_string]: "trim_space (trim_space s) = trim_space s"
proof -
  have "leading_rune space_runes (trim_left s) = None"
    by (simp add: trim_left_def leading_rune_trim_runes)
  then have "leading_rune space_runes (trim_space s) = None"
    unfolding trim_space_def by (rule trim_left_of_trimmed)
  then have l: "trim_left (trim_space s) = trim_space s"
    by (simp add: trim_left_def trim_runes_None)
  have "trim_right (trim_space s) = trim_space s"
    by (simp add: trim_space_def trim_right_def leading_rune_trim_runes trim_runes_None)
  with l show ?thesis by (simp add: trim_space_def [of "trim_space s"])
qed

lemma trim_space_Nil [simp]: "trim_space [] = []"
  by (simp add: trim_space_def trim_left_def trim_right_def trim_runes_None leading_rune_None
      has_prefix_def)


lemma trim_space_has_no_space:
  "leading_rune space_runes (trim_space s) = None"
proof -
  have "leading_rune space_runes (trim_left s) = None"
    by (simp add: trim_left_def leading_rune_trim_runes)
  then show ?thesis unfolding trim_space_def by (rule trim_left_of_trimmed)
qed

subsection \<open>Case mapping\<close>

definition ascii_upper :: "char \<Rightarrow> char" where
  "ascii_upper c = (if 97 \<le> byte c \<and> byte c \<le> 122 then char_of (byte c - 32) else c)"

definition ascii_lower :: "char \<Rightarrow> char" where
  "ascii_lower c = (if 65 \<le> byte c \<and> byte c \<le> 90 then char_of (byte c + 32) else c)"

text \<open>Runes beyond ASCII whose image is an ASCII letter, with that letter.\<close>

definition upper_special :: "(string \<times> char) list" where
  "upper_special = [([CHR 0xC4, CHR 0xB1], CHR ''I''), ([CHR 0xC5, CHR 0xBF], CHR ''S'')]"

definition lower_special :: "(string \<times> char) list" where
  "lower_special =
     [([CHR 0xC4, CHR 0xB0], CHR ''i''), ([CHR 0xE2, CHR 0x84, CHR 0xAA], CHR ''k'')]"

definition fold_special :: "(string \<times> char) list" where
  "fold_special =
     [([CHR 0xC5, CHR 0xBF], CHR ''s''), ([CHR 0xE2, CHR 0x84, CHR 0xAA], CHR ''k'')]"

definition special_at :: "(string \<times> char) list \<Rightarrow> string \<Rightarrow> (string \<times> char) option" where
  "special_at T s = find (\<lambda>(w, _). w \<noteq> [] \<and> has_prefix s w) T"

lemma special_at_Some: "special_at T s = Some (w, d) \<Longrightarrow> w \<noteq> [] \<and> (\<exists>t. s = w @ t)"
  by (auto simp: special_at_def find_Some_iff has_prefix_iff)

function map_runes :: "(string \<times> char) list \<Rightarrow> (char \<Rightarrow> char) \<Rightarrow> string \<Rightarrow> string" where
  "map_runes T f [] = []"
| "map_runes T f (c # cs) =
     (case special_at T (c # cs) of
        None \<Rightarrow> f c # map_runes T f cs
      | Some wd \<Rightarrow> snd wd # map_runes T f (drop (length (fst wd)) (c # cs)))"
  by pat_completeness auto
termination
proof (relation "measure (\<lambda>(T, f, s). length s)", goal_cases)
  case (3 T f c cs wd)
  then obtain w d where "wd = (w, d)" "w \<noteq> []" by (metis special_at_Some surj_pair)
  then show ?case by (cases w) auto
qed auto

definition to_upper :: "string \<Rightarrow> string" where
  "to_upper s = map_runes upper_special ascii_upper s"

definition to_lower :: "string \<Rightarrow> string" where
  "to_lower s = map_runes lower_special ascii_lower s"

definition equal_fold :: "string \<Rightarrow> string \<Rightarrow> bool" where
  "equal_fold s t \<longleftrightarrow>
     map_runes fold_special ascii_lower s = map_runes fold_special ascii_lower t"

definition is_ascii :: "string \<Rightarrow> bool" where
  "is_ascii s \<longleftrightarrow> list_all (\<lambda>c. byte c < 128) s"

text \<open>On ASCII strings a case mapping is a \<open>map\<close>: no entry of a table starts with ASCII.\<close>

lemma map_runes_ascii:
  assumes "list_all (\<lambda>(w, _). w \<noteq> [] \<and> 128 \<le> byte (hd w)) T" and "is_ascii s"
  shows "map_runes T f s = map f s"
  using assms(2)
proof (induction s)
  case (Cons c cs)
  have "\<not> has_prefix (c # cs) w" if "(w, d) \<in> set T" for w d
  proof -
    from assms(1) that have "w \<noteq> []" "128 \<le> byte (hd w)" by (auto simp: list_all_iff)
    with Cons.prems show ?thesis by (cases w) (auto simp: is_ascii_def has_prefix_iff)
  qed
  then have "special_at T (c # cs) = None" by (auto simp: special_at_def find_None_iff)
  with Cons show ?case by (simp add: is_ascii_def)
qed simp

lemma to_upper_ascii [go_string]: "is_ascii s \<Longrightarrow> to_upper s = map ascii_upper s"
  unfolding to_upper_def by (rule map_runes_ascii) (simp_all add: upper_special_def)

lemma to_lower_ascii [go_string]: "is_ascii s \<Longrightarrow> to_lower s = map ascii_lower s"
  unfolding to_lower_def by (rule map_runes_ascii) (simp_all add: lower_special_def)

lemma to_upper_Nil [simp]: "to_upper [] = []" and to_lower_Nil [simp]: "to_lower [] = []"
  by (simp_all add: to_upper_def to_lower_def)

lemma byte_char_of: "n < 256 \<Longrightarrow> byte (char_of n) = n"
  by simp

lemma ascii_upper_idem [simp]: "ascii_upper (ascii_upper c) = ascii_upper c"
  by (auto simp: ascii_upper_def)

lemma ascii_lower_idem [simp]: "ascii_lower (ascii_lower c) = ascii_lower c"
  by (auto simp: ascii_lower_def)

subsection \<open>Cutting, joining and splitting\<close>

text \<open>\<open>strings.Cut(s, sep)\<close> for a one-byte separator: before, after and whether it was found.\<close>

definition cut :: "string \<Rightarrow> char \<Rightarrow> string \<times> string \<times> bool" where
  "cut s c =
     (let a = takeWhile (\<lambda>x. x \<noteq> c) s; r = dropWhile (\<lambda>x. x \<noteq> c) s
      in case r of [] \<Rightarrow> (s, [], False) | _ # b \<Rightarrow> (a, b, True))"

lemma cut_found: "cut s c = (a, b, True) \<longleftrightarrow> s = a @ c # b \<and> c \<notin> set a"
proof
  assume l: "cut s c = (a, b, True)"
  then obtain x where r: "dropWhile (\<lambda>x. x \<noteq> c) s = x # b" and a: "a = takeWhile (\<lambda>x. x \<noteq> c) s"
    by (auto simp: cut_def Let_def split: list.splits)
  from r have "x = c" by (metis (mono_tags) hd_dropWhile list.distinct(1) list.sel(1))
  with r a show "s = a @ c # b \<and> c \<notin> set a"
    by (metis (mono_tags) set_takeWhileD takeWhile_dropWhile_id)
next
  assume "s = a @ c # b \<and> c \<notin> set a"
  then have "takeWhile (\<lambda>x. x \<noteq> c) s = a" and "dropWhile (\<lambda>x. x \<noteq> c) s = c # b"
    by (auto simp: takeWhile_append dropWhile_append)
  then show "cut s c = (a, b, True)" by (simp add: cut_def)
qed

lemma cut_not_found: "c \<notin> set s \<Longrightarrow> cut s c = (s, [], False)"
  by (simp add: cut_def Let_def split: list.split)
    (metis (mono_tags, lifting) dropWhile_eq_Nil_conv list.distinct(1))

fun join :: "string \<Rightarrow> string list \<Rightarrow> string" where
  "join sep [] = []"
| "join sep [s] = s"
| "join sep (s # t # ts) = s @ sep @ join sep (t # ts)"

lemma join_append_nonempty:
  "xs \<noteq> [] \<Longrightarrow> ys \<noteq> [] \<Longrightarrow> join sep (xs @ ys) = join sep xs @ sep @ join sep ys"
proof (induction xs rule: induct_list012)
  case (2 x)
  then show ?case by (cases ys) auto
qed auto

text \<open>Joining with a separator that no part contains loses nothing.\<close>

lemma join_char_inj:
  assumes "length xs = length ys" and "\<forall>x\<in>set xs \<union> set ys. c \<notin> set x"
    and "join [c] xs = join [c] ys"
  shows "xs = ys"
  using assms
proof (induction xs ys rule: list_induct2)
  case (Cons x xs y ys)
  show ?case
  proof (cases xs)
    case Nil
    with Cons show ?thesis by simp
  next
    case (Cons x' xs')
    with Cons.hyps obtain y' ys' where ys: "ys = y' # ys'" by (cases ys) auto
    have "x @ c # join [c] xs = y @ c # join [c] ys"
      using Cons.prems(2) \<open>xs = x' # xs'\<close> ys by simp
    moreover have "c \<notin> set x" "c \<notin> set y" using Cons.prems(1) by auto
    ultimately have "cut (y @ c # join [c] ys) c = (x, join [c] xs, True)"
      and "cut (y @ c # join [c] ys) c = (y, join [c] ys, True)"
      by (simp_all add: cut_found)
    then have "x = y" and "join [c] xs = join [c] ys" by simp_all
    moreover have "xs = ys" using Cons.IH Cons.prems(1) calculation(2) by auto
    ultimately show ?thesis by simp
  qed
qed simp

function split_char :: "char \<Rightarrow> string \<Rightarrow> string list" where
  "split_char c s =
     (case cut s c of (a, b, found) \<Rightarrow> if found then a # split_char c b else [s])"
  by pat_completeness auto
termination
proof (relation "measure (length \<circ> snd)", goal_cases)
  case (2 c s p a q)
  then show ?case by (cases q) (auto dest!: sym [of _ "cut s c"] simp: cut_found)
qed simp

declare split_char.simps [simp del]

subsection \<open>UTF-8\<close>

text \<open>
  \<open>utf8.DecodeRuneInString\<close>: the width of the rune a non-empty string starts with, or
  \<open>None\<close> for an invalid encoding, which Go reads as one byte of width 1 with the value
  \<open>utf8.RuneError\<close>. The accepted ranges of the second byte exclude overlong encodings,
  surrogates and values beyond \<open>U+10FFFF\<close>.
\<close>

definition in_range :: "nat \<Rightarrow> nat \<Rightarrow> char \<Rightarrow> bool" where
  "in_range lo hi c \<longleftrightarrow> lo \<le> byte c \<and> byte c \<le> hi"

definition second_byte_ok :: "nat \<Rightarrow> char \<Rightarrow> bool" where
  "second_byte_ok b0 c =
     (if b0 = 0xE0 then in_range 0xA0 0xBF c
      else if b0 = 0xED then in_range 0x80 0x9F c
      else if b0 = 0xF0 then in_range 0x90 0xBF c
      else if b0 = 0xF4 then in_range 0x80 0x8F c
      else in_range 0x80 0xBF c)"

definition rune_width :: "string \<Rightarrow> nat option" where
  "rune_width s =
     (case s of
        [] \<Rightarrow> None
      | c0 # r \<Rightarrow>
          if byte c0 < 0x80 then Some 1
          else if in_range 0xC2 0xDF c0 then
            (case r of c1 # _ \<Rightarrow> if in_range 0x80 0xBF c1 then Some 2 else None | _ \<Rightarrow> None)
          else if in_range 0xE0 0xEF c0 then
            (case r of c1 # c2 # _ \<Rightarrow>
               if second_byte_ok (byte c0) c1 \<and> in_range 0x80 0xBF c2 then Some 3 else None
             | _ \<Rightarrow> None)
          else if in_range 0xF0 0xF4 c0 then
            (case r of c1 # c2 # c3 # _ \<Rightarrow>
               if second_byte_ok (byte c0) c1 \<and> in_range 0x80 0xBF c2 \<and> in_range 0x80 0xBF c3
               then Some 4 else None
             | _ \<Rightarrow> None)
          else None)"

lemma rune_width_bounds: "rune_width s = Some n \<Longrightarrow> 0 < n \<and> n \<le> length s"
  by (auto simp: rune_width_def split: list.splits if_splits)

text \<open>The runes of a string, each with whether its bytes are a valid encoding.\<close>

function rune_spans :: "string \<Rightarrow> (bool \<times> string) list" where
  "rune_spans [] = []"
| "rune_spans (c # cs) =
     (case rune_width (c # cs) of
        Some n \<Rightarrow> (True, take n (c # cs)) # rune_spans (drop n (c # cs))
      | None \<Rightarrow> (False, [c]) # rune_spans cs)"
  by pat_completeness auto
termination
  by (relation "measure length") (auto dest: rune_width_bounds)

lemma concat_rune_spans: "concat (map snd (rune_spans s)) = s"
  by (induction s rule: rune_spans.induct) (auto split: option.splits)

definition rune_error :: string where
  "rune_error = [CHR 0xEF, CHR 0xBF, CHR 0xBD]"

text \<open>
  What a \<open>for _, r := range s\<close> loop sees, each rune as the bytes \<open>WriteRune\<close> writes for it.
  \<open>[]rune(s)\<close> is the same list, and \<open>string(rs)\<close> its concatenation.
\<close>

definition runes :: "string \<Rightarrow> string list" where
  "runes s = map (\<lambda>(ok, w). if ok then w else rune_error) (rune_spans s)"

definition valid_utf8 :: "string \<Rightarrow> bool" where
  "valid_utf8 s \<longleftrightarrow> list_all fst (rune_spans s)"

lemma concat_runes: "valid_utf8 s \<Longrightarrow> concat (runes s) = s"
proof -
  assume v: "valid_utf8 s"
  have "runes s = map snd (rune_spans s)"
    using v by (auto simp: runes_def valid_utf8_def list_all_iff)
  then show ?thesis by (simp add: concat_rune_spans)
qed

lemma runes_Nil [simp]: "runes [] = []"
  by (simp add: runes_def)

text \<open>A string that is the encoding of one rune.\<close>

definition rune_ok :: "string \<Rightarrow> bool" where
  "rune_ok r \<longleftrightarrow> rune_width r = Some (length r)"

lemma rune_width_append: "rune_width r = Some n \<Longrightarrow> rune_width (r @ s) = Some n"
  by (cases r; cases "tl r"; cases "tl (tl r)"; cases "tl (tl (tl r))")
    (simp_all add: rune_width_def split: if_splits)

lemma rune_width_take: "rune_width s = Some n \<Longrightarrow> rune_width (take n s) = Some n"
  by (cases s; cases "tl s"; cases "tl (tl s)"; cases "tl (tl (tl s))")
    (auto simp: rune_width_def split: if_splits)

lemma rune_ok_take: "rune_width s = Some n \<Longrightarrow> rune_ok (take n s)"
  using rune_width_bounds [of s n] by (simp add: rune_ok_def rune_width_take)

lemma rune_ok_error: "rune_ok rune_error"
  by code_simp

lemma rune_ok_multibyte: "rune_ok r \<Longrightarrow> length r \<noteq> 1 \<Longrightarrow> \<forall>c\<in>set r. 0x80 \<le> byte c"
  by (auto simp: rune_ok_def rune_width_def in_range_def second_byte_ok_def
      split: list.splits if_splits)

lemma rune_spans_ok: "(True, w) \<in> set (rune_spans s) \<Longrightarrow> rune_ok w"
  by (induction s rule: rune_spans.induct) (auto split: option.splits dest: rune_ok_take)

lemma rune_spans_append:
  assumes "rune_ok r" shows "rune_spans (r @ s) = (True, r) # rune_spans s"
proof -
  have w: "rune_width (r @ s) = Some (length r)"
    using assms by (simp add: rune_ok_def rune_width_append)
  then obtain c cs where "r @ s = c # cs" by (cases "r @ s") (auto simp: rune_width_def)
  with w have "rune_spans (r @ s) =
      (True, take (length r) (r @ s)) # rune_spans (drop (length r) (r @ s))"
    by simp
  then show ?thesis by simp
qed

lemma runes_concat: "(\<And>r. r \<in> set rs \<Longrightarrow> rune_ok r) \<Longrightarrow> runes (concat rs) = rs"
  by (induction rs) (simp_all add: runes_def rune_spans_append)

text \<open>\<open>unicode.IsControl\<close>: the C0 and C1 controls.\<close>

definition is_control_rune :: "string \<Rightarrow> bool" where
  "is_control_rune w =
     (case w of
        [c] \<Rightarrow> byte c < 0x20 \<or> byte c = 0x7F
      | [c, d] \<Rightarrow> byte c = 0xC2 \<and> in_range 0x80 0x9F d
      | _ \<Rightarrow> False)"

text \<open>\<open>strings.Fields\<close>: the maximal runs of non-space runes.\<close>

function split_fields_from :: "string \<Rightarrow> string \<Rightarrow> string list" where
  "split_fields_from acc s =
     (case s of
        [] \<Rightarrow> if acc = [] then [] else [rev acc]
      | c # cs \<Rightarrow>
          (case leading_rune space_runes s of
             None \<Rightarrow> split_fields_from (c # acc) cs
           | Some w \<Rightarrow> (if acc = [] then [] else [rev acc]) @ split_fields_from [] (drop (length w) s)))"
  by pat_completeness auto
termination
proof (relation "measure (length \<circ> snd)", goal_cases)
  case (3 acc s c cs w)
  then show ?case by (auto dest!: leading_rune_Some)
qed auto

declare split_fields_from.simps [simp del]

definition split_fields :: "string \<Rightarrow> string list" where
  "split_fields s = split_fields_from [] s"

lemma split_fields_nonempty: "f \<in> set (split_fields s) \<Longrightarrow> f \<noteq> []"
proof -
  have "f \<in> set (split_fields_from acc s) \<Longrightarrow> f \<noteq> []" for acc
    by (induction acc s rule: split_fields_from.induct)
      (subst (asm) (3) split_fields_from.simps, auto split: list.splits option.splits if_splits)
  then show "f \<in> set (split_fields s) \<Longrightarrow> f \<noteq> []" by (simp add: split_fields_def)
qed

subsection \<open>Numbers and quoting\<close>

function show_nat :: "nat \<Rightarrow> string" where
  "show_nat n =
     (if n < 10 then [char_of (48 + n)] else show_nat (n div 10) @ [char_of (48 + n mod 10)])"
  by pat_completeness auto
termination
  by (relation "measure id") auto

declare show_nat.simps [simp del]

text \<open>\<open>strconv.Itoa\<close> and the verb \<open>%d\<close>.\<close>

definition itoa :: "int \<Rightarrow> string" where
  "itoa i = (if i < 0 then CHR ''-'' # show_nat (nat (- i)) else show_nat (nat i))"

text \<open>\<open>strconv.FormatUint(uint64(i), 10)\<close>: a negative \<open>int\<close> is read as unsigned.\<close>

definition utoa :: "int \<Rightarrow> string" where
  "utoa i = show_nat (nat (i mod 2 ^ 64))"

definition hex_digit :: "nat \<Rightarrow> char" where
  "hex_digit n = char_of (if n < 10 then 48 + n else 87 + n)"

definition hex_byte :: "char \<Rightarrow> string" where
  "hex_byte c = [hex_digit (byte c div 16), hex_digit (byte c mod 16)]"

text \<open>
  \<open>strconv.Quote\<close> and the verb \<open>%q\<close>. Runes beyond \<open>U+00A0\<close> are taken to be printable;
  quoted text only reaches error messages and operator summaries.
\<close>

definition quote_rune :: "bool \<times> string \<Rightarrow> string" where
  "quote_rune r =
     (case r of
        (False, w) \<Rightarrow> concat (map (\<lambda>c. [CHR 0x5C, CHR ''x''] @ hex_byte c) w)
      | (True, [c]) \<Rightarrow>
          if byte c = 0x22 then [CHR 0x5C, CHR 0x22]
          else if byte c = 0x5C then [CHR 0x5C, CHR 0x5C]
          else if byte c = 0x07 then [CHR 0x5C, CHR ''a'']
          else if byte c = 0x08 then [CHR 0x5C, CHR ''b'']
          else if byte c = 0x0C then [CHR 0x5C, CHR ''f'']
          else if byte c = 0x0A then [CHR 0x5C, CHR ''n'']
          else if byte c = 0x0D then [CHR 0x5C, CHR ''r'']
          else if byte c = 0x09 then [CHR 0x5C, CHR ''t'']
          else if byte c = 0x0B then [CHR 0x5C, CHR ''v'']
          else if byte c < 0x20 \<or> byte c = 0x7F then [CHR 0x5C, CHR ''x''] @ hex_byte c
          else [c]
      | (True, w) \<Rightarrow>
          if hd w = CHR 0xC2 \<and> byte (w ! 1) \<le> 0xA0
          then [CHR 0x5C, CHR ''u'', CHR ''0'', CHR ''0''] @ hex_byte (w ! 1) else w)"

definition quote :: "string \<Rightarrow> string" where
  "quote s = [CHR 0x22] @ concat (map quote_rune (rune_spans s)) @ [CHR 0x22]"

end
