(* ===== verification/Errors.thy ===== *)
theory Errors
  imports GoStrings
begin

text \<open>
  Go errors as values (\<open>internal/app/errors.go\<close>, \<open>internal/core/ports/store_errors.go\<close>,
  \<open>cmd/promptlockd/http_errors.go\<close>), throttling errors
  (\<open>internal/app/request_throttle.go\<close>) and the composition of an error with the errors of a
  failed rollback (\<open>internal/app/state_rollback.go\<close>).

  An \<open>error\<close> result is \<open>gerror option\<close> with \<open>None\<close> for \<open>nil\<close>; a function that returns
  a value and an error returns \<open>gerror + 'a\<close>.
\<close>

named_theorems go_error "how error values are recognised"

section \<open>Sentinels and error values\<close>

datatype app_sentinel =
    ErrSecretBackendUnavailable
  | ErrRequestNotOwned
  | ErrLeaseNotOwned
  | ErrAuditWriteFailed
  | ErrAuditUnavailable
  | ErrPlaintextSecretReturnDisabled
  | ErrCommandExecutionFailed

datatype http_sentinel =
    ErrBadRequest
  | ErrMethodNotAllowed
  | ErrRateLimited
  | ErrUnauthorized
  | ErrForbidden
  | ErrNotFound
  | ErrServiceUnavailable
  | ErrInternal

datatype sentinel =
    App app_sentinel
  | Http http_sentinel
  | ErrStoreUnavailable
  | ErrDurabilityClosed

fun app_sentinel_text :: "app_sentinel \<Rightarrow> string" where
  "app_sentinel_text ErrSecretBackendUnavailable = ''secret backend unavailable''"
| "app_sentinel_text ErrRequestNotOwned = ''request not owned by agent''"
| "app_sentinel_text ErrLeaseNotOwned = ''lease not owned by agent''"
| "app_sentinel_text ErrAuditWriteFailed = ''audit write failed''"
| "app_sentinel_text ErrAuditUnavailable = ''audit sink unavailable''"
| "app_sentinel_text ErrPlaintextSecretReturnDisabled =
     ''plaintext secret return disabled by policy''"
| "app_sentinel_text ErrCommandExecutionFailed = ''command execution failed''"

fun http_sentinel_text :: "http_sentinel \<Rightarrow> string" where
  "http_sentinel_text ErrBadRequest = ''bad_request''"
| "http_sentinel_text ErrMethodNotAllowed = ''method_not_allowed''"
| "http_sentinel_text ErrRateLimited = ''rate_limited''"
| "http_sentinel_text ErrUnauthorized = ''unauthorized''"
| "http_sentinel_text ErrForbidden = ''forbidden''"
| "http_sentinel_text ErrNotFound = ''not_found''"
| "http_sentinel_text ErrServiceUnavailable = ''service_unavailable''"
| "http_sentinel_text ErrInternal = ''internal_error''"

fun sentinel_text :: "sentinel \<Rightarrow> string" where
  "sentinel_text (App e) = app_sentinel_text e"
| "sentinel_text (Http e) = http_sentinel_text e"
| "sentinel_text ErrStoreUnavailable = ''store_unavailable''"
| "sentinel_text ErrDurabilityClosed = ''durability_closed''"

datatype throttle_reason = PendingCap | Cooldown

text \<open>
  The errors the broker builds: \<open>errors.New\<close> and \<open>fmt.Errorf\<close> without \<open>%w\<close>, a sentinel,
  \<open>fmt.Errorf\<close> with \<open>%w\<close> (the wrapped error and the whole message), and
  \<open>*RequestThrottleError\<close>.
\<close>

datatype gerror =
    Plain string
  | Sentinel sentinel
  | Wrapped gerror string
  | Throttled throttle_reason int

subsection \<open>Throttling errors\<close>

definition new_request_throttle_error :: "throttle_reason \<Rightarrow> int \<Rightarrow> gerror" where
  "new_request_throttle_error reason retry_after =
     Throttled reason (if retry_after < second then second else retry_after)"

text \<open>\<open>RetryAfterSeconds\<close> of a non-nil error with the given \<open>RetryAfter\<close>.\<close>

definition throttle_retry_after_seconds :: "int \<Rightarrow> int" where
  "throttle_retry_after_seconds retry_after =
     (let seconds = ceil_seconds retry_after in if seconds < 1 then 1 else seconds)"

definition throttle_message :: "throttle_reason \<Rightarrow> int \<Rightarrow> string" where
  "throttle_message reason retry_after =
     (let message = (case reason of
          PendingCap \<Rightarrow> ''pending request cap reached''
        | Cooldown \<Rightarrow> ''equivalent request cooldown active'')
      in message @ ''; retry_after_seconds='' @ itoa (throttle_retry_after_seconds retry_after))"

text \<open>\<open>err.Error()\<close> and \<open>errors.Is(err, sentinel)\<close>.\<close>

fun err_msg :: "gerror \<Rightarrow> string" where
  "err_msg (Plain m) = m"
| "err_msg (Sentinel s) = sentinel_text s"
| "err_msg (Wrapped e m) = m"
| "err_msg (Throttled r d) = throttle_message r d"

fun err_is :: "gerror \<Rightarrow> sentinel \<Rightarrow> bool" where
  "err_is (Plain m) s \<longleftrightarrow> False"
| "err_is (Sentinel t) s \<longleftrightarrow> t = s"
| "err_is (Wrapped e m) s \<longleftrightarrow> err_is e s"
| "err_is (Throttled r d) s \<longleftrightarrow> False"

lemma retry_after_at_least_one [simp]: "1 \<le> throttle_retry_after_seconds d"
  by (simp add: throttle_retry_after_seconds_def Let_def)

text \<open>The advertised delay covers the remaining duration, and by less than a second.\<close>

lemma throttle_retry_after_bounds:
  assumes "second \<le> d"
  shows "d \<le> throttle_retry_after_seconds d * second \<and>
    throttle_retry_after_seconds d * second < d + second"
proof -
  have b: "d \<le> ceil_seconds d * second" "ceil_seconds d * second < d + second"
    using ceil_seconds_bounds by auto
  with assms have "1 \<le> ceil_seconds d" by (simp add: second_def)
  with b show ?thesis by (simp add: throttle_retry_after_seconds_def Let_def)
qed

section \<open>Wrapping\<close>

definition wrap_store_unavailable :: "gerror option \<Rightarrow> gerror option" where
  "wrap_store_unavailable e =
     (case e of
        None \<Rightarrow> None
      | Some err \<Rightarrow> Some (Wrapped (Sentinel ErrStoreUnavailable)
          (sentinel_text ErrStoreUnavailable @ '': '' @ err_msg err)))"

definition wrap_audit_write_error :: "gerror option \<Rightarrow> gerror option" where
  "wrap_audit_write_error e =
     (case e of
        None \<Rightarrow> None
      | Some err \<Rightarrow>
          if err_is err (App ErrAuditWriteFailed) then Some err
          else Some (Wrapped (Sentinel (App ErrAuditWriteFailed))
            (app_sentinel_text ErrAuditWriteFailed @ '': '' @ err_msg err)))"

definition join_errors :: "gerror option list \<Rightarrow> gerror option" where
  "join_errors errs =
     (let msgs = map err_msg (List.map_filter id errs)
      in if msgs = [] then None else Some (Plain (join ''; '' msgs)))"

definition wrap_rollback_error :: "gerror \<Rightarrow> gerror option list \<Rightarrow> gerror" where
  "wrap_rollback_error cause rollback_errs =
     (let msgs = map err_msg (List.map_filter id rollback_errs)
      in if msgs = [] then cause
         else Wrapped cause (err_msg cause @ '' (rollback failed: '' @ join ''; '' msgs @ '')''))"

text \<open>A failed rollback is reported, and never hides what caused it.\<close>

lemma wrap_rollback_is [simp, go_error]:
  "err_is (wrap_rollback_error cause errs) s \<longleftrightarrow> err_is cause s"
  by (simp add: wrap_rollback_error_def Let_def)

lemma wrap_rollback_clean [simp]: "wrap_rollback_error cause [None] = cause"
  by (simp add: wrap_rollback_error_def map_filter_def)

lemma join_errors_None [simp]: "join_errors errs = None \<longleftrightarrow> (\<forall>e\<in>set errs. e = None)"
  by (auto simp: join_errors_def map_filter_def filter_empty_conv)

lemma wrap_store_unavailable_is [go_error]:
  "wrap_store_unavailable (Some e) = Some e' \<Longrightarrow> err_is e' ErrStoreUnavailable"
  by (auto simp: wrap_store_unavailable_def)

lemma wrap_audit_write_error_is [go_error]:
  "wrap_audit_write_error e = Some e' \<Longrightarrow> err_is e' (App ErrAuditWriteFailed)"
  by (auto simp: wrap_audit_write_error_def split: option.splits if_splits)

lemma wrap_audit_write_error_None [simp]: "wrap_audit_write_error e = None \<longleftrightarrow> e = None"
  by (auto simp: wrap_audit_write_error_def split: option.splits)

end
