(* ===== verification/Domain.thy ===== *)
theory Domain
  imports Errors
begin

text \<open>
  The domain of the broker (\<open>internal/core/domain/models.go\<close>, \<open>policy.go\<close>): lease requests,
  leases, and the policy every request and approval is validated against.
\<close>

section \<open>Requests and leases\<close>

text \<open>
  \<open>RequestStatus\<close> is a string type with three constants; \<open>OtherStatus\<close> is any other value, as
  a persisted or external record may hold.
\<close>

datatype request_status =
    RequestPending
  | RequestApproved
  | RequestDenied
  | OtherStatus string

text \<open>The life cycle of a request: a decision is taken once, on a pending request.\<close>

instantiation request_status :: order
begin

definition less_eq_request_status :: "request_status \<Rightarrow> request_status \<Rightarrow> bool" where
  "less_eq_request_status s t \<longleftrightarrow> s = t \<or> s = RequestPending"

definition less_request_status :: "request_status \<Rightarrow> request_status \<Rightarrow> bool" where
  "less_request_status s t \<longleftrightarrow> s = RequestPending \<and> t \<noteq> RequestPending"

instance
  by standard (auto simp: less_eq_request_status_def less_request_status_def)

end

record lease_request =
  req_id :: string
  req_agent_id :: string
  req_task_id :: string
  req_intent :: string
  req_reason :: string
  req_ttl_minutes :: int
  req_secrets :: "string list"
  req_command_fingerprint :: string
  req_workdir_fingerprint :: string
  req_command_summary :: string
  req_workdir_summary :: string
  req_env_path :: string
  req_env_path_canonical :: string
  req_status :: request_status
  req_created_at :: int

record lease =
  lease_token :: string
  lease_request_id :: string
  lease_agent_id :: string
  lease_task_id :: string
  lease_intent :: string
  lease_secrets :: "string list"
  lease_command_fingerprint :: string
  lease_workdir_fingerprint :: string
  lease_expires_at :: int

definition is_expired :: "lease \<Rightarrow> int \<Rightarrow> bool" where
  "is_expired l now \<longleftrightarrow> \<not> now < lease_expires_at l"

fun member_loop :: "string list \<Rightarrow> string \<Rightarrow> bool" where
  "member_loop [] secret = False"
| "member_loop (s # ss) secret = (if s = secret then True else member_loop ss secret)"

definition allows :: "lease \<Rightarrow> string \<Rightarrow> bool" where
  "allows l secret = member_loop (lease_secrets l) secret"

lemma member_loop_iff [simp]: "member_loop xs x \<longleftrightarrow> x \<in> set xs"
  by (induction xs) auto

lemma allows_iff [simp]: "allows l s \<longleftrightarrow> s \<in> set (lease_secrets l)"
  by (simp add: allows_def)

section \<open>Policy\<close>

record policy =
  default_ttl_minutes :: int
  min_ttl_minutes :: int
  max_ttl_minutes :: int
  max_secrets_per_req :: int

definition default_policy :: policy where
  "default_policy =
     \<lparr>default_ttl_minutes = 5, min_ttl_minutes = 1, max_ttl_minutes = 60, max_secrets_per_req = 5\<rparr>"

definition reserved_secret_env_names :: "string list" where
  "reserved_secret_env_names =
     [''PATH'', ''HOME'', ''TMPDIR'', ''TMP'', ''TEMP'', ''SYSTEMROOT'', ''COMSPEC'', ''PATHEXT'',
      ''USERPROFILE'', ''LD_PRELOAD'', ''LD_LIBRARY_PATH'', ''DYLD_INSERT_LIBRARIES'',
      ''DYLD_LIBRARY_PATH'', ''PYTHONPATH'', ''PYTHONHOME'', ''GIT_CONFIG'', ''GIT_CONFIG_GLOBAL'',
      ''GIT_CONFIG_SYSTEM'', ''GIT_EXEC_PATH'', ''NODE_OPTIONS'', ''RUBYOPT'', ''PERL5OPT'']"

definition env_letter :: "char \<Rightarrow> bool" where
  "env_letter c \<longleftrightarrow> c = CHR ''_'' \<or> (byte (CHR ''A'') \<le> byte c \<and> byte c \<le> byte (CHR ''Z''))"

definition env_digit :: "char \<Rightarrow> bool" where
  "env_digit c \<longleftrightarrow> byte (CHR ''0'') \<le> byte c \<and> byte c \<le> byte (CHR ''9'')"

fun env_chars_ok :: "nat \<Rightarrow> string \<Rightarrow> bool" where
  "env_chars_ok i [] = True"
| "env_chars_ok i (c # cs) =
     (if env_letter c then env_chars_ok (Suc i) cs
      else if 0 < i \<and> env_digit c then env_chars_ok (Suc i) cs
      else False)"

definition is_valid_secret_env_name :: "string \<Rightarrow> bool" where
  "is_valid_secret_env_name env_name =
     (case env_name of
        [] \<Rightarrow> False
      | c # _ \<Rightarrow> if env_chars_ok 0 env_name then env_letter c else False)"

definition secret_env_name :: "string \<Rightarrow> string" where
  "secret_env_name secret_name =
     (let trimmed = trim_space secret_name
      in if trimmed = '''' then ''''
         else let env_name = to_upper trimmed
              in if \<not> is_valid_secret_env_name env_name then '''' else env_name)"

definition validate_secret_name :: "string \<Rightarrow> gerror option" where
  "validate_secret_name secret =
     (let trimmed = trim_space secret
      in if trimmed = '''' then Some (Plain ''secret names must be non-empty'')
         else let env_name = secret_env_name trimmed
              in if env_name = '''' then
                   Some (Plain (''secret name '' @ quote trimmed @
                     '' must map to a safe environment variable name''))
                 else if env_name \<in> set reserved_secret_env_names then
                   Some (Plain (''secret name '' @ quote trimmed @
                     '' is reserved and cannot be leased''))
                 else None)"

fun validate_secret_names :: "string list \<Rightarrow> gerror option" where
  "validate_secret_names [] = None"
| "validate_secret_names (s # ss) =
     (case validate_secret_name s of Some e \<Rightarrow> Some e | None \<Rightarrow> validate_secret_names ss)"

definition validate_request :: "policy \<Rightarrow> int \<Rightarrow> string list \<Rightarrow> gerror option" where
  "validate_request p ttl secrets =
     (if ttl < min_ttl_minutes p \<or> ttl > max_ttl_minutes p then
        Some (Plain (''ttl_minutes must be in range ['' @ itoa (min_ttl_minutes p) @ '', '' @
          itoa (max_ttl_minutes p) @ '']''))
      else if secrets = [] then Some (Plain ''at least one secret required'')
      else if int (length secrets) > max_secrets_per_req p then
        Some (Plain (''too many secrets requested (max '' @ itoa (max_secrets_per_req p) @ '')''))
      else validate_secret_names secrets)"

section \<open>What validation guarantees\<close>

lemma env_chars_ok_iff:
  "env_chars_ok i s \<longleftrightarrow>
     (\<forall>c\<in>set s. env_letter c \<or> env_digit c) \<and> (i = 0 \<longrightarrow> s \<noteq> [] \<longrightarrow> env_letter (hd s))"
  by (induction i s rule: env_chars_ok.induct) auto

lemma is_valid_secret_env_name_iff:
  "is_valid_secret_env_name s \<longleftrightarrow>
     s \<noteq> [] \<and> env_letter (hd s) \<and> (\<forall>c\<in>set s. env_letter c \<or> env_digit c)"
  by (auto simp: is_valid_secret_env_name_def env_chars_ok_iff split: list.splits)

lemma secret_env_name_cases:
  "secret_env_name s = '''' \<or>
   (secret_env_name s = to_upper (trim_space s) \<and> is_valid_secret_env_name (secret_env_name s))"
  by (simp add: secret_env_name_def Let_def)

lemma secret_env_name_trim [simp]: "secret_env_name (trim_space s) = secret_env_name s"
  by (simp add: secret_env_name_def)

lemma validate_secret_name_None:
  "validate_secret_name s = None \<longleftrightarrow>
     secret_env_name s \<noteq> '''' \<and> secret_env_name s \<notin> set reserved_secret_env_names"
  by (auto simp: validate_secret_name_def Let_def secret_env_name_def)

lemma validate_secret_names_None:
  "validate_secret_names ss = None \<longleftrightarrow> (\<forall>s\<in>set ss. validate_secret_name s = None)"
  by (induction ss) (auto split: option.splits)

lemma validate_request_None:
  "validate_request p ttl ss = None \<longleftrightarrow>
     min_ttl_minutes p \<le> ttl \<and> ttl \<le> max_ttl_minutes p \<and> ss \<noteq> [] \<and>
     int (length ss) \<le> max_secrets_per_req p \<and> (\<forall>s\<in>set ss. validate_secret_name s = None)"
  by (auto simp: validate_request_def validate_secret_names_None)

text \<open>
  C13: A request that passes the policy has a TTL inside the configured range, between one and
  the configured number of secrets, and each of its secrets maps to an environment variable
  name that is a portable shell name (a letter or underscore, then letters, digits and
  underscores) and none of the reserved names such as \<open>PATH\<close> or \<open>LD_PRELOAD\<close>.
\<close>

theorem validate_request_safe:
  assumes "validate_request p ttl ss = None"
  shows "min_ttl_minutes p \<le> ttl \<and> ttl \<le> max_ttl_minutes p \<and> 1 \<le> length ss \<and>
    int (length ss) \<le> max_secrets_per_req p \<and>
    list_all (\<lambda>s. secret_env_name s \<noteq> [] \<and> env_letter (hd (secret_env_name s)) \<and>
      list_all (\<lambda>c. env_letter c \<or> env_digit c) (secret_env_name s) \<and>
      secret_env_name s \<notin> set reserved_secret_env_names) ss"
proof -
  have "secret_env_name s \<noteq> [] \<and> env_letter (hd (secret_env_name s)) \<and>
      list_all (\<lambda>c. env_letter c \<or> env_digit c) (secret_env_name s) \<and>
      secret_env_name s \<notin> set reserved_secret_env_names"
    if "validate_secret_name s = None" for s
    using that secret_env_name_cases [of s]
    by (auto simp: validate_secret_name_None is_valid_secret_env_name_iff list_all_iff)
  with assms show ?thesis
    by (auto simp: validate_request_None list_all_iff Suc_le_eq)
qed

theorem validate_request_safe_witness:
  "validate_request default_policy 5 [''github_token''] = None \<and>
   1 \<le> length [''github_token''] \<and> secret_env_name ''github_token'' \<noteq> []"
proof -
  have h: "validate_request default_policy 5 [''github_token''] = None" by code_simp
  show ?thesis using h validate_request_safe [OF h] by simp
qed

end
