(* ===== verification/Ports.thy ===== *)
theory Ports
  imports Domain
begin

text \<open>
  The ports of the application (\<open>internal/core/ports/ports.go\<close>): each Go interface is a
  record of its methods over a state \<open>'w\<close>, the world the adapter behind it lives in. An
  interface value that may be \<open>nil\<close> is an \<open>option\<close> where it is used.

  The contracts of the stores are locales: what an adapter promises about the requests and
  leases a client can look up. A state of the stores is seen through \<open>reqs\<close> and \<open>leases\<close>,
  the maps from identifiers to records, and \<open>invar\<close> is the adapter's own invariant.
\<close>

section \<open>Interfaces\<close>

record 'w request_store =
  rs_save :: "lease_request \<Rightarrow> 'w \<Rightarrow> gerror option \<times> 'w"
  rs_get :: "string \<Rightarrow> 'w \<Rightarrow> (gerror + lease_request) \<times> 'w"
  rs_update :: "lease_request \<Rightarrow> 'w \<Rightarrow> gerror option \<times> 'w"
  rs_delete :: "string \<Rightarrow> 'w \<Rightarrow> gerror option \<times> 'w"
  rs_list_pending :: "'w \<Rightarrow> (gerror + lease_request list) \<times> 'w"

text \<open>
  \<open>ListLeases\<close> is not a method of the interface: the application tests for it with a type
  assertion, so an adapter has it or not.
\<close>

record 'w lease_store =
  ls_save :: "lease \<Rightarrow> 'w \<Rightarrow> gerror option \<times> 'w"
  ls_delete :: "string \<Rightarrow> 'w \<Rightarrow> gerror option \<times> 'w"
  ls_get :: "string \<Rightarrow> 'w \<Rightarrow> (gerror + lease) \<times> 'w"
  ls_get_by_request :: "string \<Rightarrow> 'w \<Rightarrow> (gerror + lease) \<times> 'w"
  ls_list :: "('w \<Rightarrow> (gerror + lease list) \<times> 'w) option"

type_synonym 'w state_committer = "'w \<Rightarrow> gerror option \<times> 'w"

type_synonym 'w secret_store = "string \<Rightarrow> 'w \<Rightarrow> (gerror + string) \<times> 'w"

record 'w env_path_secret_store =
  eps_canonicalize :: "string \<Rightarrow> 'w \<Rightarrow> (gerror + string) \<times> 'w"
  eps_resolve :: "string \<Rightarrow> string list \<Rightarrow> 'w \<Rightarrow> (gerror + string go_map \<times> string) \<times> 'w"

text \<open>Metadata is empty where the Go map is \<open>nil\<close>.\<close>

record audit_event =
  ev_event :: string
  ev_timestamp :: int
  ev_actor_type :: string
  ev_actor_id :: string
  ev_agent_id :: string
  ev_task_id :: string
  ev_request_id :: string
  ev_lease_token :: string
  ev_secret :: string
  ev_metadata :: "string go_map"

definition zero_event :: audit_event where
  "zero_event =
     \<lparr>ev_event = '''', ev_timestamp = 0, ev_actor_type = '''', ev_actor_id = '''',
      ev_agent_id = '''', ev_task_id = '''', ev_request_id = '''', ev_lease_token = '''',
      ev_secret = '''', ev_metadata = []\<rparr>"

type_synonym 'w audit_sink = "audit_event \<Rightarrow> 'w \<Rightarrow> gerror option \<times> 'w"

section \<open>Contracts of the stores\<close>

locale request_store_laws =
  fixes rs :: "'w request_store" and invar :: "'w \<Rightarrow> bool"
    and reqs :: "'w \<Rightarrow> string \<Rightarrow> lease_request option"
  assumes reqs_key: "invar w \<Longrightarrow> reqs w i = Some r \<Longrightarrow> req_id r = i"
    and save_ok: "invar w \<Longrightarrow> rs_save rs r w = (None, w') \<Longrightarrow>
      invar w' \<and> reqs w' = (reqs w)(req_id r \<mapsto> r)"
    and save_err: "invar w \<Longrightarrow> rs_save rs r w = (Some e, w') \<Longrightarrow> invar w' \<and> reqs w' = reqs w"
    and update_ok: "invar w \<Longrightarrow> rs_update rs r w = (None, w') \<Longrightarrow>
      invar w' \<and> reqs w' = (reqs w)(req_id r \<mapsto> r)"
    and update_err: "invar w \<Longrightarrow> rs_update rs r w = (Some e, w') \<Longrightarrow>
      invar w' \<and> reqs w' = reqs w"
    and delete_ok: "invar w \<Longrightarrow> rs_delete rs i w = (None, w') \<Longrightarrow>
      invar w' \<and> reqs w' = (reqs w)(i := None)"
    and delete_err: "invar w \<Longrightarrow> rs_delete rs i w = (Some e, w') \<Longrightarrow>
      invar w' \<and> reqs w' = reqs w"
    and get_ok: "invar w \<Longrightarrow> rs_get rs i w = (Inr r, w') \<Longrightarrow>
      invar w' \<and> reqs w' = reqs w \<and> reqs w i = Some r"
    and get_err: "invar w \<Longrightarrow> rs_get rs i w = (Inl e, w') \<Longrightarrow> invar w' \<and> reqs w' = reqs w"
    and list_ok: "invar w \<Longrightarrow> rs_list_pending rs w = (Inr rl, w') \<Longrightarrow>
      invar w' \<and> reqs w' = reqs w \<and> distinct rl \<and>
      set rl = {r. \<exists>i. reqs w i = Some r \<and> req_status r = RequestPending}"
    and list_err: "invar w \<Longrightarrow> rs_list_pending rs w = (Inl e, w') \<Longrightarrow>
      invar w' \<and> reqs w' = reqs w"

locale lease_store_laws =
  fixes ls :: "'w lease_store" and invar :: "'w \<Rightarrow> bool"
    and leases :: "'w \<Rightarrow> string \<Rightarrow> lease option"
  assumes leases_key: "invar w \<Longrightarrow> leases w t = Some l \<Longrightarrow> lease_token l = t"
    and lsave_ok: "invar w \<Longrightarrow> ls_save ls l w = (None, w') \<Longrightarrow>
      invar w' \<and> leases w' = (leases w)(lease_token l \<mapsto> l)"
    and lsave_err: "invar w \<Longrightarrow> ls_save ls l w = (Some e, w') \<Longrightarrow>
      invar w' \<and> leases w' = leases w"
    and ldelete_ok: "invar w \<Longrightarrow> ls_delete ls t w = (None, w') \<Longrightarrow>
      invar w' \<and> leases w' = (leases w)(t := None)"
    and ldelete_err: "invar w \<Longrightarrow> ls_delete ls t w = (Some e, w') \<Longrightarrow>
      invar w' \<and> leases w' = leases w"
    and lget_ok: "invar w \<Longrightarrow> ls_get ls t w = (Inr l, w') \<Longrightarrow>
      invar w' \<and> leases w' = leases w \<and> leases w t = Some l"
    and lget_err: "invar w \<Longrightarrow> ls_get ls t w = (Inl e, w') \<Longrightarrow>
      invar w' \<and> leases w' = leases w"
    and lget_by_request_ok: "invar w \<Longrightarrow> ls_get_by_request ls i w = (Inr l, w') \<Longrightarrow>
      invar w' \<and> leases w' = leases w \<and> leases w (lease_token l) = Some l \<and>
      lease_request_id l = i"
    and lget_by_request_err: "invar w \<Longrightarrow> ls_get_by_request ls i w = (Inl e, w') \<Longrightarrow>
      invar w' \<and> leases w' = leases w"
    and llist_ok: "invar w \<Longrightarrow> ls_list ls = Some f \<Longrightarrow> f w = (Inr lst, w') \<Longrightarrow>
      invar w' \<and> leases w' = leases w \<and> distinct lst \<and> set lst = ran (leases w)"
    and llist_err: "invar w \<Longrightarrow> ls_list ls = Some f \<Longrightarrow> f w = (Inl e, w') \<Longrightarrow>
      invar w' \<and> leases w' = leases w"

text \<open>
  An adapter in memory also promises that storing never fails and that deleting what is
  there succeeds. This is what a rollback needs.
\<close>

locale reliable_request_store = request_store_laws +
  assumes update_total: "invar w \<Longrightarrow> fst (rs_update rs r w) = None"
    and delete_present: "invar w \<Longrightarrow> reqs w i \<noteq> None \<Longrightarrow> fst (rs_delete rs i w) = None"

locale reliable_lease_store = lease_store_laws +
  assumes ldelete_present: "invar w \<Longrightarrow> leases w t \<noteq> None \<Longrightarrow> fst (ls_delete ls t w) = None"

context reliable_request_store begin

text \<open>Saving a fresh request and deleting it again leaves the requests as they were.\<close>

lemma delete_undoes_save:
  assumes "invar w" and "reqs w (req_id r) = None" and "rs_save rs r w = (None, w1)"
  obtains w2 where "rs_delete rs (req_id r) w1 = (None, w2)" "invar w2" "reqs w2 = reqs w"
proof -
  have w1: "invar w1" "reqs w1 = (reqs w)(req_id r \<mapsto> r)" using save_ok assms by auto
  obtain x w2 where d: "rs_delete rs (req_id r) w1 = (x, w2)" by fastforce
  with delete_present [OF w1(1), of "req_id r"] w1(2) have "x = None" by simp
  with d delete_ok [OF w1(1)] w1(2) assms(2) show ?thesis
    by (intro that [of w2]) (auto simp: fun_eq_iff)
qed

text \<open>Storing back the record that was there leaves the requests as they were.\<close>

lemma update_restores:
  assumes "invar w" and "reqs w1 = (reqs w)(i \<mapsto> r')" "invar w1"
    and "reqs w i = Some r"
  obtains w2 where "rs_update rs r w1 = (None, w2)" "invar w2" "reqs w2 = reqs w"
proof -
  have id: "req_id r = i" using reqs_key assms by blast
  obtain x w2 where u: "rs_update rs r w1 = (x, w2)" by fastforce
  with update_total [OF assms(3), of r] have "x = None" by simp
  with u update_ok [OF assms(3)] id assms(2,4) show ?thesis
    by (intro that [of w2]) (auto simp: fun_eq_iff)
qed

end

end
