(* ===== verification/Sha256.thy ===== *)
theory Sha256
  imports GoStrings "HOL-Library.Word"
begin

text \<open>
  The functions \<open>crypto/sha256.Sum256\<close> and \<open>encoding/hex.EncodeToString\<close> of Go's library
  (FIPS 180-4), as the broker uses them for equivalence keys, credential references in audit
  metadata and the audit hash chain. Theorems that rely on two different inputs having
  different digests say so in a hypothesis about exactly these two inputs.
\<close>

unbundle bit_operations_syntax

type_synonym u32 = "32 word"

definition rotr32 :: "nat \<Rightarrow> u32 \<Rightarrow> u32" where
  "rotr32 n x = drop_bit n x OR push_bit (32 - n) x"

definition sha_k :: "u32 list" where
  "sha_k =
    [1116352408, 1899447441, 3049323471, 3921009573, 961987163, 1508970993, 2453635748,
     2870763221, 3624381080, 310598401, 607225278, 1426881987, 1925078388, 2162078206,
     2614888103, 3248222580, 3835390401, 4022224774, 264347078, 604807628, 770255983,
     1249150122, 1555081692, 1996064986, 2554220882, 2821834349, 2952996808, 3210313671,
     3336571891, 3584528711, 113926993, 338241895, 666307205, 773529912, 1294757372, 1396182291,
     1695183700, 1986661051, 2177026350, 2456956037, 2730485921, 2820302411, 3259730800,
     3345764771, 3516065817, 3600352804, 4094571909, 275423344, 430227734, 506948616, 659060556,
     883997877, 958139571, 1322822218, 1537002063, 1747873779, 1955562222, 2024104815,
     2227730452, 2361852424, 2428436474, 2756734187, 3204031479, 3329325298]"

definition sha_init :: "u32 list" where
  "sha_init =
    [1779033703, 3144134277, 1013904242, 2773480762, 1359893119, 2600822924, 528734635,
     1541459225]"

definition sha_ch :: "u32 \<Rightarrow> u32 \<Rightarrow> u32 \<Rightarrow> u32" where
  "sha_ch x y z = (x AND y) XOR (NOT x AND z)"

definition sha_maj :: "u32 \<Rightarrow> u32 \<Rightarrow> u32 \<Rightarrow> u32" where
  "sha_maj x y z = (x AND y) XOR (x AND z) XOR (y AND z)"

definition sha_big0 :: "u32 \<Rightarrow> u32" where
  "sha_big0 x = rotr32 2 x XOR rotr32 13 x XOR rotr32 22 x"

definition sha_big1 :: "u32 \<Rightarrow> u32" where
  "sha_big1 x = rotr32 6 x XOR rotr32 11 x XOR rotr32 25 x"

definition sha_small0 :: "u32 \<Rightarrow> u32" where
  "sha_small0 x = rotr32 7 x XOR rotr32 18 x XOR drop_bit 3 x"

definition sha_small1 :: "u32 \<Rightarrow> u32" where
  "sha_small1 x = rotr32 17 x XOR rotr32 19 x XOR drop_bit 10 x"

abbreviation ibyte :: "char \<Rightarrow> int" where
  "ibyte c \<equiv> of_char c"

fun be_word :: "string \<Rightarrow> u32" where
  "be_word [a, b, c, d] =
     of_int (((ibyte a * 256 + ibyte b) * 256 + ibyte c) * 256 + ibyte d)"
| "be_word _ = 0"

fun be_bytes_acc :: "nat \<Rightarrow> int \<Rightarrow> string \<Rightarrow> string" where
  "be_bytes_acc 0 x acc = acc"
| "be_bytes_acc (Suc n) x acc = be_bytes_acc n (x div 256) (char_of (x mod 256) # acc)"

definition be_bytes :: "nat \<Rightarrow> int \<Rightarrow> string" where
  "be_bytes n x = be_bytes_acc n x []"

definition sha_pad :: "string \<Rightarrow> string" where
  "sha_pad m =
     m @ [CHR 0x80] @ replicate ((119 - length m mod 64) mod 64) (CHR 0x00) @
     be_bytes 8 (8 * int (length m))"

text \<open>The message schedule is kept newest word first; \<open>sha_extend n\<close> adds \<open>n\<close> words.\<close>

fun sha_extend :: "nat \<Rightarrow> u32 list \<Rightarrow> u32 list" where
  "sha_extend 0 ws = ws"
| "sha_extend (Suc n) ws =
     sha_extend n ((sha_small1 (ws ! 1) + ws ! 6 + sha_small0 (ws ! 14) + ws ! 15) # ws)"

fun sha_round :: "u32 list \<Rightarrow> u32 \<times> u32 \<Rightarrow> u32 list" where
  "sha_round [a, b, c, d, e, f, g, h] (k, w) =
     (let t1 = h + sha_big1 e + sha_ch e f g + k + w;
          t2 = sha_big0 a + sha_maj a b c
      in [t1 + t2, a, b, c, d + t1, e, f, g])"
| "sha_round s _ = s"

fun words_of :: "nat \<Rightarrow> string \<Rightarrow> u32 list" where
  "words_of 0 s = []"
| "words_of (Suc n) s = be_word (take 4 s) # words_of n (drop 4 s)"

definition sha_block :: "u32 list \<Rightarrow> string \<Rightarrow> u32 list" where
  "sha_block st blk =
     (let w = rev (sha_extend 48 (rev (words_of 16 blk)))
      in map2 (+) st (foldl sha_round st (zip sha_k w)))"

fun sha_blocks :: "nat \<Rightarrow> u32 list \<Rightarrow> string \<Rightarrow> u32 list" where
  "sha_blocks 0 st m = st"
| "sha_blocks (Suc n) st m = sha_blocks n (sha_block st (take 64 m)) (drop 64 m)"

definition sha256 :: "string \<Rightarrow> string" where
  "sha256 m =
     (let p = sha_pad m
      in concat (map (\<lambda>x. be_bytes 4 (uint x)) (sha_blocks (length p div 64) sha_init p)))"

definition hex_encode :: "string \<Rightarrow> string" where
  "hex_encode s = concat (map hex_byte s)"

definition sha256_hex :: "string \<Rightarrow> string" where
  "sha256_hex m = hex_encode (sha256 m)"

lemma length_be_bytes_acc [simp]: "length (be_bytes_acc n x acc) = n + length acc"
  by (induction n arbitrary: x acc) simp_all

lemma length_be_bytes [simp]: "length (be_bytes n x) = n"
  by (simp add: be_bytes_def)

lemma length_sha_round [simp]: "length s = 8 \<Longrightarrow> length (sha_round s kw) = 8"
  by (cases "(s, kw)" rule: sha_round.cases) (auto simp: Let_def)

lemma length_sha_fold: "length s = 8 \<Longrightarrow> length (foldl sha_round s kws) = 8"
  by (induction kws arbitrary: s) simp_all

lemma length_sha_blocks: "length st = 8 \<Longrightarrow> length (sha_blocks n st m) = 8"
  by (induction n arbitrary: st m) (simp_all add: sha_block_def Let_def length_sha_fold)

text \<open>A digest is 32 bytes, and its hexadecimal form 64 characters.\<close>

lemma length_sha256: "length (sha256 m) = 32"
proof -
  have "length (concat (map (\<lambda>x. be_bytes 4 (uint (x :: u32))) ws)) = 4 * length ws" for ws
    by (induction ws) simp_all
  moreover have "length sha_init = 8" by (simp add: sha_init_def)
  ultimately show ?thesis by (simp add: sha256_def Let_def length_sha_blocks)
qed

lemma length_sha256_hex: "length (sha256_hex m) = 64"
proof -
  have "length (hex_encode s) = 2 * length s" for s
    by (induction s) (simp_all add: hex_encode_def hex_byte_def)
  then show ?thesis by (simp add: sha256_hex_def length_sha256)
qed

end
