(* ===== verification/AuditSanitize.thy ===== *)
theory AuditSanitize
  imports Ports Sha256
begin

text \<open>
  What the audit sink hides before it writes an event
  (\<open>internal/adapters/audit/file.go\<close>, \<open>sanitizeAuditEvent\<close>): lease tokens become short
  hashes, and texts that look like tokens, bearer credentials or key-value secrets are
  replaced. The two regular expressions are matchers here, on the characters they admit:
  with \<open>(?i)\<close> an \<open>s\<close> is also the long s and a \<open>k\<close> the Kelvin sign, and \<open>\b\<close> is a boundary of
  ASCII word characters.
\<close>

definition short_hash :: "string \<Rightarrow> string" where
  "short_hash s =
     (let full = sha256_hex s in if length full > 16 then take 16 full else full)"

section \<open>Matching\<close>

definition is_word :: "char \<Rightarrow> bool" where
  "is_word c \<longleftrightarrow>
     (48 \<le> byte c \<and> byte c \<le> 57) \<or> (65 \<le> byte c \<and> byte c \<le> 90) \<or>
     (97 \<le> byte c \<and> byte c \<le> 122) \<or> c = CHR ''_''"

definition word_boundary :: "char option \<Rightarrow> string \<Rightarrow> bool" where
  "word_boundary prv s \<longleftrightarrow>
     (case prv of None \<Rightarrow> False | Some c \<Rightarrow> is_word c) \<noteq> (s \<noteq> [] \<and> is_word (hd s))"

text \<open>One character of a pattern, with its case variants; the result is what follows.\<close>

definition match_char :: "char \<Rightarrow> string \<Rightarrow> string option" where
  "match_char p s =
     (if s \<noteq> [] \<and> ascii_lower (hd s) = p then Some (tl s)
      else if p = CHR ''s'' \<and> has_prefix s [CHR 0xC5, CHR 0xBF] then Some (drop 2 s)
      else if p = CHR ''k'' \<and> has_prefix s [CHR 0xE2, CHR 0x84, CHR 0xAA] then Some (drop 3 s)
      else None)"

fun match_word :: "string \<Rightarrow> string \<Rightarrow> string option" where
  "match_word [] s = Some s"
| "match_word (p # ps) s =
     (case match_char p s of None \<Rightarrow> None | Some r \<Rightarrow> match_word ps r)"

fun match_first :: "string list \<Rightarrow> string \<Rightarrow> string option" where
  "match_first [] s = None"
| "match_first (p # ps) s =
     (case match_word p s of Some r \<Rightarrow> Some r | None \<Rightarrow> match_first ps s)"

definition hex_fold :: "char \<Rightarrow> bool" where
  "hex_fold c \<longleftrightarrow>
     (48 \<le> byte c \<and> byte c \<le> 57) \<or> (97 \<le> byte (ascii_lower c) \<and> byte (ascii_lower c) \<le> 102)"

definition token_prefixes :: "string list" where
  "token_prefixes = [''boot_'', ''grant_'', ''sess_'', ''lease_'']"

definition secret_keys :: "string list" where
  "secret_keys = [''api_key'', ''api-key'', ''apikey'', ''secret'', ''token'']"

text \<open>\<open>tokenLikeRe\<close> at a position with the given character before it: the matched text.\<close>

definition token_like_at :: "char option \<Rightarrow> string \<Rightarrow> string option" where
  "token_like_at prv s =
     (if \<not> word_boundary prv s then None
      else case match_first token_prefixes s of
        None \<Rightarrow> None
      | Some r \<Rightarrow>
          let h = takeWhile hex_fold r; rest = dropWhile hex_fold r in
          if length h \<ge> 16 \<and> (rest = [] \<or> \<not> is_word (hd rest))
          then Some (take (length s - length rest) s) else None)"

definition re_space :: "char \<Rightarrow> bool" where
  "re_space c \<longleftrightarrow> c \<in> {CHR '' '', CHR 0x09, CHR 0x0A, CHR 0x0C, CHR 0x0D}"

text \<open>\<open>secretKVRe\<close>: the key it captured, and what follows the match.\<close>

definition secret_kv_at :: "char option \<Rightarrow> string \<Rightarrow> (string \<times> string) option" where
  "secret_kv_at prv s =
     (if \<not> word_boundary prv s then None
      else case match_first secret_keys s of
        None \<Rightarrow> None
      | Some r \<Rightarrow>
          let key = take (length s - length r) s in
          (case dropWhile re_space r of
             [] \<Rightarrow> None
           | c # r2 \<Rightarrow>
               if c \<noteq> CHR '':'' \<and> c \<noteq> CHR ''='' then None
               else
               let val = dropWhile re_space r2;
                   stop = (\<lambda>x. re_space x \<or> x = CHR '','' \<or> x = CHR '';'') in
               if takeWhile (\<lambda>x. \<not> stop x) val = [] then None
               else Some (key, dropWhile (\<lambda>x. \<not> stop x) val)))"

lemma match_char_length: "match_char p s = Some r \<Longrightarrow> length r < length s"
  by (cases s) (auto simp: match_char_def has_prefix_def split: if_splits)

lemma match_word_length: "match_word ps s = Some r \<Longrightarrow> length r + length ps \<le> length s"
proof (induction ps arbitrary: s)
  case (Cons p ps)
  then obtain q where q: "match_char p s = Some q" "match_word ps q = Some r"
    by (auto split: option.splits)
  from match_char_length [OF q(1)] Cons.IH [OF q(2)] show ?case by simp
qed simp

lemma match_first_length:
  "match_first ps s = Some r \<Longrightarrow> \<forall>p\<in>set ps. p \<noteq> [] \<Longrightarrow> length r < length s"
proof (induction ps)
  case (Cons p ps)
  then show ?case
    using match_word_length [of p s] by (cases "match_word p s"; cases p) fastforce+
qed simp

lemma token_like_at_length:
  assumes "token_like_at b s = Some m" shows "0 < length m \<and> length m \<le> length s"
proof (cases "match_first token_prefixes s")
  case None
  with assms show ?thesis by (simp add: token_like_at_def split: if_splits)
next
  case (Some r)
  with assms have m: "m = take (length s - length (dropWhile hex_fold r)) s"
    by (simp add: token_like_at_def Let_def split: if_splits)
  have "length r < length s" by (rule match_first_length [OF Some]) (simp add: token_prefixes_def)
  then have "length (dropWhile hex_fold r) < length s" using length_dropWhile_le [of hex_fold r] by linarith
  with m show ?thesis by simp
qed

lemma secret_kv_at_length:
  assumes "secret_kv_at b s = Some (k, r)" shows "length r < length s"
proof (cases "match_first secret_keys s")
  case None
  with assms show ?thesis by (simp add: secret_kv_at_def split: if_splits)
next
  case (Some r1)
  let ?go = "\<lambda>x. \<not> (re_space x \<or> x = CHR '','' \<or> x = CHR '';'')"
  show ?thesis
  proof (cases "dropWhile re_space r1")
    case Nil
    then have False using assms unfolding secret_kv_at_def Some option.case Nil
      by (simp del: dropWhile_eq_Nil_conv split: if_splits)
    then show ?thesis ..
  next
    case (Cons c r2)
    with assms Some have "r = dropWhile ?go (dropWhile re_space r2)"
      by (simp add: secret_kv_at_def Let_def split: if_splits)
    then have "length r \<le> length r2" by (simp only:) (meson length_dropWhile_le order_trans)
    moreover have "Suc (length r2) \<le> length r1" using Cons length_dropWhile_le [of re_space r1] by simp
    moreover have "length r1 < length s"
      by (rule match_first_length [OF Some]) (simp add: secret_keys_def)
    ultimately show ?thesis by simp
  qed
qed

section \<open>Replacing\<close>

function replace_tokens :: "char option \<Rightarrow> string \<Rightarrow> string" where
  "replace_tokens prv [] = []"
| "replace_tokens prv (c # cs) =
     (case token_like_at prv (c # cs) of
        Some m \<Rightarrow> ''tokhash_'' @ short_hash m @
          replace_tokens (Some (last m)) (drop (length m) (c # cs))
      | None \<Rightarrow> c # replace_tokens (Some c) cs)"
  by pat_completeness auto
termination
  by (relation "measure (length \<circ> snd)") (auto dest: token_like_at_length)

function redact_secrets :: "char option \<Rightarrow> string \<Rightarrow> string" where
  "redact_secrets prv [] = []"
| "redact_secrets prv (c # cs) =
     (case secret_kv_at prv (c # cs) of
        Some (key, rest) \<Rightarrow> key @ ''=[REDACTED]'' @
          redact_secrets (Some (last (take (length (c # cs) - length rest) (c # cs)))) rest
      | None \<Rightarrow> c # redact_secrets (Some c) cs)"
  by pat_completeness auto
termination
  by (relation "measure (length \<circ> snd)") (auto dest: secret_kv_at_length)

definition sanitize_text :: "string \<Rightarrow> string" where
  "sanitize_text txt =
     (let s = replace_tokens None txt in
      if contains (to_lower s) ''bearer '' then
        (case cut s (CHR '' '') of
           (a, _, True) \<Rightarrow> a @ '' [REDACTED]''
         | (_, _, False) \<Rightarrow> ''[REDACTED]'')
      else redact_secrets None s)"

definition sanitize_audit_event :: "audit_event \<Rightarrow> audit_event" where
  "sanitize_audit_event e =
     e\<lparr>ev_lease_token :=
         (if ev_lease_token e \<noteq> '''' then ''tokhash_'' @ short_hash (ev_lease_token e)
          else ev_lease_token e),
       ev_metadata := map (\<lambda>(k, v). (k, sanitize_text v)) (ev_metadata e),
       ev_actor_id := sanitize_text (ev_actor_id e),
       ev_agent_id := sanitize_text (ev_agent_id e),
       ev_task_id := sanitize_text (ev_task_id e),
       ev_request_id := sanitize_text (ev_request_id e),
       ev_secret := sanitize_text (ev_secret e)\<rparr>"

lemma length_short_hash [simp]: "length (short_hash s) = 16"
  by (simp add: short_hash_def length_sha256_hex)

text \<open>
  A lease token never reaches the audit file in clear: the field of a written event is
  empty when the event had no token, and otherwise the sixteen leading hex digits of its hash.
\<close>

theorem sanitized_lease_token:
  "ev_lease_token (sanitize_audit_event e) =
     (if ev_lease_token e = [] then [] else ''tokhash_'' @ take 16 (sha256_hex (ev_lease_token e)))"
  by (simp add: sanitize_audit_event_def short_hash_def length_sha256_hex)

end
