(* ===== verification/GoJson.thy ===== *)
theory GoJson
  imports GoStrings
begin

text \<open>
  What the broker uses of Go's \<open>encoding/json\<close>: the encoding of strings and of objects with
  string values, the scanner that decides whether a text is a JSON value and compacts it, and
  the decoding of an object into its raw fields (\<open>map[string]json.RawMessage\<close>).
\<close>

named_theorems json "how encoded values are read back"

section \<open>Encoding\<close>

definition quote_char :: char where "quote_char = CHR 0x22"
definition back_char :: char where "back_char = CHR 0x5C"

definition json_u :: "nat \<Rightarrow> string" where
  "json_u n =
     [back_char, CHR ''u''] @
     map hex_digit [n div 4096 mod 16, n div 256 mod 16, n div 16 mod 16, n mod 16]"

text \<open>One rune of a string: HTML-sensitive characters are escaped as Go does by default.\<close>

definition json_rune :: "bool \<times> string \<Rightarrow> string" where
  "json_rune r =
     (case r of
        (False, _) \<Rightarrow> json_u 0xFFFD
      | (True, w) \<Rightarrow>
          (case w of
             [c] \<Rightarrow>
               if c = quote_char \<or> c = back_char then [back_char, c]
               else if c = CHR 0x08 then [back_char, CHR ''b'']
               else if c = CHR 0x0C then [back_char, CHR ''f'']
               else if c = CHR 0x0A then [back_char, CHR ''n'']
               else if c = CHR 0x0D then [back_char, CHR ''r'']
               else if c = CHR 0x09 then [back_char, CHR ''t'']
               else if byte c < 0x20 \<or> c = CHR ''<'' \<or> c = CHR ''>'' \<or> c = CHR 0x26 then
                 json_u (byte c)
               else [c]
           | _ \<Rightarrow>
               if w = [CHR 0xE2, CHR 0x80, CHR 0xA8] then json_u 0x2028
               else if w = [CHR 0xE2, CHR 0x80, CHR 0xA9] then json_u 0x2029
               else w))"

lemma json_rune_plain:
  assumes "\<not> byte c < 0x20" and "c \<noteq> quote_char" and "c \<noteq> back_char"
    and "c \<noteq> CHR ''<''" and "c \<noteq> CHR ''>''" and "c \<noteq> CHR 0x26"
  shows "json_rune (True, [c]) = [c]"
proof -
  have "c \<noteq> CHR 0x08" "c \<noteq> CHR 0x0C" "c \<noteq> CHR 0x0A" "c \<noteq> CHR 0x0D" "c \<noteq> CHR 0x09"
    using assms(1) by auto
  with assms show ?thesis by (simp add: json_rune_def)
qed

definition json_body :: "string \<Rightarrow> string" where
  "json_body s = concat (map json_rune (rune_spans s))"

definition json_quote :: "string \<Rightarrow> string" where
  "json_quote s = [quote_char] @ json_body s @ [quote_char]"

text \<open>An object with the given keys and encoded values, in this order.\<close>

definition json_field :: "string \<times> string \<Rightarrow> string" where
  "json_field f = (case f of (k, v) \<Rightarrow> json_quote k @ '':'' @ v)"

definition json_object :: "(string \<times> string) list \<Rightarrow> string" where
  "json_object fs = ''{'' @ join '','' (map json_field fs) @ ''}''"

section \<open>Scanning\<close>

fun skip_ws :: "string \<Rightarrow> string" where
  "skip_ws [] = []"
| "skip_ws (c # cs) =
     (if c \<in> {CHR '' '', CHR 0x09, CHR 0x0A, CHR 0x0D} then skip_ws cs else c # cs)"

definition is_digit :: "char \<Rightarrow> bool" where
  "is_digit c \<longleftrightarrow> 48 \<le> byte c \<and> byte c \<le> 57"

definition is_hex :: "char \<Rightarrow> bool" where
  "is_hex c \<longleftrightarrow> is_digit c \<or> (97 \<le> byte c \<and> byte c \<le> 102) \<or> (65 \<le> byte c \<and> byte c \<le> 70)"

definition prepend :: "string \<Rightarrow> (string \<times> string) option \<Rightarrow> (string \<times> string) option" where
  "prepend p r = map_option (\<lambda>(a, b). (p @ a, b)) r"

text \<open>The rest of a string literal after its opening quote, and what follows it.\<close>

fun scan_str :: "string \<Rightarrow> (string \<times> string) option" where
  "scan_str [] = None"
| "scan_str (c # cs) =
     (if c = quote_char then Some ([c], cs)
      else if c = back_char then
        (case cs of
           [] \<Rightarrow> None
         | e # es \<Rightarrow>
             if e = quote_char \<or> e = back_char \<or> e \<in> set ''/bfnrt'' then
               prepend [c, e] (scan_str es)
             else if e = CHR ''u'' then
               (case es of
                  h1 # h2 # h3 # h4 # r \<Rightarrow>
                    if is_hex h1 \<and> is_hex h2 \<and> is_hex h3 \<and> is_hex h4 then
                      prepend [c, e, h1, h2, h3, h4] (scan_str r)
                    else None
                | _ \<Rightarrow> None)
             else None)
      else if byte c < 0x20 then None
      else prepend [c] (scan_str cs))"

definition scan_digits :: "string \<Rightarrow> string \<times> string" where
  "scan_digits s = (takeWhile is_digit s, dropWhile is_digit s)"

definition scan_int :: "string \<Rightarrow> (string \<times> string) option" where
  "scan_int s =
     (case s of
        [] \<Rightarrow> None
      | c # cs \<Rightarrow>
          if c = CHR ''0'' then Some ([c], cs)
          else if is_digit c then Some (scan_digits s)
          else None)"

definition scan_frac :: "string \<Rightarrow> (string \<times> string) option" where
  "scan_frac s =
     (case s of
        c # cs \<Rightarrow>
          if c = CHR ''.'' then
            (let (d, r) = scan_digits cs in if d = [] then None else Some (c # d, r))
          else Some ([], s)
      | [] \<Rightarrow> Some ([], s))"

definition scan_exp :: "string \<Rightarrow> (string \<times> string) option" where
  "scan_exp s =
     (case s of
        c # cs \<Rightarrow>
          if c = CHR ''e'' \<or> c = CHR ''E'' then
            (let sg = (case cs of x # _ \<Rightarrow> if x = CHR ''+'' \<or> x = CHR ''-'' then [x] else [] | [] \<Rightarrow> []);
                 (d, r) = scan_digits (drop (length sg) cs)
             in if d = [] then None else Some (c # sg @ d, r))
          else Some ([], s)
      | [] \<Rightarrow> Some ([], s))"

definition scan_number :: "string \<Rightarrow> (string \<times> string) option" where
  "scan_number s =
     (let (sg, s) = (case s of c # cs \<Rightarrow> if c = CHR ''-'' then ([c], cs) else ([], s) | [] \<Rightarrow> ([], s)) in
      case scan_int s of
        None \<Rightarrow> None
      | Some (i, s) \<Rightarrow>
          (case scan_frac s of
             None \<Rightarrow> None
           | Some (f, s) \<Rightarrow> prepend (sg @ i @ f) (scan_exp s)))"

definition scan_word :: "string \<Rightarrow> string \<Rightarrow> (string \<times> string) option" where
  "scan_word kw s = (if has_prefix s kw then Some (kw, drop (length kw) s) else None)"

definition max_nesting_depth :: nat where "max_nesting_depth = 10000"

text \<open>
  \<open>scan_value n d s\<close> reads one value at nesting depth \<open>d\<close>: its compact text and what follows.
  The fuel \<open>n\<close> bounds the recursion; the length of the text is enough.
\<close>

fun scan_value :: "nat \<Rightarrow> nat \<Rightarrow> string \<Rightarrow> (string \<times> string) option"
  and scan_members :: "nat \<Rightarrow> nat \<Rightarrow> string \<Rightarrow> (string \<times> string) option"
  and scan_elements :: "nat \<Rightarrow> nat \<Rightarrow> string \<Rightarrow> (string \<times> string) option"
where
  "scan_value 0 d s = None"
| "scan_value (Suc n) d s =
     (case s of
        [] \<Rightarrow> None
      | c # cs \<Rightarrow>
          if c = quote_char then prepend [c] (scan_str cs)
          else if c = CHR ''{'' then
            (if d \<ge> max_nesting_depth then None
             else case skip_ws cs of
               [] \<Rightarrow> None
             | x # r \<Rightarrow>
                 if x = CHR ''}'' then Some (''{}'', r)
                 else prepend ''{'' (scan_members n (Suc d) (x # r)))
          else if c = CHR ''['' then
            (if d \<ge> max_nesting_depth then None
             else case skip_ws cs of
               [] \<Rightarrow> None
             | x # r \<Rightarrow>
                 if x = CHR '']'' then Some (''[]'', r)
                 else prepend ''['' (scan_elements n (Suc d) (x # r)))
          else if c = CHR ''-'' \<or> is_digit c then scan_number s
          else if c = CHR ''t'' then scan_word ''true'' s
          else if c = CHR ''f'' then scan_word ''false'' s
          else if c = CHR ''n'' then scan_word ''null'' s
          else None)"
| "scan_members 0 d s = None"
| "scan_members (Suc n) d s =
     (case s of
        [] \<Rightarrow> None
      | c # cs \<Rightarrow>
          if c \<noteq> quote_char then None
          else case scan_str cs of
            None \<Rightarrow> None
          | Some (k, r) \<Rightarrow>
              (case skip_ws r of
                 [] \<Rightarrow> None
               | x # r \<Rightarrow>
                   if x \<noteq> CHR '':'' then None
                   else case scan_value n d (skip_ws r) of
                     None \<Rightarrow> None
                   | Some (v, r) \<Rightarrow>
                       (case skip_ws r of
                          [] \<Rightarrow> None
                        | y # r \<Rightarrow>
                            if y = CHR '','' then
                              prepend (c # k @ '':'' @ v @ '','') (scan_members n d (skip_ws r))
                            else if y = CHR ''}'' then Some (c # k @ '':'' @ v @ ''}'', r)
                            else None)))"
| "scan_elements 0 d s = None"
| "scan_elements (Suc n) d s =
     (case scan_value n d s of
        None \<Rightarrow> None
      | Some (v, r) \<Rightarrow>
          (case skip_ws r of
             [] \<Rightarrow> None
           | y # r \<Rightarrow>
               if y = CHR '','' then prepend (v @ '','') (scan_elements n d (skip_ws r))
               else if y = CHR '']'' then Some (v @ '']'', r)
               else None))"

section \<open>Decoding\<close>

definition hex_val :: "char \<Rightarrow> nat" where
  "hex_val c = (if is_digit c then byte c - 48 else if byte c \<ge> 97 then byte c - 87 else byte c - 55)"

definition encode_rune :: "nat \<Rightarrow> string" where
  "encode_rune n =
     (if n < 0x80 then [char_of n]
      else if n < 0x800 then [char_of (0xC0 + n div 64), char_of (0x80 + n mod 64)]
      else if 0xD800 \<le> n \<and> n < 0xE000 \<or> n > 0x10FFFF then rune_error
      else if n < 0x10000 then
        [char_of (0xE0 + n div 4096), char_of (0x80 + n div 64 mod 64), char_of (0x80 + n mod 64)]
      else [char_of (0xF0 + n div 262144), char_of (0x80 + n div 4096 mod 64),
            char_of (0x80 + n div 64 mod 64), char_of (0x80 + n mod 64)])"

definition u4 :: "char \<Rightarrow> char \<Rightarrow> char \<Rightarrow> char \<Rightarrow> nat" where
  "u4 a b c d = ((hex_val a * 16 + hex_val b) * 16 + hex_val c) * 16 + hex_val d"

text \<open>The body of a valid literal, decoded; a high surrogate needs its low one.\<close>

fun json_unescape :: "string \<Rightarrow> string" where
  "json_unescape [] = []"
| "json_unescape (c # cs) =
     (if c \<noteq> back_char then c # json_unescape cs
      else case cs of
        [] \<Rightarrow> []
      | e # es \<Rightarrow>
          if e = CHR ''u'' then
            (case es of
               a # b # c1 # d # r \<Rightarrow>
                 (let n = u4 a b c1 d in
                  if 0xD800 \<le> n \<and> n < 0xDC00 then
                    (case r of
                       x # y # a2 # b2 # c2 # d2 # r2 \<Rightarrow>
                         (let m = u4 a2 b2 c2 d2 in
                          if x = back_char \<and> y = CHR ''u'' \<and> 0xDC00 \<le> m \<and> m < 0xE000 then
                            encode_rune (0x10000 + (n - 0xD800) * 1024 + (m - 0xDC00)) @
                              json_unescape r2
                          else rune_error @ json_unescape r)
                     | _ \<Rightarrow> rune_error @ json_unescape r)
                  else encode_rune n @ json_unescape r)
             | _ \<Rightarrow> [])
          else (if e = CHR ''b'' then CHR 0x08 else if e = CHR ''f'' then CHR 0x0C
                else if e = CHR ''n'' then CHR 0x0A else if e = CHR ''r'' then CHR 0x0D
                else if e = CHR ''t'' then CHR 0x09 else e) # json_unescape es)"

definition json_unquote :: "string \<Rightarrow> string" where
  "json_unquote lit = concat (runes (json_unescape (butlast (tl lit))))"

text \<open>
  \<open>json.Unmarshal\<close> of a raw value into a \<open>string\<close> that is empty: a literal, or \<open>null\<close>,
  which leaves it as it was.
\<close>

definition json_to_string :: "string \<Rightarrow> string option" where
  "json_to_string raw =
     (if raw = ''null'' then Some ''''
      else if raw \<noteq> [] \<and> hd raw = quote_char then Some (json_unquote raw)
      else None)"

text \<open>The fields of an object, each with its raw value, in the order of the text.\<close>

fun object_fields :: "nat \<Rightarrow> string \<Rightarrow> (string \<times> string) list \<Rightarrow> ((string \<times> string) list \<times> string) option"
where
  "object_fields 0 s acc = None"
| "object_fields (Suc n) s acc =
     (case s of
        [] \<Rightarrow> None
      | c # cs \<Rightarrow>
          if c \<noteq> quote_char then None
          else case scan_str cs of
            None \<Rightarrow> None
          | Some (k, r) \<Rightarrow>
              (case skip_ws r of
                 [] \<Rightarrow> None
               | x # r \<Rightarrow>
                   if x \<noteq> CHR '':'' then None
                   else case scan_value n 1 (skip_ws r) of
                     None \<Rightarrow> None
                   | Some (v, r) \<Rightarrow>
                       (let acc = go_set acc (json_unquote (c # k)) v in
                        case skip_ws r of
                          [] \<Rightarrow> None
                        | y # r \<Rightarrow>
                            if y = CHR '','' then object_fields n (skip_ws r) acc
                            else if y = CHR ''}'' then Some (acc, r)
                            else None)))"

text \<open>
  \<open>json.Unmarshal\<close> into \<open>map[string]json.RawMessage\<close>, with every raw value compacted; \<open>null\<close>
  gives the empty map.
\<close>

definition json_fields :: "string \<Rightarrow> (string \<times> string) list option" where
  "json_fields txt =
     (let s = skip_ws txt; n = Suc (length txt) in
      case s of
        [] \<Rightarrow> None
      | c # cs \<Rightarrow>
          if c = CHR ''{'' then
            (case skip_ws cs of
               [] \<Rightarrow> None
             | x # r \<Rightarrow>
                 if x = CHR ''}'' then (if skip_ws r = [] then Some [] else None)
                 else case object_fields n (x # r) [] of
                   None \<Rightarrow> None
                 | Some (fs, r) \<Rightarrow> if skip_ws r = [] then Some fs else None)
          else if has_prefix s ''null'' \<and> skip_ws (drop 4 s) = [] then Some []
          else None)"

section \<open>Reading back what was encoded\<close>

lemma prepend_prepend [simp]: "prepend p (prepend q r) = prepend (p @ q) r"
  by (cases r) (auto simp: prepend_def)

lemma prepend_Some [simp]: "prepend p (Some (a, b)) = Some (p @ a, b)"
  by (simp add: prepend_def)

lemma prepend_Nil [simp]: "prepend [] r = r"
  by (cases r) (auto simp: prepend_def)

definition plain_char :: "char \<Rightarrow> bool" where
  "plain_char c \<longleftrightarrow> 0x20 \<le> byte c \<and> c \<noteq> quote_char \<and> c \<noteq> back_char"

lemma scan_str_plain [json]:
  "list_all plain_char w \<Longrightarrow> scan_str (w @ t) = prepend w (scan_str t)"
  by (induction w) (auto simp: plain_char_def)

lemma is_hex_digit: "n < 16 \<Longrightarrow> is_hex (hex_digit n)"
  by (auto simp: is_hex_def is_digit_def hex_digit_def)

lemma scan_str_u: "scan_str (json_u n @ t) = prepend (json_u n) (scan_str t)"
  by (simp add: json_u_def is_hex_digit back_char_def quote_char_def)

lemma plain_multibyte:
  assumes "rune_ok w" and "length w \<noteq> 1" shows "list_all plain_char w"
  using rune_ok_multibyte [OF assms]
  by (auto simp: list_all_iff plain_char_def quote_char_def back_char_def)

lemma json_rune_cases:
  assumes "(ok, w) \<in> set (rune_spans s)"
  obtains (u) n where "json_rune (ok, w) = json_u n"
    | (esc) e where "json_rune (ok, w) = [back_char, e]"
        "e = quote_char \<or> e = back_char \<or> e \<in> set ''bfnrt''"
    | (plain) "json_rune (ok, w) = w" "list_all plain_char w"
proof (cases ok)
  case False
  then show thesis using u [of "0xFFFD"] by (simp add: json_rune_def)
next
  case True
  then have ok: "rune_ok w" using assms rune_spans_ok by simp
  show thesis
  proof (cases "length w = 1")
    case True
    then obtain c where w: "w = [c]" by (cases w) auto
    show thesis
    proof (cases "byte c < 0x20 \<or> c = quote_char \<or> c = back_char \<or> c = CHR ''<'' \<or> c = CHR ''>'' \<or> c = CHR 0x26")
      case True
      then have "json_rune (ok, w) = json_u (byte c) \<or> (\<exists>e. json_rune (ok, w) = [back_char, e] \<and>
          (e = quote_char \<or> e = back_char \<or> e \<in> set ''bfnrt''))"
        using \<open>ok\<close> w by (simp add: json_rune_def) blast
      with u esc show thesis by blast
    next
      case False
      then have "json_rune (ok, w) = w" using \<open>ok\<close> w by (simp add: json_rune_plain)
      with False w plain show thesis by (simp add: plain_char_def)
    qed
  next
    case False
    have "json_rune (ok, w) = (if w = [CHR 0xE2, CHR 0x80, CHR 0xA8] then json_u 0x2028
        else if w = [CHR 0xE2, CHR 0x80, CHR 0xA9] then json_u 0x2029 else w)"
      using \<open>ok\<close> False by (cases w; cases "tl w") (simp_all add: json_rune_def)
    with u plain plain_multibyte [OF ok False] show thesis by (metis (full_types))
  qed
qed

lemma scan_str_rune:
  assumes "(ok, w) \<in> set (rune_spans s)"
  shows "scan_str (json_rune (ok, w) @ t) = prepend (json_rune (ok, w)) (scan_str t)"
  using assms
proof (cases rule: json_rune_cases)
  case (u n)
  then show ?thesis by (simp add: scan_str_u)
next
  case (esc e)
  then show ?thesis by (auto simp: quote_char_def back_char_def)
next
  case plain
  then show ?thesis using scan_str_plain by metis
qed

lemma scan_str_spans:
  "set rs \<subseteq> set (rune_spans s) \<Longrightarrow>
     scan_str (concat (map json_rune rs) @ t) = prepend (concat (map json_rune rs)) (scan_str t)"
  by (induction rs) (auto simp: scan_str_rune)

lemma scan_str_body [json]:
  "scan_str (json_body s @ quote_char # t) = Some (json_body s @ [quote_char], t)"
  using scan_str_spans [of "rune_spans s" s "quote_char # t"] by (simp add: json_body_def)

text \<open>A text that the scanner reads as one value, whatever follows it.\<close>

definition reads :: "nat \<Rightarrow> nat \<Rightarrow> string \<Rightarrow> bool" where
  "reads n d v \<longleftrightarrow>
     v \<noteq> [] \<and> hd v \<notin> {CHR '' '', CHR 0x09, CHR 0x0A, CHR 0x0D} \<and>
     (\<forall>t. scan_value n d (v @ t) = Some (v, t))"

lemma skip_ws_id: "v \<noteq> [] \<Longrightarrow> hd v \<notin> {CHR '' '', CHR 0x09, CHR 0x0A, CHR 0x0D} \<Longrightarrow>
    skip_ws (v @ t) = v @ t"
  by (cases v) auto

lemma skip_ws_cons: "c \<notin> {CHR '' '', CHR 0x09, CHR 0x0A, CHR 0x0D} \<Longrightarrow> skip_ws (c # t) = c # t"
  by simp

lemma reads_quote [json]: "reads (Suc n) d (json_quote s)"
  by (auto simp: reads_def json_quote_def scan_str_body) (simp_all add: quote_char_def)

lemma scan_members_step:
  assumes "reads n d v"
  shows "scan_members (Suc n) d (json_field (k, v) @ t) =
    (case skip_ws t of
       [] \<Rightarrow> None
     | y # r \<Rightarrow>
         if y = CHR '','' then prepend (json_field (k, v) @ '','') (scan_members n d (skip_ws r))
         else if y = CHR ''}'' then Some (json_field (k, v) @ ''}'', r)
         else None)"
  using assms
  by (simp add: json_field_def json_quote_def scan_str_body reads_def skip_ws_id
      split: list.splits)

lemma json_field_head: "\<exists>r. json_field f = quote_char # r"
  by (cases f) (simp add: json_field_def json_quote_def)

lemma join_fields_head: "fs \<noteq> [] \<Longrightarrow> \<exists>r. join '','' (map json_field fs) = quote_char # r"
proof (cases fs)
  case (Cons f gs)
  then show ?thesis using json_field_head [of f] by (cases gs) auto
qed simp

lemma scan_members_fields:
  assumes "fs \<noteq> []" and "\<forall>(k, v)\<in>set fs. \<forall>m\<ge>n. reads m d v"
  shows "scan_members (n + length fs) d (join '','' (map json_field fs) @ ''}'' @ t) =
    Some (join '','' (map json_field fs) @ ''}'', t)"
  using assms
proof (induction fs rule: induct_list012)
  case (2 f)
  obtain k v where f: "f = (k, v)" by fastforce
  with 2 have "reads n d v" by auto
  then show ?case using scan_members_step [of n d v k "''}'' @ t"] by (simp add: f)
next
  case (3 f g fs)
  obtain k v where f: "f = (k, v)" by fastforce
  define m where "m = n + length (g # fs)"
  define rest where "rest = join '','' (map json_field (g # fs))"
  have r: "reads m d v" using 3(4) f by (auto simp: m_def)
  have IH: "scan_members m d (rest @ ''}'' @ t) = Some (rest @ ''}'', t)"
    using 3 by (simp add: m_def rest_def)
  obtain u where u: "rest = quote_char # u" using join_fields_head [of "g # fs"] rest_def by auto
  have "scan_members (Suc m) d (json_field (k, v) @ '','' @ rest @ ''}'' @ t) =
      prepend (json_field (k, v) @ '','') (scan_members m d (rest @ ''}'' @ t))"
    using scan_members_step [OF r, of k "'','' @ rest @ ''}'' @ t"] by (simp add: u quote_char_def)
  with IH show ?case by (simp add: f m_def rest_def)
qed simp

lemma reads_object [json]:
  assumes "\<forall>(k, v)\<in>set fs. \<forall>m\<ge>n. reads m (Suc d) v" and "d < max_nesting_depth"
    and "n + length fs < m"
  shows "reads m d (json_object fs)"
proof -
  obtain m' where m: "m = Suc m'" using assms(3) by (cases m) auto
  show ?thesis
  proof (cases "fs = []")
    case True
    with m assms(2) show ?thesis by (auto simp: reads_def json_object_def quote_char_def)
  next
    case False
    have "scan_members ((m' - length fs) + length fs) (Suc d)
        (join '','' (map json_field fs) @ ''}'' @ t) =
        Some (join '','' (map json_field fs) @ ''}'', t)" for t
      using assms(1,3) m by (intro scan_members_fields [OF False]) auto
    then have sm: "scan_members m' (Suc d) (join '','' (map json_field fs) @ ''}'' @ t) =
        Some (join '','' (map json_field fs) @ ''}'', t)" for t
      using assms(3) m by simp
    obtain r where j: "join '','' (map json_field fs) = quote_char # r"
      using join_fields_head [OF False] by blast
    have "scan_value m d (json_object fs @ t) = Some (json_object fs, t)" for t
      using sm [of t] assms(2)
      by (simp add: m json_object_def j quote_char_def)
    then show ?thesis by (simp add: reads_def json_object_def)
  qed
qed

text \<open>Encoded bodies never hold a line break.\<close>

lemma json_u_printable: "c \<in> set (json_u n) \<Longrightarrow> 0x20 \<le> byte c"
proof -
  have h: "k < 16 \<Longrightarrow> 0x20 \<le> byte (hex_digit k)" for k by (auto simp: hex_digit_def)
  show "c \<in> set (json_u n) \<Longrightarrow> 0x20 \<le> byte c"
    by (auto simp: json_u_def back_char_def h)
qed

lemma json_quote_printable: "c \<in> set (json_quote s) \<Longrightarrow> 0x20 \<le> byte c"
proof -
  have r: "0x20 \<le> byte c" if m: "(ok, w) \<in> set (rune_spans s)" "c \<in> set (json_rune (ok, w))" for ok w
    using m(1)
  proof (cases rule: json_rune_cases)
    case (u n)
    then show ?thesis using m(2) json_u_printable by simp
  next
    case (esc e)
    then show ?thesis using m(2) by (auto simp: quote_char_def back_char_def)
  next
    case plain
    then show ?thesis using m(2) by (auto simp: list_all_iff plain_char_def)
  qed
  assume "c \<in> set (json_quote s)"
  then show ?thesis using r by (auto simp: json_quote_def json_body_def quote_char_def)
qed

end
