(* ===== verification/RequestPolicy.thy ===== *)
theory RequestPolicy
  imports Domain Sha256 "HOL-Library.List_Lexorder" "HOL-Library.Char_ord"
begin

text \<open>
  The limits on lease requests (\<open>internal/app/request_policy.go\<close>): the cooldown between
  equivalent requests, the cap on pending requests per agent, whether an active lease is
  reused, and the key that decides which requests are equivalent. Strings are ordered by
  their bytes, as \<open>sort.Strings\<close> orders them.
\<close>

record request_policy =
  identical_request_cooldown :: int
  max_pending_per_agent :: int
  enable_active_lease_reuse :: bool

record request_policy_input =
  in_agent_id :: string
  in_intent :: string
  in_secrets :: "string list"
  in_command_fingerprint :: string
  in_workdir_fingerprint :: string

definition default_identical_request_cooldown :: int where
  "default_identical_request_cooldown = 60 * second"

definition default_max_pending_per_agent :: int where
  "default_max_pending_per_agent = 2"

definition default_request_policy :: request_policy where
  "default_request_policy =
     \<lparr>identical_request_cooldown = default_identical_request_cooldown,
      max_pending_per_agent = default_max_pending_per_agent,
      enable_active_lease_reuse = True\<rparr>"

text \<open>The zero value of the struct.\<close>

definition zero_request_policy :: request_policy where
  "zero_request_policy =
     \<lparr>identical_request_cooldown = 0, max_pending_per_agent = 0,
      enable_active_lease_reuse = False\<rparr>"

definition normalize_request_policy :: "request_policy \<Rightarrow> request_policy" where
  "normalize_request_policy p =
     (let out = p;
          out = (if identical_request_cooldown out \<le> 0
                 then out\<lparr>identical_request_cooldown := default_identical_request_cooldown\<rparr>
                 else out);
          out = (if max_pending_per_agent out \<le> 0
                 then out\<lparr>max_pending_per_agent := default_max_pending_per_agent\<rparr> else out)
      in out)"

fun normalize_secrets_loop ::
  "string list \<Rightarrow> string list \<Rightarrow> string list \<Rightarrow> string list" where
  "normalize_secrets_loop seen out [] = out"
| "normalize_secrets_loop seen out (s # ss) =
     (let name = trim_space s
      in if name = '''' then normalize_secrets_loop seen out ss
         else if name \<in> set seen then normalize_secrets_loop seen out ss
         else normalize_secrets_loop (name # seen) (out @ [name]) ss)"

definition normalize_secrets :: "string list \<Rightarrow> string list" where
  "normalize_secrets secrets =
     (if secrets = [] then [] else sort (normalize_secrets_loop [] [] secrets))"

definition unit_separator :: char where
  "unit_separator = CHR 0x1F"

definition equivalence_material :: "request_policy_input \<Rightarrow> string" where
  "equivalence_material i =
     join [unit_separator]
       [trim_space (in_agent_id i), trim_space (in_intent i),
        join '','' (normalize_secrets (in_secrets i)),
        trim_space (in_command_fingerprint i), trim_space (in_workdir_fingerprint i)]"

definition equivalence_key :: "request_policy_input \<Rightarrow> string" where
  "equivalence_key i = sha256_hex (equivalence_material i)"

section \<open>Normalisation\<close>

lemma normalize_request_policy_positive:
  "0 < identical_request_cooldown (normalize_request_policy p) \<and>
   0 < max_pending_per_agent (normalize_request_policy p)"
  by (simp add: normalize_request_policy_def Let_def default_identical_request_cooldown_def
      default_max_pending_per_agent_def second_def)

lemma normalize_request_policy_idem [simp]:
  "normalize_request_policy (normalize_request_policy p) = normalize_request_policy p"
  by (simp add: normalize_request_policy_def Let_def default_identical_request_cooldown_def
      default_max_pending_per_agent_def second_def)

lemma normalize_secrets_loop_spec:
  assumes "set out = set seen" "distinct out" "[] \<notin> set out"
  shows "set (normalize_secrets_loop seen out ss) = set out \<union> (trim_space ` set ss - {[]}) \<and>
    distinct (normalize_secrets_loop seen out ss)"
  using assms
proof (induction seen out ss rule: normalize_secrets_loop.induct)
  case (2 seen out s ss)
  let ?n = "trim_space s"
  show ?case
  proof (cases "?n = [] \<or> ?n \<in> set seen")
    case True
    with 2 show ?thesis by (auto simp: Let_def)
  next
    case False
    with 2 show ?thesis by (auto simp: Let_def)
  qed
qed simp

text \<open>The normal form of a list of secrets is determined by the set of trimmed names.\<close>

lemma normalize_secrets_spec:
  "set (normalize_secrets ss) = trim_space ` set ss - {[]} \<and> distinct (normalize_secrets ss) \<and>
   sorted (normalize_secrets ss)"
  using normalize_secrets_loop_spec [of "[]" "[]" ss] by (simp add: normalize_secrets_def)

lemma normalize_secrets_cong:
  "normalize_secrets ss = normalize_secrets ts \<longleftrightarrow>
     trim_space ` set ss - {[]} = trim_space ` set ts - {[]}"
  using normalize_secrets_spec [of ss] normalize_secrets_spec [of ts]
  by (metis sorted_distinct_set_unique)

section \<open>What the equivalence key identifies\<close>

definition separator_free :: "request_policy_input \<Rightarrow> bool" where
  "separator_free i \<longleftrightarrow>
     list_all (\<lambda>s. unit_separator \<notin> set s)
       ([in_agent_id i, in_intent i, in_command_fingerprint i, in_workdir_fingerprint i] @
        in_secrets i) \<and>
     list_all (\<lambda>s. CHR '','' \<notin> set s) (in_secrets i)"

definition same_scope :: "request_policy_input \<Rightarrow> request_policy_input \<Rightarrow> bool" where
  "same_scope i j \<longleftrightarrow>
     trim_space (in_agent_id i) = trim_space (in_agent_id j) \<and>
     trim_space (in_intent i) = trim_space (in_intent j) \<and>
     trim_space ` set (in_secrets i) - {[]} = trim_space ` set (in_secrets j) - {[]} \<and>
     trim_space (in_command_fingerprint i) = trim_space (in_command_fingerprint j) \<and>
     trim_space (in_workdir_fingerprint i) = trim_space (in_workdir_fingerprint j)"

lemma set_trim_space: "set (trim_space s) \<subseteq> set s"
proof -
  have l: "set (trim_runes T u) \<subseteq> set u" for T u
    by (metis set_append sup_ge2 trim_runes_suffix)
  have "set (trim_right u) \<subseteq> set u" for u
    using l by (metis set_rev trim_right_def)
  with l show ?thesis by (metis order_trans trim_left_def trim_space_def)
qed

lemma set_join: "set (join sep xs) \<subseteq> set sep \<union> \<Union> (set ` set xs)"
  by (induction sep xs rule: join.induct) auto

lemma join_comma_inj:
  assumes "\<forall>x\<in>set xs \<union> set ys. c \<notin> set x \<and> x \<noteq> []" and "join [c] xs = join [c] ys"
  shows "xs = ys"
proof -
  have count: "x \<noteq> [] \<Longrightarrow> \<forall>y\<in>set x. c \<notin> set y \<Longrightarrow>
      count_list (join [c] x) c = length x - 1" for x :: "string list"
    by (induction x rule: induct_list012) (auto simp: count_list_0_iff)
  have nil: "join [c] x = [] \<longleftrightarrow> x = []" if "\<forall>y\<in>set x. y \<noteq> []" for x :: "string list"
    using that by (cases x; cases "tl x") auto
  have "length xs = length ys"
  proof (cases "xs = [] \<or> ys = []")
    case True
    then show ?thesis using nil [of xs] nil [of ys] assms by auto
  next
    case False
    then have "length xs - 1 = length ys - 1"
      using count [of xs] count [of ys] assms by auto
    with False show ?thesis by (cases xs; cases ys) auto
  qed
  then show ?thesis using assms by (intro join_char_inj [of xs ys c]) auto
qed

text \<open>Equal materials mean equal scopes, when no field holds a separator.\<close>

lemma equivalence_material_inj:
  assumes "separator_free i" and "separator_free j"
    and "equivalence_material i = equivalence_material j"
  shows "same_scope i j"
proof -
  let ?parts = "\<lambda>i. [trim_space (in_agent_id i), trim_space (in_intent i),
        join '','' (normalize_secrets (in_secrets i)),
        trim_space (in_command_fingerprint i), trim_space (in_workdir_fingerprint i)]"
  have sep: "unit_separator \<notin> set x" if "separator_free i" "x \<in> set (?parts i)" for i x
  proof -
    have t: "unit_separator \<notin> set (trim_space u)" if "unit_separator \<notin> set u" for u
      using that set_trim_space by blast
    have "unit_separator \<notin> set (join '','' (normalize_secrets (in_secrets i)))"
      using set_join [of "'',''" "normalize_secrets (in_secrets i)"] that(1) t
      by (auto simp: normalize_secrets_spec separator_free_def list_all_iff
          unit_separator_def dest!: subsetD)
    with that t show ?thesis by (auto simp: separator_free_def)
  qed
  have "?parts i = ?parts j"
    using sep [OF assms(1)] sep [OF assms(2)] assms(3)
    by (intro join_char_inj [of _ _ unit_separator])
      (auto simp: equivalence_material_def simp del: join.simps)
  moreover have "normalize_secrets (in_secrets i) = normalize_secrets (in_secrets j)"
    if "join '','' (normalize_secrets (in_secrets i)) =
        join '','' (normalize_secrets (in_secrets j))"
  proof (rule join_comma_inj [OF _ that], intro ballI)
    fix x assume "x \<in> set (normalize_secrets (in_secrets i)) \<union>
      set (normalize_secrets (in_secrets j))"
    then show "CHR '','' \<notin> set x \<and> x \<noteq> []"
      using assms(1,2) set_trim_space
      by (fastforce simp: normalize_secrets_spec separator_free_def list_all_iff)
  qed
  ultimately show ?thesis by (simp add: same_scope_def normalize_secrets_cong)
qed

lemma same_scope_material: "same_scope i j \<Longrightarrow> equivalence_material i = equivalence_material j"
  by (simp add: same_scope_def equivalence_material_def flip: normalize_secrets_cong)

text \<open>
  C14: Two requests have the same equivalence key exactly when they come from the same agent
  with the same intent, the same set of secrets, command and work directory, up to
  surrounding white space, the order of the secrets and repetitions: for inputs that hold no
  separator byte, and as long as SHA-256 does not collide on these two inputs.
\<close>

theorem equivalence_key_iff_same_scope:
  assumes "separator_free i" and "separator_free j"
    and "sha256_hex (equivalence_material i) = sha256_hex (equivalence_material j) \<Longrightarrow>
      equivalence_material i = equivalence_material j"
  shows "equivalence_key i = equivalence_key j \<longleftrightarrow> same_scope i j"
proof
  assume "equivalence_key i = equivalence_key j"
  then have "equivalence_material i = equivalence_material j"
    unfolding equivalence_key_def by (rule assms(3))
  then show "same_scope i j" by (rule equivalence_material_inj [OF assms(1,2)])
next
  assume "same_scope i j"
  then show "equivalence_key i = equivalence_key j"
    unfolding equivalence_key_def by (simp only: same_scope_material)
qed

definition example_input :: "string list \<Rightarrow> request_policy_input" where
  "example_input ss =
     \<lparr>in_agent_id = ''agent-a'', in_intent = ''run_tests'', in_secrets = ss,
      in_command_fingerprint = ''cfp'', in_workdir_fingerprint = ''wfp''\<rparr>"

theorem equivalence_key_iff_same_scope_witness:
  "equivalence_key (example_input [''npm_token'', ''github_token'', ''npm_token'']) =
   equivalence_key (example_input ['' github_token'', ''npm_token''])"
proof -
  let ?i = "example_input [''npm_token'', ''github_token'', ''npm_token'']"
  let ?j = "example_input ['' github_token'', ''npm_token'']"
  have s: "separator_free ?i" "separator_free ?j" by code_simp+
  have m: "equivalence_material ?i = equivalence_material ?j" by code_simp
  have "trim_space ''npm_token'' = ''npm_token''" "trim_space ''github_token'' = ''github_token''"
    "trim_space '' github_token'' = ''github_token''" by code_simp+
  then have "same_scope ?i ?j" by (auto simp: same_scope_def example_input_def)
  then show ?thesis using equivalence_key_iff_same_scope [OF s, OF m] by simp
qed

end
