(* ===== verification/GoPaths.thy ===== *)
theory GoPaths
  imports Errors "HOL-Library.Sublist"
begin

text \<open>
  The lexical part of Go's package \<open>path/filepath\<close> on Unix, as the broker uses it: \<open>Clean\<close>,
  \<open>IsAbs\<close>, \<open>Join\<close>, \<open>Base\<close>, \<open>Dir\<close> and \<open>Rel\<close>. What needs the operating system (\<open>Abs\<close>
  reads the working directory, \<open>EvalSymlinks\<close> the file system) is a parameter of the
  definitions that use it.
\<close>

named_theorems go_path "facts about cleaned paths"

definition is_abs :: "string \<Rightarrow> bool" where
  "is_abs p \<longleftrightarrow> has_prefix p ''/''"

definition path_parts :: "string \<Rightarrow> string list" where
  "path_parts p = filter (\<lambda>x. x \<noteq> '''' \<and> x \<noteq> ''.'') (split_char (CHR ''/'') p)"

text \<open>The elements of a cleaned path, last first.\<close>

fun clean_parts :: "bool \<Rightarrow> string list \<Rightarrow> string list \<Rightarrow> string list" where
  "clean_parts rooted stack [] = stack"
| "clean_parts rooted stack (x # xs) =
     (if x = ''..'' then
        (case stack of
           [] \<Rightarrow> clean_parts rooted (if rooted then [] else [x]) xs
         | t # ts \<Rightarrow> if t = ''..'' then clean_parts rooted (x # stack) xs
                    else clean_parts rooted ts xs)
      else clean_parts rooted (x # stack) xs)"

definition components :: "string \<Rightarrow> string list" where
  "components p = rev (clean_parts (is_abs p) [] (path_parts p))"

definition path_of :: "bool \<Rightarrow> string list \<Rightarrow> string" where
  "path_of rooted cs =
     (if rooted then CHR ''/'' # join ''/'' cs else if cs = [] then ''.'' else join ''/'' cs)"

definition path_clean :: "string \<Rightarrow> string" where
  "path_clean p = path_of (is_abs p) (components p)"

definition path_join :: "string list \<Rightarrow> string" where
  "path_join ps =
     (let qs = filter (\<lambda>p. p \<noteq> '''') ps
      in if qs = [] then '''' else path_clean (join ''/'' qs))"

text \<open>\<open>Base\<close>: the last element, after trailing slashes are dropped.\<close>

definition path_base :: "string \<Rightarrow> string" where
  "path_base p =
     (if p = '''' then ''.''
      else let q = rev (dropWhile (\<lambda>c. c = CHR ''/'') (rev p));
               b = rev (takeWhile (\<lambda>c. c \<noteq> CHR ''/'') (rev q))
           in if b = '''' then ''/'' else b)"

definition path_dir :: "string \<Rightarrow> string" where
  "path_dir p = path_clean (rev (dropWhile (\<lambda>c. c \<noteq> CHR ''/'') (rev p)))"

fun strip_common :: "string list \<Rightarrow> string list \<Rightarrow> string list \<times> string list" where
  "strip_common (x # xs) (y # ys) = (if x = y then strip_common xs ys else (x # xs, y # ys))"
| "strip_common xs ys = (xs, ys)"

definition path_rel :: "string \<Rightarrow> string \<Rightarrow> gerror + string" where
  "path_rel base targ =
     (let err = Inl (Plain (''Rel: can't make '' @ targ @ '' relative to '' @ base)) in
      if path_clean base = path_clean targ then Inr ''.''
      else if is_abs base \<noteq> is_abs targ then err
      else case strip_common (components base) (components targ) of
        (bs, ts) \<Rightarrow>
          if bs \<noteq> [] \<and> hd bs = ''..'' then err
          else Inr (join ''/'' (replicate (length bs) ''..'' @ ts)))"

section \<open>Cleaned paths\<close>

lemma split_char_nonempty [simp]: "split_char c s \<noteq> []"
  by (subst split_char.simps) (auto split: prod.splits)

lemma split_char_append:
  assumes "c \<notin> set a" shows "split_char c (a @ c # b) = a # split_char c b"
proof -
  have "cut (a @ c # b) c = (a, b, True)" using assms by (simp add: cut_found)
  then show ?thesis by (subst split_char.simps) simp
qed

lemma split_char_single: "c \<notin> set a \<Longrightarrow> split_char c a = [a]"
  by (subst split_char.simps) (simp add: cut_not_found)

lemma split_char_no_sep: "x \<in> set (split_char c s) \<Longrightarrow> c \<notin> set x"
proof (induction s rule: length_induct)
  case (1 s)
  show ?case
  proof (cases "c \<in> set s")
    case True
    then obtain u v where "s = u @ c # v" "c \<notin> set u" by (meson split_list_first)
    with 1 show ?thesis by (auto simp: split_char_append)
  next
    case False
    with 1 show ?thesis by (simp add: split_char_single)
  qed
qed

definition part_ok :: "string \<Rightarrow> bool" where
  "part_ok x \<longleftrightarrow> x \<noteq> '''' \<and> x \<noteq> ''.'' \<and> CHR ''/'' \<notin> set x"

lemma path_parts_ok: "x \<in> set (path_parts p) \<Longrightarrow> part_ok x"
  by (auto simp: path_parts_def part_ok_def dest: split_char_no_sep)

lemma clean_parts_ok:
  "\<forall>x\<in>set stack \<union> set xs. part_ok x \<Longrightarrow> x \<in> set (clean_parts r stack xs) \<Longrightarrow> part_ok x"
  by (induction r stack xs rule: clean_parts.induct) (auto split: list.splits if_splits)

lemma components_ok [go_path]: "x \<in> set (components p) \<Longrightarrow> part_ok x"
  using clean_parts_ok [of "[]" "path_parts p" x "is_abs p"] path_parts_ok
  by (auto simp: components_def)

text \<open>Dots never survive in a rooted path: it cannot climb above the root.\<close>

lemma clean_parts_rooted:
  "''..'' \<notin> set stack \<Longrightarrow> ''..'' \<notin> set (clean_parts True stack xs)"
  by (induction True stack xs rule: clean_parts.induct) (auto split: list.splits if_splits)

lemma components_rooted [go_path]: "is_abs p \<Longrightarrow> ''..'' \<notin> set (components p)"
  using clean_parts_rooted [of "[]" "path_parts p"] by (simp add: components_def)

lemma clean_parts_no_dots:
  "''..'' \<notin> set xs \<Longrightarrow> clean_parts r stack xs = rev xs @ stack"
  by (induction xs arbitrary: stack) auto

lemma split_char_join:
  "xs \<noteq> [] \<Longrightarrow> \<forall>x\<in>set xs. c \<notin> set x \<Longrightarrow> split_char c (join [c] xs) = xs"
  by (induction xs rule: induct_list012) (simp_all add: split_char_append split_char_single)

lemma path_parts_slash: "path_parts (CHR ''/'' # s) = path_parts s"
proof -
  have "split_char (CHR ''/'') (CHR ''/'' # s) = '''' # split_char (CHR ''/'') s"
    using split_char_append [of "CHR ''/''" "''''" s] by simp
  then show ?thesis by (simp add: path_parts_def)
qed

lemma path_parts_join:
  assumes "\<forall>x\<in>set xs. part_ok x" shows "path_parts (join ''/'' xs) = xs"
proof (cases "xs = []")
  case True
  then show ?thesis by (simp add: path_parts_def split_char_single)
next
  case False
  with assms show ?thesis
    by (auto simp: path_parts_def split_char_join part_ok_def intro!: filter_True)
qed

lemma is_abs_path_of:
  assumes "\<forall>x\<in>set cs. part_ok x" shows "is_abs (path_of r cs) = r"
proof (cases "r \<or> cs = []")
  case True
  then show ?thesis by (auto simp: is_abs_def path_of_def has_prefix_def)
next
  case False
  then obtain x xs where cs: "cs = x # xs" by (cases cs) auto
  with assms have "part_ok x" by simp
  then have "x \<noteq> []" "CHR ''/'' \<noteq> hd x" unfolding part_ok_def by (cases x; simp)+
  then have "hd (join ''/'' cs) \<noteq> CHR ''/''" "join ''/'' cs \<noteq> []"
    by (cases x; cases xs; simp add: cs)+
  with False show ?thesis
    by (cases "join ''/'' cs") (auto simp: is_abs_def path_of_def has_prefix_def)
qed

text \<open>A path made of proper elements without dots has these elements.\<close>

lemma components_path_of [go_path]:
  assumes "\<forall>x\<in>set cs. part_ok x" and "''..'' \<notin> set cs"
  shows "components (path_of r cs) = cs"
proof -
  have "path_parts (path_of r cs) = cs"
    using assms(1)
    by (cases "cs = []") (auto simp: path_of_def path_parts_slash path_parts_join
        path_parts_def [of "''.''"] split_char_single path_parts_def [of "''''"])
  then show ?thesis
    using assms by (simp add: components_def is_abs_path_of clean_parts_no_dots)
qed

lemma is_abs_clean [simp, go_path]: "is_abs (path_clean p) = is_abs p"
  unfolding path_clean_def by (rule is_abs_path_of) (auto dest: components_ok)

lemma components_clean [simp, go_path]:
  "is_abs p \<Longrightarrow> components (path_clean p) = components p"
  unfolding path_clean_def
  by (rule components_path_of) (auto dest: components_ok components_rooted)

lemma path_clean_eq_iff:
  assumes "is_abs p" and "is_abs q"
  shows "path_clean p = path_clean q \<longleftrightarrow> components p = components q"
proof
  assume "path_clean p = path_clean q"
  then have "components (path_clean p) = components (path_clean q)" by (rule arg_cong)
  then show "components p = components q" using assms by simp
next
  assume "components p = components q"
  then show "path_clean p = path_clean q"
    using assms by (simp add: path_clean_def)
qed

lemma path_clean_idem: "is_abs p \<Longrightarrow> path_clean (path_clean p) = path_clean p"
  by (subst path_clean_eq_iff) simp_all

section \<open>Relative paths\<close>

lemma strip_common_spec:
  "strip_common xs ys = (bs, ts) \<Longrightarrow>
     \<exists>zs. xs = zs @ bs \<and> ys = zs @ ts \<and> (bs = [] \<or> ts = [] \<or> hd bs \<noteq> hd ts)"
  by (induction xs ys rule: strip_common.induct) (fastforce split: if_splits)+

lemma strip_common_prefix: "fst (strip_common xs ys) = [] \<longleftrightarrow> prefix xs ys"
  by (induction xs ys rule: strip_common.induct) auto

text \<open>
  Inside an absolute root, \<open>Rel\<close> never fails, and its result leaves the root exactly when
  the target's elements do not extend the root's.
\<close>

definition leaves_root :: "string \<Rightarrow> bool" where
  "leaves_root rel \<longleftrightarrow> rel = ''..'' \<or> has_prefix rel ''../''"

lemma join_dots_leaves:
  "leaves_root (join ''/'' (replicate (Suc n) ''..'' @ ts))"
  by (cases "replicate n ''..'' @ ts") (auto simp: leaves_root_def has_prefix_def)

lemma join_parts_stays:
  assumes "\<forall>x\<in>set ts. part_ok x" and "''..'' \<notin> set ts" and "ts \<noteq> []"
  shows "\<not> leaves_root (join ''/'' ts)"
proof
  assume "leaves_root (join ''/'' ts)"
  then have "hd (split_char (CHR ''/'') (join ''/'' ts)) = ''..''"
    using split_char_append [of "CHR ''/''" "''..''"] split_char_single [of "CHR ''/''" "''..''"]
    by (auto simp: leaves_root_def has_prefix_iff)
  moreover have "split_char (CHR ''/'') (join ''/'' ts) = ts"
    using assms by (intro split_char_join) (auto simp: part_ok_def)
  ultimately show False using assms(2,3) by (metis list.set_sel(1))
qed

lemma part_ok_dots: "part_ok ''..''"
  by (simp add: part_ok_def)

lemma path_rel_abs [go_path]:
  assumes "is_abs base" and "is_abs targ"
  obtains rel where "path_rel base targ = Inr rel"
    and "rel = ''.'' \<longleftrightarrow> components base = components targ"
    and "leaves_root rel \<longleftrightarrow> \<not> prefix (components base) (components targ)"
proof (cases "components base = components targ")
  case True
  then have "path_rel base targ = Inr ''.''"
    using assms by (simp add: path_rel_def path_clean_eq_iff Let_def)
  with True show ?thesis by (intro that) (auto simp: leaves_root_def has_prefix_def)
next
  case False
  obtain bs ts where st: "strip_common (components base) (components targ) = (bs, ts)"
    by fastforce
  then obtain zs where z: "components base = zs @ bs" "components targ = zs @ ts"
    using strip_common_spec by blast
  have nd: "''..'' \<notin> set bs" "''..'' \<notin> set ts"
    using components_rooted assms z by (metis Un_iff set_append)+
  have ok: "\<forall>x\<in>set ts. part_ok x" using components_ok [of _ targ] z(2) by auto
  have pre: "bs = [] \<longleftrightarrow> prefix (components base) (components targ)"
    using st strip_common_prefix [of "components base" "components targ"] by simp
  let ?rel = "join ''/'' (replicate (length bs) ''..'' @ ts)"
  have r: "path_rel base targ = Inr ?rel"
    using False assms st nd(1) by (cases bs) (auto simp: path_rel_def path_clean_eq_iff Let_def)
  have l: "leaves_root ?rel \<longleftrightarrow> bs \<noteq> []"
  proof (cases bs)
    case Nil
    with False z have "ts \<noteq> []" by auto
    with Nil ok nd join_parts_stays show ?thesis by simp
  next
    case (Cons b bs')
    then show ?thesis using join_dots_leaves [of "length bs'" ts] by simp
  qed
  have "?rel \<noteq> ''.''"
  proof
    assume e: "?rel = ''.''"
    have "\<forall>x\<in>set (replicate (length bs) ''..'' @ ts). part_ok x"
      using ok part_ok_dots by auto
    then have "path_parts ?rel = replicate (length bs) ''..'' @ ts" by (rule path_parts_join)
    moreover have "path_parts ''.'' = []" by (simp add: path_parts_def split_char_single)
    ultimately show False using e False z by auto
  qed
  with r l pre False show ?thesis by (intro that) simp_all
qed

end
