(* ===== verification/AuditChain.thy ===== *)
theory AuditChain
  imports AuditSanitize GoJson RequestPolicy GoPaths
begin

text \<open>
  The audit log (\<open>internal/adapters/audit/file.go\<close>, \<open>verify.go\<close>): one JSON record per line,
  each with the hash of the record before it and its own hash, the writer, and the verifier
  that a broker runs on the log before it starts.

  The operating system decides how many bytes an append writes and whether a sync succeeds: a
  record of functions over the rest \<open>'e\<close> of the world.
\<close>

section \<open>Times and events as JSON\<close>

text \<open>The civil date of a day, counted from 1970-01-01 (proleptic Gregorian calendar).\<close>

definition civil_of_day :: "int \<Rightarrow> int \<times> int \<times> int" where
  "civil_of_day day =
     (let z = day + 719468;
          era = z div 146097;
          doe = z - era * 146097;
          yoe = (doe - doe div 1460 + doe div 36524 - doe div 146096) div 365;
          doy = doe - (365 * yoe + yoe div 4 - yoe div 100);
          mp = (5 * doy + 2) div 153;
          d = doy - (153 * mp + 2) div 5 + 1;
          m = (if mp < 10 then mp + 3 else mp - 9);
          y = yoe + era * 400
      in (if m \<le> 2 then y + 1 else y, m, d))"

definition pad_num :: "nat \<Rightarrow> int \<Rightarrow> string" where
  "pad_num n i = (let s = itoa i in replicate (n - length s) (CHR ''0'') @ s)"

definition trim_zeros :: "string \<Rightarrow> string" where
  "trim_zeros s = rev (dropWhile (\<lambda>c. c = CHR ''0'') (rev s))"

text \<open>
  \<open>time.Time\<close> in UTC as JSON: RFC 3339 with the fraction that is needed. A year outside
  \<open>[0, 9999]\<close> has no encoding.
\<close>

definition json_time :: "int \<Rightarrow> string option" where
  "json_time ns =
     (let sec = ns div second; frac = ns mod second; day = sec div 86400; s = sec mod 86400;
          (y, m, d) = civil_of_day day in
      if y < 0 \<or> 9999 < y then None
      else Some ([quote_char] @ pad_num 4 y @ ''-'' @ pad_num 2 m @ ''-'' @ pad_num 2 d @ ''T'' @
        pad_num 2 (s div 3600) @ '':'' @ pad_num 2 (s div 60 mod 60) @ '':'' @ pad_num 2 (s mod 60) @
        (if frac = 0 then '''' else ''.'' @ trim_zeros (pad_num 9 frac)) @ ''Z'' @ [quote_char]))"

text \<open>A field of a struct with the tag \<open>omitempty\<close>.\<close>

definition omit_empty :: "string \<Rightarrow> string \<Rightarrow> (string \<times> string) list" where
  "omit_empty k v = (if v = '''' then [] else [(k, json_quote v)])"

definition sort_keys :: "string go_map \<Rightarrow> string go_map" where
  "sort_keys m = sort_key fst m"

definition event_fields :: "audit_event \<Rightarrow> string \<Rightarrow> (string \<times> string) list" where
  "event_fields e ts =
     [(''event'', json_quote (ev_event e)), (''timestamp'', ts)] @
     omit_empty ''actor_type'' (ev_actor_type e) @ omit_empty ''actor_id'' (ev_actor_id e) @
     omit_empty ''agent_id'' (ev_agent_id e) @ omit_empty ''task_id'' (ev_task_id e) @
     omit_empty ''request_id'' (ev_request_id e) @ omit_empty ''lease_token'' (ev_lease_token e) @
     omit_empty ''secret'' (ev_secret e) @
     (if ev_metadata e = [] then []
      else [(''metadata'',
        json_object (map (\<lambda>(k, v). (k, json_quote v)) (sort_keys (ev_metadata e))))])"

definition marshal_event :: "audit_event \<Rightarrow> gerror + string" where
  "marshal_event e =
     (case json_time (ev_timestamp e) of
        None \<Rightarrow> Inl (Plain ''json: error calling MarshalJSON for type time.Time'')
      | Some ts \<Rightarrow> Inr (json_object (event_fields e ts)))"

definition format_stored_audit_line :: "string \<Rightarrow> string \<Rightarrow> string \<Rightarrow> string" where
  "format_stored_audit_line event_raw prev_hash hash =
     json_object [(''event'', event_raw), (''prev_hash'', json_quote prev_hash),
       (''hash'', json_quote hash)]"

section \<open>The sink\<close>

text \<open>
  \<open>ao_append\<close> is one \<open>write\<close>: \<open>None\<close> when all bytes are in the file, otherwise how many are and
  the error.
\<close>

record 'e audit_os =
  ao_append :: "string \<Rightarrow> 'e \<Rightarrow> (nat \<times> gerror) option \<times> 'e"
  ao_sync_file :: "'e \<Rightarrow> gerror option \<times> 'e"
  ao_sync_parent :: "'e \<Rightarrow> gerror option \<times> 'e"

record file_sink =
  fk_content :: string
  fk_last_hash :: string
  fk_need_sync :: bool

definition new_line :: char where "new_line = CHR 0x0A"

definition sink_write ::
  "'e audit_os \<Rightarrow> audit_event \<Rightarrow> file_sink \<times> 'e \<Rightarrow> gerror option \<times> (file_sink \<times> 'e)" where
  "sink_write os event st =
     (case st of (k, e) \<Rightarrow>
       let event = sanitize_audit_event event in
       (case marshal_event event of
          Inl err \<Rightarrow> (Some err, k, e)
        | Inr raw \<Rightarrow>
          let h = sha256_hex (format_stored_audit_line raw (fk_last_hash k) '''');
              line = format_stored_audit_line raw (fk_last_hash k) h @ [new_line] in
          (case ao_append os line e of
             (Some (n, err), e) \<Rightarrow> (Some err, k\<lparr>fk_content := fk_content k @ take n line\<rparr>, e)
           | (None, e) \<Rightarrow>
             let k = k\<lparr>fk_content := fk_content k @ line\<rparr> in
             (case ao_sync_file os e of
                (Some err, e) \<Rightarrow> (Some err, k, e)
              | (None, e) \<Rightarrow>
                if fk_need_sync k then
                  (case ao_sync_parent os e of
                     (Some err, e) \<Rightarrow> (Some err, k, e)
                   | (None, e) \<Rightarrow> (None, k\<lparr>fk_need_sync := False, fk_last_hash := h\<rparr>, e))
                else (None, k\<lparr>fk_last_hash := h\<rparr>, e)))))"

section \<open>The verifier\<close>

record stored_audit_line =
  sl_event_raw :: string
  sl_prev_hash :: string
  sl_hash :: string

definition parse_stored_audit_line :: "string \<Rightarrow> gerror + stored_audit_line" where
  "parse_stored_audit_line line =
     (let trimmed = trim_space line in
      if trimmed = '''' then Inl (Plain ''invalid json: empty line'')
      else case json_fields trimmed of
        None \<Rightarrow> Inl (Plain ''invalid json'')
      | Some raw \<Rightarrow>
        if length raw \<noteq> 3 then Inl (Plain ''unexpected top-level fields'')
        else case go_get raw ''event'' of
          None \<Rightarrow> Inl (Plain ''missing event field'')
        | Some event_raw \<Rightarrow>
          (case go_get raw ''prev_hash'' of
             None \<Rightarrow> Inl (Plain ''missing prev_hash field'')
           | Some prev_raw \<Rightarrow>
             (case go_get raw ''hash'' of
                None \<Rightarrow> Inl (Plain ''missing hash field'')
              | Some hash_raw \<Rightarrow>
                (case json_to_string prev_raw of
                   None \<Rightarrow> Inl (Plain ''invalid prev_hash'')
                 | Some prev_hash \<Rightarrow>
                   (case json_to_string hash_raw of
                      None \<Rightarrow> Inl (Plain ''invalid hash'')
                    | Some hash \<Rightarrow>
                      if trimmed \<noteq> format_stored_audit_line event_raw prev_hash hash then
                        Inl (Plain ''non-canonical audit record encoding'')
                      else Inr \<lparr>sl_event_raw = event_raw, sl_prev_hash = prev_hash,
                                sl_hash = hash\<rparr>)))))"

text \<open>
  \<open>bufio.Scanner\<close> over the content: the lines, and an error at the first one that does not fit
  its buffer of 64 KiB.
\<close>

definition max_scan_token_size :: nat where "max_scan_token_size = 65536"

definition line_too_long :: "string \<Rightarrow> bool" where
  "line_too_long line \<longleftrightarrow> max_scan_token_size \<le> length line"

definition content_lines :: "string \<Rightarrow> string list" where
  "content_lines content =
     (let ls = split_char new_line content in if last ls = [] then butlast ls else ls)"

definition drop_cr :: "string \<Rightarrow> string" where
  "drop_cr line = (if line \<noteq> [] \<and> last line = CHR 0x0D then butlast line else line)"

definition at_line :: "nat \<Rightarrow> string \<Rightarrow> gerror" where
  "at_line n msg = Plain (''line '' @ show_nat n @ '': '' @ msg)"

fun verify_loop ::
  "string \<Rightarrow> string \<Rightarrow> nat \<Rightarrow> string \<Rightarrow> bool \<Rightarrow> string list \<Rightarrow> gerror + (string \<times> nat \<times> bool)"
where
  "verify_loop checkpoint prev count lst found [] = Inr (lst, count, found)"
| "verify_loop checkpoint prev count lst found (raw # lines) =
     (if line_too_long raw then Inl (Plain ''bufio.Scanner: token too long'')
      else let line = trim_space (drop_cr raw) in
      if line = '''' then verify_loop checkpoint prev count lst found lines
      else case parse_stored_audit_line line of
        Inl e \<Rightarrow> Inl (Wrapped e (''line '' @ show_nat (count + 1) @ '': '' @ err_msg e))
      | Inr r \<Rightarrow>
        if sl_prev_hash r \<noteq> prev then Inl (at_line (count + 1) ''prev hash mismatch'')
        else if sl_hash r \<noteq>
          sha256_hex (format_stored_audit_line (sl_event_raw r) (sl_prev_hash r) '''')
        then Inl (at_line (count + 1) ''hash mismatch'')
        else verify_loop checkpoint (sl_hash r) (count + 1) (sl_hash r)
               (found \<or> (checkpoint \<noteq> '''' \<and> sl_hash r = checkpoint)) lines)"

definition verify_content :: "string \<Rightarrow> string \<Rightarrow> gerror + (string \<times> nat)" where
  "verify_content content checkpoint =
     (case verify_loop checkpoint '''' 0 '''' (checkpoint = '''') (content_lines content) of
        Inl e \<Rightarrow> Inl e
      | Inr (lst, count, found) \<Rightarrow>
          if \<not> found then Inl (Plain (''checkpoint hash '' @ checkpoint @
            '' not found in verified audit chain''))
          else Inr (lst, count))"

definition verify_file :: "string \<Rightarrow> gerror + (string \<times> nat)" where
  "verify_file content = verify_content content ''''"

definition verify_file_anchored :: "string \<Rightarrow> string \<Rightarrow> gerror + (string \<times> nat)" where
  "verify_file_anchored content checkpoint = verify_content content (trim_space checkpoint)"

text \<open>
  Opening the log: a new file is empty, an existing one must verify. The directory, the lock
  and the file handle are the operating system's.
\<close>

definition new_file_sink :: "string option \<Rightarrow> gerror + file_sink" where
  "new_file_sink existing =
     (case existing of
        None \<Rightarrow> Inr \<lparr>fk_content = '''', fk_last_hash = '''', fk_need_sync = True\<rparr>
      | Some content \<Rightarrow>
          (case verify_file content of
             Inl e \<Rightarrow> Inl (Wrapped e (''verify audit log: '' @ err_msg e))
           | Inr (lst, _) \<Rightarrow>
               Inr \<lparr>fk_content = content, fk_last_hash = lst, fk_need_sync = False\<rparr>))"

end
