(* ===== verification/AuditChainProps.thy ===== *)
theory AuditChainProps
  imports AuditChain
begin

text \<open>
  What the hash chain gives: everything the sink writes verifies, a log that verifies cannot be
  changed without a collision of SHA-256 among its own records, and a checkpoint pins a record.
\<close>

section \<open>Strings without escapes\<close>

definition simple_char :: "char \<Rightarrow> bool" where
  "simple_char c \<longleftrightarrow> 0x20 \<le> byte c \<and> byte c < 0x80 \<and>
     c \<notin> {quote_char, back_char, CHR ''<'', CHR ''>'', CHR 0x26}"

lemma rune_spans_ascii: "list_all (\<lambda>c. byte c < 0x80) s \<Longrightarrow> rune_spans s = map (\<lambda>c. (True, [c])) s"
  by (induction s) (simp_all add: rune_width_def)

lemma simple_ascii: "list_all simple_char s \<Longrightarrow> list_all (\<lambda>c. byte c < 0x80) s"
  by (auto simp: list_all_iff simple_char_def)

lemma json_body_simple [json]: "list_all simple_char s \<Longrightarrow> json_body s = s"
proof -
  assume s: "list_all simple_char s"
  have r: "json_rune (True, [c]) = [c]" if "simple_char c" for c
    using that by (intro json_rune_plain) (auto simp: simple_char_def)
  have "concat (map json_rune (map (\<lambda>c. (True, [c])) s)) = s"
    using s by (induction s) (simp_all add: r)
  then show ?thesis using rune_spans_ascii [OF simple_ascii [OF s]] by (simp add: json_body_def)
qed

lemma json_unescape_simple: "list_all simple_char s \<Longrightarrow> json_unescape s = s"
  by (induction s) (auto simp: simple_char_def)

lemma json_unquote_simple [json]:
  assumes "list_all simple_char s" shows "json_unquote (quote_char # s @ [quote_char]) = s"
proof -
  have "concat (runes s) = s"
    using rune_spans_ascii [OF simple_ascii [OF assms]] by (induction s) (simp_all add: runes_def comp_def)
  then show ?thesis using json_unescape_simple [OF assms] by (simp add: json_unquote_def)
qed

lemma json_quote_simple [json]:
  "list_all simple_char s \<Longrightarrow> json_quote s = quote_char # s @ [quote_char]"
  by (simp add: json_quote_def json_body_simple)

lemma json_to_string_simple [json]:
  "list_all simple_char s \<Longrightarrow> json_to_string (json_quote s) = Some s"
  by (simp add: json_to_string_def json_quote_simple json_unquote_simple quote_char_def [symmetric])
    (simp add: quote_char_def)

text \<open>What a hash field holds: nothing, or hex digits.\<close>

definition hash_like :: "string \<Rightarrow> bool" where
  "hash_like h \<longleftrightarrow> h = '''' \<or> length h = 64 \<and> list_all simple_char h"

lemma hash_like_simple: "hash_like h \<Longrightarrow> list_all simple_char h"
  by (auto simp: hash_like_def)

lemma hex_digit_simple: "n < 16 \<Longrightarrow> simple_char (hex_digit n)"
  by (auto simp: simple_char_def hex_digit_def quote_char_def back_char_def
      dest: arg_cong [of _ _ byte])

lemma hash_like_sha [simp]: "hash_like (sha256_hex m)"
proof -
  have "byte c div 16 < 16" for c :: char
    by (rule less_mult_imp_div_less) simp
  then have "list_all simple_char (hex_encode s)" for s
    by (induction s) (simp_all add: hex_encode_def hex_byte_def hex_digit_simple)
  then show ?thesis using length_sha256_hex [of m] by (simp add: hash_like_def sha256_hex_def)
qed

lemma hash_like_Nil [simp]: "hash_like []"
  by (simp add: hash_like_def)

section \<open>A written line is read back\<close>

text \<open>Enough fuel to read a value is its length.\<close>

definition reads_whole :: "nat \<Rightarrow> string \<Rightarrow> bool" where
  "reads_whole d v \<longleftrightarrow> (\<forall>m\<ge>length v. reads m d v)"

lemma reads_whole_quote [json]: "reads_whole d (json_quote s)"
  unfolding reads_whole_def
proof (intro allI impI)
  fix m assume "length (json_quote s) \<le> m"
  then obtain n where "m = Suc n" by (cases m) (auto simp: json_quote_def)
  then show "reads m d (json_quote s)" by (simp add: reads_quote)
qed

lemma length_json_field: "length v + 3 \<le> length (json_field (k, v))"
  by (simp add: json_field_def json_quote_def)

lemma length_join_fields:
  "length v + 3 * length fs \<le> length (join '','' (map json_field fs))"
  if "(k, v) \<in> set fs"
  using that
proof (induction fs rule: induct_list012)
  case (2 f)
  then show ?case using length_json_field [of v k] by auto
next
  case (3 f g fs)
  have ge: "3 * length gs \<le> length (join '','' (map json_field gs))" for gs
  proof (induction gs rule: induct_list012)
    case (2 f)
    then show ?case using length_json_field [of "snd f" "fst f"] by simp
  next
    case (3 f g fs)
    then show ?case using length_json_field [of "snd f" "fst f"] by simp
  qed simp
  show ?case
  proof (cases "(k, v) = f")
    case True
    then show ?thesis using ge [of "g # fs"] length_json_field [of v k] by auto
  next
    case False
    then show ?thesis using 3 length_json_field [of "snd f" "fst f"] by auto
  qed
qed simp

lemma reads_whole_object [json]:
  assumes "\<forall>(k, v)\<in>set fs. reads_whole (Suc d) v" and "d < max_nesting_depth"
  shows "reads_whole d (json_object fs)"
  unfolding reads_whole_def
proof (intro allI impI)
  fix m assume m: "length (json_object fs) \<le> m"
  define n where "n = Max (insert 0 ((length \<circ> snd) ` set fs))"
  have le: "length v \<le> n" if "(k, v) \<in> set fs" for k v
    using that by (force simp: n_def intro!: Max_ge)
  have "n + length fs < m"
  proof (cases "n = 0")
    case True
    have "length fs \<le> length (join '','' (map json_field fs))"
    proof (cases fs)
      case (Cons f gs)
      then show ?thesis using length_join_fields [of "fst f" "snd f" fs] by simp
    qed simp
    with True m show ?thesis by (simp add: json_object_def)
  next
    case False
    have "n \<in> insert 0 ((length \<circ> snd) ` set fs)" unfolding n_def by (rule Max_in) auto
    with False obtain k v where "(k, v) \<in> set fs" "n = length v" by auto
    with length_join_fields [of k v fs] m show ?thesis by (auto simp: json_object_def)
  qed
  moreover have "\<forall>(k, v)\<in>set fs. \<forall>m\<ge>n. reads m (Suc d) v"
    using assms(1) le by (fastforce simp: reads_whole_def)
  ultimately show "reads m d (json_object fs)"
    using reads_object assms(2) by blast
qed

lemma object_fields_step:
  assumes "reads n 1 v" and "list_all simple_char k"
  shows "object_fields (Suc n) (json_field (k, v) @ t) acc =
    (case skip_ws t of
       [] \<Rightarrow> None
     | y # r \<Rightarrow>
         if y = CHR '','' then object_fields n (skip_ws r) (go_set acc k v)
         else if y = CHR ''}'' then Some (go_set acc k v, r)
         else None)"
proof -
  have k: "json_field (k, v) @ t = quote_char # k @ quote_char # CHR '':'' # v @ t"
    using assms(2) by (simp add: json_field_def json_quote_simple)
  have sc: "scan_str (k @ quote_char # u) = Some (k @ [quote_char], u)" for u
    using scan_str_body [of k u] by (simp add: json_body_simple [OF assms(2)])
  have sv: "scan_value n 1 (skip_ws (v @ t)) = Some (v, t)"
    using assms(1) by (simp add: reads_def skip_ws_id del: One_nat_def)
  show ?thesis
    unfolding k using sv
    by (simp add: sc json_unquote_simple [OF assms(2)] Let_def del: One_nat_def)
qed

definition audit_keys_ok :: bool where
  "audit_keys_ok \<longleftrightarrow> list_all (list_all simple_char) [''event'', ''prev_hash'', ''hash'']"

lemma audit_keys_ok: "audit_keys_ok"
  by code_simp

lemma json_fields_line:
  assumes raw: "reads_whole 1 raw" and p: "list_all simple_char p" and h: "list_all simple_char h"
  shows "json_fields (format_stored_audit_line raw p h) =
    Some [(''event'', raw), (''prev_hash'', json_quote p), (''hash'', json_quote h)]"
proof -
  let ?fe = "json_field (''event'', raw)" and ?fp = "json_field (''prev_hash'', json_quote p)"
    and ?fh = "json_field (''hash'', json_quote h)"
  let ?line = "format_stored_audit_line raw p h"
  have line: "?line = ''{'' @ ?fe @ '','' @ ?fp @ '','' @ ?fh @ ''}''"
    by (simp add: format_stored_audit_line_def json_object_def)
  have keys: "list_all simple_char ''event''" "list_all simple_char ''prev_hash''"
    "list_all simple_char ''hash''" using audit_keys_ok by (simp_all add: audit_keys_ok_def)
  have len: "length raw \<le> length ?line"
    using length_json_field [of raw "''event''"] by (simp add: line)
  obtain n where n: "Suc (length ?line) = Suc (Suc (Suc n))" and rn: "length raw \<le> Suc (Suc n)"
  proof -
    have "2 \<le> length ?line" by (simp add: line)
    then obtain n where "length ?line = Suc (Suc n)" by (metis add_2_eq_Suc le_Suc_ex)
    with len show thesis by (intro that [of n]) auto
  qed
  have n1: "1 \<le> n"
    using n length_json_field [of raw "''event''"] by (simp add: line)
  then obtain n' where n': "n = Suc n'" by (cases n) auto
  have rr: "reads (Suc (Suc n)) 1 raw" using raw rn by (simp add: reads_whole_def)
  have rp: "reads (Suc n) 1 (json_quote p)" and rh: "reads n 1 (json_quote h)"
    by (simp_all add: reads_quote n')
  obtain x y z where q: "?fe = quote_char # x" "?fp = quote_char # y" "?fh = quote_char # z"
    using json_field_head by meson
  have s3: "object_fields (Suc n) (?fh @ ''}'') acc = Some (go_set acc ''hash'' (json_quote h), [])" for acc
    using object_fields_step [OF rh keys(3), of "''}''" acc] by simp
  have s2: "object_fields (Suc (Suc n)) (?fp @ '','' @ ?fh @ ''}'') acc =
      Some (go_set (go_set acc ''prev_hash'' (json_quote p)) ''hash'' (json_quote h), [])" for acc
    using object_fields_step [OF rp keys(2), of "'','' @ ?fh @ ''}''" acc] s3 q(3)
    by (simp add: quote_char_def)
  have s1: "object_fields (Suc (Suc (Suc n))) (?fe @ '','' @ ?fp @ '','' @ ?fh @ ''}'') [] =
      Some ([(''event'', raw), (''prev_hash'', json_quote p), (''hash'', json_quote h)], [])"
    using object_fields_step [OF rr keys(1), of "'','' @ ?fp @ '','' @ ?fh @ ''}''" "[]"] s2 q(2)
    by (simp add: quote_char_def)
  show ?thesis
    using s1 unfolding json_fields_def Let_def n by (simp add: line q(1) quote_char_def)
qed

lemma trim_space_braces: "trim_space (CHR ''{'' # m @ [CHR ''}'']) = CHR ''{'' # m @ [CHR ''}'']"
proof -
  have l: "leading_rune space_runes (CHR ''{'' # u) = None" for u
    by (simp add: leading_rune_None space_runes_def has_prefix_def)
  have r: "leading_rune (map rev space_runes) (CHR ''}'' # u) = None" for u
    by (simp add: leading_rune_None space_runes_def has_prefix_def)
  show ?thesis
    by (simp add: trim_space_def trim_left_def trim_right_def trim_runes_None l r)
qed

lemma line_braces:
  "\<exists>m. format_stored_audit_line raw p h = CHR ''{'' # m @ [CHR ''}'']"
  by (simp add: format_stored_audit_line_def json_object_def)

lemma parse_formatted_line [json]:
  assumes "reads_whole 1 raw" and "hash_like p" and "hash_like h"
  shows "parse_stored_audit_line (format_stored_audit_line raw p h) =
    Inr \<lparr>sl_event_raw = raw, sl_prev_hash = p, sl_hash = h\<rparr>"
proof -
  note hs = assms(2,3) [THEN hash_like_simple]
  obtain m where m: "format_stored_audit_line raw p h = CHR ''{'' # m @ [CHR ''}'']"
    using line_braces by blast
  then have t: "trim_space (format_stored_audit_line raw p h) = format_stored_audit_line raw p h"
    by (simp add: trim_space_braces)
  from m have "format_stored_audit_line raw p h \<noteq> []" by simp
  then show ?thesis
    by (simp add: parse_stored_audit_line_def t Let_def json_fields_line [OF assms(1) hs]
        json_to_string_simple hs)
qed

text \<open>A time is encoded without escapes, and every encoded event is read back as one value.\<close>

lemma json_time_simple:
  assumes "json_time t = Some ts"
  obtains body where "list_all simple_char body" and "ts = json_quote body"
proof -
  have simple: "list_all simple_char (itoa i)" for i
  proof -
    have d: "n < 10 \<Longrightarrow> simple_char (char_of (48 + n))" for n :: nat
      by (auto simp: simple_char_def quote_char_def back_char_def dest!: arg_cong [of _ _ byte])
    have "list_all simple_char (show_nat n)" for n
      by (induction n rule: show_nat.induct) (subst show_nat.simps, auto intro: d)
    then show ?thesis
      by (auto simp: itoa_def simple_char_def quote_char_def back_char_def)
  qed
  have zero: "simple_char (CHR ''0'')" by code_simp
  then have pad: "list_all simple_char (pad_num n i)" for n i
    using simple [of i] by (auto simp: pad_num_def Let_def list_all_iff)
  have tz: "list_all simple_char (trim_zeros u)" if "list_all simple_char u" for u
    using that by (auto simp: trim_zeros_def list_all_iff dest: set_dropWhileD)
  obtain y m d where cv: "civil_of_day (t div second div 86400) = (y, m, d)"
    by (metis prod_cases3)
  have chars: "list_all simple_char ''-''" "list_all simple_char ''T''" "list_all simple_char '':''"
    "list_all simple_char ''.''" "list_all simple_char ''Z''" by code_simp+
  obtain frac where f: "list_all simple_char frac"
    and fr: "frac = (if t mod second = 0 then [] else ''.'' @
      trim_zeros (pad_num 9 (t mod second)))"
    using tz [OF pad] chars by auto
  define s where "s = t div second mod 86400"
  define body where "body = pad_num 4 y @ ''-'' @ pad_num 2 m @ ''-'' @ pad_num 2 d @ ''T'' @
    pad_num 2 (s div 3600) @ '':'' @ pad_num 2 (s div 60 mod 60) @ '':'' @ pad_num 2 (s mod 60) @
    frac @ ''Z''"
  have b: "list_all simple_char body"
    unfolding body_def list_all_append using pad chars f by simp
  have "ts = quote_char # body @ [quote_char]"
    using assms cv by (simp add: json_time_def Let_def body_def fr s_def split: if_splits)
  then have "ts = json_quote body" by (simp add: json_quote_simple [OF b])
  with b show thesis by (rule that)
qed

lemma marshal_event_reads:
  assumes "marshal_event e = Inr raw" shows "reads_whole 1 raw"
proof -
  obtain ts where ts: "json_time (ev_timestamp e) = Some ts" and raw: "raw = json_object (event_fields e ts)"
    using assms by (auto simp: marshal_event_def split: option.splits)
  obtain body where "ts = json_quote body" by (rule json_time_simple [OF ts])
  then have tsr: "reads_whole d ts" for d by (simp add: reads_whole_quote)
  have md: "reads_whole 2 (json_object (map (\<lambda>(k, v). (k, json_quote v)) m))" for m
    by (rule reads_whole_object) (auto simp: reads_whole_quote max_nesting_depth_def)
  have "\<forall>(k, v)\<in>set (event_fields e ts). reads_whole 2 v"
    using md tsr by (auto simp: event_fields_def omit_empty_def reads_whole_quote split: if_splits)
  then show ?thesis
    unfolding raw by (intro reads_whole_object) (simp_all add: max_nesting_depth_def numeral_2_eq_2)
qed

section \<open>Lines of a growing file\<close>

lemma split_char_at: "split_char c (a @ c # b) = split_char c a @ split_char c b"
proof (induction a rule: length_induct)
  case (1 a)
  show ?case
  proof (cases "c \<in> set a")
    case True
    then obtain u v where a: "a = u @ c # v" and u: "c \<notin> set u" by (meson split_list_first)
    then have "split_char c (v @ c # b) = split_char c v @ split_char c b" using 1 by simp
    with u show ?thesis by (simp add: a split_char_append)
  next
    case False
    then show ?thesis by (simp add: split_char_append split_char_single)
  qed
qed

definition whole_lines :: "string \<Rightarrow> bool" where
  "whole_lines content \<longleftrightarrow> content = [] \<or> last content = new_line"

lemma content_lines_append:
  assumes "whole_lines content" and "new_line \<notin> set line" and "line \<noteq> []"
  shows "content_lines (content @ line @ [new_line]) = content_lines content @ [line]"
proof (cases "content = []")
  case True
  with assms(2,3) show ?thesis
    using split_char_at [of new_line line "[]"]
    by (simp add: content_lines_def Let_def split_char_single)
next
  case False
  with assms(1) obtain c where c: "content = c @ [new_line]"
    by (metis append_butlast_last_id whole_lines_def)
  have "split_char new_line (content @ line @ [new_line]) = split_char new_line c @ [line, []]"
    using split_char_at [of new_line c "line @ [new_line]"] split_char_at [of new_line line "[]"] assms(2)
    by (simp add: c split_char_single)
  moreover have "split_char new_line content = split_char new_line c @ [[]]"
    using split_char_at [of new_line c "[]"] by (simp add: c split_char_single)
  ultimately show ?thesis by (simp add: content_lines_def Let_def butlast_append)
qed

lemma verify_loop_append:
  "verify_loop ck p n p f (xs @ ys) =
     (case verify_loop ck p n p f xs of
        Inl e \<Rightarrow> Inl e
      | Inr (l, m, g) \<Rightarrow> verify_loop ck l m l g ys)"
proof (induction xs arbitrary: p n f)
  case (Cons x xs)
  show ?case
    by (simp add: Let_def Cons.IH split: sum.splits)
qed simp

lemma verify_loop_found: "verify_loop ck p n l True xs = Inr (h, m, g) \<Longrightarrow> g"
proof (induction xs arbitrary: p n l)
  case (Cons x xs)
  then show ?case by (simp add: Let_def split: if_splits sum.splits)
qed simp

lemma verify_file_loop:
  "verify_file c = Inr (h, n) \<longleftrightarrow> verify_loop [] [] 0 [] True (content_lines c) = Inr (h, n, True)"
  using verify_loop_found [of "[]" "[]" 0 "[]" "content_lines c"]
  by (fastforce simp: verify_file_def verify_content_def split: sum.splits if_splits prod.splits)

section \<open>The writer and the verifier agree\<close>

text \<open>What an event adds to the log after a record with hash \<open>p\<close>.\<close>

definition audit_line :: "string \<Rightarrow> string \<Rightarrow> string" where
  "audit_line p raw =
     format_stored_audit_line raw p (sha256_hex (format_stored_audit_line raw p []))"

lemma drop_cr_brace [simp]: "drop_cr (CHR ''{'' # m @ [CHR ''}'']) = CHR ''{'' # m @ [CHR ''}'']"
  by (simp add: drop_cr_def)

lemma verify_step:
  assumes raw: "reads_whole 1 raw" and p: "hash_like p" and short: "\<not> line_too_long (audit_line p raw)"
  shows "verify_loop ck q n l f [audit_line p raw] =
    (if p \<noteq> q then Inl (at_line (n + 1) ''prev hash mismatch'')
     else let h = sha256_hex (format_stored_audit_line raw p []) in
       Inr (h, n + 1, f \<or> (ck \<noteq> [] \<and> h = ck)))"
proof -
  let ?h = "sha256_hex (format_stored_audit_line raw p [])"
  obtain m where m: "audit_line p raw = CHR ''{'' # m @ [CHR ''}'']"
    using line_braces by (metis audit_line_def)
  then have t: "trim_space (drop_cr (audit_line p raw)) = audit_line p raw"
    by (simp add: trim_space_braces)
  have ne: "audit_line p raw \<noteq> []" using m by simp
  have pr: "parse_stored_audit_line (audit_line p raw) =
      Inr \<lparr>sl_event_raw = raw, sl_prev_hash = p, sl_hash = ?h\<rparr>"
    unfolding audit_line_def by (rule parse_formatted_line [OF raw p]) simp
  show ?thesis using short ne by (simp add: t pr Let_def)
qed

text \<open>No record holds a line break.\<close>


lemma quote_no_newline [simp]: "new_line \<notin> set (json_quote s)"
proof
  assume "new_line \<in> set (json_quote s)"
  then have "0x20 \<le> byte new_line" by (rule json_quote_printable)
  then show False by (simp add: new_line_def)
qed

lemma set_join_fields: "set (join '','' (map json_field fs)) \<subseteq> insert (CHR '','') (\<Union> (set ` json_field ` set fs))"
  by (induction fs rule: induct_list012) auto

lemma new_line_ne [simp]:
  "new_line \<noteq> CHR '':''" "new_line \<noteq> CHR '',''" "new_line \<noteq> CHR ''{''" "new_line \<noteq> CHR ''}''"
  by (simp_all add: new_line_def)

lemma object_no_newline:
  assumes "\<forall>(k, v)\<in>set fs. new_line \<notin> set v" shows "new_line \<notin> set (json_object fs)"
proof -
  have f: "new_line \<notin> set (json_field f)" if "f \<in> set fs" for f
  proof (cases f)
    case (Pair k v)
    with assms that have "new_line \<notin> set v" by auto
    then show ?thesis by (simp add: Pair json_field_def)
  qed
  have "new_line \<notin> set (join '','' (map json_field fs))"
  proof
    assume "new_line \<in> set (join '','' (map json_field fs))"
    then have "new_line \<in> insert (CHR '','') (\<Union> (set ` json_field ` set fs))"
      using set_join_fields by blast
    with f show False by auto
  qed
  then show ?thesis by (simp add: json_object_def)
qed

lemma marshal_event_no_newline:
  assumes "marshal_event e = Inr raw" shows "new_line \<notin> set raw"
proof -
  obtain ts where ts: "json_time (ev_timestamp e) = Some ts" and raw: "raw = json_object (event_fields e ts)"
    using assms by (auto simp: marshal_event_def split: option.splits)
  obtain body where b: "ts = json_quote body" by (rule json_time_simple [OF ts])
  have md: "new_line \<notin> set (json_object (map (\<lambda>(k, v). (k, json_quote v)) m))" for m
    by (rule object_no_newline) auto
  have oe: "\<forall>(k, v)\<in>set (omit_empty k u). new_line \<notin> set v" for k u
    by (simp add: omit_empty_def)
  have "\<forall>(k, v)\<in>set (event_fields e ts). new_line \<notin> set v"
    unfolding event_fields_def set_append ball_Un using oe md by (simp add: b)
  then show ?thesis unfolding raw by (rule object_no_newline)
qed

lemma audit_line_no_newline: "new_line \<notin> set raw \<Longrightarrow> new_line \<notin> set (audit_line p raw)"
  unfolding audit_line_def format_stored_audit_line_def
  by (rule object_no_newline) simp

lemma audit_line_ne [simp]: "audit_line p raw \<noteq> []"
  by (simp add: audit_line_def format_stored_audit_line_def json_object_def)

lemma length_audit_line_ge: "length raw \<le> length (audit_line p raw)"
  using length_json_field [of raw "''event''"]
  by (simp add: audit_line_def format_stored_audit_line_def [of raw _ "sha256_hex _"] json_object_def)

lemma single_line_content:
  "new_line \<notin> set raw \<Longrightarrow> content_lines (audit_line p raw @ [new_line]) = [audit_line p raw]"
  using content_lines_append [of "[]" "audit_line p raw"] audit_line_no_newline [of raw p]
  by (simp add: whole_lines_def) (simp add: content_lines_def split_char_single)

section \<open>The sink keeps a verifiable log\<close>

definition sink_ok :: "file_sink \<Rightarrow> nat \<Rightarrow> bool" where
  "sink_ok k n \<longleftrightarrow>
     whole_lines (fk_content k) \<and> hash_like (fk_last_hash k) \<and>
     verify_file (fk_content k) = Inr (fk_last_hash k, n)"

text \<open>What a successful write does to the sink.\<close>

lemma sink_write_None:
  assumes "sink_write os ev (k, e) = (None, k', e')"
  obtains raw where "marshal_event (sanitize_audit_event ev) = Inr raw"
    and "fk_content k' = fk_content k @ audit_line (fk_last_hash k) raw @ [new_line]"
    and "fk_last_hash k' = sha256_hex (format_stored_audit_line raw (fk_last_hash k) [])"
  using assms
  by (auto simp: sink_write_def Let_def audit_line_def split: sum.splits option.splits
      prod.splits if_splits)

lemma verify_append:
  assumes ok: "sink_ok k n" and raw: "reads_whole 1 raw" "new_line \<notin> set raw"
    and short: "\<not> line_too_long (audit_line (fk_last_hash k) raw)"
  shows "verify_file (fk_content k @ audit_line (fk_last_hash k) raw @ [new_line]) =
    Inr (sha256_hex (format_stored_audit_line raw (fk_last_hash k) []), n + 1)"
proof -
  obtain m where m: "audit_line (fk_last_hash k) raw = CHR ''{'' # m @ [CHR ''}'']"
    using line_braces by (metis audit_line_def)
  have lines: "content_lines (fk_content k @ audit_line (fk_last_hash k) raw @ [new_line]) =
      content_lines (fk_content k) @ [audit_line (fk_last_hash k) raw]"
    using ok m by (intro content_lines_append audit_line_no_newline raw) (auto simp: sink_ok_def)
  have p: "hash_like (fk_last_hash k)" using ok by (simp add: sink_ok_def)
  have v: "verify_loop [] [] 0 [] True (content_lines (fk_content k)) = Inr (fk_last_hash k, n, True)"
    using ok by (simp add: sink_ok_def verify_file_loop)
  show ?thesis
    unfolding verify_file_loop lines verify_loop_append v
    using verify_step [OF raw(1) p short, of "[]" "fk_last_hash k" n "fk_last_hash k" True]
    by (simp add: Let_def)
qed

lemma sink_write_ok:
  assumes ok: "sink_ok k n" and w: "sink_write os ev (k, e) = (None, k', e')"
    and short: "length (fk_content k') \<le> length (fk_content k) + max_scan_token_size"
  shows "sink_ok k' (n + 1)"
proof -
  obtain raw where raw: "marshal_event (sanitize_audit_event ev) = Inr raw"
    and c: "fk_content k' = fk_content k @ audit_line (fk_last_hash k) raw @ [new_line]"
    and h: "fk_last_hash k' = sha256_hex (format_stored_audit_line raw (fk_last_hash k) [])"
    by (rule sink_write_None [OF w])
  have "\<not> line_too_long (audit_line (fk_last_hash k) raw)"
    using short by (simp add: c line_too_long_def)
  then show ?thesis
    using verify_append [OF ok marshal_event_reads [OF raw] marshal_event_no_newline [OF raw]]
    by (simp add: sink_ok_def c h whole_lines_def)
qed

text \<open>A sequence of writes, up to the first that fails.\<close>

fun write_all :: "'e audit_os \<Rightarrow> audit_event list \<Rightarrow> file_sink \<times> 'e \<Rightarrow> gerror option \<times> (file_sink \<times> 'e)"
where
  "write_all os [] st = (None, st)"
| "write_all os (ev # evs) st =
     (case sink_write os ev st of
        (Some e, st) \<Rightarrow> (Some e, st)
      | (None, st) \<Rightarrow> write_all os evs st)"

text \<open>Each event of the run takes less than the scanner's buffer.\<close>

fun lines_fit :: "'e audit_os \<Rightarrow> audit_event list \<Rightarrow> file_sink \<times> 'e \<Rightarrow> bool" where
  "lines_fit os [] st = True"
| "lines_fit os (ev # evs) st =
     (let st' = snd (sink_write os ev st) in
      length (fk_content (fst st')) \<le> length (fk_content (fst st)) + max_scan_token_size \<and>
      lines_fit os evs st')"

lemma new_file_sink_ok:
  assumes "new_file_sink existing = Inr k" and "existing = None \<or> whole_lines (the existing)"
  shows "\<exists>n. sink_ok k n"
proof (cases existing)
  case None
  with assms have "sink_ok k 0"
    by (auto simp: new_file_sink_def sink_ok_def whole_lines_def verify_file_def verify_content_def
        content_lines_def split_char_single)
  then show ?thesis ..
next
  case (Some c)
  obtain lst n where v: "verify_file c = Inr (lst, n)"
    and k: "k = \<lparr>fk_content = c, fk_last_hash = lst, fk_need_sync = False\<rparr>"
    using assms(1) Some by (auto simp: new_file_sink_def split: sum.splits)
  have "hash_like l'" if "verify_loop ck p n l f xs = Inr (l', m, g)" "hash_like l" for ck p n l f xs l' m g
    using that
    by (induction xs arbitrary: p n l f) (auto simp: Let_def split: if_splits sum.splits)
  with v have "hash_like lst" unfolding verify_file_loop by fastforce
  with v k assms(2) Some have "sink_ok k n" by (simp add: sink_ok_def)
  then show ?thesis ..
qed

lemma write_all_ok:
  "sink_ok k n \<Longrightarrow> lines_fit os evs (k, e) \<Longrightarrow> write_all os evs (k, e) = (None, k', e') \<Longrightarrow>
     sink_ok k' (n + length evs)"
proof (induction evs arbitrary: k e n)
  case (Cons ev evs)
  obtain k1 e1 where w: "sink_write os ev (k, e) = (None, k1, e1)"
    using Cons.prems(3) by (auto split: prod.splits option.splits)
  with Cons.prems have "sink_ok k1 (n + 1)" by (intro sink_write_ok [OF _ w]) auto
  from Cons.IH [OF this] w Cons.prems show ?case by (auto simp: Let_def)
qed simp

text \<open>
  C15: Whatever events a broker writes to a fresh audit log, the log verifies afterwards, with
  as many records as events and the hash the sink holds as the last one, provided that every
  write succeeded and that every record with its line break takes at most 64 KiB
  (\<open>lines_fit\<close>), which is what the verifier reads per line; the next section shows that
  this condition cannot be dropped.
\<close>

theorem audit_log_verifies:
  assumes "new_file_sink None = Inr k" and "write_all os evs (k, e) = (None, k', e')"
    and "lines_fit os evs (k, e)"
  shows "verify_file (fk_content k') = Inr (fk_last_hash k', length evs)"
proof -
  have "sink_ok k 0"
    using assms(1) by (auto simp: new_file_sink_def sink_ok_def whole_lines_def verify_file_def
        verify_content_def content_lines_def split_char_single)
  from write_all_ok [OF this assms(3,2)] show ?thesis by (simp add: sink_ok_def)
qed

section \<open>The records of a log that verifies\<close>

definition line_record :: "string \<Rightarrow> stored_audit_line option" where
  "line_record raw =
     (let line = trim_space (drop_cr raw) in
      if line = [] then None
      else case parse_stored_audit_line line of Inl _ \<Rightarrow> None | Inr r \<Rightarrow> Some r)"

definition log_records :: "string \<Rightarrow> stored_audit_line list" where
  "log_records content = List.map_filter line_record (content_lines content)"

text \<open>What is hashed for a record, and the hash a list of records ends in.\<close>

definition hashed_text :: "stored_audit_line \<Rightarrow> string" where
  "hashed_text r = format_stored_audit_line (sl_event_raw r) (sl_prev_hash r) []"

fun end_hash :: "string \<Rightarrow> stored_audit_line list \<Rightarrow> string" where
  "end_hash p [] = p"
| "end_hash p (r # rs) = end_hash (sl_hash r) rs"

fun chained :: "string \<Rightarrow> stored_audit_line list \<Rightarrow> bool" where
  "chained p [] = True"
| "chained p (r # rs) \<longleftrightarrow>
     sl_prev_hash r = p \<and> sl_hash r = sha256_hex (hashed_text r) \<and> chained (sl_hash r) rs"

lemma verify_loop_records:
  assumes "verify_loop ck p n p f lines = Inr (h, m, g)"
  shows "chained p (List.map_filter line_record lines) \<and>
    h = end_hash p (List.map_filter line_record lines) \<and>
    m = n + length (List.map_filter line_record lines) \<and>
    (g \<longleftrightarrow> f \<or> ck \<noteq> [] \<and> ck \<in> sl_hash ` set (List.map_filter line_record lines))"
  using assms
proof (induction lines arbitrary: p n f)
  case (Cons raw lines)
  let ?line = "trim_space (drop_cr raw)"
  show ?case
  proof (cases "?line = []")
    case True
    with Cons show ?thesis by (auto simp: Let_def line_record_def split: if_splits)
  next
    case False
    then obtain r where r: "parse_stored_audit_line ?line = Inr r" "\<not> line_too_long raw"
      using Cons.prems by (auto simp: Let_def split: if_splits sum.splits)
    have "verify_loop ck (sl_hash r) (n + 1) (sl_hash r) (f \<or> (ck \<noteq> [] \<and> sl_hash r = ck)) lines
        = Inr (h, m, g)" and "sl_prev_hash r = p" "sl_hash r = sha256_hex (hashed_text r)"
      using Cons.prems r False by (auto simp: Let_def hashed_text_def split: if_splits)
    with Cons.IH [OF this(1)] r False show ?thesis
      by (auto simp: line_record_def map_filter_simps)
  qed
qed (simp add: map_filter_simps)

lemma verify_file_records:
  assumes "verify_file c = Inr (h, n)"
  shows "chained [] (log_records c) \<and> h = end_hash [] (log_records c) \<and> n = length (log_records c)"
  using verify_loop_records [of "[]" "[]" 0 True "content_lines c" h n True] assms
  unfolding verify_file_loop log_records_def by simp

lemma chained_snoc:
  "chained p (rs @ [r]) \<longleftrightarrow>
     chained p rs \<and> sl_prev_hash r = end_hash p rs \<and> sl_hash r = sha256_hex (hashed_text r)"
  by (induction p rs rule: chained.induct) auto

lemma end_hash_snoc [simp]: "end_hash p (rs @ [r]) = sl_hash r"
  by (induction p rs rule: end_hash.induct) auto

lemma end_hash_like: "chained [] rs \<Longrightarrow> hash_like (end_hash [] rs)"
  by (induction rs rule: rev_induct) (auto simp: chained_snoc)

lemma end_hash_empty: "chained [] rs \<Longrightarrow> end_hash [] rs = [] \<longleftrightarrow> rs = []"
  by (induction rs rule: rev_induct)
    (auto simp: chained_snoc length_sha256_hex dest: arg_cong [of _ "[]" length])

text \<open>The hashed text determines the event and the previous hash.\<close>

lemma hashed_text_inj:
  assumes eq: "format_stored_audit_line a p [] = format_stored_audit_line b q []"
    and p: "hash_like p" and q: "hash_like q"
  shows "a = b \<and> p = q"
proof -
  let ?pre = "quote_char # json_body ''event'' @ [quote_char, CHR '':'']"
  let ?mid = "CHR '','' # quote_char # json_body ''prev_hash'' @ [quote_char, CHR '':'', quote_char]"
  let ?post = "quote_char # '','' @ json_field (''hash'', json_quote []) @ ''}''"
  have form: "format_stored_audit_line a p [] = CHR ''{'' # ?pre @ a @ ?mid @ p @ ?post"
    if "hash_like p" for a p
    using json_quote_simple [OF hash_like_simple [OF that]]
    by (simp add: format_stored_audit_line_def json_object_def json_field_def json_quote_def [of "''event''"]
        json_quote_def [of "''prev_hash''"])
  have e: "a @ ?mid @ p = b @ ?mid @ q"
    using eq form [OF p, of a] form [OF q, of b] by simp
  have len: "length p = length q"
  proof (rule ccontr)
    assume "length p \<noteq> length q"
    then consider "p = []" "q \<noteq> []" | "q = []" "p \<noteq> []"
      using p q by (auto simp: hash_like_def)
    then show False
    proof cases
      case 1
      then have "last (a @ ?mid @ p) = quote_char" "last (b @ ?mid @ q) = last q" by simp_all
      with e have "last q = quote_char" by metis
      moreover have "simple_char (last q)" using 1 q by (auto simp: hash_like_def list_all_iff)
      ultimately show False by (simp add: simple_char_def)
    next
      case 2
      then have "last (b @ ?mid @ q) = quote_char" "last (a @ ?mid @ p) = last p" by simp_all
      with e have "last p = quote_char" by metis
      moreover have "simple_char (last p)" using 2 p by (auto simp: hash_like_def list_all_iff)
      ultimately show False by (simp add: simple_char_def)
    qed
  qed
  then have "a @ ?mid = b @ ?mid \<and> p = q" using e by (simp add: append_eq_append_conv flip: append_assoc)
  then show ?thesis by simp
qed

section \<open>Tamper evidence\<close>

text \<open>Two different texts, hashed for records of the two logs, with the same hash.\<close>

definition collision_among :: "stored_audit_line list \<Rightarrow> stored_audit_line list \<Rightarrow> bool" where
  "collision_among rs qs \<longleftrightarrow>
     list_ex (\<lambda>r. list_ex (\<lambda>q. hashed_text r \<noteq> hashed_text q \<and>
       sha256_hex (hashed_text r) = sha256_hex (hashed_text q)) qs) rs"

lemma chained_end_hash_inj:
  "chained [] rs \<Longrightarrow> chained [] qs \<Longrightarrow> end_hash [] rs = end_hash [] qs \<Longrightarrow>
     rs = qs \<or> collision_among rs qs"
proof (induction rs arbitrary: qs rule: rev_induct)
  case Nil
  then show ?case using end_hash_empty [of qs] by simp
next
  case (snoc r rs)
  then obtain q qs' where qs: "qs = qs' @ [q]"
    using end_hash_empty [of "rs @ [r]"] by (cases qs rule: rev_cases) auto
  have r: "chained [] rs" "sl_prev_hash r = end_hash [] rs" "sl_hash r = sha256_hex (hashed_text r)"
    and q: "chained [] qs'" "sl_prev_hash q = end_hash [] qs'" "sl_hash q = sha256_hex (hashed_text q)"
    using snoc.prems by (simp_all add: qs chained_snoc)
  have h: "sl_hash r = sl_hash q" using snoc.prems(3) by (simp add: qs)
  show ?case
  proof (cases "hashed_text r = hashed_text q")
    case False
    with r q h show ?thesis by (simp add: collision_among_def qs)
  next
    case True
    then have "sl_event_raw r = sl_event_raw q \<and> sl_prev_hash r = sl_prev_hash q"
      unfolding hashed_text_def
      by (rule hashed_text_inj) (simp_all add: r q end_hash_like)
    with h have "r = q" and "end_hash [] rs = end_hash [] qs'" using r q by auto
    with snoc.IH [OF r(1) q(1)] show ?thesis by (auto simp: qs collision_among_def list_ex_iff)
  qed
qed

text \<open>
  C16: Two logs that both verify and end in the same hash hold the same records: whoever changes,
  removes, inserts or reorders a record of a log without changing its last hash has found two
  of its texts that collide under SHA-256.
\<close>

theorem audit_log_tamper_evident:
  assumes "verify_file a = Inr (h, n)" and "verify_file b = Inr (h, m)"
  shows "log_records a = log_records b \<and> n = m \<or> collision_among (log_records a) (log_records b)"
proof -
  note A = verify_file_records [OF assms(1)] and B = verify_file_records [OF assms(2)]
  then have "log_records a = log_records b \<or> collision_among (log_records a) (log_records b)"
    by (intro chained_end_hash_inj) auto
  with A B show ?thesis by auto
qed

text \<open>
  Verifying against a checkpoint accepts a log exactly when it verifies and one of its
  records has the checkpoint's hash: a log that was cut before the checkpoint is refused.
\<close>

theorem anchored_verification:
  assumes "trim_space ck \<noteq> []"
  shows "verify_file_anchored content ck = Inr (h, n) \<longleftrightarrow>
    verify_file content = Inr (h, n) \<and> trim_space ck \<in> sl_hash ` set (log_records content)"
proof -
  have indep: "(\<exists>g. verify_loop c p m l f xs = Inr (h, n, g)) \<longleftrightarrow>
      (\<exists>g. verify_loop c' p m l f' xs = Inr (h, n, g))" for c c' p m l f f' xs
  proof (induction xs arbitrary: p m l f f')
    case (Cons x xs)
    show ?case
    proof (cases "parse_stored_audit_line (trim_space (drop_cr x))")
      case (Inl e)
      with Cons.IH [of p m l f f'] show ?thesis by (simp add: Let_def)
    next
      case (Inr r)
      let ?H = "sha256_hex (format_stored_audit_line (sl_event_raw r) p [])"
      from Inr Cons.IH [of p m l f f']
        Cons.IH [of ?H "Suc m" ?H "f \<or> c \<noteq> [] \<and> ?H = c" "f' \<or> c' \<noteq> [] \<and> ?H = c'"]
      show ?thesis by (simp add: Let_def)
    qed
  qed simp
  let ?loop = "\<lambda>c f. verify_loop c [] 0 [] f (content_lines content)"
  have "verify_file_anchored content ck = Inr (h, n) \<longleftrightarrow> ?loop (trim_space ck) False = Inr (h, n, True)"
    using assms
    by (cases "?loop (trim_space ck) False")
      (auto simp: verify_file_anchored_def verify_content_def split: if_splits)
  also have "\<dots> \<longleftrightarrow> (\<exists>g. ?loop (trim_space ck) False = Inr (h, n, g)) \<and>
      trim_space ck \<in> sl_hash ` set (log_records content)"
    using verify_loop_records [of "trim_space ck" "[]" 0 False "content_lines content" h n] assms
    unfolding log_records_def by (metis (full_types))
  also have "(\<exists>g. ?loop (trim_space ck) False = Inr (h, n, g)) \<longleftrightarrow>
      (\<exists>g. ?loop [] True = Inr (h, n, g))"
    by (rule indep)
  also have "(\<exists>g. ?loop [] True = Inr (h, n, g)) \<longleftrightarrow> verify_file content = Inr (h, n)"
    using verify_loop_found [of "[]" "[]" 0 "[]" "content_lines content" h n]
    unfolding verify_file_loop by (metis (full_types))
  finally show ?thesis .
qed

section \<open>Where the chain breaks\<close>

text \<open>An operating system that writes and syncs whatever it is asked to.\<close>

definition os_works :: "'e audit_os \<Rightarrow> bool" where
  "os_works os \<longleftrightarrow>
     (\<forall>line e. fst (ao_append os line e) = None) \<and> (\<forall>e. fst (ao_sync_file os e) = None) \<and>
     (\<forall>e. fst (ao_sync_parent os e) = None)"

lemma sink_write_works:
  assumes os: "os_works os" and raw: "marshal_event (sanitize_audit_event ev) = Inr raw"
  obtains k' e' where "sink_write os ev (k, e) = (None, k', e')"
proof -
  have p: "x = (None, snd x)" if "fst x = None" for x :: "'b option \<times> 'c"
    using that by (cases x) simp
  have "fst (sink_write os ev (k, e)) = None"
    using os raw by (auto simp: sink_write_def Let_def os_works_def split: prod.splits option.splits)
      (metis fst_conv option.distinct(1))+
  from p [OF this] show thesis using that by (metis prod.collapse)
qed

text \<open>Whatever is done with the sink, its file only grows.\<close>

lemma sink_write_grows: "prefix (fk_content k) (fk_content (fst (snd (sink_write os ev (k, e)))))"
  by (auto simp: sink_write_def Let_def split: sum.splits prod.splits option.splits)

lemma write_all_grows: "prefix (fk_content k) (fk_content (fst (snd (write_all os evs (k, e)))))"
proof (induction evs arbitrary: k e)
  case (Cons ev evs)
  obtain r k1 e1 where w: "sink_write os ev (k, e) = (r, k1, e1)" by (metis prod.collapse)
  have "prefix (fk_content k) (fk_content k1)" using sink_write_grows [of k os ev e] w by simp
  with Cons.IH [of k1 e1] w show ?case
    by (auto split: option.split intro: prefix_order.trans)
qed simp

lemma content_lines_grown:
  assumes "whole_lines c"
  shows "content_lines (c @ tail) = content_lines c @ content_lines tail"
proof (cases "c = []")
  case False
  with assms obtain b where c: "c = b @ [new_line]" by (metis append_butlast_last_id whole_lines_def)
  have ne: "split_char new_line tail \<noteq> []" by (subst split_char.simps) (auto split: prod.split)
  have "split_char new_line (c @ tail) = split_char new_line b @ split_char new_line tail"
    using split_char_at [of new_line b tail] by (simp add: c)
  moreover have "split_char new_line c = split_char new_line b @ [[]]"
    using split_char_at [of new_line b "[]"] by (simp add: c split_char_single)
  ultimately show ?thesis using ne by (simp add: content_lines_def Let_def butlast_append)
qed (simp add: content_lines_def split_char_single)

lemma long_line_fails:
  assumes ok: "sink_ok k n" and l: "new_line \<notin> set l" "line_too_long l"
  shows "verify_file (fk_content k @ l @ [new_line] @ tail) =
    Inl (Plain ''bufio.Scanner: token too long'')"
proof -
  have ne: "l \<noteq> []" using l(2) by (auto simp: line_too_long_def max_scan_token_size_def)
  let ?c = "fk_content k @ l @ [new_line]"
  have "content_lines ?c = content_lines (fk_content k) @ [l]"
    using ok l(1) ne by (intro content_lines_append) (simp_all add: sink_ok_def)
  moreover have "content_lines (?c @ tail) = content_lines ?c @ content_lines tail"
    by (rule content_lines_grown) (simp add: whole_lines_def)
  ultimately have c: "content_lines (?c @ tail) = content_lines (fk_content k) @ l # content_lines tail"
    by simp
  have v: "verify_loop [] [] 0 [] True (content_lines (fk_content k)) = Inr (fk_last_hash k, n, True)"
    using ok by (simp add: sink_ok_def verify_file_loop)
  have "verify_loop [] [] 0 [] True (content_lines (?c @ tail)) =
      Inl (Plain ''bufio.Scanner: token too long'')"
    unfolding c verify_loop_append v using l(2) by simp
  then show ?thesis by (simp add: verify_file_def verify_content_def)
qed

text \<open>
  C18: Take any log a broker opened, new or existing and verified, that ends in a whole line, and
  any records written to it that fit. An event whose encoding takes 64 KiB or more is then written
  without an error when the operating system reports none, but from there on, whatever is
  written after it, the log does not verify any more, and a broker refuses to start on it.
\<close>

theorem oversized_record_breaks_log:
  assumes "new_file_sink existing = Inr k" and "existing = None \<or> whole_lines (the existing)"
    and "write_all os evs (k, e) = (None, k1, e1)" and "lines_fit os evs (k, e)"
    and "marshal_event (sanitize_audit_event ev) = Inr raw" and "max_scan_token_size \<le> length raw"
    and "os_works os"
  shows "\<exists>k2 e2. sink_write os ev (k1, e1) = (None, k2, e2) \<and>
    (\<forall>later k3. k3 = fst (snd (write_all os later (k2, e2))) \<longrightarrow>
       verify_file (fk_content k3) = Inl (Plain ''bufio.Scanner: token too long'') \<and>
       new_file_sink (Some (fk_content k3)) =
         Inl (Wrapped (Plain ''bufio.Scanner: token too long'')
           ''verify audit log: bufio.Scanner: token too long''))"
proof -
  obtain n where "sink_ok k n" using new_file_sink_ok [OF assms(1,2)] by blast
  from write_all_ok [OF this assms(4,3)] have ok: "sink_ok k1 (n + length evs)" .
  obtain k2 e2 where w: "sink_write os ev (k1, e1) = (None, k2, e2)"
    by (rule sink_write_works [OF assms(7,5)])
  let ?l = "audit_line (fk_last_hash k1) raw"
  have c: "fk_content k2 = fk_content k1 @ ?l @ [new_line]"
    using sink_write_None [OF w] assms(5) by (metis sum.inject(2))
  have l: "new_line \<notin> set ?l" "line_too_long ?l"
    using audit_line_no_newline [OF marshal_event_no_newline [OF assms(5)]]
      length_audit_line_ge [of raw "fk_last_hash k1"] assms(6) by (simp_all add: line_too_long_def)
  have "verify_file (fk_content k3) = Inl (Plain ''bufio.Scanner: token too long'')"
    if "k3 = fst (snd (write_all os later (k2, e2)))" for later k3
  proof -
    have "prefix (fk_content k2) (fk_content k3)" unfolding that by (rule write_all_grows)
    then obtain tail where "fk_content k3 = fk_content k2 @ tail" by (rule prefixE)
    then show ?thesis using long_line_fails [OF ok l, of tail] by (simp add: c)
  qed
  with w show ?thesis by (auto simp: new_file_sink_def)
qed

text \<open>
  When the first write appends its record but the sync fails, the sink keeps the old hash:
  the next write succeeds, and the log does not verify any more.
\<close>

theorem failed_sync_breaks_log:
  assumes "new_file_sink None = Inr k"
    and "sink_write os ev (k, e) = (Some err, k1, e1)"
    and "marshal_event (sanitize_audit_event ev) = Inr raw"
    and "fk_content k1 = audit_line [] raw @ [new_line]"
    and "sink_write os ev' (k1, e1) = (None, k2, e2)"
    and "length (fk_content k1) \<le> max_scan_token_size"
    and "length (fk_content k2) \<le> length (fk_content k1) + max_scan_token_size"
  shows "verify_file (fk_content k2) = Inl (at_line 2 ''prev hash mismatch'')"
proof -
  have "fk_last_hash k1 = fk_last_hash k"
    using assms(2) by (auto simp: sink_write_def Let_def split: sum.splits option.splits prod.splits if_splits)
  then have h1: "fk_last_hash k1 = []" using assms(1) by (auto simp: new_file_sink_def)
  obtain raw' where raw': "marshal_event (sanitize_audit_event ev') = Inr raw'"
    and c: "fk_content k2 = fk_content k1 @ audit_line [] raw' @ [new_line]"
    using sink_write_None [OF assms(5)] h1 by metis
  let ?l = "audit_line [] raw" and ?l' = "audit_line [] raw'"
  have short: "\<not> line_too_long ?l" "\<not> line_too_long ?l'"
    using assms(4,6,7) by (simp_all add: c line_too_long_def)
  have "content_lines (fk_content k2) = [?l, ?l']"
    using content_lines_append [of "?l @ [new_line]" ?l']
      single_line_content [OF marshal_event_no_newline [OF assms(3)], of "[]"]
    by (simp add: c assms(4) whole_lines_def audit_line_ne audit_line_no_newline
        marshal_event_no_newline [OF raw'])
  moreover have "sha256_hex u \<noteq> []" for u using length_sha256_hex [of u] by auto
  moreover have "verify_loop [] [] 0 [] True ([?l] @ [?l']) = Inl (at_line 2 ''prev hash mismatch'')"
    if "\<And>u. sha256_hex u \<noteq> []"
    unfolding verify_loop_append
      verify_step [OF marshal_event_reads [OF assms(3)] hash_like_Nil short(1)]
      verify_step [OF marshal_event_reads [OF raw'] hash_like_Nil short(2)]
    using that [symmetric] by (simp add: Let_def numeral_2_eq_2)
  ultimately show ?thesis by (simp add: verify_file_def verify_content_def del: verify_loop.simps)
qed

section \<open>The theorems at concrete inputs\<close>

definition example_event :: audit_event where
  "example_event = zero_event\<lparr>ev_event := ''request_created'', ev_agent_id := ''agent-a''\<rparr>"

text \<open>An operating system whose first sync fails when its state is 0, and all else succeeds.\<close>

definition example_os :: "nat audit_os" where
  "example_os =
     \<lparr>ao_append = (\<lambda>l e. (None, e)),
      ao_sync_file = (\<lambda>e. if e = 0 then (Some (Plain ''sync failed''), 1) else (None, e)),
      ao_sync_parent = (\<lambda>e. (None, e))\<rparr>"

definition empty_sink :: file_sink where
  "empty_sink = \<lparr>fk_content = '''', fk_last_hash = '''', fk_need_sync = True\<rparr>"

lemma new_empty_sink: "new_file_sink None = Inr empty_sink"
  by (simp add: new_file_sink_def empty_sink_def)

lemma example_marshal:
  obtains raw where "marshal_event (sanitize_audit_event example_event) = Inr raw"
    and "length raw < 200"
proof -
  have "case marshal_event (sanitize_audit_event example_event) of
      Inr raw \<Rightarrow> length raw < 200 | Inl _ \<Rightarrow> False" by code_simp
  then show thesis by (cases "marshal_event (sanitize_audit_event example_event)") (auto intro: that)
qed

lemma length_audit_line:
  assumes "hash_like p" shows "length (audit_line p raw) \<le> length raw + 200"
proof -
  have q: "length (json_quote h) \<le> 66" if "hash_like h" for h
    using that json_quote_simple [OF hash_like_simple [OF that]] by (auto simp: hash_like_def)
  have k: "length (json_quote ''event'') = 7" "length (json_quote ''prev_hash'') = 11"
    "length (json_quote ''hash'') = 6" by code_simp+
  show ?thesis
    using q [OF assms] q [OF hash_like_sha, of "format_stored_audit_line raw p []"] k
    by (simp add: audit_line_def [of p raw] format_stored_audit_line_def [of raw p "sha256_hex _"]
        json_object_def json_field_def)
qed

lemma example_write:
  assumes "marshal_event (sanitize_audit_event ev) = Inr raw" and "0 < e"
  shows "sink_write example_os ev (k, e) =
    (None, \<lparr>fk_content = fk_content k @ audit_line (fk_last_hash k) raw @ [new_line],
      fk_last_hash = sha256_hex (format_stored_audit_line raw (fk_last_hash k) []),
      fk_need_sync = False\<rparr>, e)"
  using assms by (cases k) (simp add: sink_write_def Let_def example_os_def audit_line_def)

definition example_log :: file_sink where
  "example_log = fst (snd (write_all example_os [example_event, example_event] (empty_sink, 1)))"

lemma example_run:
  "lines_fit example_os [example_event, example_event] (empty_sink, 1) \<and>
   write_all example_os [example_event, example_event] (empty_sink, 1) = (None, example_log, 1)"
proof -
  obtain raw where raw: "marshal_event (sanitize_audit_event example_event) = Inr raw"
    and len: "length raw < 200" by (rule example_marshal)
  note w = example_write [OF raw, of 1, simplified]
  show ?thesis
    using len length_audit_line [of "fk_last_hash empty_sink" raw]
      length_audit_line [of "sha256_hex (format_stored_audit_line raw (fk_last_hash empty_sink) [])" raw]
    by (simp add: w max_scan_token_size_def example_log_def) (simp add: empty_sink_def)
qed

theorem audit_log_verifies_witness:
  "verify_file (fk_content example_log) = Inr (fk_last_hash example_log, 2)"
  using audit_log_verifies [OF new_empty_sink] example_run by fastforce

lemma example_log_verifies: "\<exists>h. verify_file (fk_content example_log) = Inr (h, 2)"
proof -
  have "sink_ok empty_sink 0"
    by (simp add: empty_sink_def sink_ok_def whole_lines_def verify_file_def verify_content_def
        content_lines_def split_char_single)
  then show ?thesis using write_all_ok example_run by (fastforce simp: sink_ok_def)
qed

theorem audit_log_tamper_evident_witness:
  "\<exists>h n. verify_file (fk_content example_log) = Inr (h, n) \<and>
     (length (log_records (fk_content example_log)) = n \<or>
      collision_among (log_records (fk_content example_log)) (log_records (fk_content example_log)))"
proof -
  obtain h where h: "verify_file (fk_content example_log) = Inr (h, 2)"
    using example_log_verifies by blast
  show ?thesis
    using audit_log_tamper_evident [OF h h] verify_file_records [OF h] h by auto
qed

theorem anchored_verification_witness:
  "verify_file_anchored (fk_content empty_sink) ''0123'' \<noteq> Inr ([], 0)"
proof -
  have t: "trim_space ''0123'' \<noteq> []" by code_simp
  have "log_records [] = []"
    by (simp add: log_records_def content_lines_def split_char_single map_filter_simps)
  then show ?thesis using anchored_verification [OF t, of "[]" "[]" 0] by (simp add: empty_sink_def)
qed

text \<open>An event whose name alone is longer than the scanner's buffer.\<close>

definition oversized_event :: audit_event where
  "oversized_event = zero_event\<lparr>ev_event := replicate 70000 (CHR ''a'')\<rparr>"

lemma oversized_marshal:
  obtains raw where "marshal_event (sanitize_audit_event oversized_event) = Inr raw"
    and "70000 \<le> length raw"
proof -
  let ?name = "replicate 70000 (CHR ''a'')"
  have "sanitize_text [] = []" by code_simp
  then have s: "sanitize_audit_event oversized_event = oversized_event"
    by (simp add: sanitize_audit_event_def oversized_event_def zero_event_def)
  have "json_time 0 \<noteq> None" by code_simp
  then obtain ts where ts: "json_time 0 = Some ts" by auto
  then have m: "marshal_event oversized_event = Inr (json_object (event_fields oversized_event ts))"
    by (simp add: marshal_event_def oversized_event_def zero_event_def)
  have "list_all simple_char ?name"
    by (simp add: list_all_iff simple_char_def quote_char_def back_char_def)
  then have "70000 \<le> length (json_quote ?name)" by (simp add: json_quote_simple)
  moreover have "(''event'', json_quote ?name) \<in> set (event_fields oversized_event ts)"
    by (simp add: event_fields_def oversized_event_def)
  ultimately have "70000 \<le> length (json_object (event_fields oversized_event ts))"
    using length_join_fields [of "''event''" "json_quote ?name" "event_fields oversized_event ts"]
    by (simp add: json_object_def)
  with m s show thesis by (intro that) simp_all
qed

definition working_os :: "unit audit_os" where
  "working_os =
     \<lparr>ao_append = (\<lambda>l e. (None, e)), ao_sync_file = (\<lambda>e. (None, e)), ao_sync_parent = (\<lambda>e. (None, e))\<rparr>"

text \<open>A log with one record that fits, then the oversized one, then another that fits.\<close>

theorem oversized_record_breaks_log_witness:
  "verify_file (fk_content (fst (snd (write_all working_os
     [example_event, oversized_event, example_event] (empty_sink, ()))))) =
     Inl (Plain ''bufio.Scanner: token too long'')"
proof -
  obtain raw where raw: "marshal_event (sanitize_audit_event example_event) = Inr raw"
    and len: "length raw < 200" by (rule example_marshal)
  obtain big where big: "marshal_event (sanitize_audit_event oversized_event) = Inr big"
    and bl: "70000 \<le> length big" by (rule oversized_marshal)
  have os: "os_works working_os" by (simp add: os_works_def working_os_def)
  obtain k1 e1 where w: "sink_write working_os example_event (empty_sink, ()) = (None, k1, e1)"
    by (rule sink_write_works [OF os raw])
  have "fk_content k1 = audit_line [] raw @ [new_line]"
    using sink_write_None [OF w] raw by (auto simp: empty_sink_def)
  then have fit: "lines_fit working_os [example_event] (empty_sink, ())"
    using length_audit_line [of "[]" raw] len
    by (simp add: w max_scan_token_size_def)
  have one: "write_all working_os [example_event] (empty_sink, ()) = (None, k1, e1)" by (simp add: w)
  have "max_scan_token_size \<le> length big" using bl by (simp add: max_scan_token_size_def)
  from oversized_record_breaks_log [OF new_empty_sink _ one fit big this os]
  obtain k2 e2 where "sink_write working_os oversized_event (k1, e1) = (None, k2, e2)"
    and "verify_file (fk_content (fst (snd (write_all working_os [example_event] (k2, e2))))) =
      Inl (Plain ''bufio.Scanner: token too long'')"
    by blast
  then show ?thesis by (simp add: w)
qed

theorem failed_sync_breaks_log_witness:
  "(case sink_write example_os example_event (empty_sink, 0) of
      (Some _, st) \<Rightarrow>
        (case sink_write example_os example_event st of
           (None, k2, _) \<Rightarrow> verify_file (fk_content k2) = Inl (at_line 2 ''prev hash mismatch'')
         | _ \<Rightarrow> False)
    | _ \<Rightarrow> False)"
proof -
  obtain raw where raw: "marshal_event (sanitize_audit_event example_event) = Inr raw"
    and len: "length raw < 200" by (rule example_marshal)
  define k1 where "k1 = empty_sink\<lparr>fk_content := audit_line [] raw @ [new_line]\<rparr>"
  have w1: "sink_write example_os example_event (empty_sink, 0) = (Some (Plain ''sync failed''), k1, 1)"
    using raw by (simp add: sink_write_def Let_def example_os_def audit_line_def empty_sink_def k1_def)
  note w2 = example_write [OF raw zero_less_one, of k1]
  have c1: "fk_content k1 = audit_line [] raw @ [new_line]" and h1: "fk_last_hash k1 = []"
    by (simp_all add: k1_def empty_sink_def)
  have "length (audit_line [] raw) < 400" using length_audit_line [of "[]" raw] len by simp
  then show ?thesis
    using failed_sync_breaks_log [OF new_empty_sink w1 raw c1 w2]
    by (simp add: w1 w2 [simplified] c1 h1 max_scan_token_size_def)
qed

end
