(* ===== verification/MemoryStore.thy ===== *)
theory MemoryStore
  imports Ports
begin

text \<open>
  The in-memory adapter (\<open>internal/adapters/memory/store.go\<close>), the default store of requests,
  leases and demo secrets. Each method holds the store's mutex for its whole body, so it is
  one atomic step on the three maps. The clones a method returns are values here.
\<close>

record mem_store =
  ms_requests :: "lease_request go_map"
  ms_leases :: "lease go_map"
  ms_secrets :: "string go_map"

definition new_store :: mem_store where
  "new_store = \<lparr>ms_requests = [], ms_leases = [], ms_secrets = []\<rparr>"

section \<open>Operations\<close>

definition save_request :: "lease_request \<Rightarrow> mem_store \<Rightarrow> gerror option \<times> mem_store" where
  "save_request r s = (None, s\<lparr>ms_requests := go_set (ms_requests s) (req_id r) r\<rparr>)"

definition get_request :: "string \<Rightarrow> mem_store \<Rightarrow> (gerror + lease_request) \<times> mem_store" where
  "get_request i s =
     (case go_get (ms_requests s) i of
        None \<Rightarrow> (Inl (Plain ''request not found''), s)
      | Some r \<Rightarrow> (Inr r, s))"

definition update_request :: "lease_request \<Rightarrow> mem_store \<Rightarrow> gerror option \<times> mem_store" where
  "update_request r s = (None, s\<lparr>ms_requests := go_set (ms_requests s) (req_id r) r\<rparr>)"

definition delete_request :: "string \<Rightarrow> mem_store \<Rightarrow> gerror option \<times> mem_store" where
  "delete_request i s =
     (case go_get (ms_requests s) i of
        None \<Rightarrow> (Some (Plain ''request not found''), s)
      | Some _ \<Rightarrow> (None, s\<lparr>ms_requests := go_delete (ms_requests s) i\<rparr>))"

definition list_pending_requests ::
  "mem_store \<Rightarrow> (gerror + lease_request list) \<times> mem_store" where
  "list_pending_requests s =
     (Inr (filter (\<lambda>r. req_status r = RequestPending) (map snd (ms_requests s))), s)"

definition save_lease :: "lease \<Rightarrow> mem_store \<Rightarrow> gerror option \<times> mem_store" where
  "save_lease l s = (None, s\<lparr>ms_leases := go_set (ms_leases s) (lease_token l) l\<rparr>)"

definition delete_lease :: "string \<Rightarrow> mem_store \<Rightarrow> gerror option \<times> mem_store" where
  "delete_lease t s =
     (case go_get (ms_leases s) t of
        None \<Rightarrow> (Some (Plain ''lease not found''), s)
      | Some _ \<Rightarrow> (None, s\<lparr>ms_leases := go_delete (ms_leases s) t\<rparr>))"

definition get_lease :: "string \<Rightarrow> mem_store \<Rightarrow> (gerror + lease) \<times> mem_store" where
  "get_lease t s =
     (case go_get (ms_leases s) t of
        None \<Rightarrow> (Inl (Plain ''lease not found''), s)
      | Some l \<Rightarrow> (Inr l, s))"

definition get_lease_by_request_id :: "string \<Rightarrow> mem_store \<Rightarrow> (gerror + lease) \<times> mem_store" where
  "get_lease_by_request_id i s =
     (case find (\<lambda>l. lease_request_id l = i) (map snd (ms_leases s)) of
        Some l \<Rightarrow> (Inr l, s)
      | None \<Rightarrow> (Inl (Plain ''lease not found for request''), s))"

definition list_leases :: "mem_store \<Rightarrow> (gerror + lease list) \<times> mem_store" where
  "list_leases s = (Inr (map snd (ms_leases s)), s)"

definition get_secret :: "string \<Rightarrow> mem_store \<Rightarrow> (gerror + string) \<times> mem_store" where
  "get_secret name s =
     (case go_get (ms_secrets s) name of
        None \<Rightarrow> (Inl (Plain ''secret not found''), s)
      | Some v \<Rightarrow> (Inr v, s))"

definition set_secret :: "string \<Rightarrow> string \<Rightarrow> mem_store \<Rightarrow> mem_store" where
  "set_secret name value s = s\<lparr>ms_secrets := go_set (ms_secrets s) name value\<rparr>"

section \<open>The invariant, and the contracts\<close>

text \<open>The maps have one entry per key, and a record is stored under its own identifier.\<close>

definition keyed :: "('v \<Rightarrow> string) \<Rightarrow> 'v go_map \<Rightarrow> bool" where
  "keyed f m \<longleftrightarrow> wf_map m \<and> (\<forall>(k, v)\<in>set m. f v = k)"

definition wf_mem :: "mem_store \<Rightarrow> bool" where
  "wf_mem s \<longleftrightarrow>
     keyed req_id (ms_requests s) \<and> keyed lease_token (ms_leases s) \<and> wf_map (ms_secrets s)"

lemma keyed_Nil [simp]: "keyed f []"
  by (simp add: keyed_def)

lemma keyed_get: "keyed f m \<Longrightarrow> go_get m k = Some v \<Longrightarrow> f v = k"
  by (auto simp: keyed_def dest: map_of_SomeD)

lemma keyed_iff: "keyed f m \<longleftrightarrow> wf_map m \<and> (\<forall>k v. go_get m k = Some v \<longrightarrow> f v = k)"
  by (fastforce simp: keyed_def go_get_mem dest: map_of_SomeD)

lemma keyed_set [simp]: "keyed f m \<Longrightarrow> f v = k \<Longrightarrow> keyed f (go_set m k v)"
  by (auto simp: keyed_iff split: if_splits)

lemma keyed_delete [simp]: "keyed f m \<Longrightarrow> keyed f (go_delete m k)"
  by (auto simp: keyed_iff split: if_splits)

lemma keyed_distinct_values: "keyed f m \<Longrightarrow> distinct (map snd m)"
proof (induction m)
  case (Cons a m)
  obtain k v where a: "a = (k, v)" by fastforce
  from Cons.prems have "keyed f m" and fv: "f v = k" and "k \<notin> fst ` set m"
    by (auto simp: keyed_def wf_map_def a)
  moreover have "v \<notin> snd ` set m"
    using Cons.prems calculation by (force simp: keyed_def a)
  ultimately show ?case using Cons.IH by (simp add: a)
qed simp

lemma keyed_values: "keyed f m \<Longrightarrow> snd ` set m = ran (go_get m)"
  by (force simp: keyed_def ran_def wf_map_def image_iff)

lemma wf_new_store: "wf_mem new_store"
  by (simp add: wf_mem_def new_store_def)

definition mem_request_store :: "mem_store request_store" where
  "mem_request_store =
     \<lparr>rs_save = save_request, rs_get = get_request, rs_update = update_request,
      rs_delete = delete_request, rs_list_pending = list_pending_requests\<rparr>"

definition mem_lease_store :: "mem_store lease_store" where
  "mem_lease_store =
     \<lparr>ls_save = save_lease, ls_delete = delete_lease, ls_get = get_lease,
      ls_get_by_request = get_lease_by_request_id, ls_list = Some list_leases\<rparr>"

lemmas mem_request_defs = mem_request_store_def save_request_def get_request_def
  update_request_def delete_request_def list_pending_requests_def
lemmas mem_lease_defs = mem_lease_store_def save_lease_def delete_lease_def get_lease_def
  get_lease_by_request_id_def list_leases_def

lemma set_pending:
  assumes "keyed req_id m"
  shows "set (filter (\<lambda>r. req_status r = RequestPending) (map snd m)) =
    {r. \<exists>i. go_get m i = Some r \<and> req_status r = RequestPending}"
  using keyed_values [OF assms] by (auto simp: ran_def)

interpretation mem_reqs: reliable_request_store mem_request_store wf_mem
    "\<lambda>s. go_get (ms_requests s)"
  by unfold_locales
    (auto simp: mem_request_defs wf_mem_def keyed_get keyed_distinct_values set_pending
      simp del: set_filter split: option.splits)

interpretation mem_leases: reliable_lease_store mem_lease_store wf_mem
    "\<lambda>s. go_get (ms_leases s)"
proof unfold_locales
  fix w i l w'
  assume "wf_mem w" and "ls_get_by_request mem_lease_store i w = (Inr l, w')"
  then have "find (\<lambda>l. lease_request_id l = i) (map snd (ms_leases w)) = Some l" and "w' = w"
    by (auto simp: mem_lease_defs split: option.splits)
  moreover from this(1) have "l \<in> snd ` set (ms_leases w)" and "lease_request_id l = i"
    by (auto simp: find_Some_iff in_set_conv_nth [of l "map snd (ms_leases w)", simplified])
  ultimately show "wf_mem w' \<and> go_get (ms_leases w') = go_get (ms_leases w) \<and>
      go_get (ms_leases w) (lease_token l) = Some l \<and> lease_request_id l = i"
    using \<open>wf_mem w\<close> by (auto simp: wf_mem_def keyed_def go_get_mem)
qed (auto simp: mem_lease_defs wf_mem_def keyed_get keyed_distinct_values
    keyed_values split: option.splits)

end
