(* ===== verification/AtomicFile.thy ===== *)
theory AtomicFile
  imports GoPaths
begin

text \<open>
  Replacing a file as a whole (\<open>writeFileAtomically\<close> of \<open>internal/auth/persist.go\<close>, the same
  steps in \<open>SaveStateToFile\<close> of \<open>internal/adapters/memory/store.go\<close>): write a temporary file
  beside it, sync, rename, sync the directory. Every step is a call of the operating system that
  may fail; the file system is a record of functions over the rest \<open>'e\<close> of the world.
\<close>

record 'e file_system =
  fs_mkdir_all :: "string \<Rightarrow> 'e \<Rightarrow> gerror option \<times> 'e"
  fs_create_temp :: "string \<Rightarrow> string \<Rightarrow> 'e \<Rightarrow> (gerror + string) \<times> 'e"
  fs_chmod :: "string \<Rightarrow> 'e \<Rightarrow> gerror option \<times> 'e"
  fs_write :: "string \<Rightarrow> string \<Rightarrow> 'e \<Rightarrow> gerror option \<times> 'e"
  fs_sync :: "string \<Rightarrow> 'e \<Rightarrow> gerror option \<times> 'e"
  fs_close :: "string \<Rightarrow> 'e \<Rightarrow> gerror option \<times> 'e"
  fs_rename :: "string \<Rightarrow> string \<Rightarrow> 'e \<Rightarrow> gerror option \<times> 'e"
  fs_remove :: "string \<Rightarrow> 'e \<Rightarrow> gerror option \<times> 'e"
  fs_open_dir :: "string \<Rightarrow> 'e \<Rightarrow> gerror option \<times> 'e"
  fs_sync_dir :: "string \<Rightarrow> 'e \<Rightarrow> gerror option \<times> 'e"
  fs_read :: "string \<Rightarrow> 'e \<Rightarrow> (gerror + string option) \<times> 'e"

text \<open>\<open>fs_read\<close> gives \<open>Inr None\<close> when the file does not exist.\<close>

definition sync_parent_dir :: "'e file_system \<Rightarrow> string \<Rightarrow> 'e \<Rightarrow> gerror option \<times> 'e" where
  "sync_parent_dir fs path e =
     (let dir = path_dir path in
      case fs_open_dir fs dir e of
        (Some err, e) \<Rightarrow>
          (Some (Wrapped err (''open parent dir '' @ dir @ '': '' @ err_msg err)), e)
      | (None, e) \<Rightarrow>
          (case fs_sync_dir fs dir e of
             (Some err, e) \<Rightarrow>
               (Some (Wrapped err (''sync parent dir '' @ dir @ '': '' @ err_msg err)), e)
           | (None, e) \<Rightarrow> (None, e)))"

text \<open>The deferred removal of the temporary file, and an early close before it.\<close>

definition give_up :: "'e file_system \<Rightarrow> string \<Rightarrow> gerror \<Rightarrow> 'e \<Rightarrow> gerror option \<times> 'e" where
  "give_up fs tmp err e = (Some err, snd (fs_remove fs tmp e))"

definition close_and_give_up :: "'e file_system \<Rightarrow> string \<Rightarrow> gerror \<Rightarrow> 'e \<Rightarrow> gerror option \<times> 'e" where
  "close_and_give_up fs tmp err e = give_up fs tmp err (snd (fs_close fs tmp e))"

definition write_file_atomically ::
  "'e file_system \<Rightarrow> string \<Rightarrow> string \<Rightarrow> 'e \<Rightarrow> gerror option \<times> 'e" where
  "write_file_atomically fs path data e =
     (let dir = path_dir path in
      case fs_mkdir_all fs dir e of
        (Some err, e) \<Rightarrow> (Some err, e)
      | (None, e) \<Rightarrow>
      (case fs_create_temp fs dir (path_base path @ ''.tmp-*'') e of
        (Inl err, e) \<Rightarrow> (Some err, e)
      | (Inr tmp, e) \<Rightarrow>
      (case fs_chmod fs tmp e of
        (Some err, e) \<Rightarrow> close_and_give_up fs tmp err e
      | (None, e) \<Rightarrow>
      (case fs_write fs tmp data e of
        (Some err, e) \<Rightarrow> close_and_give_up fs tmp err e
      | (None, e) \<Rightarrow>
      (case fs_sync fs tmp e of
        (Some err, e) \<Rightarrow> close_and_give_up fs tmp err e
      | (None, e) \<Rightarrow>
      (case fs_close fs tmp e of
        (Some err, e) \<Rightarrow> give_up fs tmp err e
      | (None, e) \<Rightarrow>
      (case fs_rename fs tmp path e of
        (Some err, e) \<Rightarrow> give_up fs tmp err e
      | (None, e) \<Rightarrow>
      (case sync_parent_dir fs path e of
        (Some err, e) \<Rightarrow> give_up fs tmp err e
      | (None, e) \<Rightarrow> (None, e)))))))))"

section \<open>Old or new, never in between\<close>

text \<open>
  What POSIX promises: calls on other names leave the file at \<open>path\<close> alone, a created temporary
  name is not \<open>path\<close>, a successful write puts the data in the temporary file, and a rename
  either puts that content at \<open>path\<close> or changes nothing.
\<close>

locale posix_files =
  fixes fs :: "'e file_system" and content :: "'e \<Rightarrow> string \<Rightarrow> string option"
    and path :: string
  assumes mkdir_keeps: "content (snd (fs_mkdir_all fs d e)) = content e"
    and create_temp: "fs_create_temp fs d p e = (x, e') \<Longrightarrow>
      content e' path = content e path \<and> (\<forall>tmp. x = Inr tmp \<longrightarrow> tmp \<noteq> path)"
    and chmod_keeps: "content (snd (fs_chmod fs n e)) = content e"
    and write_other: "n \<noteq> path \<Longrightarrow> content (snd (fs_write fs n data e)) path = content e path"
    and write_ok: "fs_write fs n data e = (None, e') \<Longrightarrow> content e' n = Some data"
    and sync_keeps: "content (snd (fs_sync fs n e)) = content e"
    and close_keeps: "content (snd (fs_close fs n e)) = content e"
    and rename_err: "fs_rename fs n path e = (Some err, e') \<Longrightarrow> content e' = content e"
    and rename_ok: "fs_rename fs n path e = (None, e') \<Longrightarrow> content e' path = content e n"
    and remove_other: "n \<noteq> path \<Longrightarrow> content (snd (fs_remove fs n e)) path = content e path"
    and open_dir_keeps: "content (snd (fs_open_dir fs d e)) = content e"
    and sync_dir_keeps: "content (snd (fs_sync_dir fs d e)) = content e"
begin

lemma sync_parent_keeps: "content (snd (sync_parent_dir fs p e)) = content e"
  using open_dir_keeps [of "path_dir p"] sync_dir_keeps [of "path_dir p"]
  by (auto simp: sync_parent_dir_def Let_def split: prod.splits option.splits) (metis snd_conv)+

lemma give_up_keeps: "tmp \<noteq> path \<Longrightarrow> content (snd (give_up fs tmp err e)) path = content e path"
  by (simp add: give_up_def remove_other)

lemma close_and_give_up_keeps:
  "tmp \<noteq> path \<Longrightarrow> content (snd (close_and_give_up fs tmp err e)) path = content e path"
  by (simp add: close_and_give_up_def give_up_keeps close_keeps)


lemma old_or_new:
  assumes "write_file_atomically fs path data e = (x, e')"
  shows "content e' path = content e path \<or> content e' path = Some data"
    and "x = None \<Longrightarrow> content e' path = Some data"
proof -
  obtain x1 e1 where m: "fs_mkdir_all fs (path_dir path) e = (x1, e1)" by fastforce
  then have c1: "content e1 = content e" by (metis mkdir_keeps snd_conv)
  obtain x2 e2 where t: "fs_create_temp fs (path_dir path) (path_base path @ ''.tmp-*'') e1 = (x2, e2)"
    by fastforce
  have c2: "content e2 path = content e path" using create_temp [OF t] c1 by simp
  show "content e' path = content e path \<or> content e' path = Some data"
    and "x = None \<Longrightarrow> content e' path = Some data"
  proof (atomize (full), cases x1)
    case (Some err)
    with assms m c1 show "(content e' path = content e path \<or> content e' path = Some data) \<and>
      (x = None \<longrightarrow> content e' path = Some data)"
      by (auto simp: write_file_atomically_def)
  next
    case x1: None
    show "(content e' path = content e path \<or> content e' path = Some data) \<and>
      (x = None \<longrightarrow> content e' path = Some data)"
    proof (cases x2)
      case (Inl err)
      with assms m t c2 x1 show ?thesis by (auto simp: write_file_atomically_def)
    next
      case (Inr tmp)
      then have np: "tmp \<noteq> path" using create_temp [OF t] by simp
      note keeps = give_up_keeps [OF np] close_and_give_up_keeps [OF np]
      obtain x3 e3 where h: "fs_chmod fs tmp e2 = (x3, e3)" by fastforce
      then have c3: "content e3 path = content e path" by (metis chmod_keeps snd_conv c2)
      obtain x4 e4 where w: "fs_write fs tmp data e3 = (x4, e4)" by fastforce
      then have c4: "content e4 path = content e path" by (metis write_other [OF np] snd_conv c3)
      obtain x5 e5 where sy: "fs_sync fs tmp e4 = (x5, e5)" by fastforce
      then have k5: "content e5 = content e4" by (metis sync_keeps snd_conv)
      obtain x6 e6 where cl: "fs_close fs tmp e5 = (x6, e6)" by fastforce
      then have k6: "content e6 = content e4" by (metis close_keeps snd_conv k5)
      obtain x7 e7 where rn: "fs_rename fs tmp path e6 = (x7, e7)" by fastforce
      obtain x8 e8 where sp: "sync_parent_dir fs path e7 = (x8, e8)" by fastforce
      then have k8: "content e8 = content e7" by (metis sync_parent_keeps snd_conv)
      have run: "x = fst (write_file_atomically fs path data e)"
        "e' = snd (write_file_atomically fs path data e)" using assms by simp_all
      note unf = write_file_atomically_def Let_def m t x1 Inr h w sy cl rn sp
      have gu: "fst (give_up fs tmp err z) = Some err"
        "fst (close_and_give_up fs tmp err z) = Some err" for err z
        by (simp_all add: give_up_def close_and_give_up_def)
      show ?thesis
      proof (cases "x3 = None \<and> x4 = None \<and> x5 = None \<and> x6 = None")
        case False
        then have "x \<noteq> None \<and> content e' path = content e path"
          unfolding run using c3 c4 k5 k6
          by (cases x3; cases x4; cases x5; cases x6) (simp_all add: unf gu keeps)
        then show ?thesis by auto
      next
        case True
        then have d: "content e6 tmp = Some data" using write_ok w k6 by simp
        show ?thesis
        proof (cases x7)
          case (Some err)
          then have "content e7 = content e6" using rename_err rn by simp
          with True Some c4 k6 show ?thesis unfolding run by (simp add: unf gu keeps)
        next
          case None
          then have "content e7 path = Some data" using rename_ok rn d by simp
          with True None k8 show ?thesis
            unfolding run by (cases x8) (simp_all add: unf gu keeps)
        qed
      qed
    qed
  qed
qed

end

section \<open>A disk with faults\<close>

text \<open>
  An in-memory disk on which any call may fail: the plan says which of the coming calls do
  (past its end none does). A failed write may leave a prefix of the data.
\<close>

record disk =
  dk_files :: "string go_map"
  dk_plan :: "bool list"

definition disk_call :: "(disk \<Rightarrow> disk) \<Rightarrow> (disk \<Rightarrow> disk) \<Rightarrow> disk \<Rightarrow> gerror option \<times> disk" where
  "disk_call good bad d =
     (case dk_plan d of
        True # fs \<Rightarrow> (Some (Plain ''input/output error''), bad (d\<lparr>dk_plan := fs\<rparr>))
      | _ \<Rightarrow> (None, good (d\<lparr>dk_plan := drop 1 (dk_plan d)\<rparr>)))"

definition disk_put :: "string \<Rightarrow> string \<Rightarrow> disk \<Rightarrow> disk" where
  "disk_put n data d = d\<lparr>dk_files := go_set (dk_files d) n data\<rparr>"

definition disk_rename :: "string \<Rightarrow> string \<Rightarrow> disk \<Rightarrow> disk" where
  "disk_rename old new d =
     (case go_get (dk_files d) old of
        None \<Rightarrow> d
      | Some data \<Rightarrow>
          d\<lparr>dk_files := (if old = new then id else (\<lambda>m. go_delete m old))
              (go_set (dk_files d) new data)\<rparr>)"

definition temp_name :: "string \<Rightarrow> string \<Rightarrow> string" where
  "temp_name dir pattern = dir @ ''/'' @ pattern @ ''0''"

definition disk_create_temp :: "string \<Rightarrow> string \<Rightarrow> disk \<Rightarrow> (gerror + string) \<times> disk" where
  "disk_create_temp dir pattern d =
     (let name = temp_name dir pattern in
      if name \<in> dom (go_get (dk_files d)) then (Inl (Plain ''file exists''), d)
      else case disk_call (disk_put name '''') id d of
             (Some e, d) \<Rightarrow> (Inl e, d)
           | (None, d) \<Rightarrow> (Inr name, d))"

definition mem_disk :: "disk file_system" where
  "mem_disk =
     \<lparr>fs_mkdir_all = \<lambda>_. disk_call id id,
      fs_create_temp = disk_create_temp,
      fs_chmod = \<lambda>_. disk_call id id,
      fs_write = \<lambda>n data. disk_call (disk_put n data) (disk_put n (take (length data div 2) data)),
      fs_sync = \<lambda>_. disk_call id id,
      fs_close = \<lambda>_. disk_call id id,
      fs_rename = \<lambda>old new d.
        (if go_get (dk_files d) old = None then (Some (Plain ''no such file''), d)
         else disk_call (disk_rename old new) id d),
      fs_remove = \<lambda>n. disk_call (\<lambda>d. d\<lparr>dk_files := go_delete (dk_files d) n\<rparr>) id,
      fs_open_dir = \<lambda>_. disk_call id id,
      fs_sync_dir = \<lambda>_. disk_call id id,
      fs_read = \<lambda>n d. (Inr (go_get (dk_files d) n), d)\<rparr>"

text \<open>The name of a temporary file ends in a digit, so it differs from a name that does not.\<close>

lemma disk_call_keeps:
  "(\<And>d. dk_files (f d) = dk_files d) \<Longrightarrow> (\<And>d. dk_files (g d) = dk_files d) \<Longrightarrow>
   dk_files (snd (disk_call f g d)) = dk_files d"
  by (simp add: disk_call_def split: list.split bool.split)

interpretation md: posix_files mem_disk "\<lambda>d. go_get (dk_files d)" "''/var/auth.json''"
  by unfold_locales
    (auto simp: mem_disk_def disk_call_keeps disk_call_def disk_put_def disk_create_temp_def
      disk_rename_def temp_name_def Let_def split: list.splits bool.splits if_splits option.splits)

text \<open>C17: replacing the file at a path never leaves anything there but the old content or the new
  data, whichever system call fails, and no error means the new data is there.\<close>

theorem write_file_atomically_old_or_new:
  assumes "posix_files fs content path" and "write_file_atomically fs path data e = (x, e')"
  shows "(content e' path = content e path \<or> content e' path = Some data) \<and>
    (x = None \<longrightarrow> content e' path = Some data)"
  using posix_files.old_or_new [OF assms] by simp

definition faulty_disk :: disk where
  "faulty_disk = \<lparr>dk_files = [(''/var/auth.json'', ''old'')], dk_plan = [False, False, False, True]\<rparr>"

theorem write_file_atomically_old_or_new_witness:
  "let (x, d) = write_file_atomically mem_disk ''/var/auth.json'' ''new data'' faulty_disk in
     x \<noteq> None \<and> go_get (dk_files d) ''/var/auth.json'' = Some ''old'' \<and>
     (go_get (dk_files d) ''/var/auth.json'' = Some ''old'' \<or>
      go_get (dk_files d) ''/var/auth.json'' = Some ''new data'')"
proof -
  obtain x d where r: "write_file_atomically mem_disk ''/var/auth.json'' ''new data'' faulty_disk = (x, d)"
    by fastforce
  have "x \<noteq> None \<and> go_get (dk_files d) ''/var/auth.json'' = Some ''old''"
  proof -
    have "(let (x, d) = write_file_atomically mem_disk ''/var/auth.json'' ''new data'' faulty_disk in
       x \<noteq> None \<and> go_get (dk_files d) ''/var/auth.json'' = Some ''old'')" by code_simp
    with r show ?thesis by simp
  qed
  with write_file_atomically_old_or_new [OF md.posix_files_axioms r] r show ?thesis
    by (simp add: faulty_disk_def)
qed

end
