(* ===== verification/AuthStore.thy ===== *)
theory AuthStore
  imports MemoryStore
begin

text \<open>
  The store of bootstrap tokens, pairing grants and session tokens
  (\<open>internal/auth/store.go\<close>). Every method holds the store's mutex for its whole body, so it
  is one atomic step on the three maps. Go's values of the maps are structs, so a snapshot
  shares nothing with the store.
\<close>

record bootstrap_token =
  bt_token :: string
  bt_agent_id :: string
  bt_container_id :: string
  bt_created_at :: int
  bt_expires_at :: int
  bt_used :: bool

record pairing_grant =
  pg_grant_id :: string
  pg_agent_id :: string
  pg_container_id :: string
  pg_created_at :: int
  pg_last_used_at :: int
  pg_idle_expires_at :: int
  pg_absolute_expires_at :: int
  pg_revoked :: bool

record session_token =
  st_token :: string
  st_grant_id :: string
  st_agent_id :: string
  st_created_at :: int
  st_expires_at :: int
  st_revoked :: bool

record auth_store =
  as_bootstrap :: "bootstrap_token go_map"
  as_grants :: "pairing_grant go_map"
  as_sessions :: "session_token go_map"

definition new_auth_store :: auth_store where
  "new_auth_store = \<lparr>as_bootstrap = [], as_grants = [], as_sessions = []\<rparr>"

section \<open>Operations\<close>

definition save_bootstrap :: "bootstrap_token \<Rightarrow> auth_store \<Rightarrow> auth_store" where
  "save_bootstrap t s = s\<lparr>as_bootstrap := go_set (as_bootstrap s) (bt_token t) t\<rparr>"

definition consume_bootstrap ::
  "string \<Rightarrow> string \<Rightarrow> int \<Rightarrow> auth_store \<Rightarrow> (gerror + bootstrap_token) \<times> auth_store" where
  "consume_bootstrap tok container now s =
     (case go_get (as_bootstrap s) tok of
        None \<Rightarrow> (Inl (Plain ''bootstrap token not found''), s)
      | Some t \<Rightarrow>
          if bt_used t then (Inl (Plain ''bootstrap token already used''), s)
          else if bt_container_id t \<noteq> '''' \<and> container \<noteq> bt_container_id t
          then (Inl (Plain ''bootstrap token container mismatch''), s)
          else if \<not> now < bt_expires_at t then (Inl (Plain ''bootstrap token expired''), s)
          else (let t = t\<lparr>bt_used := True\<rparr> in
                (Inr t, s\<lparr>as_bootstrap := go_set (as_bootstrap s) tok t\<rparr>)))"

definition save_grant :: "pairing_grant \<Rightarrow> auth_store \<Rightarrow> auth_store" where
  "save_grant g s = s\<lparr>as_grants := go_set (as_grants s) (pg_grant_id g) g\<rparr>"

definition get_grant :: "string \<Rightarrow> auth_store \<Rightarrow> gerror + pairing_grant" where
  "get_grant i s =
     (case go_get (as_grants s) i of
        None \<Rightarrow> Inl (Plain ''grant not found'')
      | Some g \<Rightarrow> Inr g)"

definition update_grant :: "pairing_grant \<Rightarrow> auth_store \<Rightarrow> auth_store" where
  "update_grant g s = s\<lparr>as_grants := go_set (as_grants s) (pg_grant_id g) g\<rparr>"

definition revoke_grant :: "string \<Rightarrow> auth_store \<Rightarrow> gerror option \<times> auth_store" where
  "revoke_grant i s =
     (case go_get (as_grants s) i of
        None \<Rightarrow> (Some (Plain ''grant not found''), s)
      | Some g \<Rightarrow> (None, s\<lparr>as_grants := go_set (as_grants s) i (g\<lparr>pg_revoked := True\<rparr>)\<rparr>))"

definition save_session :: "session_token \<Rightarrow> auth_store \<Rightarrow> auth_store" where
  "save_session t s = s\<lparr>as_sessions := go_set (as_sessions s) (st_token t) t\<rparr>"

definition get_session :: "string \<Rightarrow> auth_store \<Rightarrow> gerror + session_token" where
  "get_session tok s =
     (case go_get (as_sessions s) tok of
        None \<Rightarrow> Inl (Plain ''session not found'')
      | Some t \<Rightarrow> Inr t)"

definition revoke_session :: "string \<Rightarrow> auth_store \<Rightarrow> gerror option \<times> auth_store" where
  "revoke_session tok s =
     (case go_get (as_sessions s) tok of
        None \<Rightarrow> (Some (Plain ''session not found''), s)
      | Some t \<Rightarrow> (None, s\<lparr>as_sessions := go_set (as_sessions s) tok (t\<lparr>st_revoked := True\<rparr>)\<rparr>))"

definition validate_session :: "string \<Rightarrow> int \<Rightarrow> auth_store \<Rightarrow> gerror + session_token" where
  "validate_session tok now s =
     (case get_session tok s of
        Inl e \<Rightarrow> Inl e
      | Inr t \<Rightarrow>
          if st_revoked t then Inl (Plain ''session revoked'')
          else if \<not> now < st_expires_at t then Inl (Plain ''session expired'')
          else Inr t)"

text \<open>The entries the cleanup removes, and the grants it revokes.\<close>

definition stale_bootstrap :: "int \<Rightarrow> bootstrap_token \<Rightarrow> bool" where
  "stale_bootstrap now t \<longleftrightarrow> bt_used t \<or> \<not> now < bt_expires_at t"

definition stale_session :: "int \<Rightarrow> session_token \<Rightarrow> bool" where
  "stale_session now t \<longleftrightarrow> st_revoked t \<or> \<not> now < st_expires_at t"

definition lapsed_grant :: "int \<Rightarrow> pairing_grant \<Rightarrow> bool" where
  "lapsed_grant now g \<longleftrightarrow>
     \<not> pg_revoked g \<and> (\<not> now < pg_idle_expires_at g \<or> \<not> now < pg_absolute_expires_at g)"

definition cleanup_expired :: "int \<Rightarrow> auth_store \<Rightarrow> (nat \<times> nat \<times> nat) \<times> auth_store" where
  "cleanup_expired now s =
     ((length (filter (\<lambda>(k, t). stale_bootstrap now t) (as_bootstrap s)),
       length (filter (\<lambda>(k, t). stale_session now t) (as_sessions s)),
       length (filter (\<lambda>(k, g). lapsed_grant now g) (as_grants s))),
      \<lparr>as_bootstrap = filter (\<lambda>(k, t). \<not> stale_bootstrap now t) (as_bootstrap s),
       as_grants = map (\<lambda>(k, g). (k, if lapsed_grant now g then g\<lparr>pg_revoked := True\<rparr> else g))
         (as_grants s),
       as_sessions = filter (\<lambda>(k, t). \<not> stale_session now t) (as_sessions s)\<rparr>)"

section \<open>Snapshots\<close>

text \<open>\<open>None\<close> is a \<open>nil\<close> map, which only a decoded file has.\<close>

record store_snapshot =
  sn_bootstrap :: "bootstrap_token go_map option"
  sn_grants :: "pairing_grant go_map option"
  sn_sessions :: "session_token go_map option"

definition snapshot :: "auth_store \<Rightarrow> store_snapshot" where
  "snapshot s =
     \<lparr>sn_bootstrap = Some (as_bootstrap s), sn_grants = Some (as_grants s),
      sn_sessions = Some (as_sessions s)\<rparr>"

definition restore :: "store_snapshot \<Rightarrow> auth_store \<Rightarrow> auth_store" where
  "restore sn s =
     \<lparr>as_bootstrap = (case sn_bootstrap sn of None \<Rightarrow> as_bootstrap s | Some m \<Rightarrow> m),
      as_grants = (case sn_grants sn of None \<Rightarrow> as_grants s | Some m \<Rightarrow> m),
      as_sessions = (case sn_sessions sn of None \<Rightarrow> as_sessions s | Some m \<Rightarrow> m)\<rparr>"

lemma restore_snapshot [simp]: "restore (snapshot s) s' = s"
  by (simp add: restore_def snapshot_def)

end
