(* ===== verification/Base64.thy ===== *)
theory Base64
  imports GoStrings
begin

text \<open>
  \<open>base64.StdEncoding\<close> of Go's standard library, as the encrypted auth store uses it: the
  padded encoding, and the decoder, which ignores line breaks and rejects everything else
  outside the alphabet.
\<close>

definition b64_alphabet :: string where
  "b64_alphabet = ''ABCDEFGHIJKLMNOPQRSTUVWXYZabcdefghijklmnopqrstuvwxyz0123456789+/''"

definition b64_pad :: char where "b64_pad = CHR ''=''"

definition b64_char :: "nat \<Rightarrow> char" where
  "b64_char n = b64_alphabet ! (n mod 64)"

fun position :: "char \<Rightarrow> string \<Rightarrow> nat option" where
  "position c [] = None"
| "position c (d # ds) = (if c = d then Some 0 else map_option Suc (position c ds))"

definition b64_val :: "char \<Rightarrow> nat option" where
  "b64_val c = position c b64_alphabet"

fun b64_encode :: "string \<Rightarrow> string" where
  "b64_encode (a # b # c # s) =
     b64_char (byte a div 4) # b64_char (byte a mod 4 * 16 + byte b div 16) #
     b64_char (byte b mod 16 * 4 + byte c div 64) # b64_char (byte c mod 64) # b64_encode s"
| "b64_encode [a, b] =
     [b64_char (byte a div 4), b64_char (byte a mod 4 * 16 + byte b div 16),
      b64_char (byte b mod 16 * 4), b64_pad]"
| "b64_encode [a] =
     [b64_char (byte a div 4), b64_char (byte a mod 4 * 16), b64_pad, b64_pad]"
| "b64_encode [] = []"

text \<open>The bytes of two, three or four digits.\<close>

definition b64_first :: "nat \<Rightarrow> nat \<Rightarrow> char" where
  "b64_first v w = char_of (v * 4 + w div 16)"
definition b64_second :: "nat \<Rightarrow> nat \<Rightarrow> char" where
  "b64_second w x = char_of (w mod 16 * 16 + x div 4)"
definition b64_third :: "nat \<Rightarrow> nat \<Rightarrow> char" where
  "b64_third x y = char_of (x mod 4 * 64 + y)"

fun b64_quads :: "string \<Rightarrow> string option" where
  "b64_quads [] = Some []"
| "b64_quads (a # b # c # d # s) =
     (case (b64_val a, b64_val b) of
        (Some v, Some w) \<Rightarrow>
          if s = [] \<and> c = b64_pad \<and> d = b64_pad then Some [b64_first v w]
          else (case b64_val c of
            None \<Rightarrow> None
          | Some x \<Rightarrow>
              if s = [] \<and> d = b64_pad then Some [b64_first v w, b64_second w x]
              else (case b64_val d of
                None \<Rightarrow> None
              | Some y \<Rightarrow>
                  map_option (\<lambda>t. b64_first v w # b64_second w x # b64_third x y # t)
                    (b64_quads s)))
      | _ \<Rightarrow> None)"
| "b64_quads _ = None"

definition b64_decode :: "string \<Rightarrow> string option" where
  "b64_decode s = b64_quads (filter (\<lambda>c. c \<noteq> CHR 0x0A \<and> c \<noteq> CHR 0x0D) s)"

section \<open>Decoding undoes encoding\<close>

lemma b64_val_char_all: "list_all (\<lambda>n. b64_val (b64_char n) = Some n) [0..<64]"
  by code_simp

lemma b64_val_char [simp]:
  assumes "n < 64" shows "b64_val (b64_char n) = Some n"
  using b64_val_char_all assms by (simp add: list_all_iff)

lemma b64_char_plain_all:
  "list_all (\<lambda>n. b64_char n \<noteq> CHR 0x0A \<and> b64_char n \<noteq> CHR 0x0D \<and> b64_char n \<noteq> b64_pad) [0..<64]"
  by code_simp

lemma b64_char_plain [simp]:
  assumes "n < 64"
  shows "b64_char n \<noteq> CHR 0x0A" and "b64_char n \<noteq> CHR 0x0D" and "b64_char n \<noteq> b64_pad"
  using b64_char_plain_all assms by (simp_all add: list_all_iff)

lemma byte_less [simp]: "byte a < 256"
  by (cases a) (simp add: of_char_def horner_sum_simps)

lemma digits_less [simp]:
  "byte a div 4 < 64" "byte a mod 4 * 16 + byte b div 16 < 64"
  "byte a mod 16 * 4 + byte b div 64 < 64" "byte a mod 64 < 64"
  "byte a mod 4 * 16 < 64" "byte a mod 16 * 4 < 64"
  using byte_less [of a] byte_less [of b] by linarith+


lemma b64_bytes:
  "b64_first (byte a div 4) (byte a mod 4 * 16 + byte b div 16) = a"
  "b64_first (byte a div 4) (byte a mod 4 * 16) = a"
  "b64_second (byte a mod 4 * 16 + byte b div 16) (byte b mod 16 * 4 + byte c div 64) = b"
  "b64_second (byte a mod 4 * 16 + byte b div 16) (byte b mod 16 * 4) = b"
  "b64_third (byte b mod 16 * 4 + byte c div 64) (byte c mod 64) = c"
proof -
  have d: "byte a div 16 < 16" "byte b div 16 < 16" "byte c div 64 < 4" for a b c
    using byte_less [of a] byte_less [of b] byte_less [of c] by linarith+
  have m: "byte b div 16 mod 16 = byte b div 16" "byte c div 64 mod 4 = byte c div 64"
    using d by simp_all
  have p: "(byte a mod 4 * 16 + byte b div 16) div 16 = byte a mod 4"
    "(byte a mod 4 * 16 + byte b div 16) mod 16 = byte b div 16"
    "(byte b mod 16 * 4 + byte c div 64) div 4 = byte b mod 16"
    "(byte b mod 16 * 4 + byte c div 64) mod 4 = byte c div 64"
    using d(2) [of b] d(3) [of c] by simp_all
  show "b64_first (byte a div 4) (byte a mod 4 * 16 + byte b div 16) = a"
    "b64_first (byte a div 4) (byte a mod 4 * 16) = a"
    "b64_second (byte a mod 4 * 16 + byte b div 16) (byte b mod 16 * 4 + byte c div 64) = b"
    "b64_second (byte a mod 4 * 16 + byte b div 16) (byte b mod 16 * 4) = b"
    "b64_third (byte b mod 16 * 4 + byte c div 64) (byte c mod 64) = c"
    by (simp_all add: b64_first_def b64_second_def b64_third_def p m)
qed

lemma b64_quads_encode: "b64_quads (b64_encode s) = Some s"
  by (induction s rule: b64_encode.induct) (simp_all add: b64_bytes)

lemma b64_encode_plain: "filter (\<lambda>c. c \<noteq> CHR 0x0A \<and> c \<noteq> CHR 0x0D) (b64_encode s) = b64_encode s"
  by (induction s rule: b64_encode.induct) (simp_all add: b64_pad_def)

lemma b64_decode_encode: "b64_decode (b64_encode s) = Some s"
  by (simp add: b64_decode_def b64_encode_plain b64_quads_encode)

end
