(* ===== verification/Persistence.thy ===== *)
theory Persistence
  imports AtomicFile AuthStore Base64 Sha256
begin

text \<open>
  Files the daemon keeps its state in: requests and leases (\<open>SaveStateToFile\<close> and
  \<open>LoadStateFromFile\<close> of \<open>internal/adapters/memory/store.go\<close>), the auth store in plain or
  encrypted form (\<open>internal/auth/persist.go\<close>), and the checkpoint of the audit log
  (\<open>internal/adapters/audit/verify.go\<close>).

  What the packages \<open>encoding/json\<close> and \<open>crypto/aes\<close>, \<open>crypto/cipher\<close> do to these values
  is a record of functions: the JSON texts of the three structs, and sealing and opening with
  AES-GCM. The law the code relies on is that parsing and opening undo printing and sealing.
\<close>

record persisted_state =
  ps_requests :: "lease_request go_map option"
  ps_leases :: "lease go_map option"

record encrypted_persisted_state =
  ep_version :: string
  ep_nonce :: string
  ep_ciphertext :: string

record codec =
  cd_state_json :: "persisted_state \<Rightarrow> gerror + string"
  cd_parse_state :: "string \<Rightarrow> gerror + persisted_state"
  cd_snapshot_json :: "bool \<Rightarrow> store_snapshot \<Rightarrow> gerror + string"
  cd_parse_snapshot :: "string \<Rightarrow> gerror + store_snapshot"
  cd_envelope_json :: "encrypted_persisted_state \<Rightarrow> gerror + string"
  cd_parse_envelope :: "string \<Rightarrow> gerror + encrypted_persisted_state"
  cd_seal :: "string \<Rightarrow> string \<Rightarrow> string \<Rightarrow> string"
  cd_open :: "string \<Rightarrow> string \<Rightarrow> string \<Rightarrow> string option"

text \<open>
  \<open>cd_snapshot_json\<close> takes whether the text is indented; \<open>cd_seal\<close> and \<open>cd_open\<close> take the
  32-byte key, the nonce and the text.
\<close>

section \<open>Requests and leases\<close>

definition save_state_to_file ::
  "codec \<Rightarrow> 'e file_system \<Rightarrow> string \<Rightarrow> mem_store \<Rightarrow> 'e \<Rightarrow> gerror option \<times> 'e" where
  "save_state_to_file cd fs path s e =
     (let state = \<lparr>ps_requests = Some (ms_requests s), ps_leases = Some (ms_leases s)\<rparr> in
      case cd_state_json cd state of
        Inl err \<Rightarrow> (Some err, e)
      | Inr b \<Rightarrow> write_file_atomically fs path b e)"

definition or_empty :: "'v go_map option \<Rightarrow> 'v go_map" where
  "or_empty m = (case m of None \<Rightarrow> [] | Some m \<Rightarrow> m)"

definition load_state_from_file ::
  "codec \<Rightarrow> 'e file_system \<Rightarrow> string \<Rightarrow> mem_store \<Rightarrow> 'e \<Rightarrow> gerror option \<times> mem_store \<times> 'e" where
  "load_state_from_file cd fs path s e =
     (case fs_read fs path e of
        (Inl err, e) \<Rightarrow> (Some err, s, e)
      | (Inr None, e) \<Rightarrow> (None, s, e)
      | (Inr (Some b), e) \<Rightarrow>
          if trim_space b = '''' then (None, s, e)
          else case cd_parse_state cd b of
            Inl err \<Rightarrow> (Some (Wrapped err (''parse memory store: '' @ err_msg err)), s, e)
          | Inr state \<Rightarrow>
              (None, s\<lparr>ms_requests := or_empty (ps_requests state),
                 ms_leases := or_empty (ps_leases state)\<rparr>, e))"

section \<open>The auth store\<close>

definition encrypted_persisted_state_v1 :: string where
  "encrypted_persisted_state_v1 = ''v1''"

definition normalize_encryption_key :: "string \<Rightarrow> gerror + string" where
  "normalize_encryption_key key =
     (let trimmed = trim_space key in
      if length trimmed < 16 then Inl (Plain ''encryption key must be at least 16 characters'')
      else Inr (sha256 trimmed))"

text \<open>\<open>rnd\<close> reads a nonce of twelve random bytes.\<close>

definition encrypt_state ::
  "codec \<Rightarrow> ('e \<Rightarrow> (gerror + string) \<times> 'e) \<Rightarrow> string \<Rightarrow> string \<Rightarrow> 'e \<Rightarrow>
   (gerror + encrypted_persisted_state) \<times> 'e"
where
  "encrypt_state cd rnd plaintext key e =
     (case normalize_encryption_key key of
        Inl err \<Rightarrow> (Inl err, e)
      | Inr k \<Rightarrow>
          (case rnd e of
             (Inl err, e) \<Rightarrow> (Inl err, e)
           | (Inr nonce, e) \<Rightarrow>
               (Inr \<lparr>ep_version = encrypted_persisted_state_v1, ep_nonce = b64_encode nonce,
                  ep_ciphertext = b64_encode (cd_seal cd k nonce plaintext)\<rparr>, e)))"

text \<open>
  \<open>gcm.Open\<close> panics when the nonce does not have twelve bytes: the decoded nonce of a file is
  passed to it unchecked. The panic is the error value \<open>bad_nonce_panic\<close>. The errors of the
  base64 decoder name an offset, which the model leaves out.
\<close>

definition bad_nonce_panic :: gerror where
  "bad_nonce_panic = Plain ''panic: crypto/cipher: incorrect nonce length given to GCM''"

definition illegal_base64 :: gerror where
  "illegal_base64 = Plain ''illegal base64 data''"

definition decrypt_state :: "codec \<Rightarrow> encrypted_persisted_state \<Rightarrow> string \<Rightarrow> gerror + string" where
  "decrypt_state cd enc key =
     (if trim_space (ep_version enc) \<noteq> encrypted_persisted_state_v1
      then Inl (Plain (''unsupported encrypted auth store version '' @ quote (ep_version enc)))
      else case normalize_encryption_key key of
        Inl err \<Rightarrow> Inl err
      | Inr k \<Rightarrow>
          (case b64_decode (ep_nonce enc) of
             None \<Rightarrow> Inl (Wrapped illegal_base64 (''decode nonce: '' @ err_msg illegal_base64))
           | Some nonce \<Rightarrow>
               (case b64_decode (ep_ciphertext enc) of
                  None \<Rightarrow>
                    Inl (Wrapped illegal_base64 (''decode ciphertext: '' @ err_msg illegal_base64))
                | Some ciphertext \<Rightarrow>
                    if length nonce \<noteq> 12 then Inl bad_nonce_panic
                    else case cd_open cd k nonce ciphertext of
                      None \<Rightarrow>
                        Inl (Plain ''decrypt auth store: cipher: message authentication failed'')
                    | Some plaintext \<Rightarrow> Inr plaintext)))"

definition save_to_file ::
  "codec \<Rightarrow> 'e file_system \<Rightarrow> string \<Rightarrow> auth_store \<Rightarrow> 'e \<Rightarrow> gerror option \<times> 'e" where
  "save_to_file cd fs path s e =
     (case cd_snapshot_json cd True (snapshot s) of
        Inl err \<Rightarrow> (Some err, e)
      | Inr b \<Rightarrow> write_file_atomically fs path b e)"

definition save_to_file_encrypted ::
  "codec \<Rightarrow> 'e file_system \<Rightarrow> ('e \<Rightarrow> (gerror + string) \<times> 'e) \<Rightarrow> string \<Rightarrow> string \<Rightarrow> auth_store \<Rightarrow>
   'e \<Rightarrow> gerror option \<times> 'e"
where
  "save_to_file_encrypted cd fs rnd path key s e =
     (case cd_snapshot_json cd False (snapshot s) of
        Inl err \<Rightarrow> (Some err, e)
      | Inr raw \<Rightarrow>
          (case encrypt_state cd rnd raw key e of
             (Inl err, e) \<Rightarrow> (Some err, e)
           | (Inr enc, e) \<Rightarrow>
               (case cd_envelope_json cd enc of
                  Inl err \<Rightarrow> (Some err, e)
                | Inr b \<Rightarrow> write_file_atomically fs path b e)))"

definition load_from_file ::
  "codec \<Rightarrow> 'e file_system \<Rightarrow> string \<Rightarrow> auth_store \<Rightarrow> 'e \<Rightarrow> gerror option \<times> auth_store \<times> 'e" where
  "load_from_file cd fs path s e =
     (case fs_read fs path e of
        (Inl err, e) \<Rightarrow> (Some err, s, e)
      | (Inr None, e) \<Rightarrow> (None, s, e)
      | (Inr (Some b), e) \<Rightarrow>
          if b = '''' then (None, s, e)
          else case cd_parse_snapshot cd b of
            Inl err \<Rightarrow> (Some (Wrapped err (''parse auth store: '' @ err_msg err)), s, e)
          | Inr state \<Rightarrow> (None, restore state s, e))"

definition load_from_file_encrypted ::
  "codec \<Rightarrow> 'e file_system \<Rightarrow> string \<Rightarrow> string \<Rightarrow> auth_store \<Rightarrow> 'e \<Rightarrow>
   gerror option \<times> auth_store \<times> 'e"
where
  "load_from_file_encrypted cd fs path key s e =
     (case fs_read fs path e of
        (Inl err, e) \<Rightarrow> (Some err, s, e)
      | (Inr None, e) \<Rightarrow> (None, s, e)
      | (Inr (Some b), e) \<Rightarrow>
          if b = '''' then (None, s, e)
          else case cd_parse_envelope cd b of
            Inl err \<Rightarrow>
              (Some (Wrapped err (''parse encrypted auth store envelope: '' @ err_msg err)), s, e)
          | Inr enc \<Rightarrow>
              if trim_space (ep_version enc) = '''' \<or> trim_space (ep_nonce enc) = '''' \<or>
                trim_space (ep_ciphertext enc) = ''''
              then (Some (Plain ''encrypted auth store missing required envelope fields''), s, e)
              else case decrypt_state cd enc key of
                Inl err \<Rightarrow> (Some err, s, e)
              | Inr raw \<Rightarrow>
                  (case cd_parse_snapshot cd raw of
                     Inl err \<Rightarrow>
                       (Some (Wrapped err (''parse encrypted auth store payload: '' @ err_msg err)), s, e)
                   | Inr state \<Rightarrow> (None, restore state s, e)))"

section \<open>The audit checkpoint\<close>

definition sync_dir :: "'e file_system \<Rightarrow> string \<Rightarrow> 'e \<Rightarrow> gerror option \<times> 'e" where
  "sync_dir fs dir e =
     (case fs_open_dir fs dir e of
        (Some err, e) \<Rightarrow> (Some err, e)
      | (None, e) \<Rightarrow> fs_sync_dir fs dir e)"

definition write_checkpoint ::
  "'e file_system \<Rightarrow> string \<Rightarrow> string \<Rightarrow> 'e \<Rightarrow> gerror option \<times> 'e" where
  "write_checkpoint fs path hash e =
     (let dir = path_dir path in
      case fs_create_temp fs dir ''.promptlock-checkpoint-*'' e of
        (Inl err, e) \<Rightarrow> (Some err, e)
      | (Inr tmp, e) \<Rightarrow>
      (case fs_write fs tmp (trim_space hash @ [CHR 0x0A]) e of
        (Some err, e) \<Rightarrow> close_and_give_up fs tmp err e
      | (None, e) \<Rightarrow>
      (case fs_sync fs tmp e of
        (Some err, e) \<Rightarrow> close_and_give_up fs tmp err e
      | (None, e) \<Rightarrow>
      (case fs_close fs tmp e of
        (Some err, e) \<Rightarrow> give_up fs tmp err e
      | (None, e) \<Rightarrow>
      (case fs_rename fs tmp path e of
        (Some err, e) \<Rightarrow> give_up fs tmp err e
      | (None, e) \<Rightarrow>
      (case sync_dir fs dir e of
        (Some err, e) \<Rightarrow> give_up fs tmp err e
      | (None, e) \<Rightarrow> (None, e)))))))"

definition read_checkpoint ::
  "'e file_system \<Rightarrow> string \<Rightarrow> 'e \<Rightarrow> (gerror + string) \<times> 'e" where
  "read_checkpoint fs path e =
     (case fs_read fs path e of
        (Inl err, e) \<Rightarrow> (Inl err, e)
      | (Inr None, e) \<Rightarrow> (Inl (Plain (''open '' @ path @ '': no such file or directory'')), e)
      | (Inr (Some b), e) \<Rightarrow> (Inr (trim_space b), e))"

section \<open>What was saved is what is loaded\<close>

lemma leading_rune_plain:
  assumes "\<And>c w. c \<in> set s \<Longrightarrow> w \<in> set T \<Longrightarrow> c \<notin> set w"
  shows "leading_rune T s = None"
proof (unfold leading_rune_None, intro ballI impI)
  fix w assume w: "w \<in> set T" "w \<noteq> []"
  show "\<not> has_prefix s w"
  proof
    assume "has_prefix s w"
    with w(2) have "hd w \<in> set s" by (cases w) (auto simp: has_prefix_iff)
    with assms w show False using hd_in_set by blast
  qed
qed

lemma trim_space_plain:
  assumes "\<And>c w. c \<in> set s \<Longrightarrow> w \<in> set space_runes \<Longrightarrow> c \<notin> set w"
  shows "trim_space s = s"
proof -
  have "leading_rune space_runes s = None" by (rule leading_rune_plain [OF assms])
  moreover have "leading_rune (map rev space_runes) (rev s) = None"
    by (rule leading_rune_plain) (use assms in auto)
  ultimately show ?thesis by (simp add: trim_space_def trim_left_def trim_right_def trim_runes_None)
qed

lemma b64_no_space_all:
  "list_all (\<lambda>c. list_all (\<lambda>w. c \<notin> set w) space_runes) (b64_pad # map b64_char [0..<64])"
  by code_simp

lemma set_b64_encode: "set (b64_encode s) \<subseteq> set (b64_pad # map b64_char [0..<64])"
proof (induction s rule: b64_encode.induct)
  case (1 a b c s)
  then show ?case by (auto simp: image_iff intro!: bexI)
next
  case (2 a b)
  then show ?case by (auto simp: image_iff intro!: bexI)
next
  case (3 a)
  then show ?case by (auto simp: image_iff intro!: bexI)
qed simp

lemma trim_space_b64 [simp]: "trim_space (b64_encode s) = b64_encode s"
  by (rule trim_space_plain) (use set_b64_encode b64_no_space_all in \<open>fastforce simp: list_all_iff\<close>)

lemma b64_encode_Nil_iff [simp]: "b64_encode s = [] \<longleftrightarrow> s = []"
  by (cases s rule: b64_encode.cases) auto

lemma trim_space_v1 [simp]: "trim_space encrypted_persisted_state_v1 = ''v1''"
  by code_simp

text \<open>
  What the code relies on from the codec for the stores at hand: no text is blank, and parsing
  gives back what was printed, for an envelope of ASCII texts; a sealed text is longer than
  nothing and opens again.
\<close>

definition codec_restores :: "codec \<Rightarrow> auth_store \<Rightarrow> bool" where
  "codec_restores cd s \<longleftrightarrow>
     (\<forall>indent b. cd_snapshot_json cd indent (snapshot s) = Inr b \<longrightarrow>
        b \<noteq> [] \<and> cd_parse_snapshot cd b = Inr (snapshot s)) \<and>
     (\<forall>enc b. is_ascii (ep_version enc) \<and> is_ascii (ep_nonce enc) \<and> is_ascii (ep_ciphertext enc) \<longrightarrow>
        cd_envelope_json cd enc = Inr b \<longrightarrow> b \<noteq> [] \<and> cd_parse_envelope cd b = Inr enc) \<and>
     (\<forall>k n p. cd_seal cd k n p \<noteq> [] \<and> cd_open cd k n (cd_seal cd k n p) = Some p)"

lemma b64_char_ascii: "byte (b64_char n) < 128"
proof -
  have "list_all (\<lambda>n. byte (b64_char n) < 128) [0..<64]" by code_simp
  then have "byte (b64_char (n mod 64)) < 128" by (simp add: list_all_iff)
  then show ?thesis by (simp add: b64_char_def)
qed

lemma b64_encode_ascii: "is_ascii (b64_encode s)"
proof -
  have "byte b64_pad < 128" by code_simp
  then show ?thesis
    by (induction s rule: b64_encode.induct) (simp_all add: is_ascii_def b64_char_ascii)
qed

lemma encrypted_ascii:
  assumes "encrypt_state cd rnd raw key e = (Inr enc, e')"
  shows "is_ascii (ep_version enc) \<and> is_ascii (ep_nonce enc) \<and> is_ascii (ep_ciphertext enc)"
proof -
  have "is_ascii encrypted_persisted_state_v1" by code_simp
  then show ?thesis
    using assms by (auto simp: encrypt_state_def b64_encode_ascii split: sum.splits prod.splits)
qed

lemma encrypt_then_decrypt:
  assumes "codec_restores cd s" and "encrypt_state cd rnd raw key e = (Inr enc, e')"
    and "\<And>n z z'. rnd z = (Inr n, z') \<Longrightarrow> length n = 12"
  shows "decrypt_state cd enc key = Inr raw" and "trim_space (ep_version enc) \<noteq> []"
    and "trim_space (ep_nonce enc) \<noteq> []" and "trim_space (ep_ciphertext enc) \<noteq> []"
proof -
  obtain k where k: "normalize_encryption_key key = Inr k"
    using assms(2) by (auto simp: encrypt_state_def split: sum.splits)
  obtain n where n: "rnd e = (Inr n, e')"
    and enc: "enc = \<lparr>ep_version = encrypted_persisted_state_v1, ep_nonce = b64_encode n,
      ep_ciphertext = b64_encode (cd_seal cd k n raw)\<rparr>"
    using assms(2) k by (auto simp: encrypt_state_def split: sum.splits prod.splits)
  have "length n = 12" by (rule assms(3) [OF n])
  moreover have "cd_seal cd k n raw \<noteq> []" "cd_open cd k n (cd_seal cd k n raw) = Some raw"
    using assms(1) by (simp_all add: codec_restores_def)
  ultimately show "decrypt_state cd enc key = Inr raw" "trim_space (ep_version enc) \<noteq> []"
    "trim_space (ep_nonce enc) \<noteq> []" "trim_space (ep_ciphertext enc) \<noteq> []"
    using k by (auto simp: enc decrypt_state_def b64_decode_encode)
       (simp add: encrypted_persisted_state_v1_def)
qed

text \<open>
  C19: An auth store that was saved without an error, in plain or encrypted form, is what a
  daemon with the same key loads from that file, whatever its store held before.
\<close>

theorem saved_auth_store_loads:
  assumes "posix_files fs content path" and "\<forall>z. fs_read fs path z = (Inr (content z path), z)"
    and "codec_restores cd s" and "\<forall>n z z'. rnd z = (Inr n, z') \<longrightarrow> length n = 12"
  shows "(save_to_file cd fs path s e = (None, e') \<longrightarrow>
      load_from_file cd fs path s0 e' = (None, s, e')) \<and>
    (save_to_file_encrypted cd fs rnd path key s e = (None, e') \<longrightarrow>
      load_from_file_encrypted cd fs path key s0 e' = (None, s, e'))"
proof (intro conjI impI)
  note written = posix_files.old_or_new(2) [OF assms(1) _ refl]
  assume save: "save_to_file cd fs path s e = (None, e')"
  then obtain b where b: "cd_snapshot_json cd True (snapshot s) = Inr b"
    and w: "write_file_atomically fs path b e = (None, e')"
    by (auto simp: save_to_file_def split: sum.splits)
  have "content e' path = Some b" by (rule written [OF w])
  moreover have "b \<noteq> [] \<and> cd_parse_snapshot cd b = Inr (snapshot s)"
    using assms(3) b by (auto simp: codec_restores_def)
  ultimately show "load_from_file cd fs path s0 e' = (None, s, e')"
    using assms(2) by (simp add: load_from_file_def)
next
  note written = posix_files.old_or_new(2) [OF assms(1) _ refl]
  assume save: "save_to_file_encrypted cd fs rnd path key s e = (None, e')"
  then obtain raw enc e1 b where raw: "cd_snapshot_json cd False (snapshot s) = Inr raw"
    and enc: "encrypt_state cd rnd raw key e = (Inr enc, e1)"
    and b: "cd_envelope_json cd enc = Inr b" and w: "write_file_atomically fs path b e1 = (None, e')"
    by (auto simp: save_to_file_encrypted_def split: sum.splits prod.splits)
  have "content e' path = Some b" by (rule written [OF w])
  moreover have "b \<noteq> [] \<and> cd_parse_envelope cd b = Inr enc"
    and "cd_parse_snapshot cd raw = Inr (snapshot s)"
    using assms(3) b raw encrypted_ascii [OF enc] by (auto simp: codec_restores_def)
  moreover note encrypt_then_decrypt [OF assms(3) enc] assms(4)
  ultimately show "load_from_file_encrypted cd fs path key s0 e' = (None, s, e')"
    using assms(2) by (simp add: load_from_file_encrypted_def)
qed

subsection \<open>A run on the in-memory disk\<close>

text \<open>A codec for one store: texts of the envelope mark every character and every end of field.\<close>

fun put_fields :: "string list \<Rightarrow> string" where
  "put_fields [] = ''.''"
| "put_fields ([] # fs) = CHR '';'' # put_fields fs"
| "put_fields ((c # f) # fs) = CHR ''c'' # c # put_fields (f # fs)"

fun get_fields :: "string \<Rightarrow> string \<Rightarrow> string list" where
  "get_fields acc (m # c # s) =
     (if m = CHR ''c'' then get_fields (acc @ [c]) s
      else if m = CHR '';'' then acc # get_fields [] (c # s)
      else [])"
| "get_fields acc _ = []"

lemma put_fields_nonempty: "put_fields fs \<noteq> []"
  by (induction fs rule: put_fields.induct) simp_all

lemma get_put_fields: "get_fields acc (put_fields (f # fs)) = (acc @ f) # get_fields [] (put_fields fs)"
proof (induction f arbitrary: acc)
  case Nil
  then show ?case using put_fields_nonempty [of fs] by (cases "put_fields fs") auto
qed simp

definition example_codec :: "auth_store \<Rightarrow> codec" where
  "example_codec s =
     \<lparr>cd_state_json = \<lambda>_. Inr ''state'', cd_parse_state = \<lambda>_. Inl (Plain ''unused''),
      cd_snapshot_json = \<lambda>_ _. Inr ''snapshot'',
      cd_parse_snapshot = \<lambda>b. if b = ''snapshot'' then Inr (snapshot s) else Inl (Plain ''syntax''),
      cd_envelope_json = \<lambda>enc. Inr (put_fields [ep_version enc, ep_nonce enc, ep_ciphertext enc]),
      cd_parse_envelope = \<lambda>b. (case get_fields [] b of
          [v, n, c] \<Rightarrow> Inr \<lparr>ep_version = v, ep_nonce = n, ep_ciphertext = c\<rparr>
        | _ \<Rightarrow> Inl (Plain ''syntax'')),
      cd_seal = \<lambda>k n p. ''sealed:'' @ p,
      cd_open = \<lambda>k n c. Some (drop 7 c)\<rparr>"

lemma example_codec_restores: "codec_restores (example_codec s) s"
  by (simp add: codec_restores_def example_codec_def get_put_fields put_fields_nonempty)

definition example_auth_store :: auth_store where
  "example_auth_store =
     save_bootstrap \<lparr>bt_token = ''boot_1'', bt_agent_id = ''agent'', bt_container_id = ''box'',
       bt_created_at = 0, bt_expires_at = 60, bt_used = False\<rparr> new_auth_store"

definition example_nonce :: "disk \<Rightarrow> (gerror + string) \<times> disk" where
  "example_nonce d = (Inr ''twelve bytes'', d)"

definition empty_disk :: disk where
  "empty_disk = \<lparr>dk_files = [], dk_plan = []\<rparr>"

lemma mem_disk_read: "\<forall>z. fs_read mem_disk p z = (Inr (go_get (dk_files z) p), z)"
  by (simp add: mem_disk_def)

theorem saved_auth_store_loads_witness:
  "\<exists>d. save_to_file_encrypted (example_codec example_auth_store) mem_disk example_nonce
      ''/var/auth.json'' ''sixteen bytes key'' example_auth_store empty_disk = (None, d) \<and>
    load_from_file_encrypted (example_codec example_auth_store) mem_disk
      ''/var/auth.json'' ''sixteen bytes key'' new_auth_store d = (None, example_auth_store, d)"
proof -
  let ?cd = "example_codec example_auth_store" and ?k = "''sixteen bytes key''"
  let ?save = "save_to_file_encrypted ?cd mem_disk example_nonce ''/var/auth.json'' ?k
    example_auth_store empty_disk"
  have "fst ?save = None"
  proof -
    have k: "normalize_encryption_key ?k = Inr (sha256 (trim_space ?k))"
    proof -
      have "\<not> length (trim_space ?k) < 16" by code_simp
      then show ?thesis by (simp add: normalize_encryption_key_def Let_def)
    qed
    have w: "fst (write_file_atomically mem_disk ''/var/auth.json'' b empty_disk) = None" for b
      by (simp add: write_file_atomically_def mem_disk_def disk_create_temp_def temp_name_def
          empty_disk_def disk_call_def disk_put_def disk_rename_def sync_parent_dir_def Let_def)
    show ?thesis
      using w by (simp add: save_to_file_encrypted_def encrypt_state_def k example_codec_def
          example_nonce_def)
  qed
  then obtain d where d: "?save = (None, d)" by (cases ?save) auto
  have "load_from_file_encrypted ?cd mem_disk ''/var/auth.json'' ?k new_auth_store d =
      (None, example_auth_store, d)"
    using saved_auth_store_loads [OF md.posix_files_axioms mem_disk_read example_codec_restores, of example_nonce]
      d by (simp add: example_nonce_def)
  with d show ?thesis by blast
qed

end
