(* ===== verification/Service.thy ===== *)
theory Service
  imports Ports RequestPolicy GoPaths
begin

text \<open>
  The application service (\<open>internal/app/service.go\<close>): the struct with its ports, the clock
  and the committer, the summaries shown to an operator, the audit events
  (\<open>audit_events.go\<close>), the canonical form of an \<open>env_path\<close>
  (\<open>env_path_canonical.go\<close>) and the rollback of a mutation (\<open>state_rollback.go\<close>).

  The state \<open>'w\<close> is threaded through every call: each port, the clock and the generators of
  identifiers may change it. \<open>MutationLock\<close> has no counterpart: it serialises the
  operations, and each operation is one function on the state.
\<close>

named_theorems service_defs "definitions of the small helpers of the service"

section \<open>The service\<close>

text \<open>What the service asks the operating system about paths.\<close>

record 'w os_path =
  os_getwd :: "'w \<Rightarrow> gerror + string"
  os_eval_symlinks :: "string \<Rightarrow> 'w \<Rightarrow> gerror + string"

record 'w service =
  sv_policy :: policy
  sv_request_policy :: request_policy
  sv_allow_plaintext_secret_return :: bool
  sv_requests :: "'w request_store"
  sv_leases :: "'w lease_store"
  sv_committer :: "'w state_committer option"
  sv_secrets :: "'w secret_store"
  sv_env_path_secrets :: "'w env_path_secret_store option"
  sv_audit :: "'w audit_sink option"
  sv_audit_failure_handler :: "(gerror \<Rightarrow> 'w \<Rightarrow> gerror option \<times> 'w) option"
  sv_now :: "'w \<Rightarrow> int \<times> 'w"
  sv_new_request_id :: "'w \<Rightarrow> string \<times> 'w"
  sv_new_lease_tok :: "'w \<Rightarrow> string \<times> 'w"
  sv_paths :: "'w os_path"

definition service_request_policy :: "'w service \<Rightarrow> request_policy" where
  "service_request_policy s =
     (if sv_request_policy s = zero_request_policy then default_request_policy
      else normalize_request_policy (sv_request_policy s))"

definition commit_request_lease_state :: "'w service \<Rightarrow> 'w \<Rightarrow> gerror option \<times> 'w" where
  "commit_request_lease_state s w =
     (case sv_committer s of None \<Rightarrow> (None, w) | Some commit \<Rightarrow> commit w)"

section \<open>Summaries\<close>

definition max_request_command_summary_runes :: int where
  "max_request_command_summary_runes = 160"
definition max_request_workdir_summary_runes :: int where
  "max_request_workdir_summary_runes = 120"
definition max_request_command_arg_runes :: int where
  "max_request_command_arg_runes = 48"
definition max_request_command_args_preview :: int where
  "max_request_command_args_preview = 6"

lemmas summary_limits = max_request_command_summary_runes_def
  max_request_workdir_summary_runes_def max_request_command_arg_runes_def
  max_request_command_args_preview_def

definition truncate_request_summary :: "string \<Rightarrow> int \<Rightarrow> string" where
  "truncate_request_summary txt limit =
     (if limit \<le> 0 then txt
      else let rs = runes txt in
        if int (length rs) \<le> limit then txt
        else if limit \<le> 3 then concat (take (nat limit) rs)
        else concat (take (nat (limit - 3)) rs) @ ''...'')"

definition summary_rune :: "string \<Rightarrow> string" where
  "summary_rune r =
     (if r = [CHR 0x0A] \<or> r = [CHR 0x0D] \<or> r = [CHR 0x09] then '' ''
      else if is_control_rune r then '''' else r)"

definition normalize_request_summary :: "string \<Rightarrow> int \<Rightarrow> string" where
  "normalize_request_summary txt limit =
     (let trimmed = trim_space txt in
      if trimmed = '''' then ''''
      else let limit = (if limit \<le> 0 then max_request_command_summary_runes else limit);
               b = concat (map summary_rune (runes trimmed));
               collapsed = join '' '' (split_fields b)
           in truncate_request_summary collapsed limit)"

definition summarize_request_command_arg :: "string \<Rightarrow> string" where
  "summarize_request_command_arg arg =
     (let summary = normalize_request_summary arg max_request_command_arg_runes in
      if summary = '''' then ''''
      else if contains_any summary [CHR '' '', CHR 0x09, CHR 0x22] then quote summary
      else summary)"

definition summarize_command_args :: "string list \<Rightarrow> string" where
  "summarize_command_args args =
     (if args = [] then ''''
      else let limit = max_request_command_args_preview;
               limit = (if limit \<le> 0 then 1 else limit);
               n = int (length args);
               upto = (if n > limit then limit else n);
               parts = map summarize_request_command_arg (take (nat upto) args);
               parts = (if n > limit then parts @ [''... (+'' @ itoa (n - limit) @ '' args)'']
                        else parts)
           in normalize_request_summary (join '' '' parts) max_request_command_summary_runes)"

definition summarize_workdir_path :: "string \<Rightarrow> string" where
  "summarize_workdir_path path =
     (let trimmed = trim_space path in
      if trimmed = '''' then ''''
      else normalize_request_summary (path_clean trimmed) max_request_workdir_summary_runes)"

section \<open>The canonical \<open>env_path\<close>\<close>

definition path_abs :: "'w os_path \<Rightarrow> string \<Rightarrow> 'w \<Rightarrow> gerror + string" where
  "path_abs os path w =
     (if is_abs path then Inr (path_clean path)
      else case os_getwd os w of
        Inl e \<Rightarrow> Inl e
      | Inr wd \<Rightarrow> Inr (path_join [wd, path]))"

definition normalize_env_path_canonical :: "'w os_path \<Rightarrow> string \<Rightarrow> 'w \<Rightarrow> string" where
  "normalize_env_path_canonical os path w =
     (let trimmed = trim_space path in
      if trimmed = '''' then ''''
      else case path_abs os trimmed w of
        Inl _ \<Rightarrow> path_clean trimmed
      | Inr abs_path \<Rightarrow>
          (case os_eval_symlinks os abs_path w of
             Inr resolved \<Rightarrow> path_clean resolved
           | Inl _ \<Rightarrow> path_clean abs_path))"

definition canonicalize_approved_env_path ::
  "'w service \<Rightarrow> string \<Rightarrow> 'w \<Rightarrow> (gerror + string) \<times> 'w" where
  "canonicalize_approved_env_path s env_path w =
     (let trimmed = trim_space env_path in
      if trimmed = '''' then (Inr '''', w)
      else case sv_env_path_secrets s of
        None \<Rightarrow> (Inl (Sentinel (App ErrSecretBackendUnavailable)), w)
      | Some eps \<Rightarrow>
          (case eps_canonicalize eps trimmed w of
             (Inl e, w) \<Rightarrow> (Inl e, w)
           | (Inr canonical, w) \<Rightarrow>
               (Inr (normalize_env_path_canonical (sv_paths s) canonical w), w)))"

section \<open>Audit events\<close>

definition write_audit_event :: "'w service \<Rightarrow> audit_event \<Rightarrow> 'w \<Rightarrow> gerror option \<times> 'w" where
  "write_audit_event s ev w =
     (case sv_audit s of
        None \<Rightarrow> (None, w)
      | Some wr \<Rightarrow>
          (case wr ev w of
             (Some e, w) \<Rightarrow> (wrap_audit_write_error (Some e), w)
           | (None, w) \<Rightarrow> (None, w)))"

definition audit_critical :: "'w service \<Rightarrow> audit_event \<Rightarrow> 'w \<Rightarrow> gerror option \<times> 'w" where
  "audit_critical s ev w =
     (case sv_audit s of
        None \<Rightarrow> (None, w)
      | Some wr \<Rightarrow>
          (case wr ev w of
             (None, w) \<Rightarrow> (None, w)
           | (Some e, w) \<Rightarrow>
               (case sv_audit_failure_handler s of
                  None \<Rightarrow> (Some (Sentinel (App ErrAuditUnavailable)), w)
                | Some h \<Rightarrow>
                    (case h e w of
                       (Some handled, w) \<Rightarrow> (Some handled, w)
                     | (None, w) \<Rightarrow> (Some (Sentinel (App ErrAuditUnavailable)), w)))))"



definition equivalence_key_hash :: "string \<Rightarrow> string" where
  "equivalence_key_hash key =
     (let trimmed = trim_space key in
      if trimmed = '''' then ''''
      else let hashed = sha256_hex trimmed
           in if length hashed > 16 then take 16 hashed else hashed)"

definition retry_after_seconds :: "int \<Rightarrow> int" where
  "retry_after_seconds retry_after =
     (let retry_after = (if retry_after < second then second else retry_after);
          seconds = ceil_seconds retry_after
      in if seconds < 1 then 1 else seconds)"

definition audit_request_reused_active_lease ::
  "'w service \<Rightarrow> string \<Rightarrow> string \<Rightarrow> request_policy_input \<Rightarrow> lease \<Rightarrow> 'w \<Rightarrow> gerror option \<times> 'w"
where
  "audit_request_reused_active_lease s agent_id task_id input l w =
     (let (t, w) = sv_now s w in
      write_audit_event s
        (zero_event\<lparr>ev_event := ''request_reused_active_lease'', ev_timestamp := t,
           ev_agent_id := trim_space agent_id, ev_task_id := trim_space task_id,
           ev_request_id := lease_request_id l, ev_lease_token := lease_token l,
           ev_metadata := [(''equivalence_key_hash'',
             equivalence_key_hash (equivalence_key input))]\<rparr>) w)"

definition audit_request_throttled ::
  "string \<Rightarrow> 'w service \<Rightarrow> string \<Rightarrow> string \<Rightarrow> request_policy_input \<Rightarrow> int \<Rightarrow> 'w \<Rightarrow>
   gerror option \<times> 'w"
where
  "audit_request_throttled event s agent_id task_id input retry_after w =
     (let (t, w) = sv_now s w in
      write_audit_event s
        (zero_event\<lparr>ev_event := event, ev_timestamp := t,
           ev_agent_id := trim_space agent_id, ev_task_id := trim_space task_id,
           ev_metadata :=
             [(''equivalence_key_hash'', equivalence_key_hash (equivalence_key input)),
              (''retry_after_seconds'', itoa (retry_after_seconds retry_after))]\<rparr>) w)"

definition audit_request_throttled_pending_cap ::
  "'w service \<Rightarrow> string \<Rightarrow> string \<Rightarrow> request_policy_input \<Rightarrow> int \<Rightarrow> 'w \<Rightarrow> gerror option \<times> 'w" where
  "audit_request_throttled_pending_cap =
     audit_request_throttled ''request_throttled_pending_cap''"

definition audit_request_throttled_cooldown ::
  "'w service \<Rightarrow> string \<Rightarrow> string \<Rightarrow> request_policy_input \<Rightarrow> int \<Rightarrow> 'w \<Rightarrow> gerror option \<times> 'w" where
  "audit_request_throttled_cooldown = audit_request_throttled ''request_throttled_cooldown''"

definition env_path_confirmed_event ::
  "int \<Rightarrow> string \<Rightarrow> string \<Rightarrow> string \<Rightarrow> string \<Rightarrow> string \<Rightarrow> audit_event" where
  "env_path_confirmed_event t agent_id task_id request_id original canonical =
     zero_event\<lparr>ev_event := ''env_path_confirmed'', ev_timestamp := t,
       ev_agent_id := trim_space agent_id, ev_task_id := trim_space task_id,
       ev_request_id := trim_space request_id,
       ev_metadata := [(''env_path_original'', trim_space original),
                       (''env_path_canonical'', trim_space canonical)]\<rparr>"

definition env_path_rejected_event ::
  "int \<Rightarrow> string \<Rightarrow> string \<Rightarrow> string \<Rightarrow> string \<Rightarrow> string \<Rightarrow> string \<Rightarrow> audit_event" where
  "env_path_rejected_event t agent_id task_id request_id original canonical reason =
     (let metadata = [(''env_path_original'', trim_space original),
                      (''env_path_canonical'', trim_space canonical)];
          trimmed_reason = trim_space reason;
          metadata = (if trimmed_reason \<noteq> '''' then go_set metadata ''reason'' trimmed_reason
                      else metadata)
      in zero_event\<lparr>ev_event := ''env_path_rejected'', ev_timestamp := t,
           ev_agent_id := trim_space agent_id, ev_task_id := trim_space task_id,
           ev_request_id := trim_space request_id, ev_metadata := metadata\<rparr>)"

definition audit_env_path_confirmed ::
  "'w service \<Rightarrow> string \<Rightarrow> string \<Rightarrow> string \<Rightarrow> string \<Rightarrow> string \<Rightarrow> 'w \<Rightarrow> gerror option \<times> 'w" where
  "audit_env_path_confirmed s agent_id task_id request_id original canonical w =
     (let (t, w) = sv_now s w in
      write_audit_event s
        (env_path_confirmed_event t agent_id task_id request_id original canonical) w)"

definition audit_env_path_rejected ::
  "'w service \<Rightarrow> string \<Rightarrow> string \<Rightarrow> string \<Rightarrow> string \<Rightarrow> string \<Rightarrow> string \<Rightarrow> 'w \<Rightarrow>
   gerror option \<times> 'w"
where
  "audit_env_path_rejected s agent_id task_id request_id original canonical reason w =
     (let (t, w) = sv_now s w in
      write_audit_event s
        (env_path_rejected_event t agent_id task_id request_id original canonical reason) w)"

definition secret_access_event :: "string \<Rightarrow> int \<Rightarrow> lease \<Rightarrow> string \<Rightarrow> audit_event" where
  "secret_access_event event t l secret_name =
     zero_event\<lparr>ev_event := event, ev_timestamp := t, ev_agent_id := lease_agent_id l,
       ev_task_id := lease_task_id l, ev_request_id := lease_request_id l,
       ev_lease_token := lease_token l, ev_secret := secret_name\<rparr>"

fun add_trimmed :: "string go_map \<Rightarrow> string go_map \<Rightarrow> string go_map" where
  "add_trimmed metadata [] = metadata"
| "add_trimmed metadata ((key, v) # extra) =
     (let trimmed = trim_space v in
      add_trimmed (if trimmed = '''' then metadata else go_set metadata key trimmed) extra)"

definition request_decision_audit_metadata ::
  "lease_request \<Rightarrow> string go_map \<Rightarrow> string go_map" where
  "request_decision_audit_metadata req extra =
     (if trim_space (req_env_path req) = '''' \<and> extra = [] then []
      else let metadata =
             (if trim_space (req_env_path req) \<noteq> '''' then
                [(''env_path_original'', trim_space (req_env_path req)),
                 (''env_path_canonical'', trim_space (req_env_path_canonical req))]
              else [])
           in add_trimmed metadata extra)"

definition secret_backend_audit_reason :: "gerror option \<Rightarrow> string" where
  "secret_backend_audit_reason e =
     (case e of
        None \<Rightarrow> ''backend_error''
      | Some err \<Rightarrow>
          let msg = to_lower (trim_space (err_msg err)) in
          if msg = '''' then ''backend_error''
          else if contains msg ''status 401'' then ''http_401''
          else if contains msg ''status 403'' then ''http_403''
          else if contains msg ''status 404'' \<or> contains msg ''not found'' then ''not_found''
          else if contains msg ''status 408'' \<or> contains msg ''status 429'' then ''rate_or_timeout''
          else if contains msg ''timeout'' \<or> contains msg ''deadline exceeded'' then ''timeout''
          else if contains msg ''connection refused'' \<or> contains msg ''no such host'' \<or>
            contains msg ''tls'' \<or> contains msg ''x509'' \<or> contains msg ''eof''
          then ''transport_error''
          else if contains msg ''status 5'' then ''upstream_5xx''
          else if contains msg ''status 4'' then ''upstream_4xx''
          else ''backend_error'')"

section \<open>Rolling back\<close>

definition rollback_created_request ::
  "'w request_store \<Rightarrow> string \<Rightarrow> 'w \<Rightarrow> gerror option \<times> 'w" where
  "rollback_created_request store request_id w = rs_delete store request_id w"

definition rollback_created_lease ::
  "'w lease_store \<Rightarrow> string \<Rightarrow> 'w \<Rightarrow> gerror option \<times> 'w" where
  "rollback_created_lease store lease_tok w = ls_delete store lease_tok w"

fun run_rollbacks ::
  "('w \<Rightarrow> gerror option \<times> 'w) list \<Rightarrow> 'w \<Rightarrow> gerror option list \<times> 'w" where
  "run_rollbacks [] w = ([], w)"
| "run_rollbacks (f # fs) w =
     (let (e, w) = f w; (es, w) = run_rollbacks fs w in (e # es, w))"

definition rollback_request_lease_mutation ::
  "'w service \<Rightarrow> ('w \<Rightarrow> gerror option \<times> 'w) list \<Rightarrow> 'w \<Rightarrow> gerror option \<times> 'w" where
  "rollback_request_lease_mutation s rollback_fns w =
     (let (errs, w) = run_rollbacks rollback_fns w in
      if sv_committer s \<noteq> None then
        (let (e, w) = commit_request_lease_state s w in (join_errors (errs @ [e]), w))
      else (join_errors errs, w))"

text \<open>How every mutation reports a failure: roll back, and wrap what went wrong.\<close>

definition fail_with_rollback ::
  "'w service \<Rightarrow> gerror \<Rightarrow> ('w \<Rightarrow> gerror option \<times> 'w) list \<Rightarrow> 'w \<Rightarrow> gerror option \<times> 'w" where
  "fail_with_rollback s cause rollback_fns w =
     (let (e, w) = rollback_request_lease_mutation s rollback_fns w
      in (Some (wrap_rollback_error cause [e]), w))"

section \<open>Properties of the helpers\<close>

lemma service_request_policy_positive:
  "0 < identical_request_cooldown (service_request_policy s) \<and>
   0 < max_pending_per_agent (service_request_policy s)"
  using normalize_request_policy_positive [of "sv_request_policy s"]
  by (simp add: service_request_policy_def default_request_policy_def second_def
      default_identical_request_cooldown_def default_max_pending_per_agent_def)

lemma retry_after_seconds_eq:
  "retry_after_seconds d = throttle_retry_after_seconds (if d < second then second else d)"
  by (simp add: retry_after_seconds_def throttle_retry_after_seconds_def Let_def)

subsection \<open>Summaries are bounded and free of control characters\<close>

definition ascii_printable :: "char \<Rightarrow> bool" where
  "ascii_printable c \<longleftrightarrow> 0x20 \<le> byte c \<and> byte c \<noteq> 0x7F"

lemma set_split_fields: "\<Union> (set ` set (split_fields s)) \<subseteq> set s"
proof -
  have "\<Union> (set ` set (split_fields_from acc s)) \<subseteq> set acc \<union> set s" for acc
  proof (induction acc s rule: split_fields_from.induct)
    case (1 acc s)
    show ?case
    proof (cases s)
      case Nil
      then show ?thesis by (subst split_fields_from.simps) simp
    next
      case (Cons c cs)
      show ?thesis
      proof (cases "leading_rune space_runes s")
        case None
        with Cons have "split_fields_from acc s = split_fields_from (c # acc) cs"
          by (subst split_fields_from.simps) simp
        with 1(1) [OF Cons None] Cons show ?thesis by auto
      next
        case (Some w)
        with Cons have "split_fields_from acc s =
            (if acc = [] then [] else [rev acc]) @ split_fields_from [] (drop (length w) s)"
          by (subst split_fields_from.simps) simp
        with 1(2) [OF Cons Some] set_drop_subset [of "length w" s] show ?thesis by auto
      qed
    qed
  qed
  from this [of "[]"] show ?thesis by (simp add: split_fields_def)
qed

lemma runes_rune_ok: "r \<in> set (runes s) \<Longrightarrow> rune_ok r"
  by (auto simp: runes_def rune_ok_error intro: rune_spans_ok split: if_splits)

lemma summary_rune_printable:
  assumes "rune_ok r" and "c \<in> set (summary_rune r)" shows "ascii_printable c"
proof (cases "length r = 1")
  case True
  then obtain d where "r = [d]" by (cases r) auto
  with assms(2) show ?thesis
    by (auto simp: summary_rune_def is_control_rune_def ascii_printable_def split: if_splits)
next
  case False
  then have "\<forall>c\<in>set r. 0x80 \<le> byte c" using assms(1) rune_ok_multibyte by blast
  with assms(2) show ?thesis
    by (auto simp: summary_rune_def ascii_printable_def split: if_splits)
qed

lemma truncate_request_summary_printable:
  assumes "list_all ascii_printable t" shows "list_all ascii_printable (truncate_request_summary t n)"
proof -
  have "list_all ascii_printable r" if "r \<in> set (runes t)" for r
  proof -
    from that consider "r = rune_error" | "r \<in> set (map snd (rune_spans t))"
      by (auto simp: runes_def split: if_splits) (metis image_iff snd_conv)
    then show ?thesis
    proof cases
      case 1
      then show ?thesis by (simp add: rune_error_def ascii_printable_def)
    next
      case 2
      have "set (concat (map snd (rune_spans t))) = set t" by (simp only: concat_rune_spans)
      with 2 assms show ?thesis by (auto simp: list_all_iff)
    qed
  qed
  then have "list_all ascii_printable (concat (take k (runes t)))" for k
    by (fastforce simp: list_all_iff dest: in_set_takeD)
  with assms show ?thesis
    by (simp add: truncate_request_summary_def Let_def ascii_printable_def)
qed

lemma truncate_request_summary_length:
  assumes "0 < n" shows "int (length (runes (truncate_request_summary t n))) \<le> n"
proof -
  have "runes (concat (take k (runes t))) = take k (runes t)" for k
    by (rule runes_concat) (meson in_set_takeD runes_rune_ok)
  moreover have "runes (concat (take k (runes t)) @ ''...'') = take k (runes t) @ [''.'', ''.'', ''.'']" for k
  proof -
    have "rune_ok ''.''" by code_simp
    then have "runes (concat (take k (runes t) @ [''.'', ''.'', ''.''])) = take k (runes t) @ [''.'', ''.'', ''.'']"
      by (intro runes_concat) (auto dest: in_set_takeD runes_rune_ok)
    then show ?thesis by simp
  qed
  ultimately show ?thesis using assms
    by (auto simp: truncate_request_summary_def Let_def)
qed

text \<open>
  A summary shown to an operator has at most as many runes as the limit, and holds no
  ASCII control character: no line break, tab or escape of a request reaches the terminal.
\<close>

theorem request_summary_bounded:
  assumes "0 < n"
  shows "int (length (runes (normalize_request_summary t n))) \<le> n \<and>
    list_all ascii_printable (normalize_request_summary t n)"
proof -
  let ?b = "concat (map summary_rune (runes (trim_space t)))"
  have "ascii_printable c" if "c \<in> set ?b" for c
    using that summary_rune_printable runes_rune_ok by auto
  then have b: "ascii_printable c" if "c \<in> insert (CHR '' '') (set ?b)" for c
    using that by (auto simp: ascii_printable_def)
  have "set (join '' '' (split_fields ?b)) \<subseteq> insert (CHR '' '') (set ?b)"
    using set_join [of "'' ''" "split_fields ?b"] set_split_fields [of ?b] by fastforce
  with b have "list_all ascii_printable (join '' '' (split_fields ?b))"
    unfolding list_all_iff by blast
  with assms truncate_request_summary_printable truncate_request_summary_length [OF assms]
  show ?thesis by (simp add: normalize_request_summary_def Let_def)
qed

theorem request_summary_bounded_witness:
  "int (length (runes (normalize_request_summary ''curl https://example.test/x'' 10))) \<le> 10 \<and>
   normalize_request_summary ''curl https://example.test/x'' 10 = ''curl ht...''"
proof -
  have "normalize_request_summary ''curl https://example.test/x'' 10 = ''curl ht...''" by code_simp
  then show ?thesis
    using request_summary_bounded [of 10 "''curl https://example.test/x''"] by simp
qed

end
