(* ===== verification/LeaseService.thy ===== *)
theory LeaseService
  imports Service
begin

text \<open>
  The life of a lease (\<open>service.go\<close>, \<open>cancel.go\<close>, \<open>deny.go\<close>, \<open>ownership.go\<close> under
  \<open>internal/app\<close>): requesting, approving, denying and cancelling a lease, reading a secret
  under one, and the queries of its owner. Every mutation writes the stores, commits them,
  writes its audit event, and rolls the stores back when one of the two fails.
\<close>

named_theorems lease_ops "definitions of the operations on leases"

section \<open>Committing a mutation\<close>

text \<open>
  How every mutation ends, after the stores have been written: commit them, then write the
  critical audit event, and run the rollbacks \<open>undo\<close> when one of the two fails.
\<close>

definition finish_mutation ::
  "'w service \<Rightarrow> ('w \<Rightarrow> gerror option \<times> 'w) list \<Rightarrow> (int \<Rightarrow> audit_event) \<Rightarrow> 'w \<Rightarrow>
   gerror option \<times> 'w"
where
  "finish_mutation s undo ev w =
     (case commit_request_lease_state s w of
        (Some e, w) \<Rightarrow> fail_with_rollback s e undo w
      | (None, w) \<Rightarrow>
        let (t, w) = sv_now s w in
        (case audit_critical s (ev t) w of
           (Some e, w) \<Rightarrow> fail_with_rollback s e undo w
         | (None, w) \<Rightarrow> (None, w)))"

section \<open>Requesting\<close>

definition request_lease_unlocked ::
  "'w service \<Rightarrow> string \<Rightarrow> string \<Rightarrow> string \<Rightarrow> int \<Rightarrow> string list \<Rightarrow> string \<Rightarrow> string \<Rightarrow> string \<Rightarrow>
   string \<Rightarrow> string \<Rightarrow> string \<Rightarrow> 'w \<Rightarrow> (gerror + lease_request) \<times> 'w"
where [lease_ops]:
  "request_lease_unlocked s agent_id task_id reason ttl secrets intent command_fp workdir_fp
     env_path command_summary workdir_summary w =
     (case validate_request (sv_policy s) ttl secrets of
        Some e \<Rightarrow> (Inl e, w)
      | None \<Rightarrow>
        let env_path = trim_space env_path in
        (case canonicalize_approved_env_path s env_path w of
           (Inl e, w) \<Rightarrow> (Inl e, w)
         | (Inr env_path_canonical, w) \<Rightarrow>
           let (new_id, w) = sv_new_request_id s w;
               (t, w) = sv_now s w;
               req = \<lparr>req_id = new_id, req_agent_id = agent_id, req_task_id = task_id,
                 req_intent = trim_space intent, req_reason = reason, req_ttl_minutes = ttl,
                 req_secrets = secrets, req_command_fingerprint = command_fp,
                 req_workdir_fingerprint = workdir_fp,
                 req_command_summary =
                   normalize_request_summary command_summary max_request_command_summary_runes,
                 req_workdir_summary =
                   normalize_request_summary workdir_summary max_request_workdir_summary_runes,
                 req_env_path = env_path, req_env_path_canonical = env_path_canonical,
                 req_status = RequestPending, req_created_at = t\<rparr>;
               undo = [rollback_created_request (sv_requests s) (req_id req)]
           in
           (case rs_save (sv_requests s) req w of
              (Some e, w) \<Rightarrow> (Inl e, w)
            | (None, w) \<Rightarrow>
              (case finish_mutation s undo (\<lambda>t.
                 zero_event\<lparr>ev_event := ''request_created'', ev_timestamp := t,
                   ev_agent_id := agent_id, ev_task_id := task_id,
                   ev_request_id := req_id req\<rparr>) w of
                 (Some e, w) \<Rightarrow> (Inl e, w)
               | (None, w) \<Rightarrow> (Inr req, w)))))"

definition request_lease_with_intent_and_summary where
  "request_lease_with_intent_and_summary = request_lease_unlocked"

definition request_lease_with_intent ::
  "'w service \<Rightarrow> string \<Rightarrow> string \<Rightarrow> string \<Rightarrow> int \<Rightarrow> string list \<Rightarrow> string \<Rightarrow> string \<Rightarrow> string \<Rightarrow>
   string \<Rightarrow> 'w \<Rightarrow> (gerror + lease_request) \<times> 'w"
where
  "request_lease_with_intent s agent_id task_id reason ttl secrets intent command_fp workdir_fp
     env_path w =
     request_lease_with_intent_and_summary s agent_id task_id reason ttl secrets intent
       command_fp workdir_fp env_path '''' '''' w"

section \<open>Deciding\<close>

definition approve_request_with_actor ::
  "'w service \<Rightarrow> string \<Rightarrow> int \<Rightarrow> string \<Rightarrow> string \<Rightarrow> 'w \<Rightarrow> (gerror + lease) \<times> 'w"
where [lease_ops]:
  "approve_request_with_actor s request_id ttl_minutes actor_type actor_id w =
     (case rs_get (sv_requests s) request_id w of
        (Inl e, w) \<Rightarrow> (Inl e, w)
      | (Inr original, w) \<Rightarrow>
        if req_status original \<noteq> RequestPending then (Inl (Plain ''request is not pending''), w)
        else
        let ttl_minutes = (if ttl_minutes = 0 then req_ttl_minutes original else ttl_minutes) in
        (case validate_request (sv_policy s) ttl_minutes (req_secrets original) of
           Some e \<Rightarrow> (Inl e, w)
         | None \<Rightarrow>
           let req = original\<lparr>req_status := RequestApproved\<rparr> in
           (case rs_update (sv_requests s) req w of
              (Some e, w) \<Rightarrow> (Inl e, w)
            | (None, w) \<Rightarrow>
              let (tok, w) = sv_new_lease_tok s w;
                  (t, w) = sv_now s w;
                  l = \<lparr>lease_token = tok, lease_request_id = req_id req,
                    lease_agent_id = req_agent_id req, lease_task_id = req_task_id req,
                    lease_intent = req_intent req, lease_secrets = req_secrets req,
                    lease_command_fingerprint = req_command_fingerprint req,
                    lease_workdir_fingerprint = req_workdir_fingerprint req,
                    lease_expires_at = t + dur_mult ttl_minutes minute\<rparr>;
                  undo = [rollback_created_lease (sv_leases s) (lease_token l),
                          rs_update (sv_requests s) original]
              in
              (case ls_save (sv_leases s) l w of
                 (Some e, w) \<Rightarrow>
                   (case rs_update (sv_requests s) original w of
                      (Some rollback_err, w) \<Rightarrow>
                        (Inl (Wrapped e (''save lease: '' @ err_msg e @
                           '' (request rollback failed: '' @ err_msg rollback_err @ '')'')), w)
                    | (None, w) \<Rightarrow> (Inl e, w))
               | (None, w) \<Rightarrow>
                 (case finish_mutation s undo (\<lambda>t.
                    zero_event\<lparr>ev_event := ''request_approved'', ev_timestamp := t,
                      ev_actor_type := actor_type, ev_actor_id := actor_id,
                      ev_agent_id := req_agent_id req, ev_task_id := req_task_id req,
                      ev_request_id := req_id req, ev_lease_token := lease_token l,
                      ev_metadata := request_decision_audit_metadata req []\<rparr>) w of
                    (Some e, w) \<Rightarrow> (Inl e, w)
                  | (None, w) \<Rightarrow>
                    if trim_space (req_env_path req) \<noteq> '''' then
                      (let (_, w) = audit_env_path_confirmed s (req_agent_id req)
                         (req_task_id req) (req_id req) (req_env_path req)
                         (req_env_path_canonical req) w
                       in (Inr l, w))
                    else (Inr l, w))))))"

definition approve_request ::
  "'w service \<Rightarrow> string \<Rightarrow> int \<Rightarrow> 'w \<Rightarrow> (gerror + lease) \<times> 'w" where
  "approve_request s request_id ttl_minutes w =
     approve_request_with_actor s request_id ttl_minutes '''' '''' w"

definition deny_request_with_actor ::
  "'w service \<Rightarrow> string \<Rightarrow> string \<Rightarrow> string \<Rightarrow> string \<Rightarrow> 'w \<Rightarrow> (gerror + lease_request) \<times> 'w"
where [lease_ops]:
  "deny_request_with_actor s request_id reason actor_type actor_id w =
     (case rs_get (sv_requests s) request_id w of
        (Inl e, w) \<Rightarrow> (Inl e, w)
      | (Inr original, w) \<Rightarrow>
        if req_status original \<noteq> RequestPending then (Inl (Plain ''request is not pending''), w)
        else
        let req = original\<lparr>req_status := RequestDenied\<rparr>;
            undo = [rs_update (sv_requests s) original] in
        (case rs_update (sv_requests s) req w of
           (Some e, w) \<Rightarrow> (Inl e, w)
         | (None, w) \<Rightarrow>
           (case finish_mutation s undo (\<lambda>t.
              zero_event\<lparr>ev_event := ''request_denied'', ev_timestamp := t,
                ev_actor_type := actor_type, ev_actor_id := actor_id,
                ev_agent_id := req_agent_id req, ev_task_id := req_task_id req,
                ev_request_id := req_id req,
                ev_metadata := request_decision_audit_metadata req [(''reason'', reason)]\<rparr>) w
            of (Some e, w) \<Rightarrow> (Inl e, w)
             | (None, w) \<Rightarrow>
               if trim_space (req_env_path req) \<noteq> '''' then
                 (let (_, w) = audit_env_path_rejected s (req_agent_id req) (req_task_id req)
                    (req_id req) (req_env_path req) (req_env_path_canonical req) reason w
                  in (Inr req, w))
               else (Inr req, w))))"

definition deny_request ::
  "'w service \<Rightarrow> string \<Rightarrow> string \<Rightarrow> 'w \<Rightarrow> (gerror + lease_request) \<times> 'w" where
  "deny_request s request_id reason w = deny_request_with_actor s request_id reason '''' '''' w"

definition cancel_request_by_agent ::
  "'w service \<Rightarrow> string \<Rightarrow> string \<Rightarrow> string \<Rightarrow> 'w \<Rightarrow> (gerror + lease_request) \<times> 'w"
where [lease_ops]:
  "cancel_request_by_agent s request_id agent_id reason w =
     (case rs_get (sv_requests s) request_id w of
        (Inl e, w) \<Rightarrow> (Inl e, w)
      | (Inr original, w) \<Rightarrow>
        if agent_id \<noteq> '''' \<and> req_agent_id original \<noteq> agent_id then
          (Inl (Sentinel (App ErrRequestNotOwned)), w)
        else if req_status original \<noteq> RequestPending then
          (Inl (Plain ''request is not pending''), w)
        else
        let req = original\<lparr>req_status := RequestDenied\<rparr>;
            undo = [rs_update (sv_requests s) original] in
        (case rs_update (sv_requests s) req w of
           (Some e, w) \<Rightarrow> (Inl e, w)
         | (None, w) \<Rightarrow>
           (case finish_mutation s undo (\<lambda>t.
              zero_event\<lparr>ev_event := ''request_cancelled_by_agent'', ev_timestamp := t,
                ev_agent_id := req_agent_id req, ev_task_id := req_task_id req,
                ev_request_id := req_id req, ev_metadata := [(''reason'', reason)]\<rparr>) w
            of (Some e, w) \<Rightarrow> (Inl e, w)
             | (None, w) \<Rightarrow> (Inr req, w))))"

section \<open>Reading a secret\<close>

definition reject_plaintext_secret_access ::
  "'w service \<Rightarrow> string \<Rightarrow> string \<Rightarrow> 'w \<Rightarrow> gerror option \<times> 'w" where
  "reject_plaintext_secret_access s actor_type actor_id w =
     (if sv_allow_plaintext_secret_return s then (None, w)
      else let (t, w) = sv_now s w in
        (case audit_critical s
           (zero_event\<lparr>ev_event := ''plaintext_secret_access_blocked'', ev_timestamp := t,
              ev_actor_type := actor_type, ev_actor_id := actor_id\<rparr>) w of
           (Some e, w) \<Rightarrow> (Some e, w)
         | (None, w) \<Rightarrow> (Some (Sentinel (App ErrPlaintextSecretReturnDisabled)), w)))"

definition get_request_owned_by_agent ::
  "'w service \<Rightarrow> string \<Rightarrow> string \<Rightarrow> 'w \<Rightarrow> (gerror + lease_request) \<times> 'w" where
  "get_request_owned_by_agent s request_id agent_id w =
     (case rs_get (sv_requests s) request_id w of
        (Inl e, w) \<Rightarrow> (Inl e, w)
      | (Inr req, w) \<Rightarrow>
        if agent_id \<noteq> '''' \<and> req_agent_id req \<noteq> agent_id then
          (Inl (Sentinel (App ErrRequestNotOwned)), w)
        else (Inr req, w))"

definition get_lease_owned_by_agent ::
  "'w service \<Rightarrow> string \<Rightarrow> string \<Rightarrow> 'w \<Rightarrow> (gerror + lease) \<times> 'w" where
  "get_lease_owned_by_agent s lease_tok agent_id w =
     (case ls_get (sv_leases s) lease_tok w of
        (Inl e, w) \<Rightarrow> (Inl e, w)
      | (Inr l, w) \<Rightarrow>
        if agent_id \<noteq> '''' \<and> lease_agent_id l \<noteq> agent_id then
          (Inl (Sentinel (App ErrLeaseNotOwned)), w)
        else (Inr l, w))"

definition access_secret_for_lease ::
  "'w service \<Rightarrow> lease \<Rightarrow> string \<Rightarrow> string \<Rightarrow> string \<Rightarrow> 'w \<Rightarrow> (gerror + string) \<times> 'w" where
  "access_secret_for_lease s l secret_name command_fp workdir_fp w =
     (let (t, w) = sv_now s w in
      if is_expired l t then (Inl (Plain ''lease expired''), w)
      else if \<not> allows l secret_name then
        (Inl (Plain (''secret '' @ quote secret_name @ '' not allowed for this lease'')), w)
      else if lease_command_fingerprint l \<noteq> '''' \<and> lease_command_fingerprint l \<noteq> command_fp then
        (Inl (Plain ''command fingerprint mismatch''), w)
      else if lease_workdir_fingerprint l \<noteq> '''' \<and> lease_workdir_fingerprint l \<noteq> workdir_fp then
        (Inl (Plain ''workdir fingerprint mismatch''), w)
      else let (t, w) = sv_now s w in
        (case audit_critical s (secret_access_event ''secret_access_started'' t l secret_name) w of
           (Some e, w) \<Rightarrow> (Inl e, w)
         | (None, w) \<Rightarrow>
           (case sv_secrets s secret_name w of
              (Inl err, w) \<Rightarrow>
                let reason = secret_backend_audit_reason (Some err);
                    (t, w) = sv_now s w;
                    (_, w) = write_audit_event s
                      (zero_event\<lparr>ev_event := ''secret_backend_error'', ev_timestamp := t,
                         ev_agent_id := lease_agent_id l, ev_task_id := lease_task_id l,
                         ev_request_id := lease_request_id l, ev_lease_token := lease_token l,
                         ev_secret := secret_name, ev_metadata := [(''reason'', reason)]\<rparr>) w
                in (Inl (Sentinel (App ErrSecretBackendUnavailable)), w)
            | (Inr val, w) \<Rightarrow>
                let (t, w) = sv_now s w in
                (case audit_critical s (secret_access_event ''secret_access'' t l secret_name) w of
                   (Some e, w) \<Rightarrow> (Inl e, w)
                 | (None, w) \<Rightarrow> (Inr val, w)))))"

definition access_secret_by_agent ::
  "'w service \<Rightarrow> string \<Rightarrow> string \<Rightarrow> string \<Rightarrow> string \<Rightarrow> string \<Rightarrow> 'w \<Rightarrow> (gerror + string) \<times> 'w"
where
  "access_secret_by_agent s agent_id lease_tok secret_name command_fp workdir_fp w =
     (case get_lease_owned_by_agent s lease_tok agent_id w of
        (Inl e, w) \<Rightarrow> (Inl e, w)
      | (Inr l, w) \<Rightarrow> access_secret_for_lease s l secret_name command_fp workdir_fp w)"

definition access_secret ::
  "'w service \<Rightarrow> string \<Rightarrow> string \<Rightarrow> string \<Rightarrow> string \<Rightarrow> 'w \<Rightarrow> (gerror + string) \<times> 'w" where
  "access_secret s lease_tok secret_name command_fp workdir_fp w =
     access_secret_by_agent s '''' lease_tok secret_name command_fp workdir_fp w"

section \<open>Queries of the owner\<close>

definition request_status_by_agent ::
  "'w service \<Rightarrow> string \<Rightarrow> string \<Rightarrow> 'w \<Rightarrow> (gerror + lease_request) \<times> 'w" where
  "request_status_by_agent s request_id agent_id w =
     get_request_owned_by_agent s request_id agent_id w"

definition lease_by_request_for_agent ::
  "'w service \<Rightarrow> string \<Rightarrow> string \<Rightarrow> 'w \<Rightarrow> (gerror + lease) \<times> 'w" where
  "lease_by_request_for_agent s request_id agent_id w =
     (case get_request_owned_by_agent s request_id agent_id w of
        (Inl e, w) \<Rightarrow> (Inl e, w)
      | (Inr _, w) \<Rightarrow>
        (case ls_get_by_request (sv_leases s) request_id w of
           (Inl e, w) \<Rightarrow> (Inl e, w)
         | (Inr l, w) \<Rightarrow>
           if agent_id \<noteq> '''' \<and> lease_agent_id l \<noteq> agent_id then
             (Inl (Sentinel (App ErrLeaseNotOwned)), w)
           else (Inr l, w)))"

definition approved_lease_intent_by_agent ::
  "'w service \<Rightarrow> string \<Rightarrow> string \<Rightarrow> 'w \<Rightarrow> (gerror + string) \<times> 'w" where
  "approved_lease_intent_by_agent s lease_tok agent_id w =
     (case get_lease_owned_by_agent s lease_tok agent_id w of
        (Inl e, w) \<Rightarrow> (Inl e, w)
      | (Inr l, w) \<Rightarrow>
        (case get_request_owned_by_agent s (lease_request_id l) agent_id w of
           (Inl e, w) \<Rightarrow> (Inl e, w)
         | (Inr req, w) \<Rightarrow>
           if req_status req \<noteq> RequestApproved then (Inl (Plain ''request is not approved''), w)
           else let intent = trim_space (lease_intent l)
             in if intent \<noteq> '''' then (Inr intent, w) else (Inr (trim_space (req_intent req)), w)))"

end
