(* ===== verification/LeaseThrottle.thy ===== *)
theory LeaseThrottle
  imports LeaseService
begin

text \<open>
  Requests under the request policy (\<open>internal/app/request_lease_with_policy.go\<close>): an active
  lease of the same scope is returned instead of a new request, an agent has a limited number
  of pending requests, and an equivalent request waits out a cooldown.
\<close>

record request_lease_result =
  res_request :: "lease_request option"
  res_lease :: "lease option"
  res_reused :: bool

text \<open>
  The Go result holds zero values for what is absent; here they are \<open>None\<close>.
\<close>

definition lease_input :: "lease \<Rightarrow> request_policy_input" where
  "lease_input l =
     \<lparr>in_agent_id = lease_agent_id l, in_intent = lease_intent l, in_secrets = lease_secrets l,
      in_command_fingerprint = lease_command_fingerprint l,
      in_workdir_fingerprint = lease_workdir_fingerprint l\<rparr>"

definition pending_input :: "lease_request \<Rightarrow> request_policy_input" where
  "pending_input r =
     \<lparr>in_agent_id = req_agent_id r, in_intent = req_intent r, in_secrets = req_secrets r,
      in_command_fingerprint = req_command_fingerprint r,
      in_workdir_fingerprint = req_workdir_fingerprint r\<rparr>"

fun equivalent_lease_loop :: "int \<Rightarrow> string \<Rightarrow> lease list \<Rightarrow> lease option" where
  "equivalent_lease_loop now target [] = None"
| "equivalent_lease_loop now target (l # ls) =
     (if is_expired l now then equivalent_lease_loop now target ls
      else if equivalence_key (lease_input l) = target then Some l
      else equivalent_lease_loop now target ls)"

definition find_equivalent_active_lease ::
  "'w service \<Rightarrow> request_policy_input \<Rightarrow> 'w \<Rightarrow> (gerror + lease option) \<times> 'w" where
  "find_equivalent_active_lease s input w =
     (case ls_list (sv_leases s) of
        None \<Rightarrow> (Inr None, w)
      | Some lister \<Rightarrow>
          (case lister w of
             (Inl e, w) \<Rightarrow> (Inl e, w)
           | (Inr ls, w) \<Rightarrow>
               let (t, w) = sv_now s w
               in (Inr (equivalent_lease_loop t (equivalence_key input) ls), w)))"

definition list_pending_requests_of ::
  "'w service \<Rightarrow> 'w \<Rightarrow> (gerror + lease_request list) \<times> 'w" where
  "list_pending_requests_of s w = rs_list_pending (sv_requests s) w"

fun count_pending_loop :: "string \<Rightarrow> int \<Rightarrow> lease_request list \<Rightarrow> int" where
  "count_pending_loop target count [] = count"
| "count_pending_loop target count (r # rs) =
     count_pending_loop target
       (if trim_space (req_agent_id r) = target then count + 1 else count) rs"

definition count_pending_requests_for_agent :: "string \<Rightarrow> lease_request list \<Rightarrow> int" where
  "count_pending_requests_for_agent agent_id pending =
     count_pending_loop (trim_space agent_id) 0 pending"

fun cooldown_loop :: "int \<Rightarrow> string \<Rightarrow> int \<Rightarrow> int \<Rightarrow> lease_request list \<Rightarrow> int" where
  "cooldown_loop now target cooldown max_retry_after [] = max_retry_after"
| "cooldown_loop now target cooldown max_retry_after (r # rs) =
     (if equivalence_key (pending_input r) \<noteq> target then
        cooldown_loop now target cooldown max_retry_after rs
      else
        let elapsed = sat64 (now - req_created_at r);
            elapsed = (if elapsed < 0 then 0 else elapsed)
        in if elapsed \<ge> cooldown then cooldown_loop now target cooldown max_retry_after rs
           else
             let retry_after = cooldown - elapsed
             in cooldown_loop now target cooldown
                  (if retry_after > max_retry_after then retry_after else max_retry_after) rs)"

definition equivalent_request_cooldown ::
  "'w service \<Rightarrow> request_policy_input \<Rightarrow> lease_request list \<Rightarrow> int \<Rightarrow> 'w \<Rightarrow> (int \<times> bool) \<times> 'w"
where
  "equivalent_request_cooldown s input pending cooldown w =
     (if cooldown \<le> 0 then ((0, False), w)
      else
        let (t, w) = sv_now s w;
            max_retry_after = cooldown_loop t (equivalence_key input) cooldown 0 pending
        in if max_retry_after \<le> 0 then ((0, False), w) else ((max_retry_after, True), w))"

text \<open>The part of the operation after the reuse of an active lease has been ruled out.\<close>

definition request_new_lease ::
  "'w service \<Rightarrow> string \<Rightarrow> string \<Rightarrow> string \<Rightarrow> int \<Rightarrow> string list \<Rightarrow> string \<Rightarrow> string \<Rightarrow> string \<Rightarrow>
   string \<Rightarrow> string \<Rightarrow> string \<Rightarrow> 'w \<Rightarrow> (gerror + request_lease_result) \<times> 'w"
where
  "request_new_lease s agent_id task_id reason ttl secrets intent command_fp workdir_fp env_path
     command_summary workdir_summary w =
     (let pol = service_request_policy s;
          input = \<lparr>in_agent_id = agent_id, in_intent = trim_space intent, in_secrets = secrets,
            in_command_fingerprint = command_fp, in_workdir_fingerprint = workdir_fp\<rparr> in
      case list_pending_requests_of s w of
        (Inl e, w) \<Rightarrow> (Inl e, w)
      | (Inr pending, w) \<Rightarrow>
        if count_pending_requests_for_agent agent_id pending \<ge> max_pending_per_agent pol then
          (case audit_request_throttled_pending_cap s agent_id task_id input
             (identical_request_cooldown pol) w of
             (Some e, w) \<Rightarrow> (Inl e, w)
           | (None, w) \<Rightarrow>
             (Inl (new_request_throttle_error PendingCap (identical_request_cooldown pol)), w))
        else
        (case equivalent_request_cooldown s input pending (identical_request_cooldown pol) w of
           ((retry_after, True), w) \<Rightarrow>
             (case audit_request_throttled_cooldown s agent_id task_id input retry_after w of
                (Some e, w) \<Rightarrow> (Inl e, w)
              | (None, w) \<Rightarrow> (Inl (new_request_throttle_error Cooldown retry_after), w))
         | ((_, False), w) \<Rightarrow>
             (case request_lease_unlocked s agent_id task_id reason ttl secrets intent command_fp
                workdir_fp env_path command_summary workdir_summary w of
                (Inl e, w) \<Rightarrow> (Inl e, w)
              | (Inr created, w) \<Rightarrow>
                (Inr \<lparr>res_request = Some created, res_lease = None, res_reused = False\<rparr>, w))))"

definition request_lease_with_policy_and_intent_and_summary ::
  "'w service \<Rightarrow> string \<Rightarrow> string \<Rightarrow> string \<Rightarrow> int \<Rightarrow> string list \<Rightarrow> string \<Rightarrow> string \<Rightarrow> string \<Rightarrow>
   string \<Rightarrow> string \<Rightarrow> string \<Rightarrow> 'w \<Rightarrow> (gerror + request_lease_result) \<times> 'w"
where
  "request_lease_with_policy_and_intent_and_summary s agent_id task_id reason ttl secrets intent
     command_fp workdir_fp env_path command_summary workdir_summary w =
     (case validate_request (sv_policy s) ttl secrets of
        Some e \<Rightarrow> (Inl e, w)
      | None \<Rightarrow>
        let pol = service_request_policy s;
            input = \<lparr>in_agent_id = agent_id, in_intent = trim_space intent, in_secrets = secrets,
              in_command_fingerprint = command_fp, in_workdir_fingerprint = workdir_fp\<rparr>;
            env_path_requested = (trim_space env_path \<noteq> '''');
            continue = request_new_lease s agent_id task_id reason ttl secrets intent command_fp
              workdir_fp env_path command_summary workdir_summary
        in
        if enable_active_lease_reuse pol \<and> \<not> env_path_requested then
          (case find_equivalent_active_lease s input w of
             (Inl e, w) \<Rightarrow> (Inl e, w)
           | (Inr (Some reusable), w) \<Rightarrow>
             (case audit_request_reused_active_lease s agent_id task_id input reusable w of
                (Some e, w) \<Rightarrow> (Inl e, w)
              | (None, w) \<Rightarrow>
                (Inr \<lparr>res_request = None, res_lease = Some reusable, res_reused = True\<rparr>, w))
           | (Inr None, w) \<Rightarrow> continue w)
        else continue w)"

definition request_lease_with_policy_and_intent ::
  "'w service \<Rightarrow> string \<Rightarrow> string \<Rightarrow> string \<Rightarrow> int \<Rightarrow> string list \<Rightarrow> string \<Rightarrow> string \<Rightarrow> string \<Rightarrow>
   string \<Rightarrow> 'w \<Rightarrow> (gerror + request_lease_result) \<times> 'w"
where
  "request_lease_with_policy_and_intent s agent_id task_id reason ttl secrets intent command_fp
     workdir_fp env_path w =
     request_lease_with_policy_and_intent_and_summary s agent_id task_id reason ttl secrets intent
       command_fp workdir_fp env_path '''' '''' w"

section \<open>The loops\<close>

lemma equivalent_lease_loop_Some:
  "equivalent_lease_loop now target ls = Some l \<Longrightarrow>
     l \<in> set ls \<and> \<not> is_expired l now \<and> equivalence_key (lease_input l) = target"
  by (induction ls) (auto split: if_splits)

lemma equivalent_lease_loop_None:
  "equivalent_lease_loop now target ls = None \<longleftrightarrow>
     (\<forall>l\<in>set ls. is_expired l now \<or> equivalence_key (lease_input l) \<noteq> target)"
  by (induction ls) auto

lemma count_pending_loop_eq:
  "count_pending_loop target n rs =
     n + int (length (filter (\<lambda>r. trim_space (req_agent_id r) = target) rs))"
  by (induction rs arbitrary: n) auto

lemma count_pending_eq:
  "count_pending_requests_for_agent a rs =
     int (length (filter (\<lambda>r. trim_space (req_agent_id r) = trim_space a) rs))"
  by (simp add: count_pending_requests_for_agent_def count_pending_loop_eq)

text \<open>How long a pending request still blocks an equivalent one.\<close>

definition remaining_cooldown :: "int \<Rightarrow> int \<Rightarrow> lease_request \<Rightarrow> int" where
  "remaining_cooldown now cooldown r = cooldown - max 0 (sat64 (now - req_created_at r))"

lemma cooldown_loop_eq:
  "0 \<le> m \<Longrightarrow> cooldown_loop now target cooldown m rs =
     foldl max m (map (remaining_cooldown now cooldown)
       (filter (\<lambda>r. equivalence_key (pending_input r) = target) rs))"
  by (induction now target cooldown m rs rule: cooldown_loop.induct)
    (auto simp: Let_def remaining_cooldown_def max_def)

lemma foldl_max_ge: "m \<le> foldl max (m::int) xs"
  by (induction xs arbitrary: m) (auto intro: order_trans [OF max.cobounded1])

lemma foldl_max_pos: "0 < foldl max (0::int) xs \<longleftrightarrow> (\<exists>x\<in>set xs. 0 < x)"
proof -
  have "c < foldl max m xs \<longleftrightarrow> c < m \<or> (\<exists>x\<in>set xs. c < x)" for c m :: int
    by (induction xs arbitrary: m) auto
  then show ?thesis by simp
qed

text \<open>
  A request is throttled exactly when an equivalent pending one is younger than the cooldown,
  and the delay it is told is the longest that remains.
\<close>

lemma cooldown_loop_pos:
  "0 < cooldown_loop now target cooldown 0 rs \<longleftrightarrow>
     (\<exists>r\<in>set rs. equivalence_key (pending_input r) = target \<and>
        0 < remaining_cooldown now cooldown r)"
  by (auto simp: cooldown_loop_eq foldl_max_pos)

lemma cooldown_loop_bounds:
  assumes "0 \<le> cooldown" shows "cooldown_loop now target cooldown 0 rs \<le> cooldown"
proof -
  have "foldl max m xs \<le> c" if "m \<le> c" "\<forall>x\<in>set xs. x \<le> c" for m c :: int and xs
    using that by (induction xs arbitrary: m) auto
  then show ?thesis
    using assms by (auto simp: cooldown_loop_eq remaining_cooldown_def)
qed

end
