(* ===== verification/ExecutionSecrets.thy ===== *)
theory ExecutionSecrets
  imports LeaseService
begin

text \<open>
  The secrets of one execution (\<open>internal/app/execution_secrets.go\<close>): every requested name is
  checked against the lease before any secret is read, and a lease with an \<open>env_path\<close> reads
  them from the file an operator confirmed, as long as the path still resolves to it.
\<close>

fun execution_secret_names_loop ::
  "string list \<Rightarrow> string list \<Rightarrow> string list \<Rightarrow> string list" where
  "execution_secret_names_loop seen out [] = out"
| "execution_secret_names_loop seen out (s # ss) =
     (let trimmed = trim_space s
      in if trimmed = '''' then execution_secret_names_loop seen out ss
         else if trimmed \<in> set seen then execution_secret_names_loop seen out ss
         else execution_secret_names_loop (trimmed # seen) (out @ [trimmed]) ss)"

definition normalize_execution_secret_names :: "string list \<Rightarrow> gerror + string list" where
  "normalize_execution_secret_names names =
     (let out = execution_secret_names_loop [] [] names
      in if out = [] then Inl (Plain ''secrets are required'') else Inr out)"

fun first_not_allowed :: "lease \<Rightarrow> string list \<Rightarrow> gerror option" where
  "first_not_allowed l [] = None"
| "first_not_allowed l (n # ns) =
     (if \<not> allows l n then
        Some (Plain (''secret '' @ quote n @ '' not allowed for this lease''))
      else first_not_allowed l ns)"

fun access_each ::
  "'w service \<Rightarrow> lease \<Rightarrow> string \<Rightarrow> string \<Rightarrow> string go_map \<Rightarrow> string list \<Rightarrow> 'w \<Rightarrow>
   (gerror + string go_map) \<times> 'w"
where
  "access_each s l command_fp workdir_fp values [] w = (Inr values, w)"
| "access_each s l command_fp workdir_fp values (n # ns) w =
     (case access_secret_for_lease s l n command_fp workdir_fp w of
        (Inl e, w) \<Rightarrow> (Inl e, w)
      | (Inr v, w) \<Rightarrow> access_each s l command_fp workdir_fp (go_set values n v) ns w)"

fun audit_each ::
  "'w service \<Rightarrow> string \<Rightarrow> lease \<Rightarrow> string list \<Rightarrow> 'w \<Rightarrow> gerror option \<times> 'w" where
  "audit_each s event l [] w = (None, w)"
| "audit_each s event l (n # ns) w =
     (let (t, w) = sv_now s w in
      case audit_critical s (secret_access_event event t l n) w of
        (Some e, w) \<Rightarrow> (Some e, w)
      | (None, w) \<Rightarrow> audit_each s event l ns w)"

definition reject_env_path ::
  "'w service \<Rightarrow> lease_request \<Rightarrow> string \<Rightarrow> gerror \<Rightarrow> 'w \<Rightarrow> (gerror + 'a) \<times> 'w" where
  "reject_env_path s r reason e w =
     (let (_, w) = audit_env_path_rejected s (req_agent_id r) (req_task_id r) (req_id r)
        (req_env_path r) (req_env_path_canonical r) reason w
      in (Inl e, w))"

definition resolve_env_path_execution_secrets ::
  "'w service \<Rightarrow> lease_request \<Rightarrow> lease \<Rightarrow> string list \<Rightarrow> 'w \<Rightarrow> (gerror + string go_map) \<times> 'w"
where
  "resolve_env_path_execution_secrets s r l requested w =
     (case sv_env_path_secrets s of
        None \<Rightarrow>
          reject_env_path s r ''env_path_secret_store_unavailable''
            (Sentinel (App ErrSecretBackendUnavailable)) w
      | Some eps \<Rightarrow>
        let expected = normalize_env_path_canonical (sv_paths s) (req_env_path_canonical r) w in
        if expected = '''' then
          reject_env_path s r ''env_path_canonical_missing''
            (Plain ''env path canonical confirmation required'') w
        else
        (case audit_each s ''secret_access_started'' l requested w of
           (Some e, w) \<Rightarrow> (Inl e, w)
         | (None, w) \<Rightarrow>
           (case eps_resolve eps (req_env_path r) requested w of
              (Inl err, w) \<Rightarrow>
                reject_env_path s r (err_msg err) (Sentinel (App ErrSecretBackendUnavailable)) w
            | (Inr (resolved, canonical), w) \<Rightarrow>
                let canonical = normalize_env_path_canonical (sv_paths s) canonical w in
                if canonical = '''' \<or> canonical \<noteq> expected then
                  reject_env_path s r ''env_path_canonical_mismatch''
                    (Plain ''env path canonical mismatch'') w
                else
                let (_, w) = audit_env_path_confirmed s (req_agent_id r) (req_task_id r)
                       (req_id r) (req_env_path r) canonical w in
                (case audit_each s ''secret_access'' l requested w of
                   (Some e, w) \<Rightarrow> (Inl e, w)
                 | (None, w) \<Rightarrow> (Inr resolved, w)))))"

definition resolve_execution_secrets_by_agent ::
  "'w service \<Rightarrow> string \<Rightarrow> string \<Rightarrow> string list \<Rightarrow> string \<Rightarrow> string \<Rightarrow> 'w \<Rightarrow>
   (gerror + string go_map) \<times> 'w"
where
  "resolve_execution_secrets_by_agent s agent_id lease_tok names command_fp workdir_fp w =
     (case normalize_execution_secret_names names of
        Inl e \<Rightarrow> (Inl e, w)
      | Inr requested \<Rightarrow>
        (case get_lease_owned_by_agent s lease_tok agent_id w of
           (Inl e, w) \<Rightarrow> (Inl e, w)
         | (Inr l, w) \<Rightarrow>
           let (t, w) = sv_now s w in
           if is_expired l t then (Inl (Plain ''lease expired''), w)
           else if lease_command_fingerprint l \<noteq> '''' \<and> lease_command_fingerprint l \<noteq> command_fp
           then (Inl (Plain ''command fingerprint mismatch''), w)
           else if lease_workdir_fingerprint l \<noteq> '''' \<and> lease_workdir_fingerprint l \<noteq> workdir_fp
           then (Inl (Plain ''workdir fingerprint mismatch''), w)
           else
           (case first_not_allowed l requested of
              Some e \<Rightarrow> (Inl e, w)
            | None \<Rightarrow>
              (case get_request_owned_by_agent s (lease_request_id l) agent_id w of
                 (Inl e, w) \<Rightarrow> (Inl e, w)
               | (Inr r, w) \<Rightarrow>
                 if req_status r \<noteq> RequestApproved then
                   (Inl (Plain ''request is not approved''), w)
                 else if trim_space (req_env_path r) = '''' then
                   access_each s l command_fp workdir_fp [] requested w
                 else resolve_env_path_execution_secrets s r l requested w))))"

definition resolve_execution_secrets ::
  "'w service \<Rightarrow> string \<Rightarrow> string list \<Rightarrow> string \<Rightarrow> string \<Rightarrow> 'w \<Rightarrow> (gerror + string go_map) \<times> 'w"
where
  "resolve_execution_secrets s lease_tok names command_fp workdir_fp w =
     resolve_execution_secrets_by_agent s '''' lease_tok names command_fp workdir_fp w"

section \<open>The requested names\<close>

lemma execution_secret_names_loop_spec:
  assumes "set out = set seen" "distinct out" "[] \<notin> set out"
  shows "set (execution_secret_names_loop seen out ss) = set out \<union> (trim_space ` set ss - {[]}) \<and>
    distinct (execution_secret_names_loop seen out ss)"
  using assms
proof (induction seen out ss rule: execution_secret_names_loop.induct)
  case (2 seen out s ss)
  then show ?case
    by (cases "trim_space s = [] \<or> trim_space s \<in> set seen") (auto simp: Let_def)
qed simp

lemma normalize_execution_secret_names_Inr:
  "normalize_execution_secret_names ss = Inr ns \<Longrightarrow>
     ns \<noteq> [] \<and> distinct ns \<and> set ns = trim_space ` set ss - {[]}"
  using execution_secret_names_loop_spec [of "[]" "[]" ss]
  by (auto simp: normalize_execution_secret_names_def Let_def split: if_splits)

lemma first_not_allowed_None:
  "first_not_allowed l ns = None \<longleftrightarrow> set ns \<subseteq> set (lease_secrets l)"
  by (induction ns) auto

end
