(* ===== verification/AuthLifecycle.thy ===== *)
theory AuthLifecycle
  imports AuthStore Sha256
begin

text \<open>
  Pairing agents and minting their sessions (\<open>internal/app/auth_lifecycle.go\<close>). The store
  behind the interface \<open>AuthStore\<close> is \<open>auth.Store\<close>; \<open>al_get\<close> and \<open>al_put\<close> say where the
  world keeps it. A mutation is persisted and audited, and undone from a snapshot when either
  fails. \<open>MutationLock\<close> makes each operation one step.
\<close>

record 'w auth_lifecycle =
  al_get :: "'w \<Rightarrow> auth_store"
  al_put :: "auth_store \<Rightarrow> 'w \<Rightarrow> 'w"
  al_audit :: "'w audit_sink option"
  al_audit_failure_handler :: "(gerror \<Rightarrow> 'w \<Rightarrow> gerror option \<times> 'w) option"
  al_now :: "'w \<Rightarrow> int \<times> 'w"
  al_bootstrap_ttl_seconds :: int
  al_grant_idle_minutes :: int
  al_grant_absolute_minutes :: int
  al_session_ttl_minutes :: int
  al_new_bootstrap_tok :: "'w \<Rightarrow> string \<times> 'w"
  al_new_grant_id :: "'w \<Rightarrow> string \<times> 'w"
  al_new_session_tok :: "'w \<Rightarrow> string \<times> 'w"
  al_persist :: "('w \<Rightarrow> gerror option \<times> 'w) option"

section \<open>Helpers\<close>

definition persist_auth :: "'w auth_lifecycle \<Rightarrow> 'w \<Rightarrow> gerror option \<times> 'w" where
  "persist_auth a w = (case al_persist a of None \<Rightarrow> (None, w) | Some p \<Rightarrow> p w)"

definition auth_audit_critical ::
  "'w auth_lifecycle \<Rightarrow> audit_event \<Rightarrow> 'w \<Rightarrow> gerror option \<times> 'w" where
  "auth_audit_critical a ev w =
     (case al_audit a of
        None \<Rightarrow> (None, w)
      | Some write \<Rightarrow>
          (case write ev w of
             (None, w) \<Rightarrow> (None, w)
           | (Some e, w) \<Rightarrow>
               (case al_audit_failure_handler a of
                  None \<Rightarrow> (Some (Sentinel (App ErrAuditUnavailable)), w)
                | Some h \<Rightarrow>
                    (case h e w of
                       (Some handled, w) \<Rightarrow> (Some handled, w)
                     | (None, w) \<Rightarrow> (Some (Sentinel (App ErrAuditUnavailable)), w)))))"

definition hashed_audit_credential_ref :: "string \<Rightarrow> string" where
  "hashed_audit_credential_ref raw =
     (let full = sha256_hex raw in
      ''tokhash_'' @ (if 16 < length full then take 16 full else full))"

definition auth_audit_metadata :: "string go_map \<Rightarrow> string go_map" where
  "auth_audit_metadata values =
     List.map_filter (\<lambda>(key, value).
       let trimmed = trim_space value in
       if trimmed = '''' then None
       else if key \<in> {''bootstrap_token'', ''grant_id'', ''session_token''}
       then Some (key, hashed_audit_credential_ref trimmed)
       else Some (key, trimmed)) values"

text \<open>
  The end of every mutation: put the snapshot back and persist it when the change cannot be
  persisted or audited. The event is built after the change has been persisted.
\<close>

definition undo_auth ::
  "'w auth_lifecycle \<Rightarrow> auth_store \<Rightarrow> gerror \<Rightarrow> 'w \<Rightarrow> gerror \<times> 'w" where
  "undo_auth a before_change e w =
     (let w = al_put a (restore (snapshot before_change) (al_get a w)) w;
          (p, w) = persist_auth a w
      in (wrap_rollback_error e [p], w))"

definition finish_auth_mutation ::
  "'w auth_lifecycle \<Rightarrow> auth_store \<Rightarrow> ('w \<Rightarrow> audit_event \<times> 'w) \<Rightarrow> 'a \<Rightarrow> 'w \<Rightarrow> (gerror + 'a) \<times> 'w"
where
  "finish_auth_mutation a before_change mk_event result w =
     (case persist_auth a w of
        (Some e, w) \<Rightarrow> (case undo_auth a before_change e w of (e, w) \<Rightarrow> (Inl e, w))
      | (None, w) \<Rightarrow>
          (case mk_event w of (ev, w) \<Rightarrow>
             (case auth_audit_critical a ev w of
                (Some e, w) \<Rightarrow> (case undo_auth a before_change e w of (e, w) \<Rightarrow> (Inl e, w))
              | (None, w) \<Rightarrow> (Inr result, w))))"

definition on_store :: "'w auth_lifecycle \<Rightarrow> (auth_store \<Rightarrow> auth_store) \<Rightarrow> 'w \<Rightarrow> 'w" where
  "on_store a f w = al_put a (f (al_get a w)) w"

section \<open>Operations\<close>

definition create_bootstrap ::
  "'w auth_lifecycle \<Rightarrow> string \<Rightarrow> string \<Rightarrow> string \<Rightarrow> string \<Rightarrow> 'w \<Rightarrow> (gerror + bootstrap_token) \<times> 'w"
where
  "create_bootstrap a agent_id container_id actor_type actor_id w =
     (if trim_space agent_id = '''' \<or> trim_space container_id = ''''
      then (Inl (Plain ''agent_id and container_id are required''), w)
      else
        let (now, w) = al_now a w;
            before_change = al_get a w;
            (tok, w) = al_new_bootstrap_tok a w;
            t = \<lparr>bt_token = tok, bt_agent_id = agent_id, bt_container_id = container_id,
              bt_created_at = now, bt_expires_at = now + dur_mult (al_bootstrap_ttl_seconds a) second,
              bt_used = False\<rparr>;
            w = on_store a (save_bootstrap t) w
        in finish_auth_mutation a before_change
             (\<lambda>w. (zero_event\<lparr>ev_event := ''auth_bootstrap_created'', ev_timestamp := now,
                 ev_actor_type := actor_type, ev_actor_id := actor_id, ev_agent_id := agent_id,
                 ev_metadata := [(''container_id'', container_id)]\<rparr>, w)) t w)"

text \<open>
  A denied pairing is written to \<open>Audit\<close> directly: with no audit sink the call through the
  \<open>nil\<close> interface panics, which the model returns as the runtime's error.
\<close>

definition complete_pairing ::
  "'w auth_lifecycle \<Rightarrow> string \<Rightarrow> string \<Rightarrow> 'w \<Rightarrow> (gerror + pairing_grant) \<times> 'w" where
  "complete_pairing a tok container_id w =
     (if trim_space tok = '''' \<or> trim_space container_id = ''''
      then (Inl (Plain ''token and container_id are required''), w)
      else
        let before_change = al_get a w;
            (now0, w) = al_now a w
        in case consume_bootstrap tok container_id now0 (al_get a w) of
             (Inl e, _) \<Rightarrow>
               (case al_audit a of
                  None \<Rightarrow> (Inl (Plain ''runtime error: invalid memory address or nil pointer dereference''), w)
                | Some write \<Rightarrow>
                    (case al_now a w of (t, w) \<Rightarrow>
                       (case write (zero_event\<lparr>ev_event := ''auth_pair_denied'',
                            ev_timestamp := t, ev_actor_type := ''agent'', ev_actor_id := ''unknown'',
                            ev_metadata := [(''reason'', err_msg e), (''container_id'', container_id)]\<rparr>) w
                        of (_, w) \<Rightarrow> (Inl e, w))))
           | (Inr bt, st) \<Rightarrow>
               let w = al_put a st w;
                   (now, w) = al_now a w;
                   (gid, w) = al_new_grant_id a w;
                   g = \<lparr>pg_grant_id = gid, pg_agent_id = bt_agent_id bt,
                     pg_container_id = container_id, pg_created_at = now, pg_last_used_at = now,
                     pg_idle_expires_at = now + dur_mult (al_grant_idle_minutes a) minute,
                     pg_absolute_expires_at = now + dur_mult (al_grant_absolute_minutes a) minute,
                     pg_revoked = False\<rparr>;
                   w = on_store a (save_grant g) w
               in finish_auth_mutation a before_change
                    (\<lambda>w. (zero_event\<lparr>ev_event := ''auth_pair_completed'', ev_timestamp := now,
                        ev_actor_type := ''agent'', ev_actor_id := bt_agent_id bt,
                        ev_agent_id := bt_agent_id bt,
                        ev_metadata := auth_audit_metadata
                          [(''container_id'', container_id), (''grant_id'', gid)]\<rparr>, w)) g w)"

definition mint_session ::
  "'w auth_lifecycle \<Rightarrow> string \<Rightarrow> 'w \<Rightarrow> (gerror + session_token) \<times> 'w" where
  "mint_session a grant_id w =
     (case get_grant grant_id (al_get a w) of
        Inl e \<Rightarrow> (Inl e, w)
      | Inr g \<Rightarrow>
          let (now, w) = al_now a w in
          if pg_revoked g \<or> \<not> now < pg_idle_expires_at g \<or> \<not> now < pg_absolute_expires_at g
          then (Inl (Plain ''grant expired or revoked''), w)
          else
            let before_change = al_get a w;
                g = g\<lparr>pg_last_used_at := now,
                  pg_idle_expires_at := now + dur_mult (al_grant_idle_minutes a) minute\<rparr>;
                w = on_store a (update_grant g) w;
                (tok, w) = al_new_session_tok a w;
                st = \<lparr>st_token = tok, st_grant_id = pg_grant_id g, st_agent_id = pg_agent_id g,
                  st_created_at = now,
                  st_expires_at = now + dur_mult (al_session_ttl_minutes a) minute,
                  st_revoked = False\<rparr>;
                w = on_store a (save_session st) w
            in finish_auth_mutation a before_change
                 (\<lambda>w. (zero_event\<lparr>ev_event := ''auth_session_minted'', ev_timestamp := now,
                     ev_actor_type := ''agent'', ev_actor_id := pg_agent_id g,
                     ev_agent_id := pg_agent_id g,
                     ev_metadata := auth_audit_metadata [(''grant_id'', pg_grant_id g)]\<rparr>, w)) st w)"

definition revoke_auth ::
  "'w auth_lifecycle \<Rightarrow> string \<Rightarrow> string \<Rightarrow> string \<Rightarrow> string \<Rightarrow> 'w \<Rightarrow> gerror option \<times> 'w" where
  "revoke_auth a grant_id session_id actor_type actor_id w =
     (if trim_space grant_id = '''' \<and> trim_space session_id = ''''
      then (Some (Plain ''grant_id or session_token is required''), w)
      else
        let before_change = al_get a w;
            give_back = (\<lambda>e w. (Some e, al_put a (restore (snapshot before_change) (al_get a w)) w))
        in case (if trim_space grant_id = '''' then (None, before_change)
                 else revoke_grant grant_id before_change) of
             (Some e, st) \<Rightarrow> give_back e (al_put a st w)
           | (None, st) \<Rightarrow>
               (case (if trim_space session_id = '''' then (None, st)
                      else revoke_session session_id st) of
                  (Some e, st) \<Rightarrow> give_back e (al_put a st w)
                | (None, st) \<Rightarrow>
                    (case finish_auth_mutation a before_change
                        (\<lambda>w. (case al_now a w of (now, w) \<Rightarrow>
                           (zero_event\<lparr>ev_event := ''auth_revoked'', ev_timestamp := now,
                              ev_actor_type := actor_type, ev_actor_id := actor_id,
                              ev_metadata := auth_audit_metadata
                                [(''grant_id'', grant_id), (''session_token'', session_id)]\<rparr>, w)))
                        () (al_put a st w) of
                       (Inl e, w) \<Rightarrow> (Some e, w)
                     | (Inr _, w) \<Rightarrow> (None, w))))"

end
