(* ===== verification/RateLimit.thy ===== *)
theory RateLimit
  imports Errors
begin

text \<open>
  The limiter of failed authentications (\<open>cmd/promptlockd/auth_ratelimit.go\<close>): a counter of
  failures per scope and host, which starts again when its window has passed. Each method
  holds the limiter's mutex, so it is one step.
\<close>

text \<open>\<open>rb_reset_at\<close> is \<open>None\<close> for the zero time of a bucket that is not in the map.\<close>

record rl_bucket =
  rb_count :: int
  rb_reset_at :: "int option"

record auth_rate_limiter =
  rl_window :: int
  rl_max :: int
  rl_buckets :: "rl_bucket go_map"
  rl_enabled :: bool

definition new_auth_rate_limiter :: "int \<Rightarrow> int \<Rightarrow> auth_rate_limiter" where
  "new_auth_rate_limiter window_seconds max_attempts =
     (let w = (if window_seconds \<le> 0 then 60 else window_seconds);
          m = (if max_attempts \<le> 0 then 20 else max_attempts)
      in \<lparr>rl_window = dur_mult w second, rl_max = m, rl_buckets = [], rl_enabled = True\<rparr>)"

text \<open>\<open>net.SplitHostPort\<close>: \<open>None\<close> stands for its errors.\<close>

definition split_host_port :: "string \<Rightarrow> (string \<times> string) option" where
  "split_host_port hp =
     (if CHR '':'' \<notin> set hp then None
      else
        let port = rev (takeWhile (\<lambda>c. c \<noteq> CHR '':'') (rev hp));
            left = take (length hp - length port - 1) hp in
        if has_prefix hp ''['' then
          (if CHR '']'' \<notin> set hp then None
           else
             let host = takeWhile (\<lambda>c. c \<noteq> CHR '']'') (tl hp);
                 after = drop (length host + 2) hp in
             if length host + 2 \<noteq> length left then None
             else if CHR ''['' \<in> set (tl hp) \<or> CHR '']'' \<in> set after then None
             else Some (host, port))
        else if CHR '':'' \<in> set left then None
        else if CHR ''['' \<in> set hp \<or> CHR '']'' \<in> set hp then None
        else Some (left, port))"

definition limiter_key :: "string \<Rightarrow> string \<Rightarrow> string" where
  "limiter_key remote_addr scope =
     (let addr = trim_space remote_addr;
          host = (case split_host_port addr of
             None \<Rightarrow> addr
           | Some (h, _) \<Rightarrow> if h = '''' then addr else h)
      in scope @ '':'' @ to_lower (if host = '''' then ''unknown'' else host))"

text \<open>The bucket of a key, renewed when it is missing or its window has passed.\<close>

definition current_bucket :: "auth_rate_limiter \<Rightarrow> string \<Rightarrow> int \<Rightarrow> rl_bucket" where
  "current_bucket l key now =
     (case go_get (rl_buckets l) key of
        None \<Rightarrow> \<lparr>rb_count = 0, rb_reset_at = Some (now + rl_window l)\<rparr>
      | Some b \<Rightarrow>
          (case rb_reset_at b of
             None \<Rightarrow> \<lparr>rb_count = 0, rb_reset_at = Some (now + rl_window l)\<rparr>
           | Some t \<Rightarrow>
               if \<not> now < t then \<lparr>rb_count = 0, rb_reset_at = Some (now + rl_window l)\<rparr> else b))"

definition limiter_allow ::
  "string \<Rightarrow> int \<Rightarrow> auth_rate_limiter \<Rightarrow> bool \<times> auth_rate_limiter" where
  "limiter_allow key now l =
     (if \<not> rl_enabled l then (True, l)
      else let b = current_bucket l key now in
        (\<not> rl_max l \<le> rb_count b, l\<lparr>rl_buckets := go_set (rl_buckets l) key b\<rparr>))"

definition limiter_record_failure ::
  "string \<Rightarrow> int \<Rightarrow> auth_rate_limiter \<Rightarrow> bool \<times> auth_rate_limiter" where
  "limiter_record_failure key now l =
     (if \<not> rl_enabled l then (False, l)
      else let b = current_bucket l key now;
               b = b\<lparr>rb_count := rb_count b + 1\<rparr> in
        (rl_max l \<le> rb_count b, l\<lparr>rl_buckets := go_set (rl_buckets l) key b\<rparr>))"

section \<open>How many attempts get through\<close>

text \<open>
  One authentication: the check is reached when the limiter allows it, and a failure of the check is
  recorded. A history is a list of attempts, each with its key, the time it is made at, and whether
  its credentials are wrong.
\<close>

definition auth_attempt ::
  "string \<Rightarrow> int \<Rightarrow> bool \<Rightarrow> auth_rate_limiter \<Rightarrow> bool \<times> auth_rate_limiter" where
  "auth_attempt key now bad l =
     (case limiter_allow key now l of
        (False, l) \<Rightarrow> (False, l)
      | (True, l) \<Rightarrow> (True, if bad then snd (limiter_record_failure key now l) else l))"

type_synonym auth_history = "(string \<times> int \<times> bool) list"

text \<open>The wrong credentials of one key that reached the check.\<close>

fun failures_checked :: "string \<Rightarrow> auth_history \<Rightarrow> auth_rate_limiter \<Rightarrow> nat" where
  "failures_checked key [] l = 0"
| "failures_checked key ((k, now, bad) # as) l =
     (case auth_attempt k now bad l of
        (ok, l) \<Rightarrow> (if ok \<and> bad \<and> k = key then 1 else 0) + failures_checked key as l)"

definition attempts_of :: "string \<Rightarrow> auth_history \<Rightarrow> (int \<times> bool) list" where
  "attempts_of key as = map snd (filter (\<lambda>a. fst a = key) as)"

text \<open>
  What is promised: the first attempt opens a window, which holds every attempt up to the first
  that is not before its end; that one opens the next window. Of the failures of a window, as many
  as the maximum reach the check.
\<close>

function failures_allowed :: "int \<Rightarrow> int \<Rightarrow> (int \<times> bool) list \<Rightarrow> int" where
  "failures_allowed w m [] = 0"
| "failures_allowed w m ((t, bad) # as) =
     (let inside = takeWhile (\<lambda>a. fst a < t + w) as in
      min m (int (length (filter snd ((t, bad) # inside)))) +
      failures_allowed w m (dropWhile (\<lambda>a. fst a < t + w) as))"
  by pat_completeness auto
termination
  by (relation "measure (\<lambda>(w, m, as). length as)") (auto simp: le_imp_less_Suc length_dropWhile_le)

definition bucket_of :: "auth_rate_limiter \<Rightarrow> string \<Rightarrow> rl_bucket option" where
  "bucket_of l key = go_get (rl_buckets l) key"

lemma current_bucket_again:
  "current_bucket (l\<lparr>rl_buckets := go_set m key (current_bucket l key t)\<rparr>) key t =
     current_bucket l key t"
  by (auto simp: current_bucket_def split: option.splits if_splits)

lemma auth_attempt_result:
  assumes "rl_enabled l"
  shows "auth_attempt key now bad l =
    (let b = current_bucket l key now; ok = rb_count b < rl_max l;
         m = go_set (rl_buckets l) key b in
     (ok, l\<lparr>rl_buckets := (if ok \<and> bad then go_set m key (b\<lparr>rb_count := rb_count b + 1\<rparr>) else m)\<rparr>))"
  using assms current_bucket_again [where l = l and key = key and m = "rl_buckets l" and t = now]
  by (simp add: auth_attempt_def limiter_allow_def limiter_record_failure_def Let_def)

lemma auth_attempt_settings:
  assumes "rl_enabled l"
  shows "rl_enabled (snd (auth_attempt k now bad l))" "rl_max (snd (auth_attempt k now bad l)) = rl_max l"
    "rl_window (snd (auth_attempt k now bad l)) = rl_window l"
  using assms by (simp_all add: auth_attempt_result Let_def)

lemma bucket_of_attempt:
  assumes "rl_enabled l"
  shows "bucket_of (snd (auth_attempt k now bad l)) key =
    (if key = k
     then let b = current_bucket l k now in
       Some (b\<lparr>rb_count := rb_count b + (if rb_count b < rl_max l \<and> bad then 1 else 0)\<rparr>)
     else bucket_of l key)"
  using assms by (simp add: auth_attempt_result Let_def bucket_of_def)

lemma fst_auth_attempt:
  "rl_enabled l \<Longrightarrow> fst (auth_attempt k now bad l) \<longleftrightarrow> rb_count (current_bucket l k now) < rl_max l"
  by (simp add: auth_attempt_result Let_def)

lemma failures_checked_step:
  "failures_checked key ((k, now, bad) # as) l =
     (if fst (auth_attempt k now bad l) \<and> bad \<and> k = key then 1 else 0) +
     failures_checked key as (snd (auth_attempt k now bad l))"
  by (simp add: case_prod_beta)

lemma attempts_of_Cons [simp]:
  "attempts_of key [] = []"
  "attempts_of key ((k, now, bad) # as) = (if k = key then [(now, bad)] else []) @ attempts_of key as"
  by (simp_all add: attempts_of_def)

text \<open>The count from within a window that has seen \<open>n\<close> failures and ends at \<open>r\<close>.\<close>

lemma failures_checked_window:
  assumes "rl_enabled l" and "bucket_of l key = Some \<lparr>rb_count = n, rb_reset_at = Some r\<rparr>"
    and "n \<le> rl_max l" and "0 < rl_max l"
  shows "int (failures_checked key as l) =
    min (rl_max l - n) (int (length (filter snd (takeWhile (\<lambda>a. fst a < r) (attempts_of key as))))) +
    failures_allowed (rl_window l) (rl_max l) (dropWhile (\<lambda>a. fst a < r) (attempts_of key as))"
  using assms
proof (induction as arbitrary: l n r)
  case (Cons a as)
  obtain k t bad where a: "a = (k, t, bad)" by (cases a)
  let ?l = "snd (auth_attempt k t bad l)"
  note set = auth_attempt_settings [OF Cons.prems(1), of k t bad]
  show ?case
  proof (cases "k = key")
    case False
    have "bucket_of ?l key = Some \<lparr>rb_count = n, rb_reset_at = Some r\<rparr>"
      using Cons.prems(1,2) False by (simp add: bucket_of_attempt)
    from Cons.IH [OF set(1) this] Cons.prems(3,4) False show ?thesis
      unfolding a failures_checked_step by (simp add: set)
  next
    case True
    have cur: "current_bucket l key t =
        (if t < r then \<lparr>rb_count = n, rb_reset_at = Some r\<rparr>
         else \<lparr>rb_count = 0, rb_reset_at = Some (t + rl_window l)\<rparr>)"
      using Cons.prems(2) by (simp add: current_bucket_def bucket_of_def)
    let ?n = "(if t < r then n else 0)" and ?r = "(if t < r then r else t + rl_window l)"
    let ?i = "(if ?n < rl_max l \<and> bad then 1 else 0) :: int"
    have b: "bucket_of ?l key = Some \<lparr>rb_count = ?n + ?i, rb_reset_at = Some ?r\<rparr>"
      using Cons.prems(1) True by (simp add: bucket_of_attempt cur)
    have ok: "fst (auth_attempt k t bad l) \<longleftrightarrow> ?n < rl_max l"
      using Cons.prems(1) True by (simp add: fst_auth_attempt cur)
    have "?n + ?i \<le> rl_max ?l" "0 < rl_max ?l" using Cons.prems(3,4) by (auto simp: set)
    from Cons.IH [OF set(1) b this] have ih: "int (failures_checked key as ?l) =
        min (rl_max l - (?n + ?i))
          (int (length (filter snd (takeWhile (\<lambda>a. fst a < ?r) (attempts_of key as))))) +
        failures_allowed (rl_window l) (rl_max l) (dropWhile (\<lambda>a. fst a < ?r) (attempts_of key as))"
      by (simp add: set)
    show ?thesis
      unfolding a failures_checked_step using ih ok Cons.prems(3,4) True
      by (cases "t < r"; cases bad; auto simp: Let_def min_def)
  qed
qed simp

lemma failures_checked_fresh:
  assumes "rl_enabled l" and "bucket_of l key = None" and "0 < rl_max l"
  shows "int (failures_checked key as l) =
    failures_allowed (rl_window l) (rl_max l) (attempts_of key as)"
  using assms
proof (induction as arbitrary: l)
  case (Cons a as)
  obtain k t bad where a: "a = (k, t, bad)" by (cases a)
  let ?l = "snd (auth_attempt k t bad l)"
  note set = auth_attempt_settings [OF Cons.prems(1), of k t bad]
  show ?case
  proof (cases "k = key")
    case False
    then have "bucket_of ?l key = None" using Cons.prems(1,2) by (simp add: bucket_of_attempt)
    from Cons.IH [OF set(1) this] Cons.prems(3) False show ?thesis
      unfolding a failures_checked_step by (simp add: set)
  next
    case True
    have cur: "current_bucket l key t = \<lparr>rb_count = 0, rb_reset_at = Some (t + rl_window l)\<rparr>"
      using Cons.prems(2) by (simp add: current_bucket_def bucket_of_def)
    have b: "bucket_of ?l key = Some \<lparr>rb_count = (if bad then 1 else 0),
        rb_reset_at = Some (t + rl_window l)\<rparr>"
      using Cons.prems(1,3) True by (simp add: bucket_of_attempt cur)
    have ok: "fst (auth_attempt k t bad l)"
      using Cons.prems(1,3) True by (simp add: fst_auth_attempt cur)
    have "(if bad then 1 else 0) \<le> rl_max ?l" "0 < rl_max ?l" using Cons.prems(3) by (auto simp: set)
    from failures_checked_window [OF set(1) b this, of as, unfolded set(2,3)] ok Cons.prems(3) True show ?thesis
      unfolding a failures_checked_step by (cases bad; auto simp: Let_def min_def)
  qed
qed simp



end
