(* ===== verification/Daemon.thy ===== *)
theory Daemon
  imports AuditChain MemoryStore Persistence LeaseThrottle ExecutionSecrets AuthLifecycle RateLimit
begin

text \<open>
  The state of the daemon \<open>promptlockd\<close> with its default wiring (\<open>server.go\<close>, \<open>main.go\<close>):
  the in-memory store, the auth store, the audit file, the limiter and the durability gate
  (\<open>durability_gate.go\<close>); how the requests and leases and the auth store reach the disk
  (\<open>state_persist.go\<close>, \<open>auth_persist.go\<close>); and how the application service, the auth
  lifecycle and the cleanup (\<open>auth_cleanup.go\<close>) are connected to it.

  What lies outside the process is the value \<open>dm_env\<close> of a type \<open>'e\<close>: the clock, the random
  generator, the disk and the secret backends are functions on it.
\<close>

section \<open>The state\<close>

text \<open>\<open>dm_trail\<close> is not in the code: it lists the events whose write to the audit file returned no
  error, for the theorems to speak about.\<close>

record 'e daemon =
  dm_store :: mem_store
  dm_auth :: auth_store
  dm_sink :: file_sink
  dm_trail :: "audit_event list"
  dm_limiter :: "auth_rate_limiter option"
  dm_closed :: bool
  dm_reason :: string
  dm_env :: 'e

record 'e outside =
  od_audit_os :: "'e audit_os"
  od_fs :: "'e file_system"
  od_codec :: codec
  od_now :: "'e \<Rightarrow> int \<times> 'e"
  od_random :: "'e \<Rightarrow> string \<times> 'e"
  od_nonce :: "'e \<Rightarrow> (gerror + string) \<times> 'e"
  od_env_paths :: "'e env_path_secret_store option"
  od_secret_source :: "'e secret_store option"
  od_paths :: "'e os_path"

text \<open>
  \<open>od_secret_source\<close> is \<open>None\<close> when the in-memory store serves the secrets. Reading random bytes
  does not fail: the runtime ends the process instead.
\<close>

record server_config =
  sc_policy :: policy
  sc_request_policy :: request_policy
  sc_allow_plaintext_secret_return :: bool
  sc_auth_enabled :: bool
  sc_operator_tok :: string
  sc_bootstrap_ttl_seconds :: int
  sc_grant_idle_minutes :: int
  sc_grant_absolute_minutes :: int
  sc_session_ttl_minutes :: int
  sc_state_store_file :: string
  sc_auth_store_file :: string
  sc_auth_store_key :: string
  sc_intents :: "string list go_map"

definition on_env :: "('e \<Rightarrow> 'a \<times> 'e) \<Rightarrow> 'e daemon \<Rightarrow> 'a \<times> 'e daemon" where
  "on_env f d = (case f (dm_env d) of (x, e) \<Rightarrow> (x, d\<lparr>dm_env := e\<rparr>))"

definition on_mem :: "(mem_store \<Rightarrow> 'a \<times> mem_store) \<Rightarrow> 'e daemon \<Rightarrow> 'a \<times> 'e daemon" where
  "on_mem f d = (case f (dm_store d) of (x, s) \<Rightarrow> (x, d\<lparr>dm_store := s\<rparr>))"

text \<open>\<open>mustSecureToken\<close>.\<close>

definition must_secure_token :: "'e outside \<Rightarrow> string \<Rightarrow> 'e daemon \<Rightarrow> string \<times> 'e daemon" where
  "must_secure_token od pre d =
     (case on_env (od_random od) d of (b, d) \<Rightarrow> (pre @ hex_encode b, d))"

section \<open>The audit file and the durability gate\<close>

definition daemon_audit :: "'e outside \<Rightarrow> 'e daemon audit_sink" where
  "daemon_audit od ev d =
     (case sink_write (od_audit_os od) ev (dm_sink d, dm_env d) of
        (Some err, (k, e)) \<Rightarrow> (Some err, d\<lparr>dm_sink := k, dm_env := e\<rparr>)
      | (None, (k, e)) \<Rightarrow>
          (None, d\<lparr>dm_sink := k, dm_env := e, dm_trail := dm_trail d @ [ev]\<rparr>))"

definition durability_error :: "'e daemon \<Rightarrow> gerror option" where
  "durability_error d =
     (if \<not> dm_closed d then None
      else let reason = (if trim_space (dm_reason d) = '''' then ''persistence failure''
                         else dm_reason d)
        in Some (Wrapped (Sentinel ErrDurabilityClosed)
             (sentinel_text ErrDurabilityClosed @ '': '' @ reason)))"

definition durability_audit_reason :: "gerror \<Rightarrow> string" where
  "durability_audit_reason err =
     (let msg = to_lower (trim_space (err_msg err)); has = contains msg in
      if err_is err ErrStoreUnavailable then
        (if has ''status 401'' then ''store_unavailable_http_401''
         else if has ''status 403'' then ''store_unavailable_http_403''
         else if has ''status 404'' \<or> has ''not found'' then ''store_unavailable_not_found''
         else if has ''status 408'' \<or> has ''status 429'' \<or> has ''timeout'' \<or> has ''deadline exceeded''
         then ''store_unavailable_timeout''
         else if has ''connection refused'' \<or> has ''no such host'' \<or> has ''tls'' \<or> has ''x509'' \<or> has ''eof''
         then ''store_unavailable_transport''
         else if has ''status 5'' then ''store_unavailable_upstream_5xx''
         else if has ''status 4'' then ''store_unavailable_upstream_4xx''
         else ''store_unavailable'')
      else if has ''permission denied'' then ''permission_denied''
      else if has ''disk full'' \<or> has ''no space left'' then ''no_space''
      else if has ''read-only file system'' then ''read_only''
      else if has ''sync parent dir'' \<or> has ''fsync'' then ''fsync_failed''
      else if has ''rename'' then ''rename_failed''
      else ''persistence_error'')"

definition gate_event :: "string \<Rightarrow> int \<Rightarrow> string \<Rightarrow> string \<Rightarrow> audit_event" where
  "gate_event name now component reason =
     zero_event\<lparr>ev_event := name, ev_timestamp := now, ev_actor_type := ''system'',
       ev_actor_id := ''promptlockd'',
       ev_metadata := [(''component'', component), (''reason'', reason)]\<rparr>"

text \<open>One of the gate's own events; the error of its write is dropped.\<close>

definition note_gate_event :: "'e outside \<Rightarrow> string \<Rightarrow> string \<Rightarrow> string \<Rightarrow> 'e daemon \<Rightarrow> 'e daemon" where
  "note_gate_event od name component reason d =
     (case on_env (od_now od) d of (now, d) \<Rightarrow>
        snd (daemon_audit od (gate_event name now component reason) d))"

definition close_durability_gate ::
  "'e outside \<Rightarrow> string \<Rightarrow> gerror option \<Rightarrow> 'e daemon \<Rightarrow> gerror option \<times> 'e daemon" where
  "close_durability_gate od component error d =
     (case error of
        None \<Rightarrow> (None, d)
      | Some err \<Rightarrow>
          let reason = component @ '' persistence failure: '' @ err_msg err;
              audit_reason = durability_audit_reason err;
              first_close = (\<not> dm_closed d);
              d = (if first_close then d\<lparr>dm_closed := True, dm_reason := reason\<rparr> else d);
              d = (if component = ''audit'' then d
                   else
                     let d = note_gate_event od ''durability_persist_failed'' component audit_reason d
                     in if first_close
                        then note_gate_event od ''durability_gate_closed'' component audit_reason d
                        else d)
          in (Some (Wrapped (Sentinel ErrDurabilityClosed)
                (sentinel_text ErrDurabilityClosed @ '': '' @ reason)), d))"

text \<open>The handler both services are given for a failed audit write.\<close>

definition daemon_audit_failure ::
  "'e outside \<Rightarrow> gerror \<Rightarrow> 'e daemon \<Rightarrow> gerror option \<times> 'e daemon" where
  "daemon_audit_failure od err d = close_durability_gate od ''audit'' (Some err) d"

definition server_audit_critical ::
  "'e outside \<Rightarrow> audit_event \<Rightarrow> 'e daemon \<Rightarrow> gerror option \<times> 'e daemon" where
  "server_audit_critical od ev d =
     (case daemon_audit od ev d of
        (None, d) \<Rightarrow> (None, d)
      | (Some err, d) \<Rightarrow>
          (case close_durability_gate od ''audit'' (Some err) d of
             (Some handled, d) \<Rightarrow> (Some handled, d)
           | (None, d) \<Rightarrow> (Some (Sentinel (Http ErrServiceUnavailable)), d)))"

section \<open>Persisting\<close>

definition persist_request_lease_state ::
  "server_config \<Rightarrow> 'e outside \<Rightarrow> 'e daemon \<Rightarrow> gerror option \<times> 'e daemon" where
  "persist_request_lease_state cfg od d =
     (let path = trim_space (sc_state_store_file cfg) in
      if path = '''' then (None, d)
      else case on_env (save_state_to_file (od_codec od) (od_fs od) path (dm_store d)) d of
        (err, d) \<Rightarrow> close_durability_gate od ''request_lease_state'' err d)"

definition persist_auth_store ::
  "server_config \<Rightarrow> 'e outside \<Rightarrow> 'e daemon \<Rightarrow> gerror option \<times> 'e daemon" where
  "persist_auth_store cfg od d =
     (if \<not> sc_auth_enabled cfg then (None, d)
      else
        let path = trim_space (sc_auth_store_file cfg) in
        if path = '''' then (None, d)
        else case on_env
            (if sc_auth_store_key cfg \<noteq> ''''
             then save_to_file_encrypted (od_codec od) (od_fs od) (od_nonce od) path
                    (sc_auth_store_key cfg) (dm_auth d)
             else save_to_file (od_codec od) (od_fs od) path (dm_auth d)) d of
          (err, d) \<Rightarrow> close_durability_gate od ''auth_store'' err d)"

section \<open>The services\<close>

definition daemon_requests :: "'e daemon request_store" where
  "daemon_requests =
     \<lparr>rs_save = \<lambda>r. on_mem (save_request r), rs_get = \<lambda>i. on_mem (get_request i),
      rs_update = \<lambda>r. on_mem (update_request r), rs_delete = \<lambda>i. on_mem (delete_request i),
      rs_list_pending = on_mem list_pending_requests\<rparr>"

definition daemon_leases :: "'e daemon lease_store" where
  "daemon_leases =
     \<lparr>ls_save = \<lambda>l. on_mem (save_lease l), ls_delete = \<lambda>t. on_mem (delete_lease t),
      ls_get = \<lambda>t. on_mem (get_lease t), ls_get_by_request = \<lambda>i. on_mem (get_lease_by_request_id i),
      ls_list = Some (on_mem list_leases)\<rparr>"

definition daemon_secrets :: "'e outside \<Rightarrow> 'e daemon secret_store" where
  "daemon_secrets od name =
     (case od_secret_source od of
        None \<Rightarrow> on_mem (get_secret name)
      | Some source \<Rightarrow> on_env (source name))"

definition daemon_env_paths ::
  "'e outside \<Rightarrow> 'e daemon env_path_secret_store option" where
  "daemon_env_paths od =
     map_option (\<lambda>eps. \<lparr>eps_canonicalize = \<lambda>p. on_env (eps_canonicalize eps p),
        eps_resolve = \<lambda>p ns. on_env (eps_resolve eps p ns)\<rparr>) (od_env_paths od)"

definition daemon_service :: "server_config \<Rightarrow> 'e outside \<Rightarrow> 'e daemon service" where
  "daemon_service cfg od =
     \<lparr>sv_policy = sc_policy cfg,
      sv_request_policy = sc_request_policy cfg,
      sv_allow_plaintext_secret_return = sc_allow_plaintext_secret_return cfg,
      sv_requests = daemon_requests,
      sv_leases = daemon_leases,
      sv_committer = Some (persist_request_lease_state cfg od),
      sv_secrets = daemon_secrets od,
      sv_env_path_secrets = daemon_env_paths od,
      sv_audit = Some (daemon_audit od),
      sv_audit_failure_handler = Some (daemon_audit_failure od),
      sv_now = on_env (od_now od),
      sv_new_request_id = must_secure_token od ''req_'',
      sv_new_lease_tok = must_secure_token od ''lease_'',
      sv_paths = \<lparr>os_getwd = \<lambda>d. os_getwd (od_paths od) (dm_env d),
        os_eval_symlinks = \<lambda>p d. os_eval_symlinks (od_paths od) p (dm_env d)\<rparr>\<rparr>"

definition auth_lifecycle_svc :: "server_config \<Rightarrow> 'e outside \<Rightarrow> 'e daemon auth_lifecycle" where
  "auth_lifecycle_svc cfg od =
     \<lparr>al_get = dm_auth,
      al_put = \<lambda>st d. d\<lparr>dm_auth := st\<rparr>,
      al_audit = Some (daemon_audit od),
      al_audit_failure_handler = Some (daemon_audit_failure od),
      al_now = on_env (od_now od),
      al_bootstrap_ttl_seconds = sc_bootstrap_ttl_seconds cfg,
      al_grant_idle_minutes = sc_grant_idle_minutes cfg,
      al_grant_absolute_minutes = sc_grant_absolute_minutes cfg,
      al_session_ttl_minutes = sc_session_ttl_minutes cfg,
      al_new_bootstrap_tok = must_secure_token od ''boot_'',
      al_new_grant_id = must_secure_token od ''grant_'',
      al_new_session_tok = must_secure_token od ''sess_'',
      al_persist = Some (persist_auth_store cfg od)\<rparr>"

section \<open>The cleanup pass\<close>

definition undo_cleanup ::
  "server_config \<Rightarrow> 'e outside \<Rightarrow> auth_store \<Rightarrow> gerror \<Rightarrow> 'e daemon \<Rightarrow> gerror option \<times> 'e daemon" where
  "undo_cleanup cfg od before_change err d =
     (let d = d\<lparr>dm_auth := restore (snapshot before_change) (dm_auth d)\<rparr> in
      case persist_auth_store cfg od d of
        (Some rollback_err, d) \<Rightarrow>
          (Some (Wrapped err (err_msg err @ '' (rollback failed: '' @ err_msg rollback_err @ '')'')), d)
      | (None, d) \<Rightarrow> (Some err, d))"

definition run_auth_cleanup_pass ::
  "server_config \<Rightarrow> 'e outside \<Rightarrow> 'e daemon \<Rightarrow> gerror option \<times> 'e daemon" where
  "run_auth_cleanup_pass cfg od d =
     (let before_change = dm_auth d;
          (now, d) = on_env (od_now od) d;
          ((rb, rs, rg), st) = cleanup_expired now (dm_auth d);
          d = d\<lparr>dm_auth := st\<rparr>
      in if rb + rs + rg = 0 then (None, d)
      else case persist_auth_store cfg od d of
        (Some err, d) \<Rightarrow> undo_cleanup cfg od before_change err d
      | (None, d) \<Rightarrow>
          (case on_env (od_now od) d of (now, d) \<Rightarrow>
             (case server_audit_critical od
                 (zero_event\<lparr>ev_event := ''auth_cleanup'', ev_timestamp := now,
                    ev_actor_type := ''system'', ev_actor_id := ''promptlockd'',
                    ev_metadata := [(''removed_bootstrap'', show_nat rb),
                      (''removed_sessions'', show_nat rs), (''revoked_grants'', show_nat rg)]\<rparr>) d of
                (Some err, d) \<Rightarrow> undo_cleanup cfg od before_change err d
              | (None, d) \<Rightarrow> (None, d))))"

end
