(* ===== verification/Http.thy ===== *)
theory Http
  imports Daemon
begin

text \<open>
  Requests and responses of the daemon's HTTP interface (\<open>http_errors.go\<close>,
  \<open>json_body.go\<close>, \<open>context.go\<close>, \<open>state_store_errors.go\<close>), and who a request comes from
  (\<open>authz.go\<close>, \<open>auth_ratelimit.go\<close>). Of a request, the handlers see its method, remote
  address, \<open>Authorization\<close> header and \<open>request_id\<close> parameter; its body is what successive
  calls of \<open>json.Decoder.Decode\<close> make of it.
\<close>

record http_request =
  rq_method :: string
  rq_remote_addr :: string
  rq_authorization :: string
  rq_request_id :: string

datatype 'b decoded = EndOfInput | Malformed gerror | Decoded 'b

record 'b http_body =
  hb_first :: "'b decoded"
  hb_more :: "unit decoded"

definition decode_body :: "'b http_body \<Rightarrow> gerror + 'b" where
  "decode_body b =
     (case hb_first b of
        EndOfInput \<Rightarrow> Inl (Plain ''EOF'')
      | Malformed e \<Rightarrow> Inl e
      | Decoded x \<Rightarrow> Inr x)"

definition decode_optional_json_body :: "'b \<Rightarrow> 'b http_body \<Rightarrow> gerror + 'b" where
  "decode_optional_json_body zero_value b =
     (case hb_first b of
        EndOfInput \<Rightarrow> Inr zero_value
      | Malformed e \<Rightarrow> Inl e
      | Decoded x \<Rightarrow>
          (case hb_more b of
             EndOfInput \<Rightarrow> Inr x
           | Malformed e \<Rightarrow> Inl e
           | Decoded _ \<Rightarrow> Inl (Plain ''unexpected extra JSON values'')))"

datatype json_value =
    JString string
  | JInt int
  | JTime int
  | JBool bool
  | JStrings "string list"
  | JRequests "lease_request list"

text \<open>A response: the status, the \<open>Retry-After\<close> header, and an error text or a JSON object.\<close>

record http_response =
  rs_status :: int
  rs_retry_after :: "int option"
  rs_body :: "string + (string \<times> json_value) list"

fun http_status :: "http_sentinel \<Rightarrow> int" where
  "http_status ErrBadRequest = 400"
| "http_status ErrMethodNotAllowed = 405"
| "http_status ErrRateLimited = 429"
| "http_status ErrUnauthorized = 401"
| "http_status ErrForbidden = 403"
| "http_status ErrNotFound = 404"
| "http_status ErrServiceUnavailable = 503"
| "http_status ErrInternal = 500"

definition write_mapped_error :: "http_sentinel \<Rightarrow> string \<Rightarrow> http_response" where
  "write_mapped_error kind msg =
     \<lparr>rs_status = http_status kind, rs_retry_after = None, rs_body = Inl msg\<rparr>"

definition write_json :: "(string \<times> json_value) list \<Rightarrow> http_response" where
  "write_json v = \<lparr>rs_status = 200, rs_retry_after = None, rs_body = Inr v\<rparr>"

section \<open>Errors of the state store\<close>

definition durability_unavailable_message :: string where
  "durability_unavailable_message =
     ''durability persistence unavailable; broker closed for safety''"

definition state_store_unavailable_message :: string where
  "state_store_unavailable_message =
     ''state backend unavailable; retry when backend connectivity is restored''"

definition secret_backend_unavailable_message :: string where
  "secret_backend_unavailable_message =
     ''secret backend unavailable; retry when backend connectivity is restored''"

definition gate_error :: "gerror \<Rightarrow> bool" where
  "gate_error e \<longleftrightarrow> err_is e (App ErrAuditUnavailable) \<or> err_is e ErrDurabilityClosed"

definition state_store_read_error :: "gerror \<Rightarrow> http_sentinel \<times> string" where
  "state_store_read_error e =
     (if gate_error e then (ErrServiceUnavailable, durability_unavailable_message)
      else if err_is e ErrStoreUnavailable
      then (ErrServiceUnavailable, state_store_unavailable_message)
      else if err_is e (App ErrRequestNotOwned) \<or> err_is e (App ErrLeaseNotOwned)
      then (ErrForbidden, err_msg e)
      else (ErrNotFound, err_msg e))"

definition state_store_mutation_error :: "gerror \<Rightarrow> http_sentinel \<times> string" where
  "state_store_mutation_error e =
     (if gate_error e then (ErrServiceUnavailable, durability_unavailable_message)
      else if err_is e ErrStoreUnavailable
      then (ErrServiceUnavailable, state_store_unavailable_message)
      else (ErrBadRequest, err_msg e))"

definition state_store_cancel_mutation_error :: "gerror \<Rightarrow> http_sentinel \<times> string" where
  "state_store_cancel_mutation_error e =
     (if gate_error e then (ErrServiceUnavailable, durability_unavailable_message)
      else if err_is e ErrStoreUnavailable
      then (ErrServiceUnavailable, state_store_unavailable_message)
      else if err_is e (App ErrRequestNotOwned) then (ErrForbidden, err_msg e)
      else (ErrBadRequest, err_msg e))"

definition state_store_access_error :: "gerror \<Rightarrow> http_sentinel \<times> string" where
  "state_store_access_error e =
     (if gate_error e then (ErrServiceUnavailable, durability_unavailable_message)
      else if err_is e (App ErrSecretBackendUnavailable)
      then (ErrServiceUnavailable, secret_backend_unavailable_message)
      else if err_is e ErrStoreUnavailable
      then (ErrServiceUnavailable, state_store_unavailable_message)
      else (ErrForbidden, err_msg e))"

definition state_store_list_error :: "gerror \<Rightarrow> http_sentinel \<times> string" where
  "state_store_list_error e =
     (if gate_error e then (ErrServiceUnavailable, durability_unavailable_message)
      else if err_is e ErrStoreUnavailable
      then (ErrServiceUnavailable, state_store_unavailable_message)
      else (ErrInternal, err_msg e))"

text \<open>\<open>errors.As\<close> with a \<open>*RequestThrottleError\<close>.\<close>

fun as_throttle_error :: "gerror \<Rightarrow> (throttle_reason \<times> int) option" where
  "as_throttle_error (Throttled r d) = Some (r, d)"
| "as_throttle_error (Wrapped e m) = as_throttle_error e"
| "as_throttle_error _ = None"

section \<open>Limited attempts\<close>

definition enforce_auth_rate_limit ::
  "'e outside \<Rightarrow> http_request \<Rightarrow> string \<Rightarrow> 'e daemon \<Rightarrow> http_response option \<times> 'e daemon" where
  "enforce_auth_rate_limit od rq scope d =
     (case dm_limiter d of
        None \<Rightarrow> (None, d)
      | Some l \<Rightarrow>
          let key = limiter_key (rq_remote_addr rq) scope;
              (now, d) = on_env (od_now od) d
          in case limiter_allow key now l of
               (True, l) \<Rightarrow> (None, d\<lparr>dm_limiter := Some l\<rparr>)
             | (False, l) \<Rightarrow>
                 let d = d\<lparr>dm_limiter := Some l\<rparr>;
                     (now, d) = on_env (od_now od) d;
                     (_, d) = daemon_audit od
                       (zero_event\<lparr>ev_event := ''auth_rate_limited'', ev_timestamp := now,
                          ev_actor_type := scope, ev_actor_id := key\<rparr>) d
                 in (Some (write_mapped_error ErrRateLimited ''too many auth attempts''), d))"

definition record_auth_failure ::
  "'e outside \<Rightarrow> http_request \<Rightarrow> string \<Rightarrow> string \<Rightarrow> 'e daemon \<Rightarrow> 'e daemon" where
  "record_auth_failure od rq scope reason d =
     (case dm_limiter d of
        None \<Rightarrow> d
      | Some l \<Rightarrow>
          let key = limiter_key (rq_remote_addr rq) scope;
              (now, d) = on_env (od_now od) d;
              (tripped, l) = limiter_record_failure key now l;
              d = d\<lparr>dm_limiter := Some l\<rparr>
          in if tripped then
               (let (now, d) = on_env (od_now od) d
                in snd (daemon_audit od
                  (zero_event\<lparr>ev_event := ''auth_rate_limit_threshold'', ev_timestamp := now,
                     ev_actor_type := scope, ev_actor_id := key,
                     ev_metadata := [(''reason'', reason)]\<rparr>) d))
             else d)"

section \<open>Who is asking\<close>

text \<open>An actor is the pair \<open>withActor\<close> puts into the context of a request.\<close>

type_synonym actor = "string \<times> string"

definition bearer_token :: "http_request \<Rightarrow> string" where
  "bearer_token rq =
     (let h = trim_space (rq_authorization rq); p = ''Bearer '' in
      if h = '''' then ''''
      else if has_prefix h p then trim_space (drop (length p) h)
      else '''')"

definition refuse_auth ::
  "'e outside \<Rightarrow> http_request \<Rightarrow> string \<Rightarrow> string \<Rightarrow> string \<Rightarrow> 'e daemon \<Rightarrow>
   (http_response + actor) \<times> 'e daemon"
where
  "refuse_auth od rq scope reason msg d =
     (Inl (write_mapped_error ErrUnauthorized msg), record_auth_failure od rq scope reason d)"

definition require_operator ::
  "server_config \<Rightarrow> 'e outside \<Rightarrow> http_request \<Rightarrow> 'e daemon \<Rightarrow> (http_response + actor) \<times> 'e daemon"
where
  "require_operator cfg od rq d =
     (if \<not> sc_auth_enabled cfg then (Inr (''operator'', ''local-operator''), d)
      else case enforce_auth_rate_limit od rq ''operator'' d of
        (Some limited, d) \<Rightarrow> (Inl limited, d)
      | (None, d) \<Rightarrow>
          let tok = bearer_token rq; expected = sc_operator_tok cfg in
          if tok = '''' \<or> tok \<noteq> expected
          then refuse_auth od rq ''operator'' ''invalid_operator_token'' ''operator auth required'' d
          else (Inr (''operator'', ''token-operator''), d))"

definition validate_grant_active ::
  "'e outside \<Rightarrow> pairing_grant \<Rightarrow> 'e daemon \<Rightarrow> gerror option \<times> 'e daemon" where
  "validate_grant_active od g d =
     (let (n, d) = on_env (od_now od) d in
      if pg_revoked g then (Some (Plain ''grant revoked''), d)
      else if \<not> n < pg_idle_expires_at g then (Some (Plain ''grant idle expired''), d)
      else if \<not> n < pg_absolute_expires_at g then (Some (Plain ''grant absolute expired''), d)
      else (None, d))"

definition require_agent_session ::
  "server_config \<Rightarrow> 'e outside \<Rightarrow> http_request \<Rightarrow> 'e daemon \<Rightarrow> (http_response + actor) \<times> 'e daemon"
where
  "require_agent_session cfg od rq d =
     (if \<not> sc_auth_enabled cfg then (Inr (''agent'', ''unauth-agent''), d)
      else case enforce_auth_rate_limit od rq ''agent'' d of
        (Some limited, d) \<Rightarrow> (Inl limited, d)
      | (None, d) \<Rightarrow>
          let tok = bearer_token rq in
          if tok = ''''
          then refuse_auth od rq ''agent'' ''missing_session_token'' ''agent session token required'' d
          else let (now, d) = on_env (od_now od) d in
          (case validate_session tok now (dm_auth d) of
             Inl _ \<Rightarrow> refuse_auth od rq ''agent'' ''invalid_session_token'' ''invalid session'' d
           | Inr sess \<Rightarrow>
               (case get_grant (st_grant_id sess) (dm_auth d) of
                  Inl _ \<Rightarrow> refuse_auth od rq ''agent'' ''invalid_grant'' ''invalid grant'' d
                | Inr g \<Rightarrow>
                    (case validate_grant_active od g d of
                       (Some e, d) \<Rightarrow> refuse_auth od rq ''agent'' ''inactive_grant'' (err_msg e) d
                     | (None, d) \<Rightarrow> (Inr (''agent'', st_agent_id sess), d)))))"

definition require_durability_ready :: "'e daemon \<Rightarrow> http_response option" where
  "require_durability_ready d =
     (case durability_error d of
        None \<Rightarrow> None
      | Some _ \<Rightarrow> Some (write_mapped_error ErrServiceUnavailable durability_unavailable_message))"

end
