(* ===== verification/Handlers.thy ===== *)
theory Handlers
  imports Http
begin

text \<open>
  The handlers of requests, leases and credentials (\<open>lease_handlers.go\<close>,
  \<open>cancel_handler.go\<close>, \<open>deny_handler.go\<close>, \<open>pending_handler.go\<close>,
  \<open>lease_query_handler.go\<close>, \<open>intent_handler.go\<close>, \<open>meta_handler.go\<close>,
  \<open>auth_handlers.go\<close>). Each takes the request, the body where it reads one, and the state.
\<close>

definition method_not_allowed :: http_response where
  "method_not_allowed = write_mapped_error ErrMethodNotAllowed ''method not allowed''"

definition bad_request :: "string \<Rightarrow> http_response" where
  "bad_request msg = write_mapped_error ErrBadRequest msg"

text \<open>
  The opening most handlers share: the caller is identified, then the method is checked, then
  the durability gate. What follows is the handler's own.
\<close>

definition checked_method ::
  "(http_response + actor) \<times> 'e daemon \<Rightarrow> http_request \<Rightarrow> string \<Rightarrow>
   (actor \<Rightarrow> 'e daemon \<Rightarrow> http_response \<times> 'e daemon) \<Rightarrow> http_response \<times> 'e daemon"
where
  "checked_method who rq wanted answer =
     (case who of
        (Inl refused, d) \<Rightarrow> (refused, d)
      | (Inr actor, d) \<Rightarrow>
          if rq_method rq \<noteq> wanted then (method_not_allowed, d) else answer actor d)"

definition when_durable ::
  "('e daemon \<Rightarrow> http_response \<times> 'e daemon) \<Rightarrow> 'e daemon \<Rightarrow> http_response \<times> 'e daemon"
where
  "when_durable answer d =
     (case require_durability_ready d of
        Some closed \<Rightarrow> (closed, d)
      | None \<Rightarrow> answer d)"

text \<open>The agent a service call is made for: nobody in particular when auth is disabled.\<close>

definition calling_agent :: "server_config \<Rightarrow> actor \<Rightarrow> string" where
  "calling_agent cfg actor = (if \<not> sc_auth_enabled cfg then '''' else snd actor)"

fun status_text :: "request_status \<Rightarrow> string" where
  "status_text RequestPending = ''pending''"
| "status_text RequestApproved = ''approved''"
| "status_text RequestDenied = ''denied''"
| "status_text (OtherStatus s) = s"

definition mapped :: "http_sentinel \<times> string \<Rightarrow> http_response" where
  "mapped km = write_mapped_error (fst km) (snd km)"

section \<open>Requests and leases\<close>

definition handle_request_status ::
  "server_config \<Rightarrow> 'e outside \<Rightarrow> http_request \<Rightarrow> 'e daemon \<Rightarrow> http_response \<times> 'e daemon" where
  "handle_request_status cfg od rq d =
     checked_method (require_agent_session cfg od rq d) rq ''GET'' (\<lambda>actor. when_durable (\<lambda>d.
       let request_id = rq_request_id rq in
       if request_id = '''' then (bad_request ''request_id required'', d)
       else case request_status_by_agent (daemon_service cfg od) request_id (calling_agent cfg actor) d of
         (Inl e, d) \<Rightarrow> (mapped (state_store_read_error e), d)
       | (Inr req, d) \<Rightarrow>
           (write_json [(''request_id'', JString (req_id req)),
              (''status'', JString (status_text (req_status req)))], d)))"

record lease_body =
  lb_agent_id :: string
  lb_task_id :: string
  lb_intent :: string
  lb_reason :: string
  lb_ttl_minutes :: int
  lb_secrets :: "string list"
  lb_command_fingerprint :: string
  lb_workdir_fingerprint :: string
  lb_command_summary :: string
  lb_workdir_summary :: string
  lb_env_path :: string

definition request_failure :: "gerror \<Rightarrow> http_response" where
  "request_failure e =
     (case as_throttle_error e of
        Some (reason, retry_after) \<Rightarrow>
          (write_mapped_error ErrRateLimited (throttle_message reason retry_after))
            \<lparr>rs_retry_after := Some (throttle_retry_after_seconds retry_after)\<rparr>
      | None \<Rightarrow>
          if err_is e (App ErrSecretBackendUnavailable)
          then write_mapped_error ErrServiceUnavailable secret_backend_unavailable_message
          else mapped (state_store_mutation_error e))"

text \<open>The pointers of \<open>RequestLeaseResult\<close> are set as \<open>Reused\<close> says, so no case is missing.\<close>

definition request_success :: "request_lease_result \<Rightarrow> http_response" where
  "request_success result =
     (case (res_reused result, res_lease result, res_request result) of
        (True, Some l, _) \<Rightarrow>
          write_json [(''request_id'', JString (lease_request_id l)), (''status'', JString ''reused''),
            (''lease_token'', JString (lease_token l)), (''expires_at'', JTime (lease_expires_at l))]
      | (_, _, Some req) \<Rightarrow>
          write_json [(''request_id'', JString (req_id req)),
            (''status'', JString (status_text (req_status req)))]
      | _ \<Rightarrow> write_mapped_error ErrInternal '''')"

definition handle_request ::
  "server_config \<Rightarrow> 'e outside \<Rightarrow> http_request \<Rightarrow> lease_body http_body \<Rightarrow> 'e daemon \<Rightarrow>
   http_response \<times> 'e daemon" where
  "handle_request cfg od rq body d =
     checked_method (require_agent_session cfg od rq d) rq ''POST'' (\<lambda>actor. when_durable (\<lambda>d.
       case decode_body body of
         Inl e \<Rightarrow> (bad_request (err_msg e), d)
       | Inr req \<Rightarrow>
           let ttl = (if lb_ttl_minutes req = 0 then default_ttl_minutes (sc_policy cfg)
                      else lb_ttl_minutes req);
               command_fp = trim_space (lb_command_fingerprint req);
               workdir_fp = trim_space (lb_workdir_fingerprint req);
               env_path = trim_space (lb_env_path req);
               agent = trim_space (lb_agent_id req)
           in
           if command_fp = '''' then (bad_request ''command_fingerprint required'', d)
           else if workdir_fp = '''' then (bad_request ''workdir_fingerprint required'', d)
           else if sc_auth_enabled cfg \<and> agent \<noteq> '''' \<and> agent \<noteq> snd actor
           then (write_mapped_error ErrForbidden ''agent_id does not match authenticated session'', d)
           else
             let agent = (if sc_auth_enabled cfg then snd actor else agent) in
             case request_lease_with_policy_and_intent_and_summary (daemon_service cfg od) agent
                    (lb_task_id req) (lb_reason req) ttl (lb_secrets req) (lb_intent req)
                    command_fp workdir_fp env_path (lb_command_summary req)
                    (lb_workdir_summary req) d of
               (Inl e, d) \<Rightarrow> (request_failure e, d)
             | (Inr result, d) \<Rightarrow> (request_success result, d)))"

definition handle_approve ::
  "server_config \<Rightarrow> 'e outside \<Rightarrow> http_request \<Rightarrow> int http_body \<Rightarrow> 'e daemon \<Rightarrow>
   http_response \<times> 'e daemon" where
  "handle_approve cfg od rq body d =
     checked_method (require_operator cfg od rq d) rq ''POST'' (\<lambda>actor. when_durable (\<lambda>d.
       let request_id = rq_request_id rq in
       if request_id = '''' then (bad_request ''request_id required'', d)
       else case decode_optional_json_body 0 body of
         Inl e \<Rightarrow> (bad_request (err_msg e), d)
       | Inr ttl_minutes \<Rightarrow>
           (case approve_request_with_actor (daemon_service cfg od) request_id ttl_minutes
                   (fst actor) (snd actor) d of
              (Inl e, d) \<Rightarrow> (mapped (state_store_mutation_error e), d)
            | (Inr l, d) \<Rightarrow>
                (write_json [(''status'', JString ''approved''),
                   (''lease_token'', JString (lease_token l)),
                   (''expires_at'', JTime (lease_expires_at l))], d))))"

record access_body =
  ab_lease_token :: string
  ab_secret :: string
  ab_command_fingerprint :: string
  ab_workdir_fingerprint :: string

definition handle_access ::
  "server_config \<Rightarrow> 'e outside \<Rightarrow> http_request \<Rightarrow> access_body http_body \<Rightarrow> 'e daemon \<Rightarrow>
   http_response \<times> 'e daemon" where
  "handle_access cfg od rq body d =
     checked_method (require_agent_session cfg od rq d) rq ''POST'' (\<lambda>actor. when_durable (\<lambda>d.
       case reject_plaintext_secret_access (daemon_service cfg od) (fst actor) (snd actor) d of
         (Some e, d) \<Rightarrow>
           if err_is e (App ErrPlaintextSecretReturnDisabled)
           then (write_mapped_error ErrForbidden (err_msg e), d)
           else (write_mapped_error ErrServiceUnavailable durability_unavailable_message, d)
       | (None, d) \<Rightarrow>
           (case decode_body body of
              Inl e \<Rightarrow> (bad_request (err_msg e), d)
            | Inr req \<Rightarrow>
                (case access_secret_by_agent (daemon_service cfg od) (calling_agent cfg actor)
                        (ab_lease_token req) (ab_secret req) (ab_command_fingerprint req)
                        (ab_workdir_fingerprint req) d of
                   (Inl e, d) \<Rightarrow> (mapped (state_store_access_error e), d)
                 | (Inr v, d) \<Rightarrow>
                     (write_json [(''secret'', JString (ab_secret req)), (''value'', JString v)], d)))))"

definition handle_cancel ::
  "server_config \<Rightarrow> 'e outside \<Rightarrow> http_request \<Rightarrow> string http_body \<Rightarrow> 'e daemon \<Rightarrow>
   http_response \<times> 'e daemon" where
  "handle_cancel cfg od rq body d =
     checked_method (require_agent_session cfg od rq d) rq ''POST'' (\<lambda>actor. when_durable (\<lambda>d.
       let request_id = rq_request_id rq in
       if request_id = '''' then (bad_request ''request_id required'', d)
       else case decode_optional_json_body '''' body of
         Inl e \<Rightarrow> (bad_request (err_msg e), d)
       | Inr given \<Rightarrow>
           let reason = (if trim_space given = '''' then ''agent requested cancellation''
                         else trim_space given)
           in (case cancel_request_by_agent (daemon_service cfg od) request_id
                      (calling_agent cfg actor) reason d of
                 (Inl e, d) \<Rightarrow> (mapped (state_store_cancel_mutation_error e), d)
               | (Inr req, d) \<Rightarrow>
                   (write_json [(''request_id'', JString (req_id req)),
                      (''status'', JString (status_text (req_status req)))], d))))"

definition handle_deny ::
  "server_config \<Rightarrow> 'e outside \<Rightarrow> http_request \<Rightarrow> string http_body \<Rightarrow> 'e daemon \<Rightarrow>
   http_response \<times> 'e daemon" where
  "handle_deny cfg od rq body d =
     checked_method (require_operator cfg od rq d) rq ''POST'' (\<lambda>actor. when_durable (\<lambda>d.
       let request_id = rq_request_id rq in
       if request_id = '''' then (bad_request ''request_id required'', d)
       else case decode_optional_json_body '''' body of
         Inl e \<Rightarrow> (bad_request (err_msg e), d)
       | Inr reason \<Rightarrow>
           (case deny_request_with_actor (daemon_service cfg od) request_id reason (fst actor)
                   (snd actor) d of
              (Inl e, d) \<Rightarrow> (mapped (state_store_mutation_error e), d)
            | (Inr req, d) \<Rightarrow>
                (write_json [(''request_id'', JString (req_id req)),
                   (''status'', JString (status_text (req_status req)))], d))))"

definition handle_pending_requests ::
  "server_config \<Rightarrow> 'e outside \<Rightarrow> http_request \<Rightarrow> 'e daemon \<Rightarrow> http_response \<times> 'e daemon" where
  "handle_pending_requests cfg od rq d =
     checked_method (require_operator cfg od rq d) rq ''GET'' (\<lambda>_. when_durable (\<lambda>d.
       case list_pending_requests_of (daemon_service cfg od) d of
         (Inl e, d) \<Rightarrow> (mapped (state_store_list_error e), d)
       | (Inr items, d) \<Rightarrow> (write_json [(''pending'', JRequests items)], d)))"

definition handle_lease_by_request ::
  "server_config \<Rightarrow> 'e outside \<Rightarrow> http_request \<Rightarrow> 'e daemon \<Rightarrow> http_response \<times> 'e daemon" where
  "handle_lease_by_request cfg od rq d =
     checked_method (require_agent_session cfg od rq d) rq ''GET'' (\<lambda>actor. when_durable (\<lambda>d.
       let request_id = rq_request_id rq in
       if request_id = '''' then (bad_request ''request_id required'', d)
       else case lease_by_request_for_agent (daemon_service cfg od) request_id
                   (calling_agent cfg actor) d of
         (Inl e, d) \<Rightarrow> (mapped (state_store_read_error e), d)
       | (Inr l, d) \<Rightarrow>
           (write_json [(''lease_token'', JString (lease_token l)),
              (''expires_at'', JTime (lease_expires_at l))], d)))"

text \<open>Intents are configured: neither the gate nor the store is asked.\<close>

definition handle_resolve_intent ::
  "server_config \<Rightarrow> 'e outside \<Rightarrow> http_request \<Rightarrow> string http_body \<Rightarrow> 'e daemon \<Rightarrow>
   http_response \<times> 'e daemon" where
  "handle_resolve_intent cfg od rq body d =
     checked_method (require_agent_session cfg od rq d) rq ''POST'' (\<lambda>_ d.
       case decode_body body of
         Inl e \<Rightarrow> (bad_request (err_msg e), d)
       | Inr intent \<Rightarrow>
           (case go_get (sc_intents cfg) intent of
              Some (secret # secrets) \<Rightarrow>
                (write_json [(''intent'', JString intent), (''secrets'', JStrings (secret # secrets))], d)
            | _ \<Rightarrow> (write_mapped_error ErrNotFound ''unknown intent'', d)))"

section \<open>Capabilities\<close>

record server_meta =
  mt_insecure_dev_mode :: bool
  mt_unix_socket_configured :: bool
  mt_env_path_enabled :: bool
  mt_agent_bridge_address :: string

definition handle_meta_capabilities ::
  "server_config \<Rightarrow> server_meta \<Rightarrow> http_request \<Rightarrow> http_response" where
  "handle_meta_capabilities cfg mt rq =
     (if rq_method rq \<noteq> ''GET'' then method_not_allowed
      else write_json
        ([(''auth_enabled'', JBool (sc_auth_enabled cfg)),
          (''allow_plaintext_secret_return'', JBool (sc_allow_plaintext_secret_return cfg)),
          (''insecure_dev_mode'', JBool (mt_insecure_dev_mode mt \<or>
             \<not> sc_auth_enabled cfg \<and> sc_allow_plaintext_secret_return cfg)),
          (''transport_unix_socket_configured'', JBool (mt_unix_socket_configured mt)),
          (''env_path_enabled'', JBool (mt_env_path_enabled mt))] @
         (if mt_agent_bridge_address mt \<noteq> ''''
          then [(''agent_bridge_address'', JString (mt_agent_bridge_address mt))] else [])))"

section \<open>Credentials\<close>

definition when_auth_enabled ::
  "server_config \<Rightarrow> ('e daemon \<Rightarrow> http_response \<times> 'e daemon) \<Rightarrow> 'e daemon \<Rightarrow>
   http_response \<times> 'e daemon" where
  "when_auth_enabled cfg answer d =
     (if \<not> sc_auth_enabled cfg then (bad_request ''auth disabled'', d) else when_durable answer d)"

definition auth_unavailable :: http_response where
  "auth_unavailable = write_mapped_error ErrServiceUnavailable durability_unavailable_message"

record bootstrap_create_body =
  bc_agent_id :: string
  bc_container_id :: string

definition handle_auth_bootstrap_create ::
  "server_config \<Rightarrow> 'e outside \<Rightarrow> http_request \<Rightarrow> bootstrap_create_body http_body \<Rightarrow> 'e daemon \<Rightarrow>
   http_response \<times> 'e daemon" where
  "handle_auth_bootstrap_create cfg od rq body d =
     checked_method (require_operator cfg od rq d) rq ''POST'' (\<lambda>actor. when_auth_enabled cfg (\<lambda>d.
       case decode_body body of
         Inl e \<Rightarrow> (bad_request (err_msg e), d)
       | Inr req \<Rightarrow>
           (case create_bootstrap (auth_lifecycle_svc cfg od) (bc_agent_id req)
                   (bc_container_id req) (fst actor) (snd actor) d of
              (Inl e, d) \<Rightarrow>
                (if gate_error e then (auth_unavailable, d) else (bad_request (err_msg e), d))
            | (Inr t, d) \<Rightarrow>
                (write_json [(''bootstrap_token'', JString (bt_token t)),
                   (''expires_at'', JTime (bt_expires_at t))], d))))"

text \<open>Pairing and minting are open to everybody, so they are limited by remote address.\<close>

definition limited_post ::
  "server_config \<Rightarrow> 'e outside \<Rightarrow> http_request \<Rightarrow> string \<Rightarrow>
   ('e daemon \<Rightarrow> http_response \<times> 'e daemon) \<Rightarrow> 'e daemon \<Rightarrow> http_response \<times> 'e daemon" where
  "limited_post cfg od rq scope answer d =
     (if rq_method rq \<noteq> ''POST'' then (method_not_allowed, d)
      else case enforce_auth_rate_limit od rq scope d of
        (Some limited, d) \<Rightarrow> (limited, d)
      | (None, d) \<Rightarrow> when_auth_enabled cfg answer d)"

record bootstrap_consume_body =
  bu_token :: string
  bu_container_id :: string

definition handle_auth_pair_complete ::
  "server_config \<Rightarrow> 'e outside \<Rightarrow> http_request \<Rightarrow> bootstrap_consume_body http_body \<Rightarrow> 'e daemon \<Rightarrow>
   http_response \<times> 'e daemon" where
  "handle_auth_pair_complete cfg od rq body =
     limited_post cfg od rq ''auth_pair_complete'' (\<lambda>d.
       case decode_body body of
         Inl e \<Rightarrow> (bad_request (err_msg e), d)
       | Inr req \<Rightarrow>
           (case complete_pairing (auth_lifecycle_svc cfg od) (bu_token req) (bu_container_id req) d of
              (Inl e, d) \<Rightarrow>
                if gate_error e then (auth_unavailable, d)
                else
                  let d = record_auth_failure od rq ''auth_pair_complete'' (err_msg e) d in
                  if err_msg e = ''token and container_id are required''
                  then (bad_request (err_msg e), d)
                  else (write_mapped_error ErrForbidden (err_msg e), d)
            | (Inr g, d) \<Rightarrow>
                (write_json [(''grant_id'', JString (pg_grant_id g)),
                   (''idle_expires_at'', JTime (pg_idle_expires_at g)),
                   (''absolute_expires_at'', JTime (pg_absolute_expires_at g))], d)))"

definition handle_auth_session_mint ::
  "server_config \<Rightarrow> 'e outside \<Rightarrow> http_request \<Rightarrow> string http_body \<Rightarrow> 'e daemon \<Rightarrow>
   http_response \<times> 'e daemon" where
  "handle_auth_session_mint cfg od rq body =
     limited_post cfg od rq ''auth_session_mint'' (\<lambda>d.
       case decode_body body of
         Inl e \<Rightarrow> (bad_request (err_msg e), d)
       | Inr grant_id \<Rightarrow>
           (case mint_session (auth_lifecycle_svc cfg od) grant_id d of
              (Inl e, d) \<Rightarrow>
                if gate_error e then (auth_unavailable, d)
                else
                  let d = record_auth_failure od rq ''auth_session_mint'' (err_msg e) d in
                  if err_msg e = ''grant not found''
                  then (write_mapped_error ErrNotFound (err_msg e), d)
                  else if err_msg e = ''grant expired or revoked''
                  then (write_mapped_error ErrForbidden (err_msg e), d)
                  else (bad_request (err_msg e), d)
            | (Inr st, d) \<Rightarrow>
                (write_json [(''session_token'', JString (st_token st)),
                   (''expires_at'', JTime (st_expires_at st))], d)))"

record revoke_body =
  rv_grant_id :: string
  rv_session_token :: string
  rv_session_id :: string

definition handle_auth_revoke ::
  "server_config \<Rightarrow> 'e outside \<Rightarrow> http_request \<Rightarrow> revoke_body http_body \<Rightarrow> 'e daemon \<Rightarrow>
   http_response \<times> 'e daemon" where
  "handle_auth_revoke cfg od rq body d =
     checked_method (require_operator cfg od rq d) rq ''POST'' (\<lambda>actor. when_auth_enabled cfg (\<lambda>d.
       case decode_body body of
         Inl e \<Rightarrow> (bad_request (err_msg e), d)
       | Inr req \<Rightarrow>
           let session_token = (if rv_session_token req = '''' then rv_session_id req
                                else rv_session_token req)
           in (case revoke_auth (auth_lifecycle_svc cfg od) (rv_grant_id req) session_token
                      (fst actor) (snd actor) d of
                 (Some e, d) \<Rightarrow>
                   if gate_error e then (auth_unavailable, d)
                   else if err_msg e = ''grant_id or session_token is required''
                   then (bad_request (err_msg e), d)
                   else (write_mapped_error ErrNotFound (err_msg e), d)
               | (None, d) \<Rightarrow> (write_json [(''status'', JString ''revoked'')], d))))"

end
