(* ===== verification/NetAddr.thy ===== *)
theory NetAddr
  imports Errors
begin

text \<open>
  What the broker uses of Go's packages \<open>net\<close> and \<open>net/url\<close>: \<open>net.ParseIP\<close> with the
  classification of addresses, and the host name of a parsed URL, with the rules of the version
  of Go the module names (a host in brackets is an IPv6 address, a host without brackets has at
  most one colon).
\<close>

section \<open>IP addresses\<close>

definition dec_digit :: "char \<Rightarrow> bool" where
  "dec_digit c \<longleftrightarrow> 48 \<le> byte c \<and> byte c \<le> 57"

definition decimal_value :: "string \<Rightarrow> nat" where
  "decimal_value s = foldl (\<lambda>n c. 10 * n + (byte c - 48)) 0 s"

text \<open>One field of a dotted address: no leading zero, at most 255.\<close>

definition ipv4_field :: "string \<Rightarrow> nat option" where
  "ipv4_field s =
     (if s = '''' \<or> \<not> list_all dec_digit s \<or> length s > 3 \<or> (length s > 1 \<and> hd s = CHR ''0'') then None
      else if decimal_value s > 255 then None else Some (decimal_value s))"

definition parse_ipv4 :: "string \<Rightarrow> nat list option" where
  "parse_ipv4 s =
     (let fields = map ipv4_field (split_char (CHR ''.'') s) in
      if length fields = 4 \<and> None \<notin> set fields then Some (map the fields) else None)"

definition hex_value :: "char \<Rightarrow> nat option" where
  "hex_value c =
     (let b = byte c in
      if 48 \<le> b \<and> b \<le> 57 then Some (b - 48)
      else if 97 \<le> b \<and> b \<le> 102 then Some (b - 87)
      else if 65 \<le> b \<and> b \<le> 70 then Some (b - 55)
      else None)"

definition hex_group :: "string \<Rightarrow> nat" where
  "hex_group s = foldl (\<lambda>n c. 16 * n + (case hex_value c of None \<Rightarrow> 0 | Some v \<Rightarrow> v)) 0 s"

text \<open>
  The groups of an IPv6 address, with the bytes read so far and the place of the ellipsis; every
  group takes at least one character, so the length of the text is enough fuel.
\<close>

fun ipv6_groups :: "nat \<Rightarrow> string \<Rightarrow> nat list \<Rightarrow> nat option \<Rightarrow> (string \<times> nat list \<times> nat option) option" where
  "ipv6_groups 0 s ip ellipsis = None"
| "ipv6_groups (Suc fuel) s ip ellipsis =
     (if length ip \<ge> 16 then Some (s, ip, ellipsis)
      else
        let h = takeWhile (\<lambda>c. hex_value c \<noteq> None) s; r = drop (length h) s in
        if h = '''' \<or> length h > 4 then None
        else case r of
          [] \<Rightarrow> Some ('''', ip @ [hex_group h div 256, hex_group h mod 256], ellipsis)
        | c # r' \<Rightarrow>
            if c = CHR ''.'' then
              (if (ellipsis = None \<and> length ip \<noteq> 12) \<or> length ip + 4 > 16 then None
               else case parse_ipv4 s of None \<Rightarrow> None | Some v4 \<Rightarrow> Some ('''', ip @ v4, ellipsis))
            else
              let ip = ip @ [hex_group h div 256, hex_group h mod 256] in
              if c \<noteq> CHR '':'' \<or> r' = '''' then None
              else if hd r' = CHR '':'' then
                (if ellipsis \<noteq> None then None
                 else if tl r' = '''' then Some ('''', ip, Some (length ip))
                 else ipv6_groups fuel (tl r') ip (Some (length ip)))
              else ipv6_groups fuel r' ip ellipsis)"

definition parse_ipv6 :: "string \<Rightarrow> nat list option" where
  "parse_ipv6 s =
     (let leading = has_prefix s ''::''; s = (if leading then drop 2 s else s) in
      if leading \<and> s = '''' then Some (replicate 16 0)
      else case ipv6_groups (Suc (length s)) s [] (if leading then Some 0 else None) of
        None \<Rightarrow> None
      | Some (rest, ip, ellipsis) \<Rightarrow>
          if rest \<noteq> '''' then None
          else (case ellipsis of
             None \<Rightarrow> if length ip < 16 then None else Some ip
           | Some n \<Rightarrow>
               if length ip < 16 then Some (take n ip @ replicate (16 - length ip) 0 @ drop n ip)
               else None))"

datatype ip_addr = V4 "nat list" | V6 "nat list"

text \<open>\<open>netip.ParseAddr\<close> of a text without a zone; \<open>net.ParseIP\<close> refuses zones.\<close>

definition parse_addr :: "string \<Rightarrow> ip_addr option" where
  "parse_addr s =
     (case filter (\<lambda>c. c \<in> {CHR ''.'', CHR '':'', CHR ''%''}) s of
        [] \<Rightarrow> None
      | c # _ \<Rightarrow>
          if c = CHR ''.'' then map_option V4 (parse_ipv4 s)
          else if c = CHR '':'' \<and> CHR ''%'' \<notin> set s then map_option V6 (parse_ipv6 s)
          else None)"

text \<open>\<open>IP.To4\<close>: an IPv4 address, also in its form inside IPv6.\<close>

definition ip_to4 :: "ip_addr \<Rightarrow> nat list option" where
  "ip_to4 ip =
     (case ip of
        V4 b \<Rightarrow> Some b
      | V6 b \<Rightarrow> if take 12 b = replicate 10 0 @ [255, 255] then Some (drop 12 b) else None)"

definition ip_bytes :: "ip_addr \<Rightarrow> nat list" where
  "ip_bytes ip = (case ip of V4 b \<Rightarrow> replicate 10 0 @ [255, 255] @ b | V6 b \<Rightarrow> b)"

definition ip_is_loopback :: "ip_addr \<Rightarrow> bool" where
  "ip_is_loopback ip \<longleftrightarrow>
     (case ip_to4 ip of
        Some b \<Rightarrow> b ! 0 = 127
      | None \<Rightarrow> ip_bytes ip = replicate 15 0 @ [1])"

definition ip_is_private :: "ip_addr \<Rightarrow> bool" where
  "ip_is_private ip \<longleftrightarrow>
     (case ip_to4 ip of
        Some b \<Rightarrow> b ! 0 = 10 \<or> (b ! 0 = 172 \<and> and (b ! 1) 0xF0 = 16) \<or> (b ! 0 = 192 \<and> b ! 1 = 168)
      | None \<Rightarrow> and (ip_bytes ip ! 0) 0xFE = 0xFC)"

definition ip_is_link_local_unicast :: "ip_addr \<Rightarrow> bool" where
  "ip_is_link_local_unicast ip \<longleftrightarrow>
     (case ip_to4 ip of
        Some b \<Rightarrow> b ! 0 = 169 \<and> b ! 1 = 254
      | None \<Rightarrow> ip_bytes ip ! 0 = 0xFE \<and> and (ip_bytes ip ! 1) 0xC0 = 0x80)"

definition ip_is_link_local_multicast :: "ip_addr \<Rightarrow> bool" where
  "ip_is_link_local_multicast ip \<longleftrightarrow>
     (case ip_to4 ip of
        Some b \<Rightarrow> b ! 0 = 224 \<and> b ! 1 = 0 \<and> b ! 2 = 0
      | None \<Rightarrow> ip_bytes ip ! 0 = 0xFF \<and> and (ip_bytes ip ! 1) 0x0F = 0x02)"

section \<open>URLs\<close>

definition alpha :: "char \<Rightarrow> bool" where
  "alpha c \<longleftrightarrow> (97 \<le> byte c \<and> byte c \<le> 122) \<or> (65 \<le> byte c \<and> byte c \<le> 90)"

text \<open>\<open>getScheme\<close>: the scheme and what follows, or no scheme; \<open>None\<close> for an error.\<close>

fun scheme_loop :: "string \<Rightarrow> string \<Rightarrow> string \<Rightarrow> (string \<times> string) option" where
  "scheme_loop url seen [] = Some ('''', url)"
| "scheme_loop url seen (c # cs) =
     (if alpha c then scheme_loop url (seen @ [c]) cs
      else if dec_digit c \<or> c \<in> {CHR ''+'', CHR ''-'', CHR ''.''} then
        (if seen = '''' then Some ('''', url) else scheme_loop url (seen @ [c]) cs)
      else if c = CHR '':'' then (if seen = '''' then None else Some (seen, cs))
      else Some ('''', url))"

text \<open>
  \<open>unescape\<close>: every \<open>%\<close> introduces two hex digits. In a host only a byte outside of ASCII, or
  \<open>%25\<close>, may be written so, and a plain byte has to be one a host may hold.
\<close>

definition host_char :: "char \<Rightarrow> bool" where
  "host_char c \<longleftrightarrow> alpha c \<or> dec_digit c \<or> 128 \<le> byte c \<or>
     c \<in> set ''-_.~!$&()*+,;=:[]<>'' \<or> c \<in> {CHR 0x22, CHR 0x27}"

fun unescape :: "bool \<Rightarrow> string \<Rightarrow> string option" where
  "unescape in_host [] = Some ''''"
| "unescape in_host (c # cs) =
     (if c = CHR ''%'' then
        (case cs of
           a # b # r \<Rightarrow>
             (case (hex_value a, hex_value b) of
                (Some x, Some y) \<Rightarrow>
                  if in_host \<and> x < 8 \<and> (a, b) \<noteq> (CHR ''2'', CHR ''5'') then None
                  else map_option ((#) (char_of (16 * x + y))) (unescape in_host r)
              | _ \<Rightarrow> None)
         | _ \<Rightarrow> None)
      else if in_host \<and> \<not> host_char c then None
      else map_option ((#) c) (unescape in_host cs))"

definition valid_optional_port :: "string \<Rightarrow> bool" where
  "valid_optional_port s \<longleftrightarrow> s = '''' \<or> (hd s = CHR '':'' \<and> list_all dec_digit (tl s))"

definition before_last :: "char \<Rightarrow> string \<Rightarrow> (string \<times> string) option" where
  "before_last c s =
     (if c \<in> set s
      then Some (rev (tl (dropWhile (\<lambda>x. x \<noteq> c) (rev s))), rev (takeWhile (\<lambda>x. x \<noteq> c) (rev s)))
      else None)"

text \<open>The zone of an IPv6 address follows \<open>%25\<close>.\<close>

fun cut_zone :: "string \<Rightarrow> string \<times> string" where
  "cut_zone [] = ([], [])"
| "cut_zone (c # cs) =
     (if has_prefix (c # cs) ''%25'' then ([], c # cs)
      else case cut_zone cs of (a, z) \<Rightarrow> (c # a, z))"

text \<open>\<open>parseHost\<close>, and of its result the host name: without port and brackets.\<close>

definition parse_host_name :: "string \<Rightarrow> string option" where
  "parse_host_name host =
     (if CHR ''['' \<in> set host then
        (if hd host \<noteq> CHR ''['' then None
         else case before_last (CHR '']'') (tl host) of
           None \<Rightarrow> None
         | Some (literal, colon_port) \<Rightarrow>
             if \<not> valid_optional_port colon_port then None
             else case cut_zone literal of (addr, zone) \<Rightarrow>
               (case (unescape True addr, if zone = '''' then Some '''' else unescape False zone) of
                  (Some a, Some z) \<Rightarrow>
                    (case (parse_addr a, z) of
                       (Some (V6 _), []) \<Rightarrow> Some a
                     | (Some (V6 _), _ # _ # _) \<Rightarrow> Some (a @ z)
                     | _ \<Rightarrow> None)
                | _ \<Rightarrow> None))
      else
        let name = takeWhile (\<lambda>c. c \<noteq> CHR '':'') host; colon_port = drop (length name) host in
        if \<not> valid_optional_port colon_port then None else unescape True name)"

definition userinfo_char :: "char \<Rightarrow> bool" where
  "userinfo_char c \<longleftrightarrow> alpha c \<or> dec_digit c \<or> c \<in> set ''-._:~!$&()*+,;=%@'' \<or> c = CHR 0x27"

text \<open>\<open>url.Parse(s)\<close> and then \<open>Hostname()\<close>; \<open>None\<close> for an error.\<close>

definition url_hostname :: "string \<Rightarrow> string option" where
  "url_hostname raw =
     (let (u, frag, _) = cut raw (CHR ''#'') in
      if list_ex (\<lambda>c. byte c < 32 \<or> byte c = 127) u \<or> unescape False frag = None then None
      else if u = ''*'' then Some ''''
      else case scheme_loop u '''' u of
        None \<Rightarrow> None
      | Some (scheme, rest) \<Rightarrow>
          let (rest, _, _) = cut rest (CHR ''?'') in
          if \<not> has_prefix rest ''/'' \<and> scheme \<noteq> '''' then Some ''''
          else if \<not> has_prefix rest ''/'' \<and> CHR '':'' \<in> set (takeWhile (\<lambda>c. c \<noteq> CHR ''/'') rest)
          then None
          else if has_prefix rest ''//'' \<and> (scheme \<noteq> '''' \<or> \<not> has_prefix rest ''///'') then
            let authority = takeWhile (\<lambda>c. c \<noteq> CHR ''/'') (drop 2 rest);
                path = drop (length authority + 2) rest;
                (userinfo, host) = (case before_last (CHR ''@'') authority of
                    None \<Rightarrow> ('''', authority) | Some (user, h) \<Rightarrow> (user, h))
            in if \<not> list_all userinfo_char userinfo \<or> unescape False userinfo = None \<or>
                  unescape False path = None then None
               else parse_host_name host
          else if unescape False rest = None then None else Some '''')"

end
