(* ===== verification/ProcessEnv.thy ===== *)
theory ProcessEnv
  imports Service "HOL-Library.Multiset"
begin

text \<open>
  What a brokered command is started with (\<open>internal/app/execution_process.go\<close>, on Unix): the
  environment, which carries a short list of the daemon's own variables and the leased secrets,
  and the executable, which is searched for in trusted directories.

  A Go map is walked in no fixed order: the secrets are walked in the order of the list here.
\<close>

section \<open>The environment\<close>

definition execution_baseline_env_allowlist :: "string list" where
  "execution_baseline_env_allowlist =
     [''PATH'', ''HOME'', ''TMPDIR'', ''TMP'', ''TEMP'', ''SYSTEMROOT'', ''COMSPEC'', ''PATHEXT'',
      ''USERPROFILE'']"

fun first_fold :: "string \<Rightarrow> string list \<Rightarrow> string" where
  "first_fold s [] = ''''"
| "first_fold s (a # as) = (if equal_fold s a then a else first_fold s as)"

definition canonical_execution_baseline_env_key :: "string \<Rightarrow> string" where
  "canonical_execution_baseline_env_key key =
     (let trimmed = trim_space key in
      if trimmed = '''' then '''' else first_fold trimmed execution_baseline_env_allowlist)"

fun select_baseline :: "string go_map \<Rightarrow> string list \<Rightarrow> string go_map" where
  "select_baseline selected [] = selected"
| "select_baseline selected (e # es) =
     (case cut e (CHR ''='') of
        (key, val, found) \<Rightarrow>
          if \<not> found then select_baseline selected es
          else let canonical = canonical_execution_baseline_env_key key in
            if canonical = '''' then select_baseline selected es
            else select_baseline (go_set selected canonical val) es)"

definition env_entry :: "string \<Rightarrow> string \<Rightarrow> string" where
  "env_entry key val = key @ ''='' @ val"

fun baseline_entries :: "string go_map \<Rightarrow> string list \<Rightarrow> string list" where
  "baseline_entries selected [] = []"
| "baseline_entries selected (k # ks) =
     (case go_get selected k of
        None \<Rightarrow> baseline_entries selected ks
      | Some v \<Rightarrow> env_entry k v # baseline_entries selected ks)"

fun add_leased :: "string go_map \<Rightarrow> string list \<Rightarrow> (string \<times> string) list \<Rightarrow>
    string go_map \<times> string list" where
  "add_leased selected keys [] = (selected, keys)"
| "add_leased selected keys ((name, val) # rest) =
     (let env_name = secret_env_name name in
      if env_name = '''' then add_leased selected keys rest
      else add_leased (go_set selected env_name val) (keys @ [env_name]) rest)"

definition build_execution_environment_with_path_override ::
  "string list \<Rightarrow> string go_map \<Rightarrow> string \<Rightarrow> string list" where
  "build_execution_environment_with_path_override ambient leased path_override =
     (let selected = select_baseline [] ambient;
          selected = (if trim_space path_override \<noteq> '''' then go_set selected ''PATH'' path_override
                      else selected);
          out = baseline_entries selected execution_baseline_env_allowlist;
          (selected, secret_keys) = add_leased selected [] leased
      in out @ map (\<lambda>key. env_entry key (case go_get selected key of None \<Rightarrow> '''' | Some v \<Rightarrow> v))
           (sort secret_keys))"

definition build_execution_environment :: "string list \<Rightarrow> string go_map \<Rightarrow> string list" where
  "build_execution_environment ambient leased =
     build_execution_environment_with_path_override ambient leased ''''"

section \<open>The executable\<close>

record resolved_command =
  rc_path :: string
  rc_args :: "string list"
  rc_search_path :: string

text \<open>The file system as the search sees it: what \<open>Lstat\<close> finds, and whether \<open>Stat\<close> finds a
  directory, with the permission bits.\<close>

record 'w os_files =
  of_paths :: "'w os_path"
  of_lstat :: "string \<Rightarrow> 'w \<Rightarrow> bool"
  of_stat :: "string \<Rightarrow> 'w \<Rightarrow> gerror + (bool \<times> nat)"

definition path_within_root :: "string \<Rightarrow> string \<Rightarrow> bool" where
  "path_within_root path root =
     (case path_rel root path of
        Inl _ \<Rightarrow> False
      | Inr rel \<Rightarrow> if rel = ''.'' then True else rel \<noteq> ''..'' \<and> \<not> has_prefix rel ''../'')"

fun path_within_any_root :: "string \<Rightarrow> string list \<Rightarrow> bool" where
  "path_within_any_root path [] = False"
| "path_within_any_root path (root # roots) =
     (if path_within_root path root then True else path_within_any_root path roots)"

definition contains_path_separator :: "string \<Rightarrow> bool" where
  "contains_path_separator path \<longleftrightarrow> contains path ''/'' \<or> contains path [CHR 0x5C]"

fun normalized_search_roots_loop ::
  "'w os_files \<Rightarrow> 'w \<Rightarrow> string list \<Rightarrow> string list \<Rightarrow> string list \<Rightarrow> string list" where
  "normalized_search_roots_loop os w out seen [] = out"
| "normalized_search_roots_loop os w out seen (dir # dirs) =
     (let trimmed = trim_space dir in
      if trimmed = '''' then normalized_search_roots_loop os w out seen dirs
      else case path_abs (of_paths os) trimmed w of
        Inl _ \<Rightarrow> normalized_search_roots_loop os w out seen dirs
      | Inr abs_dir \<Rightarrow>
          let resolved_dir = (case os_eval_symlinks (of_paths os) abs_dir w of
                Inl _ \<Rightarrow> abs_dir | Inr r \<Rightarrow> r);
              cleaned = path_clean resolved_dir;
              key = to_lower cleaned
          in if key \<in> set seen then normalized_search_roots_loop os w out seen dirs
             else normalized_search_roots_loop os w (out @ [cleaned]) (key # seen) dirs)"

definition normalized_search_roots :: "'w os_files \<Rightarrow> 'w \<Rightarrow> string list \<Rightarrow> string list" where
  "normalized_search_roots os w dirs = normalized_search_roots_loop os w [] [] dirs"

definition resolve_trusted_executable_path ::
  "'w os_files \<Rightarrow> 'w \<Rightarrow> string \<Rightarrow> string list \<Rightarrow> gerror + string" where
  "resolve_trusted_executable_path os w candidate allowed_roots =
     (let failed = (\<lambda>what p e. Inl (Wrapped e (what @ quote p @ '': '' @ err_msg e))) in
      case path_abs (of_paths os) candidate w of
        Inl e \<Rightarrow> failed ''resolve command path '' candidate e
      | Inr found \<Rightarrow>
          let abs_candidate = path_clean found in
          if \<not> path_within_any_root abs_candidate allowed_roots
          then Inl (Plain (''command path '' @ quote abs_candidate @
                 '' is outside execution_policy.command_search_paths''))
          else case os_eval_symlinks (of_paths os) abs_candidate w of
            Inl e \<Rightarrow> failed ''resolve command path '' candidate e
          | Inr resolved \<Rightarrow>
              let resolved_path = path_clean resolved in
              (case of_stat os resolved_path w of
                 Inl e \<Rightarrow> failed ''stat command path '' resolved_path e
               | Inr (is_dir, mode) \<Rightarrow>
                   if is_dir
                   then Inl (Plain (''command path '' @ quote resolved_path @ '' is a directory''))
                   else if and mode 73 = 0
                   then Inl (Plain (''command path '' @ quote resolved_path @ '' is not executable''))
                   else Inr resolved_path))"

text \<open>On Unix \<open>executableCandidates\<close> has one element.\<close>

fun search_roots_loop :: "'w os_files \<Rightarrow> 'w \<Rightarrow> string \<Rightarrow> string list \<Rightarrow> string option" where
  "search_roots_loop os w command [] = None"
| "search_roots_loop os w command (root # roots) =
     (let candidate = path_join [root, command] in
      if of_lstat os candidate w then Some candidate
      else search_roots_loop os w command roots)"

definition resolve_executable_path ::
  "'w os_files \<Rightarrow> 'w \<Rightarrow> string \<Rightarrow> string list \<Rightarrow> gerror + string" where
  "resolve_executable_path os w command allowed_roots =
     (let trimmed = trim_space command in
      if trimmed = '''' then Inl (Plain ''empty command'')
      else if contains_path_separator trimmed \<or> is_abs trimmed
      then resolve_trusted_executable_path os w trimmed allowed_roots
      else case search_roots_loop os w trimmed allowed_roots of
        Some candidate \<Rightarrow> resolve_trusted_executable_path os w candidate allowed_roots
      | None \<Rightarrow> Inl (Plain (''command '' @ quote trimmed @
          '' not found in execution_policy.command_search_paths'')))"

definition default_command_search_paths :: "string list" where
  "default_command_search_paths =
     [''/usr/local/bin'', ''/usr/local/sbin'', ''/usr/local/go/bin'', ''/opt/homebrew/bin'',
      ''/opt/homebrew/sbin'', ''/opt/local/bin'', ''/opt/local/sbin'', ''/usr/bin'', ''/usr/sbin'',
      ''/bin'', ''/sbin'']"

definition resolve_execution_command ::
  "'w os_files \<Rightarrow> string list \<Rightarrow> string list \<Rightarrow> 'w \<Rightarrow> gerror + resolved_command" where
  "resolve_execution_command os command search_dirs w =
     (case command of
        [] \<Rightarrow> Inl (Plain ''empty command'')
      | cmd0 # args \<Rightarrow>
          let roots = normalized_search_roots os w search_dirs;
              roots = (if roots = []
                       then normalized_search_roots os w default_command_search_paths else roots)
          in if roots = [] then Inl (Plain ''execution_policy.command_search_paths is empty'')
             else case resolve_executable_path os w cmd0 roots of
               Inl e \<Rightarrow> Inl e
             | Inr p \<Rightarrow> Inr \<lparr>rc_path = p, rc_args = args, rc_search_path = join '':'' roots\<rparr>)"

definition executable_identity :: "string \<Rightarrow> string" where
  "executable_identity command =
     (let trimmed = trim_space command in
      if trimmed = '''' then '''' else to_lower (path_base trimmed))"

section \<open>What the environment holds\<close>

text \<open>The leased values under their environment names; names that give none are left out.\<close>

definition leased_env :: "(string \<times> string) list \<Rightarrow> (string \<times> string) list" where
  "leased_env leased =
     filter (\<lambda>p. fst p \<noteq> '''') (map (\<lambda>(n, v). (secret_env_name n, v)) leased)"

lemma select_baseline_source:
  assumes "go_get (select_baseline sel es) k = Some v"
  shows "go_get sel k = Some v \<or>
    k \<noteq> '''' \<and> (\<exists>key. key @ ''='' @ v \<in> set es \<and> canonical_execution_baseline_env_key key = k)"
  using assms
proof (induction es arbitrary: sel)
  case (Cons e es)
  obtain a b f where c: "cut e (CHR ''='') = (a, b, f)" by (cases "cut e (CHR ''='')")
  show ?case
  proof (cases "f \<and> canonical_execution_baseline_env_key a \<noteq> ''''")
    case True
    then have e: "e = a @ ''='' @ b" using c cut_found [of e "CHR ''=''" a b] by simp
    from True c Cons.prems
    have "go_get (select_baseline (go_set sel (canonical_execution_baseline_env_key a) b) es) k =
        Some v" by (simp add: Let_def)
    from Cons.IH [OF this] e True show ?thesis by (auto split: if_splits)
  next
    case False
    with c Cons.prems have "go_get (select_baseline sel es) k = Some v"
      by (auto simp: Let_def split: if_splits)
    from Cons.IH [OF this] show ?thesis by auto
  qed
qed simp

lemma first_fold_in: "first_fold s as \<noteq> '''' \<Longrightarrow> first_fold s as \<in> set as"
  by (induction as) auto

lemma canonical_in_allowlist:
  "canonical_execution_baseline_env_key key \<noteq> '''' \<Longrightarrow>
     canonical_execution_baseline_env_key key \<in> set execution_baseline_env_allowlist"
  unfolding canonical_execution_baseline_env_key_def Let_def
  using first_fold_in by (simp split: if_splits)

lemma baseline_entries_iff:
  "e \<in> set (baseline_entries sel ks) \<longleftrightarrow>
     (\<exists>k v. k \<in> set ks \<and> go_get sel k = Some v \<and> e = env_entry k v)"
  by (induction ks) (auto split: option.splits)

lemma add_leased_get:
  "go_get (fst (add_leased sel keys ls)) k =
     (case map_of (rev (leased_env ls)) k of None \<Rightarrow> go_get sel k | Some v \<Rightarrow> Some v)"
  by (induction sel keys ls rule: add_leased.induct)
     (auto simp: leased_env_def Let_def map_add_def split: option.splits)

lemma add_leased_keys:
  "snd (add_leased sel keys ls) = keys @ map fst (leased_env ls)"
  by (induction sel keys ls rule: add_leased.induct) (auto simp: leased_env_def Let_def)

lemma leased_env_member:
  "(k, v) \<in> set (leased_env ls) \<longleftrightarrow> (\<exists>n. (n, v) \<in> set ls \<and> k = secret_env_name n \<and> k \<noteq> '''')"
  by (force simp: leased_env_def)

definition execution_baseline :: "string list \<Rightarrow> string \<Rightarrow> string go_map" where
  "execution_baseline ambient path_override =
     (if trim_space path_override \<noteq> '''' then go_set (select_baseline [] ambient) ''PATH'' path_override
      else select_baseline [] ambient)"

lemma map_of_rev_some:
  "k \<in> set (map fst l) \<Longrightarrow> \<exists>v. map_of (rev l) k = Some v \<and> (k, v) \<in> set l"
  by (metis domIff dom_map_of_conv_image_fst image_set map_of_SomeD not_None_eq set_rev)

text \<open>The last value given to a name is the one that counts.\<close>

lemma build_execution_environment_eq:
  "build_execution_environment_with_path_override ambient leased path_override =
     baseline_entries (execution_baseline ambient path_override) execution_baseline_env_allowlist @
     map (\<lambda>k. env_entry k (the (map_of (rev (leased_env leased)) k)))
       (sort (map fst (leased_env leased)))"
proof -
  let ?sel = "execution_baseline ambient path_override"
  obtain s ks where a: "add_leased ?sel [] leased = (s, ks)" by fastforce
  have ks: "ks = map fst (leased_env leased)" using add_leased_keys [of ?sel "[]" leased] a by simp
  let ?val = "\<lambda>k. case go_get s k of None \<Rightarrow> '''' | Some v \<Rightarrow> v"
  have "?val k = the (map_of (rev (leased_env leased)) k)" if "k \<in> set ks" for k
    using map_of_rev_some [of k "leased_env leased"] that ks add_leased_get [of ?sel "[]" leased k] a
    by auto
  then have "map (\<lambda>k. env_entry k (?val k)) (sort ks) =
      map (\<lambda>k. env_entry k (the (map_of (rev (leased_env leased)) k))) (sort ks)"
    by (intro map_cong) auto
  moreover have "build_execution_environment_with_path_override ambient leased path_override =
      baseline_entries ?sel execution_baseline_env_allowlist @
      map (\<lambda>k. env_entry k (?val k)) (sort ks)"
    using a by (simp add: build_execution_environment_with_path_override_def
        execution_baseline_def Let_def)
  ultimately show ?thesis by (simp add: ks)
qed

text \<open>
  C21: The environment of a brokered command holds nothing but allowlisted variables of the
  daemon, with the daemon's own values or the managed \<open>PATH\<close>, and leased secrets under their
  environment names.
\<close>

theorem environment_holds_only_leased_secrets:
  assumes "e \<in> set (build_execution_environment_with_path_override ambient leased path_override)"
  shows "(\<exists>k v. e = k @ ''='' @ v \<and> k \<in> set execution_baseline_env_allowlist \<and>
      ((\<exists>key. key @ ''='' @ v \<in> set ambient \<and> canonical_execution_baseline_env_key key = k) \<or>
       k = ''PATH'' \<and> v = path_override)) \<or>
    (\<exists>n v. (n, v) \<in> set leased \<and> secret_env_name n \<noteq> '''' \<and> e = secret_env_name n @ ''='' @ v)"
proof -
  have "e \<in> set (baseline_entries (execution_baseline ambient path_override)
      execution_baseline_env_allowlist) \<or>
    (\<exists>k. k \<in> set (map fst (leased_env leased)) \<and>
      e = env_entry k (the (map_of (rev (leased_env leased)) k)))"
    using assms unfolding build_execution_environment_eq
    by (simp only: set_append set_map set_sort) auto
  then show ?thesis
  proof
    assume "e \<in> set (baseline_entries (execution_baseline ambient path_override)
      execution_baseline_env_allowlist)"
    then obtain k v where k: "k \<in> set execution_baseline_env_allowlist" "e = env_entry k v"
      "go_get (execution_baseline ambient path_override) k = Some v"
      by (auto simp: baseline_entries_iff)
    then have "k = ''PATH'' \<and> v = path_override \<or> go_get (select_baseline [] ambient) k = Some v"
      by (auto simp: execution_baseline_def split: if_splits)
    with k select_baseline_source [of "[]" ambient k v] show ?thesis by (auto simp: env_entry_def)
  next
    assume "\<exists>k. k \<in> set (map fst (leased_env leased)) \<and>
      e = env_entry k (the (map_of (rev (leased_env leased)) k))"
    then obtain k where k: "k \<in> set (map fst (leased_env leased))"
      "e = env_entry k (the (map_of (rev (leased_env leased)) k))" by blast
    from map_of_rev_some [OF k(1)] obtain v
      where v: "map_of (rev (leased_env leased)) k = Some v" "(k, v) \<in> set (leased_env leased)"
      by blast
    with k(2) show ?thesis by (auto simp: env_entry_def leased_env_member)
  qed
qed

lemma leased_env_permutes:
  assumes "mset ls = mset ls'" shows "mset (leased_env ls) = mset (leased_env ls')"
  using assms by (simp add: leased_env_def mset_filter)

lemma map_of_rev_distinct: "distinct (map fst l) \<Longrightarrow> (k, v) \<in> set l \<Longrightarrow> map_of (rev l) k = Some v"
  by (simp add: rev_map [symmetric])

lemma cut_env_entry: "CHR ''='' \<notin> set k \<Longrightarrow> cut (env_entry k v) (CHR ''='') = (k, v, True)"
  by (simp add: env_entry_def cut_found)

lemma env_name_no_equals: "CHR ''='' \<notin> set (secret_env_name n)"
proof -
  have "\<not> env_letter (CHR ''='') \<and> \<not> env_digit (CHR ''='')"
    by (simp add: env_letter_def env_digit_def)
  then show ?thesis
    using secret_env_name_cases [of n] by (auto simp: is_valid_secret_env_name_iff)
qed

lemma allowlist_reserved: "set execution_baseline_env_allowlist \<subseteq> set reserved_secret_env_names"
  by (simp add: execution_baseline_env_allowlist_def reserved_secret_env_names_def)

lemma allowlist_no_equals: "k \<in> set execution_baseline_env_allowlist \<Longrightarrow> CHR ''='' \<notin> set k"
  by (auto simp: execution_baseline_env_allowlist_def)

text \<open>
  For secrets the request policy admits, with different environment names, the environment
  does not depend on the order in which the map of secrets is walked, and the one entry of
  each secret's name carries that secret's value: no variable of the daemon overrides it and
  it overrides none.
\<close>

theorem leased_secrets_reach_the_command:
  assumes "\<forall>(n, v)\<in>set leased. validate_secret_name n = None"
    and "distinct (map (\<lambda>(n, v). secret_env_name n) leased)" and "mset leased' = mset leased"
  shows "build_execution_environment_with_path_override ambient leased' path_override =
      build_execution_environment_with_path_override ambient leased path_override \<and>
    (\<forall>(n, v)\<in>set leased.
       filter (\<lambda>e. fst (cut e (CHR ''='')) = secret_env_name n)
         (build_execution_environment_with_path_override ambient leased path_override) =
       [secret_env_name n @ ''='' @ v])"
proof
  have all: "leased_env leased = map (\<lambda>(n, v). (secret_env_name n, v)) leased"
    using assms(1) by (auto simp: leased_env_def validate_secret_name_None filter_id_conv)
  then have d: "distinct (map fst (leased_env leased))"
    using assms(2) by (simp add: comp_def case_prod_unfold)
  have m: "mset (leased_env leased') = mset (leased_env leased)"
    by (rule leased_env_permutes [OF assms(3)])
  then have d': "distinct (map fst (leased_env leased'))"
    using d by (metis mset_eq_imp_distinct_iff mset_map)
  have keys: "sort (map fst (leased_env leased')) = sort (map fst (leased_env leased))"
    using m by (metis mset_map properties_for_sort sorted_sort mset_sort)
  have val: "map_of (rev (leased_env leased')) k = map_of (rev (leased_env leased)) k" for k
    using map_of_eqI d d' mset_eq_setD [OF m] map_of_inject_set [of "rev (leased_env leased')" "rev (leased_env leased)"]
    by (simp add: rev_map [symmetric])
  show "build_execution_environment_with_path_override ambient leased' path_override =
      build_execution_environment_with_path_override ambient leased path_override"
    by (simp add: build_execution_environment_eq keys val)
  show "\<forall>(n, v)\<in>set leased.
       filter (\<lambda>e. fst (cut e (CHR ''='')) = secret_env_name n)
         (build_execution_environment_with_path_override ambient leased path_override) =
       [secret_env_name n @ ''='' @ v]"
  proof (clarify)
    fix n v assume nv: "(n, v) \<in> set leased"
    let ?k = "secret_env_name n"
    let ?P = "\<lambda>e. fst (cut e (CHR ''='')) = ?k"
    have valid: "validate_secret_name n = None" using assms(1) nv by blast
    then have mem: "(?k, v) \<in> set (leased_env leased)"
      using nv by (auto simp: leased_env_member validate_secret_name_None)
    have "filter ?P (baseline_entries sel execution_baseline_env_allowlist) = []" for sel
      using valid subsetD [OF allowlist_reserved] allowlist_no_equals
      by (auto simp: filter_empty_conv baseline_entries_iff cut_env_entry validate_secret_name_None)
    moreover have "filter ?P (map (\<lambda>k. env_entry k (f k)) ks) = map (\<lambda>k. env_entry k (f k)) (filter (\<lambda>k. k = ?k) ks)"
      if "\<forall>k\<in>set ks. CHR ''='' \<notin> set k" for f ks
      using that by (induction ks) (auto simp: cut_env_entry)
    moreover have "\<forall>k\<in>set (sort (map fst (leased_env leased))). CHR ''='' \<notin> set k"
      using env_name_no_equals by (auto simp: leased_env_def)
    moreover have "filter (\<lambda>k. k = ?k) (sort (map fst (leased_env leased))) = [?k]"
    proof -
      have "filter (\<lambda>k. k = ?k) xs = [?k]" if "distinct xs" "?k \<in> set xs" for xs
        using that by (induction xs) (auto simp: filter_empty_conv)
      from this [of "sort (map fst (leased_env leased))"] d mem show ?thesis by force
    qed
    ultimately show "filter ?P (build_execution_environment_with_path_override ambient leased path_override) =
       [?k @ ''='' @ v]"
      using map_of_rev_distinct [OF d mem]
      by (simp add: build_execution_environment_eq env_entry_def)
  qed
qed

text \<open>
  Two leased secrets whose names differ only in case share an environment name: the command
  then gets the name twice, with the value of whichever secret the map yields last.
\<close>

theorem colliding_names_lose_a_secret:
  assumes "secret_env_name a = secret_env_name b" and "secret_env_name a \<noteq> ''''"
    and "secret_env_name a \<notin> set execution_baseline_env_allowlist"
  shows "build_execution_environment [] [(a, x), (b, y)] =
      [env_entry (secret_env_name a) y, env_entry (secret_env_name a) y] \<and>
    build_execution_environment [] [(b, y), (a, x)] =
      [env_entry (secret_env_name a) x, env_entry (secret_env_name a) x]"
  using assms
  by (simp add: build_execution_environment_def build_execution_environment_eq leased_env_def
      execution_baseline_def execution_baseline_env_allowlist_def)

section \<open>What is executed\<close>

definition absolute_answers :: "'w os_files \<Rightarrow> 'w \<Rightarrow> bool" where
  "absolute_answers os w \<longleftrightarrow>
     (\<forall>d. os_getwd (of_paths os) w = Inr d \<longrightarrow> is_abs d) \<and>
     (\<forall>p q. is_abs p \<longrightarrow> os_eval_symlinks (of_paths os) p w = Inr q \<longrightarrow> is_abs q)"

lemma is_abs_Cons: "is_abs p \<longleftrightarrow> (\<exists>q. p = CHR ''/'' # q)"
  by (cases p) (auto simp: is_abs_def has_prefix_def)

lemma is_abs_join: "is_abs p \<Longrightarrow> is_abs (path_join (p # ps))"
  by (cases "filter (\<lambda>q. q \<noteq> []) ps")
     (auto simp: path_join_def Let_def is_abs_Cons [of p] is_abs_clean [unfolded is_abs_Cons]
        simp del: is_abs_clean simp: is_abs_Cons)

lemma path_abs_absolute:
  "absolute_answers os w \<Longrightarrow> path_abs (of_paths os) p w = Inr q \<Longrightarrow> is_abs q"
  by (auto simp: path_abs_def absolute_answers_def is_abs_join split: sum.splits if_splits)

lemma normalized_roots_absolute:
  assumes "absolute_answers os w" and "\<forall>r\<in>set out. is_abs r"
  shows "r \<in> set (normalized_search_roots_loop os w out seen dirs) \<Longrightarrow> is_abs r"
  using assms(2)
proof (induction dirs arbitrary: out seen)
  case (Cons dir dirs)
  show ?case
  proof (cases "trim_space dir = '''' \<or> (\<exists>e. path_abs (of_paths os) (trim_space dir) w = Inl e)")
    case True
    then have "normalized_search_roots_loop os w out seen (dir # dirs) =
        normalized_search_roots_loop os w out seen dirs" by (auto simp: Let_def)
    with Cons show ?thesis by simp
  next
    case False
    then obtain p where p: "path_abs (of_paths os) (trim_space dir) w = Inr p" "trim_space dir \<noteq> ''''"
      by (cases "path_abs (of_paths os) (trim_space dir) w") auto
    let ?c = "path_clean (case os_eval_symlinks (of_paths os) p w of Inl _ \<Rightarrow> p | Inr r \<Rightarrow> r)"
    have "is_abs ?c"
      using path_abs_absolute [OF assms(1) p(1)] assms(1)
      by (auto simp: absolute_answers_def split: sum.splits)
    then have "\<forall>r\<in>set (out @ [?c]). is_abs r" using Cons.prems(2) by auto
    with Cons.IH [of out seen] Cons.IH [of "out @ [?c]" "to_lower ?c # seen"] Cons.prems p show ?thesis
      by (auto simp: Let_def split: if_splits)
  qed
qed simp

lemma path_within_any_root_iff: "path_within_any_root p rs \<longleftrightarrow> (\<exists>r\<in>set rs. path_within_root p r)"
  by (induction rs) auto

lemma path_within_root_iff:
  assumes "is_abs p" and "is_abs r"
  shows "path_within_root p r \<longleftrightarrow> prefix (components r) (components p)"
proof -
  obtain rel where rel: "path_rel r p = Inr rel"
    "rel = ''.'' \<longleftrightarrow> components r = components p"
    "leaves_root rel \<longleftrightarrow> \<not> prefix (components r) (components p)"
    using path_rel_abs [OF assms(2,1)] by metis
  then show ?thesis by (auto simp: path_within_root_def leaves_root_def)
qed

definition search_roots :: "'w os_files \<Rightarrow> string list \<Rightarrow> 'w \<Rightarrow> string list" where
  "search_roots os dirs w =
     (let roots = normalized_search_roots os w dirs in
      if roots = [] then normalized_search_roots os w default_command_search_paths else roots)"

lemma search_roots_absolute: "absolute_answers os w \<Longrightarrow> r \<in> set (search_roots os dirs w) \<Longrightarrow> is_abs r"
  using normalized_roots_absolute [of os w "[]" r "[]"]
  by (auto simp: search_roots_def normalized_search_roots_def Let_def split: if_splits)

lemma resolve_trusted_Inr:
  assumes "resolve_trusted_executable_path os w candidate roots = Inr p" and "absolute_answers os w"
  shows "\<exists>c q mode. is_abs c \<and> path_within_any_root c roots \<and>
    os_eval_symlinks (of_paths os) c w = Inr q \<and> p = path_clean q \<and>
    of_stat os p w = Inr (False, mode) \<and> and mode 73 \<noteq> 0"
proof -
  obtain f where f: "path_abs (of_paths os) candidate w = Inr f"
    using assms(1) by (auto simp: resolve_trusted_executable_path_def Let_def split: sum.splits)
  have "is_abs (path_clean f)" using path_abs_absolute [OF assms(2) f] by simp
  then show ?thesis using assms(1) f
    by (rule_tac x = "path_clean f" in exI)
       (auto simp: resolve_trusted_executable_path_def Let_def split: sum.splits if_splits)
qed

text \<open>
  A command that is resolved names an executable file that is no directory; the path it was
  found under, before symbolic links were followed, lies inside one of the trusted search
  directories, element by element; and the arguments are passed on as they are.
\<close>

theorem resolved_executable_is_trusted:
  assumes "resolve_execution_command os command dirs w = Inr rc" and "absolute_answers os w"
  shows "\<exists>c q root mode. rc_args rc = tl command \<and>
    rc_search_path rc = join '':'' (search_roots os dirs w) \<and>
    root \<in> set (search_roots os dirs w) \<and> prefix (components root) (components c) \<and>
    os_eval_symlinks (of_paths os) c w = Inr q \<and> rc_path rc = path_clean q \<and>
    of_stat os (rc_path rc) w = Inr (False, mode) \<and> and mode 73 \<noteq> 0"
proof -
  obtain cmd0 args where c: "command = cmd0 # args"
    using assms(1) by (cases command) (auto simp: resolve_execution_command_def)
  let ?roots = "search_roots os dirs w"
  obtain p where p: "resolve_executable_path os w cmd0 ?roots = Inr p"
    and rc: "rc = \<lparr>rc_path = p, rc_args = args, rc_search_path = join '':'' ?roots\<rparr>"
    using assms(1) unfolding resolve_execution_command_def c search_roots_def Let_def
    by (auto split: sum.splits if_splits)
  obtain candidate where "resolve_trusted_executable_path os w candidate ?roots = Inr p"
    using p by (auto simp: resolve_executable_path_def Let_def split: if_splits option.splits)
  from resolve_trusted_Inr [OF this assms(2)] obtain a q mode where r: "is_abs a"
    "path_within_any_root a ?roots" "os_eval_symlinks (of_paths os) a w = Inr q"
    "p = path_clean q" "of_stat os p w = Inr (False, mode)" "and mode 73 \<noteq> 0" by blast
  then obtain root where "root \<in> set ?roots" "path_within_root a root"
    by (auto simp: path_within_any_root_iff)
  moreover have "is_abs root" using calculation(1) search_roots_absolute [OF assms(2)] by blast
  ultimately have "prefix (components root) (components a)" by (simp add: path_within_root_iff [OF r(1)])
  with \<open>root \<in> set ?roots\<close> r c rc show ?thesis
    by (intro exI [of _ a] exI [of _ q] exI [of _ root] exI [of _ mode]) simp
qed

section \<open>Examples\<close>

theorem environment_holds_only_leased_secrets_witness:
  "\<exists>n v. (n, v) \<in> set [(''db_pass'', ''s3cret'')] \<and> secret_env_name n \<noteq> '''' \<and>
    ''DB_PASS=s3cret'' = secret_env_name n @ ''='' @ v"
proof -
  have e: "''DB_PASS=s3cret'' \<in> set (build_execution_environment_with_path_override
      [''HOME=/root'', ''OTHER=1''] [(''db_pass'', ''s3cret'')] ''/usr/bin'')" by code_simp
  have "\<not> (\<exists>k v. ''DB_PASS=s3cret'' = k @ ''='' @ v \<and> k \<in> set execution_baseline_env_allowlist)"
    by (auto simp: execution_baseline_env_allowlist_def)
  with environment_holds_only_leased_secrets [OF e] show ?thesis by blast
qed

theorem leased_secrets_reach_the_command_witness:
  "filter (\<lambda>e. fst (cut e (CHR ''='')) = secret_env_name ''b'')
     (build_execution_environment_with_path_override [''HOME=/root''] [(''b'', ''2''), (''a'', ''1'')]
       ''/usr/bin'') = [''B=2'']"
proof -
  let ?l = "[(''a'', ''1''), (''b'', ''2'')]" and ?m = "[(''b'', ''2''), (''a'', ''1'')]"
  let ?env = "\<lambda>l. build_execution_environment_with_path_override [''HOME=/root''] l ''/usr/bin''"
  have n: "secret_env_name ''a'' = ''A''" "secret_env_name ''b'' = ''B''" by code_simp+
  have v: "validate_secret_name ''a'' = None" "validate_secret_name ''b'' = None" by code_simp+
  have "?env ?m = ?env ?l \<and> (\<forall>(n, v)\<in>set ?l.
      filter (\<lambda>e. fst (cut e (CHR ''='')) = secret_env_name n) (?env ?l) =
        [secret_env_name n @ ''='' @ v])"
    by (rule leased_secrets_reach_the_command) (simp_all add: n v)
  then show ?thesis by (simp add: n)
qed

theorem colliding_names_lose_a_secret_witness:
  "build_execution_environment [] [(''api_pass'', ''1''), (''API_PASS'', ''2'')] =
     [''API_PASS=2'', ''API_PASS=2'']"
proof -
  have n: "secret_env_name ''api_pass'' = ''API_PASS''" "secret_env_name ''API_PASS'' = ''API_PASS''"
    by code_simp+
  show ?thesis
    using colliding_names_lose_a_secret [of "''api_pass''" "''API_PASS''" "''1''" "''2''"]
    by (simp add: n execution_baseline_env_allowlist_def env_entry_def)
qed

definition example_files :: "unit os_files" where
  "example_files =
     \<lparr>of_paths = \<lparr>os_getwd = \<lambda>_. Inr ''/work'', os_eval_symlinks = \<lambda>p _. Inr p\<rparr>,
      of_lstat = \<lambda>p _. p = ''/usr/bin/make'',
      of_stat = \<lambda>p _. if p = ''/usr/bin/make'' then Inr (False, 493) else Inl (Plain ''no such file'')\<rparr>"

theorem resolved_executable_is_trusted_witness:
  "\<exists>rc. resolve_execution_command example_files [''make'', ''test''] [''/usr/bin''] () = Inr rc \<and>
    rc_args rc = [''test'']"
proof -
  let ?rc = "\<lparr>rc_path = ''/usr/bin/make'', rc_args = [''test''], rc_search_path = ''/usr/bin''\<rparr>"
  have r: "resolve_execution_command example_files [''make'', ''test''] [''/usr/bin''] () = Inr ?rc"
    by code_simp
  have a: "absolute_answers example_files ()"
    by (simp add: absolute_answers_def example_files_def is_abs_def has_prefix_def)
  from resolved_executable_is_trusted [OF r a] r show ?thesis by auto
qed

end
