(* ===== verification/NetPolicy.thy ===== *)
theory NetPolicy
  imports NetAddr ProcessEnv
begin

text \<open>
  Which network destinations a brokered command may name
  (\<open>internal/app/control_plane_network.go\<close>, \<open>internal/app/control_plane_direct_clients.go\<close>,
  \<open>ValidateNetworkEgress\<close> of \<open>internal/app/control_plane_policy.go\<close>): the hosts are read off
  the arguments and compared with an allow list.
\<close>

section \<open>Flags of the direct clients\<close>

datatype flag_mode = UnknownFlag | NoValue | TakesValue | Destination | OpaqueOrOverride

record client_arg_spec =
  long_flags :: "flag_mode go_map"
  short_flags :: "(char \<times> flag_mode) list"

definition direct_network_clients :: "string list" where
  "direct_network_clients = [''curl'', ''wget'', ''fetch'']"

definition curl_long_flags :: "(string \<times> flag_mode) list" where
  "curl_long_flags =
     [(''--cacert'', TakesValue), (''--capath'', TakesValue), (''--cert'', TakesValue),
      (''--compressed'', NoValue), (''--config'', OpaqueOrOverride),
      (''--connect-timeout'', TakesValue), (''--connect-to'', OpaqueOrOverride),
      (''--cookie'', TakesValue), (''--cookie-jar'', TakesValue), (''--data'', TakesValue),
      (''--data-binary'', TakesValue), (''--data-raw'', TakesValue),
      (''--data-urlencode'', TakesValue), (''--dump-header'', TakesValue),
      (''--etag-compare'', TakesValue), (''--etag-save'', TakesValue), (''--fail'', NoValue),
      (''--form'', TakesValue), (''--form-string'', TakesValue), (''--globoff'', NoValue),
      (''--head'', NoValue), (''--header'', TakesValue), (''--http1.1'', NoValue),
      (''--http2'', NoValue), (''--http3'', NoValue), (''--include'', NoValue),
      (''--insecure'', NoValue), (''--interface'', TakesValue), (''--ipv4'', NoValue),
      (''--ipv6'', NoValue), (''--json'', TakesValue), (''--key'', TakesValue),
      (''--limit-rate'', TakesValue), (''--location'', NoValue), (''--mail-from'', TakesValue),
      (''--mail-rcpt'', TakesValue), (''--max-time'', TakesValue), (''--next'', NoValue),
      (''--noproxy'', TakesValue), (''--output'', TakesValue), (''--output-dir'', TakesValue),
      (''--preproxy'', OpaqueOrOverride), (''--progress-bar'', NoValue),
      (''--proxy'', OpaqueOrOverride), (''--proxy1.0'', OpaqueOrOverride),
      (''--proxy-cacert'', TakesValue), (''--proxy-cert'', TakesValue),
      (''--proxy-key'', TakesValue), (''--proxy-user'', TakesValue), (''--range'', TakesValue),
      (''--referer'', TakesValue), (''--remote-header-name'', NoValue),
      (''--remote-name'', NoValue), (''--request'', TakesValue),
      (''--request-target'', TakesValue), (''--resolve'', OpaqueOrOverride),
      (''--retry'', TakesValue), (''--retry-delay'', TakesValue),
      (''--retry-max-time'', TakesValue), (''--show-error'', NoValue), (''--silent'', NoValue),
      (''--socks4'', OpaqueOrOverride), (''--socks4a'', OpaqueOrOverride),
      (''--socks5'', OpaqueOrOverride), (''--socks5-hostname'', OpaqueOrOverride),
      (''--ssl-reqd'', NoValue), (''--unix-socket'', TakesValue), (''--url'', Destination),
      (''--url-query'', TakesValue), (''--user'', TakesValue), (''--user-agent'', TakesValue),
      (''--verbose'', NoValue), (''--write-out'', TakesValue)]"

definition curl_short_flags :: "(char \<times> flag_mode) list" where
  "curl_short_flags =
     [(CHR ''4'', NoValue), (CHR ''6'', NoValue), (CHR ''A'', TakesValue),
      (CHR ''D'', TakesValue), (CHR ''E'', TakesValue), (CHR ''F'', TakesValue),
      (CHR ''G'', NoValue), (CHR ''H'', TakesValue), (CHR ''I'', NoValue), (CHR ''J'', NoValue),
      (CHR ''K'', OpaqueOrOverride), (CHR ''L'', NoValue), (CHR ''N'', NoValue),
      (CHR ''O'', NoValue), (CHR ''S'', NoValue), (CHR ''T'', TakesValue),
      (CHR ''X'', TakesValue), (CHR ''b'', TakesValue), (CHR ''c'', TakesValue),
      (CHR ''d'', TakesValue), (CHR ''e'', TakesValue), (CHR ''f'', NoValue),
      (CHR ''g'', NoValue), (CHR ''i'', NoValue), (CHR ''k'', NoValue), (CHR ''l'', NoValue),
      (CHR ''m'', TakesValue), (CHR ''o'', TakesValue), (CHR ''r'', TakesValue),
      (CHR ''s'', NoValue), (CHR ''u'', TakesValue), (CHR ''v'', NoValue),
      (CHR ''w'', TakesValue), (CHR ''x'', OpaqueOrOverride), (CHR ''y'', TakesValue),
      (CHR ''z'', TakesValue)]"

definition wget_long_flags :: "(string \<times> flag_mode) list" where
  "wget_long_flags =
     [(''--accept'', TakesValue), (''--bind-address'', TakesValue), (''--body-data'', TakesValue),
      (''--body-file'', TakesValue), (''--ca-certificate'', TakesValue),
      (''--certificate'', TakesValue), (''--config'', OpaqueOrOverride),
      (''--connect-timeout'', TakesValue), (''--continue'', NoValue), (''--debug'', NoValue),
      (''--directory-prefix'', TakesValue), (''--dns-timeout'', TakesValue),
      (''--domains'', TakesValue), (''--exclude-domains'', TakesValue),
      (''--execute'', OpaqueOrOverride), (''--header'', TakesValue), (''--help'', NoValue),
      (''--inet4-only'', NoValue), (''--inet6-only'', NoValue),
      (''--input-file'', OpaqueOrOverride), (''--limit-rate'', TakesValue),
      (''--load-cookies'', TakesValue), (''--method'', TakesValue), (''--mirror'', NoValue),
      (''--no-verbose'', NoValue), (''--output-document'', TakesValue),
      (''--output-file'', TakesValue), (''--password'', TakesValue),
      (''--post-data'', TakesValue), (''--post-file'', TakesValue),
      (''--private-key'', TakesValue), (''--quiet'', NoValue), (''--read-timeout'', TakesValue),
      (''--recursive'', NoValue), (''--referer'', TakesValue), (''--reject'', TakesValue),
      (''--save-cookies'', TakesValue), (''--server-response'', NoValue), (''--spider'', NoValue),
      (''--timeout'', TakesValue), (''--timestamping'', NoValue), (''--tries'', TakesValue),
      (''--user'', TakesValue), (''--user-agent'', TakesValue), (''--verbose'', NoValue)]"

definition wget_short_flags :: "(char \<times> flag_mode) list" where
  "wget_short_flags =
     [(CHR ''4'', NoValue), (CHR ''6'', NoValue), (CHR ''A'', TakesValue),
      (CHR ''B'', TakesValue), (CHR ''D'', TakesValue), (CHR ''I'', TakesValue),
      (CHR ''N'', NoValue), (CHR ''O'', TakesValue), (CHR ''P'', TakesValue),
      (CHR ''Q'', TakesValue), (CHR ''S'', NoValue), (CHR ''T'', TakesValue),
      (CHR ''U'', TakesValue), (CHR ''Y'', TakesValue), (CHR ''a'', TakesValue),
      (CHR ''c'', NoValue), (CHR ''d'', NoValue), (CHR ''e'', OpaqueOrOverride),
      (CHR ''h'', NoValue), (CHR ''i'', OpaqueOrOverride), (CHR ''m'', NoValue),
      (CHR ''n'', NoValue), (CHR ''o'', TakesValue), (CHR ''q'', NoValue), (CHR ''r'', NoValue),
      (CHR ''s'', NoValue), (CHR ''t'', TakesValue), (CHR ''v'', NoValue),
      (CHR ''w'', TakesValue)]"

definition fetch_long_flags :: "(string \<times> flag_mode) list" where
  "fetch_long_flags =
     [(''--help'', NoValue)]"

definition fetch_short_flags :: "(char \<times> flag_mode) list" where
  "fetch_short_flags =
     [(CHR ''A'', TakesValue), (CHR ''T'', TakesValue), (CHR ''a'', TakesValue),
      (CHR ''h'', NoValue), (CHR ''m'', NoValue), (CHR ''n'', NoValue), (CHR ''o'', TakesValue),
      (CHR ''v'', NoValue)]"

definition direct_client_arg_specs :: "client_arg_spec go_map" where
  "direct_client_arg_specs =
     [(''curl'', \<lparr>long_flags = curl_long_flags, short_flags = curl_short_flags\<rparr>),
      (''wget'', \<lparr>long_flags = wget_long_flags, short_flags = wget_short_flags\<rparr>),
      (''fetch'', \<lparr>long_flags = fetch_long_flags, short_flags = fetch_short_flags\<rparr>)]"

section \<open>Hosts in arguments\<close>

definition trim_brackets :: "string \<Rightarrow> string" where
  "trim_brackets s =
     (let bracket = (\<lambda>c. c = CHR ''['' \<or> c = CHR '']'')
      in rev (dropWhile bracket (rev (dropWhile bracket s))))"

definition host_break :: "char \<Rightarrow> bool" where
  "host_break c \<longleftrightarrow> c \<in> {CHR ''/'', CHR '' '', CHR 0x09, CHR 0x0A, CHR 0x0D}"

definition is_decimal_string :: "string \<Rightarrow> bool" where
  "is_decimal_string s \<longleftrightarrow> s \<noteq> '''' \<and> list_all dec_digit s"

definition parse_ip :: "string \<Rightarrow> ip_addr option" where
  "parse_ip s = parse_addr s"

definition normalize_domain_host :: "string \<Rightarrow> string" where
  "normalize_domain_host host =
     (let h = to_lower (trim_space host) in
      if h = '''' then ''''
      else if has_prefix h ''['' then
        (case cut h (CHR '']'') of
           (before_end, rest, found) \<Rightarrow>
             let literal = tl before_end in
             if \<not> found \<or> literal = '''' then ''''
             else if parse_ip literal = None then ''''
             else if rest = '''' then literal
             else if has_prefix rest '':'' \<and> is_decimal_string (tl rest) then literal
             else '''')
      else
        let h = trim_brackets h in
        if h = '''' \<or> list_ex host_break h then ''''
        else if parse_ip h \<noteq> None then h
        else if length (filter (\<lambda>c. c = CHR '':'') h) = 1 then
          (case cut h (CHR '':'') of
             (host_only, port, _) \<Rightarrow>
               if host_only = '''' \<or> \<not> is_decimal_string port then ''''
               else if CHR ''.'' \<notin> set host_only then '''' else host_only)
        else if CHR '':'' \<in> set h \<or> CHR ''.'' \<notin> set h then ''''
        else h)"

definition is_domain_like :: "string \<Rightarrow> bool" where
  "is_domain_like s =
     (let s = trim_brackets (to_lower (trim_space s)) in
      if s = '''' then False
      else if list_ex host_break s then False
      else if parse_ip s \<noteq> None then True
      else CHR ''.'' \<in> set s)"

definition split_host_path_candidate :: "string \<Rightarrow> string option" where
  "split_host_path_candidate s =
     (let trimmed = trim_space s in
      if trimmed = '''' \<or> has_prefix trimmed ''/'' \<or> has_prefix trimmed ''.'' \<or> has_prefix trimmed ''-''
      then None
      else case cut trimmed (CHR ''/'') of
        (before_slash, _, found) \<Rightarrow>
          if \<not> found then None
          else let host = normalize_domain_host before_slash in
            if host \<noteq> '''' then Some host else None)"

definition extract_domain_host :: "string \<Rightarrow> string" where
  "extract_domain_host candidate =
     (let p = trim_space candidate in
      if p = '''' then ''''
      else if contains p ''://'' then
        (case url_hostname p of
           Some host \<Rightarrow> if host \<noteq> '''' then normalize_domain_host host else ''''
         | None \<Rightarrow> '''')
      else case split_host_path_candidate p of
        Some host \<Rightarrow> normalize_domain_host host
      | None \<Rightarrow> if is_domain_like p then normalize_domain_host p else '''')"

definition add_candidate :: "string list \<Rightarrow> string \<Rightarrow> string list" where
  "add_candidate out candidate =
     (let host = extract_domain_host candidate in
      if host = '''' then out else if host \<in> set out then out else out @ [host])"

fun extract_generic_loop :: "string list \<Rightarrow> string list \<Rightarrow> string list" where
  "extract_generic_loop out [] = out"
| "extract_generic_loop out (part # args) =
     (let p = trim_space part; lower = to_lower p in
      if p = '''' then extract_generic_loop out args
      else if lower = ''--url'' then
        (case args of
           [] \<Rightarrow> out
         | nxt # args \<Rightarrow> extract_generic_loop (add_candidate out nxt) args)
      else if has_prefix lower ''--url='' then
        (case cut p (CHR ''='') of
           (_, val, found) \<Rightarrow> extract_generic_loop (if found then add_candidate out val else out) args)
      else extract_generic_loop (add_candidate out p) args)"

definition extract_generic_domains :: "string list \<Rightarrow> string list" where
  "extract_generic_domains cmd = extract_generic_loop [] cmd"

definition looks_like_flag :: "string \<Rightarrow> bool" where
  "looks_like_flag candidate \<longleftrightarrow> has_prefix (trim_space candidate) ''-''"

text \<open>\<open>string(b)\<close> of a byte is the UTF-8 text of the code point.\<close>

definition string_of_byte :: "char \<Rightarrow> string" where
  "string_of_byte c =
     (if byte c < 128 then [c]
      else [char_of (192 + byte c div 64), char_of (128 + byte c mod 64)])"

text \<open>
  A cluster of short flags: the destination, whether the next argument is consumed, and the flag
  that cannot be inspected; \<open>''''\<close> where the code has an empty string.
\<close>

fun short_flags_loop ::
  "client_arg_spec \<Rightarrow> string option \<Rightarrow> string \<Rightarrow> string \<times> bool \<times> string" where
  "short_flags_loop spec nxt [] = ('''', False, '''')"
| "short_flags_loop spec nxt (flag # cluster) =
     (let flag_name = ''-'' @ string_of_byte flag in
      case map_of (short_flags spec) flag of
        None \<Rightarrow>
          if cluster \<noteq> '''' then ('''', False, flag_name)
          else (case nxt of
             Some n \<Rightarrow> if \<not> looks_like_flag n then ('''', True, flag_name) else ('''', False, flag_name)
           | None \<Rightarrow> ('''', False, flag_name))
      | Some mode \<Rightarrow>
          (case mode of
             Destination \<Rightarrow>
               if cluster \<noteq> '''' then (cluster, False, '''')
               else (case nxt of Some n \<Rightarrow> (n, True, '''') | None \<Rightarrow> ('''', False, ''''))
           | OpaqueOrOverride \<Rightarrow>
               if cluster \<noteq> '''' then ('''', False, flag_name)
               else if nxt \<noteq> None then ('''', True, flag_name)
               else ('''', False, flag_name)
           | TakesValue \<Rightarrow>
               if cluster \<noteq> '''' then ('''', False, '''')
               else if nxt \<noteq> None then ('''', True, '''')
               else ('''', False, '''')
           | NoValue \<Rightarrow> short_flags_loop spec nxt cluster
           | UnknownFlag \<Rightarrow> short_flags_loop spec nxt cluster))"

definition consume_short_flag_token ::
  "client_arg_spec \<Rightarrow> string \<Rightarrow> string option \<Rightarrow> string \<times> bool \<times> string" where
  "consume_short_flag_token spec part nxt =
     (if part = ''-'' then ('''', False, '''') else short_flags_loop spec nxt (tl part))"

definition record_unsafe :: "string \<Rightarrow> string \<Rightarrow> string" where
  "record_unsafe unsafe_arg flag = (if unsafe_arg = '''' then flag else unsafe_arg)"

text \<open>One long flag: the hosts and the flagged argument, and whether the next one is consumed.\<close>

definition long_flag_step ::
  "client_arg_spec \<Rightarrow> string \<Rightarrow> string option \<Rightarrow> string list \<Rightarrow> string \<Rightarrow> string list \<times> string \<times> bool"
where
  "long_flag_step spec part nxt out unsafe_arg =
     (case cut part (CHR ''='') of
        (name, inline_value, has_inline) \<Rightarrow>
          let consume = (\<not> has_inline \<and> nxt \<noteq> None);
              consume_plain = (\<not> has_inline \<and> (case nxt of None \<Rightarrow> False | Some n \<Rightarrow> \<not> looks_like_flag n))
          in
          (case go_get (long_flags spec) (to_lower name) of
             None \<Rightarrow> (out, record_unsafe unsafe_arg name, consume_plain)
           | Some mode \<Rightarrow>
               (case mode of
                  Destination \<Rightarrow>
                    if has_inline then (add_candidate out inline_value, unsafe_arg, False)
                    else (case nxt of
                       Some n \<Rightarrow> (add_candidate out n, unsafe_arg, True)
                     | None \<Rightarrow> (out, unsafe_arg, False))
                | OpaqueOrOverride \<Rightarrow> (out, record_unsafe unsafe_arg name, consume)
                | TakesValue \<Rightarrow> (out, unsafe_arg, consume)
                | NoValue \<Rightarrow> (out, unsafe_arg, False)
                | UnknownFlag \<Rightarrow> (out, unsafe_arg, consume_plain))))"

function extract_direct_loop ::
  "client_arg_spec \<Rightarrow> string list \<Rightarrow> string \<Rightarrow> string list \<Rightarrow> string list \<times> string" where
  "extract_direct_loop spec out unsafe_arg [] = (out, unsafe_arg)"
| "extract_direct_loop spec out unsafe_arg (arg # args) =
     (let part = trim_space arg; nxt = (case args of [] \<Rightarrow> None | n # _ \<Rightarrow> Some n) in
      if part = '''' then extract_direct_loop spec out unsafe_arg args
      else if part = ''--'' then (foldl add_candidate out args, unsafe_arg)
      else if \<not> has_prefix part ''-'' then
        extract_direct_loop spec (add_candidate out part) unsafe_arg args
      else if has_prefix part ''--'' then
        (let step = long_flag_step spec part nxt out unsafe_arg in
         extract_direct_loop spec (fst step) (fst (snd step))
           (if snd (snd step) then tl args else args))
      else
        (let step = consume_short_flag_token spec part nxt;
             destination = fst step; unsafe_arg =
               (if snd (snd step) \<noteq> '''' then record_unsafe unsafe_arg (snd (snd step)) else unsafe_arg);
             out = (if destination \<noteq> '''' then add_candidate out destination else out)
         in extract_direct_loop spec out unsafe_arg (if fst (snd step) then tl args else args)))"
  by pat_completeness auto
termination
  by (relation "measure (\<lambda>(spec, out, u, args). length args)") auto

definition extract_direct_client_domains ::
  "string list \<Rightarrow> client_arg_spec \<Rightarrow> string list \<times> string" where
  "extract_direct_client_domains args spec = extract_direct_loop spec [] '''' args"

definition extract_domains :: "string list \<Rightarrow> string list \<times> string" where
  "extract_domains cmd =
     (case cmd of
        [] \<Rightarrow> ([], '''')
      | cmd0 # args \<Rightarrow>
          (case go_get direct_client_arg_specs (executable_identity cmd0) of
             Some spec \<Rightarrow> extract_direct_client_domains args spec
           | None \<Rightarrow> (extract_generic_domains cmd, '''')))"

section \<open>The policy\<close>

definition is_blocked_ip_target :: "string \<Rightarrow> bool" where
  "is_blocked_ip_target host =
     (let h = trim_brackets (to_lower (trim_space host)) in
      case parse_ip h of
        None \<Rightarrow> False
      | Some ip \<Rightarrow> ip_is_loopback ip \<or> ip_is_private ip \<or> ip_is_link_local_unicast ip \<or>
          ip_is_link_local_multicast ip)"

fun domain_in :: "string \<Rightarrow> string list \<Rightarrow> bool" where
  "domain_in d [] = False"
| "domain_in d (allowed # rest) =
     (let a = to_lower (trim_space allowed) in
      if a = '''' then domain_in d rest
      else if d = a \<or> has_suffix d (''.'' @ a) then True
      else domain_in d rest)"

definition domain_allowed :: "string \<Rightarrow> string list \<Rightarrow> bool" where
  "domain_allowed domain allow =
     (let d = to_lower (trim_space domain) in
      if is_blocked_ip_target d then False else domain_in d allow)"

record network_egress_policy =
  ne_enabled :: bool
  ne_require_intent_match :: bool
  ne_allow_domains :: "string list"
  ne_intent_allow_domains :: "string list go_map"
  ne_deny_substrings :: "string list"

definition default_network_egress_policy :: network_egress_policy where
  "default_network_egress_policy =
     \<lparr>ne_enabled = False, ne_require_intent_match = False, ne_allow_domains = [],
      ne_intent_allow_domains = [],
      ne_deny_substrings =
        [''169.254.169.254'', ''metadata.google.internal'', ''localhost'', ''127.0.0.1'']\<rparr>"

text \<open>The first denied substring a text holds, in lower case on both sides.\<close>

fun denied_substring :: "string \<Rightarrow> string list \<Rightarrow> string option" where
  "denied_substring joined [] = None"
| "denied_substring joined (d # ds) =
     (if d \<noteq> '''' \<and> contains joined (to_lower d) then Some d else denied_substring joined ds)"

fun first_refused :: "string list \<Rightarrow> string list \<Rightarrow> string option" where
  "first_refused allow [] = None"
| "first_refused allow (d # ds) =
     (if \<not> domain_allowed d allow then Some d else first_refused allow ds)"

definition requires_inspectable_network_destination :: "string list \<Rightarrow> bool" where
  "requires_inspectable_network_destination cmd =
     (case cmd of [] \<Rightarrow> False
      | cmd0 # _ \<Rightarrow> executable_identity cmd0 \<in> set direct_network_clients)"

text \<open>The domains of the intent, when it has any, and else the general ones.\<close>

definition network_allow_list :: "network_egress_policy \<Rightarrow> string \<Rightarrow> string list" where
  "network_allow_list pol trim_intent =
     (case (if trim_intent = '''' then None
            else go_get (ne_intent_allow_domains pol) trim_intent) of
        Some (d # ds) \<Rightarrow> d # ds
      | _ \<Rightarrow> ne_allow_domains pol)"

definition validate_network_egress ::
  "network_egress_policy \<Rightarrow> string list \<Rightarrow> string \<Rightarrow> gerror option" where
  "validate_network_egress pol cmd intent =
     (if \<not> ne_enabled pol then None
      else
        let joined = to_lower (join '' '' cmd) in
        case denied_substring joined (ne_deny_substrings pol) of
          Some d \<Rightarrow> Some (Plain (''network egress denied by substring '' @ quote d))
        | None \<Rightarrow>
            let domains = fst (extract_domains cmd); unsafe_arg = snd (extract_domains cmd) in
            if domains = [] then
              (if requires_inspectable_network_destination cmd
               then Some (Plain ''network egress requires an inspectable destination in argv'')
               else None)
            else if unsafe_arg \<noteq> '''' then
              Some (Plain (''network egress argv inspection cannot safely enforce opaque or destination-override argument ''
                @ quote unsafe_arg))
            else
              let trim_intent = trim_space intent in
              if trim_intent = '''' \<and> ne_require_intent_match pol
              then Some (Plain ''network egress requires intent-specific policy'')
              else
                let allow = network_allow_list pol trim_intent in
                if allow = []
                then Some (Plain (''network egress disabled: no allowed domains for intent '' @
                  quote trim_intent))
                else (case first_refused allow domains of
                   Some d \<Rightarrow> Some (Plain (''domain '' @ quote d @ '' not allowed by network policy''))
                 | None \<Rightarrow> None))"

section \<open>What the policy lets through\<close>

lemma domain_in_iff:
  "domain_in d allow \<longleftrightarrow>
     (\<exists>a\<in>set allow. to_lower (trim_space a) \<noteq> '''' \<and>
        (d = to_lower (trim_space a) \<or> has_suffix d (''.'' @ to_lower (trim_space a))))"
  by (induction allow) (auto simp: Let_def)

lemma first_refused_None: "first_refused allow ds = None \<longleftrightarrow> (\<forall>d\<in>set ds. domain_allowed d allow)"
  by (induction ds) auto

lemma denied_substring_None:
  "denied_substring joined ds = None \<longleftrightarrow> (\<forall>d\<in>set ds. d = '''' \<or> \<not> contains joined (to_lower d))"
  by (induction ds) auto

lemma validate_network_egress_None:
  "validate_network_egress pol cmd intent = None \<longleftrightarrow>
     ne_enabled pol \<longrightarrow>
       (\<forall>d\<in>set (ne_deny_substrings pol). d = '''' \<or> \<not> contains (to_lower (join '' '' cmd)) (to_lower d)) \<and>
       (if fst (extract_domains cmd) = [] then \<not> requires_inspectable_network_destination cmd
        else snd (extract_domains cmd) = '''' \<and>
          (trim_space intent = '''' \<longrightarrow> \<not> ne_require_intent_match pol) \<and>
          network_allow_list pol (trim_space intent) \<noteq> [] \<and>
          (\<forall>d\<in>set (fst (extract_domains cmd)).
             domain_allowed d (network_allow_list pol (trim_space intent))))"
  by (auto simp: validate_network_egress_def Let_def denied_substring_None [symmetric]
      first_refused_None [symmetric] split: option.split)

text \<open>
  C22: Under an enabled network policy every host the broker finds in an accepted command is one
  of the domains allowed for the approved intent or below one and is no loopback, private or
  link-local address; no argument of the command is one that the parser flags as opaque or as
  overriding the destination; and a direct client names at least one host. An override the
  parser does not flag is not covered: see \<open>socket_override_passes\<close>.
\<close>

theorem egress_only_to_allowed_domains:
  assumes "validate_network_egress pol cmd intent = None" and "ne_enabled pol"
  shows "(\<forall>host\<in>set (fst (extract_domains cmd)).
      snd (extract_domains cmd) = '''' \<and> \<not> is_blocked_ip_target (to_lower (trim_space host)) \<and>
      (\<exists>a\<in>set (network_allow_list pol (trim_space intent)).
         to_lower (trim_space host) = to_lower (trim_space a) \<or>
         has_suffix (to_lower (trim_space host)) (''.'' @ to_lower (trim_space a)))) \<and>
    (requires_inspectable_network_destination cmd \<longrightarrow> fst (extract_domains cmd) \<noteq> [])"
proof (intro conjI ballI impI)
  note a = assms [unfolded validate_network_egress_None]
  fix host assume h: "host \<in> set (fst (extract_domains cmd))"
  then have ne: "fst (extract_domains cmd) \<noteq> []" by auto
  with a h have ok: "domain_allowed host (network_allow_list pol (trim_space intent))"
    and u: "snd (extract_domains cmd) = ''''" by auto
  show "snd (extract_domains cmd) = ''''" by (rule u)
  show "\<not> is_blocked_ip_target (to_lower (trim_space host))"
    using ok by (auto simp: domain_allowed_def Let_def)
  show "\<exists>a\<in>set (network_allow_list pol (trim_space intent)).
      to_lower (trim_space host) = to_lower (trim_space a) \<or>
      has_suffix (to_lower (trim_space host)) (''.'' @ to_lower (trim_space a))"
    using ok by (auto simp: domain_allowed_def Let_def domain_in_iff split: if_splits)
next
  assume "requires_inspectable_network_destination cmd"
  with assms show "fst (extract_domains cmd) \<noteq> []" by (auto simp: validate_network_egress_None)
qed

lemma judged_alike:
  assumes "validate_network_egress pol cmd intent = None"
    and "extract_domains cmd' = extract_domains cmd"
    and "requires_inspectable_network_destination cmd' = requires_inspectable_network_destination cmd"
    and "denied_substring (to_lower (join '' '' cmd')) (ne_deny_substrings pol) = None"
  shows "validate_network_egress pol cmd' intent = None"
  using assms unfolding validate_network_egress_None denied_substring_None by simp

text \<open>
  The table of \<open>curl\<close> lists \<open>--unix-socket\<close> as a flag with a plain value. It has the client connect to
  that socket whatever the URL says, and an accepted command stays accepted with it, unless the
  path of the socket holds a denied text.
\<close>

theorem socket_override_passes:
  assumes "executable_identity client = ''curl''"
    and "validate_network_egress pol (client # args) intent = None"
    and "denied_substring (to_lower (join '' '' (client # ''--unix-socket'' # socket # args)))
      (ne_deny_substrings pol) = None"
  shows "validate_network_egress pol (client # ''--unix-socket'' # socket # args) intent = None"
proof -
  obtain spec where spec: "go_get direct_client_arg_specs ''curl'' = Some spec"
    "go_get (long_flags spec) ''--unix-socket'' = Some TakesValue"
  proof -
    have "case go_get direct_client_arg_specs ''curl'' of None \<Rightarrow> False
        | Some spec \<Rightarrow> go_get (long_flags spec) ''--unix-socket'' = Some TakesValue" by code_simp
    then show thesis using that by (auto split: option.splits)
  qed
  have t: "trim_space ''--unix-socket'' = ''--unix-socket''" "has_prefix ''--unix-socket'' ''--''"
    "has_prefix ''--unix-socket'' ''-''" "to_lower ''--unix-socket'' = ''--unix-socket''"
    "cut ''--unix-socket'' (CHR ''='') = (''--unix-socket'', '''', False)" by code_simp+
  have step: "long_flag_step spec ''--unix-socket'' (Some socket) [] '''' = ([], '''', True)"
    using spec(2) by (simp add: long_flag_step_def t(4,5))
  have "extract_direct_loop spec [] '''' (''--unix-socket'' # socket # args) = extract_direct_loop spec [] '''' args"
    by (subst extract_direct_loop.simps) (simp add: t step Let_def)
  then have "extract_domains (client # ''--unix-socket'' # socket # args) = extract_domains (client # args)"
    using assms(1) spec(1) by (simp add: extract_domains_def extract_direct_client_domains_def)
  then show ?thesis
    using judged_alike [OF assms(2) _ _ assms(3)] by (simp add: requires_inspectable_network_destination_def)
qed

text \<open>
  A destination of which no host is read, such as a host without a dot, changes nothing: a
  direct client may be given any number of them next to one allowed destination.
\<close>

theorem unread_destination_passes:
  assumes "extract_domain_host url = ''''" and "trim_space url \<noteq> ''''"
    and "\<not> has_prefix (trim_space url) ''-''"
    and "go_get direct_client_arg_specs (executable_identity client) = Some spec"
    and "ne_deny_substrings pol = []"
  shows "validate_network_egress pol (client # url # args) intent =
    validate_network_egress pol (client # args) intent"
proof -
  have "trim_space url \<noteq> ''--''" using assms(3) by (auto simp: has_prefix_def)
  then have "extract_domains (client # url # args) = extract_domains (client # args)"
    using assms(1-4)
    by (simp add: extract_domains_def extract_direct_client_domains_def add_candidate_def
        extract_domain_host_def Let_def)
  then show ?thesis
    using assms(5)
    by (simp add: validate_network_egress_def requires_inspectable_network_destination_def)
qed

section \<open>Examples\<close>

definition example_network_policy :: network_egress_policy where
  "example_network_policy =
     default_network_egress_policy\<lparr>ne_enabled := True, ne_allow_domains := [''Example.com''],
       ne_deny_substrings := []\<rparr>"

lemma example_domains:
  "extract_domains [''curl'', ''-s'', ''https://api.example.com/v1''] = ([''api.example.com''], '''')"
  by code_simp

theorem egress_only_to_allowed_domains_witness:
  "validate_network_egress example_network_policy [''curl'', ''-s'', ''https://api.example.com/v1'']
     '''' = None \<and> \<not> is_blocked_ip_target ''api.example.com''"
proof -
  let ?cmd = "[''curl'', ''-s'', ''https://api.example.com/v1'']"
  have v: "validate_network_egress example_network_policy ?cmd '''' = None" by code_simp
  have "to_lower (trim_space ''api.example.com'') = ''api.example.com''" by code_simp
  with egress_only_to_allowed_domains [OF v] v show ?thesis
    by (simp add: example_domains example_network_policy_def)
qed

theorem socket_override_passes_witness:
  "validate_network_egress
     (default_network_egress_policy\<lparr>ne_enabled := True, ne_allow_domains := [''api.example.com'']\<rparr>)
     [''curl'', ''--unix-socket'', ''/var/run/docker.sock'', ''--location'', ''http://api.example.com/v1.41/containers/json'']
     ''deploy'' = None"
  by (rule socket_override_passes; code_simp)

theorem unread_destination_passes_witness:
  "validate_network_egress example_network_policy
     [''curl'', ''http://2130706433/'', ''https://api.example.com/''] '''' = None"
proof -
  have r: "validate_network_egress example_network_policy [''curl'', ''https://api.example.com/''] ''''
      = None" by code_simp
  have h: "extract_domain_host ''http://2130706433/'' = ''''"
    "trim_space ''http://2130706433/'' = ''http://2130706433/''"
    "executable_identity ''curl'' = ''curl''" by code_simp+
  have p: "ne_deny_substrings example_network_policy = []"
    by (simp add: example_network_policy_def)
  show ?thesis
    using unread_destination_passes [OF h(1) _ _ _ p, of "''curl''"] r
    by (simp add: h direct_client_arg_specs_def has_prefix_def)
qed

end
