(* ===== verification/Output.thy ===== *)
theory Output
  imports AuditSanitize Errors
begin

text \<open>
  The output of a brokered command: what is captured of it (\<open>cmd/promptlockd/bounded_output.go\<close>)
  and what is taken out of it before it is returned (\<open>internal/app/control_plane_output.go\<close>,
  \<open>internal/app/execution_usecase.go\<close>). The four regular expressions are matchers at a position,
  as in the audit sink; none of them has to backtrack over what it matched.
\<close>

section \<open>Capturing\<close>

record bounded_capture_writer =
  cw_buf :: string
  cw_limit :: int

definition new_bounded_capture_writer :: "int \<Rightarrow> bounded_capture_writer" where
  "new_bounded_capture_writer limit =
     \<lparr>cw_buf = '''', cw_limit = (if limit < 0 then 0 else limit)\<rparr>"

text \<open>Whatever is kept, the writer claims to have written everything.\<close>

definition capture_write ::
  "string \<Rightarrow> bounded_capture_writer \<Rightarrow> nat \<times> bounded_capture_writer" where
  "capture_write p w =
     (if cw_limit w \<le> 0 then (length p, w)
      else
        let remaining = cw_limit w - int (length (cw_buf w)) in
        if remaining \<le> 0 then (length p, w)
        else if int (length p) > remaining
        then (length p, w\<lparr>cw_buf := cw_buf w @ take (nat remaining) p\<rparr>)
        else (length p, w\<lparr>cw_buf := cw_buf w @ p\<rparr>))"

fun capture_all :: "string list \<Rightarrow> bounded_capture_writer \<Rightarrow> bounded_capture_writer" where
  "capture_all [] w = w"
| "capture_all (p # ps) w = capture_all ps (snd (capture_write p w))"

text \<open>
  Running a command writes chunks to standard output and standard error, in some order, and ends
  with an exit code or with an error other than \<open>*exec.ExitError\<close>.
\<close>

record process_end =
  pe_chunks :: "string list"
  pe_exit :: "gerror + int"

definition run_command_with_bounded_output :: "process_end \<Rightarrow> int \<Rightarrow> gerror + (string \<times> int)" where
  "run_command_with_bounded_output pe capture_limit =
     (case pe_exit pe of
        Inl e \<Rightarrow> Inl e
      | Inr exit_code \<Rightarrow>
          if capture_limit > 0
          then Inr (cw_buf (capture_all (pe_chunks pe) (new_bounded_capture_writer capture_limit)),
            exit_code)
          else Inr ('''', exit_code))"

definition default_output_capture_bytes :: int where
  "default_output_capture_bytes = 64 * 1024"

definition effective_output_capture_limit :: "string \<Rightarrow> int \<Rightarrow> int" where
  "effective_output_capture_limit output_mode max_bytes =
     (if equal_fold (trim_space output_mode) ''none'' then 0
      else if max_bytes > 0 then max_bytes
      else default_output_capture_bytes)"

section \<open>Matchers\<close>

text \<open>A matcher at a position gives the replacement and the length of the match, never 0.\<close>

type_synonym matcher = "char option \<Rightarrow> string \<Rightarrow> (string \<times> nat) option"

function replace_all :: "matcher \<Rightarrow> char option \<Rightarrow> string \<Rightarrow> string" where
  "replace_all f prv [] = []"
| "replace_all f prv (c # cs) =
     (case f prv (c # cs) of
        Some (replacement, n) \<Rightarrow>
          replacement @ replace_all f (Some ((c # cs) ! (n - 1))) (drop (n - 1) cs)
      | None \<Rightarrow> c # replace_all f (Some c) cs)"
  by pat_completeness auto
termination by (relation "measure (\<lambda>(f, prv, s). length s)") auto

definition bearer_stop :: "char \<Rightarrow> bool" where
  "bearer_stop c \<longleftrightarrow> re_space c \<or> c \<in> {CHR 0x22, CHR 0x27, CHR 0x60}"

definition bearer_at :: matcher where
  "bearer_at prv s =
     (case match_word ''authorization'' s of
        None \<Rightarrow> None
      | Some r \<Rightarrow>
          (case dropWhile re_space r of
             [] \<Rightarrow> None
           | c # r \<Rightarrow>
               if c \<noteq> CHR '':'' then None
               else case match_word ''bearer'' (dropWhile re_space r) of
                 None \<Rightarrow> None
               | Some r \<Rightarrow>
                   let tok = dropWhile re_space r; val = takeWhile (\<lambda>x. \<not> bearer_stop x) tok in
                   if tok = r \<or> val = [] then None
                   else
                     let head = length s - length tok in
                     Some (take head s @ ''[REDACTED_BEARER_TOKEN]'', head + length val)))"

definition env_name_char :: "char \<Rightarrow> bool" where
  "env_name_char c \<longleftrightarrow>
     (65 \<le> byte c \<and> byte c \<le> 90) \<or> (48 \<le> byte c \<and> byte c \<le> 57) \<or> c = CHR ''_''"

definition secret_suffixes :: "string list" where
  "secret_suffixes = [''TOKEN'', ''SECRET'', ''API_KEY'', ''PASSWORD'']"

text \<open>A quoted value up to the closing quote, or what stands before the next space.\<close>

definition quoted_length :: "char \<Rightarrow> string \<Rightarrow> nat option" where
  "quoted_length q s =
     (case s of
        [] \<Rightarrow> None
      | c # cs \<Rightarrow>
          if c = q \<and> q \<in> set cs then Some (length (takeWhile (\<lambda>x. x \<noteq> q) cs) + 2) else None)"

definition env_value_length :: "string \<Rightarrow> nat" where
  "env_value_length s =
     (case quoted_length (CHR 0x22) s of
        Some n \<Rightarrow> n
      | None \<Rightarrow>
          (case quoted_length (CHR 0x27) s of
             Some n \<Rightarrow> n
           | None \<Rightarrow> length (takeWhile (\<lambda>x. \<not> re_space x) s)))"

definition env_secret_at :: matcher where
  "env_secret_at prv s =
     (let name = takeWhile env_name_char s in
      if \<not> word_boundary prv s \<or> \<not> list_ex (has_suffix name) secret_suffixes then None
      else case dropWhile re_space (drop (length name) s) of
        [] \<Rightarrow> None
      | c # r \<Rightarrow>
          if c \<noteq> CHR ''='' then None
          else
            let val = dropWhile re_space r; head = length s - length val in
            if env_value_length val = 0 then None
            else Some (take head s @ ''[REDACTED_ENV_VALUE]'', head + env_value_length val))"

definition github_token :: "string \<Rightarrow> bool" where
  "github_token w \<longleftrightarrow>
     has_prefix w ''gh'' \<and> 4 < length w \<and> w ! 2 \<in> set ''pousr'' \<and> w ! 3 = CHR ''_''"

definition github_token_at :: matcher where
  "github_token_at prv s =
     (let w = takeWhile is_word s in
      if word_boundary prv s \<and> github_token w
      then Some (''[REDACTED_GITHUB_TOKEN]'', length w) else None)"

definition api_token_char :: "char \<Rightarrow> bool" where
  "api_token_char c \<longleftrightarrow> is_word c \<or> c = CHR ''.'' \<or> c = CHR ''-''"

text \<open>The final \<open>\b\<close> gives up the dots and dashes a token ends with.\<close>

definition api_token_at :: matcher where
  "api_token_at prv s =
     (if word_boundary prv s \<and> has_prefix s ''sk-'' then
        let run = takeWhile api_token_char (drop 3 s);
            body = rev (dropWhile (\<lambda>c. \<not> is_word c) (rev run))
        in if body = [] then None else Some (''[REDACTED_API_TOKEN]'', 3 + length body)
      else None)"

definition output_redactors :: "matcher list" where
  "output_redactors = [bearer_at, env_secret_at, github_token_at, api_token_at]"

definition redact_output :: "string \<Rightarrow> string" where
  "redact_output s = fold (\<lambda>f. replace_all f None) output_redactors s"

definition apply_output_mode :: "string \<Rightarrow> string \<Rightarrow> string" where
  "apply_output_mode mode s =
     (let m = to_lower (trim_space mode) in
      if m = ''none'' then '''' else if m = ''raw'' then s else redact_output s)"

section \<open>What is captured\<close>

lemma capture_all_buf:
  assumes "0 < cw_limit w" and "int (length (cw_buf w)) \<le> cw_limit w"
  shows "cw_buf (capture_all ps w) = take (nat (cw_limit w)) (cw_buf w @ concat ps)"
  using assms
proof (induction ps arbitrary: w)
  case (Cons p ps)
  let ?w = "snd (capture_write p w)"
  have b: "cw_buf ?w = take (nat (cw_limit w)) (cw_buf w @ p)" and l: "cw_limit ?w = cw_limit w"
    using Cons.prems by (auto simp: capture_write_def Let_def nat_diff_distrib)
  have "length (cw_buf ?w) \<le> nat (cw_limit w)" using b by simp
  then have "cw_buf (capture_all ps ?w) = take (nat (cw_limit w)) (cw_buf ?w @ concat ps)"
    using Cons.IH [of ?w] Cons.prems(1) l by simp
  then show ?case using b by (auto simp: min_def)
qed simp

text \<open>
  Of the output of a command that exits, the broker keeps exactly the leading bytes up to the
  limit, however the output was cut into writes.
\<close>

theorem captured_output_is_a_prefix:
  assumes "pe_exit pe = Inr code"
  shows "run_command_with_bounded_output pe limit =
    Inr (take (nat limit) (concat (pe_chunks pe)), code)"
proof (cases "0 < limit")
  case True
  then show ?thesis
    using assms capture_all_buf [of "new_bounded_capture_writer limit" "pe_chunks pe"]
    by (simp add: run_command_with_bounded_output_def new_bounded_capture_writer_def)
qed (use assms in \<open>simp add: run_command_with_bounded_output_def\<close>)

theorem captured_output_is_a_prefix_witness:
  "run_command_with_bounded_output \<lparr>pe_chunks = [''abc'', ''def'', ''g''], pe_exit = Inr 2\<rparr> 5 =
     Inr (''abcde'', 2)"
  using captured_output_is_a_prefix [of "\<lparr>pe_chunks = [''abc'', ''def'', ''g''], pe_exit = Inr 2\<rparr>" 2 5]
  by simp

section \<open>What is redacted\<close>

definition prv_word :: "char option \<Rightarrow> bool" where
  "prv_word prv \<longleftrightarrow> (case prv of None \<Rightarrow> False | Some c \<Rightarrow> is_word c)"

definition last_of :: "char option \<Rightarrow> string \<Rightarrow> char option" where
  "last_of prv a = (if a = [] then prv else Some (last a))"

text \<open>No match of \<open>f\<close> starts anywhere in the text.\<close>

definition clear_of :: "matcher \<Rightarrow> char option \<Rightarrow> string \<Rightarrow> bool" where
  "clear_of f prv s \<longleftrightarrow> (\<forall>a b. s = a @ b \<longrightarrow> f (last_of prv a) b = None)"

lemma clear_of_Cons:
  "clear_of f prv (c # s) \<longleftrightarrow> f prv (c # s) = None \<and> clear_of f (Some c) s"
proof
  assume l: "clear_of f prv (c # s)"
  then have "f (last_of prv []) (c # s) = None" unfolding clear_of_def by blast
  moreover have "f (last_of (Some c) a) b = None" if "s = a @ b" for a b
  proof -
    have "f (last_of prv (c # a)) b = None" using l that unfolding clear_of_def by simp
    then show ?thesis by (cases a) (simp_all add: last_of_def)
  qed
  ultimately show "f prv (c # s) = None \<and> clear_of f (Some c) s"
    by (simp add: clear_of_def last_of_def)
next
  assume r: "f prv (c # s) = None \<and> clear_of f (Some c) s"
  show "clear_of f prv (c # s)"
    unfolding clear_of_def
  proof (intro allI impI)
    fix a b assume e: "c # s = a @ b"
    show "f (last_of prv a) b = None"
    proof (cases a)
      case Nil with e r show ?thesis by (simp add: last_of_def)
    next
      case (Cons x a')
      with e r have "f (last_of (Some c) a') b = None" by (simp add: clear_of_def)
      with Cons e show ?thesis by (cases a') (simp_all add: last_of_def)
    qed
  qed
qed

lemma clear_of_drop: "clear_of f prv (a @ b) \<Longrightarrow> clear_of f (last_of prv a) b"
proof -
  assume c: "clear_of f prv (a @ b)"
  have "f (last_of (last_of prv a) a') b' = None" if "b = a' @ b'" for a' b'
  proof -
    have "f (last_of prv (a @ a')) b' = None" using c that unfolding clear_of_def by simp
    then show ?thesis by (auto simp: last_of_def split: if_splits)
  qed
  then show ?thesis by (simp add: clear_of_def)
qed

text \<open>
  A redactor whose matches are whole words, as far as the characters next to them go, and whose
  replacement holds no GitHub token.
\<close>

definition word_redactor :: "matcher \<Rightarrow> bool" where
  "word_redactor f \<longleftrightarrow>
     (\<forall>prv s rep n. f prv s = Some (rep, n) \<longrightarrow>
        \<not> prv_word prv \<and> s \<noteq> [] \<and> is_word (hd s) \<and> 0 < n \<and> n \<le> length s \<and> is_word (s ! (n - 1)) \<and>
        (drop n s = [] \<or> \<not> is_word (hd (drop n s))) \<and>
        (\<forall>p t. clear_of github_token_at (Some (CHR '']'')) t \<longrightarrow>
           clear_of github_token_at p (rep @ t)))"

lemma word_boundary_word: "is_word c \<Longrightarrow> word_boundary prv (c # s) \<longleftrightarrow> \<not> prv_word prv"
  by (auto simp: word_boundary_def prv_word_def)

lemma github_token_at_None:
  "github_token_at prv s = None \<longleftrightarrow>
     \<not> word_boundary prv s \<or> \<not> github_token (takeWhile is_word s)"
  by (simp add: github_token_at_def Let_def)

lemma github_token_Nil [simp]: "\<not> github_token []"
  by (simp add: github_token_def)

lemma github_at_Nil [simp]: "github_token_at prv [] = None"
  by (simp add: github_token_at_None)

lemma clear_of_Nil [simp]: "clear_of github_token_at prv []"
  by (simp add: clear_of_def)

lemma github_at_no_word: "\<not> is_word c \<Longrightarrow> github_token_at prv (c # s) = None"
  by (simp add: github_token_at_None)

lemma word_redactor_word:
  assumes "word_redactor f" and "is_word c"
  shows "takeWhile is_word (replace_all f (Some c) s) = takeWhile is_word s"
  using assms(2)
proof (induction s arbitrary: c)
  case (Cons d s)
  have "f (Some c) (d # s) = None"
    using assms(1) Cons.prems unfolding word_redactor_def prv_word_def
    by (cases "f (Some c) (d # s)") fastforce+
  with Cons.IH [of d] show ?case by simp
qed simp

lemma redactor_clears:
  assumes f: "word_redactor f"
    and "(\<forall>p t. f p t = None \<longrightarrow> github_token_at p t = None) \<or> clear_of github_token_at prv s"
    and "prv_word q = prv_word prv"
  shows "clear_of github_token_at q (replace_all f prv s)"
  using assms(2,3)
proof (induction "length s" arbitrary: s prv q rule: less_induct)
  case less
  let ?g = github_token_at
  show ?case
  proof (cases s)
    case (Cons c cs)
    show ?thesis
    proof (cases "f prv s")
      case None
      let ?t = "replace_all f (Some c) cs"
      have run: "is_word c \<Longrightarrow> takeWhile is_word ?t = takeWhile is_word cs"
        by (rule word_redactor_word [OF f])
      have "?g prv s = None"
        using less.prems(1) None Cons by (auto simp: clear_of_Cons)
      then have "?g q (c # ?t) = None"
        using run less.prems(2) Cons
        by (cases "is_word c") (simp_all add: github_token_at_None word_boundary_word)
      moreover have "clear_of ?g (Some c) ?t"
      proof (rule less.hyps)
        show "length cs < length s" using Cons by simp
        show "(\<forall>p t. f p t = None \<longrightarrow> ?g p t = None) \<or> clear_of ?g (Some c) cs"
          using less.prems(1) Cons by (auto simp: clear_of_Cons)
      qed simp
      ultimately show ?thesis using None Cons by (simp add: clear_of_Cons)
    next
      case (Some m)
      obtain rep n where m: "m = (rep, n)" by (cases m)
      let ?r = "drop n s" and ?x = "Some (s ! (n - 1))"
      have w: "0 < n" "n \<le> length s" "is_word (s ! (n - 1))" "?r = [] \<or> \<not> is_word (hd ?r)"
        and rep: "\<And>p t. clear_of ?g (Some (CHR '']'')) t \<Longrightarrow> clear_of ?g p (rep @ t)"
        using f Some m unfolding word_redactor_def by blast+
      have out: "replace_all f prv s = rep @ replace_all f ?x ?r"
        using Some m Cons w(1) by (cases n) simp_all
      have last: "last_of prv (take n s) = ?x"
        using w(1,2) by (auto simp: last_of_def last_conv_nth min_def)
      have ih: "clear_of ?g ?x (replace_all f ?x ?r)"
      proof (rule less.hyps)
        show "length ?r < length s" using w(1,2) by simp
        show "(\<forall>p t. f p t = None \<longrightarrow> ?g p t = None) \<or> clear_of ?g ?x ?r"
          using less.prems(1) clear_of_drop [of ?g prv "take n s" ?r] last by auto
      qed simp
      have "clear_of ?g (Some (CHR '']'')) (replace_all f ?x ?r)"
      proof (cases ?r)
        case r: (Cons d ds)
        with w(4) have d: "\<not> is_word d" by simp
        have "f ?x (d # ds) = None"
          using f d unfolding word_redactor_def by (cases "f ?x (d # ds)") fastforce+
        with ih r d show ?thesis by (simp add: clear_of_Cons github_at_no_word)
      qed simp
      then show ?thesis unfolding out by (rule rep)
    qed
  qed simp
qed

lemma bracketed_clear:
  assumes "clear_of github_token_at (Some (CHR '']'')) t"
  shows "clear_of github_token_at p (''[REDACTED_GITHUB_TOKEN]'' @ t)"
    and "clear_of github_token_at p (''[REDACTED_API_TOKEN]'' @ t)"
  using assms
  by (simp_all add: clear_of_Cons github_token_at_None word_boundary_def github_token_def
      has_prefix_def is_word_def)

lemma github_word_redactor: "word_redactor github_token_at"
  unfolding word_redactor_def
proof (intro allI impI)
  fix prv s rep n assume m: "github_token_at prv s = Some (rep, n)"
  let ?w = "takeWhile is_word s"
  have w: "word_boundary prv s" "github_token ?w" and n: "n = length ?w"
    and r: "rep = ''[REDACTED_GITHUB_TOKEN]''"
    using m by (auto simp: github_token_at_def Let_def split: if_splits)
  then have ne: "?w \<noteq> []" by auto
  then obtain c cs where s: "s = c # cs" "is_word c" by (cases s) (auto split: if_splits)
  have d: "drop n s = dropWhile is_word s" by (simp add: n dropWhile_eq_drop)
  have "s ! (n - 1) = ?w ! (n - 1)"
    using ne by (simp add: n takeWhile_nth)
  also have "\<dots> \<in> set ?w" using ne n by (intro nth_mem) simp
  finally have "is_word (s ! (n - 1))" by (rule set_takeWhileD [THEN conjunct2])
  then show "\<not> prv_word prv \<and> s \<noteq> [] \<and> is_word (hd s) \<and> 0 < n \<and> n \<le> length s \<and>
      is_word (s ! (n - 1)) \<and> (drop n s = [] \<or> \<not> is_word (hd (drop n s))) \<and>
      (\<forall>p t. clear_of github_token_at (Some (CHR '']'')) t \<longrightarrow> clear_of github_token_at p (rep @ t))"
    using w(1) s ne d r bracketed_clear(1) hd_dropWhile [of is_word s] length_takeWhile_le [of is_word s]
    by (auto simp: word_boundary_word n)
qed

lemma api_word_redactor: "word_redactor api_token_at"
  unfolding word_redactor_def
proof (intro allI impI)
  fix prv s rep n assume m: "api_token_at prv s = Some (rep, n)"
  let ?run = "takeWhile api_token_char (drop 3 s)"
  let ?bwd = "dropWhile (\<lambda>c. \<not> is_word c) (rev ?run)"
  have w: "word_boundary prv s" "has_prefix s ''sk-''" and ne: "?bwd \<noteq> []" and n: "n = 3 + length ?bwd"
    and r: "rep = ''[REDACTED_API_TOKEN]''"
    using m by (auto simp: api_token_at_def Let_def split: if_splits simp del: dropWhile_eq_Nil_conv)
  obtain u where u: "s = ''sk-'' @ u" using w(2) by (auto simp: has_prefix_iff)
  let ?tail = "rev (takeWhile (\<lambda>c. \<not> is_word c) (rev ?run))"
  have run: "?run = rev ?bwd @ ?tail"
    by (metis rev_append rev_rev_ident takeWhile_dropWhile_id)
  have us: "u = ?run @ dropWhile api_token_char u" using u by simp
  have s: "s = ''sk-'' @ rev ?bwd @ ?tail @ dropWhile api_token_char u"
    using u us run by (metis append.assoc)
  have at: "drop (3 + length x) (''sk-'' @ rev x @ y) = y"
    "x \<noteq> [] \<Longrightarrow> (''sk-'' @ rev x @ y) ! (2 + length x) = rev x ! (length x - 1)"
    "3 + length x \<le> length (''sk-'' @ rev x @ y)" for x y :: string
    by (simp_all add: numeral_3_eq_3 nth_append nth_Cons')
  have d: "drop n s = ?tail @ dropWhile api_token_char u"
    unfolding n using s at(1) by metis
  have "n - 1 = 2 + length ?bwd" by (simp add: n)
  then have "s ! (n - 1) = rev ?bwd ! (length ?bwd - 1)"
    using s at(2) [OF ne] by metis
  also have "\<dots> = hd ?bwd" using ne by (simp add: rev_nth hd_conv_nth)
  finally have l: "is_word (s ! (n - 1))"
    using hd_dropWhile [OF ne] by simp
  have t: "drop n s = [] \<or> \<not> is_word (hd (drop n s))"
  proof (cases "?tail = []")
    case True
    have "dropWhile api_token_char u \<noteq> [] \<Longrightarrow> \<not> api_token_char (hd (dropWhile api_token_char u))"
      by (rule hd_dropWhile)
    then show ?thesis using True d by (auto simp: api_token_char_def)
  next
    case False
    then have "hd ?tail \<in> set ?tail" by (rule hd_in_set)
    then have "\<not> is_word (hd ?tail)" by (auto dest: set_takeWhileD)
    with False d show ?thesis by simp
  qed
  have nl: "n \<le> length s" unfolding n using s at(3) by metis
  have "is_word (CHR ''s'')" by (simp add: is_word_def)
  with w(1) u have "\<not> prv_word prv" "is_word (hd s)" "s \<noteq> []"
    by (simp_all add: word_boundary_word)
  with l t nl r bracketed_clear(2)
  show "\<not> prv_word prv \<and> s \<noteq> [] \<and> is_word (hd s) \<and> 0 < n \<and> n \<le> length s \<and>
      is_word (s ! (n - 1)) \<and> (drop n s = [] \<or> \<not> is_word (hd (drop n s))) \<and>
      (\<forall>p t. clear_of github_token_at (Some (CHR '']'')) t \<longrightarrow> clear_of github_token_at p (rep @ t))"
    by (simp add: n)
qed

text \<open>
  Redacted output holds no GitHub token: no word of it, with nothing but other characters
  next to it, has the form of one.
\<close>

theorem redacted_output_has_no_github_token:
  assumes "redact_output s = a @ w @ b" and "\<forall>c\<in>set w. is_word c"
    and "a = [] \<or> \<not> is_word (last a)" and "b = [] \<or> \<not> is_word (hd b)"
  shows "\<not> github_token w"
proof
  assume t: "github_token w"
  have "clear_of github_token_at None (replace_all github_token_at None x)" for x
    by (rule redactor_clears [OF github_word_redactor]) simp_all
  then have "clear_of github_token_at None (replace_all api_token_at None (replace_all github_token_at None x))" for x
    by (intro redactor_clears [OF api_word_redactor]) simp_all
  then have "clear_of github_token_at None (a @ w @ b)"
    unfolding assms(1) [symmetric] by (simp add: redact_output_def output_redactors_def)
  then have "github_token_at (last_of None a) (w @ b) = None"
    unfolding clear_of_def by blast
  moreover have run: "takeWhile is_word (w @ b) = w"
    using assms(2,4) by (cases b) (auto simp: takeWhile_tail takeWhile_append2)
  moreover obtain c w' where "w = c # w'" using t by (cases w) auto
  ultimately show False
    using t assms(2,3)
    by (auto simp: github_token_at_None word_boundary_word prv_word_def last_of_def split: if_splits)
qed

theorem redacted_output_has_no_github_token_witness:
  "redact_output ''key ghp_Abc123 end'' = ''key [REDACTED_GITHUB_TOKEN] end'' \<and>
   \<not> github_token ''REDACTED_GITHUB_TOKEN''"
proof -
  have r: "redact_output ''key ghp_Abc123 end'' =
      ''key ['' @ ''REDACTED_GITHUB_TOKEN'' @ ''] end''" by code_simp
  have "\<not> github_token ''REDACTED_GITHUB_TOKEN''"
    by (rule redacted_output_has_no_github_token [OF r]) (simp_all add: is_word_def)
  with r show ?thesis by simp
qed

end
