(* ===== verification/ControlPolicy.thy ===== *)
theory ControlPolicy
  imports NetPolicy Output
begin

text \<open>
  The policy a command has to pass before the broker runs it
  (\<open>internal/app/control_plane_policy.go\<close>), with the policies' configuration
  (\<open>internal/config/execution_policy.go\<close>, \<open>internal/config/host_ops_policy.go\<close>). The interface
  \<open>ControlPlanePolicy\<close> is a record of functions; only resolving a command looks at the world.
\<close>

record 'w control_plane_policy =
  cp_validate_execute_request :: "string \<Rightarrow> string \<Rightarrow> string list \<Rightarrow> gerror option"
  cp_validate_execute_command :: "string list \<Rightarrow> gerror option"
  cp_resolve_execute_command :: "string list \<Rightarrow> 'w \<Rightarrow> gerror + resolved_command"
  cp_validate_network_egress :: "string list \<Rightarrow> string \<Rightarrow> gerror option"
  cp_validate_host_docker_command :: "string list \<Rightarrow> gerror option"
  cp_resolve_host_docker_command :: "string list \<Rightarrow> 'w \<Rightarrow> gerror + resolved_command"
  cp_apply_output_security :: "string \<Rightarrow> string"
  cp_clamp_timeout :: "int \<Rightarrow> int"

section \<open>Configuration\<close>

record execution_policy =
  ep_exact_match_executables :: "string list"
  ep_command_search_paths :: "string list"
  ep_denylist_substrings :: "string list"
  ep_output_security_mode :: string
  ep_max_output_bytes :: int
  ep_default_timeout_sec :: int
  ep_max_timeout_sec :: int

definition default_execution_policy :: execution_policy where
  "default_execution_policy =
     \<lparr>ep_exact_match_executables = [''bash'', ''sh'', ''npm'', ''node'', ''go'', ''python'',
        ''python3'', ''pytest'', ''make'', ''git''],
      ep_command_search_paths = default_command_search_paths,
      ep_denylist_substrings = [''printenv'', ''/proc/'', ''environ'', ''aws_secret_access_key'',
        ''OPENAI_API_KEY''],
      ep_output_security_mode = ''redacted'', ep_max_output_bytes = 65536,
      ep_default_timeout_sec = 120, ep_max_timeout_sec = 600\<rparr>"

record host_ops_policy =
  ho_docker_allow_subcommands :: "string list"
  ho_docker_compose_allow_verbs :: "string list"
  ho_docker_ps_allowed_flags :: "string list"
  ho_docker_images_allowed_flags :: "string list"
  ho_docker_deny_substrings :: "string list"
  ho_docker_timeout_sec :: int

definition default_host_ops_policy :: host_ops_policy where
  "default_host_ops_policy =
     \<lparr>ho_docker_allow_subcommands = [''version'', ''ps'', ''images'', ''compose''],
      ho_docker_compose_allow_verbs = [''config'', ''ps'', ''ls'', ''images''],
      ho_docker_ps_allowed_flags = [''-a'', ''--all'', ''-q'', ''--quiet'', ''--format'', ''-f'',
        ''--filter'', ''--no-trunc'', ''-n'', ''--last''],
      ho_docker_images_allowed_flags = [''-q'', ''--quiet'', ''--format'', ''--no-trunc'',
        ''--digests'', ''--filter''],
      ho_docker_deny_substrings = [''--privileged'', ''--pid=host'', ''-v /:/'', ''docker.sock'',
        ''--network host'', ''--mount'', ''-v ''],
      ho_docker_timeout_sec = 30\<rparr>"

record default_control_policy =
  dp_exec :: execution_policy
  dp_host_ops :: host_ops_policy
  dp_network :: network_egress_policy
  dp_output_mode :: string
  dp_default_timeout :: int
  dp_max_timeout :: int

definition new_default_control_plane_policy ::
  "execution_policy \<Rightarrow> host_ops_policy \<Rightarrow> network_egress_policy \<Rightarrow> default_control_policy" where
  "new_default_control_plane_policy ep ho ne =
     \<lparr>dp_exec = ep, dp_host_ops = ho, dp_network = ne, dp_output_mode = ep_output_security_mode ep,
      dp_default_timeout = ep_default_timeout_sec ep, dp_max_timeout = ep_max_timeout_sec ep\<rparr>"

section \<open>Brokered commands\<close>

fun executable_listed :: "string \<Rightarrow> string list \<Rightarrow> bool" where
  "executable_listed cmd0 [] = False"
| "executable_listed cmd0 (e # es) =
     (if cmd0 \<noteq> '''' \<and> cmd0 = executable_identity e then True else executable_listed cmd0 es)"

definition validate_execute_command :: "default_control_policy \<Rightarrow> string list \<Rightarrow> gerror option" where
  "validate_execute_command p cmd =
     (case cmd of
        [] \<Rightarrow> Some (Plain ''empty command'')
      | c # _ \<Rightarrow>
          let cmd0 = executable_identity c in
          if \<not> executable_listed cmd0 (ep_exact_match_executables (dp_exec p))
          then Some (Plain (''command '' @ quote cmd0 @ '' not allowed by execution policy''))
          else case denied_substring (to_lower (join '' '' cmd)) (ep_denylist_substrings (dp_exec p)) of
            Some d \<Rightarrow> Some (Plain (''command denied by policy substring '' @ quote d))
          | None \<Rightarrow> None)"

definition validate_execute_request ::
  "default_control_policy \<Rightarrow> string \<Rightarrow> string \<Rightarrow> string list \<Rightarrow> gerror option" where
  "validate_execute_request p security_profile intent cmd =
     (if security_profile = ''hardened'' \<and> trim_space intent = ''''
      then Some (Plain ''intent is required in hardened profile'')
      else if security_profile = ''hardened'' \<and> cmd \<noteq> [] \<and>
        to_lower (trim_space (hd cmd)) \<in> {''bash'', ''sh'', ''zsh''}
      then Some (Plain ''raw shell wrappers are not allowed in hardened profile'')
      else validate_execute_command p cmd)"

definition resolve_execute_command ::
  "'w os_files \<Rightarrow> default_control_policy \<Rightarrow> string list \<Rightarrow> 'w \<Rightarrow> gerror + resolved_command" where
  "resolve_execute_command os p cmd w =
     (case validate_execute_command p cmd of
        Some e \<Rightarrow> Inl e
      | None \<Rightarrow> resolve_execution_command os cmd (ep_command_search_paths (dp_exec p)) w)"

section \<open>Docker on the host\<close>

definition contains_ci :: "string list \<Rightarrow> string \<Rightarrow> bool" where
  "contains_ci items needle \<longleftrightarrow>
     (let n = to_lower (trim_space needle) in list_ex (\<lambda>it. to_lower (trim_space it) = n) items)"

text \<open>A flag takes the argument after it along, unless that one starts with a dash itself.\<close>

function validate_flags :: "string list \<Rightarrow> string list \<Rightarrow> gerror option" where
  "validate_flags allow [] = None"
| "validate_flags allow (arg # args) =
     (let a = trim_space arg in
      if a = '''' then validate_flags allow args
      else if has_prefix a ''-'' then
        (if \<not> contains_ci allow a then Some (Plain (''flag '' @ quote a @ '' not allowed''))
         else validate_flags allow
           (if args \<noteq> [] \<and> \<not> has_prefix (hd args) ''-'' then tl args else args))
      else Some (Plain (''positional argument '' @ quote a @ '' not allowed'')))"
  by pat_completeness auto
termination by (relation "measure (length \<circ> snd)") auto

definition prefixed :: "string \<Rightarrow> gerror option \<Rightarrow> gerror option" where
  "prefixed what err = map_option (\<lambda>e. Wrapped e (what @ '': '' @ err_msg e)) err"

definition compose_flags :: "string list" where
  "compose_flags = [''--project-name'', ''-p'', ''--file'', ''-f'', ''--profiles'', ''--profile'',
     ''--ansi'', ''--progress'']"

definition validate_host_docker_command :: "default_control_policy \<Rightarrow> string list \<Rightarrow> gerror option" where
  "validate_host_docker_command p cmd =
     (let ho = dp_host_ops p in
      if length cmd < 2 then Some (Plain ''command must include docker and subcommand'')
      else if hd cmd \<noteq> ''docker'' then Some (Plain ''only docker command is allowed'')
      else
        let sub = trim_space (to_lower (cmd ! 1)) in
        if \<not> contains_ci (ho_docker_allow_subcommands ho) sub
        then Some (Plain (''docker subcommand '' @ quote sub @ '' not allowed''))
        else case denied_substring (to_lower (join '' '' cmd)) (ho_docker_deny_substrings ho) of
          Some d \<Rightarrow> Some (Plain (''docker command denied by policy substring '' @ quote d))
        | None \<Rightarrow>
            if sub = ''version'' then
              (if length cmd > 2
               then Some (Plain ''docker version does not allow extra args in this policy'') else None)
            else if sub = ''ps''
            then prefixed ''docker ps'' (validate_flags (ho_docker_ps_allowed_flags ho) (drop 2 cmd))
            else if sub = ''images''
            then prefixed ''docker images''
              (validate_flags (ho_docker_images_allowed_flags ho) (drop 2 cmd))
            else if sub = ''compose'' then
              (if length cmd < 3 then Some (Plain ''docker compose requires verb'')
               else
                 let verb = to_lower (trim_space (cmd ! 2)) in
                 if \<not> contains_ci (ho_docker_compose_allow_verbs ho) verb
                 then Some (Plain (''docker compose verb '' @ quote verb @ '' not allowed''))
                 else prefixed ''docker compose'' (validate_flags compose_flags (drop 3 cmd)))
            else None)"

definition resolve_host_docker_command ::
  "'w os_files \<Rightarrow> default_control_policy \<Rightarrow> string list \<Rightarrow> 'w \<Rightarrow> gerror + resolved_command" where
  "resolve_host_docker_command os p cmd w =
     (case validate_host_docker_command p cmd of
        Some e \<Rightarrow> Inl e
      | None \<Rightarrow> resolve_execution_command os cmd (ep_command_search_paths (dp_exec p)) w)"

section \<open>Output and timeout\<close>

definition apply_output_security :: "default_control_policy \<Rightarrow> string \<Rightarrow> string" where
  "apply_output_security p s =
     (let m = to_lower (trim_space (dp_output_mode p)) in
      if m = ''none'' then '''' else if m = ''raw'' then s else redact_output s)"

definition clamp_timeout :: "default_control_policy \<Rightarrow> int \<Rightarrow> int" where
  "clamp_timeout p requested =
     (let timeout = (if requested \<le> 0 then dp_default_timeout p else requested) in
      if timeout > dp_max_timeout p then dp_max_timeout p else timeout)"

definition default_policy_engine ::
  "'w os_files \<Rightarrow> default_control_policy \<Rightarrow> 'w control_plane_policy" where
  "default_policy_engine os p =
     \<lparr>cp_validate_execute_request = validate_execute_request p,
      cp_validate_execute_command = validate_execute_command p,
      cp_resolve_execute_command = resolve_execute_command os p,
      cp_validate_network_egress = validate_network_egress (dp_network p),
      cp_validate_host_docker_command = validate_host_docker_command p,
      cp_resolve_host_docker_command = resolve_host_docker_command os p,
      cp_apply_output_security = apply_output_security p,
      cp_clamp_timeout = clamp_timeout p\<rparr>"

section \<open>What passes\<close>

lemma executable_listed_iff:
  "executable_listed c es \<longleftrightarrow> c \<noteq> '''' \<and> c \<in> executable_identity ` set es"
  by (induction es) auto

text \<open>
  The requested timeout is clamped into the configured range, and no timeout means the
  default one.
\<close>

theorem timeout_within_bounds:
  assumes "0 < dp_default_timeout p" and "dp_default_timeout p \<le> dp_max_timeout p"
  shows "0 < clamp_timeout p requested \<and> clamp_timeout p requested \<le> dp_max_timeout p \<and>
    (requested \<le> 0 \<longrightarrow> clamp_timeout p requested = dp_default_timeout p) \<and>
    (0 < requested \<longrightarrow> clamp_timeout p requested = min requested (dp_max_timeout p))"
  using assms by (auto simp: clamp_timeout_def Let_def)

theorem timeout_within_bounds_witness:
  "clamp_timeout (new_default_control_plane_policy default_execution_policy default_host_ops_policy
     default_network_egress_policy) 100000 = 600"
proof -
  let ?p = "new_default_control_plane_policy default_execution_policy default_host_ops_policy
    default_network_egress_policy"
  have d: "dp_default_timeout ?p = 120" "dp_max_timeout ?p = 600"
    by (simp_all add: new_default_control_plane_policy_def default_execution_policy_def)
  then have "0 < dp_default_timeout ?p" "dp_default_timeout ?p \<le> dp_max_timeout ?p" by simp_all
  from timeout_within_bounds [OF this, of 100000] d show ?thesis by simp
qed

text \<open>
  C23: A command that passes names an executable of the list, whatever directory it is given in,
  and holds no denied substring; in the hardened profile it also comes with an intent and is no
  bare shell.
\<close>

theorem executed_command_is_listed:
  assumes "validate_execute_request p profile intent cmd = None"
  shows "cmd \<noteq> [] \<and>
    executable_identity (hd cmd) \<in>
      executable_identity ` set (ep_exact_match_executables (dp_exec p)) \<and>
    executable_identity (hd cmd) \<noteq> '''' \<and>
    (\<forall>d\<in>set (ep_denylist_substrings (dp_exec p)).
       d = '''' \<or> \<not> contains (to_lower (join '' '' cmd)) (to_lower d)) \<and>
    (profile = ''hardened'' \<longrightarrow> trim_space intent \<noteq> '''' \<and>
       to_lower (trim_space (hd cmd)) \<notin> {''bash'', ''sh'', ''zsh''})"
  using assms
  by (cases cmd)
     (auto simp: validate_execute_request_def validate_execute_command_def Let_def
       executable_listed_iff denied_substring_None [symmetric] split: if_splits option.splits)

theorem executed_command_is_listed_witness:
  "executable_identity ''/usr/bin/Git'' \<in> executable_identity `
     set (ep_exact_match_executables default_execution_policy)"
proof -
  let ?p = "new_default_control_plane_policy default_execution_policy default_host_ops_policy
    default_network_egress_policy"
  have "validate_execute_request ?p ''hardened'' ''deploy'' [''/usr/bin/Git'', ''status''] = None"
    by code_simp
  from executed_command_is_listed [OF this] show ?thesis
    by (simp add: new_default_control_plane_policy_def)
qed

text \<open>Trimming takes characters of spaces only, so a text that begins with another one still does.\<close>

lemma trim_runes_taken: "\<exists>t. s = t @ trim_runes T s \<and> set t \<subseteq> \<Union>(set ` set T)"
proof (induction T s rule: trim_runes.induct)
  case (1 T s)
  show ?case
  proof (cases "leading_rune T s")
    case (Some w)
    then have w: "w \<in> set T" "has_prefix s w" by (auto dest: leading_rune_Some)
    from 1 [OF Some] obtain t where t: "drop (length w) s = t @ trim_runes T (drop (length w) s)"
      "set t \<subseteq> \<Union>(set ` set T)" by blast
    have "s = w @ drop (length w) s" using w(2) by (auto simp: has_prefix_iff)
    then have "s = (w @ t) @ trim_runes T s"
      using t(1) Some by (metis append.assoc option.simps(5) trim_runes.simps)
    with t(2) w(1) show ?thesis by (intro exI [of _ "w @ t"]) auto
  qed (simp add: trim_runes_None)
qed

lemma trim_space_first:
  assumes "\<forall>w\<in>set space_runes. c \<notin> set w"
  shows "\<exists>r'. trim_space (c # r) = c # r'"
proof -
  have "leading_rune space_runes (c # r) = None"
    using assms by (auto simp: leading_rune_None has_prefix_iff Cons_eq_append_conv)
  then have l: "trim_left (c # r) = c # r" by (simp add: trim_left_def trim_runes_None)
  obtain t where t: "rev (c # r) = t @ trim_runes (map rev space_runes) (rev (c # r))"
    "set t \<subseteq> \<Union>(set ` set (map rev space_runes))"
    using trim_runes_taken by blast
  then have s: "c # r = trim_space (c # r) @ rev t"
    by (metis l rev_append rev_rev_ident trim_right_def trim_space_def)
  have "c \<notin> set (rev t)" using t(2) assms by auto
  then have "trim_space (c # r) \<noteq> []" using s by (metis append_Nil list.set_intros(1))
  with s show ?thesis by (cases "trim_space (c # r)") auto
qed

lemma dash_trimmed: "has_prefix a ''-'' \<Longrightarrow> has_prefix (trim_space a) ''-''"
proof -
  assume "has_prefix a ''-''"
  then obtain r where a: "a = CHR ''-'' # r" by (auto simp: has_prefix_iff)
  have "\<forall>w\<in>set space_runes. CHR ''-'' \<notin> set w" by (simp add: space_runes_def)
  from trim_space_first [OF this, of r] a show ?thesis by (auto simp: has_prefix_iff)
qed

lemma dash_not_blank: "has_prefix s ''-'' \<Longrightarrow> s \<noteq> ''''"
  by (auto simp: has_prefix_iff)

lemma validate_flags_listed:
  "validate_flags allow args = None \<Longrightarrow> a \<in> set args \<Longrightarrow> has_prefix a ''-'' \<Longrightarrow>
     contains_ci allow (trim_space a)"
proof (induction allow args rule: validate_flags.induct)
  case (2 allow arg args)
  let ?rest = "if args \<noteq> [] \<and> \<not> has_prefix (hd args) ''-'' then tl args else args"
  show ?case
  proof (cases "trim_space arg = ''''")
    case True
    with 2 dash_trimmed dash_not_blank show ?thesis by (auto simp: Let_def)
  next
    case False
    with "2.prems"(1) have arg: "has_prefix (trim_space arg) ''-''" "contains_ci allow (trim_space arg)"
      and rest: "validate_flags allow ?rest = None"
      by (auto simp: Let_def split: if_splits)
    have "a = arg \<or> a \<in> set ?rest"
      using "2.prems"(2,3) by (cases args) auto
    with "2.IH"(2) [OF refl False arg(1)] arg(2) rest "2.prems"(3) show ?thesis by auto
  qed
qed simp

text \<open>
  A docker command the host policy lets through is \<open>docker\<close> with an allowed subcommand and no
  denied substring, and every argument of \<open>ps\<close>, \<open>images\<close> and \<open>compose\<close> that begins with a dash is
  a flag of its list.
\<close>

theorem docker_command_is_listed:
  assumes "validate_host_docker_command p cmd = None"
  shows "hd cmd = ''docker'' \<and> 2 \<le> length cmd \<and>
    contains_ci (ho_docker_allow_subcommands (dp_host_ops p)) (trim_space (to_lower (cmd ! 1))) \<and>
    (\<forall>d\<in>set (ho_docker_deny_substrings (dp_host_ops p)).
       d = '''' \<or> \<not> contains (to_lower (join '' '' cmd)) (to_lower d)) \<and>
    (\<forall>a. has_prefix a ''-'' \<longrightarrow>
       (trim_space (to_lower (cmd ! 1)) = ''ps'' \<longrightarrow> a \<in> set (drop 2 cmd) \<longrightarrow>
          contains_ci (ho_docker_ps_allowed_flags (dp_host_ops p)) (trim_space a)) \<and>
       (trim_space (to_lower (cmd ! 1)) = ''images'' \<longrightarrow> a \<in> set (drop 2 cmd) \<longrightarrow>
          contains_ci (ho_docker_images_allowed_flags (dp_host_ops p)) (trim_space a)) \<and>
       (trim_space (to_lower (cmd ! 1)) = ''compose'' \<longrightarrow> a \<in> set (drop 3 cmd) \<longrightarrow>
          contains_ci compose_flags (trim_space a)))"
proof -
  have p: "prefixed what e = None \<longleftrightarrow> e = None" for what e by (simp add: prefixed_def)
  show ?thesis
    using assms
    by (auto simp: validate_host_docker_command_def Let_def p denied_substring_None [symmetric]
        split: if_splits option.splits intro: validate_flags_listed)
qed

theorem docker_command_is_listed_witness:
  "contains_ci (ho_docker_ps_allowed_flags default_host_ops_policy) ''--format''"
proof -
  let ?p = "new_default_control_plane_policy default_execution_policy default_host_ops_policy
    default_network_egress_policy"
  let ?cmd = "[''docker'', ''ps'', ''-a'', ''--format'', ''json'']"
  have v: "validate_host_docker_command ?p ?cmd = None" by code_simp
  have t: "trim_space (to_lower ''ps'') = ''ps''" "trim_space ''--format'' = ''--format''"
    by code_simp+
  have "has_prefix ''--format'' ''-''" by (simp add: has_prefix_def)
  with docker_command_is_listed [OF v] show ?thesis
    by (auto simp: t new_default_control_plane_policy_def)
qed

end
