(* ===== verification/Execution.thy ===== *)
theory Execution
  imports Handlers ControlPolicy
begin

text \<open>
  Running a command with leased secrets, and docker on the host
  (\<open>internal/app/execution_usecase.go\<close>), the wiring of the two use cases
  (\<open>cmd/promptlockd/control_plane_wiring.go\<close>, \<open>cmd/promptlockd/process_runner.go\<close>) and their
  handlers (\<open>execute_handler.go\<close>, \<open>host_docker_handler.go\<close>, \<open>policy_hints.go\<close>). The process
  itself is a call of the outside.
\<close>

section \<open>The use cases\<close>

record command_run_request =
  cr_command :: resolved_command
  cr_argv0 :: string
  cr_env :: "string list"
  cr_capture_limit :: int

record command_run_result =
  cx_output :: string
  cx_exit_code :: int

text \<open>A runner is given the time limit its context carries.\<close>

type_synonym 'w command_runner =
  "int \<Rightarrow> command_run_request \<Rightarrow> 'w \<Rightarrow> (gerror + command_run_result) \<times> 'w"

record command_execution_output =
  co_exit_code :: int
  co_stdout_stderr :: string
  co_audit_warning :: string

record execute_input =
  xi_actor_type :: string
  xi_actor_id :: string
  xi_lease_tok :: string
  xi_intent :: string
  xi_command :: "string list"
  xi_secrets :: "string list"
  xi_command_fingerprint :: string
  xi_workdir_fingerprint :: string
  xi_requested_timeout_sec :: int

text \<open>The two structs have their fields in common; \<open>xu_timeout_sec\<close> is only docker's and
  \<open>xu_security_profile\<close> only the other's.\<close>

record 'w use_case =
  xu_service :: "'w service option"
  xu_policy :: "'w control_plane_policy option"
  xu_runner :: "'w command_runner option"
  xu_security_profile :: string
  xu_max_output_bytes :: int
  xu_output_mode :: string
  xu_ambient_env :: "string list"
  xu_timeout_sec :: int
  xu_audit_failure_warning :: string

definition first_command_arg :: "string list \<Rightarrow> string" where
  "first_command_arg command = (case command of [] \<Rightarrow> '''' | c # _ \<Rightarrow> c)"

definition audit_failure_warning :: "'w use_case \<Rightarrow> string" where
  "audit_failure_warning u =
     (if trim_space (xu_audit_failure_warning u) \<noteq> '''' then trim_space (xu_audit_failure_warning u)
      else ''durability persistence unavailable; broker closed for safety'')"

definition command_failed :: "gerror \<Rightarrow> gerror" where
  "command_failed e =
     Wrapped (Sentinel (App ErrCommandExecutionFailed))
       (app_sentinel_text ErrCommandExecutionFailed @ '': '' @ err_msg e)"

definition truncated :: "int \<Rightarrow> string \<Rightarrow> string" where
  "truncated max_bytes output =
     (if max_bytes > 0 \<and> int (length output) > max_bytes then take (nat max_bytes) output else output)"

text \<open>
  What both use cases do once the command may run: the start is audited, the command runs, the
  output is secured and cut, and the end is audited; when that last write fails the result only
  carries a warning.
\<close>

definition run_audited ::
  "'w use_case \<Rightarrow> 'w service \<Rightarrow> 'w command_runner \<Rightarrow> (int \<Rightarrow> audit_event) \<Rightarrow> int \<Rightarrow>
   command_run_request \<Rightarrow> (string \<Rightarrow> string) \<Rightarrow> (command_run_result \<Rightarrow> int \<Rightarrow> audit_event) \<Rightarrow>
   'w \<Rightarrow> (gerror + command_execution_output) \<times> 'w"
where
  "run_audited u s run started timeout_sec rq secure ended w =
     (let (t, w) = sv_now s w in
      case audit_critical s (started t) w of
        (Some e, w) \<Rightarrow> (Inl e, w)
      | (None, w) \<Rightarrow>
          (case run (dur_mult timeout_sec second) rq w of
             (Inl e, w) \<Rightarrow> (Inl (command_failed e), w)
           | (Inr res, w) \<Rightarrow>
               let output = truncated (xu_max_output_bytes u) (secure (cx_output res));
                   (t, w) = sv_now s w;
                   (failed, w) = audit_critical s (ended res t) w
               in (Inr \<lparr>co_exit_code = cx_exit_code res, co_stdout_stderr = output,
                     co_audit_warning =
                       (if failed \<noteq> None then audit_failure_warning u else '''')\<rparr>, w)))"

definition execution_event ::
  "string \<Rightarrow> execute_input \<Rightarrow> string go_map \<Rightarrow> int \<Rightarrow> audit_event" where
  "execution_event name input meta t =
     zero_event\<lparr>ev_event := name, ev_timestamp := t, ev_actor_type := trim_space (xi_actor_type input),
       ev_actor_id := trim_space (xi_actor_id input), ev_lease_token := xi_lease_tok input,
       ev_metadata := (''command'', join '' '' (xi_command input)) # meta\<rparr>"

definition execute :: "'w use_case \<Rightarrow> execute_input \<Rightarrow> 'w \<Rightarrow> (gerror + command_execution_output) \<times> 'w"
where
  "execute u input w =
     (case (xu_service u, xu_policy u, xu_runner u) of
        (Some s, Some p, Some run) \<Rightarrow>
          if xi_secrets input = [] then (Inl (Plain ''secrets are required''), w)
          else
          (case cp_validate_execute_request p (xu_security_profile u) (xi_intent input)
                 (xi_command input) of
            Some e \<Rightarrow> (Inl e, w)
          | None \<Rightarrow>
          (case approved_lease_intent_by_agent s (xi_lease_tok input)
                 (trim_space (xi_actor_id input)) w of
            (Inl e, w) \<Rightarrow> (Inl e, w)
          | (Inr approved_intent, w) \<Rightarrow>
          if trim_space approved_intent \<noteq> '''' \<and>
             trim_space (xi_intent input) \<noteq> trim_space approved_intent
          then (Inl (Plain ''execute intent does not match approved request intent''), w)
          else
          (case cp_validate_network_egress p (xi_command input) approved_intent of
            Some err \<Rightarrow>
              (let (t, w) = sv_now s w in
               case audit_critical s
                   (zero_event\<lparr>ev_event := ''network_egress_blocked'', ev_timestamp := t,
                      ev_actor_type := trim_space (xi_actor_type input),
                      ev_actor_id := trim_space (xi_actor_id input),
                      ev_metadata := [(''reason'', err_msg err),
                        (''command'', join '' '' (xi_command input))]\<rparr>) w of
                 (Some e, w) \<Rightarrow> (Inl e, w)
               | (None, w) \<Rightarrow> (Inl err, w))
          | None \<Rightarrow>
          (case cp_resolve_execute_command p (xi_command input) w of
            Inl e \<Rightarrow> (Inl e, w)
          | Inr resolved \<Rightarrow>
          (case resolve_execution_secrets_by_agent s (trim_space (xi_actor_id input))
                 (xi_lease_tok input) (xi_secrets input) (xi_command_fingerprint input)
                 (xi_workdir_fingerprint input) w of
            (Inl e, w) \<Rightarrow> (Inl e, w)
          | (Inr secrets, w) \<Rightarrow>
              let timeout_sec = cp_clamp_timeout p (xi_requested_timeout_sec input) in
              run_audited u s run
                (execution_event ''execute_with_secret_started'' input
                   [(''timeout_sec'', utoa timeout_sec)])
                timeout_sec
                \<lparr>cr_command = resolved, cr_argv0 = first_command_arg (xi_command input),
                 cr_env = build_execution_environment_with_path_override (xu_ambient_env u) secrets
                   (rc_search_path resolved),
                 cr_capture_limit =
                   effective_output_capture_limit (xu_output_mode u) (xu_max_output_bytes u)\<rparr>
                (cp_apply_output_security p)
                (\<lambda>res. execution_event ''execute_with_secret'' input
                   [(''exit_code'', utoa (cx_exit_code res)), (''timeout_sec'', utoa timeout_sec)])
                w)))))
      | _ \<Rightarrow> (Inl (Plain ''execute use case is not fully configured''), w))"

record docker_input =
  di_actor_type :: string
  di_actor_id :: string
  di_command :: "string list"

definition docker_event :: "string \<Rightarrow> docker_input \<Rightarrow> string go_map \<Rightarrow> int \<Rightarrow> audit_event" where
  "docker_event name input meta t =
     zero_event\<lparr>ev_event := name, ev_timestamp := t, ev_actor_type := trim_space (di_actor_type input),
       ev_actor_id := trim_space (di_actor_id input),
       ev_metadata := (''command'', join '' '' (di_command input)) # meta\<rparr>"

definition use_case_output_mode :: "'w use_case \<Rightarrow> string \<Rightarrow> string" where
  "use_case_output_mode u fallback =
     (if trim_space (xu_output_mode u) \<noteq> '''' then trim_space (xu_output_mode u) else fallback)"

definition host_docker_execute ::
  "'w use_case \<Rightarrow> docker_input \<Rightarrow> 'w \<Rightarrow> (gerror + command_execution_output) \<times> 'w" where
  "host_docker_execute u input w =
     (case (xu_service u, xu_policy u, xu_runner u) of
        (Some s, Some p, Some run) \<Rightarrow>
          (case cp_validate_host_docker_command p (di_command input) of
             Some e \<Rightarrow> (Inl e, w)
           | None \<Rightarrow>
               let timeout_sec = (if xu_timeout_sec u \<le> 0 then 30 else xu_timeout_sec u);
                   mode = use_case_output_mode u ''redacted'' in
               (case cp_resolve_host_docker_command p (di_command input) w of
                  Inl e \<Rightarrow> (Inl e, w)
                | Inr resolved \<Rightarrow>
                    run_audited u s run
                      (docker_event ''host_docker_execute_started'' input
                         [(''timeout_sec'', utoa timeout_sec)])
                      timeout_sec
                      \<lparr>cr_command = resolved, cr_argv0 = first_command_arg (di_command input),
                       cr_env = build_execution_environment_with_path_override (xu_ambient_env u) []
                         (rc_search_path resolved),
                       cr_capture_limit = effective_output_capture_limit mode (xu_max_output_bytes u)\<rparr>
                      (apply_output_mode mode)
                      (\<lambda>res. docker_event ''host_docker_execute'' input
                         [(''exit_code'', utoa (cx_exit_code res))])
                      w))
      | _ \<Rightarrow> (Inl (Plain ''host docker execute use case is not fully configured''), w))"

section \<open>Wiring\<close>

text \<open>What the two use cases need beyond the daemon's own configuration.\<close>

record 'e exec_config =
  ec_profile :: string
  ec_policy :: default_control_policy
  ec_files :: "'e os_files"
  ec_ambient_env :: "string list"
  ec_start :: "int \<Rightarrow> resolved_command \<Rightarrow> string \<Rightarrow> string list \<Rightarrow> 'e \<Rightarrow> process_end \<times> 'e"

text \<open>\<open>processRunner\<close>: the process ends, and the runner has captured what the limit allows.\<close>

definition process_runner :: "'e exec_config \<Rightarrow> 'e daemon command_runner" where
  "process_runner ec limit rq d =
     (case on_env (ec_start ec limit (cr_command rq) (cr_argv0 rq) (cr_env rq)) d of
        (pe, d) \<Rightarrow>
          (case run_command_with_bounded_output pe (cr_capture_limit rq) of
             Inl e \<Rightarrow> (Inl e, d)
           | Inr (output, exit_code) \<Rightarrow>
               (Inr \<lparr>cx_output = output, cx_exit_code = exit_code\<rparr>, d)))"

definition daemon_files :: "'e exec_config \<Rightarrow> 'e daemon os_files" where
  "daemon_files ec =
     \<lparr>of_paths = \<lparr>os_getwd = \<lambda>d. os_getwd (of_paths (ec_files ec)) (dm_env d),
        os_eval_symlinks = \<lambda>p d. os_eval_symlinks (of_paths (ec_files ec)) p (dm_env d)\<rparr>,
      of_lstat = \<lambda>p d. of_lstat (ec_files ec) p (dm_env d),
      of_stat = \<lambda>p d. of_stat (ec_files ec) p (dm_env d)\<rparr>"

definition execute_use_case :: "server_config \<Rightarrow> 'e outside \<Rightarrow> 'e exec_config \<Rightarrow> 'e daemon use_case" where
  "execute_use_case cfg od ec =
     \<lparr>xu_service = Some (daemon_service cfg od),
      xu_policy = Some (default_policy_engine (daemon_files ec) (ec_policy ec)),
      xu_runner = Some (process_runner ec),
      xu_security_profile = ec_profile ec,
      xu_max_output_bytes = ep_max_output_bytes (dp_exec (ec_policy ec)),
      xu_output_mode = ep_output_security_mode (dp_exec (ec_policy ec)),
      xu_ambient_env = ec_ambient_env ec,
      xu_timeout_sec = 0,
      xu_audit_failure_warning = durability_unavailable_message\<rparr>"

definition host_docker_use_case ::
  "server_config \<Rightarrow> 'e outside \<Rightarrow> 'e exec_config \<Rightarrow> 'e daemon use_case" where
  "host_docker_use_case cfg od ec =
     (execute_use_case cfg od ec)
       \<lparr>xu_security_profile := '''', xu_output_mode := ''redacted'',
        xu_timeout_sec := ho_docker_timeout_sec (dp_host_ops (ec_policy ec))\<rparr>"

section \<open>The handlers\<close>

definition with_policy_hint :: "string \<Rightarrow> string" where
  "with_policy_hint msg =
     (let has = contains (to_lower msg);
          hint =
            (if has ''intent is required''
             then ''provide intent field matching configured intent_allow_domains''
             else if has ''raw shell wrappers''
             then ''use direct tool command (go/npm/python/git) instead of bash/sh wrapper''
             else if has ''not allowed by execution policy''
             then ''check execution_policy.exact_match_executables in config''
             else if has ''denied by policy substring''
             then ''remove denied token or adjust policy denylist consciously''
             else if has ''network egress'' \<or> has ''domain''
             then ''add allowed destination under network_egress_policy.intent_allow_domains for this intent''
             else if has ''compose verb''
             then ''use allowed docker compose verbs from host_ops_policy.docker_compose_allow_verbs''
             else if has ''flag'' \<and> has ''not allowed''
             then ''use only allowlisted flags from host_ops_policy''
             else '''')
      in if hint = '''' then msg else msg @ ''; hint: '' @ hint)"

definition execution_response :: "command_execution_output \<Rightarrow> http_response" where
  "execution_response res =
     write_json ([(''exit_code'', JInt (co_exit_code res)),
        (''stdout_stderr'', JString (co_stdout_stderr res))] @
       (if co_audit_warning res \<noteq> '''' then [(''audit_warning'', JString (co_audit_warning res))]
        else []))"

record execute_body =
  xb_lease_token :: string
  xb_intent :: string
  xb_command :: "string list"
  xb_secrets :: "string list"
  xb_command_fingerprint :: string
  xb_workdir_fingerprint :: string
  xb_timeout_sec :: int

definition execute_failure :: "gerror \<Rightarrow> http_response" where
  "execute_failure e =
     (if err_is e (App ErrCommandExecutionFailed) then write_mapped_error ErrInternal (err_msg e)
      else if gate_error e \<or> err_is e (App ErrSecretBackendUnavailable) \<or>
        err_is e ErrStoreUnavailable \<or> err_is e (App ErrRequestNotOwned) \<or>
        err_is e (App ErrLeaseNotOwned)
      then mapped (state_store_access_error e)
      else write_mapped_error ErrForbidden (with_policy_hint (err_msg e)))"

definition handle_execute ::
  "server_config \<Rightarrow> 'e outside \<Rightarrow> 'e exec_config \<Rightarrow> http_request \<Rightarrow> execute_body http_body \<Rightarrow>
   'e daemon \<Rightarrow> http_response \<times> 'e daemon" where
  "handle_execute cfg od ec rq body d =
     checked_method (require_agent_session cfg od rq d) rq ''POST'' (\<lambda>actor. when_durable (\<lambda>d.
       case decode_body body of
         Inl e \<Rightarrow> (bad_request (err_msg e), d)
       | Inr req \<Rightarrow>
           if xb_command req = [] then (bad_request ''command is required'', d)
           else if xb_secrets req = [] then (bad_request ''secrets are required'', d)
           else
             (case execute (execute_use_case cfg od ec)
                \<lparr>xi_actor_type = fst actor, xi_actor_id = calling_agent cfg actor,
                 xi_lease_tok = xb_lease_token req, xi_intent = xb_intent req,
                 xi_command = xb_command req, xi_secrets = xb_secrets req,
                 xi_command_fingerprint = xb_command_fingerprint req,
                 xi_workdir_fingerprint = xb_workdir_fingerprint req,
                 xi_requested_timeout_sec = xb_timeout_sec req\<rparr> d of
                (Inl e, d) \<Rightarrow> (execute_failure e, d)
              | (Inr res, d) \<Rightarrow> (execution_response res, d))))"

definition docker_failure :: "gerror \<Rightarrow> http_response" where
  "docker_failure e =
     (if err_is e (App ErrCommandExecutionFailed) then write_mapped_error ErrInternal (err_msg e)
      else if gate_error e
      then write_mapped_error ErrServiceUnavailable durability_unavailable_message
      else write_mapped_error ErrForbidden (with_policy_hint (err_msg e)))"

definition handle_host_docker_execute ::
  "server_config \<Rightarrow> 'e outside \<Rightarrow> 'e exec_config \<Rightarrow> http_request \<Rightarrow> string list http_body \<Rightarrow>
   'e daemon \<Rightarrow> http_response \<times> 'e daemon" where
  "handle_host_docker_execute cfg od ec rq body d =
     checked_method (require_operator cfg od rq d) rq ''POST'' (\<lambda>actor. when_durable (\<lambda>d.
       case decode_body body of
         Inl e \<Rightarrow> (bad_request (err_msg e), d)
       | Inr command \<Rightarrow>
           (case host_docker_execute (host_docker_use_case cfg od ec)
              \<lparr>di_actor_type = fst actor, di_actor_id = snd actor, di_command = command\<rparr> d of
              (Inl e, d) \<Rightarrow> (docker_failure e, d)
            | (Inr res, d) \<Rightarrow> (execution_response res, d))))"

end
