(* ===== verification/Server.thy ===== *)
theory Server
  imports Execution
begin

text \<open>
  The daemon as a whole: which listener serves which routes (\<open>cmd/promptlockd/routes.go\<close>,
  \<open>cmd/promptlockd/runtime.go\<close>), and one step of it, the answer to one call or one pass of the
  cleanup. The calls of the services exclude each other by their locks, so an execution of the
  daemon is a sequence of such steps, as long as a handler's own reads of the gate and the
  limiter are taken together with the call they guard.
\<close>

section \<open>Calls\<close>

text \<open>A call is a request with what its body decodes to.\<close>

datatype call =
    RequestStatusCall http_request
  | LeaseRequestCall http_request "lease_body http_body"
  | ApproveCall http_request "int http_body"
  | DenyCall http_request "string http_body"
  | CancelCall http_request "string http_body"
  | AccessCall http_request "access_body http_body"
  | ExecuteCall http_request "execute_body http_body"
  | PendingCall http_request
  | LeaseByRequestCall http_request
  | ResolveIntentCall http_request "string http_body"
  | CapabilitiesCall http_request
  | BootstrapCreateCall http_request "bootstrap_create_body http_body"
  | PairCompleteCall http_request "bootstrap_consume_body http_body"
  | SessionMintCall http_request "string http_body"
  | RevokeCall http_request "revoke_body http_body"
  | DockerCall http_request "string list http_body"

fun call_path :: "call \<Rightarrow> string" where
  "call_path (RequestStatusCall rq) = ''/v1/requests/status''"
| "call_path (LeaseRequestCall rq b) = ''/v1/leases/request''"
| "call_path (ApproveCall rq b) = ''/v1/leases/approve''"
| "call_path (DenyCall rq b) = ''/v1/leases/deny''"
| "call_path (CancelCall rq b) = ''/v1/leases/cancel''"
| "call_path (AccessCall rq b) = ''/v1/leases/access''"
| "call_path (ExecuteCall rq b) = ''/v1/leases/execute''"
| "call_path (PendingCall rq) = ''/v1/requests/pending''"
| "call_path (LeaseByRequestCall rq) = ''/v1/leases/by-request''"
| "call_path (ResolveIntentCall rq b) = ''/v1/intents/resolve''"
| "call_path (CapabilitiesCall rq) = ''/v1/meta/capabilities''"
| "call_path (BootstrapCreateCall rq b) = ''/v1/auth/bootstrap/create''"
| "call_path (PairCompleteCall rq b) = ''/v1/auth/pair/complete''"
| "call_path (SessionMintCall rq b) = ''/v1/auth/session/mint''"
| "call_path (RevokeCall rq b) = ''/v1/auth/revoke''"
| "call_path (DockerCall rq b) = ''/v1/host/docker/execute''"

section \<open>Routes\<close>

definition shared_routes :: "string list" where
  "shared_routes = [''/v1/meta/capabilities'']"

definition agent_routes_only :: "string list" where
  "agent_routes_only =
     [''/v1/intents/resolve'', ''/v1/requests/status'', ''/v1/leases/request'',
      ''/v1/leases/cancel'', ''/v1/leases/by-request'', ''/v1/leases/access'',
      ''/v1/leases/execute'', ''/v1/auth/pair/complete'', ''/v1/auth/session/mint'']"

definition operator_routes_only :: "string list" where
  "operator_routes_only =
     [''/v1/requests/pending'', ''/v1/leases/approve'', ''/v1/leases/deny'',
      ''/v1/auth/bootstrap/create'', ''/v1/auth/revoke'', ''/v1/host/docker/execute'']"

text \<open>The agent bridge serves what the agent socket serves.\<close>

datatype listener = LegacyListener | AgentListener | OperatorListener

fun listener_routes :: "listener \<Rightarrow> string list" where
  "listener_routes LegacyListener = shared_routes @ agent_routes_only @ operator_routes_only"
| "listener_routes AgentListener = shared_routes @ agent_routes_only"
| "listener_routes OperatorListener = shared_routes @ operator_routes_only"

section \<open>Steps\<close>

record 'e server_setup =
  st_config :: server_config
  st_outside :: "'e outside"
  st_exec :: "'e exec_config"
  st_meta :: server_meta

fun handle :: "'e server_setup \<Rightarrow> call \<Rightarrow> 'e daemon \<Rightarrow> http_response \<times> 'e daemon" where
  "handle u (RequestStatusCall rq) d = handle_request_status (st_config u) (st_outside u) rq d"
| "handle u (LeaseRequestCall rq b) d = handle_request (st_config u) (st_outside u) rq b d"
| "handle u (ApproveCall rq b) d = handle_approve (st_config u) (st_outside u) rq b d"
| "handle u (DenyCall rq b) d = handle_deny (st_config u) (st_outside u) rq b d"
| "handle u (CancelCall rq b) d = handle_cancel (st_config u) (st_outside u) rq b d"
| "handle u (AccessCall rq b) d = handle_access (st_config u) (st_outside u) rq b d"
| "handle u (ExecuteCall rq b) d = handle_execute (st_config u) (st_outside u) (st_exec u) rq b d"
| "handle u (PendingCall rq) d = handle_pending_requests (st_config u) (st_outside u) rq d"
| "handle u (LeaseByRequestCall rq) d = handle_lease_by_request (st_config u) (st_outside u) rq d"
| "handle u (ResolveIntentCall rq b) d = handle_resolve_intent (st_config u) (st_outside u) rq b d"
| "handle u (CapabilitiesCall rq) d = (handle_meta_capabilities (st_config u) (st_meta u) rq, d)"
| "handle u (BootstrapCreateCall rq b) d =
     handle_auth_bootstrap_create (st_config u) (st_outside u) rq b d"
| "handle u (PairCompleteCall rq b) d =
     handle_auth_pair_complete (st_config u) (st_outside u) rq b d"
| "handle u (SessionMintCall rq b) d =
     handle_auth_session_mint (st_config u) (st_outside u) rq b d"
| "handle u (RevokeCall rq b) d = handle_auth_revoke (st_config u) (st_outside u) rq b d"
| "handle u (DockerCall rq b) d =
     handle_host_docker_execute (st_config u) (st_outside u) (st_exec u) rq b d"

definition serve ::
  "'e server_setup \<Rightarrow> listener \<Rightarrow> call \<Rightarrow> 'e daemon \<Rightarrow> http_response \<times> 'e daemon" where
  "serve u l c d =
     (if call_path c \<in> set (listener_routes l) then handle u c d
      else (write_mapped_error ErrNotFound ''404 page not found'', d))"

text \<open>What happens to a daemon: a call on a listener, or a pass of the cleanup.\<close>

datatype event = Called listener call | CleanupTick

fun react :: "'e server_setup \<Rightarrow> event \<Rightarrow> 'e daemon \<Rightarrow> 'e daemon" where
  "react u (Called l c) d = snd (serve u l c d)"
| "react u CleanupTick d = snd (run_auth_cleanup_pass (st_config u) (st_outside u) d)"

end
