(* ===== verification/Outside.thy ===== *)
theory Outside
  imports Daemon
begin

text \<open>
  The outside of the process under the daemon's calls: every operation of the daemon reaches it
  by the calls of the record \<open>outside\<close> and in no other way. Freshness of random identifiers is
  stated over the states such calls can lead to.
\<close>

section \<open>Calls\<close>

text \<open>
  The calls that reach outside of the process, and the states of the outside they can lead to.
  The files the codec and the path functions only read are not among them.
\<close>

inductive env_steps :: "'e outside \<Rightarrow> 'e \<Rightarrow> 'e \<Rightarrow> bool" for od :: "'e outside" and e :: 'e where
  start [simp]: "env_steps od e e"
| now: "env_steps od e z \<Longrightarrow> env_steps od e (snd (od_now od z))"
| random: "env_steps od e z \<Longrightarrow> env_steps od e (snd (od_random od z))"
| nonce: "env_steps od e z \<Longrightarrow> env_steps od e (snd (od_nonce od z))"
| append: "env_steps od e z \<Longrightarrow> env_steps od e (snd (ao_append (od_audit_os od) line z))"
| sync_file: "env_steps od e z \<Longrightarrow> env_steps od e (snd (ao_sync_file (od_audit_os od) z))"
| sync_parent: "env_steps od e z \<Longrightarrow> env_steps od e (snd (ao_sync_parent (od_audit_os od) z))"
| canonicalize: "env_steps od e z \<Longrightarrow> od_env_paths od = Some eps \<Longrightarrow>
    env_steps od e (snd (eps_canonicalize eps p z))"
| resolve: "env_steps od e z \<Longrightarrow> od_env_paths od = Some eps \<Longrightarrow>
    env_steps od e (snd (eps_resolve eps p ns z))"
| secret: "env_steps od e z \<Longrightarrow> od_secret_source od = Some source \<Longrightarrow>
    env_steps od e (snd (source n z))"
| mkdir_all: "env_steps od e z \<Longrightarrow> env_steps od e (snd (fs_mkdir_all (od_fs od) p z))"
| create_temp: "env_steps od e z \<Longrightarrow> env_steps od e (snd (fs_create_temp (od_fs od) p q z))"
| chmod: "env_steps od e z \<Longrightarrow> env_steps od e (snd (fs_chmod (od_fs od) p z))"
| write_data: "env_steps od e z \<Longrightarrow> env_steps od e (snd (fs_write (od_fs od) p q z))"
| sync_data: "env_steps od e z \<Longrightarrow> env_steps od e (snd (fs_sync (od_fs od) p z))"
| close_file: "env_steps od e z \<Longrightarrow> env_steps od e (snd (fs_close (od_fs od) p z))"
| rename: "env_steps od e z \<Longrightarrow> env_steps od e (snd (fs_rename (od_fs od) p q z))"
| remove: "env_steps od e z \<Longrightarrow> env_steps od e (snd (fs_remove (od_fs od) p z))"
| open_dir: "env_steps od e z \<Longrightarrow> env_steps od e (snd (fs_open_dir (od_fs od) p z))"
| sync_dir: "env_steps od e z \<Longrightarrow> env_steps od e (snd (fs_sync_dir (od_fs od) p z))"
| read_file: "env_steps od e z \<Longrightarrow> env_steps od e (snd (fs_read (od_fs od) p z))"

lemmas env_calls = env_steps.intros(2-)

lemma env_steps_trans:
  assumes "env_steps od e e1" and "env_steps od e1 e2" shows "env_steps od e e2"
  using assms(2,1) by induction (auto intro: env_calls)

text \<open>How a chain of calls is followed.\<close>

lemma env_pair: "env_steps od e z \<Longrightarrow> env_steps od e (snd (x, z))"
  by simp

lemma env_option:
  assumes "env_steps od e (snd r)" and "\<And>z. env_steps od e z \<Longrightarrow> env_steps od e (snd (f z))"
    and "\<And>err z. env_steps od e z \<Longrightarrow> env_steps od e (snd (g err z))"
  shows "env_steps od e (snd (case r of (None, z) \<Rightarrow> f z | (Some err, z) \<Rightarrow> g err z))"
  using assms by (cases r; cases "fst r") auto

lemma env_sum:
  assumes "env_steps od e (snd r)" and "\<And>x z. env_steps od e z \<Longrightarrow> env_steps od e (snd (f x z))"
    and "\<And>err z. env_steps od e z \<Longrightarrow> env_steps od e (snd (g err z))"
  shows "env_steps od e (snd (case r of (Inl err, z) \<Rightarrow> g err z | (Inr x, z) \<Rightarrow> f x z))"
  using assms by (cases r; cases "fst r") auto

lemmas env_chain = env_pair env_option env_sum env_calls

lemma env_sync_parent_dir:
  "env_steps od e e1 \<Longrightarrow> env_steps od e (snd (sync_parent_dir (od_fs od) p e1))"
  unfolding sync_parent_dir_def Let_def by (intro env_chain)

lemma env_give_up:
  "env_steps od e e1 \<Longrightarrow> env_steps od e (snd (give_up (od_fs od) t err e1))"
  "env_steps od e e1 \<Longrightarrow> env_steps od e (snd (close_and_give_up (od_fs od) t err e1))"
  by (simp_all add: give_up_def close_and_give_up_def env_calls)

lemma env_write_file:
  "env_steps od e e1 \<Longrightarrow> env_steps od e (snd (write_file_atomically (od_fs od) path data e1))"
  unfolding write_file_atomically_def Let_def
  by (intro env_chain env_sync_parent_dir env_give_up)

section \<open>The daemon's operations\<close>

lemma env_save_state:
  "env_steps od e e1 \<Longrightarrow> env_steps od e (snd (save_state_to_file cd (od_fs od) path s e1))"
  by (simp add: save_state_to_file_def Let_def env_write_file split: sum.split)

lemma env_save_auth:
  "env_steps od e e1 \<Longrightarrow> env_steps od e (snd (save_to_file cd (od_fs od) path s e1))"
  by (simp add: save_to_file_def env_write_file split: sum.split)

lemma env_encrypt_state:
  "env_steps od e e1 \<Longrightarrow> env_steps od e (snd (encrypt_state cd (od_nonce od) raw key e1))"
  unfolding encrypt_state_def Let_def
  by (auto intro!: env_sum env_calls env_pair split: sum.split)

lemma env_save_auth_encrypted:
  assumes "env_steps od e e1"
  shows "env_steps od e (snd (save_to_file_encrypted cd (od_fs od) (od_nonce od) path key s e1))"
proof (cases "cd_snapshot_json cd False (snapshot s)")
  case (Inr raw)
  have "env_steps od e (snd (encrypt_state cd (od_nonce od) raw key e1))"
    by (rule env_encrypt_state [OF assms])
  then show ?thesis
    using env_write_file
    by (auto simp: save_to_file_encrypted_def Inr split: prod.splits sum.splits)
qed (use assms in \<open>simp add: save_to_file_encrypted_def\<close>)

lemma env_sink_write:
  assumes "env_steps od e e1"
  shows "env_steps od e (snd (snd (sink_write (od_audit_os od) ev (k, e1))))"
proof -
  have append: "env_steps od e (snd (ao_append (od_audit_os od) line e1))" for line
    by (rule env_steps.append [OF assms])
  have sync: "env_steps od e (snd (ao_sync_file (od_audit_os od) (snd (ao_append (od_audit_os od) line e1))))" for line
    by (rule env_steps.sync_file [OF append])
  have parent: "env_steps od e (snd (ao_sync_parent (od_audit_os od)
      (snd (ao_sync_file (od_audit_os od) (snd (ao_append (od_audit_os od) line e1))))))" for line
    by (rule env_steps.sync_parent [OF sync])
  show ?thesis
    using assms append sync parent
    by (simp add: sink_write_def Let_def case_prod_beta split: option.split sum.split)
qed

end
