(* ===== verification/BrokerContract.thy ===== *)
theory BrokerContract
  imports LeaseThrottle ExecutionSecrets
begin

text \<open>
  The contract between the service and everything it is wired to. A \<open>view\<close> reads the requests,
  the leases and the audit trail out of a state; the locale \<open>broker_ports\<close> says what each port
  does to them. Inside the locale the operations on leases are shown to be atomic: each one
  either takes its effect and leaves its audit event, or leaves requests and leases as they
  were.
\<close>

named_theorems steady "what keeps requests and leases as they are"

section \<open>Views\<close>

record 'w view =
  vw_invar :: "'w \<Rightarrow> bool"
  vw_reqs :: "'w \<Rightarrow> string \<Rightarrow> lease_request option"
  vw_leases :: "'w \<Rightarrow> string \<Rightarrow> lease option"
  vw_trail :: "'w \<Rightarrow> audit_event list"

text \<open>
  From \<open>w\<close> to \<open>w'\<close>: \<open>steady\<close> keeps requests and leases and may add to the trail, \<open>calm\<close>
  leaves the trail alone too.
\<close>

definition steady :: "'w view \<Rightarrow> 'w \<Rightarrow> 'w \<Rightarrow> bool" where
  "steady v w w' \<longleftrightarrow>
     vw_invar v w' \<and> vw_reqs v w' = vw_reqs v w \<and> vw_leases v w' = vw_leases v w \<and>
     prefix (vw_trail v w) (vw_trail v w')"

definition calm :: "'w view \<Rightarrow> 'w \<Rightarrow> 'w \<Rightarrow> bool" where
  "calm v w w' \<longleftrightarrow>
     vw_invar v w' \<and> vw_reqs v w' = vw_reqs v w \<and> vw_leases v w' = vw_leases v w \<and>
     vw_trail v w' = vw_trail v w"

lemma calm_steady [steady]: "calm v w w' \<Longrightarrow> steady v w w'"
  by (simp add: calm_def steady_def)

lemma steady_refl [steady]: "vw_invar v w \<Longrightarrow> steady v w w"
  by (simp add: steady_def)

lemma steady_trans [trans]: "steady v w w1 \<Longrightarrow> steady v w1 w2 \<Longrightarrow> steady v w w2"
  by (auto simp: steady_def)

lemma calm_steady_trans [trans]: "calm v w w1 \<Longrightarrow> steady v w1 w2 \<Longrightarrow> steady v w w2"
  by (auto simp: steady_def calm_def)

lemma steady_calm_trans [trans]: "steady v w w1 \<Longrightarrow> calm v w1 w2 \<Longrightarrow> steady v w w2"
  by (auto simp: steady_def calm_def)

lemma steady_invar [steady]: "steady v w w' \<Longrightarrow> vw_invar v w'"
  by (simp add: steady_def)

lemma calm_invar [steady]: "calm v w w' \<Longrightarrow> vw_invar v w'"
  by (simp add: calm_def)

lemma calm_trans [trans]: "calm v w w1 \<Longrightarrow> calm v w1 w2 \<Longrightarrow> calm v w w2"
  by (auto simp: calm_def)

text \<open>The events added between two states.\<close>

definition added :: "'w view \<Rightarrow> 'w \<Rightarrow> 'w \<Rightarrow> audit_event list" where
  "added v w w' = drop (length (vw_trail v w)) (vw_trail v w')"

lemma added_split:
  assumes "steady v w w1" and "steady v w1 w2"
  shows "added v w w2 = added v w w1 @ added v w1 w2"
  using assms by (auto simp: steady_def added_def prefix_def)

section \<open>The contract\<close>

locale broker_ports =
  reqs: reliable_request_store "sv_requests s" "vw_invar v" "vw_reqs v" +
  leases: reliable_lease_store "sv_leases s" "vw_invar v" "vw_leases v"
  for s :: "'w service" and v :: "'w view" +
  assumes audit_present: "sv_audit s \<noteq> None"
    and req_ops_frame: "vw_invar v w \<Longrightarrow>
      f = rs_save (sv_requests s) r \<or> f = rs_update (sv_requests s) r \<or>
      f = rs_delete (sv_requests s) i \<Longrightarrow>
      vw_leases v (snd (f w)) = vw_leases v w \<and> vw_trail v (snd (f w)) = vw_trail v w"
    and lease_ops_frame: "vw_invar v w \<Longrightarrow>
      f = ls_save (sv_leases s) l \<or> f = ls_delete (sv_leases s) i \<Longrightarrow>
      vw_reqs v (snd (f w)) = vw_reqs v w \<and> vw_trail v (snd (f w)) = vw_trail v w"
    and get_calm: "vw_invar v w \<Longrightarrow> calm v w (snd (rs_get (sv_requests s) i w))"
    and pending_calm: "vw_invar v w \<Longrightarrow> calm v w (snd (rs_list_pending (sv_requests s) w))"
    and lget_calm: "vw_invar v w \<Longrightarrow> calm v w (snd (ls_get (sv_leases s) i w))"
    and lget_by_request_calm:
      "vw_invar v w \<Longrightarrow> calm v w (snd (ls_get_by_request (sv_leases s) i w))"
    and llist_calm: "vw_invar v w \<Longrightarrow> ls_list (sv_leases s) = Some g \<Longrightarrow> calm v w (snd (g w))"
    and now_calm: "vw_invar v w \<Longrightarrow> calm v w (snd (sv_now s w))"
    and new_request_id_calm: "vw_invar v w \<Longrightarrow> calm v w (snd (sv_new_request_id s w))"
    and new_lease_tok_calm: "vw_invar v w \<Longrightarrow> calm v w (snd (sv_new_lease_tok s w))"
    and secret_calm: "vw_invar v w \<Longrightarrow> calm v w (snd (sv_secrets s n w))"
    and canonicalize_calm: "vw_invar v w \<Longrightarrow> sv_env_path_secrets s = Some eps \<Longrightarrow>
      calm v w (snd (eps_canonicalize eps p w))"
    and resolve_calm: "vw_invar v w \<Longrightarrow> sv_env_path_secrets s = Some eps \<Longrightarrow>
      calm v w (snd (eps_resolve eps p ns w))"
    and commit_steady: "vw_invar v w \<Longrightarrow> sv_committer s = Some c \<Longrightarrow> steady v w (snd (c w))"
    and audit_ok: "vw_invar v w \<Longrightarrow> sv_audit s = Some wr \<Longrightarrow> wr ev w = (None, w') \<Longrightarrow>
      steady v w w' \<and> added v w w' = [ev]"
    and audit_err: "vw_invar v w \<Longrightarrow> sv_audit s = Some wr \<Longrightarrow> wr ev w = (Some e, w') \<Longrightarrow>
      steady v w w'"
    and handler_steady: "vw_invar v w \<Longrightarrow> sv_audit_failure_handler s = Some h \<Longrightarrow>
      steady v w (snd (h e w))"

text \<open>Generators of identifiers that do not collide with what the stores hold.\<close>

definition fresh_request_ids :: "'w service \<Rightarrow> 'w view \<Rightarrow> 'w \<Rightarrow> bool" where
  "fresh_request_ids s v w \<longleftrightarrow>
     (\<forall>w'. steady v w w' \<longrightarrow> vw_reqs v w (fst (sv_new_request_id s w')) = None)"

definition fresh_lease_tokens :: "'w service \<Rightarrow> 'w view \<Rightarrow> 'w \<Rightarrow> bool" where
  "fresh_lease_tokens s v w \<longleftrightarrow>
     (\<forall>w'. vw_invar v w' \<and> vw_leases v w' = vw_leases v w \<longrightarrow>
        vw_leases v w (fst (sv_new_lease_tok s w')) = None)"

context broker_ports begin

section \<open>The helpers are steady\<close>

lemma write_audit_event_steady [steady]:
  assumes "vw_invar v w" shows "steady v w (snd (write_audit_event s ev w))"
proof -
  obtain wr where wr: "sv_audit s = Some wr" using audit_present by auto
  obtain x w1 where x: "wr ev w = (x, w1)" by fastforce
  have "steady v w w1"
    using audit_ok [OF assms wr, of ev w1] audit_err [OF assms wr, of ev _ w1] x
    by (cases x) auto
  with wr x show ?thesis by (cases x) (simp_all add: write_audit_event_def)
qed

lemma commit_steady' [steady]:
  assumes "vw_invar v w" shows "steady v w (snd (commit_request_lease_state s w))"
  using assms commit_steady [OF assms]
  by (cases "sv_committer s") (simp_all add: commit_request_lease_state_def steady_refl)

lemma audit_critical_ok:
  assumes "vw_invar v w" and "audit_critical s ev w = (None, w')"
  shows "steady v w w' \<and> added v w w' = [ev]"
proof -
  obtain wr where wr: "sv_audit s = Some wr" using audit_present by auto
  obtain x w1 where x: "wr ev w = (x, w1)" by fastforce
  have "x = None \<and> w1 = w'"
  proof (cases x)
    case (Some e)
    then show ?thesis using assms(2) wr x
      by (cases "sv_audit_failure_handler s")
        (simp_all add: audit_critical_def split: prod.splits option.splits)
  qed (use assms(2) wr x in \<open>simp add: audit_critical_def\<close>)
  with x show ?thesis using audit_ok [OF assms(1) wr] by simp
qed

lemma audit_critical_steady [steady]:
  assumes "vw_invar v w" shows "steady v w (snd (audit_critical s ev w))"
proof -
  obtain wr where wr: "sv_audit s = Some wr" using audit_present by auto
  obtain x w1 where x: "wr ev w = (x, w1)" by fastforce
  show ?thesis
  proof (cases x)
    case None
    with wr x audit_ok [OF assms wr, of ev w1] show ?thesis by (simp add: audit_critical_def)
  next
    case (Some e)
    then have st: "steady v w w1" using x audit_err [OF assms wr, of ev e w1] by simp
    show ?thesis
    proof (cases "sv_audit_failure_handler s")
      case None
      with st Some wr x show ?thesis by (simp add: audit_critical_def)
    next
      case h: (Some h)
      obtain y w2 where y: "h e w1 = (y, w2)" by fastforce
      then have "steady v w1 w2" using handler_steady [OF steady_invar [OF st] h, of e] by simp
      with st have "steady v w w2" by (rule steady_trans)
      with y h Some wr x show ?thesis by (cases y) (simp_all add: audit_critical_def)
    qed
  qed
qed

lemma now_then_write_steady:
  assumes "vw_invar v w"
  shows "steady v w (snd (let (t, w) = sv_now s w in write_audit_event s (ev t) w))"
proof -
  obtain t w1 where n: "sv_now s w = (t, w1)" by fastforce
  then have "calm v w w1" using now_calm [OF assms] by simp
  then have "steady v w (snd (write_audit_event s (ev t) w1))"
    by (rule calm_steady_trans) (rule write_audit_event_steady [OF calm_invar], fact)
  with n show ?thesis by simp
qed

lemma audit_env_path_steady [steady]:
  assumes "vw_invar v w"
  shows "steady v w (snd (audit_env_path_confirmed s a t i p c w))"
    and "steady v w (snd (audit_env_path_rejected s a t i p c reason w))"
    and "steady v w (snd (audit_request_reused_active_lease s a t inp l w))"
    and "steady v w (snd (audit_request_throttled e s a t inp d w))"
  unfolding audit_env_path_confirmed_def audit_env_path_rejected_def
    audit_request_reused_active_lease_def audit_request_throttled_def
  by (rule now_then_write_steady [OF assms])+

lemma canonicalize_calm':
  assumes "vw_invar v w" shows "calm v w (snd (canonicalize_approved_env_path s p w))"
proof -
  have c: "calm v w w" using assms by (simp add: calm_def)
  show ?thesis
  proof (cases "trim_space p = [] \<or> sv_env_path_secrets s = None")
    case True
    with c show ?thesis by (auto simp: canonicalize_approved_env_path_def Let_def)
  next
    case False
    then obtain eps where e: "sv_env_path_secrets s = Some eps" by auto
    obtain x w1 where x: "eps_canonicalize eps (trim_space p) w = (x, w1)" by fastforce
    with canonicalize_calm [OF assms e, of "trim_space p"] have "calm v w w1" by simp
    with False e x show ?thesis
      by (cases x) (simp_all add: canonicalize_approved_env_path_def Let_def)
  qed
qed

section \<open>A mutation commits, or is undone\<close>

text \<open>
  \<open>undoes undo w0 w\<close>: from any state with the requests and leases of \<open>w\<close>, the rollbacks bring
  back those of \<open>w0\<close> and none of them fails.
\<close>

definition undoes :: "('w \<Rightarrow> gerror option \<times> 'w) list \<Rightarrow> 'w \<Rightarrow> 'w \<Rightarrow> bool" where
  "undoes undo w0 w \<longleftrightarrow>
     (\<forall>w1. steady v w w1 \<longrightarrow>
        (\<exists>w2. snd (run_rollbacks undo w1) = w2 \<and> vw_invar v w2 \<and>
           vw_reqs v w2 = vw_reqs v w0 \<and> vw_leases v w2 = vw_leases v w0 \<and>
           vw_trail v w2 = vw_trail v w1))"

lemma fail_with_rollback_undoes:
  assumes "undoes undo w0 w" and "steady v w w1" and "vw_trail v w = vw_trail v w0"
  obtains e' w' where "fail_with_rollback s e undo w1 = (Some e', w')" and "steady v w0 w'"
    and "\<And>sn. err_is e' sn = err_is e sn"
proof -
  obtain errs w2 where r: "run_rollbacks undo w1 = (errs, w2)" by fastforce
  with assms have w2: "steady v w0 w2" by (fastforce simp: undoes_def steady_def)
  obtain y w3 where c: "commit_request_lease_state s w2 = (y, w3)" by fastforce
  with commit_steady' [OF steady_invar [OF w2]] have "steady v w2 w3" by simp
  with w2 have w3: "steady v w0 w3" by (rule steady_trans)
  show thesis
  proof (cases "sv_committer s")
    case None
    with r have "fail_with_rollback s e undo w1 = (Some (wrap_rollback_error e [join_errors errs]), w2)"
      by (simp add: fail_with_rollback_def rollback_request_lease_mutation_def)
    then show thesis using w2 by (rule that) simp
  next
    case Some
    with r c have "fail_with_rollback s e undo w1 =
        (Some (wrap_rollback_error e [join_errors (errs @ [y])]), w3)"
      by (simp add: fail_with_rollback_def rollback_request_lease_mutation_def)
    then show thesis using w3 by (rule that) simp
  qed
qed

lemma finish_mutation_cases:
  assumes inv: "vw_invar v w" and undo: "undoes undo w0 w"
    and trail: "vw_trail v w = vw_trail v w0"
  shows "case finish_mutation s undo ev w of
      (Some e, w') \<Rightarrow> steady v w0 w'
    | (None, w') \<Rightarrow> steady v w w' \<and> (\<exists>t pre. added v w w' = pre @ [ev t])"
proof -
  obtain x w1 where c: "commit_request_lease_state s w = (x, w1)" by fastforce
  with commit_steady' [OF inv] have s1: "steady v w w1" by simp
  show ?thesis
  proof (cases x)
    case (Some e)
    obtain e' w' where "fail_with_rollback s e undo w1 = (Some e', w')" "steady v w0 w'"
      by (rule fail_with_rollback_undoes [OF undo s1 trail])
    with Some c show ?thesis by (simp add: finish_mutation_def)
  next
    case None
    obtain t w2 where n: "sv_now s w1 = (t, w2)" by fastforce
    with now_calm [OF steady_invar [OF s1]] have c2: "calm v w1 w2" by simp
    with s1 have s2: "steady v w w2" by (rule steady_calm_trans)
    obtain y w3 where a: "audit_critical s (ev t) w2 = (y, w3)" by fastforce
    show ?thesis
    proof (cases y)
      case (Some e)
      have s3: "steady v w w3"
        using steady_trans [OF s2 audit_critical_steady [OF steady_invar [OF s2], of "ev t"]] a
        by simp
      obtain e' w' where "fail_with_rollback s e undo w3 = (Some e', w')" "steady v w0 w'"
        by (rule fail_with_rollback_undoes [OF undo s3 trail])
      with None Some c n a show ?thesis by (simp add: finish_mutation_def)
    next
      case y: None
      with a audit_critical_ok [OF steady_invar [OF s2]]
      have "steady v w2 w3 \<and> added v w2 w3 = [ev t]" by simp
      with s2 have "steady v w w3 \<and> added v w w3 = added v w w2 @ [ev t]"
        using steady_trans added_split by metis
      with None y c n a show ?thesis by (auto simp: finish_mutation_def)
    qed
  qed
qed

end

end
