(* ===== verification/LeaseSpec.thy ===== *)
theory LeaseSpec
  imports Domain
begin

text \<open>
  What the broker promises about requests and leases, without stores, clocks or audit: a book
  of requests and leases, and the three steps that change it. Every other operation leaves the
  book as it is. The invariants of the book are shown by induction over its steps; the code's
  operations are shown to be such steps in the theories that follow.
\<close>

type_synonym book = "(string \<Rightarrow> lease_request option) \<times> (string \<Rightarrow> lease option)"

datatype lease_action =
    Submitted lease_request
  | Approved lease
  | Denied string

text \<open>A lease carries the scope of the request it was approved from.\<close>

definition lease_of :: "lease_request \<Rightarrow> lease \<Rightarrow> bool" where
  "lease_of r l \<longleftrightarrow>
     lease_request_id l = req_id r \<and> lease_agent_id l = req_agent_id r \<and>
     lease_task_id l = req_task_id r \<and> lease_intent l = req_intent r \<and>
     lease_secrets l = req_secrets r \<and>
     lease_command_fingerprint l = req_command_fingerprint r \<and>
     lease_workdir_fingerprint l = req_workdir_fingerprint r"

inductive lease_step :: "policy \<Rightarrow> book \<Rightarrow> lease_action \<Rightarrow> book \<Rightarrow> bool" for p :: policy where
  submit: "R (req_id r) = None \<Longrightarrow> req_status r = RequestPending \<Longrightarrow>
    validate_request p (req_ttl_minutes r) (req_secrets r) = None \<Longrightarrow>
    lease_step p (R, L) (Submitted r) (R(req_id r \<mapsto> r), L)"
| approve: "R i = Some r \<Longrightarrow> req_status r = RequestPending \<Longrightarrow> L (lease_token l) = None \<Longrightarrow>
    lease_of r l \<Longrightarrow>
    lease_step p (R, L) (Approved l)
      (R(i \<mapsto> r\<lparr>req_status := RequestApproved\<rparr>), L(lease_token l \<mapsto> l))"
| deny: "R i = Some r \<Longrightarrow> req_status r = RequestPending \<Longrightarrow>
    lease_step p (R, L) (Denied i) (R(i \<mapsto> r\<lparr>req_status := RequestDenied\<rparr>), L)"

inductive_cases submit_stepE: "lease_step p B (Submitted r) B'"
inductive_cases approve_stepE: "lease_step p B (Approved l) B'"
inductive_cases deny_stepE: "lease_step p B (Denied i) B'"

inductive_simps submit_step_simp: "lease_step p (R, L) (Submitted r) (R', L')"
inductive_simps deny_step_simp: "lease_step p (R, L) (Denied i) (R', L')"

text \<open>The books a broker with the policy \<open>p\<close> can reach.\<close>

inductive reachable_book :: "policy \<Rightarrow> book \<Rightarrow> bool" for p :: policy where
  init: "reachable_book p (\<lambda>_. None, \<lambda>_. None)"
| step: "reachable_book p B \<Longrightarrow> lease_step p B a B' \<Longrightarrow> reachable_book p B'"

section \<open>The invariant\<close>

definition book_ok :: "policy \<Rightarrow> book \<Rightarrow> bool" where
  "book_ok p B \<longleftrightarrow>
     (case B of (R, L) \<Rightarrow>
        (\<forall>i r. R i = Some r \<longrightarrow> req_id r = i \<and>
           validate_request p (req_ttl_minutes r) (req_secrets r) = None \<and>
           req_status r \<in> {RequestPending, RequestApproved, RequestDenied}) \<and>
        (\<forall>t l. L t = Some l \<longrightarrow> lease_token l = t \<and>
           (\<exists>r. R (lease_request_id l) = Some r \<and> req_status r = RequestApproved \<and> lease_of r l)) \<and>
        (\<forall>t l t' l'. L t = Some l \<longrightarrow> L t' = Some l' \<longrightarrow>
           lease_request_id l = lease_request_id l' \<longrightarrow> t = t'))"

lemma book_ok_empty: "book_ok p (\<lambda>_. None, \<lambda>_. None)"
  by (simp add: book_ok_def)

lemma lease_of_status [simp]: "lease_of (r\<lparr>req_status := x\<rparr>) l = lease_of r l"
  by (simp add: lease_of_def)

text \<open>A request that is pending has no lease: a lease of it would make it approved.\<close>

lemma book_ok_pending:
  assumes "book_ok p (R, L)" and "R i = Some r" and "req_status r \<noteq> RequestApproved"
    and "L t = Some l"
  shows "lease_request_id l \<noteq> i"
proof -
  obtain r' where "R (lease_request_id l) = Some r'" "req_status r' = RequestApproved"
    using assms(1,4) unfolding book_ok_def prod.case by blast
  with assms(2,3) show ?thesis by auto
qed

lemma book_ok_submit:
  assumes "book_ok p (R, L)" and "R (req_id r) = None" and "req_status r = RequestPending"
    and "validate_request p (req_ttl_minutes r) (req_secrets r) = None"
  shows "book_ok p (R(req_id r \<mapsto> r), L)"
  using assms unfolding book_ok_def by (fastforce simp: split: if_splits)

lemma book_ok_deny:
  assumes "book_ok p (R, L)" and "R i = Some r" and "req_status r = RequestPending"
  shows "book_ok p (R(i \<mapsto> r\<lparr>req_status := RequestDenied\<rparr>), L)"
proof -
  have "lease_request_id l \<noteq> i" if "L t = Some l" for t l
    using book_ok_pending [OF assms(1,2) _ that] assms(3) by simp
  with assms show ?thesis by (simp add: book_ok_def)
qed

lemma book_ok_approve:
  assumes "book_ok p (R, L)" and "R i = Some r" and "req_status r = RequestPending"
    and "L (lease_token l) = None" and "lease_of r l"
  shows "book_ok p (R(i \<mapsto> r\<lparr>req_status := RequestApproved\<rparr>), L(lease_token l \<mapsto> l))"
proof -
  have ne: "lease_request_id l' \<noteq> i" if "L t = Some l'" for t l'
    using book_ok_pending [OF assms(1,2) _ that] assms(3) by simp
  have "lease_request_id l = i" using assms by (auto simp: book_ok_def lease_of_def)
  with ne assms show ?thesis unfolding book_ok_def by (simp; metis)
qed

lemma book_ok_step: "lease_step p B a B' \<Longrightarrow> book_ok p B \<Longrightarrow> book_ok p B'"
  by (erule lease_step.cases)
    (simp_all only: book_ok_submit book_ok_deny book_ok_approve prod.sel)

text \<open>
  In every book the broker can reach, each lease belongs to exactly one approved request,
  whose agent, task, intent, secrets and fingerprints it carries, no two leases share a
  request, and every request passed the policy.
\<close>

theorem reachable_book_ok:
  assumes "reachable_book p B" shows "book_ok p B"
  using assms by induction (auto intro: book_ok_empty book_ok_step)

section \<open>Decisions are final\<close>

text \<open>
  Along a step no request disappears, its status only moves forward, and nothing else of it
  changes; no lease disappears or changes.
\<close>

definition extends :: "book \<Rightarrow> book \<Rightarrow> bool" where
  "extends B B' \<longleftrightarrow>
     (\<forall>i r. fst B i = Some r \<longrightarrow>
        (\<exists>st \<ge> req_status r. fst B' i = Some (r\<lparr>req_status := st\<rparr>))) \<and>
     (\<forall>t l. snd B t = Some l \<longrightarrow> snd B' t = Some l)"

lemma extends_refl [simp]: "extends B B"
  unfolding extends_def by (metis lease_request.surjective lease_request.update_convs(14) order_refl)

lemma extends_trans [trans]:
  assumes "extends A B" and "extends B C" shows "extends A C"
  unfolding extends_def
proof (intro conjI allI impI)
  fix i r assume "fst A i = Some r"
  with assms(1) obtain st where st: "req_status r \<le> st" "fst B i = Some (r\<lparr>req_status := st\<rparr>)"
    unfolding extends_def by blast
  with assms(2) have "\<exists>st'\<ge>st. fst C i = Some (r\<lparr>req_status := st, req_status := st'\<rparr>)"
    unfolding extends_def by fastforce
  then obtain st' where "st \<le> st'" "fst C i = Some (r\<lparr>req_status := st'\<rparr>)" by auto
  with st show "\<exists>st\<ge>req_status r. fst C i = Some (r\<lparr>req_status := st\<rparr>)"
    using order_trans by blast
qed (use assms in \<open>auto simp: extends_def\<close>)

lemma extends_keep:
  fixes r :: lease_request
  shows "\<exists>st\<ge>req_status r. Some r = Some (r\<lparr>req_status := st\<rparr>)"
  by (rule exI [of _ "req_status r"]) simp

lemma extends_decided:
  assumes "R i = Some r" and "req_status r \<le> st" and "\<And>t l. L t = Some l \<Longrightarrow> L' t = Some l"
  shows "extends (R, L) (R(i \<mapsto> r\<lparr>req_status := st\<rparr>), L')"
  unfolding extends_def fst_conv snd_conv
proof (intro conjI allI impI)
  fix j q assume q: "R j = Some q"
  show "\<exists>st'\<ge>req_status q. (R(i \<mapsto> r\<lparr>req_status := st\<rparr>)) j = Some (q\<lparr>req_status := st'\<rparr>)"
  proof (cases "j = i")
    case True
    with q assms(1,2) show ?thesis by (intro exI [of _ st]) simp
  next
    case False
    with q show ?thesis by (intro exI [of _ "req_status q"]) simp
  qed
qed (rule assms(3))

lemma step_extends: "lease_step p B a B' \<Longrightarrow> extends B B'"
proof (induction rule: lease_step.induct)
  case (submit R r L)
  then show ?case using extends_keep by (auto simp: extends_def)
next
  case (approve R i r L l)
  then show ?case by (intro extends_decided) (auto simp: less_eq_request_status_def)
next
  case (deny R i r L)
  then show ?case by (intro extends_decided) (auto simp: less_eq_request_status_def)
qed

end
