(* ===== verification/LeaseContract.thy ===== *)
theory LeaseContract
  imports BrokerContract LeaseSpec
begin

text \<open>
  The operations on leases refine the book of \<open>LeaseSpec\<close>, for every broker that meets the
  contract: an operation that returns a result has taken exactly one step of the book and its
  audit event is on the trail, and an operation that returns an error has left the book as it
  was.
\<close>

definition book_of :: "'w view \<Rightarrow> 'w \<Rightarrow> book" where
  "book_of v w = (vw_reqs v w, vw_leases v w)"

definition audited :: "'w view \<Rightarrow> 'w \<Rightarrow> 'w \<Rightarrow> (int \<Rightarrow> audit_event) \<Rightarrow> bool" where
  "audited v w w' ev \<longleftrightarrow> (\<exists>t. ev t \<in> set (added v w w'))"

text \<open>One step of the book was taken, and its event is on the trail.\<close>

definition took_step ::
  "'w service \<Rightarrow> 'w view \<Rightarrow> 'w \<Rightarrow> lease_action \<Rightarrow> (int \<Rightarrow> audit_event) \<Rightarrow> 'w \<Rightarrow> bool" where
  "took_step s v w a ev w' \<longleftrightarrow>
     vw_invar v w' \<and> prefix (vw_trail v w) (vw_trail v w') \<and>
     lease_step (sv_policy s) (book_of v w) a (book_of v w') \<and> audited v w w' ev"

lemma steady_book: "steady v w w' \<Longrightarrow> book_of v w' = book_of v w"
  by (simp add: steady_def book_of_def)

lemma took_step_steady:
  assumes "took_step s v w a ev w1" and "steady v w1 w2" shows "took_step s v w a ev w2"
proof -
  have "added v w w2 = added v w w1 @ added v w1 w2"
    using assms by (auto simp: took_step_def steady_def added_def prefix_def)
  with assms show ?thesis
    by (auto simp: took_step_def steady_def book_of_def audited_def)
qed

lemma took_step_invar: "took_step s v w a ev w' \<Longrightarrow> vw_invar v w'"
  by (simp add: took_step_def)

definition created_event :: "lease_request \<Rightarrow> int \<Rightarrow> audit_event" where
  "created_event r t =
     zero_event\<lparr>ev_event := ''request_created'', ev_timestamp := t,
       ev_agent_id := req_agent_id r, ev_task_id := req_task_id r, ev_request_id := req_id r\<rparr>"

definition approved_event :: "string \<Rightarrow> string \<Rightarrow> lease_request \<Rightarrow> lease \<Rightarrow> int \<Rightarrow> audit_event" where
  "approved_event actor_type actor_id r l t =
     zero_event\<lparr>ev_event := ''request_approved'', ev_timestamp := t,
       ev_actor_type := actor_type, ev_actor_id := actor_id,
       ev_agent_id := req_agent_id r, ev_task_id := req_task_id r,
       ev_request_id := req_id r, ev_lease_token := lease_token l,
       ev_metadata := request_decision_audit_metadata r []\<rparr>"

definition denied_event :: "string \<Rightarrow> string \<Rightarrow> string \<Rightarrow> lease_request \<Rightarrow> int \<Rightarrow> audit_event" where
  "denied_event actor_type actor_id reason r t =
     zero_event\<lparr>ev_event := ''request_denied'', ev_timestamp := t,
       ev_actor_type := actor_type, ev_actor_id := actor_id, ev_agent_id := req_agent_id r,
       ev_task_id := req_task_id r, ev_request_id := req_id r,
       ev_metadata := request_decision_audit_metadata r [(''reason'', reason)]\<rparr>"

definition cancelled_event :: "string \<Rightarrow> lease_request \<Rightarrow> int \<Rightarrow> audit_event" where
  "cancelled_event reason r t =
     zero_event\<lparr>ev_event := ''request_cancelled_by_agent'', ev_timestamp := t,
       ev_agent_id := req_agent_id r, ev_task_id := req_task_id r, ev_request_id := req_id r,
       ev_metadata := [(''reason'', reason)]\<rparr>"

text \<open>The lease an approval at time \<open>t\<close> for \<open>ttl\<close> minutes creates.\<close>

definition lease_for :: "lease_request \<Rightarrow> string \<Rightarrow> int \<Rightarrow> int \<Rightarrow> lease" where
  "lease_for r tok t ttl =
     \<lparr>lease_token = tok, lease_request_id = req_id r, lease_agent_id = req_agent_id r,
      lease_task_id = req_task_id r, lease_intent = req_intent r, lease_secrets = req_secrets r,
      lease_command_fingerprint = req_command_fingerprint r,
      lease_workdir_fingerprint = req_workdir_fingerprint r,
      lease_expires_at = t + dur_mult ttl minute\<rparr>"

lemma lease_of_lease_for [simp]: "lease_of r (lease_for r tok t ttl)"
  by (simp add: lease_of_def lease_for_def)

lemma lease_for_token [simp]: "lease_token (lease_for r tok t ttl) = tok"
  by (simp add: lease_for_def)

context broker_ports begin

section \<open>Single store operations, and how they are undone\<close>

lemma save_then:
  assumes "vw_invar v w" and "vw_reqs v w (req_id r) = None"
    and "rs_save (sv_requests s) r w = (None, w')"
  shows "vw_invar v w'" and "vw_reqs v w' = (vw_reqs v w)(req_id r \<mapsto> r)"
    and "vw_leases v w' = vw_leases v w" and "vw_trail v w' = vw_trail v w"
    and "undoes [rollback_created_request (sv_requests s) (req_id r)] w w'"
proof -
  show w': "vw_invar v w'" "vw_reqs v w' = (vw_reqs v w)(req_id r \<mapsto> r)"
    using reqs.save_ok [OF assms(1,3)] by simp_all
  show f: "vw_leases v w' = vw_leases v w" "vw_trail v w' = vw_trail v w"
    using req_ops_frame [OF assms(1), of "rs_save (sv_requests s) r" r "[]"] assms(3) by simp_all
  show "undoes [rollback_created_request (sv_requests s) (req_id r)] w w'"
    unfolding undoes_def
  proof (intro allI impI)
    fix w1 assume "steady v w' w1"
    then have i1: "vw_invar v w1" and r1: "vw_reqs v w1 = (vw_reqs v w)(req_id r \<mapsto> r)"
      and l1: "vw_leases v w1 = vw_leases v w"
      using w' f by (auto simp: steady_def)
    obtain x w2 where d: "rs_delete (sv_requests s) (req_id r) w1 = (x, w2)" by fastforce
    with reqs.delete_present [OF i1, of "req_id r"] r1 have x: "x = None" by simp
    have "vw_invar v w2 \<and> vw_reqs v w2 = vw_reqs v w"
      using reqs.delete_ok [OF i1 d [unfolded x]] r1 assms(2) by (auto simp: fun_eq_iff)
    moreover have "vw_leases v w2 = vw_leases v w \<and> vw_trail v w2 = vw_trail v w1"
      using req_ops_frame [OF i1, of "rs_delete (sv_requests s) (req_id r)" r "req_id r"] d l1
      by simp
    ultimately show "\<exists>w2. snd (run_rollbacks [rollback_created_request (sv_requests s) (req_id r)] w1) = w2 \<and>
        vw_invar v w2 \<and> vw_reqs v w2 = vw_reqs v w \<and> vw_leases v w2 = vw_leases v w \<and>
        vw_trail v w2 = vw_trail v w1"
      using d by (simp add: rollback_created_request_def)
  qed
qed

lemma update_then:
  assumes "vw_invar v w" and "rs_update (sv_requests s) r w = (None, w')"
  shows "vw_invar v w'" and "vw_reqs v w' = (vw_reqs v w)(req_id r \<mapsto> r)"
    and "vw_leases v w' = vw_leases v w" and "vw_trail v w' = vw_trail v w"
  using reqs.update_ok [OF assms] assms
    req_ops_frame [OF assms(1), of "rs_update (sv_requests s) r" r "[]"] by simp_all

text \<open>Writing the original request back undoes an update of it.\<close>

lemma update_back:
  assumes "vw_invar v w1" and "vw_reqs v w1 = (vw_reqs v w)(req_id r \<mapsto> r')"
    and "vw_reqs v w (req_id r) = Some r"
  obtains w2 where "rs_update (sv_requests s) r w1 = (None, w2)" and "vw_invar v w2"
    and "vw_reqs v w2 = vw_reqs v w" and "vw_leases v w2 = vw_leases v w1"
    and "vw_trail v w2 = vw_trail v w1"
proof -
  obtain x w2 where u: "rs_update (sv_requests s) r w1 = (x, w2)" by fastforce
  with reqs.update_total [OF assms(1), of r] have "x = None" by simp
  with u update_then [OF assms(1), of r w2] assms(2,3) show thesis
    by (intro that [of w2]) (auto simp: fun_eq_iff)
qed

lemma update_undo:
  assumes "vw_invar v w" and "vw_reqs v w (req_id r) = Some r" and "req_id r' = req_id r"
    and "rs_update (sv_requests s) r' w = (None, w')"
  shows "undoes [rs_update (sv_requests s) r] w w'"
  unfolding undoes_def
proof (intro allI impI)
  fix w1 assume st: "steady v w' w1"
  then have "vw_invar v w1" "vw_reqs v w1 = (vw_reqs v w)(req_id r \<mapsto> r')"
    "vw_leases v w1 = vw_leases v w"
    using update_then [OF assms(1,4)] assms(3) by (auto simp: steady_def)
  then obtain w2 where "rs_update (sv_requests s) r w1 = (None, w2)" "vw_invar v w2"
      "vw_reqs v w2 = vw_reqs v w" "vw_leases v w2 = vw_leases v w" "vw_trail v w2 = vw_trail v w1"
    using update_back [OF _ _ assms(2), of w1 r'] by metis
  then show "\<exists>w2. snd (run_rollbacks [rs_update (sv_requests s) r] w1) = w2 \<and> vw_invar v w2 \<and>
      vw_reqs v w2 = vw_reqs v w \<and> vw_leases v w2 = vw_leases v w \<and>
      vw_trail v w2 = vw_trail v w1"
    by simp
qed

lemma lsave_then:
  assumes "vw_invar v w" and "ls_save (sv_leases s) l w = (None, w')"
  shows "vw_invar v w'" and "vw_leases v w' = (vw_leases v w)(lease_token l \<mapsto> l)"
    and "vw_reqs v w' = vw_reqs v w" and "vw_trail v w' = vw_trail v w"
  using leases.lsave_ok [OF assms] assms
    lease_ops_frame [OF assms(1), of "ls_save (sv_leases s) l" l "[]"] by simp_all

text \<open>An approval is undone by deleting its lease and writing the request back.\<close>

lemma approval_undo:
  assumes r: "vw_reqs v w (req_id r) = Some r" and l: "vw_leases v w (lease_token l) = None"
    and w': "vw_reqs v w' = (vw_reqs v w)(req_id r \<mapsto> r')"
      "vw_leases v w' = (vw_leases v w)(lease_token l \<mapsto> l)"
  shows "undoes [rollback_created_lease (sv_leases s) (lease_token l), rs_update (sv_requests s) r]
    w w'"
  unfolding undoes_def
proof (intro allI impI)
  fix w1 assume "steady v w' w1"
  then have i1: "vw_invar v w1" and r1: "vw_reqs v w1 = (vw_reqs v w)(req_id r \<mapsto> r')"
    and l1: "vw_leases v w1 = (vw_leases v w)(lease_token l \<mapsto> l)"
    using w' by (auto simp: steady_def)
  obtain x w2 where d: "ls_delete (sv_leases s) (lease_token l) w1 = (x, w2)" by fastforce
  with leases.ldelete_present [OF i1, of "lease_token l"] l1 have x: "x = None" by simp
  have i2: "vw_invar v w2" and l2: "vw_leases v w2 = vw_leases v w"
    using leases.ldelete_ok [OF i1 d [unfolded x]] l1 l by (auto simp: fun_eq_iff)
  have f2: "vw_reqs v w2 = vw_reqs v w1" "vw_trail v w2 = vw_trail v w1"
    using lease_ops_frame [OF i1, of "ls_delete (sv_leases s) (lease_token l)" l "lease_token l"] d
    by simp_all
  obtain w3 where "rs_update (sv_requests s) r w2 = (None, w3)" "vw_invar v w3"
      "vw_reqs v w3 = vw_reqs v w" "vw_leases v w3 = vw_leases v w" "vw_trail v w3 = vw_trail v w1"
    using update_back [OF i2 _ r, of r'] f2 r1 l2 by metis
  with d show "\<exists>w2. snd (run_rollbacks [rollback_created_lease (sv_leases s) (lease_token l),
        rs_update (sv_requests s) r] w1) = w2 \<and> vw_invar v w2 \<and>
      vw_reqs v w2 = vw_reqs v w \<and> vw_leases v w2 = vw_leases v w \<and>
      vw_trail v w2 = vw_trail v w1"
    by (simp add: rollback_created_lease_def)
qed

section \<open>The operations\<close>

text \<open>
  A mutation that has written its request record and then finishes has taken its step, or has
  left the book as it was.
\<close>

lemma submit_and_finish:
  assumes w: "calm v w w3" and none: "vw_reqs v w (req_id r) = None"
    and r: "req_status r = RequestPending"
      "validate_request (sv_policy s) (req_ttl_minutes r) (req_secrets r) = None"
  shows "case (case rs_save (sv_requests s) r w3 of
           (Some e, w) \<Rightarrow> (Inl e, w)
         | (None, w) \<Rightarrow>
           (case finish_mutation s [rollback_created_request (sv_requests s) (req_id r)]
              (created_event r) w of
              (Some e, w) \<Rightarrow> (Inl e, w)
            | (None, w) \<Rightarrow> (Inr r, w))) of
      (Inl e, w') \<Rightarrow> steady v w w'
    | (Inr r', w') \<Rightarrow> r' = r \<and> took_step s v w (Submitted r) (created_event r) w'"
proof -
  let ?undo = "[rollback_created_request (sv_requests s) (req_id r)]"
  obtain y w4 where sv: "rs_save (sv_requests s) r w3 = (y, w4)" by fastforce
  show ?thesis
  proof (cases y)
    case (Some e)
    then have "steady v w3 w4"
      using reqs.save_err [OF calm_invar [OF w]] sv
        req_ops_frame [OF calm_invar [OF w], of "rs_save (sv_requests s) r" r "[]"]
      by (simp add: steady_def)
    with w have "steady v w w4" by (rule calm_steady_trans)
    with sv Some show ?thesis by simp
  next
    case None
    have none3: "vw_reqs v w3 (req_id r) = None" using none w by (simp add: calm_def)
    note s4 = save_then [OF calm_invar [OF w] none3 sv [unfolded None]]
    obtain z w5 where f: "finish_mutation s ?undo (created_event r) w4 = (z, w5)" by fastforce
    have fin: "case finish_mutation s ?undo (created_event r) w4 of
        (Some e, w') \<Rightarrow> steady v w3 w'
      | (None, w') \<Rightarrow> steady v w4 w' \<and> (\<exists>t pre. added v w4 w' = pre @ [created_event r t])"
      by (rule finish_mutation_cases [OF s4(1,5,4)])
    show ?thesis
    proof (cases z)
      case (Some e)
      with fin f have "steady v w3 w5" by simp
      with w have "steady v w w5" by (rule calm_steady_trans)
      with sv None f Some show ?thesis by simp
    next
      case z: None
      with fin f obtain t' pre where st: "steady v w4 w5"
        and ad: "added v w4 w5 = pre @ [created_event r t']" by auto
      have tr: "vw_trail v w4 = vw_trail v w" using s4(4) w by (simp add: calm_def)
      have "book_of v w5 = ((vw_reqs v w)(req_id r \<mapsto> r), vw_leases v w)"
        using s4 w st by (simp add: book_of_def calm_def steady_def)
      then have "lease_step (sv_policy s) (book_of v w) (Submitted r) (book_of v w5)"
        using lease_step.submit [of "vw_reqs v w" r, OF none r] by (simp add: book_of_def)
      then have "took_step s v w (Submitted r) (created_event r) w5"
        using st ad tr unfolding took_step_def audited_def by (auto simp: steady_def added_def)
      then show ?thesis using sv None f z by simp
    qed
  qed
qed

text \<open>
  Requesting: on success a fresh pending request with the given scope is on the books, on
  failure nothing is.
\<close>

lemma request_lease_unlocked_refines:
  assumes inv: "vw_invar v w" and fresh: "fresh_request_ids s v w"
  shows "case request_lease_unlocked s a t reason ttl ss intent cfp dfp p cs ws w of
      (Inl e, w') \<Rightarrow> steady v w w'
    | (Inr r, w') \<Rightarrow>
        took_step s v w (Submitted r) (created_event r) w' \<and>
        req_agent_id r = a \<and> req_task_id r = t \<and> req_secrets r = ss \<and> req_ttl_minutes r = ttl \<and>
        req_intent r = trim_space intent \<and> req_command_fingerprint r = cfp \<and>
        req_workdir_fingerprint r = dfp \<and> req_env_path r = trim_space p"
proof (cases "validate_request (sv_policy s) ttl ss")
  case (Some e)
  then show ?thesis using inv by (simp add: request_lease_unlocked_def steady_refl)
next
  case valid: None
  obtain x w1 where c: "canonicalize_approved_env_path s (trim_space p) w = (x, w1)" by fastforce
  with canonicalize_calm' [OF inv, of "trim_space p"] have w1: "calm v w w1" by simp
  show ?thesis
  proof (cases x)
    case (Inl e)
    with valid c w1 show ?thesis
      by (simp add: request_lease_unlocked_def Let_def calm_steady)
  next
    case (Inr canonical)
    obtain i w2 where i: "sv_new_request_id s w1 = (i, w2)" by fastforce
    with new_request_id_calm [OF calm_invar [OF w1]] w1 have w2: "calm v w w2"
      by (auto intro: calm_trans)
    obtain now w3 where n: "sv_now s w2 = (now, w3)" by fastforce
    with now_calm [OF calm_invar [OF w2]] w2 have w3: "calm v w w3" by (auto intro: calm_trans)
    define r where "r = \<lparr>req_id = i, req_agent_id = a, req_task_id = t,
      req_intent = trim_space intent, req_reason = reason, req_ttl_minutes = ttl,
      req_secrets = ss, req_command_fingerprint = cfp, req_workdir_fingerprint = dfp,
      req_command_summary = normalize_request_summary cs max_request_command_summary_runes,
      req_workdir_summary = normalize_request_summary ws max_request_workdir_summary_runes,
      req_env_path = trim_space p, req_env_path_canonical = canonical,
      req_status = RequestPending, req_created_at = now\<rparr>"
    have "vw_reqs v w i = None"
      using fresh calm_steady [OF w1] i unfolding fresh_request_ids_def by (metis fst_conv)
    then have none: "vw_reqs v w (req_id r) = None" by (simp add: r_def)
    have "request_lease_unlocked s a t reason ttl ss intent cfp dfp p cs ws w =
        (case rs_save (sv_requests s) r w3 of
           (Some e, w) \<Rightarrow> (Inl e, w)
         | (None, w) \<Rightarrow>
           (case finish_mutation s [rollback_created_request (sv_requests s) (req_id r)]
              (created_event r) w of
              (Some e, w) \<Rightarrow> (Inl e, w)
            | (None, w) \<Rightarrow> (Inr r, w)))"
      unfolding request_lease_unlocked_def Let_def
      by (simp add: valid c Inr i n r_def created_event_def [abs_def]
          cong: option.case_cong prod.case_cong)
    with submit_and_finish [OF w3 none] show ?thesis
      by (auto simp: r_def valid split: prod.splits sum.splits)
  qed
qed

text \<open>
  Approving, denying and cancelling start from the request on the books: the common part is
  the update of its status.
\<close>

lemma update_and_finish:
  assumes w: "calm v w w1" and r: "vw_reqs v w i = Some r" "req_status r = RequestPending"
    and r': "r' = r\<lparr>req_status := RequestDenied\<rparr>"
    and w2: "rs_update (sv_requests s) r' w1 = (None, w2)"
  shows "case finish_mutation s [rs_update (sv_requests s) r] ev w2 of
      (Some e, w') \<Rightarrow> steady v w w'
    | (None, w') \<Rightarrow> took_step s v w (Denied i) ev w'"
proof -
  have id: "req_id r = i"
    using reqs.reqs_key [OF calm_invar [OF w]] r(1) w by (auto simp: calm_def)
  have r1: "vw_reqs v w1 (req_id r) = Some r" using r w id by (simp add: calm_def)
  note s2 = update_then [OF calm_invar [OF w] w2]
  have undo: "undoes [rs_update (sv_requests s) r] w1 w2"
    by (rule update_undo [OF calm_invar [OF w] r1 _ w2]) (simp add: r')
  have fin: "case finish_mutation s [rs_update (sv_requests s) r] ev w2 of
      (Some e, w') \<Rightarrow> steady v w1 w'
    | (None, w') \<Rightarrow> steady v w2 w' \<and> (\<exists>t pre. added v w2 w' = pre @ [ev t])"
    by (rule finish_mutation_cases [OF s2(1) undo s2(4)])
  show ?thesis
  proof (cases "finish_mutation s [rs_update (sv_requests s) r] ev w2")
    case (Pair x w3)
    show ?thesis
    proof (cases x)
      case (Some e)
      with fin Pair have "steady v w1 w3" by simp
      with w have "steady v w w3" by (rule calm_steady_trans)
      with Some Pair show ?thesis by simp
    next
      case None
      with fin Pair obtain t pre where st: "steady v w2 w3" and ad: "added v w2 w3 = pre @ [ev t]"
        by auto
      have tr: "vw_trail v w2 = vw_trail v w" using s2(4) w by (simp add: calm_def)
      have "book_of v w3 = ((vw_reqs v w)(i \<mapsto> r'), vw_leases v w)"
        using s2 w st id r' by (simp add: book_of_def calm_def steady_def)
      then have "lease_step (sv_policy s) (book_of v w) (Denied i) (book_of v w3)"
        using lease_step.deny [of "vw_reqs v w", OF r] r' by (simp add: book_of_def)
      with st ad tr None Pair show ?thesis
        by (auto simp: took_step_def audited_def steady_def added_def)
    qed
  qed
qed

lemma get_request_calm:
  assumes "vw_invar v w" and "rs_get (sv_requests s) i w = (x, w')"
  shows "calm v w w'" and "x = Inr r \<Longrightarrow> vw_reqs v w i = Some r"
  using get_calm [OF assms(1), of i] reqs.get_ok [OF assms(1), of i r w'] assms(2) by auto

lemma update_err_steady:
  assumes "calm v w w1" and "rs_update (sv_requests s) r w1 = (Some e, w2)"
  shows "steady v w w2"
  using assms reqs.update_err [OF calm_invar [OF assms(1)] assms(2)]
    req_ops_frame [OF calm_invar [OF assms(1)], of "rs_update (sv_requests s) r" r "[]"]
  by (simp add: calm_def steady_def)

text \<open>The shared shape of a refusal: deny and cancel.\<close>

lemma refuse_refines:
  assumes w: "calm v w w1" and r: "vw_reqs v w i = Some r" "req_status r = RequestPending"
    and last: "\<And>w. vw_invar v w \<Longrightarrow> steady v w (snd (after w))"
  shows "case (case rs_update (sv_requests s) (r\<lparr>req_status := RequestDenied\<rparr>) w1 of
           (Some e, w) \<Rightarrow> (Inl e, w)
         | (None, w) \<Rightarrow>
           (case finish_mutation s [rs_update (sv_requests s) r] ev w of
              (Some e, w) \<Rightarrow> (Inl e, w)
            | (None, w) \<Rightarrow> (Inr (r\<lparr>req_status := RequestDenied\<rparr>), snd (after w)))) of
      (Inl e, w') \<Rightarrow> steady v w w'
    | (Inr r', w') \<Rightarrow> took_step s v w (Denied i) ev w' \<and> r' = r\<lparr>req_status := RequestDenied\<rparr>"
proof -
  let ?r = "r\<lparr>req_status := RequestDenied\<rparr>"
  obtain x w2 where u: "rs_update (sv_requests s) ?r w1 = (x, w2)" by fastforce
  show ?thesis
  proof (cases x)
    case (Some e)
    with u update_err_steady [OF w] show ?thesis by simp
  next
    case None
    have fin: "case finish_mutation s [rs_update (sv_requests s) r] ev w2 of
        (Some e, w') \<Rightarrow> steady v w w'
      | (None, w') \<Rightarrow> took_step s v w (Denied i) ev w'"
      by (rule update_and_finish [OF w r refl u [unfolded None]])
    obtain y w3 where f: "finish_mutation s [rs_update (sv_requests s) r] ev w2 = (y, w3)"
      by fastforce
    show ?thesis
    proof (cases y)
      case (Some e)
      with fin f u None show ?thesis by simp
    next
      case y: None
      with fin f have t: "took_step s v w (Denied i) ev w3" by simp
      then have "steady v w3 (snd (after w3))" using last by (simp add: took_step_def)
      with t have "took_step s v w (Denied i) ev (snd (after w3))" by (rule took_step_steady)
      with u None f y show ?thesis by simp
    qed
  qed
qed

lemma deny_refines:
  assumes inv: "vw_invar v w"
  shows "case deny_request_with_actor s i reason atype aid w of
      (Inl e, w') \<Rightarrow> steady v w w'
    | (Inr r', w') \<Rightarrow> \<exists>r. vw_reqs v w i = Some r \<and> req_status r = RequestPending \<and>
        r' = r\<lparr>req_status := RequestDenied\<rparr> \<and>
        took_step s v w (Denied i) (denied_event atype aid reason r') w'"
proof -
  obtain x w1 where g: "rs_get (sv_requests s) i w = (x, w1)" by fastforce
  note w1 = get_request_calm [OF inv g]
  show ?thesis
  proof (cases x)
    case (Inl e)
    with g w1 show ?thesis by (simp add: deny_request_with_actor_def calm_steady)
  next
    case (Inr r)
    then have r: "vw_reqs v w i = Some r" using w1 by simp
    show ?thesis
    proof (cases "req_status r = RequestPending")
      case False
      with g w1 Inr show ?thesis by (simp add: deny_request_with_actor_def calm_steady)
    next
      case True
      let ?r = "r\<lparr>req_status := RequestDenied\<rparr>"
      define after where "after w = (if trim_space (req_env_path r) \<noteq> [] then
          audit_env_path_rejected s (req_agent_id r) (req_task_id r) (req_id r) (req_env_path r)
            (req_env_path_canonical r) reason w else (None, w))" for w
      have last: "steady v w (snd (after w))" if "vw_invar v w" for w
        using that by (simp add: after_def audit_env_path_steady steady_refl)
      have "deny_request_with_actor s i reason atype aid w =
          (case rs_update (sv_requests s) ?r w1 of
             (Some e, w) \<Rightarrow> (Inl e, w)
           | (None, w) \<Rightarrow>
             (case finish_mutation s [rs_update (sv_requests s) r]
                (denied_event atype aid reason ?r) w of
                (Some e, w) \<Rightarrow> (Inl e, w)
              | (None, w) \<Rightarrow> (Inr ?r, snd (after w))))"
        using True g Inr
        by (simp add: deny_request_with_actor_def Let_def after_def denied_event_def [abs_def]
            case_prod_beta cong: option.case_cong if_cong)
      then have "case deny_request_with_actor s i reason atype aid w of
          (Inl e, w') \<Rightarrow> steady v w w'
        | (Inr r', w') \<Rightarrow> took_step s v w (Denied i) (denied_event atype aid reason ?r) w' \<and> r' = ?r"
        by (simp only: refuse_refines [where after = after, OF w1(1) r True last])
      then show ?thesis using r True by (auto split: prod.splits sum.splits)
    qed
  qed
qed

lemma cancel_refines:
  assumes inv: "vw_invar v w"
  shows "case cancel_request_by_agent s i agent reason w of
      (Inl e, w') \<Rightarrow> steady v w w'
    | (Inr r', w') \<Rightarrow> \<exists>r. vw_reqs v w i = Some r \<and> req_status r = RequestPending \<and>
        (agent = [] \<or> req_agent_id r = agent) \<and> r' = r\<lparr>req_status := RequestDenied\<rparr> \<and>
        took_step s v w (Denied i) (cancelled_event reason r') w'"
proof -
  obtain x w1 where g: "rs_get (sv_requests s) i w = (x, w1)" by fastforce
  note w1 = get_request_calm [OF inv g]
  show ?thesis
  proof (cases x)
    case (Inl e)
    with g w1 show ?thesis by (simp add: cancel_request_by_agent_def calm_steady)
  next
    case (Inr r)
    then have r: "vw_reqs v w i = Some r" using w1 by simp
    show ?thesis
    proof (cases "req_status r = RequestPending \<and> (agent = [] \<or> req_agent_id r = agent)")
      case False
      with g w1 Inr show ?thesis by (auto simp: cancel_request_by_agent_def calm_steady)
    next
      case True
      let ?r = "r\<lparr>req_status := RequestDenied\<rparr>"
      define after where "after w = (None :: gerror option, w)" for w :: 'w
      have last: "steady v w (snd (after w))" if "vw_invar v w" for w
        using that by (simp add: after_def steady_refl)
      have "cancel_request_by_agent s i agent reason w =
          (case rs_update (sv_requests s) ?r w1 of
             (Some e, w) \<Rightarrow> (Inl e, w)
           | (None, w) \<Rightarrow>
             (case finish_mutation s [rs_update (sv_requests s) r] (cancelled_event reason ?r) w of
                (Some e, w) \<Rightarrow> (Inl e, w)
              | (None, w) \<Rightarrow> (Inr ?r, snd (after w))))"
        using True g Inr
        by (auto simp: cancel_request_by_agent_def Let_def after_def cancelled_event_def [abs_def]
            case_prod_beta cong: option.case_cong if_cong)
      then have "case cancel_request_by_agent s i agent reason w of
          (Inl e, w') \<Rightarrow> steady v w w'
        | (Inr r', w') \<Rightarrow> took_step s v w (Denied i) (cancelled_event reason ?r) w' \<and> r' = ?r"
        using True
        by (simp only: refuse_refines [where after = after, OF w1(1) r _ last])
      then show ?thesis using r True by (auto split: prod.splits sum.splits)
    qed
  qed
qed

text \<open>Approving: the lease is stored after the request has been updated.\<close>

lemma lease_and_finish:
  assumes w: "calm v w w1" and r: "vw_reqs v w i = Some r" "req_status r = RequestPending"
    and u: "rs_update (sv_requests s) (r\<lparr>req_status := RequestApproved\<rparr>) w1 = (None, w2)"
    and calm23: "calm v w2 w3" and free: "vw_leases v w (lease_token l) = None" and l: "lease_of r l"
  shows "case (case ls_save (sv_leases s) l w3 of
           (Some e, w) \<Rightarrow>
             (case rs_update (sv_requests s) r w of
                (Some e', w) \<Rightarrow> (Inl (wrap e e'), w)
              | (None, w) \<Rightarrow> (Inl e, w))
         | (None, w) \<Rightarrow>
             (case finish_mutation s [rollback_created_lease (sv_leases s) (lease_token l),
                rs_update (sv_requests s) r] ev w of
                (Some e, w) \<Rightarrow> (Inl e, w)
              | (None, w) \<Rightarrow> (Inr l, w))) of
      (Inl e, w') \<Rightarrow> steady v w w'
    | (Inr l', w') \<Rightarrow> l' = l \<and> took_step s v w (Approved l) ev w'"
proof -
  let ?r = "r\<lparr>req_status := RequestApproved\<rparr>"
  let ?undo = "[rollback_created_lease (sv_leases s) (lease_token l), rs_update (sv_requests s) r]"
  have id: "req_id r = i"
    using reqs.reqs_key [OF calm_invar [OF w]] r(1) w by (auto simp: calm_def)
  have r': "vw_reqs v w (req_id r) = Some r" using r id by simp
  have w3: "vw_invar v w3" "vw_reqs v w3 = (vw_reqs v w)(req_id r \<mapsto> ?r)"
      "vw_leases v w3 = vw_leases v w" "vw_trail v w3 = vw_trail v w"
    using update_then [OF calm_invar [OF w] u] w calm23 by (simp_all add: calm_def)
  obtain x w4 where sv: "ls_save (sv_leases s) l w3 = (x, w4)" by fastforce
  show ?thesis
  proof (cases x)
    case (Some e)
    then have w4: "vw_invar v w4" "vw_reqs v w4 = (vw_reqs v w)(req_id r \<mapsto> ?r)"
        "vw_leases v w4 = vw_leases v w" "vw_trail v w4 = vw_trail v w"
      using leases.lsave_err [OF w3(1)] sv w3
        lease_ops_frame [OF w3(1), of "ls_save (sv_leases s) l" l "[]"] by simp_all
    obtain w5 where "rs_update (sv_requests s) r w4 = (None, w5)" "vw_invar v w5"
        "vw_reqs v w5 = vw_reqs v w" "vw_leases v w5 = vw_leases v w4" "vw_trail v w5 = vw_trail v w4"
      by (rule update_back [OF w4(1,2) r'])
    with sv Some w4 show ?thesis by (simp add: steady_def)
  next
    case None
    note s4 = lsave_then [OF w3(1) sv [unfolded None]]
    have undo: "undoes ?undo w w4"
      by (rule approval_undo [OF r' free, where r' = ?r]) (simp_all add: s4 w3)
    have tr: "vw_trail v w4 = vw_trail v w" using s4 w3 by simp
    have fin: "case finish_mutation s ?undo ev w4 of
        (Some e, w') \<Rightarrow> steady v w w'
      | (None, w') \<Rightarrow> steady v w4 w' \<and> (\<exists>t pre. added v w4 w' = pre @ [ev t])"
      by (rule finish_mutation_cases [OF s4(1) undo tr])
    obtain y w5 where f: "finish_mutation s ?undo ev w4 = (y, w5)" by fastforce
    show ?thesis
    proof (cases y)
      case (Some e)
      with fin f sv None show ?thesis by simp
    next
      case y: None
      with fin f obtain t pre where st: "steady v w4 w5" and ad: "added v w4 w5 = pre @ [ev t]"
        by auto
      have "book_of v w5 = ((vw_reqs v w)(i \<mapsto> ?r), (vw_leases v w)(lease_token l \<mapsto> l))"
        using s4 w3 st id by (simp add: book_of_def steady_def)
      then have "lease_step (sv_policy s) (book_of v w) (Approved l) (book_of v w5)"
        using lease_step.approve [of "vw_reqs v w" i r "vw_leases v w" l, OF r free l] by (simp add: book_of_def)
      with st ad tr None sv f y show ?thesis
        by (auto simp: took_step_def audited_def steady_def added_def)
    qed
  qed
qed

definition effective_ttl :: "int \<Rightarrow> lease_request \<Rightarrow> int" where
  "effective_ttl ttl r = (if ttl = 0 then req_ttl_minutes r else ttl)"

lemma approve_refines:
  assumes inv: "vw_invar v w" and fresh: "fresh_lease_tokens s v w"
  shows "case approve_request_with_actor s i ttl atype aid w of
      (Inl e, w') \<Rightarrow> steady v w w'
    | (Inr l, w') \<Rightarrow> \<exists>r t. vw_reqs v w i = Some r \<and> req_status r = RequestPending \<and>
        validate_request (sv_policy s) (effective_ttl ttl r) (req_secrets r) = None \<and>
        l = lease_for r (lease_token l) t (effective_ttl ttl r) \<and>
        took_step s v w (Approved l)
          (approved_event atype aid (r\<lparr>req_status := RequestApproved\<rparr>) l) w'"
proof -
  obtain x w1 where g: "rs_get (sv_requests s) i w = (x, w1)" by fastforce
  note w1 = get_request_calm [OF inv g]
  show ?thesis
  proof (cases x)
    case (Inl e)
    with g w1 show ?thesis by (simp add: approve_request_with_actor_def calm_steady)
  next
    case (Inr r)
    then have r: "vw_reqs v w i = Some r" using w1 by simp
    let ?r = "r\<lparr>req_status := RequestApproved\<rparr>" and ?ttl = "effective_ttl ttl r"
    show ?thesis
    proof (cases "req_status r = RequestPending \<and>
        validate_request (sv_policy s) ?ttl (req_secrets r) = None")
      case False
      with g w1 Inr show ?thesis
        by (auto simp: approve_request_with_actor_def calm_steady effective_ttl_def Let_def
            split: option.splits)
    next
      case True
      obtain y w2 where u: "rs_update (sv_requests s) ?r w1 = (y, w2)" by fastforce
      show ?thesis
      proof (cases y)
        case (Some e)
        with g Inr True u update_err_steady [OF w1(1)] show ?thesis
          by (simp add: approve_request_with_actor_def effective_ttl_def Let_def)
      next
        case None
        note s2 = update_then [OF calm_invar [OF w1(1)] u [unfolded None]]
        obtain tok w3 where k: "sv_new_lease_tok s w2 = (tok, w3)" by fastforce
        with new_lease_tok_calm [OF s2(1)] have c3: "calm v w2 w3" by simp
        obtain t w4 where n: "sv_now s w3 = (t, w4)" by fastforce
        with now_calm [OF calm_invar [OF c3]] c3 have c4: "calm v w2 w4" by (auto intro: calm_trans)
        have "vw_leases v w2 = vw_leases v w" using s2 w1(1) by (simp add: calm_def)
        then have free: "vw_leases v w tok = None"
          using fresh k s2(1) unfolding fresh_lease_tokens_def by (metis fst_conv)
        define l where "l = lease_for r tok t ?ttl"
        define after where "after w = (if trim_space (req_env_path r) \<noteq> [] then
            audit_env_path_confirmed s (req_agent_id r) (req_task_id r) (req_id r)
              (req_env_path r) (req_env_path_canonical r) w else (None, w))" for w
        have last: "steady v w (snd (after w))" if "vw_invar v w" for w
          using that by (simp add: after_def audit_env_path_steady steady_refl)
        let ?out = "case ls_save (sv_leases s) l w4 of
            (Some e, w) \<Rightarrow>
              (case rs_update (sv_requests s) r w of
                 (Some e', w) \<Rightarrow> (Inl (Wrapped e (''save lease: '' @ err_msg e @
                    '' (request rollback failed: '' @ err_msg e' @ '')'')), w)
               | (None, w) \<Rightarrow> (Inl e, w))
          | (None, w) \<Rightarrow>
              (case finish_mutation s [rollback_created_lease (sv_leases s) (lease_token l),
                 rs_update (sv_requests s) r] (approved_event atype aid ?r l) w of
                 (Some e, w) \<Rightarrow> (Inl e, w)
               | (None, w) \<Rightarrow> (Inr l, w))"
        have eq: "approve_request_with_actor s i ttl atype aid w =
            (case ?out of (Inl e, w) \<Rightarrow> (Inl e, w) | (Inr l, w) \<Rightarrow> (Inr l, snd (after w)))"
          using True g Inr u None k n
          by (auto simp: approve_request_with_actor_def Let_def after_def effective_ttl_def l_def
              lease_for_def approved_event_def [abs_def] split: prod.splits option.splits)
        obtain out w5 where o: "?out = (out, w5)" by fastforce
        have "case ?out of (Inl e, w') \<Rightarrow> steady v w w'
          | (Inr l', w') \<Rightarrow> l' = l \<and> took_step s v w (Approved l) (approved_event atype aid ?r l) w'"
          by (rule lease_and_finish [OF w1(1) r _ u [unfolded None] c4])
            (simp_all add: True free l_def)
        then have res: "case out of Inl e \<Rightarrow> steady v w w5
          | Inr l' \<Rightarrow> l' = l \<and> took_step s v w (Approved l) (approved_event atype aid ?r l) w5"
          unfolding o by simp
        have fin: "took_step s v w a ev (snd (after w5))" if "took_step s v w a ev w5" for a ev
          using that last by (blast intro: took_step_steady dest: took_step_invar)
        show ?thesis
        proof (cases out)
          case (Inl e)
          with res eq o show ?thesis by simp
        next
          case (Inr l')
          with res eq o fin r True show ?thesis by (auto simp: l_def)
        qed
      qed
    qed
  qed
qed

end

end
