(* ===== verification/AccessContract.thy ===== *)
theory AccessContract
  imports LeaseContract
begin

text \<open>
  What reading a secret and requesting under the policy guarantee, for every broker that meets
  the contract: a secret is handed out only under a live lease that covers it and after its
  audit record, and a new request respects the cap and the cooldown.
\<close>

section \<open>The gate in front of a secret\<close>

definition lease_permits :: "lease \<Rightarrow> int \<Rightarrow> string \<Rightarrow> string \<Rightarrow> string \<Rightarrow> bool" where
  "lease_permits l t n cfp dfp \<longleftrightarrow>
     t < lease_expires_at l \<and> n \<in> set (lease_secrets l) \<and>
     (lease_command_fingerprint l = [] \<or> lease_command_fingerprint l = cfp) \<and>
     (lease_workdir_fingerprint l = [] \<or> lease_workdir_fingerprint l = dfp)"

text \<open>\<open>value\<close> was read after the audit record of the start, and its access was recorded.\<close>

definition read_audited ::
  "'w service \<Rightarrow> 'w view \<Rightarrow> lease \<Rightarrow> string \<Rightarrow> string \<Rightarrow> 'w \<Rightarrow> 'w \<Rightarrow> bool" where
  "read_audited s v l n val w w' \<longleftrightarrow>
     (\<exists>w1 w2 t. steady v w w1 \<and>
        secret_access_event ''secret_access_started'' t l n \<in> set (added v w w1) \<and>
        sv_secrets s n w1 = (Inr val, w2) \<and> steady v w2 w' \<and>
        (\<exists>t'. secret_access_event ''secret_access'' t' l n \<in> set (added v w2 w')))"

context broker_ports begin

lemma now_step:
  assumes "vw_invar v w" obtains t w1 where "sv_now s w = (t, w1)" and "calm v w w1"
  using now_calm [OF assms] by (metis eq_snd_iff)

lemma now_audit:
  assumes "vw_invar v w" and "sv_now s w = (t, w1)" and "audit_critical s ev w1 = (x, w2)"
  shows "steady v w w2" and "x = None \<Longrightarrow> added v w w2 = [ev]"
proof -
  have c: "calm v w w1" using now_calm [OF assms(1)] assms(2) by simp
  show "steady v w w2"
    using calm_steady_trans [OF c audit_critical_steady [OF calm_invar [OF c], of ev]] assms(3)
    by simp
  assume "x = None"
  with assms(3) audit_critical_ok [OF calm_invar [OF c]] have "added v w1 w2 = [ev]" by simp
  with c show "added v w w2 = [ev]" by (simp add: added_def calm_def)
qed

lemma access_secret_for_lease_spec:
  assumes inv: "vw_invar v w"
  shows "case access_secret_for_lease s l n cfp dfp w of
      (Inl e, w') \<Rightarrow> steady v w w'
    | (Inr val, w') \<Rightarrow> steady v w w' \<and> lease_permits l (fst (sv_now s w)) n cfp dfp \<and>
        read_audited s v l n val w w'"
proof -
  obtain t w1 where n1: "sv_now s w = (t, w1)" and c1: "calm v w w1" by (rule now_step [OF inv])
  show ?thesis
  proof (cases "lease_permits l t n cfp dfp")
    case False
    with n1 c1 show ?thesis
      by (auto simp: access_secret_for_lease_def lease_permits_def is_expired_def calm_steady)
  next
    case True
    obtain t2 w2 where n2: "sv_now s w1 = (t2, w2)" by fastforce
    let ?ev = "secret_access_event ''secret_access_started'' t2 l n"
    obtain x w3 where a: "audit_critical s ?ev w2 = (x, w3)" by fastforce
    note A = now_audit [OF calm_invar [OF c1] n2 a]
    have s3: "steady v w w3" by (rule calm_steady_trans [OF c1 A(1)])
    show ?thesis
    proof (cases x)
      case (Some e)
      with True n1 n2 a s3 show ?thesis
        by (auto simp: access_secret_for_lease_def lease_permits_def is_expired_def)
    next
      case None
      have ev: "?ev \<in> set (added v w w3)"
        using A(2) [OF None] c1 by (simp add: added_def calm_def)
      obtain y w4 where g: "sv_secrets s n w3 = (y, w4)" by fastforce
      with secret_calm [OF steady_invar [OF s3], of n] have c4: "calm v w3 w4" by simp
      then have s4: "steady v w w4" using s3 by (rule steady_calm_trans [rotated])
      obtain t5 w5 where n5: "sv_now s w4 = (t5, w5)" by fastforce
      show ?thesis
      proof (cases y)
        case (Inl e)
        let ?be = "zero_event\<lparr>ev_event := ''secret_backend_error'', ev_timestamp := t5,
          ev_agent_id := lease_agent_id l, ev_task_id := lease_task_id l,
          ev_request_id := lease_request_id l, ev_lease_token := lease_token l, ev_secret := n,
          ev_metadata := [(''reason'', secret_backend_audit_reason (Some e))]\<rparr>"
        have "calm v w4 w5" using now_calm [OF steady_invar [OF s4]] n5 by simp
        with s4 have s5: "steady v w w5" by (rule steady_calm_trans)
        have "steady v w (snd (write_audit_event s ?be w5))"
          by (rule steady_trans [OF s5 write_audit_event_steady [OF steady_invar [OF s5]]])
        with True n1 n2 a None g n5 Inl show ?thesis
          by (auto simp: access_secret_for_lease_def lease_permits_def is_expired_def Let_def
              case_prod_beta)
      next
        case (Inr val)
        let ?ev2 = "secret_access_event ''secret_access'' t5 l n"
        obtain z w6 where b: "audit_critical s ?ev2 w5 = (z, w6)" by fastforce
        note B = now_audit [OF steady_invar [OF s4] n5 b]
        have s6: "steady v w w6" by (rule steady_trans [OF s4 B(1)])
        show ?thesis
        proof (cases z)
          case (Some e)
          with True n1 n2 a None g n5 Inr b s6 show ?thesis
            by (auto simp: access_secret_for_lease_def lease_permits_def is_expired_def)
        next
          case z: None
          have "?ev2 \<in> set (added v w4 w6)" using B(2) [OF z] by simp
          with s3 ev g Inr B(1) have "read_audited s v l n val w w6"
            unfolding read_audited_def by blast
          with True n1 n2 a None g n5 Inr b z s6 show ?thesis
            by (auto simp: access_secret_for_lease_def lease_permits_def is_expired_def)
        qed
      qed
    qed
  qed
qed

lemma get_lease_calm:
  assumes "vw_invar v w" and "get_lease_owned_by_agent s tok agent w = (x, w')"
  shows "calm v w w'"
    and "x = Inr l \<Longrightarrow> vw_leases v w tok = Some l \<and> (agent = [] \<or> lease_agent_id l = agent)"
proof -
  obtain y w1 where g: "ls_get (sv_leases s) tok w = (y, w1)" by fastforce
  have c: "calm v w w1" using lget_calm [OF assms(1), of tok] g by simp
  then show "calm v w w'"
    using assms(2) g by (cases y) (auto simp: get_lease_owned_by_agent_def split: if_splits)
  assume "x = Inr l"
  with assms(2) g have "y = Inr l \<and> (agent = [] \<or> lease_agent_id l = agent)"
    by (cases y) (auto simp: get_lease_owned_by_agent_def split: if_splits)
  with leases.lget_ok [OF assms(1), of tok l w1] g
  show "vw_leases v w tok = Some l \<and> (agent = [] \<or> lease_agent_id l = agent)" by simp
qed

lemma get_request_owned_calm:
  assumes "vw_invar v w" and "get_request_owned_by_agent s i agent w = (x, w')"
  shows "calm v w w'"
    and "x = Inr r \<Longrightarrow> vw_reqs v w i = Some r \<and> (agent = [] \<or> req_agent_id r = agent)"
proof -
  obtain y w1 where g: "rs_get (sv_requests s) i w = (y, w1)" by fastforce
  note c = get_request_calm [OF assms(1) g]
  show "calm v w w'"
    using c(1) assms(2) g by (cases y) (auto simp: get_request_owned_by_agent_def split: if_splits)
  assume "x = Inr r"
  with assms(2) g have "y = Inr r \<and> (agent = [] \<or> req_agent_id r = agent)"
    by (cases y) (auto simp: get_request_owned_by_agent_def split: if_splits)
  with c(2) show "vw_reqs v w i = Some r \<and> (agent = [] \<or> req_agent_id r = agent)" by simp
qed

lemma access_secret_by_agent_spec:
  assumes inv: "vw_invar v w"
  shows "case access_secret_by_agent s agent tok n cfp dfp w of
      (Inl e, w') \<Rightarrow> steady v w w'
    | (Inr val, w') \<Rightarrow> steady v w w' \<and>
        (\<exists>l w1. vw_leases v w tok = Some l \<and> (agent = [] \<or> lease_agent_id l = agent) \<and>
           calm v w w1 \<and> lease_permits l (fst (sv_now s w1)) n cfp dfp \<and>
           read_audited s v l n val w1 w')"
proof -
  obtain x w1 where g: "get_lease_owned_by_agent s tok agent w = (x, w1)" by fastforce
  note G = get_lease_calm [OF inv g]
  show ?thesis
  proof (cases x)
    case (Inl e)
    with g G show ?thesis by (simp add: access_secret_by_agent_def calm_steady)
  next
    case (Inr l)
    obtain y w2 where a: "access_secret_for_lease s l n cfp dfp w1 = (y, w2)" by fastforce
    have "case y of Inl e \<Rightarrow> steady v w1 w2
      | Inr val \<Rightarrow> steady v w1 w2 \<and> lease_permits l (fst (sv_now s w1)) n cfp dfp \<and>
          read_audited s v l n val w1 w2"
      using access_secret_for_lease_spec [OF calm_invar [OF G(1)], of l n cfp dfp] a
      by simp
    then show ?thesis
      using Inr g a G by (cases y) (auto simp: access_secret_by_agent_def intro: calm_steady_trans)
  qed
qed

end

end
