(* ===== verification/ThrottleContract.thy ===== *)
theory ThrottleContract
  imports AccessContract
begin

text \<open>
  What the request policy and the resolution of execution secrets guarantee, for every broker
  that meets the contract.
\<close>

section \<open>Pending requests of an agent\<close>

definition agent_pending :: "book \<Rightarrow> string \<Rightarrow> lease_request set" where
  "agent_pending B a =
     {r. (\<exists>i. fst B i = Some r) \<and> req_status r = RequestPending \<and>
         trim_space (req_agent_id r) = trim_space a}"

lemma count_pending_card:
  assumes "distinct rl" and "set rl = {r. \<exists>i. fst B i = Some r \<and> req_status r = RequestPending}"
  shows "count_pending_requests_for_agent a rl = int (card (agent_pending B a)) \<and>
    finite (agent_pending B a)"
proof -
  have "agent_pending B a = set (filter (\<lambda>r. trim_space (req_agent_id r) = trim_space a) rl)"
    using assms(2) by (auto simp: agent_pending_def)
  then show ?thesis
    using distinct_card [OF distinct_filter [OF assms(1)]] by (simp add: count_pending_eq)
qed

definition scope_key :: "string \<Rightarrow> string \<Rightarrow> string list \<Rightarrow> string \<Rightarrow> string \<Rightarrow> string" where
  "scope_key a intent ss cfp dfp =
     equivalence_key \<lparr>in_agent_id = a, in_intent = trim_space intent, in_secrets = ss,
       in_command_fingerprint = cfp, in_workdir_fingerprint = dfp\<rparr>"

text \<open>No equivalent pending request is younger than the cooldown at time \<open>t\<close>.\<close>

definition cooled_down :: "book \<Rightarrow> string \<Rightarrow> int \<Rightarrow> int \<Rightarrow> bool" where
  "cooled_down B key cooldown t \<longleftrightarrow>
     (\<forall>i r. fst B i = Some r \<longrightarrow> req_status r = RequestPending \<longrightarrow>
        equivalence_key (pending_input r) = key \<longrightarrow> remaining_cooldown t cooldown r \<le> 0)"

lemma cooled_down_loop:
  assumes "set rl = {r. \<exists>i. fst B i = Some r \<and> req_status r = RequestPending}"
    and "cooldown_loop t key cooldown 0 rl \<le> 0"
  shows "cooled_down B key cooldown t"
  using assms cooldown_loop_pos [of t key cooldown rl]
  by (fastforce simp: cooled_down_def)

lemma fresh_request_ids_steady:
  "fresh_request_ids s v w \<Longrightarrow> steady v w w1 \<Longrightarrow> fresh_request_ids s v w1"
  unfolding fresh_request_ids_def by (metis steady_def steady_trans)

text \<open>What a new request under the policy has passed.\<close>

definition admitted :: "'w service \<Rightarrow> 'w view \<Rightarrow> 'w \<Rightarrow> string \<Rightarrow> string \<Rightarrow> bool" where
  "admitted s v w a key \<longleftrightarrow>
     int (card (agent_pending (book_of v w) a)) < max_pending_per_agent (service_request_policy s) \<and>
     finite (agent_pending (book_of v w) a) \<and>
     (\<exists>t. cooled_down (book_of v w) key
        (identical_request_cooldown (service_request_policy s)) t)"

definition reused_ok :: "'w service \<Rightarrow> 'w view \<Rightarrow> 'w \<Rightarrow> string \<Rightarrow> lease \<Rightarrow> bool" where
  "reused_ok s v w key l \<longleftrightarrow>
     vw_leases v w (lease_token l) = Some l \<and>
     (\<exists>w1. calm v w w1 \<and> fst (sv_now s w1) < lease_expires_at l) \<and>
     equivalence_key (lease_input l) = key"

context broker_ports begin

lemma audit_then_fail:
  assumes "vw_invar v w" and "\<And>w. vw_invar v w \<Longrightarrow> steady v w (snd (f w))"
  shows "steady v w (snd (case f w of (Some e, w) \<Rightarrow> (Inl e, w) | (None, w) \<Rightarrow> (Inl e0, w)))"
  using assms(2) [OF assms(1)] by (auto split: prod.splits option.splits)

lemma request_new_lease_refines:
  assumes inv: "vw_invar v w" and fresh: "fresh_request_ids s v w"
  shows "case request_new_lease s a t reason ttl ss intent cfp dfp p cs ws w of
      (Inl e, w') \<Rightarrow> steady v w w'
    | (Inr res, w') \<Rightarrow> \<exists>r. res = \<lparr>res_request = Some r, res_lease = None, res_reused = False\<rparr> \<and>
        took_step s v w (Submitted r) (created_event r) w' \<and> req_agent_id r = a \<and>
        req_secrets r = ss \<and> admitted s v w a (scope_key a intent ss cfp dfp)"
proof -
  let ?pol = "service_request_policy s" and ?key = "scope_key a intent ss cfp dfp"
  let ?inp = "\<lparr>in_agent_id = a, in_intent = trim_space intent, in_secrets = ss,
    in_command_fingerprint = cfp, in_workdir_fingerprint = dfp\<rparr>"
  obtain x w1 where g: "rs_list_pending (sv_requests s) w = (x, w1)" by fastforce
  have c1: "calm v w w1" using pending_calm [OF inv] g by simp
  show ?thesis
  proof (cases x)
    case (Inl e)
    with g c1 show ?thesis
      by (simp add: request_new_lease_def list_pending_requests_of_def Let_def calm_steady)
  next
    case (Inr rl)
    have rl: "distinct rl" "set rl = {r. \<exists>i. fst (book_of v w) i = Some r \<and> req_status r = RequestPending}"
      using reqs.list_ok [OF inv] g Inr by (auto simp: book_of_def)
    note count = count_pending_card [OF rl, of a]
    show ?thesis
    proof (cases "count_pending_requests_for_agent a rl \<ge> max_pending_per_agent ?pol")
      case True
      obtain y w2 where au: "audit_request_throttled_pending_cap s a t ?inp
          (identical_request_cooldown ?pol) w1 = (y, w2)" by fastforce
      with audit_env_path_steady(4) [OF calm_invar [OF c1]] have "steady v w1 w2"
        by (metis audit_request_throttled_pending_cap_def snd_conv)
      with c1 have "steady v w w2" by (rule calm_steady_trans)
      with True g Inr au show ?thesis
        by (cases y) (simp_all add: request_new_lease_def list_pending_requests_of_def Let_def)
    next
      case False
      have pos: "0 < identical_request_cooldown ?pol"
        using service_request_policy_positive by blast
      obtain now w2 where n: "sv_now s w1 = (now, w2)" and n2: "calm v w1 w2"
        by (rule now_step [OF calm_invar [OF c1]])
      have c2: "calm v w w2" using c1 n2 by (rule calm_trans)
      let ?d = "cooldown_loop now ?key (identical_request_cooldown ?pol) 0 rl"
      have cd: "equivalent_request_cooldown s ?inp rl (identical_request_cooldown ?pol) w1 =
          (if ?d \<le> 0 then ((0, False), w2) else ((?d, True), w2))"
        using pos n by (simp add: equivalent_request_cooldown_def Let_def scope_key_def)
      show ?thesis
      proof (cases "?d \<le> 0")
        case True
        have fr: "fresh_request_ids s v w2"
          by (rule fresh_request_ids_steady [OF fresh calm_steady [OF c2]])
        obtain out w3 where o: "request_lease_unlocked s a t reason ttl ss intent cfp dfp p cs ws w2
            = (out, w3)" by fastforce
        have R: "case out of Inl e \<Rightarrow> steady v w2 w3
          | Inr r \<Rightarrow> took_step s v w2 (Submitted r) (created_event r) w3 \<and> req_agent_id r = a \<and>
              req_secrets r = ss"
          using request_lease_unlocked_refines [OF calm_invar [OF c2] fr, where a = a and t = t and
              reason = reason and ttl = ttl and ss = ss and intent = intent and cfp = cfp and
              dfp = dfp and p = p and cs = cs and ws = ws] o by (simp split: sum.splits)
        have eq: "request_new_lease s a t reason ttl ss intent cfp dfp p cs ws w =
            (case out of Inl e \<Rightarrow> (Inl e, w3) | Inr r \<Rightarrow>
              (Inr \<lparr>res_request = Some r, res_lease = None, res_reused = False\<rparr>, w3))"
          using True False g Inr cd o
          by (simp add: request_new_lease_def list_pending_requests_of_def Let_def split: sum.splits)
        have "admitted s v w a ?key"
          using False count cooled_down_loop [OF rl(2) True] by (auto simp: admitted_def)
        with R eq c2 show ?thesis
          by (cases out) (auto intro: calm_steady_trans simp: took_step_def calm_def book_of_def
              audited_def added_def)
      next
        case d: False
        obtain y w3 where au: "audit_request_throttled_cooldown s a t ?inp ?d w2 = (y, w3)" by fastforce
        with audit_env_path_steady(4) [OF calm_invar [OF c2]] have "steady v w2 w3"
          by (metis audit_request_throttled_cooldown_def snd_conv)
        with c2 have "steady v w w3" by (rule calm_steady_trans)
        with d False g Inr cd au show ?thesis
          by (cases y) (simp_all add: request_new_lease_def list_pending_requests_of_def Let_def)
      qed
    qed
  qed
qed

lemma find_reusable_spec:
  assumes inv: "vw_invar v w" and f: "find_equivalent_active_lease s inp w = (x, w')"
  shows "calm v w w'" and "x = Inr (Some l) \<Longrightarrow> reused_ok s v w (equivalence_key inp) l"
proof -
  have "calm v w w' \<and> (x = Inr (Some l) \<longrightarrow> reused_ok s v w (equivalence_key inp) l)"
  proof (cases "ls_list (sv_leases s)")
    case None
    with f inv show ?thesis by (auto simp: find_equivalent_active_lease_def calm_def)
  next
    case (Some g)
    obtain y w1 where y: "g w = (y, w1)" by fastforce
    have c1: "calm v w w1" using llist_calm [OF inv Some] y by simp
    show ?thesis
    proof (cases y)
      case (Inl e)
      with f Some y c1 show ?thesis by (auto simp: find_equivalent_active_lease_def)
    next
      case (Inr ls)
      obtain t w2 where n: "sv_now s w1 = (t, w2)" and c2: "calm v w1 w2"
        by (rule now_step [OF calm_invar [OF c1]])
      from f Some y Inr n have x: "x = Inr (equivalent_lease_loop t (equivalence_key inp) ls)"
        and w': "w' = w2" by (auto simp: find_equivalent_active_lease_def)
      have "set ls = ran (vw_leases v w)" using leases.llist_ok [OF inv Some] y Inr by auto
      then have "vw_leases v w (lease_token l) = Some l" if "l \<in> set ls"
        using that leases.leases_key [OF inv] by (fastforce simp: ran_def)
      with x n c1 show ?thesis
        using calm_trans [OF c1 c2] w' equivalent_lease_loop_Some [of t "equivalence_key inp" ls l]
        by (auto simp: reused_ok_def is_expired_def)
    qed
  qed
  then show "calm v w w'" and "x = Inr (Some l) \<Longrightarrow> reused_ok s v w (equivalence_key inp) l"
    by auto
qed

lemma request_with_policy_refines:
  assumes inv: "vw_invar v w" and fresh: "fresh_request_ids s v w"
  shows "case request_lease_with_policy_and_intent_and_summary s a t reason ttl ss intent cfp dfp p
        cs ws w of
      (Inl e, w') \<Rightarrow> steady v w w'
    | (Inr res, w') \<Rightarrow>
        (if res_reused res then
           steady v w w' \<and> trim_space p = [] \<and>
           (\<exists>l. res_lease res = Some l \<and> reused_ok s v w (scope_key a intent ss cfp dfp) l)
         else \<exists>r. res_request res = Some r \<and>
           took_step s v w (Submitted r) (created_event r) w' \<and> req_agent_id r = a \<and>
           req_secrets r = ss \<and> admitted s v w a (scope_key a intent ss cfp dfp))"
proof (cases "validate_request (sv_policy s) ttl ss")
  case (Some e)
  then show ?thesis
    using inv by (simp add: request_lease_with_policy_and_intent_and_summary_def steady_refl)
next
  case valid: None
  let ?key = "scope_key a intent ss cfp dfp"
  let ?inp = "\<lparr>in_agent_id = a, in_intent = trim_space intent, in_secrets = ss,
    in_command_fingerprint = cfp, in_workdir_fingerprint = dfp\<rparr>"
  let ?new = "request_new_lease s a t reason ttl ss intent cfp dfp p cs ws"
  let ?call = "request_lease_with_policy_and_intent_and_summary s a t reason ttl ss intent cfp dfp p
        cs ws w"
  have new: "case ?new w1 of
      (Inl e, w') \<Rightarrow> steady v w w'
    | (Inr res, w') \<Rightarrow> \<exists>r. res = \<lparr>res_request = Some r, res_lease = None, res_reused = False\<rparr> \<and>
        took_step s v w (Submitted r) (created_event r) w' \<and> req_agent_id r = a \<and>
        req_secrets r = ss \<and> admitted s v w a ?key" if c: "calm v w w1" for w1
    using request_new_lease_refines [OF calm_invar [OF c]
        fresh_request_ids_steady [OF fresh calm_steady [OF c]], where a = a and t = t and
        reason = reason and ttl = ttl and ss = ss and intent = intent and cfp = cfp and
        dfp = dfp and p = p and cs = cs and ws = ws] c
    by (auto split: prod.splits sum.splits intro: calm_steady_trans
        simp: took_step_def calm_def book_of_def audited_def added_def admitted_def)
  show ?thesis
  proof (cases "enable_active_lease_reuse (service_request_policy s) \<and> trim_space p = []")
    case False
    have "calm v w w" using inv by (simp add: calm_def)
    moreover have "?call = ?new w"
      using False valid by (auto simp: request_lease_with_policy_and_intent_and_summary_def Let_def)
    ultimately show ?thesis using new by (fastforce split: prod.splits sum.splits)
  next
    case True
    obtain x w1 where f: "find_equivalent_active_lease s ?inp w = (x, w1)" by fastforce
    note F = find_reusable_spec [OF inv f]
    consider (err) e where "x = Inl e" | (none) "x = Inr None" | (reuse) l where "x = Inr (Some l)"
      by (cases x) auto
    then show ?thesis
    proof cases
      case err
      with f F True valid show ?thesis
        by (simp add: request_lease_with_policy_and_intent_and_summary_def Let_def calm_steady)
    next
      case none
      with f True valid have "?call = ?new w1"
        by (simp add: request_lease_with_policy_and_intent_and_summary_def Let_def)
      with new [OF F(1)] show ?thesis by (fastforce split: prod.splits sum.splits)
    next
      case reuse
      have ok: "reused_ok s v w ?key l" using F(2) [OF reuse] by (simp add: scope_key_def)
      obtain y w2 where au: "audit_request_reused_active_lease s a t ?inp l w1 = (y, w2)" by fastforce
      have "steady v w1 w2" using audit_env_path_steady(3) [OF calm_invar [OF F(1)]] au
        by (metis snd_conv)
      with F(1) have "steady v w w2" by (rule calm_steady_trans)
      with f True valid reuse au ok show ?thesis
        by (cases y) (simp_all add: request_lease_with_policy_and_intent_and_summary_def Let_def)
    qed
  qed
qed

end

end
