(* ===== verification/ExecSecretsContract.thy ===== *)
theory ExecSecretsContract
  imports ThrottleContract
begin

text \<open>
  The secrets of an execution, for every broker that meets the contract: they are handed out
  under a live lease of an approved request, for names the lease covers, each one audited
  before and after it is read; with an \<open>env_path\<close>, only from the file that was confirmed.
\<close>

lemma added_mono:
  assumes "steady v w w1" and "steady v w1 w2" and "steady v w2 w3"
  shows "set (added v w1 w2) \<subseteq> set (added v w w3)"
  using assms by (auto simp: steady_def added_def prefix_def)

lemma read_audited_mono:
  assumes "steady v w w1" and "read_audited s v l n val w1 w2" and "steady v w2 w3"
  shows "read_audited s v l n val w w3"
proof -
  obtain wa wb t t' where a: "steady v w1 wa"
      "secret_access_event ''secret_access_started'' t l n \<in> set (added v w1 wa)"
      "sv_secrets s n wa = (Inr val, wb)" "steady v wb w2"
      "secret_access_event ''secret_access'' t' l n \<in> set (added v wb w2)"
    using assms(2) unfolding read_audited_def by blast
  have refl: "steady v wa wa" using a(1) by (simp add: steady_def)
  have "steady v w wa" "steady v wb w3"
    by (rule steady_trans [OF assms(1) a(1)], rule steady_trans [OF a(4) assms(3)])
  moreover have "secret_access_event ''secret_access_started'' t l n \<in> set (added v w wa)"
    using added_mono [OF assms(1) a(1) refl] a(2) by blast
  moreover have "secret_access_event ''secret_access'' t' l n \<in> set (added v wb w3)"
    using a(4,5) assms(3) by (auto simp: steady_def added_def prefix_def)
  ultimately show ?thesis using a(3) unfolding read_audited_def by blast
qed

text \<open>Values that an operator confirmed the file of.\<close>

definition confirmed_values ::
  "'w service \<Rightarrow> 'w view \<Rightarrow> lease_request \<Rightarrow> lease \<Rightarrow> string list \<Rightarrow> string go_map \<Rightarrow> 'w \<Rightarrow> 'w \<Rightarrow> bool"
where
  "confirmed_values s v r l ns vals w w' \<longleftrightarrow>
     (\<exists>eps w1 w2 c. sv_env_path_secrets s = Some eps \<and> steady v w w1 \<and>
        (\<forall>n\<in>set ns. \<exists>t. secret_access_event ''secret_access_started'' t l n \<in> set (added v w w1)) \<and>
        eps_resolve eps (req_env_path r) ns w1 = (Inr (vals, c), w2) \<and>
        normalize_env_path_canonical (sv_paths s) c w2 =
          normalize_env_path_canonical (sv_paths s) (req_env_path_canonical r) w \<and>
        normalize_env_path_canonical (sv_paths s) c w2 \<noteq> [] \<and> steady v w2 w' \<and>
        (\<forall>n\<in>set ns. \<exists>t. secret_access_event ''secret_access'' t l n \<in> set (added v w2 w')))"

text \<open>What stands behind the values that an execution receives.\<close>

definition secrets_granted ::
  "'w service \<Rightarrow> 'w view \<Rightarrow> string \<Rightarrow> string \<Rightarrow> string list \<Rightarrow> string \<Rightarrow> string \<Rightarrow> string go_map \<Rightarrow>
   'w \<Rightarrow> 'w \<Rightarrow> bool"
where
  "secrets_granted s v agent tok names cfp dfp vals w w' \<longleftrightarrow>
     (\<exists>l r ns w1 w2. normalize_execution_secret_names names = Inr ns \<and>
        vw_leases v w tok = Some l \<and> (agent = [] \<or> lease_agent_id l = agent) \<and>
        vw_reqs v w (lease_request_id l) = Some r \<and> req_status r = RequestApproved \<and>
        (agent = [] \<or> req_agent_id r = agent) \<and>
        calm v w w1 \<and> (\<forall>n\<in>set ns. lease_permits l (fst (sv_now s w1)) n cfp dfp) \<and>
        calm v w w2 \<and>
        (if trim_space (req_env_path r) = [] then
           dom (go_get vals) = set ns \<and>
           (\<forall>n\<in>set ns. \<exists>val. go_get vals n = Some val \<and> read_audited s v l n val w2 w')
         else confirmed_values s v r l ns vals w2 w'))"

context broker_ports begin

lemma audit_each_spec:
  assumes "vw_invar v w"
  shows "case audit_each s ev l ns w of
      (Some e, w') \<Rightarrow> steady v w w'
    | (None, w') \<Rightarrow> steady v w w' \<and>
        (\<forall>n\<in>set ns. \<exists>t. secret_access_event ev t l n \<in> set (added v w w'))"
  using assms
proof (induction ns arbitrary: w)
  case Nil
  then show ?case by (simp add: steady_refl)
next
  case (Cons n ns)
  obtain t w1 where n1: "sv_now s w = (t, w1)" by fastforce
  obtain x w2 where a: "audit_critical s (secret_access_event ev t l n) w1 = (x, w2)" by fastforce
  note A = now_audit [OF Cons.prems n1 a]
  show ?case
  proof (cases x)
    case (Some e)
    with n1 a A show ?thesis by simp
  next
    case None
    obtain y w3 where r: "audit_each s ev l ns w2 = (y, w3)" by fastforce
    have IH: "steady v w2 w3 \<and> (y = None \<longrightarrow>
        (\<forall>n\<in>set ns. \<exists>t. secret_access_event ev t l n \<in> set (added v w2 w3)))"
      using Cons.IH [OF steady_invar [OF A(1)]] r by (cases y) auto
    have st: "steady v w w3" by (rule steady_trans [OF A(1) conjunct1 [OF IH]])
    have ad: "added v w w3 = secret_access_event ev t l n # added v w2 w3"
      using A added_split [of v w w2 w3] IH None by simp
    from n1 a None r st ad IH show ?thesis by (cases y) auto
  qed
qed

lemma access_each_spec:
  assumes "vw_invar v w" and "distinct ns"
  shows "case access_each s l cfp dfp acc ns w of
      (Inl e, w') \<Rightarrow> steady v w w'
    | (Inr vals, w') \<Rightarrow> steady v w w' \<and> dom (go_get vals) = dom (go_get acc) \<union> set ns \<and>
        (\<forall>n. n \<notin> set ns \<longrightarrow> go_get vals n = go_get acc n) \<and>
        (\<forall>n\<in>set ns. \<exists>val. go_get vals n = Some val \<and> read_audited s v l n val w w')"
  using assms
proof (induction ns arbitrary: w acc)
  case Nil
  then show ?case by (simp add: steady_refl)
next
  case (Cons n ns)
  obtain x w1 where a: "access_secret_for_lease s l n cfp dfp w = (x, w1)" by fastforce
  note A = access_secret_for_lease_spec [OF Cons.prems(1), of l n cfp dfp, unfolded a]
  show ?case
  proof (cases x)
    case (Inl e)
    with A a show ?thesis by simp
  next
    case (Inr val)
    then have st: "steady v w w1" and rd: "read_audited s v l n val w w1" using A by simp_all
    obtain y w2 where r: "access_each s l cfp dfp (go_set acc n val) ns w1 = (y, w2)" by fastforce
    have IH: "case y of Inl e \<Rightarrow> steady v w1 w2
      | Inr vals \<Rightarrow> steady v w1 w2 \<and> dom (go_get vals) = dom (go_get (go_set acc n val)) \<union> set ns \<and>
          (\<forall>m. m \<notin> set ns \<longrightarrow> go_get vals m = go_get (go_set acc n val) m) \<and>
          (\<forall>m\<in>set ns. \<exists>val. go_get vals m = Some val \<and> read_audited s v l m val w1 w2)"
      using Cons.IH [OF steady_invar [OF st], of "go_set acc n val"] Cons.prems(2) r by simp
    have st2: "steady v w1 w2" using IH by (cases y) auto
    have st3: "steady v w w2" using st st2 by (rule steady_trans)
    have refl2: "steady v w2 w2" using steady_refl steady_invar [OF st3] .
    show ?thesis
    proof (cases y)
      case (Inl e)
      with a Inr r st3 show ?thesis by simp
    next
      case y: (Inr vals)
      have "\<exists>val. go_get vals m = Some val \<and> read_audited s v l m val w w2" if "m \<in> set (n # ns)" for m
      proof (cases "m = n")
        case True
        then have "go_get vals m = Some val" using IH y Cons.prems(2) by simp
        with True read_audited_mono [OF steady_refl [OF Cons.prems(1)] rd st2] show ?thesis by simp
      next
        case False
        with that IH y obtain u where "go_get vals m = Some u" "read_audited s v l m u w1 w2" by auto
        with read_audited_mono [OF st _ refl2] show ?thesis by blast
      qed
      moreover have "dom (go_get vals) = dom (go_get acc) \<union> set (n # ns)" using IH y by simp
      moreover have "go_get vals m = go_get acc m" if "m \<notin> set (n # ns)" for m
        using IH y that by simp
      ultimately show ?thesis using a Inr r y st3 by simp
    qed
  qed
qed

lemma reject_env_path_steady:
  assumes "vw_invar v w"
  shows "\<exists>w'. reject_env_path s r reason e w = (Inl e, w') \<and> steady v w w'"
  using audit_env_path_steady(2) [OF assms]
  by (simp add: reject_env_path_def case_prod_beta)

lemma resolve_env_path_spec:
  assumes inv: "vw_invar v w"
  shows "case resolve_env_path_execution_secrets s r l ns w of
      (Inl e, w') \<Rightarrow> steady v w w'
    | (Inr vals, w') \<Rightarrow> steady v w w' \<and> confirmed_values s v r l ns vals w w'"
proof (cases "sv_env_path_secrets s")
  case None
  obtain w' where "reject_env_path s r ''env_path_secret_store_unavailable''
      (Sentinel (App ErrSecretBackendUnavailable)) w =
      ((Inl (Sentinel (App ErrSecretBackendUnavailable)) :: gerror + string go_map), w')"
    and "steady v w w'" using reject_env_path_steady [OF inv] by blast
  with None show ?thesis by (simp add: resolve_env_path_execution_secrets_def)
next
  case (Some eps)
  let ?exp = "normalize_env_path_canonical (sv_paths s) (req_env_path_canonical r) w"
  obtain x w1 where a: "audit_each s ''secret_access_started'' l ns w = (x, w1)" by fastforce
  note A = audit_each_spec [OF inv, of ns "''secret_access_started''" l, unfolded a]
  obtain y w2 where g: "eps_resolve eps (req_env_path r) ns w1 = (y, w2)" by fastforce
  have st1: "steady v w w1" using A by (cases x) auto
  have c2: "calm v w1 w2" using resolve_calm [OF steady_invar [OF st1] Some] g by (metis snd_conv)
  have st2: "steady v w w2" using st1 c2 by (rule steady_calm_trans)
  define good where "good z \<longleftrightarrow> (case z of (Inl e, w') \<Rightarrow> steady v w w'
      | (Inr vals, w') \<Rightarrow> steady v w w' \<and> confirmed_values s v r l ns vals w w')"
    for z :: "(gerror + string go_map) \<times> 'w"
  have err: "good (Inl e, w')" if "steady v w w'" for e w' using that by (simp add: good_def)
  have rej: "good (reject_env_path s r reason e w')" if st': "steady v w w'" for reason e w'
  proof -
    obtain w'' where rj: "reject_env_path s r reason e w' = ((Inl e :: gerror + string go_map), w'')"
      and "steady v w' w''" using reject_env_path_steady [OF steady_invar [OF st']] by blast
    then have "steady v w w''" by (intro steady_trans [OF st'])
    with rj show ?thesis by (simp add: err)
  qed
  show ?thesis
  proof (cases "?exp = [] \<or> x \<noteq> None \<or> (\<exists>e. y = Inl e) \<or>
      (\<exists>vals c. y = Inr (vals, c) \<and> normalize_env_path_canonical (sv_paths s) c w2 \<noteq> ?exp)")
    case True
    with Some a g rej [OF st2] rej [OF steady_refl [OF inv]] err [OF st1]
    have "good (resolve_env_path_execution_secrets s r l ns w)"
      by (auto simp: resolve_env_path_execution_secrets_def Let_def split: option.splits)
    then show ?thesis by (simp only: good_def)
  next
    case False
    then obtain vals c where y: "y = Inr (vals, c)" by (cases y) auto
    with False have can: "normalize_env_path_canonical (sv_paths s) c w2 = ?exp" "?exp \<noteq> []" by auto
    obtain z w3 where cf: "audit_env_path_confirmed s (req_agent_id r) (req_task_id r) (req_id r)
        (req_env_path r) ?exp w2 = (z, w3)" by fastforce
    have st23: "steady v w2 w3"
      using audit_env_path_steady(1) [OF steady_invar [OF st2]] cf by (metis snd_conv)
    have st3: "steady v w w3" using st2 st23 by (rule steady_trans)
    obtain u w4 where b: "audit_each s ''secret_access'' l ns w3 = (u, w4)" by fastforce
    note B = audit_each_spec [OF steady_invar [OF st3], of ns "''secret_access''" l, unfolded b]
    have st34: "steady v w3 w4" using B by (cases u) auto
    have st24: "steady v w2 w4" and st4: "steady v w w4"
      using steady_trans [OF st23 st34] steady_trans [OF st3 st34] .
    have eq: "resolve_env_path_execution_secrets s r l ns w =
        (case u of Some e \<Rightarrow> (Inl e, w4) | None \<Rightarrow> (Inr vals, w4))"
      using Some a g y False can cf b
      by (simp add: resolve_env_path_execution_secrets_def Let_def split: option.splits)
    show ?thesis
    proof (cases u)
      case (Some e)
      with eq st4 show ?thesis by simp
    next
      case None
      have "\<exists>t. secret_access_event ''secret_access'' t l n \<in> set (added v w2 w4)" if "n \<in> set ns" for n
        using B None that added_mono [OF st23 st34 steady_refl [OF steady_invar [OF st34]]]
        by (simp, blast)
      with Some st1 A False g y can st24 have "confirmed_values s v r l ns vals w w4"
        unfolding confirmed_values_def by (cases x) auto
      with eq None st4 show ?thesis by simp
    qed
  qed
qed

text \<open>
  The values belong to a live lease of the agent and an approved request of the agent, and
  there is one for each requested name, which the lease covers.
\<close>

lemma resolve_execution_secrets_spec:
  assumes inv: "vw_invar v w"
  shows "case resolve_execution_secrets_by_agent s agent tok names cfp dfp w of
      (Inl e, w') \<Rightarrow> steady v w w'
    | (Inr vals, w') \<Rightarrow> steady v w w' \<and> secrets_granted s v agent tok names cfp dfp vals w w'"
proof (cases "normalize_execution_secret_names names")
  case (Inl e)
  then show ?thesis using inv by (simp add: resolve_execution_secrets_by_agent_def steady_refl)
next
  case ns: (Inr ns)
  obtain x w1 where g: "get_lease_owned_by_agent s tok agent w = (x, w1)" by fastforce
  note G = get_lease_calm [OF inv g]
  obtain t w2 where n: "sv_now s w1 = (t, w2)" and c12: "calm v w1 w2"
    by (rule now_step [OF calm_invar [OF G(1)]])
  have c2: "calm v w w2" by (rule calm_trans [OF G(1) c12])
  show ?thesis
  proof (cases x)
    case (Inl e)
    with ns g G show ?thesis by (simp add: resolve_execution_secrets_by_agent_def calm_steady)
  next
    case (Inr l)
    obtain y w3 where r: "get_request_owned_by_agent s (lease_request_id l) agent w2 = (y, w3)"
      by fastforce
    note R = get_request_owned_calm [OF calm_invar [OF c2] r]
    have c3: "calm v w w3" by (rule calm_trans [OF c2 R(1)])
    let ?fps = "(lease_command_fingerprint l = [] \<or> lease_command_fingerprint l = cfp) \<and>
      (lease_workdir_fingerprint l = [] \<or> lease_workdir_fingerprint l = dfp)"
    show ?thesis
    proof (cases "is_expired l t \<or> \<not> ?fps \<or> first_not_allowed l ns \<noteq> None \<or>
        (\<exists>e. y = Inl e) \<or> (\<exists>r. y = Inr r \<and> req_status r \<noteq> RequestApproved)")
      case True
      with ns g Inr n r c2 c3 show ?thesis
        by (auto simp: resolve_execution_secrets_by_agent_def calm_steady Let_def
            split: option.splits)
    next
      case False
      then obtain rq where y: "y = Inr rq" and ap: "req_status rq = RequestApproved"
        by (cases y) auto
      have rq: "vw_reqs v w (lease_request_id l) = Some rq" "agent = [] \<or> req_agent_id rq = agent"
        using R(2) [OF y] c2 by (auto simp: calm_def)
      have permits: "\<forall>n\<in>set ns. lease_permits l (fst (sv_now s w1)) n cfp dfp"
        using False n by (auto simp: lease_permits_def is_expired_def first_not_allowed_None)
      let ?read = "if trim_space (req_env_path rq) = [] then access_each s l cfp dfp [] ns w3
        else resolve_env_path_execution_secrets s rq l ns w3"
      have eq: "resolve_execution_secrets_by_agent s agent tok names cfp dfp w = ?read"
        using False ns g Inr n r y ap
        by (auto simp: resolve_execution_secrets_by_agent_def Let_def)
      obtain out w4 where o: "?read = (out, w4)" by fastforce
      have dist: "distinct ns" using normalize_execution_secret_names_Inr [OF ns] by simp
      have out: "case out of Inl e \<Rightarrow> steady v w3 w4
        | Inr vals \<Rightarrow> steady v w3 w4 \<and> (if trim_space (req_env_path rq) = [] then
              dom (go_get vals) = set ns \<and>
              (\<forall>n\<in>set ns. \<exists>val. go_get vals n = Some val \<and> read_audited s v l n val w3 w4)
            else confirmed_values s v rq l ns vals w3 w4)"
      proof (cases "trim_space (req_env_path rq) = []")
        case True
        then show ?thesis
          using access_each_spec [OF calm_invar [OF c3] dist, where l = l and cfp = cfp and dfp = dfp
              and acc = "[]"] o
          by (cases out) auto
      next
        case False
        then show ?thesis
          using resolve_env_path_spec [OF calm_invar [OF c3], where r = rq and l = l and ns = ns] o by (cases out) auto
      qed
      have "steady v w w4" using out calm_steady_trans [OF c3] by (cases out) auto
      moreover have "secrets_granted s v agent tok names cfp dfp vals w w4" if "out = Inr vals" for vals
        unfolding secrets_granted_def
        using out that ns Inr G rq ap permits c3
        by (intro exI [of _ l] exI [of _ rq] exI [of _ ns] exI [of _ w1] exI [of _ w3]) simp
      ultimately show ?thesis using eq o by (cases out) simp_all
    qed
  qed
qed

end

end
