(* ===== verification/AuthSpec.thy ===== *)
theory AuthSpec
  imports AuthStore
begin

text \<open>
  What the broker promises about bootstrap tokens, grants and sessions: the five steps that
  change them, the invariant of every store these steps reach, and what stays true along them.
\<close>

datatype auth_action =
    Bootstrapped bootstrap_token
  | Paired string pairing_grant
  | Minted session_token
  | Revoked string string
  | Cleaned int

text \<open>A grant is active at a time: not revoked, and neither idle nor absolutely expired.\<close>

definition active_grant :: "int \<Rightarrow> pairing_grant \<Rightarrow> bool" where
  "active_grant now g \<longleftrightarrow>
     \<not> pg_revoked g \<and> now < pg_idle_expires_at g \<and> now < pg_absolute_expires_at g"

inductive auth_step :: "auth_store \<Rightarrow> auth_action \<Rightarrow> auth_store \<Rightarrow> bool" where
  bootstrapped: "go_get (as_bootstrap s) (bt_token t) = None \<Longrightarrow> \<not> bt_used t \<Longrightarrow>
    trim_space (bt_agent_id t) \<noteq> '''' \<Longrightarrow> auth_step s (Bootstrapped t) (save_bootstrap t s)"
| paired: "consume_bootstrap tok c now s = (Inr t, s1) \<Longrightarrow>
    go_get (as_grants s) (pg_grant_id g) = None \<Longrightarrow>
    pg_agent_id g = bt_agent_id t \<Longrightarrow> pg_container_id g = c \<Longrightarrow> \<not> pg_revoked g \<Longrightarrow>
    auth_step s (Paired tok g) (save_grant g s1)"
| minted: "get_grant (st_grant_id st) s = Inr g \<Longrightarrow> active_grant now g \<Longrightarrow>
    go_get (as_sessions s) (st_token st) = None \<Longrightarrow>
    st_agent_id st = pg_agent_id g \<Longrightarrow> \<not> st_revoked st \<Longrightarrow>
    auth_step s (Minted st)
      (save_session st (update_grant (g\<lparr>pg_last_used_at := now, pg_idle_expires_at := idle\<rparr>) s))"
| revoked: "(if gid = '''' then (None, s) else revoke_grant gid s) = (None, s1) \<Longrightarrow>
    (if tok = '''' then (None, s1) else revoke_session tok s1) = (None, s2) \<Longrightarrow>
    auth_step s (Revoked gid tok) s2"
| cleaned: "auth_step s (Cleaned now) (snd (cleanup_expired now s))"

inductive_cases paired_stepE: "auth_step s (Paired tok g) s'"
inductive_cases minted_stepE: "auth_step s (Minted st) s'"
inductive_simps cleaned_step_simp: "auth_step s (Cleaned now) s'"
inductive_simps bootstrapped_step_simp: "auth_step s (Bootstrapped t) s'"

text \<open>A run is a sequence of steps.\<close>

inductive auth_run :: "auth_store \<Rightarrow> auth_action list \<Rightarrow> auth_store \<Rightarrow> bool" where
  nil: "auth_run s [] s"
| snoc: "auth_run s as s' \<Longrightarrow> auth_step s' x s'' \<Longrightarrow> auth_run s (as @ [x]) s''"

section \<open>The invariant\<close>

text \<open>
  Entries are stored under their own identifier, tokens and grants name no blank agent, and every
  session belongs to a grant of the same agent.
\<close>

definition auth_ok :: "auth_store \<Rightarrow> bool" where
  "auth_ok s \<longleftrightarrow>
     keyed bt_token (as_bootstrap s) \<and> keyed pg_grant_id (as_grants s) \<and>
     keyed st_token (as_sessions s) \<and>
     (\<forall>k t. go_get (as_bootstrap s) k = Some t \<longrightarrow> trim_space (bt_agent_id t) \<noteq> '''') \<and>
     (\<forall>i g. go_get (as_grants s) i = Some g \<longrightarrow> trim_space (pg_agent_id g) \<noteq> '''') \<and>
     (\<forall>tok st. go_get (as_sessions s) tok = Some st \<longrightarrow>
        (\<exists>g. go_get (as_grants s) (st_grant_id st) = Some g \<and> pg_agent_id g = st_agent_id st))"

lemma auth_ok_new: "auth_ok new_auth_store"
  by (simp add: auth_ok_def new_auth_store_def)

lemma keyed_filter [simp]: "keyed f m \<Longrightarrow> keyed f (filter P m)"
  by (auto simp: keyed_def)

lemma keyed_map_values:
  "keyed f m \<Longrightarrow> (\<And>k v. f (g k v) = f v) \<Longrightarrow> keyed f (map (\<lambda>(k, v). (k, g k v)) m)"
  by (auto simp: keyed_def)

lemma consume_bootstrap_ok:
  assumes "consume_bootstrap tok c now s = (Inr t, s1)"
  obtains t0 where "go_get (as_bootstrap s) tok = Some t0" and "\<not> bt_used t0"
    and "bt_container_id t0 \<noteq> '''' \<longrightarrow> c = bt_container_id t0" and "now < bt_expires_at t0"
    and "t = t0\<lparr>bt_used := True\<rparr>"
    and "s1 = s\<lparr>as_bootstrap := go_set (as_bootstrap s) tok t\<rparr>"
  using assms by (auto simp: consume_bootstrap_def Let_def split: option.splits if_splits)

lemma revoke_grant_ok:
  assumes "revoke_grant i s = (None, s1)"
  obtains g where "go_get (as_grants s) i = Some g"
    and "s1 = s\<lparr>as_grants := go_set (as_grants s) i (g\<lparr>pg_revoked := True\<rparr>)\<rparr>"
  using assms by (auto simp: revoke_grant_def split: option.splits)

lemma revoke_session_ok:
  assumes "revoke_session i s = (None, s1)"
  obtains t where "go_get (as_sessions s) i = Some t"
    and "s1 = s\<lparr>as_sessions := go_set (as_sessions s) i (t\<lparr>st_revoked := True\<rparr>)\<rparr>"
  using assms by (auto simp: revoke_session_def split: option.splits)

lemma get_grant_Inr [simp]: "get_grant i s = Inr g \<longleftrightarrow> go_get (as_grants s) i = Some g"
  by (auto simp: get_grant_def split: option.splits)

lemma auth_ok_revoke_grant:
  assumes "auth_ok s" and "revoke_grant i s = (None, s1)" shows "auth_ok s1"
  using assms by (elim revoke_grant_ok) (fastforce simp: auth_ok_def keyed_get)

lemma auth_ok_revoke_session:
  assumes "auth_ok s" and "revoke_session i s = (None, s1)" shows "auth_ok s1"
  using assms by (elim revoke_session_ok) (auto simp: auth_ok_def keyed_get)

lemma wf_keyed: "keyed f m \<Longrightarrow> wf_map m"
  by (simp add: keyed_def)

lemma cleanup_grants:
  "go_get (as_grants (snd (cleanup_expired now s))) i =
     map_option (\<lambda>g. if lapsed_grant now g then g\<lparr>pg_revoked := True\<rparr> else g)
       (go_get (as_grants s) i)"
  by (simp add: cleanup_expired_def)

lemma session_grant:
  assumes "auth_ok s" and "go_get (as_sessions s) tok = Some st"
  obtains g where "go_get (as_grants s) (st_grant_id st) = Some g" and "pg_agent_id g = st_agent_id st"
proof -
  have "\<exists>g. go_get (as_grants s) (st_grant_id st) = Some g \<and> pg_agent_id g = st_agent_id st"
    using assms unfolding auth_ok_def by blast
  then show thesis using that by blast
qed

lemma session_agent:
  "auth_ok s \<Longrightarrow> go_get (as_sessions s) tok = Some st \<Longrightarrow> trim_space (st_agent_id st) \<noteq> ''''"
  by (rule session_grant, assumption+) (metis auth_ok_def)

lemma cleanup_bootstrap:
  "auth_ok s \<Longrightarrow> go_get (as_bootstrap (snd (cleanup_expired now s))) k = Some t \<Longrightarrow>
     go_get (as_bootstrap s) k = Some t"
  by (auto simp: cleanup_expired_def auth_ok_def wf_keyed go_get_filter split: option.splits if_splits)

lemma auth_ok_cleanup:
  assumes "auth_ok s" shows "auth_ok (snd (cleanup_expired now s))"
proof -
  let ?s = "snd (cleanup_expired now s)"
  have "\<exists>g. go_get (as_grants ?s) (st_grant_id st) = Some g \<and> pg_agent_id g = st_agent_id st"
    if "go_get (as_sessions ?s) tok = Some st" for tok st
  proof -
    have "go_get (as_sessions s) tok = Some st"
      using that assms
      by (auto simp: cleanup_expired_def auth_ok_def wf_keyed go_get_filter
          split: option.splits if_splits)
    with assms obtain g where "go_get (as_grants s) (st_grant_id st) = Some g"
        and "pg_agent_id g = st_agent_id st"
      by (rule session_grant)
    then show ?thesis by (auto simp: cleanup_grants)
  qed
  moreover have "trim_space (bt_agent_id t) \<noteq> ''''" if "go_get (as_bootstrap ?s) k = Some t" for k t
    using cleanup_bootstrap [OF assms that] assms by (auto simp: auth_ok_def)
  moreover have "trim_space (pg_agent_id g) \<noteq> ''''" if "go_get (as_grants ?s) i = Some g" for i g
    using that assms by (auto simp: cleanup_grants auth_ok_def split: if_splits)
  moreover have "keyed bt_token (as_bootstrap ?s)" "keyed pg_grant_id (as_grants ?s)"
      "keyed st_token (as_sessions ?s)"
    using assms by (auto simp: auth_ok_def cleanup_expired_def keyed_map_values)
  ultimately show ?thesis unfolding auth_ok_def by blast
qed

lemma auth_ok_step:
  assumes "auth_step s x s'" and "auth_ok s" shows "auth_ok s'"
  using assms
proof (induction rule: auth_step.induct)
  case (paired tok c now s t s1 g)
  from paired(1) obtain t0 where t0: "go_get (as_bootstrap s) tok = Some t0"
      "t = t0\<lparr>bt_used := True\<rparr>" "s1 = s\<lparr>as_bootstrap := go_set (as_bootstrap s) tok t\<rparr>"
    by (rule consume_bootstrap_ok)
  with paired have "bt_token t = tok" by (auto simp: auth_ok_def keyed_get)
  moreover have "st_grant_id st \<noteq> pg_grant_id g" if "go_get (as_sessions s) k = Some st" for k st
    using paired(2,6) that by (fastforce simp: auth_ok_def)
  ultimately show ?case using paired t0 by (auto simp: auth_ok_def save_grant_def)
next
  case (minted st s g now idle)
  then show ?case
    by (fastforce simp: auth_ok_def save_session_def update_grant_def keyed_get)
next
  case (revoked gid s s1 tok s2)
  then have "auth_ok s1" using auth_ok_revoke_grant by (auto split: if_splits)
  with revoked show ?case using auth_ok_revoke_session by (auto split: if_splits)
next
  case cleaned
  then show ?case by (rule auth_ok_cleanup)
qed (simp add: auth_ok_def save_bootstrap_def)

lemma auth_ok_run: "auth_run s as s' \<Longrightarrow> auth_ok s \<Longrightarrow> auth_ok s'"
  by (induction rule: auth_run.induct) (auto intro: auth_ok_step)

section \<open>Grants are never given back\<close>

text \<open>
  Along a step a grant keeps its agent, its container and its absolute expiry, and once
  revoked it stays revoked.
\<close>

definition grants_kept :: "auth_store \<Rightarrow> auth_store \<Rightarrow> bool" where
  "grants_kept s s' \<longleftrightarrow>
     (\<forall>i g. go_get (as_grants s) i = Some g \<longrightarrow>
        (\<exists>g'. go_get (as_grants s') i = Some g' \<and> pg_agent_id g' = pg_agent_id g \<and>
           pg_container_id g' = pg_container_id g \<and>
           pg_absolute_expires_at g' = pg_absolute_expires_at g \<and>
           (pg_revoked g \<longrightarrow> pg_revoked g')))"

lemma grants_kept_refl [simp]: "grants_kept s s"
  by (simp add: grants_kept_def)

lemma grants_kept_trans: "grants_kept s s' \<Longrightarrow> grants_kept s' s'' \<Longrightarrow> grants_kept s s''"
  unfolding grants_kept_def
proof (intro allI impI)
  fix i g assume s: "\<forall>i g. go_get (as_grants s) i = Some g \<longrightarrow>
        (\<exists>g'. go_get (as_grants s') i = Some g' \<and> pg_agent_id g' = pg_agent_id g \<and>
           pg_container_id g' = pg_container_id g \<and>
           pg_absolute_expires_at g' = pg_absolute_expires_at g \<and> (pg_revoked g \<longrightarrow> pg_revoked g'))"
    and s': "\<forall>i g. go_get (as_grants s') i = Some g \<longrightarrow>
        (\<exists>g'. go_get (as_grants s'') i = Some g' \<and> pg_agent_id g' = pg_agent_id g \<and>
           pg_container_id g' = pg_container_id g \<and>
           pg_absolute_expires_at g' = pg_absolute_expires_at g \<and> (pg_revoked g \<longrightarrow> pg_revoked g'))"
    and "go_get (as_grants s) i = Some g"
  then obtain g' where g': "go_get (as_grants s') i = Some g'" "pg_agent_id g' = pg_agent_id g"
    "pg_container_id g' = pg_container_id g" "pg_absolute_expires_at g' = pg_absolute_expires_at g"
    "pg_revoked g \<longrightarrow> pg_revoked g'" by blast
  with s' obtain g'' where "go_get (as_grants s'') i = Some g''" "pg_agent_id g'' = pg_agent_id g'"
    "pg_container_id g'' = pg_container_id g'" "pg_absolute_expires_at g'' = pg_absolute_expires_at g'"
    "pg_revoked g' \<longrightarrow> pg_revoked g''" by blast
  with g' show "\<exists>g'. go_get (as_grants s'') i = Some g' \<and> pg_agent_id g' = pg_agent_id g \<and>
           pg_container_id g' = pg_container_id g \<and>
           pg_absolute_expires_at g' = pg_absolute_expires_at g \<and> (pg_revoked g \<longrightarrow> pg_revoked g')"
    by (intro exI [of _ g'']) simp
qed

lemma grants_kept_step:
  assumes "auth_step s x s'" and "auth_ok s" shows "grants_kept s s'"
  using assms
proof (induction rule: auth_step.induct)
  case (paired tok c now s t s1 g)
  then show ?case
    by (elim consume_bootstrap_ok) (auto simp: grants_kept_def save_grant_def)
next
  case (minted st s g now idle)
  then have "pg_grant_id g = st_grant_id st" by (auto simp: auth_ok_def keyed_get)
  with minted show ?case
    by (auto simp: grants_kept_def save_session_def update_grant_def active_grant_def)
next
  case (revoked gid s s1 tok s2)
  have "grants_kept s s1"
    using revoked(1) by (auto simp: grants_kept_def split: if_splits elim!: revoke_grant_ok)
  moreover have "grants_kept s1 s2"
    using revoked(2) by (auto simp: grants_kept_def split: if_splits elim!: revoke_session_ok)
  ultimately show ?case by (rule grants_kept_trans)
qed (auto simp: grants_kept_def save_bootstrap_def cleanup_expired_def)

lemma grants_kept_run:
  assumes "auth_run s as s'" and "auth_ok s" shows "grants_kept s s'"
  using assms
  by (induction rule: auth_run.induct)
    (auto intro: grants_kept_trans grants_kept_step auth_ok_run)

section \<open>A bootstrap token pairs once\<close>

fun bootstrapped_tokens :: "auth_action list \<Rightarrow> string list" where
  "bootstrapped_tokens [] = []"
| "bootstrapped_tokens (Bootstrapped t # as) = bt_token t # bootstrapped_tokens as"
| "bootstrapped_tokens (_ # as) = bootstrapped_tokens as"

fun paired_tokens :: "auth_action list \<Rightarrow> string list" where
  "paired_tokens [] = []"
| "paired_tokens (Paired tok g # as) = tok # paired_tokens as"
| "paired_tokens (_ # as) = paired_tokens as"

lemma bootstrapped_tokens_append [simp]:
  "bootstrapped_tokens (as @ bs) = bootstrapped_tokens as @ bootstrapped_tokens bs"
  by (induction as rule: bootstrapped_tokens.induct) simp_all

lemma paired_tokens_append [simp]: "paired_tokens (as @ bs) = paired_tokens as @ paired_tokens bs"
  by (induction as rule: paired_tokens.induct) simp_all

text \<open>Along a run from the empty store, a paired token is used or gone, and each entry was created.\<close>

definition spent :: "auth_action list \<Rightarrow> auth_store \<Rightarrow> bool" where
  "spent as s \<longleftrightarrow>
     (\<forall>k t. go_get (as_bootstrap s) k = Some t \<longrightarrow>
        k \<in> set (bootstrapped_tokens as) \<and> (k \<in> set (paired_tokens as) \<longrightarrow> bt_used t)) \<and>
     set (paired_tokens as) \<subseteq> set (bootstrapped_tokens as)"

lemma spent_step:
  assumes "auth_step s x s'" and "spent as s" and "auth_ok s"
    and "distinct (bootstrapped_tokens (as @ [x]))"
  shows "spent (as @ [x]) s' \<and>
    (distinct (paired_tokens as) \<longrightarrow> distinct (paired_tokens (as @ [x])))"
  using assms
proof (induction rule: auth_step.induct)
  case (bootstrapped s t)
  then show ?case by (auto simp: spent_def save_bootstrap_def)
next
  case (paired tok c now s t s1 g)
  from paired(1) obtain t0 where t0: "go_get (as_bootstrap s) tok = Some t0" "\<not> bt_used t0"
      "t = t0\<lparr>bt_used := True\<rparr>" "s1 = s\<lparr>as_bootstrap := go_set (as_bootstrap s) tok t\<rparr>"
    by (rule consume_bootstrap_ok)
  with paired(6) show ?case by (auto simp: spent_def save_grant_def)
next
  case (minted st s g now idle)
  then show ?case by (simp add: spent_def save_session_def update_grant_def)
next
  case (revoked gid s s1 tok s2)
  have "as_bootstrap s1 = as_bootstrap s"
    using revoked(1) by (auto split: if_splits elim!: revoke_grant_ok)
  moreover have "as_bootstrap s2 = as_bootstrap s1"
    using revoked(2) by (auto split: if_splits elim!: revoke_session_ok)
  ultimately show ?case using revoked by (simp add: spent_def)
next
  case (cleaned s now)
  then show ?case
    by (auto simp: spent_def cleanup_expired_def go_get_filter auth_ok_def wf_keyed
        split: option.splits if_splits)
qed

lemma paired_once:
  assumes "auth_run s as s'" and "s = new_auth_store" and "distinct (bootstrapped_tokens as)"
  shows "spent as s' \<and> distinct (paired_tokens as)"
  using assms
proof (induction rule: auth_run.induct)
  case (nil s)
  then show ?case by (simp add: spent_def new_auth_store_def)
next
  case (snoc s as s' x s'')
  then have "spent as s' \<and> distinct (paired_tokens as)" by simp
  moreover have "auth_ok s'" using auth_ok_run [OF snoc(1)] snoc.prems auth_ok_new by simp
  ultimately show ?case using spent_step [OF snoc(2)] snoc.prems by blast
qed

end
