(* ===== verification/AuthContract.thy ===== *)
theory AuthContract
  imports AuthLifecycle AuthSpec "HOL-Library.Sublist"
begin

text \<open>
  The contract between the auth lifecycle and what it is wired to, and the proof that every
  operation is atomic under it: it takes one step of \<open>AuthSpec\<close> and leaves its audit event,
  or it returns an error and the store is as it was.
\<close>

definition auth_steady ::
  "'w auth_lifecycle \<Rightarrow> ('w \<Rightarrow> bool) \<Rightarrow> ('w \<Rightarrow> audit_event list) \<Rightarrow> 'w \<Rightarrow> 'w \<Rightarrow> bool" where
  "auth_steady a invar trail w w' \<longleftrightarrow>
     invar w' \<and> al_get a w' = al_get a w \<and> prefix (trail w) (trail w')"

text \<open>Steady, and the events \<open>evs\<close> are on the trail since.\<close>

definition auth_noted ::
  "'w auth_lifecycle \<Rightarrow> ('w \<Rightarrow> bool) \<Rightarrow> ('w \<Rightarrow> audit_event list) \<Rightarrow> audit_event \<Rightarrow> 'w \<Rightarrow> 'w \<Rightarrow> bool"
where
  "auth_noted a invar trail ev w w' \<longleftrightarrow>
     auth_steady a invar trail w w' \<and> ev \<in> set (drop (length (trail w)) (trail w'))"

text \<open>The outcome of a mutation: the store as it was, or a step with its event.\<close>

definition auth_outcome ::
  "'w auth_lifecycle \<Rightarrow> ('w \<Rightarrow> bool) \<Rightarrow> ('w \<Rightarrow> audit_event list) \<Rightarrow> 'w \<Rightarrow>
   ('b \<Rightarrow> auth_store \<Rightarrow> audit_event \<Rightarrow> bool) \<Rightarrow> (gerror + 'b) \<times> 'w \<Rightarrow> bool"
where
  "auth_outcome a invar trail w good r \<longleftrightarrow>
     (case r of
        (Inl e, w') \<Rightarrow> auth_steady a invar trail w w'
      | (Inr x, w') \<Rightarrow> invar w' \<and> prefix (trail w) (trail w') \<and>
          (\<exists>ev. good x (al_get a w') ev \<and> ev \<in> set (drop (length (trail w)) (trail w'))))"

text \<open>
  What a revocation revokes: the grant and the session, each unless its identifier is blank.
\<close>

definition revoke_both :: "string \<Rightarrow> string \<Rightarrow> auth_store \<Rightarrow> gerror option \<times> auth_store" where
  "revoke_both gid tok s =
     (case (if trim_space gid = '''' then (None, s) else revoke_grant gid s) of
        (Some e, s) \<Rightarrow> (Some e, s)
      | (None, s) \<Rightarrow> if trim_space tok = '''' then (None, s) else revoke_session tok s)"

lemma revoke_both_step:
  assumes "revoke_both gid tok s = (None, s')"
  shows "auth_step s (Revoked (if trim_space gid = '''' then '''' else gid)
    (if trim_space tok = '''' then '''' else tok)) s'"
proof -
  obtain x s1 where g: "(if trim_space gid = '''' then (None, s) else revoke_grant gid s) = (x, s1)"
    by fastforce
  with assms have x: "x = None"
    and r: "(if trim_space tok = '''' then (None, s1) else revoke_session tok s1) = (None, s')"
    by (cases x; simp add: revoke_both_def)+
  show ?thesis
  proof (rule auth_step.revoked [of _ _ s1])
    show "(if (if trim_space gid = '''' then '''' else gid) = '''' then (None, s)
        else revoke_grant (if trim_space gid = '''' then '''' else gid) s) = (None, s1)"
      using g x by (cases "trim_space gid = ''''"; cases gid; simp)
    show "(if (if trim_space tok = '''' then '''' else tok) = '''' then (None, s1)
        else revoke_session (if trim_space tok = '''' then '''' else tok) s1) = (None, s')"
      using r by (cases "trim_space tok = ''''"; cases tok; simp)
  qed
qed

text \<open>A revocation returns no value: its outcome is read as one.\<close>

definition as_sum :: "gerror option \<times> 'w \<Rightarrow> (gerror + unit) \<times> 'w" where
  "as_sum r = (case r of (None, w) \<Rightarrow> (Inr (), w) | (Some e, w) \<Rightarrow> (Inl e, w))"

locale auth_ports =
  fixes a :: "'w auth_lifecycle" and invar :: "'w \<Rightarrow> bool" and trail :: "'w \<Rightarrow> audit_event list"
  assumes put: "invar w \<Longrightarrow> invar (al_put a st w) \<and> al_get a (al_put a st w) = st \<and>
      trail (al_put a st w) = trail w"
    and now_steady: "invar w \<Longrightarrow> auth_steady a invar trail w (snd (al_now a w))"
    and new_bootstrap_steady:
      "invar w \<Longrightarrow> auth_steady a invar trail w (snd (al_new_bootstrap_tok a w))"
    and new_grant_steady: "invar w \<Longrightarrow> auth_steady a invar trail w (snd (al_new_grant_id a w))"
    and new_session_steady:
      "invar w \<Longrightarrow> auth_steady a invar trail w (snd (al_new_session_tok a w))"
    and persist_steady: "invar w \<Longrightarrow> al_persist a = Some p \<Longrightarrow>
      auth_steady a invar trail w (snd (p w))"
    and audit_present: "al_audit a \<noteq> None"
    and audit_ok: "invar w \<Longrightarrow> al_audit a = Some wr \<Longrightarrow> wr ev w = (None, w') \<Longrightarrow>
      auth_noted a invar trail ev w w'"
    and audit_err: "invar w \<Longrightarrow> al_audit a = Some wr \<Longrightarrow> wr ev w = (Some e, w') \<Longrightarrow>
      auth_steady a invar trail w w'"
    and handler_steady: "invar w \<Longrightarrow> al_audit_failure_handler a = Some h \<Longrightarrow>
      auth_steady a invar trail w (snd (h e w))"

context auth_ports begin

abbreviation "calmly \<equiv> auth_steady a invar trail"
abbreviation "noted \<equiv> auth_noted a invar trail"
abbreviation "outcome \<equiv> auth_outcome a invar trail"

lemma calmly_refl: "invar w \<Longrightarrow> calmly w w"
  by (simp add: auth_steady_def)

lemma calmly_invar: "calmly w w' \<Longrightarrow> invar w'"
  by (simp add: auth_steady_def)

lemma calmly_trans: "calmly w w1 \<Longrightarrow> calmly w1 w2 \<Longrightarrow> calmly w w2"
  by (auto simp: auth_steady_def)

lemma persist_auth_steady:
  assumes "invar w" shows "calmly w (snd (persist_auth a w))"
  using persist_steady [OF assms] assms
  by (cases "al_persist a") (simp_all add: persist_auth_def calmly_refl)

lemma auth_audit_critical_ok:
  assumes "invar w" and "auth_audit_critical a ev w = (None, w')" shows "noted ev w w'"
proof -
  obtain wr where wr: "al_audit a = Some wr" using audit_present by auto
  obtain x w1 where x: "wr ev w = (x, w1)" by fastforce
  have "x = None \<and> w1 = w'" using assms(2) wr x
    by (cases x) (auto simp: auth_audit_critical_def split: prod.splits option.splits)
  with x show ?thesis using audit_ok [OF assms(1) wr] by simp
qed

lemma auth_audit_critical_steady:
  assumes "invar w" shows "calmly w (snd (auth_audit_critical a ev w))"
proof -
  obtain wr where wr: "al_audit a = Some wr" using audit_present by auto
  obtain x w1 where x: "wr ev w = (x, w1)" by fastforce
  show ?thesis
  proof (cases x)
    case None
    with wr x audit_ok [OF assms wr, of ev w1] show ?thesis
      by (simp add: auth_audit_critical_def auth_noted_def)
  next
    case (Some e)
    then have st: "calmly w w1" using x audit_err [OF assms wr, of ev e w1] by simp
    show ?thesis
    proof (cases "al_audit_failure_handler a")
      case None
      with st Some wr x show ?thesis by (simp add: auth_audit_critical_def)
    next
      case h: (Some h)
      obtain y w2 where y: "h e w1 = (y, w2)" by fastforce
      then have "calmly w1 w2" using handler_steady [OF calmly_invar [OF st] h, of e] by simp
      with st have "calmly w w2" by (rule calmly_trans)
      with y h Some wr x show ?thesis by (cases y) (simp_all add: auth_audit_critical_def)
    qed
  qed
qed

lemma undo_auth_restores:
  assumes "calmly w w1" and "undo_auth a st e w1 = (e', w')"
  shows "invar w' \<and> al_get a w' = st \<and> prefix (trail w) (trail w')"
proof -
  let ?w = "al_put a (restore (snapshot st) (al_get a w1)) w1"
  have i: "invar w1" and t: "prefix (trail w) (trail w1)"
    using assms(1) by (simp_all add: auth_steady_def)
  have p: "invar ?w \<and> al_get a ?w = st \<and> trail ?w = trail w1" using put [OF i] by simp
  obtain x w2 where "persist_auth a ?w = (x, w2)" by fastforce
  with persist_auth_steady [of ?w] p have "calmly ?w w2" by simp
  with p t assms(2) \<open>persist_auth a ?w = (x, w2)\<close> show ?thesis
    by (auto simp: undo_auth_def auth_steady_def Let_def)
qed

text \<open>
  The change has been made in \<open>w1\<close>; its end keeps it and audits it, or brings back the store
  of \<open>w\<close>.
\<close>

lemma finish_auth_mutation_cases:
  assumes w1: "invar w1" "prefix (trail w) (trail w1)"
    and ev: "\<And>z. calmly w1 z \<Longrightarrow> calmly z (snd (mk z)) \<and> good res (al_get a w1) (fst (mk z))"
  shows "outcome w good (finish_auth_mutation a (al_get a w) mk res w1)"
proof -
  obtain x w2 where p: "persist_auth a w1 = (x, w2)" by fastforce
  with persist_auth_steady [OF w1(1)] have s2: "calmly w1 w2" by simp
  have undo: "outcome w good (Inl e', w')" if "calmly w1 z" "undo_auth a (al_get a w) e z = (e', w')"
    for z e e' w'
    using undo_auth_restores [OF that] prefix_order.order_trans [OF w1(2)]
    by (simp add: auth_outcome_def auth_steady_def)
  show ?thesis
  proof (cases x)
    case (Some e)
    obtain e' w' where "undo_auth a (al_get a w) e w2 = (e', w')" by fastforce
    with undo [OF s2 this] p Some show ?thesis by (simp add: finish_auth_mutation_def)
  next
    case None
    obtain v w3 where m: "mk w2 = (v, w3)" by fastforce
    with ev [OF s2] have s3: "calmly w1 w3" and g: "good res (al_get a w1) v"
      using calmly_trans [OF s2] by auto
    obtain y w4 where c: "auth_audit_critical a v w3 = (y, w4)" by fastforce
    show ?thesis
    proof (cases y)
      case (Some e)
      have s4: "calmly w1 w4"
        using calmly_trans [OF s3 auth_audit_critical_steady [OF calmly_invar [OF s3], of v]] c by simp
      obtain e' w' where "undo_auth a (al_get a w) e w4 = (e', w')" by fastforce
      with undo [OF s4 this] p None m c Some show ?thesis by (simp add: finish_auth_mutation_def)
    next
      case y: None
      with c auth_audit_critical_ok [OF calmly_invar [OF s3]] have n: "noted v w3 w4" by simp
      have "v \<in> set (drop (length (trail w)) (trail w4))"
        using n s3 w1(2) by (auto simp: auth_noted_def auth_steady_def prefix_def)
      moreover have "invar w4 \<and> al_get a w4 = al_get a w1 \<and> prefix (trail w) (trail w4)"
        using n s3 w1(2) by (auto simp: auth_noted_def auth_steady_def)
      ultimately have "outcome w good (Inr res, w4)" using g by (auto simp: auth_outcome_def)
      with p None m c y show ?thesis by (simp add: finish_auth_mutation_def)
    qed
  qed
qed

lemma on_store_then:
  assumes "invar w" and "calmly w w1"
  shows "invar (on_store a f w1)" and "al_get a (on_store a f w1) = f (al_get a w)"
    and "trail (on_store a f w1) = trail w1"
  using put [OF calmly_invar [OF assms(2)]] assms(2) by (simp_all add: on_store_def auth_steady_def)

section \<open>The operations\<close>

lemma create_bootstrap_refines:
  assumes inv: "invar w"
    and fresh: "\<And>z. calmly w z \<Longrightarrow>
      go_get (as_bootstrap (al_get a w)) (fst (al_new_bootstrap_tok a z)) = None"
  shows "outcome w
    (\<lambda>t st ev. auth_step (al_get a w) (Bootstrapped t) st \<and> bt_agent_id t = agent \<and>
       bt_container_id t = container \<and>
       bt_expires_at t = bt_created_at t + dur_mult (al_bootstrap_ttl_seconds a) second \<and>
       ev_event ev = ''auth_bootstrap_created'' \<and> ev_timestamp ev = bt_created_at t \<and>
       ev_actor_id ev = actor_id \<and> ev_agent_id ev = agent)
    (create_bootstrap a agent container actor_type actor_id w)"
proof (cases "trim_space agent = [] \<or> trim_space container = []")
  case True
  with inv show ?thesis
    by (auto simp: create_bootstrap_def auth_outcome_def calmly_refl)
next
  case False
  obtain now w1 where n: "al_now a w = (now, w1)" by fastforce
  with now_steady [OF inv] have s1: "calmly w w1" by simp
  obtain tok w2 where k: "al_new_bootstrap_tok a w1 = (tok, w2)" by fastforce
  with new_bootstrap_steady [OF calmly_invar [OF s1]] s1 have s2: "calmly w w2"
    using calmly_trans by fastforce
  have f: "go_get (as_bootstrap (al_get a w)) tok = None" using fresh [OF s1] k by simp
  let ?t = "\<lparr>bt_token = tok, bt_agent_id = agent, bt_container_id = container,
    bt_created_at = now, bt_expires_at = now + dur_mult (al_bootstrap_ttl_seconds a) second,
    bt_used = False\<rparr>"
  note st = on_store_then [OF inv s2, of "save_bootstrap ?t"]
  have "auth_step (al_get a w) (Bootstrapped ?t) (save_bootstrap ?t (al_get a w))"
    by (rule auth_step.bootstrapped) (use False in \<open>auto simp: f\<close>)
  moreover have "al_get a w1 = al_get a w" using s1 by (simp add: auth_steady_def)
  ultimately show ?thesis using False n k st s2
    by (auto simp: create_bootstrap_def Let_def auth_steady_def
        intro!: finish_auth_mutation_cases)
qed

lemma calmly_get: "calmly w z \<Longrightarrow> al_get a z = al_get a w"
  by (simp add: auth_steady_def)

lemma complete_pairing_refines:
  assumes inv: "invar w"
    and fresh: "\<And>z. invar z \<Longrightarrow> as_grants (al_get a z) = as_grants (al_get a w) \<Longrightarrow>
      go_get (as_grants (al_get a w)) (fst (al_new_grant_id a z)) = None"
  shows "outcome w
    (\<lambda>g st ev. auth_step (al_get a w) (Paired tok g) st \<and> pg_container_id g = container \<and>
       pg_idle_expires_at g = pg_created_at g + dur_mult (al_grant_idle_minutes a) minute \<and>
       pg_absolute_expires_at g = pg_created_at g + dur_mult (al_grant_absolute_minutes a) minute \<and>
       ev_event ev = ''auth_pair_completed'' \<and> ev_timestamp ev = pg_created_at g \<and>
       ev_agent_id ev = pg_agent_id g)
    (complete_pairing a tok container w)"
proof (cases "trim_space tok = [] \<or> trim_space container = []")
  case True
  with inv show ?thesis
    by (auto simp: complete_pairing_def auth_outcome_def calmly_refl)
next
  case False
  obtain now0 w1 where n: "al_now a w = (now0, w1)" by fastforce
  with now_steady [OF inv] have s1: "calmly w w1" by simp
  obtain x st where c: "consume_bootstrap tok container now0 (al_get a w) = (x, st)" by fastforce
  obtain wr where wr: "al_audit a = Some wr" using audit_present by auto
  show ?thesis
  proof (cases x)
    case (Inl e)
    obtain t w2 where t: "al_now a w1 = (t, w2)" by fastforce
    with now_steady [OF calmly_invar [OF s1]] s1 have s2: "calmly w w2"
      using calmly_trans by fastforce
    let ?ev = "zero_event\<lparr>ev_event := ''auth_pair_denied'', ev_timestamp := t,
      ev_actor_type := ''agent'', ev_actor_id := ''unknown'',
      ev_metadata := [(''reason'', err_msg e), (''container_id'', container)]\<rparr>"
    obtain y w3 where y: "wr ?ev w2 = (y, w3)" by fastforce
    have "calmly w2 w3"
      using audit_ok [OF calmly_invar [OF s2] wr, of ?ev w3]
        audit_err [OF calmly_invar [OF s2] wr, of ?ev _ w3] y
      by (cases y) (auto simp: auth_noted_def)
    with s2 have s3: "calmly w w3" by (rule calmly_trans)
    have "complete_pairing a tok container w = (Inl e, w3)"
      using False n c Inl wr t y calmly_get [OF s1] by (simp add: complete_pairing_def)
    with s3 show ?thesis by (simp add: auth_outcome_def)
  next
    case (Inr bt)
    define w2 where "w2 = al_put a st w1"
    have i2: "invar w2" "al_get a w2 = st" "trail w2 = trail w1"
      using put [OF calmly_invar [OF s1]] by (simp_all add: w2_def)
    obtain now w3 where n3: "al_now a w2 = (now, w3)" by fastforce
    with now_steady [OF i2(1)] have s3: "calmly w2 w3" by simp
    obtain gid w4 where k: "al_new_grant_id a w3 = (gid, w4)" by fastforce
    with new_grant_steady [OF calmly_invar [OF s3]] s3 have s4: "calmly w2 w4"
      using calmly_trans by fastforce
    have gs: "as_grants st = as_grants (al_get a w)"
      using c Inr by (auto elim!: consume_bootstrap_ok)
    have f: "go_get (as_grants (al_get a w)) gid = None"
      using fresh [OF calmly_invar [OF s3]] k gs i2 calmly_get [OF s3] by simp
    let ?g = "\<lparr>pg_grant_id = gid, pg_agent_id = bt_agent_id bt, pg_container_id = container,
      pg_created_at = now, pg_last_used_at = now,
      pg_idle_expires_at = now + dur_mult (al_grant_idle_minutes a) minute,
      pg_absolute_expires_at = now + dur_mult (al_grant_absolute_minutes a) minute,
      pg_revoked = False\<rparr>"
    note st4 = on_store_then [OF i2(1) s4, of "save_grant ?g"]
    have step: "auth_step (al_get a w) (Paired tok ?g) (save_grant ?g st)"
      using c Inr f by (auto intro!: auth_step.paired)
    have "prefix (trail w) (trail w4)"
      using s1 s4 i2(3) by (auto simp: auth_steady_def)
    with st4 i2 step have "outcome w
      (\<lambda>g st ev. auth_step (al_get a w) (Paired tok g) st \<and> pg_container_id g = container \<and>
         pg_idle_expires_at g = pg_created_at g + dur_mult (al_grant_idle_minutes a) minute \<and>
         pg_absolute_expires_at g = pg_created_at g + dur_mult (al_grant_absolute_minutes a) minute \<and>
         ev_event ev = ''auth_pair_completed'' \<and> ev_timestamp ev = pg_created_at g \<and>
         ev_agent_id ev = pg_agent_id g)
      (finish_auth_mutation a (al_get a w)
        (\<lambda>w. (zero_event\<lparr>ev_event := ''auth_pair_completed'', ev_timestamp := now,
            ev_actor_type := ''agent'', ev_actor_id := bt_agent_id bt,
            ev_agent_id := bt_agent_id bt,
            ev_metadata := auth_audit_metadata
              [(''container_id'', container), (''grant_id'', gid)]\<rparr>, w))
        ?g (on_store a (save_grant ?g) w4))"
      by (intro finish_auth_mutation_cases) (simp_all add: calmly_refl calmly_invar)
    with False n c Inr n3 k calmly_get [OF s1] show ?thesis
      by (simp add: complete_pairing_def Let_def w2_def)
  qed
qed

lemma mint_session_refines:
  assumes inv: "invar w"
    and fresh: "\<And>z. invar z \<Longrightarrow> as_sessions (al_get a z) = as_sessions (al_get a w) \<Longrightarrow>
      go_get (as_sessions (al_get a w)) (fst (al_new_session_tok a z)) = None"
    and key: "\<And>i g. go_get (as_grants (al_get a w)) i = Some g \<Longrightarrow> pg_grant_id g = i"
  shows "outcome w
    (\<lambda>t st ev. auth_step (al_get a w) (Minted t) st \<and> st_grant_id t = gid \<and>
       st_expires_at t = st_created_at t + dur_mult (al_session_ttl_minutes a) minute \<and>
       ev_event ev = ''auth_session_minted'' \<and> ev_timestamp ev = st_created_at t \<and>
       ev_agent_id ev = st_agent_id t)
    (mint_session a gid w)"
proof (cases "get_grant gid (al_get a w)")
  case (Inl e)
  with inv show ?thesis by (simp add: mint_session_def auth_outcome_def calmly_refl)
next
  case (Inr g)
  then have gg: "go_get (as_grants (al_get a w)) gid = Some g" by simp
  obtain now w1 where n: "al_now a w = (now, w1)" by fastforce
  with now_steady [OF inv] have s1: "calmly w w1" by simp
  show ?thesis
  proof (cases "active_grant now g")
    case False
    then have "mint_session a gid w = (Inl (Plain ''grant expired or revoked''), w1)"
      using Inr n by (auto simp: mint_session_def active_grant_def simp del: get_grant_Inr)
    with s1 show ?thesis by (simp add: auth_outcome_def)
  next
    case True
    let ?g = "g\<lparr>pg_last_used_at := now,
      pg_idle_expires_at := now + dur_mult (al_grant_idle_minutes a) minute\<rparr>"
    define w2 where "w2 = on_store a (update_grant ?g) w1"
    have i2: "invar w2" "al_get a w2 = update_grant ?g (al_get a w)" "trail w2 = trail w1"
      using on_store_then [OF inv s1, of "update_grant ?g"] by (simp_all add: w2_def)
    obtain tok w3 where k: "al_new_session_tok a w2 = (tok, w3)" by fastforce
    with new_session_steady [OF i2(1)] have s3: "calmly w2 w3" by simp
    have f: "go_get (as_sessions (al_get a w)) tok = None"
      using fresh [OF i2(1)] k i2(2) by (simp add: update_grant_def)
    let ?t = "\<lparr>st_token = tok, st_grant_id = pg_grant_id g, st_agent_id = pg_agent_id g,
      st_created_at = now, st_expires_at = now + dur_mult (al_session_ttl_minutes a) minute,
      st_revoked = False\<rparr>"
    note st3 = on_store_then [OF i2(1) s3, of "save_session ?t"]
    have gk: "pg_grant_id g = gid" by (rule key [OF gg])
    have step: "auth_step (al_get a w) (Minted ?t) (save_session ?t (update_grant ?g (al_get a w)))"
      using gg True f gk by (intro auth_step.minted) simp_all
    have "prefix (trail w) (trail w3)" using s1 s3 i2(3) by (auto simp: auth_steady_def)
    with st3 i2 step gk have "outcome w
      (\<lambda>t st ev. auth_step (al_get a w) (Minted t) st \<and> st_grant_id t = gid \<and>
         st_expires_at t = st_created_at t + dur_mult (al_session_ttl_minutes a) minute \<and>
         ev_event ev = ''auth_session_minted'' \<and> ev_timestamp ev = st_created_at t \<and>
         ev_agent_id ev = st_agent_id t)
      (finish_auth_mutation a (al_get a w)
        (\<lambda>w. (zero_event\<lparr>ev_event := ''auth_session_minted'', ev_timestamp := now,
            ev_actor_type := ''agent'', ev_actor_id := pg_agent_id g, ev_agent_id := pg_agent_id g,
            ev_metadata := auth_audit_metadata [(''grant_id'', pg_grant_id g)]\<rparr>, w))
        ?t (on_store a (save_session ?t) w3))"
      by (intro finish_auth_mutation_cases) (simp_all add: calmly_refl calmly_invar)
    with Inr n True k calmly_get [OF s1] show ?thesis
      by (simp add: mint_session_def Let_def w2_def active_grant_def del: get_grant_Inr)
  qed
qed

lemma revoke_auth_refines:
  assumes inv: "invar w"
  shows "outcome w
    (\<lambda>_ st ev. auth_step (al_get a w) (Revoked (if trim_space gid = '''' then '''' else gid)
         (if trim_space tok = '''' then '''' else tok)) st \<and>
       revoke_both gid tok (al_get a w) = (None, st) \<and>
       ev_event ev = ''auth_revoked'' \<and> ev_actor_type ev = actor_type \<and> ev_actor_id ev = actor_id)
    (as_sum (revoke_auth a gid tok actor_type actor_id w))"
proof (cases "trim_space gid = '''' \<and> trim_space tok = ''''")
  case True
  with inv show ?thesis
    by (simp add: revoke_auth_def auth_outcome_def calmly_refl as_sum_def)
next
  case False
  have restored: "calmly w (al_put a (restore (snapshot (al_get a w)) y) (al_put a st w))" for st y
    using put [OF inv, of st] put [of "al_put a st w" "al_get a w"]
    by (simp add: auth_steady_def)
  obtain x s1 where g: "(if trim_space gid = '''' then (None, al_get a w)
      else revoke_grant gid (al_get a w)) = (x, s1)" by fastforce
  obtain y s2 where t: "(if trim_space tok = '''' then (None, s1) else revoke_session tok s1) = (y, s2)"
    by fastforce
  note run = revoke_auth_def Let_def g t
  show ?thesis
  proof (cases "x = None \<and> y = None")
    case no: False
    then obtain e z where "revoke_auth a gid tok actor_type actor_id w = (Some e, z)" and "calmly w z"
      using False g t restored by (cases x; cases y) (auto simp: run)
    then show ?thesis by (simp add: auth_outcome_def as_sum_def)
  next
    case ok: True
    let ?w1 = "al_put a s2 w"
    have p: "invar ?w1" "al_get a ?w1 = s2" "trail ?w1 = trail w" using put [OF inv] by simp_all
    have both: "revoke_both gid tok (al_get a w) = (None, s2)"
      using g t ok by (simp add: revoke_both_def)
    let ?mk = "\<lambda>w. (case al_now a w of (now, w) \<Rightarrow>
      (zero_event\<lparr>ev_event := ''auth_revoked'', ev_timestamp := now,
        ev_actor_type := actor_type, ev_actor_id := actor_id,
        ev_metadata := auth_audit_metadata
          [(''grant_id'', gid), (''session_token'', tok)]\<rparr>, w))"
    have mk: "calmly z (snd (?mk z))" if "calmly ?w1 z" for z
      using now_steady [OF calmly_invar [OF that]] by (simp add: case_prod_beta)
    have "outcome w
      (\<lambda>_ st ev. auth_step (al_get a w) (Revoked (if trim_space gid = '''' then '''' else gid)
           (if trim_space tok = '''' then '''' else tok)) st \<and>
         revoke_both gid tok (al_get a w) = (None, st) \<and>
         ev_event ev = ''auth_revoked'' \<and> ev_actor_type ev = actor_type \<and> ev_actor_id ev = actor_id)
      (finish_auth_mutation a (al_get a w) ?mk () ?w1)"
      using revoke_both_step [OF both] both p mk
      by (intro finish_auth_mutation_cases) (auto simp: case_prod_beta)
    moreover have "as_sum (revoke_auth a gid tok actor_type actor_id w) =
        finish_auth_mutation a (al_get a w) ?mk () ?w1"
      using False ok by (auto simp: run as_sum_def split: sum.splits prod.splits)
    ultimately show ?thesis by simp
  qed
qed

end

end
