(* ===== verification/DaemonContract.thy ===== *)
theory DaemonContract
  imports Outside LeaseContract AccessContract ThrottleContract ExecSecretsContract AuthContract
begin

text \<open>
  The daemon's own wiring meets both contracts: the application service over the daemon's
  state is an instance of \<open>broker_ports\<close>, and its auth lifecycle one of \<open>auth_ports\<close>.
\<close>

section \<open>Steps that change nothing the contracts speak about\<close>

text \<open>
  \<open>gate_kept d d'\<close>: the gate is not opened again and keeps the reason it was closed for.
\<close>

definition gate_kept :: "'e daemon \<Rightarrow> 'e daemon \<Rightarrow> bool" where
  "gate_kept d d' \<longleftrightarrow> (dm_closed d \<longrightarrow> dm_closed d' \<and> dm_reason d' = dm_reason d)"

text \<open>
  \<open>same_books od d d'\<close>: the stores and the limiter are the same, the trail only grew, and the
  outside was only called.
\<close>

definition same_books :: "'e outside \<Rightarrow> 'e daemon \<Rightarrow> 'e daemon \<Rightarrow> bool" where
  "same_books od d d' \<longleftrightarrow>
     dm_store d' = dm_store d \<and> dm_auth d' = dm_auth d \<and> dm_limiter d' = dm_limiter d \<and>
     prefix (dm_trail d) (dm_trail d') \<and> gate_kept d d' \<and> env_steps od (dm_env d) (dm_env d')"

lemma gate_kept_refl [simp]: "gate_kept d d"
  by (simp add: gate_kept_def)

lemma gate_kept_trans: "gate_kept d d1 \<Longrightarrow> gate_kept d1 d2 \<Longrightarrow> gate_kept d d2"
  by (auto simp: gate_kept_def)

lemma same_books_refl [simp]: "same_books od d d"
  by (simp add: same_books_def)

lemma same_books_trans [trans]:
  "same_books od d d1 \<Longrightarrow> same_books od d1 d2 \<Longrightarrow> same_books od d d2"
  by (auto simp: same_books_def intro: gate_kept_trans env_steps_trans)

lemma on_env_same [simp]:
  "dm_store (snd (on_env f d)) = dm_store d" "dm_auth (snd (on_env f d)) = dm_auth d"
  "dm_limiter (snd (on_env f d)) = dm_limiter d" "dm_trail (snd (on_env f d)) = dm_trail d"
  "dm_closed (snd (on_env f d)) = dm_closed d" "dm_reason (snd (on_env f d)) = dm_reason d"
  by (simp_all add: on_env_def split: prod.split)

lemma on_env_same' [simp]:
  assumes "on_env f d = (x, d')"
  shows "dm_store d' = dm_store d" "dm_auth d' = dm_auth d" "dm_limiter d' = dm_limiter d"
    "dm_trail d' = dm_trail d" "dm_closed d' = dm_closed d" "dm_reason d' = dm_reason d"
  using on_env_same [of f d] assms by simp_all

lemma env_on_env [simp]: "dm_env (snd (on_env f d)) = snd (f (dm_env d))"
  by (simp add: on_env_def split: prod.split)

lemma same_books_on_env:
  "env_steps od (dm_env d) (snd (f (dm_env d))) \<Longrightarrow> same_books od d (snd (on_env f d))"
  by (simp add: same_books_def gate_kept_def)

lemma same_books_now: "same_books od d (snd (on_env (od_now od) d))"
  by (rule same_books_on_env) (simp add: env_calls)

lemma token_same [simp]:
  "dm_store (snd (must_secure_token od p d)) = dm_store d"
  "dm_auth (snd (must_secure_token od p d)) = dm_auth d"
  "dm_limiter (snd (must_secure_token od p d)) = dm_limiter d"
  "dm_trail (snd (must_secure_token od p d)) = dm_trail d"
  "dm_closed (snd (must_secure_token od p d)) = dm_closed d"
  "dm_reason (snd (must_secure_token od p d)) = dm_reason d"
  by (simp_all add: must_secure_token_def case_prod_beta)

lemma env_token [simp]:
  "dm_env (snd (must_secure_token od p d)) = snd (od_random od (dm_env d))"
  by (simp add: must_secure_token_def case_prod_beta)

lemma daemon_audit_env: "env_steps od (dm_env d) (dm_env (snd (daemon_audit od ev d)))"
  using env_sink_write [OF env_steps.start, of od "dm_env d" ev "dm_sink d"]
  by (auto simp: daemon_audit_def split: prod.splits option.splits)

lemma daemon_audit_ok:
  assumes "daemon_audit od ev d = (None, d')"
  shows "same_books od d d'" and "dm_trail d' = dm_trail d @ [ev]"
  using assms daemon_audit_env [of od d ev]
  by (auto simp: daemon_audit_def same_books_def gate_kept_def split: prod.splits option.splits)

lemma daemon_audit_err:
  assumes "daemon_audit od ev d = (Some e, d')" shows "same_books od d d'"
  using assms daemon_audit_env [of od d ev]
  by (auto simp: daemon_audit_def same_books_def gate_kept_def split: prod.splits option.splits)

lemma same_books_audit: "same_books od d (snd (daemon_audit od ev d))"
  by (cases "daemon_audit od ev d") (metis daemon_audit_err daemon_audit_ok(1) not_None_eq snd_conv)

lemma same_books_note: "same_books od d (note_gate_event od name c reason d)"
  unfolding note_gate_event_def case_prod_beta
  by (rule same_books_trans [OF same_books_now same_books_audit])

lemma same_books_close: "same_books od d (snd (close_durability_gate od c err d))"
proof (cases err)
  case (Some e)
  let ?d = "if \<not> dm_closed d then d\<lparr>dm_closed := True, dm_reason := c @ '' persistence failure: '' @ err_msg e\<rparr> else d"
  have s: "same_books od d ?d" by (simp add: same_books_def gate_kept_def)
  have "same_books od ?d (snd (close_durability_gate od c err d))"
    using Some same_books_note same_books_trans [OF same_books_note same_books_note]
    by (auto simp: close_durability_gate_def Let_def)
  with s show ?thesis by (rule same_books_trans)
qed (simp add: close_durability_gate_def)

lemma same_books_env_close:
  "env_steps od (dm_env d) (snd (f (dm_env d))) \<Longrightarrow>
   same_books od d (snd (close_durability_gate od c err (snd (on_env f d))))"
  by (rule same_books_trans [OF same_books_on_env same_books_close])

lemma same_books_persist_state: "same_books od d (snd (persist_request_lease_state cfg od d))"
  by (simp add: persist_request_lease_state_def Let_def case_prod_beta same_books_env_close
      env_save_state)

lemma same_books_persist_auth: "same_books od d (snd (persist_auth_store cfg od d))"
  by (simp add: persist_auth_store_def Let_def case_prod_beta same_books_env_close env_save_auth
      env_save_auth_encrypted)

section \<open>The application service\<close>

text \<open>
  The view of a daemon whose auth store is \<open>a\<close>, whose limiter is \<open>l\<close>, whose gate is closed for
  the reason \<open>c\<close> when there is one, and whose outside was \<open>e0\<close>: the invariant keeps what no
  service operation touches.
\<close>

definition daemon_view ::
  "'e outside \<Rightarrow> 'e \<Rightarrow> auth_store \<Rightarrow> auth_rate_limiter option \<Rightarrow> string option \<Rightarrow> 'e daemon view" where
  "daemon_view od e0 a l c =
     \<lparr>vw_invar = \<lambda>d. wf_mem (dm_store d) \<and> dm_auth d = a \<and> dm_limiter d = l \<and>
        (\<forall>r. c = Some r \<longrightarrow> dm_closed d \<and> dm_reason d = r) \<and> env_steps od e0 (dm_env d),
      vw_reqs = \<lambda>d. go_get (ms_requests (dm_store d)),
      vw_leases = \<lambda>d. go_get (ms_leases (dm_store d)),
      vw_trail = dm_trail\<rparr>"

lemma same_books_steady:
  assumes "same_books od d d'" and "vw_invar (daemon_view od e0 a l c) d"
  shows "steady (daemon_view od e0 a l c) d d'"
  using assms
  by (auto simp: same_books_def gate_kept_def steady_def daemon_view_def intro: env_steps_trans)

lemma on_env_calm:
  "vw_invar (daemon_view od e0 a l c) d \<Longrightarrow> env_steps od (dm_env d) (snd (f (dm_env d))) \<Longrightarrow>
   calm (daemon_view od e0 a l c) d (snd (on_env f d))"
  by (auto simp: calm_def daemon_view_def intro: env_steps_trans)

lemma token_calm:
  "vw_invar (daemon_view od e0 a l c) d \<Longrightarrow> calm (daemon_view od e0 a l c) d (snd (must_secure_token od p d))"
  by (simp add: calm_def daemon_view_def env_calls)

lemma on_mem_get_calm:
  assumes "vw_invar (daemon_view od e0 a l c) d" and "\<And>s. snd (f s) = s"
  shows "calm (daemon_view od e0 a l c) d (snd (on_mem f d))"
  using assms by (simp add: calm_def daemon_view_def on_mem_def split: prod.split)
    (metis snd_conv)

lemma secrets_calm:
  assumes "vw_invar (daemon_view od e0 a l c) d"
  shows "calm (daemon_view od e0 a l c) d (snd (daemon_secrets od n d))"
proof (cases "od_secret_source od")
  case None
  have "calm (daemon_view od e0 a l c) d (snd (on_mem (get_secret n) d))"
    by (rule on_mem_get_calm [OF assms]) (simp add: get_secret_def split: option.split)
  with None show ?thesis by (simp add: daemon_secrets_def)
qed (simp add: daemon_secrets_def on_env_calm assms env_calls)

lemma on_mem_iff:
  "on_mem f d = (x, d') \<longleftrightarrow> (\<exists>s. f (dm_store d) = (x, s) \<and> d' = d\<lparr>dm_store := s\<rparr>)"
  by (auto simp: on_mem_def split: prod.splits)

lemma fst_on_mem [simp]: "fst (on_mem f d) = fst (f (dm_store d))"
  by (simp add: on_mem_def split: prod.split)

lemma daemon_requests_lift:
  "rs_save daemon_requests r = on_mem (rs_save mem_request_store r)"
  "rs_get daemon_requests i = on_mem (rs_get mem_request_store i)"
  "rs_update daemon_requests r = on_mem (rs_update mem_request_store r)"
  "rs_delete daemon_requests i = on_mem (rs_delete mem_request_store i)"
  "rs_list_pending daemon_requests = on_mem (rs_list_pending mem_request_store)"
  by (simp_all add: daemon_requests_def mem_request_store_def)

lemma daemon_leases_lift:
  "ls_save daemon_leases l = on_mem (ls_save mem_lease_store l)"
  "ls_delete daemon_leases t = on_mem (ls_delete mem_lease_store t)"
  "ls_get daemon_leases t = on_mem (ls_get mem_lease_store t)"
  "ls_get_by_request daemon_leases i = on_mem (ls_get_by_request mem_lease_store i)"
  "ls_list daemon_leases = map_option on_mem (ls_list mem_lease_store)"
  by (simp_all add: daemon_leases_def mem_lease_store_def)

lemma view_invar:
  "vw_invar (daemon_view od e0 a l c) d \<longleftrightarrow> wf_mem (dm_store d) \<and> dm_auth d = a \<and> dm_limiter d = l \<and>
     (\<forall>r. c = Some r \<longrightarrow> dm_closed d \<and> dm_reason d = r) \<and> env_steps od e0 (dm_env d)"
  "vw_reqs (daemon_view od e0 a l c) d = go_get (ms_requests (dm_store d))"
  "vw_leases (daemon_view od e0 a l c) d = go_get (ms_leases (dm_store d))"
  "vw_trail (daemon_view od e0 a l c) d = dm_trail d"
  by (simp_all add: daemon_view_def)

lemmas lift_store = daemon_requests_lift daemon_leases_lift on_mem_iff view_invar

interpretation bd_reqs: reliable_request_store daemon_requests "vw_invar (daemon_view od e0 a l c)"
    "vw_reqs (daemon_view od e0 a l c)" for od :: "'e outside" and e0 a l c
proof unfold_locales
  fix w :: "'e daemon" and i r assume "vw_invar (daemon_view od e0 a l c) w" "vw_reqs (daemon_view od e0 a l c) w i = Some r"
  then show "req_id r = i" using mem_reqs.reqs_key by (auto simp: lift_store)
qed (auto simp: lift_store mem_reqs.update_total mem_reqs.delete_present
    dest: mem_reqs.save_ok mem_reqs.save_err mem_reqs.update_ok mem_reqs.update_err
      mem_reqs.delete_ok mem_reqs.delete_err mem_reqs.get_ok mem_reqs.get_err
      mem_reqs.list_ok mem_reqs.list_err)

interpretation bd_leases: reliable_lease_store daemon_leases "vw_invar (daemon_view od e0 a l c)"
    "vw_leases (daemon_view od e0 a l c)" for od :: "'e outside" and e0 a l c
proof unfold_locales
  fix w :: "'e daemon" and t x
  assume "vw_invar (daemon_view od e0 a l c) w" "vw_leases (daemon_view od e0 a l c) w t = Some x"
  then show "lease_token x = t" using mem_leases.leases_key by (auto simp: lift_store)
next
  fix w w' :: "'e daemon" and f lst
  assume i: "vw_invar (daemon_view od e0 a l c) w" and f: "ls_list daemon_leases = Some f"
    "f w = (Inr lst, w')"
  obtain g where g: "ls_list mem_lease_store = Some g" "f = on_mem g"
    using f(1) by (auto simp: daemon_leases_lift)
  obtain st where s: "g (dm_store w) = (Inr lst, st)" "w' = w\<lparr>dm_store := st\<rparr>"
    using f(2) g(2) by (auto simp: on_mem_iff)
  have "wf_mem (dm_store w)" using i by (simp add: view_invar)
  from mem_leases.llist_ok [OF this g(1) s(1)] i s(2)
  show "vw_invar (daemon_view od e0 a l c) w' \<and>
      vw_leases (daemon_view od e0 a l c) w' = vw_leases (daemon_view od e0 a l c) w \<and>
      distinct lst \<and> set lst = ran (vw_leases (daemon_view od e0 a l c) w)"
    by (simp add: view_invar)
next
  fix w w' :: "'e daemon" and f e
  assume i: "vw_invar (daemon_view od e0 a l c) w" and f: "ls_list daemon_leases = Some f"
    "f w = (Inl e, w')"
  then show "vw_invar (daemon_view od e0 a l c) w' \<and>
      vw_leases (daemon_view od e0 a l c) w' = vw_leases (daemon_view od e0 a l c) w"
    by (auto simp: daemon_leases_lift mem_lease_store_def list_leases_def on_mem_iff)
qed (auto simp: lift_store mem_leases.ldelete_present
    dest: mem_leases.lsave_ok mem_leases.lsave_err mem_leases.ldelete_ok mem_leases.ldelete_err
      mem_leases.lget_ok mem_leases.lget_err mem_leases.lget_by_request_ok
      mem_leases.lget_by_request_err)

lemma request_ops_frame:
  "ms_leases (snd (rs_save mem_request_store r s)) = ms_leases s"
  "ms_leases (snd (rs_update mem_request_store r s)) = ms_leases s"
  "ms_leases (snd (rs_delete mem_request_store i s)) = ms_leases s"
  by (auto simp: mem_request_defs split: option.splits)

lemma lease_ops_frame:
  "ms_requests (snd (ls_save mem_lease_store l s)) = ms_requests s"
  "ms_requests (snd (ls_delete mem_lease_store t s)) = ms_requests s"
  by (auto simp: mem_lease_defs split: option.splits)

lemma snd_on_mem: "snd (on_mem f d) = d\<lparr>dm_store := snd (f (dm_store d))\<rparr>"
  by (simp add: on_mem_def split: prod.split)

lemma daemon_service_simps [simp]:
  "sv_policy (daemon_service cfg od) = sc_policy cfg"
  "sv_request_policy (daemon_service cfg od) = sc_request_policy cfg"
  "sv_allow_plaintext_secret_return (daemon_service cfg od) = sc_allow_plaintext_secret_return cfg"
  "sv_requests (daemon_service cfg od) = daemon_requests"
  "sv_leases (daemon_service cfg od) = daemon_leases"
  "sv_committer (daemon_service cfg od) = Some (persist_request_lease_state cfg od)"
  "sv_secrets (daemon_service cfg od) = daemon_secrets od"
  "sv_env_path_secrets (daemon_service cfg od) = daemon_env_paths od"
  "sv_audit (daemon_service cfg od) = Some (daemon_audit od)"
  "sv_audit_failure_handler (daemon_service cfg od) = Some (daemon_audit_failure od)"
  "sv_now (daemon_service cfg od) = on_env (od_now od)"
  "sv_new_request_id (daemon_service cfg od) = must_secure_token od ''req_''"
  "sv_new_lease_tok (daemon_service cfg od) = must_secure_token od ''lease_''"
  by (simp_all add: daemon_service_def)

text \<open>Reads of the in-memory store return it unchanged.\<close>

lemma mem_reads [simp]:
  "snd (rs_get mem_request_store i s) = s" "snd (rs_list_pending mem_request_store s) = s"
  "snd (ls_get mem_lease_store t s) = s" "snd (ls_get_by_request mem_lease_store i s) = s"
  "snd (list_leases s) = s" "snd (get_lease t s) = s" "snd (get_lease_by_request_id i s) = s"
  by (simp_all add: mem_request_defs mem_lease_defs split: option.split)

interpretation bd: broker_ports "daemon_service cfg od" "daemon_view od e0 a l c"
  for cfg and od :: "'e outside" and e0 a l c
proof (intro broker_ports.intro broker_ports_axioms.intro)
  show "reliable_request_store (sv_requests (daemon_service cfg od)) (vw_invar (daemon_view od e0 a l c))
      (vw_reqs (daemon_view od e0 a l c))"
    by (simp add: bd_reqs.reliable_request_store_axioms)
  show "reliable_lease_store (sv_leases (daemon_service cfg od)) (vw_invar (daemon_view od e0 a l c))
      (vw_leases (daemon_view od e0 a l c))"
    by (simp add: bd_leases.reliable_lease_store_axioms)
next
  fix w w' :: "'e daemon" and wr ev
  assume "vw_invar (daemon_view od e0 a l c) w" "sv_audit (daemon_service cfg od) = Some wr"
    "wr ev w = (None, w')"
  then have "same_books od w w'" "dm_trail w' = dm_trail w @ [ev]" "vw_invar (daemon_view od e0 a l c) w"
    using daemon_audit_ok by auto
  then show "steady (daemon_view od e0 a l c) w w' \<and> added (daemon_view od e0 a l c) w w' = [ev]"
    by (simp add: same_books_steady added_def view_invar)
next
  fix w w' :: "'e daemon" and wr ev e
  assume "vw_invar (daemon_view od e0 a l c) w" "sv_audit (daemon_service cfg od) = Some wr"
    "wr ev w = (Some e, w')"
  then show "steady (daemon_view od e0 a l c) w w'"
    by (auto intro: same_books_steady dest: daemon_audit_err)
next
  fix w :: "'e daemon" and f r i
  assume "f = rs_save (sv_requests (daemon_service cfg od)) r \<or>
    f = rs_update (sv_requests (daemon_service cfg od)) r \<or>
    f = rs_delete (sv_requests (daemon_service cfg od)) i"
  then show "vw_leases (daemon_view od e0 a l c) (snd (f w)) = vw_leases (daemon_view od e0 a l c) w \<and>
      vw_trail (daemon_view od e0 a l c) (snd (f w)) = vw_trail (daemon_view od e0 a l c) w"
    by (auto simp: daemon_requests_lift snd_on_mem view_invar request_ops_frame)
next
  fix w :: "'e daemon" and f x i
  assume "f = ls_save (sv_leases (daemon_service cfg od)) x \<or>
    f = ls_delete (sv_leases (daemon_service cfg od)) i"
  then show "vw_reqs (daemon_view od e0 a l c) (snd (f w)) = vw_reqs (daemon_view od e0 a l c) w \<and>
      vw_trail (daemon_view od e0 a l c) (snd (f w)) = vw_trail (daemon_view od e0 a l c) w"
    by (auto simp: daemon_leases_lift snd_on_mem view_invar lease_ops_frame)
next
  fix w :: "'e daemon" and h e
  assume i: "vw_invar (daemon_view od e0 a l c) w"
    and h: "sv_audit_failure_handler (daemon_service cfg od) = Some h"
  have "steady (daemon_view od e0 a l c) w (snd (close_durability_gate od ''audit'' (Some e) w))"
    by (rule same_books_steady [OF same_books_close i])
  with h show "steady (daemon_view od e0 a l c) w (snd (h e w))" by (auto simp: daemon_audit_failure_def)
next
  fix w :: "'e daemon" and g
  assume i: "vw_invar (daemon_view od e0 a l c) w" and g: "sv_committer (daemon_service cfg od) = Some g"
  have "steady (daemon_view od e0 a l c) w (snd (persist_request_lease_state cfg od w))"
    by (rule same_books_steady [OF same_books_persist_state i])
  with g show "steady (daemon_view od e0 a l c) w (snd (g w))" by auto
qed (auto simp: daemon_requests_lift daemon_leases_lift mem_lease_store_def daemon_env_paths_def
    on_mem_get_calm on_env_calm token_calm secrets_calm env_calls)

section \<open>The auth lifecycle\<close>

lemma auth_lifecycle_simps [simp]:
  "al_get (auth_lifecycle_svc cfg od) = dm_auth"
  "al_put (auth_lifecycle_svc cfg od) st d = d\<lparr>dm_auth := st\<rparr>"
  "al_audit (auth_lifecycle_svc cfg od) = Some (daemon_audit od)"
  "al_audit_failure_handler (auth_lifecycle_svc cfg od) = Some (daemon_audit_failure od)"
  "al_now (auth_lifecycle_svc cfg od) = on_env (od_now od)"
  "al_bootstrap_ttl_seconds (auth_lifecycle_svc cfg od) = sc_bootstrap_ttl_seconds cfg"
  "al_grant_idle_minutes (auth_lifecycle_svc cfg od) = sc_grant_idle_minutes cfg"
  "al_grant_absolute_minutes (auth_lifecycle_svc cfg od) = sc_grant_absolute_minutes cfg"
  "al_session_ttl_minutes (auth_lifecycle_svc cfg od) = sc_session_ttl_minutes cfg"
  "al_new_bootstrap_tok (auth_lifecycle_svc cfg od) = must_secure_token od ''boot_''"
  "al_new_grant_id (auth_lifecycle_svc cfg od) = must_secure_token od ''grant_''"
  "al_new_session_tok (auth_lifecycle_svc cfg od) = must_secure_token od ''sess_''"
  "al_persist (auth_lifecycle_svc cfg od) = Some (persist_auth_store cfg od)"
  by (simp_all add: auth_lifecycle_svc_def)

text \<open>What the auth lifecycle leaves alone: requests, leases and secrets, the limiter, and the
  gate once it is closed.\<close>

definition auth_frame ::
  "'e outside \<Rightarrow> 'e \<Rightarrow> mem_store \<Rightarrow> auth_rate_limiter option \<Rightarrow> string option \<Rightarrow> 'e daemon \<Rightarrow> bool"
where
  "auth_frame od e0 m l c d \<longleftrightarrow>
     dm_store d = m \<and> dm_limiter d = l \<and> (\<forall>r. c = Some r \<longrightarrow> dm_closed d \<and> dm_reason d = r) \<and>
     env_steps od e0 (dm_env d)"

lemma same_books_auth:
  assumes "same_books od d d'" and "auth_frame od e0 m l c d"
  shows "auth_steady (auth_lifecycle_svc cfg od) (auth_frame od e0 m l c) dm_trail d d'"
  using assms
  by (auto simp: same_books_def gate_kept_def auth_steady_def auth_frame_def intro: env_steps_trans)

lemma same_books_token: "same_books od d (snd (must_secure_token od p d))"
  by (simp add: same_books_def gate_kept_def env_calls)

interpretation ad: auth_ports "auth_lifecycle_svc cfg od" "auth_frame od e0 m l c" dm_trail
  for cfg and od :: "'e outside" and e0 m l c
proof unfold_locales
  fix w w' :: "'e daemon" and wr ev
  assume "auth_frame od e0 m l c w" "al_audit (auth_lifecycle_svc cfg od) = Some wr" "wr ev w = (None, w')"
  then show "auth_noted (auth_lifecycle_svc cfg od) (auth_frame od e0 m l c) dm_trail ev w w'"
    using daemon_audit_ok same_books_auth by (fastforce simp: auth_noted_def)
next
  fix w w' :: "'e daemon" and wr ev e
  assume "auth_frame od e0 m l c w" "al_audit (auth_lifecycle_svc cfg od) = Some wr" "wr ev w = (Some e, w')"
  then show "auth_steady (auth_lifecycle_svc cfg od) (auth_frame od e0 m l c) dm_trail w w'"
    using daemon_audit_err same_books_auth by fastforce
qed (auto simp: auth_frame_def daemon_audit_failure_def
    intro!: same_books_auth same_books_now same_books_token same_books_persist_auth
      same_books_close)

end
