(* ===== verification/ServerFrame.thy ===== *)
theory ServerFrame
  imports Server DaemonContract AuthSpec
begin

text \<open>
  What the openings of the handlers do to the state, and whom they let through: authentication
  and the limiter change no store, and an admitted caller holds the operator token or a session
  whose grant is active.
\<close>

definition daemon_book :: "'e daemon \<Rightarrow> book" where
  "daemon_book d = (go_get (ms_requests (dm_store d)), go_get (ms_leases (dm_store d)))"

text \<open>\<open>same_stores\<close>: as \<open>same_books\<close>, except that the limiter may have moved.\<close>

definition same_stores :: "'e outside \<Rightarrow> 'e daemon \<Rightarrow> 'e daemon \<Rightarrow> bool" where
  "same_stores od d d' \<longleftrightarrow>
     dm_store d' = dm_store d \<and> dm_auth d' = dm_auth d \<and> prefix (dm_trail d) (dm_trail d') \<and>
     gate_kept d d' \<and> env_steps od (dm_env d) (dm_env d')"

lemma same_stores_refl [simp]: "same_stores od d d"
  by (simp add: same_stores_def)

lemma same_stores_trans [trans]:
  "same_stores od d d1 \<Longrightarrow> same_stores od d1 d2 \<Longrightarrow> same_stores od d d2"
  by (auto simp: same_stores_def intro: gate_kept_trans env_steps_trans)

lemma same_books_stores: "same_books od d d' \<Longrightarrow> same_stores od d d'"
  by (simp add: same_books_def same_stores_def)

lemma same_stores_limiter: "same_stores od d (d\<lparr>dm_limiter := l\<rparr>)"
  by (simp add: same_stores_def gate_kept_def)

lemma same_stores_now: "same_stores od d (snd (on_env (od_now od) d))"
  by (rule same_books_stores [OF same_books_now])

lemma same_stores_audit: "same_stores od d (snd (daemon_audit od ev d))"
  by (rule same_books_stores [OF same_books_audit])

lemma same_stores_limited_audit:
  "same_stores od d (snd (daemon_audit od (ev (fst (on_env (od_now od) (d\<lparr>dm_limiter := l\<rparr>))))
     (snd (on_env (od_now od) (d\<lparr>dm_limiter := l\<rparr>)))))"
  by (rule same_stores_trans [OF same_stores_trans [OF same_stores_limiter same_stores_now]
        same_stores_audit])

lemma enforce_same_stores: "same_stores od d (snd (enforce_auth_rate_limit od rq scope d))"
proof (cases "dm_limiter d")
  case (Some l)
  let ?d = "snd (on_env (od_now od) d)"
  have n: "same_stores od d ?d" by (rule same_stores_now)
  show ?thesis
    using Some same_stores_trans [OF n same_stores_limiter]
      same_stores_trans [OF n same_stores_limited_audit]
    by (auto simp: enforce_auth_rate_limit_def Let_def case_prod_beta split: bool.split)
qed (simp add: enforce_auth_rate_limit_def)

lemma record_failure_same_stores: "same_stores od d (record_auth_failure od rq scope reason d)"
proof (cases "dm_limiter d")
  case (Some l)
  let ?d = "snd (on_env (od_now od) d)"
  have n: "same_stores od d ?d" by (rule same_stores_now)
  show ?thesis
    using Some same_stores_trans [OF n same_stores_limiter]
      same_stores_trans [OF n same_stores_limited_audit]
    by (auto simp: record_auth_failure_def Let_def case_prod_beta)
qed (simp add: record_auth_failure_def)

lemma refuse_same_stores: "same_stores od d (snd (refuse_auth od rq scope reason msg d))"
  by (simp add: refuse_auth_def record_failure_same_stores)

lemma refuse_refuses: "fst (refuse_auth od rq scope reason msg d) = Inl (write_mapped_error ErrUnauthorized msg)"
  by (simp add: refuse_auth_def)

section \<open>Who is let through\<close>

definition operator_caller :: "server_config \<Rightarrow> http_request \<Rightarrow> bool" where
  "operator_caller cfg rq \<longleftrightarrow>
     (sc_auth_enabled cfg \<longrightarrow> bearer_token rq \<noteq> '''' \<and> bearer_token rq = sc_operator_tok cfg)"

text \<open>A token of a session of the agent that is valid, and whose grant is active.\<close>

definition live_session :: "auth_store \<Rightarrow> string \<Rightarrow> string \<Rightarrow> bool" where
  "live_session a tok agent \<longleftrightarrow>
     (\<exists>sess g t t'. validate_session tok t a = Inr sess \<and> st_agent_id sess = agent \<and>
        get_grant (st_grant_id sess) a = Inr g \<and> active_grant t' g)"

lemma live_session_named: "auth_ok a \<Longrightarrow> live_session a tok agent \<Longrightarrow> trim_space agent \<noteq> ''''"
  by (auto simp: live_session_def validate_session_def get_session_def Let_def
      split: option.splits sum.splits if_splits dest: session_agent)

lemma live_session_agent: "auth_ok a \<Longrightarrow> live_session a tok agent \<Longrightarrow> agent \<noteq> ''''"
  using live_session_named by fastforce

definition agent_caller :: "server_config \<Rightarrow> auth_store \<Rightarrow> http_request \<Rightarrow> string \<Rightarrow> bool" where
  "agent_caller cfg a rq agent \<longleftrightarrow> (sc_auth_enabled cfg \<longrightarrow> live_session a (bearer_token rq) agent)"

definition let_through ::
  "'e outside \<Rightarrow> 'e daemon \<Rightarrow> (actor \<Rightarrow> bool) \<Rightarrow> (http_response + actor) \<times> 'e daemon \<Rightarrow> bool" where
  "let_through od d ok r \<longleftrightarrow>
     same_stores od d (snd r) \<and>
     (case fst r of Inl refused \<Rightarrow> rs_status refused \<noteq> 200 | Inr actor \<Rightarrow> ok actor)"

lemma let_through_Inl: "let_through od d ok (Inl x, d') \<longleftrightarrow> same_stores od d d' \<and> rs_status x \<noteq> 200"
  and let_through_Inr: "let_through od d ok (Inr y, d') \<longleftrightarrow> same_stores od d d' \<and> ok y"
  by (simp_all add: let_through_def)

lemma mapped_error_status [simp]: "rs_status (write_mapped_error k msg) = http_status k"
  by (simp add: write_mapped_error_def)

lemma refuse_let_through:
  "same_stores od d d1 \<Longrightarrow> let_through od d ok (refuse_auth od rq scope reason msg d1)"
  using same_stores_trans [OF _ refuse_same_stores]
  by (simp add: let_through_def refuse_refuses)

lemma enforce_cases:
  assumes "\<And>r d1. enforce_auth_rate_limit od rq scope d = (Some r, d1) \<Longrightarrow> same_stores od d d1 \<Longrightarrow>
      rs_status r \<noteq> 200 \<Longrightarrow> P"
    and "\<And>d1. enforce_auth_rate_limit od rq scope d = (None, d1) \<Longrightarrow> same_stores od d d1 \<Longrightarrow> P"
  shows P
proof -
  obtain x d1 where e: "enforce_auth_rate_limit od rq scope d = (x, d1)" by fastforce
  then have s: "same_stores od d d1" using enforce_same_stores [of od d rq scope] by simp
  show P
  proof (cases x)
    case (Some r)
    have "rs_status r \<noteq> 200"
      using e Some by (auto simp: enforce_auth_rate_limit_def Let_def case_prod_beta
          split: option.splits bool.splits if_splits)
    with e s Some assms(1) show P by blast
  qed (use e s assms(2) in blast)
qed

lemma require_operator_spec:
  "let_through od d (\<lambda>actor. operator_caller cfg rq \<and> fst actor = ''operator'')
     (require_operator cfg od rq d)"
proof (cases "sc_auth_enabled cfg")
  case True
  show ?thesis
    by (rule enforce_cases [of od rq "''operator''" d])
       (auto simp: True require_operator_def Let_def let_through_Inl let_through_Inr
         operator_caller_def refuse_let_through)
qed (simp add: require_operator_def let_through_Inr operator_caller_def)

lemma validate_grant_same_stores: "same_stores od d (snd (validate_grant_active od g d))"
  using same_stores_now [of od d] by (simp add: validate_grant_active_def case_prod_beta)

lemma validate_grant_None: "fst (validate_grant_active od g d) = None \<Longrightarrow> \<exists>t. active_grant t g"
  by (auto simp: validate_grant_active_def active_grant_def case_prod_beta split: if_splits)

lemma require_agent_session_spec:
  "let_through od d (\<lambda>actor. agent_caller cfg (dm_auth d) rq (snd actor) \<and> fst actor = ''agent'')
     (require_agent_session cfg od rq d)"
    (is "let_through od d ?ok _")
proof (cases "sc_auth_enabled cfg")
  case True
  show ?thesis
  proof (rule enforce_cases [of od rq "''agent''" d])
    fix d1 assume e: "enforce_auth_rate_limit od rq ''agent'' d = (None, d1)" and s1: "same_stores od d d1"
    let ?tok = "bearer_token rq"
    obtain t d2 where n: "on_env (od_now od) d1 = (t, d2)" by fastforce
    then have s2: "same_stores od d d2"
      using same_stores_trans [OF s1 same_stores_now] by (metis snd_conv)
    then have a2: "dm_auth d2 = dm_auth d" by (simp add: same_stores_def)
    show ?thesis
    proof (cases "?tok = ''''")
      case True
      with \<open>sc_auth_enabled cfg\<close> e s1 show ?thesis
        by (simp add: require_agent_session_def refuse_let_through)
    next
      case tok: False
      show ?thesis
      proof (cases "validate_session ?tok t (dm_auth d2)")
        case (Inl e')
        with True e n tok s2 show ?thesis by (simp add: require_agent_session_def refuse_let_through)
      next
        case sess: (Inr sess)
        show ?thesis
        proof (cases "get_grant (st_grant_id sess) (dm_auth d2)")
          case (Inl e')
          with True e n tok sess s2 show ?thesis
            by (simp add: require_agent_session_def refuse_let_through)
        next
          case g: (Inr g)
          obtain x d3 where v: "validate_grant_active od g d2 = (x, d3)" by fastforce
          then have s3: "same_stores od d d3"
            using same_stores_trans [OF s2 validate_grant_same_stores] by (metis snd_conv)
          show ?thesis
          proof (cases x)
            case None
            with validate_grant_None [of od g d2] v obtain t' where "active_grant t' g" by auto
            with sess g have "live_session (dm_auth d) ?tok (st_agent_id sess)"
              unfolding live_session_def a2 by blast
            with True e n tok sess g v s3 None show ?thesis
              by (simp add: require_agent_session_def let_through_Inr agent_caller_def
                  del: get_grant_Inr)
          next
            case (Some err)
            with True e n tok sess g v s3 show ?thesis
              by (simp add: require_agent_session_def refuse_let_through del: get_grant_Inr)
          qed
        qed
      qed
    qed
  qed (simp add: True require_agent_session_def let_through_Inl)
qed (simp add: require_agent_session_def let_through_Inr agent_caller_def)

end
