(* ===== verification/ServerContract.thy ===== *)
theory ServerContract
  imports ServerFrame
begin

text \<open>
  The handlers against the two abstract specifications: every call either leaves requests,
  leases and credentials as they are, or takes one step of the book of leases or of the auth
  store, for a caller who may take it, with its audit event on the trail.
\<close>

section \<open>The daemon as the broker's world\<close>

definition daemon_ok :: "'e daemon \<Rightarrow> bool" where
  "daemon_ok d \<longleftrightarrow> wf_mem (dm_store d) \<and> auth_ok (dm_auth d)"

text \<open>
  No random identifier drawn from here on, before the next change of the stores, names an entry
  they already have.
\<close>

definition ids_fresh :: "'e outside \<Rightarrow> 'e daemon \<Rightarrow> bool" where
  "ids_fresh od d \<longleftrightarrow>
     (\<forall>e. env_steps od (dm_env d) e \<longrightarrow>
        (let b = hex_encode (fst (od_random od e)) in
         go_get (ms_requests (dm_store d)) (''req_'' @ b) = None \<and>
         go_get (ms_leases (dm_store d)) (''lease_'' @ b) = None \<and>
         go_get (as_bootstrap (dm_auth d)) (''boot_'' @ b) = None \<and>
         go_get (as_grants (dm_auth d)) (''grant_'' @ b) = None \<and>
         go_get (as_sessions (dm_auth d)) (''sess_'' @ b) = None))"

lemma ids_fresh_stores:
  "ids_fresh od d \<Longrightarrow> same_stores od d d' \<Longrightarrow> ids_fresh od d'"
  by (auto simp: ids_fresh_def same_stores_def Let_def intro: env_steps_trans)

lemma daemon_ok_stores: "daemon_ok d \<Longrightarrow> same_stores od d d' \<Longrightarrow> daemon_ok d'"
  by (simp add: daemon_ok_def same_stores_def)

definition the_view :: "'e outside \<Rightarrow> 'e daemon \<Rightarrow> 'e daemon view" where
  "the_view od d =
     daemon_view od (dm_env d) (dm_auth d) (dm_limiter d)
       (if dm_closed d then Some (dm_reason d) else None)"

lemma the_view_invar: "daemon_ok d \<Longrightarrow> vw_invar (the_view od d) d"
  by (simp add: the_view_def view_invar daemon_ok_def)

lemma token_value: "fst (must_secure_token od p d) = p @ hex_encode (fst (od_random od (dm_env d)))"
  by (simp add: must_secure_token_def on_env_def case_prod_beta)

lemma fresh_requests:
  assumes "ids_fresh od d"
  shows "fresh_request_ids (daemon_service cfg od) (the_view od d) d"
  using assms
  by (auto simp: fresh_request_ids_def steady_def the_view_def view_invar token_value ids_fresh_def
      Let_def)

lemma fresh_leases:
  assumes "ids_fresh od d"
  shows "fresh_lease_tokens (daemon_service cfg od) (the_view od d) d"
  using assms
  by (auto simp: fresh_lease_tokens_def the_view_def view_invar token_value ids_fresh_def Let_def)

section \<open>Outcomes\<close>

text \<open>\<open>keeps\<close>: no request, lease or credential changed, and the gate and the trail only moved on.\<close>

definition keeps :: "'e daemon \<Rightarrow> 'e daemon \<Rightarrow> bool" where
  "keeps d d' \<longleftrightarrow>
     daemon_book d' = daemon_book d \<and> dm_auth d' = dm_auth d \<and> daemon_ok d' \<and>
     prefix (dm_trail d) (dm_trail d') \<and> gate_kept d d'"

definition noted :: "'e daemon \<Rightarrow> 'e daemon \<Rightarrow> audit_event \<Rightarrow> bool" where
  "noted d d' ev \<longleftrightarrow> ev \<in> set (drop (length (dm_trail d)) (dm_trail d'))"

definition stepped :: "policy \<Rightarrow> 'e daemon \<Rightarrow> lease_action \<Rightarrow> (int \<Rightarrow> audit_event) \<Rightarrow> 'e daemon \<Rightarrow> bool"
where
  "stepped p d a ev d' \<longleftrightarrow>
     lease_step p (daemon_book d) a (daemon_book d') \<and> dm_auth d' = dm_auth d \<and> daemon_ok d' \<and>
     prefix (dm_trail d) (dm_trail d') \<and> gate_kept d d' \<and> (\<exists>t. noted d d' (ev t))"

lemma keeps_refl: "daemon_ok d \<Longrightarrow> keeps d d"
  by (simp add: keeps_def)

lemma stores_keeps: "daemon_ok d \<Longrightarrow> same_stores od d d' \<Longrightarrow> keeps d d'"
  by (simp add: keeps_def same_stores_def daemon_book_def daemon_ok_def)

lemma keeps_trans: "keeps d d1 \<Longrightarrow> keeps d1 d2 \<Longrightarrow> keeps d d2"
  by (auto simp: keeps_def intro: gate_kept_trans)

lemma noted_earlier: "prefix (dm_trail d) (dm_trail d1) \<Longrightarrow> noted d1 d2 ev \<Longrightarrow> noted d d2 ev"
  using set_drop_subset_set_drop [of "length (dm_trail d)" "length (dm_trail d1)" "dm_trail d2"]
    prefix_length_le [of "dm_trail d" "dm_trail d1"]
  by (auto simp: noted_def)

lemma keeps_stepped:
  assumes "keeps d d1" and "stepped p d1 a ev d2" shows "stepped p d a ev d2"
  using assms by (auto simp: keeps_def stepped_def intro: gate_kept_trans noted_earlier)

lemma view_gate:
  "vw_invar (the_view od d) d' \<Longrightarrow> gate_kept d d'"
  by (auto simp: the_view_def view_invar gate_kept_def)

lemma steady_keeps:
  assumes "daemon_ok d" and "steady (the_view od d) d d'" shows "keeps d d'"
  using assms view_gate [of od d d']
  by (auto simp: steady_def keeps_def daemon_book_def daemon_ok_def the_view_def view_invar)

lemma took_step_stepped:
  assumes "daemon_ok d" and "took_step (daemon_service cfg od) (the_view od d) d a ev d'"
  shows "stepped (sc_policy cfg) d a ev d'"
  using assms view_gate [of od d d']
  by (auto simp: took_step_def stepped_def book_of_def audited_def added_def noted_def
      daemon_book_def daemon_ok_def the_view_def view_invar)

text \<open>How a handler that opens as most do ends.\<close>

lemma checked_durable:
  assumes "let_through od d ok who"
    and "\<And>r d1. same_stores od d d1 \<Longrightarrow> rs_status r \<noteq> 200 \<Longrightarrow> Q (r, d1)"
    and "\<And>actor d1. same_stores od d d1 \<Longrightarrow> ok actor \<Longrightarrow> \<not> dm_closed d1 \<Longrightarrow> Q (answer actor d1)"
  shows "Q (checked_method who rq m (\<lambda>actor. when_durable (answer actor)))"
proof (cases who)
  case (Pair x d1)
  show ?thesis
  proof (cases x)
    case (Inl r)
    with Pair assms(1,2) show ?thesis by (simp add: checked_method_def let_through_Inl)
  next
    case (Inr actor)
    with Pair assms(1) have s: "same_stores od d d1" "ok actor" by (simp_all add: let_through_Inr)
    show ?thesis
    proof (cases "rq_method rq \<noteq> m")
      case True
      with Pair Inr s assms(2) show ?thesis
        by (simp add: checked_method_def method_not_allowed_def)
    next
      case False
      then have "checked_method who rq m (\<lambda>actor. when_durable (answer actor)) =
          when_durable (answer actor) d1"
        using Pair Inr by (simp add: checked_method_def)
      moreover have "Q (when_durable (answer actor) d1)"
        using s assms(2,3)
        by (cases "dm_closed d1")
           (simp_all add: when_durable_def require_durability_ready_def durability_error_def Let_def)
      ultimately show ?thesis by simp
    qed
  qed
qed

section \<open>Requests and decisions\<close>

definition lease_outcome ::
  "server_config \<Rightarrow> 'e daemon \<Rightarrow> (lease_action \<Rightarrow> (int \<Rightarrow> audit_event) \<Rightarrow> bool) \<Rightarrow>
   http_response \<times> 'e daemon \<Rightarrow> bool"
where
  "lease_outcome cfg d good r \<longleftrightarrow>
     keeps d (snd r) \<or>
     (rs_status (fst r) = 200 \<and> (\<exists>a ev. good a ev \<and> stepped (sc_policy cfg) d a ev (snd r)))"

lemma lease_outcome_keeps: "keeps d d' \<Longrightarrow> lease_outcome cfg d good (r, d')"
  by (simp add: lease_outcome_def)

lemma lease_outcome_step:
  "keeps d d1 \<Longrightarrow> rs_status r = 200 \<Longrightarrow> good a ev \<Longrightarrow> stepped (sc_policy cfg) d1 a ev d' \<Longrightarrow>
     lease_outcome cfg d good (r, d')"
  by (auto simp: lease_outcome_def dest: keeps_stepped)

lemma write_json_ok [simp]: "rs_status (write_json v) = 200"
  by (simp add: write_json_def)

lemma request_success_status:
  "res_reused res \<and> res_lease res = Some l \<or> \<not> res_reused res \<and> res_request res = Some r \<Longrightarrow>
     rs_status (request_success res) = 200"
  by (auto simp: request_success_def split: option.split)

text \<open>A new request is the caller's own and within the cap on pending requests.\<close>

definition pending_cap :: "server_config \<Rightarrow> int" where
  "pending_cap cfg =
     max_pending_per_agent
       (if sc_request_policy cfg = zero_request_policy then default_request_policy
        else normalize_request_policy (sc_request_policy cfg))"

lemma pending_cap_service:
  "max_pending_per_agent (service_request_policy (daemon_service cfg od)) = pending_cap cfg"
  by (simp add: service_request_policy_def pending_cap_def)

lemma view_book: "book_of (the_view od d) d' = daemon_book d'"
  by (simp add: book_of_def the_view_def view_invar daemon_book_def)

definition requests ::
  "server_config \<Rightarrow> 'e daemon \<Rightarrow> http_request \<Rightarrow> lease_action \<Rightarrow> (int \<Rightarrow> audit_event) \<Rightarrow> bool" where
  "requests cfg d rq a ev \<longleftrightarrow>
     (\<exists>r. a = Submitted r \<and> ev = created_event r \<and>
        agent_caller cfg (dm_auth d) rq (req_agent_id r) \<and>
        finite (agent_pending (daemon_book d) (req_agent_id r)) \<and>
        int (card (agent_pending (daemon_book d) (req_agent_id r))) < pending_cap cfg)"

lemma handle_request_outcome:
  assumes ok: "daemon_ok d" and fresh: "ids_fresh od d"
  shows "lease_outcome cfg d
    (requests cfg d rq)
    (handle_request cfg od rq body d)"
  unfolding handle_request_def
proof (rule checked_durable [OF require_agent_session_spec])
  fix r d1 assume "same_stores od d d1"
  then show "lease_outcome cfg d
    (requests cfg d rq) (r, d1)"
    by (intro lease_outcome_keeps stores_keeps [OF ok])
next
  fix actor :: actor and d1
  assume s: "same_stores od d d1"
    and actor: "agent_caller cfg (dm_auth d) rq (snd actor) \<and> fst actor = ''agent''"
  note k = stores_keeps [OF ok s]
  note v1 = the_view_invar [OF daemon_ok_stores [OF ok s], of od]
  note f1 = fresh_requests [OF ids_fresh_stores [OF fresh s], of cfg]
  let ?goal = "lease_outcome cfg d
    (requests cfg d rq)"
  have service: "?goal (case request_lease_with_policy_and_intent_and_summary (daemon_service cfg od)
        agent task reason ttl ss intent cfp dfp p cs ws d1 of
      (Inl e, d) \<Rightarrow> (request_failure e, d) | (Inr result, d) \<Rightarrow> (request_success result, d))"
    if "sc_auth_enabled cfg \<longrightarrow> agent = snd actor" for agent task reason ttl ss intent cfp dfp p cs ws
  proof -
    obtain x d2 where r: "request_lease_with_policy_and_intent_and_summary (daemon_service cfg od)
        agent task reason ttl ss intent cfp dfp p cs ws d1 = (x, d2)" by fastforce
    note spec = bd.request_with_policy_refines [OF v1 [unfolded the_view_def] f1 [unfolded the_view_def],
      where a = agent and t = task and reason = reason and ttl = ttl and ss = ss and intent = intent
        and cfp = cfp and dfp = dfp and p = p and cs = cs and ws = ws, folded the_view_def]
    show ?thesis
    proof (cases x)
      case (Inl e)
      with spec r have "steady (the_view od d1) d1 d2" by simp
      then have "keeps d d2" by (rule keeps_trans [OF k steady_keeps [OF daemon_ok_stores [OF ok s]]])
      with r Inl show ?thesis by (simp add: lease_outcome_keeps)
    next
      case (Inr res)
      show ?thesis
      proof (cases "res_reused res")
        case True
        with spec r Inr have "steady (the_view od d1) d1 d2" by simp
        then have "keeps d d2" by (rule keeps_trans [OF k steady_keeps [OF daemon_ok_stores [OF ok s]]])
        with r Inr show ?thesis by (simp add: lease_outcome_keeps)
      next
        case False
        with spec r Inr obtain q where q: "res_request res = Some q" "req_agent_id q = agent"
          "took_step (daemon_service cfg od) (the_view od d1) d1 (Submitted q) (created_event q) d2"
          and adm: "admitted (daemon_service cfg od) (the_view od d1) d1 agent
            (scope_key agent intent ss cfp dfp)"
          by auto
        have "daemon_book d1 = daemon_book d" using k by (simp add: keeps_def)
        with adm have cap: "finite (agent_pending (daemon_book d) agent)"
            "int (card (agent_pending (daemon_book d) agent)) < pending_cap cfg"
          by (simp_all add: admitted_def pending_cap_service view_book)
        have "stepped (sc_policy cfg) d1 (Submitted q) (created_event q) d2"
          by (rule took_step_stepped [OF daemon_ok_stores [OF ok s] q(3)])
        with r Inr False q(1,2) that actor cap show ?thesis
          by (auto simp: requests_def agent_caller_def
              intro!: lease_outcome_step [OF k] request_success_status)
      qed
    qed
  qed
  show "?goal (case decode_body body of Inl e \<Rightarrow> (bad_request (err_msg e), d1)
      | Inr req \<Rightarrow>
          let ttl = (if lb_ttl_minutes req = 0 then default_ttl_minutes (sc_policy cfg)
                      else lb_ttl_minutes req);
               command_fp = trim_space (lb_command_fingerprint req);
               workdir_fp = trim_space (lb_workdir_fingerprint req);
               env_path = trim_space (lb_env_path req);
               agent = trim_space (lb_agent_id req)
           in
           if command_fp = '''' then (bad_request ''command_fingerprint required'', d1)
           else if workdir_fp = '''' then (bad_request ''workdir_fingerprint required'', d1)
           else if sc_auth_enabled cfg \<and> agent \<noteq> '''' \<and> agent \<noteq> snd actor
           then (write_mapped_error ErrForbidden ''agent_id does not match authenticated session'', d1)
           else
             let agent = (if sc_auth_enabled cfg then snd actor else agent) in
             case request_lease_with_policy_and_intent_and_summary (daemon_service cfg od) agent
                    (lb_task_id req) (lb_reason req) ttl (lb_secrets req) (lb_intent req)
                    command_fp workdir_fp env_path (lb_command_summary req)
                    (lb_workdir_summary req) d1 of
               (Inl e, d) \<Rightarrow> (request_failure e, d)
             | (Inr result, d) \<Rightarrow> (request_success result, d))"
    using k service by (simp add: Let_def lease_outcome_keeps split: sum.split)
qed

text \<open>Both decisions of an operator, and the agent's own.\<close>

definition approves :: "server_config \<Rightarrow> http_request \<Rightarrow> lease_action \<Rightarrow> (int \<Rightarrow> audit_event) \<Rightarrow> bool" where
  "approves cfg rq a ev \<longleftrightarrow>
     operator_caller cfg rq \<and>
     (\<exists>l r who. a = Approved l \<and> lease_request_id l = rq_request_id rq \<and>
        req_id r = rq_request_id rq \<and> ev = approved_event ''operator'' who r l)"

definition denies :: "server_config \<Rightarrow> http_request \<Rightarrow> lease_action \<Rightarrow> (int \<Rightarrow> audit_event) \<Rightarrow> bool" where
  "denies cfg rq a ev \<longleftrightarrow>
     operator_caller cfg rq \<and> a = Denied (rq_request_id rq) \<and>
     (\<exists>r who reason. req_id r = rq_request_id rq \<and> ev = denied_event ''operator'' who reason r)"

definition withdraws ::
  "server_config \<Rightarrow> 'e daemon \<Rightarrow> http_request \<Rightarrow> lease_action \<Rightarrow> (int \<Rightarrow> audit_event) \<Rightarrow> bool" where
  "withdraws cfg d rq a ev \<longleftrightarrow>
     a = Denied (rq_request_id rq) \<and>
     (\<exists>r reason. fst (daemon_book d) (rq_request_id rq) = Some r \<and>
        agent_caller cfg (dm_auth d) rq (req_agent_id r) \<and>
        ev = cancelled_event reason (r\<lparr>req_status := RequestDenied\<rparr>))"

lemma request_key: "daemon_ok d \<Longrightarrow> vw_reqs (the_view od d) d i = Some r \<Longrightarrow> req_id r = i"
  by (auto simp: daemon_ok_def wf_mem_def the_view_def view_invar keyed_get)

lemma http_status_error [simp]: "http_status k \<noteq> 200"
  by (cases k) simp_all

lemma mapped_status [simp]: "rs_status (mapped km) \<noteq> 200"
  by (simp add: mapped_def)

lemma error_status [simp]:
  "rs_status (bad_request msg) \<noteq> 200" "rs_status method_not_allowed \<noteq> 200"
  "rs_status auth_unavailable \<noteq> 200"
  by (simp_all add: bad_request_def method_not_allowed_def auth_unavailable_def)

text \<open>A decision answers 200 exactly when it took its step.\<close>

definition decided ::
  "server_config \<Rightarrow> 'e daemon \<Rightarrow> (lease_action \<Rightarrow> (int \<Rightarrow> audit_event) \<Rightarrow> bool) \<Rightarrow>
   http_response \<times> 'e daemon \<Rightarrow> bool"
where
  "decided cfg d good r \<longleftrightarrow>
     lease_outcome cfg d good r \<and>
     (rs_status (fst r) = 200 \<longrightarrow> (\<exists>a ev. good a ev \<and> stepped (sc_policy cfg) d a ev (snd r)))"

lemma decided_keeps: "keeps d d' \<Longrightarrow> rs_status r \<noteq> 200 \<Longrightarrow> decided cfg d good (r, d')"
  by (simp add: decided_def lease_outcome_keeps)

lemma decided_step:
  "keeps d d1 \<Longrightarrow> rs_status r = 200 \<Longrightarrow> good a ev \<Longrightarrow> stepped (sc_policy cfg) d1 a ev d' \<Longrightarrow>
     decided cfg d good (r, d')"
  by (auto simp: decided_def lease_outcome_def dest: keeps_stepped)

lemma handle_approve_outcome:
  assumes ok: "daemon_ok d" and fresh: "ids_fresh od d"
  shows "decided cfg d (approves cfg rq) (handle_approve cfg od rq body d)"
  unfolding handle_approve_def
proof (rule checked_durable [OF require_operator_spec])
  fix r :: http_response and d1 assume "same_stores od d d1" and "rs_status r \<noteq> 200"
  then show "decided cfg d (approves cfg rq) (r, d1)"
    by (intro decided_keeps stores_keeps [OF ok])
next
  fix actor :: actor and d1
  assume s: "same_stores od d d1" and actor: "operator_caller cfg rq \<and> fst actor = ''operator''"
  note k = stores_keeps [OF ok s] and ok1 = daemon_ok_stores [OF ok s]
  note v1 = the_view_invar [OF ok1, of od]
    and f1 = fresh_leases [OF ids_fresh_stores [OF fresh s], of cfg]
  have service: "decided cfg d (approves cfg rq)
      (case approve_request_with_actor (daemon_service cfg od) (rq_request_id rq) ttl (fst actor)
          (snd actor) d1 of
        (Inl e, d) \<Rightarrow> (mapped (state_store_mutation_error e), d)
      | (Inr l, d) \<Rightarrow> (write_json (f l), d))" for ttl f
  proof -
    obtain x d2 where r: "approve_request_with_actor (daemon_service cfg od) (rq_request_id rq) ttl
        (fst actor) (snd actor) d1 = (x, d2)" by fastforce
    note spec = bd.approve_refines [OF v1 [unfolded the_view_def] f1 [unfolded the_view_def],
      where i = "rq_request_id rq" and ttl = ttl and atype = "fst actor" and aid = "snd actor",
      folded the_view_def]
    show ?thesis
    proof (cases x)
      case (Inl e)
      with spec r have "steady (the_view od d1) d1 d2" by simp
      then have "keeps d d2" by (rule keeps_trans [OF k steady_keeps [OF ok1]])
      with r Inl show ?thesis by (simp add: decided_keeps)
    next
      case (Inr l)
      with spec r obtain q t ttl' where q: "vw_reqs (the_view od d1) d1 (rq_request_id rq) = Some q"
        "l = lease_for q (lease_token l) t ttl'"
        and st: "took_step (daemon_service cfg od) (the_view od d1) d1 (Approved l)
          (approved_event (fst actor) (snd actor) (q\<lparr>req_status := RequestApproved\<rparr>) l) d2"
        by auto
      have id: "req_id q = rq_request_id rq" by (rule request_key [OF ok1 q(1)])
      have "lease_request_id l = rq_request_id rq"
        using id by (subst q(2)) (simp add: lease_for_def)
      with id actor have "approves cfg rq (Approved l)
          (approved_event (fst actor) (snd actor) (q\<lparr>req_status := RequestApproved\<rparr>) l)"
        unfolding approves_def by (intro conjI exI [of _ l] exI [of _ "q\<lparr>req_status := RequestApproved\<rparr>"]) auto
      with r Inr show ?thesis
        by (auto intro: decided_step [OF k _ _ took_step_stepped [OF ok1 st]])
    qed
  qed
  show "decided cfg d (approves cfg rq)
      (let request_id = rq_request_id rq in
       if request_id = '''' then (bad_request ''request_id required'', d1)
       else case decode_optional_json_body 0 body of
         Inl e \<Rightarrow> (bad_request (err_msg e), d1)
       | Inr ttl_minutes \<Rightarrow>
           (case approve_request_with_actor (daemon_service cfg od) request_id ttl_minutes
                   (fst actor) (snd actor) d1 of
              (Inl e, d) \<Rightarrow> (mapped (state_store_mutation_error e), d)
            | (Inr l, d) \<Rightarrow>
                (write_json [(''status'', JString ''approved''),
                   (''lease_token'', JString (lease_token l)),
                   (''expires_at'', JTime (lease_expires_at l))], d)))"
    using k service by (simp add: Let_def decided_keeps split: sum.split)
qed

lemma handle_deny_outcome:
  assumes ok: "daemon_ok d"
  shows "decided cfg d (denies cfg rq) (handle_deny cfg od rq body d)"
  unfolding handle_deny_def
proof (rule checked_durable [OF require_operator_spec])
  fix r :: http_response and d1 assume "same_stores od d d1" and "rs_status r \<noteq> 200"
  then show "decided cfg d (denies cfg rq) (r, d1)"
    by (intro decided_keeps stores_keeps [OF ok])
next
  fix actor :: actor and d1
  assume s: "same_stores od d d1" and actor: "operator_caller cfg rq \<and> fst actor = ''operator''"
  note k = stores_keeps [OF ok s] and ok1 = daemon_ok_stores [OF ok s]
  note v1 = the_view_invar [OF ok1, of od]
  have service: "decided cfg d (denies cfg rq)
      (case deny_request_with_actor (daemon_service cfg od) (rq_request_id rq) reason (fst actor)
          (snd actor) d1 of
        (Inl e, d) \<Rightarrow> (mapped (state_store_mutation_error e), d)
      | (Inr q, d) \<Rightarrow> (write_json (f q), d))" for reason f
  proof -
    obtain x d2 where r: "deny_request_with_actor (daemon_service cfg od) (rq_request_id rq) reason
        (fst actor) (snd actor) d1 = (x, d2)" by fastforce
    note spec = bd.deny_refines [OF v1 [unfolded the_view_def],
      where i = "rq_request_id rq" and reason = reason and atype = "fst actor" and aid = "snd actor"
        and cfg = cfg, folded the_view_def]
    show ?thesis
    proof (cases x)
      case (Inl e)
      with spec r have "steady (the_view od d1) d1 d2" by simp
      then have "keeps d d2" by (rule keeps_trans [OF k steady_keeps [OF ok1]])
      with r Inl show ?thesis by (simp add: decided_keeps)
    next
      case (Inr q')
      with spec r obtain q where q: "vw_reqs (the_view od d1) d1 (rq_request_id rq) = Some q"
        and st: "took_step (daemon_service cfg od) (the_view od d1) d1 (Denied (rq_request_id rq))
          (denied_event (fst actor) (snd actor) reason (q\<lparr>req_status := RequestDenied\<rparr>)) d2"
        by auto
      have "denies cfg rq (Denied (rq_request_id rq))
          (denied_event (fst actor) (snd actor) reason (q\<lparr>req_status := RequestDenied\<rparr>))"
        unfolding denies_def using request_key [OF ok1 q] actor
        by (intro conjI exI [of _ "q\<lparr>req_status := RequestDenied\<rparr>"]) auto
      with r Inr show ?thesis
        by (auto intro: decided_step [OF k _ _ took_step_stepped [OF ok1 st]])
    qed
  qed
  show "decided cfg d (denies cfg rq)
      (let request_id = rq_request_id rq in
       if request_id = '''' then (bad_request ''request_id required'', d1)
       else case decode_optional_json_body '''' body of
         Inl e \<Rightarrow> (bad_request (err_msg e), d1)
       | Inr reason \<Rightarrow>
           (case deny_request_with_actor (daemon_service cfg od) request_id reason (fst actor)
                   (snd actor) d1 of
              (Inl e, d) \<Rightarrow> (mapped (state_store_mutation_error e), d)
            | (Inr req, d) \<Rightarrow>
                (write_json [(''request_id'', JString (req_id req)),
                   (''status'', JString (status_text (req_status req)))], d)))"
    using k service by (simp add: Let_def decided_keeps split: sum.split)
qed

lemma handle_cancel_outcome:
  assumes ok: "daemon_ok d"
  shows "decided cfg d (withdraws cfg d rq) (handle_cancel cfg od rq body d)"
  unfolding handle_cancel_def
proof (rule checked_durable [OF require_agent_session_spec])
  fix r :: http_response and d1 assume "same_stores od d d1" and "rs_status r \<noteq> 200"
  then show "decided cfg d (withdraws cfg d rq) (r, d1)"
    by (intro decided_keeps stores_keeps [OF ok])
next
  fix actor :: actor and d1
  assume s: "same_stores od d d1"
    and actor: "agent_caller cfg (dm_auth d) rq (snd actor) \<and> fst actor = ''agent''"
  note k = stores_keeps [OF ok s] and ok1 = daemon_ok_stores [OF ok s]
  note v1 = the_view_invar [OF ok1, of od]
  have service: "decided cfg d (withdraws cfg d rq)
      (case cancel_request_by_agent (daemon_service cfg od) (rq_request_id rq)
          (calling_agent cfg actor) reason d1 of
        (Inl e, d) \<Rightarrow> (mapped (state_store_cancel_mutation_error e), d)
      | (Inr q, d) \<Rightarrow> (write_json (f q), d))" for reason f
  proof -
    obtain x d2 where r: "cancel_request_by_agent (daemon_service cfg od) (rq_request_id rq)
        (calling_agent cfg actor) reason d1 = (x, d2)" by fastforce
    note spec = bd.cancel_refines [OF v1 [unfolded the_view_def],
      where i = "rq_request_id rq" and reason = reason and agent = "calling_agent cfg actor"
        and cfg = cfg, folded the_view_def]
    show ?thesis
    proof (cases x)
      case (Inl e)
      with spec r have "steady (the_view od d1) d1 d2" by simp
      then have "keeps d d2" by (rule keeps_trans [OF k steady_keeps [OF ok1]])
      with r Inl show ?thesis by (simp add: decided_keeps)
    next
      case (Inr q')
      with spec r obtain q where q: "vw_reqs (the_view od d1) d1 (rq_request_id rq) = Some q"
        "calling_agent cfg actor = [] \<or> req_agent_id q = calling_agent cfg actor"
        and st: "took_step (daemon_service cfg od) (the_view od d1) d1 (Denied (rq_request_id rq))
          (cancelled_event reason (q\<lparr>req_status := RequestDenied\<rparr>)) d2"
        by auto
      have "fst (daemon_book d) (rq_request_id rq) = Some q"
        using q(1) s by (simp add: the_view_def view_invar daemon_book_def same_stores_def)
      then have "withdraws cfg d rq (Denied (rq_request_id rq))
          (cancelled_event reason (q\<lparr>req_status := RequestDenied\<rparr>))"
        using q(2) actor live_session_agent [of "dm_auth d"] ok
        by (auto simp: withdraws_def agent_caller_def calling_agent_def daemon_ok_def)
      with r Inr show ?thesis
        by (auto intro: decided_step [OF k _ _ took_step_stepped [OF ok1 st]])
    qed
  qed
  show "decided cfg d (withdraws cfg d rq)
      (let request_id = rq_request_id rq in
       if request_id = '''' then (bad_request ''request_id required'', d1)
       else case decode_optional_json_body '''' body of
         Inl e \<Rightarrow> (bad_request (err_msg e), d1)
       | Inr given \<Rightarrow>
           let reason = (if trim_space given = '''' then ''agent requested cancellation''
                         else trim_space given)
           in (case cancel_request_by_agent (daemon_service cfg od) request_id
                      (calling_agent cfg actor) reason d1 of
                 (Inl e, d) \<Rightarrow> (mapped (state_store_cancel_mutation_error e), d)
               | (Inr req, d) \<Rightarrow>
                   (write_json [(''request_id'', JString (req_id req)),
                      (''status'', JString (status_text (req_status req)))], d)))"
    using k service by (simp add: Let_def decided_keeps split: sum.split)
qed

end
