(* ===== verification/ServerReads.thy ===== *)
theory ServerReads
  imports ServerContract
begin

text \<open>
  The handlers that change no request, lease or credential: the reads of requests and leases, and
  the release of a secret, with what the release guarantees.
\<close>

lemma steady_keeps_on:
  assumes "daemon_ok d" and "same_stores od d d1" and "steady (the_view od d1) d1 d2"
  shows "keeps d d2"
  by (rule keeps_trans [OF stores_keeps [OF assms(1,2)]
        steady_keeps [OF daemon_ok_stores [OF assms(1,2)] assms(3)]])

lemma same_stores_open: "same_stores od d d1 \<Longrightarrow> \<not> dm_closed d1 \<Longrightarrow> \<not> dm_closed d"
  by (auto simp: same_stores_def gate_kept_def)

section \<open>Reads\<close>

lemma snd_on_mem_read: "(\<And>s. snd (f s) = s) \<Longrightarrow> snd (on_mem f d) = d"
  by (simp add: snd_on_mem)

lemma daemon_reads [simp]:
  "snd (rs_get daemon_requests i d) = d" "snd (rs_list_pending daemon_requests d) = d"
  "snd (ls_get daemon_leases t d) = d" "snd (ls_get_by_request daemon_leases i d) = d"
  by (simp_all add: daemon_requests_lift daemon_leases_lift snd_on_mem_read)

lemma service_reads [simp]:
  "snd (get_request_owned_by_agent (daemon_service cfg od) i agent d) = d"
  "snd (get_lease_owned_by_agent (daemon_service cfg od) tok agent d) = d"
  by (simp_all add: get_request_owned_by_agent_def get_lease_owned_by_agent_def case_prod_beta
      split: sum.split)

lemma service_reads' [simp]:
  "snd (request_status_by_agent (daemon_service cfg od) i agent d) = d"
  "snd (list_pending_requests_of (daemon_service cfg od) d) = d"
  "snd (lease_by_request_for_agent (daemon_service cfg od) i agent d) = d"
  "snd (approved_lease_intent_by_agent (daemon_service cfg od) tok agent d) = d"
  by (simp_all add: request_status_by_agent_def list_pending_requests_of_def
      lease_by_request_for_agent_def approved_lease_intent_by_agent_def case_prod_beta Let_def
      split: sum.split)

text \<open>A handler whose answer only reads.\<close>

lemma reading_keeps:
  assumes "daemon_ok d" and "let_through od d ok who"
    and "\<And>actor d1. same_stores od d d1 \<Longrightarrow> ok actor \<Longrightarrow> snd (answer actor d1) = d1"
  shows "keeps d (snd (checked_method who rq m (\<lambda>actor. when_durable (answer actor))))"
  by (rule checked_durable [OF assms(2)])
    (use assms(3) stores_keeps [OF assms(1)] in simp_all)

lemma handle_request_status_keeps:
  assumes "daemon_ok d" shows "keeps d (snd (handle_request_status cfg od rq d))"
  unfolding handle_request_status_def
proof (rule reading_keeps [OF assms require_agent_session_spec])
  fix actor :: actor and d1
  show "snd (let request_id = rq_request_id rq in
       if request_id = '''' then (bad_request ''request_id required'', d1)
       else case request_status_by_agent (daemon_service cfg od) request_id (calling_agent cfg actor) d1 of
         (Inl e, d) \<Rightarrow> (mapped (state_store_read_error e), d)
       | (Inr req, d) \<Rightarrow>
           (write_json [(''request_id'', JString (req_id req)),
              (''status'', JString (status_text (req_status req)))], d)) = d1"
    by (simp add: case_prod_beta Let_def split: sum.split)
qed

lemma handle_pending_requests_keeps:
  assumes "daemon_ok d" shows "keeps d (snd (handle_pending_requests cfg od rq d))"
  unfolding handle_pending_requests_def
proof (rule reading_keeps [OF assms require_operator_spec])
  fix d1
  show "snd (case list_pending_requests_of (daemon_service cfg od) d1 of
         (Inl e, d) \<Rightarrow> (mapped (state_store_list_error e), d)
       | (Inr items, d) \<Rightarrow> (write_json [(''pending'', JRequests items)], d)) = d1"
    by (simp add: case_prod_beta Let_def split: sum.split)
qed

lemma handle_lease_by_request_keeps:
  assumes "daemon_ok d" shows "keeps d (snd (handle_lease_by_request cfg od rq d))"
  unfolding handle_lease_by_request_def
proof (rule reading_keeps [OF assms require_agent_session_spec])
  fix actor :: actor and d1
  show "snd (let request_id = rq_request_id rq in
       if request_id = '''' then (bad_request ''request_id required'', d1)
       else case lease_by_request_for_agent (daemon_service cfg od) request_id
                   (calling_agent cfg actor) d1 of
         (Inl e, d) \<Rightarrow> (mapped (state_store_read_error e), d)
       | (Inr l, d) \<Rightarrow>
           (write_json [(''lease_token'', JString (lease_token l)),
              (''expires_at'', JTime (lease_expires_at l))], d)) = d1"
    by (simp add: case_prod_beta Let_def split: sum.split)
qed

lemma handle_resolve_intent_keeps:
  assumes "daemon_ok d" shows "keeps d (snd (handle_resolve_intent cfg od rq body d))"
proof -
  have "keeps d (snd (require_agent_session cfg od rq d))"
    using require_agent_session_spec [of od d cfg rq] stores_keeps [OF assms, of od]
    by (simp add: let_through_def)
  then show ?thesis
    by (auto simp: handle_resolve_intent_def checked_method_def
        split: prod.splits sum.splits option.splits list.splits)
qed

section \<open>The release of a secret\<close>

text \<open>
  What stands behind a value handed out: a lease of the caller, which permits the secret at a
  time the clock showed, and a read of the backend, with the store as the call found it and its outside
  as the call had left it by then. The record of the start is on the trail before the read, the record
  of the access comes after it.
\<close>

definition released ::
  "server_config \<Rightarrow> 'e outside \<Rightarrow> 'e daemon \<Rightarrow> http_request \<Rightarrow> access_body \<Rightarrow> string \<Rightarrow> 'e daemon \<Rightarrow> bool"
where
  "released cfg od d rq b val d' \<longleftrightarrow>
     (\<exists>l agent e d1 d2 t t'.
        snd (daemon_book d) (ab_lease_token b) = Some l \<and>
        agent_caller cfg (dm_auth d) rq agent \<and> (sc_auth_enabled cfg \<longrightarrow> lease_agent_id l = agent) \<and>
        env_steps od (dm_env d) e \<and>
        lease_permits l (fst (od_now od e)) (ab_secret b) (ab_command_fingerprint b)
          (ab_workdir_fingerprint b) \<and>
        dm_store d1 = dm_store d \<and> env_steps od (dm_env d) (dm_env d1) \<and>
        noted d d1 (secret_access_event ''secret_access_started'' t l (ab_secret b)) \<and>
        daemon_secrets od (ab_secret b) d1 = (Inr val, d2) \<and> dm_trail d2 = dm_trail d1 \<and>
        noted d2 d' (secret_access_event ''secret_access'' t' l (ab_secret b)))"

lemma critical_noted:
  assumes "audit_critical (daemon_service cfg od) ev d = (None, d')"
  shows "same_stores od d d'" and "dm_trail d' = dm_trail d @ [ev]"
proof -
  have "daemon_audit od ev d = (None, d')"
    using assms by (simp add: audit_critical_def split: prod.splits option.splits)
  then show "same_stores od d d'" and "dm_trail d' = dm_trail d @ [ev]"
    using daemon_audit_ok by (blast intro: same_books_stores)+
qed

lemma daemon_secrets_frame:
  "dm_store (snd (daemon_secrets od n d)) = dm_store d" "dm_trail (snd (daemon_secrets od n d)) = dm_trail d"
proof -
  have "snd (get_secret n z) = z" for z by (simp add: get_secret_def split: option.split)
  then have m: "snd (on_mem (get_secret n) d) = d" by (rule snd_on_mem_read)
  have e: "dm_store (snd (on_env f d)) = dm_store d" "dm_trail (snd (on_env f d)) = dm_trail d"
    for f :: "'a \<Rightarrow> 'z \<times> 'a"
    by (cases "f (dm_env d)", simp add: on_env_def)+
  show "dm_store (snd (daemon_secrets od n d)) = dm_store d"
    and "dm_trail (snd (daemon_secrets od n d)) = dm_trail d"
    unfolding daemon_secrets_def using m e by (auto split: option.split)
qed

text \<open>The read between its two records.\<close>

lemma secret_read_between:
  assumes "access_secret_for_lease (daemon_service cfg od) l n cfp dfp d = (Inr val, d')"
  shows "\<exists>d1 d2 t t'. same_stores od d d1 \<and> noted d d1 (secret_access_event ''secret_access_started'' t l n) \<and>
    daemon_secrets od n d1 = (Inr val, d2) \<and> dm_trail d2 = dm_trail d1 \<and>
    noted d2 d' (secret_access_event ''secret_access'' t' l n)"
proof -
  let ?s = "daemon_service cfg od"
  obtain t0 a where n0: "sv_now ?s d = (t0, a)" by fastforce
  obtain t b where n1: "sv_now ?s a = (t, b)" by fastforce
  obtain x c where w1: "audit_critical ?s (secret_access_event ''secret_access_started'' t l n) b = (x, c)" by fastforce
  have x: "x = None" using assms n0 n1 w1
    by (cases x) (auto simp: access_secret_for_lease_def Let_def simp del: daemon_service_simps split: if_splits)
  obtain y d2 where rd: "sv_secrets ?s n c = (y, d2)" by fastforce
  obtain t' f where n2: "sv_now ?s d2 = (t', f)" by fastforce
  obtain z g where w2: "audit_critical ?s (secret_access_event ''secret_access'' t' l n) f = (z, g)" by fastforce
  have y: "y = Inr val"
    using assms n0 n1 w1 x rd
    by (cases y) (auto simp: access_secret_for_lease_def Let_def case_prod_beta
        simp del: daemon_service_simps split: if_splits option.splits)
  have z: "z = None" "g = d'"
    using assms n0 n1 w1 [unfolded x] rd [unfolded y] n2 w2 unfolding access_secret_for_lease_def Let_def
    by (cases z; simp del: daemon_service_simps split: if_splits)+
  have now: "same_stores od z z'" "dm_trail z' = dm_trail z" if "sv_now ?s z = (u, z')" for z z' u
  proof -
    have z': "z' = snd (on_env (od_now od) z)" using that by simp
    show "same_stores od z z'" unfolding z' by (rule same_stores_now)
    show "dm_trail z' = dm_trail z"
      unfolding z' on_env_def by (cases "od_now od (dm_env z)") simp
  qed
  note c = critical_noted [OF w1 [unfolded x]] and c' = critical_noted [OF w2 [unfolded z]]
  have "same_stores od d c"
    by (rule same_stores_trans [OF now(1) [OF n0] same_stores_trans [OF now(1) [OF n1] c(1)]])
  moreover have "noted d c (secret_access_event ''secret_access_started'' t l n)"
    using c(2) now(2) [OF n0] now(2) [OF n1] by (simp add: noted_def)
  moreover have "daemon_secrets od n c = (Inr val, d2)" using rd y by simp
  moreover have "dm_trail d2 = dm_trail c" using daemon_secrets_frame(2) [of od n c] rd by simp
  moreover have "noted d2 d' (secret_access_event ''secret_access'' t' l n)"
    using c'(2) now(2) [OF n2] by (simp add: noted_def)
  ultimately show ?thesis by blast
qed

lemma view_steady_noted:
  assumes "steady (the_view od d) a b" and "prefix (dm_trail d) (dm_trail a)"
    and "prefix (dm_trail b) (dm_trail d')" and "ev \<in> set (added (the_view od d) a b)"
  shows "noted d d' ev"
  using assms by (auto simp: steady_def added_def noted_def the_view_def view_invar prefix_def)

lemma steady_trail:
  "steady (the_view od d) a b \<Longrightarrow> prefix (dm_trail a) (dm_trail b)"
  "calm (the_view od d) a b \<Longrightarrow> dm_trail b = dm_trail a"
  by (simp_all add: steady_def calm_def the_view_def view_invar)

lemma read_audited_noted:
  assumes "read_audited (daemon_service cfg od) (the_view od d) l n val w d'"
    and "dm_trail w = dm_trail d"
  obtains d1 d2 t t' where "daemon_secrets od n d1 = (Inr val, d2)"
    and "noted d d' (secret_access_event ''secret_access_started'' t l n)"
    and "noted d d' (secret_access_event ''secret_access'' t' l n)"
proof -
  let ?v = "the_view od d"
  obtain w1 w2 t t' where s: "steady ?v w w1" "sv_secrets (daemon_service cfg od) n w1 = (Inr val, w2)"
      "steady ?v w2 d'"
    and e: "secret_access_event ''secret_access_started'' t l n \<in> set (added ?v w w1)"
      "secret_access_event ''secret_access'' t' l n \<in> set (added ?v w2 d')"
    using assms(1) unfolding read_audited_def by blast
  have i: "vw_invar (daemon_view od (dm_env d) (dm_auth d) (dm_limiter d)
      (if dm_closed d then Some (dm_reason d) else None)) w1"
    using s(1) by (simp add: steady_def the_view_def)
  have "calm ?v w1 w2"
    using bd.secret_calm [OF i, of cfg n] s(2) by (simp add: the_view_def)
  then have tr: "dm_trail w2 = dm_trail w1" by (rule steady_trail)
  note p = steady_trail(1) [OF s(1)] steady_trail(1) [OF s(3)]
  have "noted d d' (secret_access_event ''secret_access_started'' t l n)"
    by (rule view_steady_noted [OF s(1) _ _ e(1)]) (use p tr assms(2) in simp_all)
  moreover have "noted d d' (secret_access_event ''secret_access'' t' l n)"
    by (rule view_steady_noted [OF s(3) _ _ e(2)]) (use p tr assms(2) in simp_all)
  ultimately show thesis using that s(2) by simp
qed

lemma noted_stores: "same_stores od d d1 \<Longrightarrow> noted d1 d2 ev \<Longrightarrow> noted d d2 ev"
  by (auto simp: same_stores_def intro: noted_earlier)

lemma access_by_agent_lease:
  assumes "access_secret_by_agent (daemon_service cfg od) agent tok n cfp dfp d = (x, d')" and "x = Inr val"
  obtains l where "snd (daemon_book d) tok = Some l"
    and "access_secret_for_lease (daemon_service cfg od) l n cfp dfp d = (Inr val, d')"
proof -
  obtain y d1 where g: "get_lease_owned_by_agent (daemon_service cfg od) tok agent d = (y, d1)" by fastforce
  have d1: "d1 = d" using service_reads(2) [of cfg od tok agent d] g by simp
  obtain l where y: "y = Inr l" using assms g by (cases y) (auto simp: access_secret_by_agent_def)
  have "snd (daemon_book d) tok = Some l"
    using g y by (auto simp: get_lease_owned_by_agent_def daemon_leases_lift daemon_book_def on_mem_def
        mem_lease_store_def get_lease_def split: prod.splits sum.splits option.splits if_splits)
  moreover have "access_secret_for_lease (daemon_service cfg od) l n cfp dfp d = (Inr val, d')"
    using assms g y d1 by (simp add: access_secret_by_agent_def)
  ultimately show thesis by (rule that)
qed

lemma access_secret_released:
  assumes ok: "daemon_ok d" and s: "same_stores od d d1"
    and actor: "agent_caller cfg (dm_auth d) rq (snd actor)"
    and r: "access_secret_by_agent (daemon_service cfg od) (calling_agent cfg actor)
      (ab_lease_token b) (ab_secret b) (ab_command_fingerprint b) (ab_workdir_fingerprint b) d1 = (x, d2)"
  shows "keeps d d2" and "x = Inr val \<Longrightarrow> released cfg od d rq b val d2"
proof -
  have ok1: "daemon_ok d1" by (rule daemon_ok_stores [OF ok s])
  note v1 = the_view_invar [OF ok1, of od]
  note spec = bd.access_secret_by_agent_spec [OF v1 [unfolded the_view_def],
    where agent = "calling_agent cfg actor" and tok = "ab_lease_token b" and n = "ab_secret b"
      and cfp = "ab_command_fingerprint b" and dfp = "ab_workdir_fingerprint b" and cfg = cfg,
    folded the_view_def, unfolded r prod.case]
  have "steady (the_view od d1) d1 d2" using spec by (cases x) auto
  then show "keeps d d2" by (rule steady_keeps_on [OF ok s])
  assume x: "x = Inr val"
  with spec obtain l w1 where l: "vw_leases (the_view od d1) d1 (ab_lease_token b) = Some l"
      "calling_agent cfg actor = [] \<or> lease_agent_id l = calling_agent cfg actor"
    and c: "calm (the_view od d1) d1 w1"
    and p: "lease_permits l (fst (sv_now (daemon_service cfg od) w1)) (ab_secret b)
        (ab_command_fingerprint b) (ab_workdir_fingerprint b)"
    by auto
  obtain l' where g: "snd (daemon_book d1) (ab_lease_token b) = Some l'"
    and a: "access_secret_for_lease (daemon_service cfg od) l' (ab_secret b) (ab_command_fingerprint b)
      (ab_workdir_fingerprint b) d1 = (Inr val, d2)"
    using r x by (rule access_by_agent_lease)
  have l': "l' = l" using g l(1) by (simp add: the_view_def view_invar daemon_book_def)
  obtain d3 d4 t t' where st: "same_stores od d1 d3"
    and n: "noted d1 d3 (secret_access_event ''secret_access_started'' t l (ab_secret b))"
    and rd: "daemon_secrets od (ab_secret b) d3 = (Inr val, d4)" "dm_trail d4 = dm_trail d3"
    and n': "noted d4 d2 (secret_access_event ''secret_access'' t' l (ab_secret b))"
    using secret_read_between [OF a] unfolding l' by blast
  have d3: "dm_store d3 = dm_store d" "env_steps od (dm_env d) (dm_env d3)"
    using same_stores_trans [OF s st] by (simp_all add: same_stores_def)
  have e: "env_steps od (dm_env d) (dm_env w1)"
    using c s by (auto simp: calm_def the_view_def view_invar same_stores_def intro: env_steps_trans)
  have "sc_auth_enabled cfg \<longrightarrow> lease_agent_id l = snd actor"
    using l(2) actor live_session_agent [of "dm_auth d"] ok
    by (auto simp: agent_caller_def calling_agent_def daemon_ok_def)
  moreover have "snd (daemon_book d) (ab_lease_token b) = Some l"
    using l(1) s by (simp add: the_view_def view_invar daemon_book_def same_stores_def)
  moreover have "fst (sv_now (daemon_service cfg od) w1) = fst (od_now od (dm_env w1))"
    by (simp add: on_env_def case_prod_beta)
  ultimately show "released cfg od d rq b val d2"
    unfolding released_def using actor e p d3 noted_stores [OF s n] rd n' by metis
qed

lemma reject_plaintext_cases:
  assumes "vw_invar (the_view od d) d"
    and "reject_plaintext_secret_access (daemon_service cfg od) at ai d = (x, d')"
  shows "steady (the_view od d) d d'" and "x = None \<Longrightarrow> d' = d \<and> sc_allow_plaintext_secret_return cfg"
proof -
  let ?s = "daemon_service cfg od"
  obtain t d1 where n: "sv_now ?s d = (t, d1)" by fastforce
  obtain y d2 where a: "audit_critical ?s (zero_event\<lparr>ev_event := ''plaintext_secret_access_blocked'',
      ev_timestamp := t, ev_actor_type := at, ev_actor_id := ai\<rparr>) d1 = (y, d2)" by fastforce
  note A = bd.now_audit(1) [OF assms(1) [unfolded the_view_def] n a, folded the_view_def]
  show "steady (the_view od d) d d'"
    using assms n a A
    by (cases y) (auto simp: reject_plaintext_secret_access_def steady_refl split: if_splits)
  show "x = None \<Longrightarrow> d' = d \<and> sc_allow_plaintext_secret_return cfg"
    using assms n a by (cases y) (auto simp: reject_plaintext_secret_access_def split: if_splits)
qed

definition access_outcome ::
  "server_config \<Rightarrow> 'e outside \<Rightarrow> http_request \<Rightarrow> access_body http_body \<Rightarrow> 'e daemon \<Rightarrow>
   http_response \<times> 'e daemon \<Rightarrow> bool"
where
  "access_outcome cfg od rq body d r \<longleftrightarrow>
     keeps d (snd r) \<and>
     (rs_status (fst r) = 200 \<longrightarrow>
        sc_allow_plaintext_secret_return cfg \<and> \<not> dm_closed d \<and>
        (\<exists>b val. decode_body body = Inr b \<and> released cfg od d rq b val (snd r) \<and>
           rs_body (fst r) = Inr [(''secret'', JString (ab_secret b)), (''value'', JString val)]))"

lemma access_outcome_error:
  "keeps d d' \<Longrightarrow> rs_status r \<noteq> 200 \<Longrightarrow> access_outcome cfg od rq body d (r, d')"
  by (simp add: access_outcome_def)

lemma handle_access_outcome:
  assumes ok: "daemon_ok d"
  shows "access_outcome cfg od rq body d (handle_access cfg od rq body d)"
  unfolding handle_access_def
proof (rule checked_durable [OF require_agent_session_spec])
  fix r :: http_response and d1 assume "same_stores od d d1" and "rs_status r \<noteq> 200"
  then show "access_outcome cfg od rq body d (r, d1)"
    by (intro access_outcome_error stores_keeps [OF ok])
next
  fix actor :: actor and d1
  assume s: "same_stores od d d1" and gate_open: "\<not> dm_closed d1"
    and actor: "agent_caller cfg (dm_auth d) rq (snd actor) \<and> fst actor = ''agent''"
  note v1 = the_view_invar [OF daemon_ok_stores [OF ok s], of od]
  have gate: "\<not> dm_closed d" by (rule same_stores_open [OF s gate_open])
  obtain x d2 where p: "reject_plaintext_secret_access (daemon_service cfg od) (fst actor) (snd actor) d1
      = (x, d2)" by fastforce
  note P = reject_plaintext_cases [OF v1 p]
  show "access_outcome cfg od rq body d
      (case reject_plaintext_secret_access (daemon_service cfg od) (fst actor) (snd actor) d1 of
         (Some e, d) \<Rightarrow>
           if err_is e (App ErrPlaintextSecretReturnDisabled)
           then (write_mapped_error ErrForbidden (err_msg e), d)
           else (write_mapped_error ErrServiceUnavailable durability_unavailable_message, d)
       | (None, d) \<Rightarrow>
           (case decode_body body of
              Inl e \<Rightarrow> (bad_request (err_msg e), d)
            | Inr req \<Rightarrow>
                (case access_secret_by_agent (daemon_service cfg od) (calling_agent cfg actor)
                        (ab_lease_token req) (ab_secret req) (ab_command_fingerprint req)
                        (ab_workdir_fingerprint req) d of
                   (Inl e, d) \<Rightarrow> (mapped (state_store_access_error e), d)
                 | (Inr v, d) \<Rightarrow>
                     (write_json [(''secret'', JString (ab_secret req)), (''value'', JString v)], d))))"
  proof (cases x)
    case (Some e)
    have "keeps d d2" by (rule steady_keeps_on [OF ok s P(1)])
    with p Some show ?thesis by (simp add: access_outcome_error)
  next
    case None
    with P(2) have d2: "d2 = d1" "sc_allow_plaintext_secret_return cfg" by simp_all
    show ?thesis
    proof (cases "decode_body body")
      case (Inl e)
      with p None d2 stores_keeps [OF ok s] show ?thesis by (simp add: access_outcome_error)
    next
      case (Inr b)
      obtain y d3 where a: "access_secret_by_agent (daemon_service cfg od) (calling_agent cfg actor)
          (ab_lease_token b) (ab_secret b) (ab_command_fingerprint b) (ab_workdir_fingerprint b) d1
        = (y, d3)" by fastforce
      note A = access_secret_released [OF ok s conjunct1 [OF actor] a]
      show ?thesis
      proof (cases y)
        case (Inl e)
        with p None d2 Inr a A(1) show ?thesis by (simp add: access_outcome_error)
      next
        case y: (Inr val)
        with p None d2 Inr a A gate show ?thesis
          by (simp add: access_outcome_def write_json_def)
      qed
    qed
  qed
qed

end
