(* ===== verification/ServerExec.thy ===== *)
theory ServerExec
  imports ServerReads
begin

text \<open>
  The two handlers that run a command. Neither changes a request, a lease or a credential; the
  process is started at most once, after its start has been audited, and for an agent only with
  secrets that a live lease of an approved request grants.
\<close>

section \<open>Starts\<close>

text \<open>
  What a process is started with: its time limit, the command, its first argument as given, its
  environment, and the state of the outside.
\<close>

type_synonym 'e start = "int \<times> resolved_command \<times> string \<times> string list \<times> 'e"

definition start_end :: "'e exec_config \<Rightarrow> 'e start \<Rightarrow> process_end \<times> 'e" where
  "start_end ec = (\<lambda>(limit, c, argv0, env, e). ec_start ec limit c argv0 env e)"

text \<open>
  \<open>starts h ec c\<close>: nothing of what processes do has an influence on \<open>h ec\<close>, except for the one
  started as \<open>c\<close> says, if any.
\<close>

definition starts :: "('e exec_config \<Rightarrow> 'r) \<Rightarrow> 'e exec_config \<Rightarrow> 'e start option \<Rightarrow> bool" where
  "starts h ec c \<longleftrightarrow>
     (\<forall>f. (\<forall>x\<in>set_option c. start_end (ec\<lparr>ec_start := f\<rparr>) x = start_end ec x) \<longrightarrow>
        h (ec\<lparr>ec_start := f\<rparr>) = h ec)"

lemma starts_constant: "(\<And>f. h (ec\<lparr>ec_start := f\<rparr>) = h ec) \<Longrightarrow> starts h ec None"
  by (simp add: starts_def)

lemma starts_map: "starts h ec c \<Longrightarrow> starts (\<lambda>ec. g (h ec)) ec c"
  by (auto simp: starts_def)

lemma starts_cong:
  assumes "starts h ec c" and "\<And>f. h' (ec\<lparr>ec_start := f\<rparr>) = h (ec\<lparr>ec_start := f\<rparr>)" and "h' ec = h ec"
  shows "starts h' ec c"
  using assms by (simp add: starts_def)

lemma keeps_env: "daemon_ok d \<Longrightarrow> keeps d (snd (on_env f d))"
  by (simp add: keeps_def daemon_book_def daemon_ok_def gate_kept_def)

lemma now_audit_keeps:
  assumes ok: "daemon_ok d" and n: "sv_now (daemon_service cfg od) d = (t, d1)"
    and a: "audit_critical (daemon_service cfg od) ev d1 = (x, d2)"
  shows "keeps d d2" and "x = None \<Longrightarrow> noted d d2 ev"
proof -
  note A = bd.now_audit [OF the_view_invar [OF ok, unfolded the_view_def] n a, folded the_view_def]
  show "keeps d d2" by (rule steady_keeps [OF ok A(1)])
  assume "x = None"
  with A(2) have "added (the_view od d) d d2 = [ev]" by simp
  then show "noted d d2 ev" by (simp add: added_def noted_def the_view_def view_invar)
qed

lemma keeps_ok: "keeps d d' \<Longrightarrow> daemon_ok d'"
  by (simp add: keeps_def)

lemma keeps_noted: "keeps d d1 \<Longrightarrow> noted d1 d2 ev \<Longrightarrow> noted d d2 ev"
  by (auto simp: keeps_def intro: noted_earlier)

lemma process_runner_cong:
  assumes "start_end ec1 (l, cr_command rq, cr_argv0 rq, cr_env rq, dm_env d) =
    start_end ec2 (l, cr_command rq, cr_argv0 rq, cr_env rq, dm_env d)"
  shows "process_runner ec1 l rq d = process_runner ec2 l rq d"
  using assms unfolding process_runner_def on_env_def start_end_def prod.case by (rule arg_cong)

lemma process_runner_keeps: "daemon_ok d \<Longrightarrow> keeps d (snd (process_runner ec l rq d))"
  using keeps_env [of d]
  by (auto simp: process_runner_def case_prod_beta split: sum.split)

text \<open>The tail of both use cases.\<close>

lemma run_audited_starts:
  fixes ec :: "'e exec_config" and od :: "'e outside" and cfg u started secs rq secure ended
  assumes ok: "daemon_ok d"
  defines "run \<equiv> \<lambda>ec. run_audited u (daemon_service cfg od) (process_runner ec) started secs rq secure ended d"
  obtains c where "keeps d (snd (run ec))" and "starts run ec c"
    and "\<And>x. c = Some x \<Longrightarrow> \<exists>d3 t. keeps d d3 \<and> noted d d3 (started t) \<and>
      x = (dur_mult secs second, cr_command rq, cr_argv0 rq, cr_env rq, dm_env d3)"
proof -
  let ?s = "daemon_service cfg od"
  obtain t d1 where n: "sv_now ?s d = (t, d1)" by fastforce
  obtain x d2 where a: "audit_critical ?s (started t) d1 = (x, d2)" by fastforce
  note A = now_audit_keeps [OF ok n a]
  show thesis
  proof (cases x)
    case (Some e)
    then have r: "run ec = (Inl e, d2)" for ec using n a by (simp add: run_def run_audited_def)
    show thesis by (rule that [of None]) (simp_all add: r A(1) starts_constant)
  next
    case None
    let ?c = "(dur_mult secs second, cr_command rq, cr_argv0 rq, cr_env rq, dm_env d2)"
    let ?p = "\<lambda>ec. process_runner ec (dur_mult secs second) rq d2"
    have r: "run ec = (case ?p ec of
          (Inl e, w) \<Rightarrow> (Inl (command_failed e), w)
        | (Inr res, w) \<Rightarrow>
            let out = truncated (xu_max_output_bytes u) (secure (cx_output res));
                (t, w) = sv_now ?s w;
                (failed, w) = audit_critical ?s (ended res t) w
            in (Inr \<lparr>co_exit_code = cx_exit_code res, co_stdout_stderr = out,
                  co_audit_warning = (if failed \<noteq> None then audit_failure_warning u else '''')\<rparr>, w))"
      for ec
      unfolding run_def run_audited_def Let_def n prod.case a None option.case by (rule refl)
    have p: "?p ec1 = ?p ec2" if "start_end ec1 ?c = start_end ec2 ?c" for ec1 ec2 :: "'e exec_config"
      using that by (rule process_runner_cong)
    have "starts run ec (Some ?c)"
      unfolding starts_def
    proof (intro allI impI)
      fix f assume "\<forall>x\<in>set_option (Some ?c). start_end (ec\<lparr>ec_start := f\<rparr>) x = start_end ec x"
      then have "?p (ec\<lparr>ec_start := f\<rparr>) = ?p ec" by (intro p) simp
      then show "run (ec\<lparr>ec_start := f\<rparr>) = run ec" by (simp only: r)
    qed
    moreover have k: "keeps d (snd (?p ec))"
      by (rule keeps_trans [OF A(1) process_runner_keeps [OF keeps_ok [OF A(1)]]])
    moreover have "keeps d (snd (run ec))"
    proof -
      obtain y d3 where y: "?p ec = (y, d3)" by fastforce
      with k have k3: "keeps d d3" by simp
      show ?thesis
      proof (cases y)
        case (Inr res)
        obtain t' w1 where n': "sv_now ?s d3 = (t', w1)" by fastforce
        obtain z w2 where a': "audit_critical ?s (ended res t') w1 = (z, w2)" by fastforce
        from k3 now_audit_keeps(1) [OF keeps_ok [OF k3] n' a'] have "keeps d w2" by (rule keeps_trans)
        with y Inr n' a' show ?thesis by (simp add: r Let_def)
      qed (use y k3 in \<open>simp add: r\<close>)
    qed
    ultimately show thesis using that A None by blast
  qed
qed

section \<open>Running a command with secrets\<close>

text \<open>
  What stands behind the secrets of a command: a lease of the caller (the code compares with its
  trimmed name) and its approved request,
  which permit every name at a time the clock showed, and for each name both audit records; the
  values are those the backend or the confirmed file gave.
\<close>

definition values_confirmed ::
  "server_config \<Rightarrow> 'e outside \<Rightarrow> 'e daemon \<Rightarrow> lease_request \<Rightarrow> string list \<Rightarrow> string go_map \<Rightarrow> bool" where
  "values_confirmed cfg od d r ns vals \<longleftrightarrow>
     (\<exists>eps a c b w. let canonical = normalize_env_path_canonical (sv_paths (daemon_service cfg od)) in
        daemon_env_paths od = Some eps \<and> eps_resolve eps (req_env_path r) ns a = (Inr (vals, c), b) \<and>
        canonical c b = canonical (req_env_path_canonical r) w \<and> canonical c b \<noteq> '''')"

definition values_read :: "'e outside \<Rightarrow> string list \<Rightarrow> string go_map \<Rightarrow> bool" where
  "values_read od ns vals \<longleftrightarrow>
     dom (go_get vals) = set ns \<and>
     (\<forall>n\<in>set ns. \<exists>val a b. go_get vals n = Some val \<and> daemon_secrets od n a = (Inr val, b))"

definition execution_granted ::
  "server_config \<Rightarrow> 'e outside \<Rightarrow> 'e daemon \<Rightarrow> http_request \<Rightarrow> execute_body \<Rightarrow> string go_map \<Rightarrow>
   'e daemon \<Rightarrow> bool"
where
  "execution_granted cfg od d rq b vals d' \<longleftrightarrow>
     (\<exists>l r ns agent e.
        normalize_execution_secret_names (xb_secrets b) = Inr ns \<and>
        snd (daemon_book d) (xb_lease_token b) = Some l \<and>
        fst (daemon_book d) (lease_request_id l) = Some r \<and> req_status r = RequestApproved \<and>
        agent_caller cfg (dm_auth d) rq agent \<and>
        (sc_auth_enabled cfg \<longrightarrow>
           lease_agent_id l = trim_space agent \<and> req_agent_id r = trim_space agent) \<and>
        env_steps od (dm_env d) e \<and>
        (\<forall>n\<in>set ns. lease_permits l (fst (od_now od e)) n (xb_command_fingerprint b)
           (xb_workdir_fingerprint b)) \<and>
        (\<forall>n\<in>set ns. \<exists>t t'. noted d d' (secret_access_event ''secret_access_started'' t l n) \<and>
           noted d d' (secret_access_event ''secret_access'' t' l n)) \<and>
        (if trim_space (req_env_path r) = '''' then values_read od ns vals
         else values_confirmed cfg od d r ns vals))"

lemma confirmed_values_noted:
  assumes "confirmed_values (daemon_service cfg od) (the_view od d) r l ns vals w d'"
    and "dm_trail w = dm_trail d"
  shows "values_confirmed cfg od d r ns vals" and
    "\<forall>n\<in>set ns. \<exists>t t'. noted d d' (secret_access_event ''secret_access_started'' t l n) \<and>
       noted d d' (secret_access_event ''secret_access'' t' l n)"
proof -
  let ?v = "the_view od d" and ?s = "daemon_service cfg od"
  obtain eps w1 w2 c where e: "sv_env_path_secrets ?s = Some eps" and s1: "steady ?v w w1"
    and n1: "\<forall>n\<in>set ns. \<exists>t. secret_access_event ''secret_access_started'' t l n \<in> set (added ?v w w1)"
    and r: "eps_resolve eps (req_env_path r) ns w1 = (Inr (vals, c), w2)"
    and p: "normalize_env_path_canonical (sv_paths ?s) c w2 =
          normalize_env_path_canonical (sv_paths ?s) (req_env_path_canonical r) w"
        "normalize_env_path_canonical (sv_paths ?s) c w2 \<noteq> []"
    and s2: "steady ?v w2 d'"
    and n2: "\<forall>n\<in>set ns. \<exists>t. secret_access_event ''secret_access'' t l n \<in> set (added ?v w2 d')"
    using assms(1) unfolding confirmed_values_def by blast
  have i: "vw_invar (daemon_view od (dm_env d) (dm_auth d) (dm_limiter d)
      (if dm_closed d then Some (dm_reason d) else None)) w1"
    using s1 by (simp add: steady_def the_view_def)
  have "calm ?v w1 w2" using bd.resolve_calm [OF i e, of "req_env_path r" ns] r by (simp add: the_view_def)
  then have tr: "dm_trail w2 = dm_trail w1" by (rule steady_trail)
  note ps = steady_trail(1) [OF s1] steady_trail(1) [OF s2]
  show "values_confirmed cfg od d r ns vals"
    using e r p unfolding values_confirmed_def Let_def daemon_service_simps by metis
  show "\<forall>n\<in>set ns. \<exists>t t'. noted d d' (secret_access_event ''secret_access_started'' t l n) \<and>
       noted d d' (secret_access_event ''secret_access'' t' l n)"
  proof
    fix n assume "n \<in> set ns"
    with n1 n2 obtain t t' where
        "secret_access_event ''secret_access_started'' t l n \<in> set (added ?v w w1)"
        "secret_access_event ''secret_access'' t' l n \<in> set (added ?v w2 d')" by blast
    moreover have "noted d d' ev" if "ev \<in> set (added ?v w w1)" for ev
      by (rule view_steady_noted [OF s1 _ _ that]) (use ps tr assms(2) in simp_all)
    moreover have "noted d d' ev" if "ev \<in> set (added ?v w2 d')" for ev
      by (rule view_steady_noted [OF s2 _ _ that]) (use ps tr assms(2) in simp_all)
    ultimately show "\<exists>t t'. noted d d' (secret_access_event ''secret_access_started'' t l n) \<and>
       noted d d' (secret_access_event ''secret_access'' t' l n)" by blast
  qed
qed

lemma read_values_noted:
  assumes "\<forall>n\<in>set ns. \<exists>val. go_get vals n = Some val \<and>
      read_audited (daemon_service cfg od) (the_view od d) l n val w d'"
    and "dm_trail w = dm_trail d" and "dom (go_get vals) = set ns"
  shows "values_read od ns vals" and
    "\<forall>n\<in>set ns. \<exists>t t'. noted d d' (secret_access_event ''secret_access_started'' t l n) \<and>
       noted d d' (secret_access_event ''secret_access'' t' l n)"
  unfolding values_read_def using assms read_audited_noted by metis+

lemma resolve_secrets_granted:
  assumes ok: "daemon_ok d" and s: "same_stores od d d1"
    and actor: "agent_caller cfg (dm_auth d) rq (snd actor)"
    and r: "resolve_execution_secrets_by_agent (daemon_service cfg od) (trim_space (calling_agent cfg actor))
      (xb_lease_token b) (xb_secrets b) (xb_command_fingerprint b) (xb_workdir_fingerprint b) d1 = (x, d2)"
  shows "keeps d d2" and "x = Inr vals \<Longrightarrow> execution_granted cfg od d rq b vals d2"
proof -
  let ?v = "the_view od d1" and ?s = "daemon_service cfg od"
    and ?a = "trim_space (calling_agent cfg actor)"
  have ok1: "daemon_ok d1" by (rule daemon_ok_stores [OF ok s])
  note v1 = the_view_invar [OF ok1, of od]
  note spec = bd.resolve_execution_secrets_spec [OF v1 [unfolded the_view_def],
    where agent = ?a and tok = "xb_lease_token b" and names = "xb_secrets b"
      and cfp = "xb_command_fingerprint b" and dfp = "xb_workdir_fingerprint b" and cfg = cfg,
    folded the_view_def, unfolded r prod.case]
  have "steady ?v d1 d2" using spec by (cases x) auto
  then show "keeps d d2" by (rule steady_keeps_on [OF ok s])
  assume x: "x = Inr vals"
  with spec have "secrets_granted ?s ?v ?a (xb_lease_token b) (xb_secrets b)
      (xb_command_fingerprint b) (xb_workdir_fingerprint b) vals d1 d2" by simp
  then obtain l r ns w1 w2 where ns: "normalize_execution_secret_names (xb_secrets b) = Inr ns"
    and l: "vw_leases ?v d1 (xb_lease_token b) = Some l" "?a = [] \<or> lease_agent_id l = ?a"
    and rq: "vw_reqs ?v d1 (lease_request_id l) = Some r" "req_status r = RequestApproved"
      "?a = [] \<or> req_agent_id r = ?a"
    and c: "calm ?v d1 w1" "calm ?v d1 w2"
    and p: "\<forall>n\<in>set ns. lease_permits l (fst (sv_now ?s w1)) n (xb_command_fingerprint b)
      (xb_workdir_fingerprint b)"
    and vs: "if trim_space (req_env_path r) = [] then dom (go_get vals) = set ns \<and>
          (\<forall>n\<in>set ns. \<exists>val. go_get vals n = Some val \<and> read_audited ?s ?v l n val w2 d2)
        else confirmed_values ?s ?v r l ns vals w2 d2"
    unfolding secrets_granted_def by blast
  have e: "env_steps od (dm_env d) (dm_env w1)"
    using c(1) s by (auto simp: calm_def the_view_def view_invar same_stores_def intro: env_steps_trans)
  have now: "fst (sv_now ?s w1) = fst (od_now od (dm_env w1))" by (simp add: on_env_def case_prod_beta)
  have own: "sc_auth_enabled cfg \<longrightarrow>
      lease_agent_id l = trim_space (snd actor) \<and> req_agent_id r = trim_space (snd actor)"
    using l(2) rq(3) actor live_session_named [of "dm_auth d"] ok
    by (auto simp: agent_caller_def calling_agent_def daemon_ok_def)
  have books: "snd (daemon_book d) (xb_lease_token b) = Some l"
      "fst (daemon_book d) (lease_request_id l) = Some r"
    using l(1) rq(1) s by (simp_all add: the_view_def view_invar daemon_book_def same_stores_def)
  note tr = steady_trail(2) [OF c(2)]
  have noted: "\<forall>n\<in>set ns. \<exists>t t'. noted d1 d2 (secret_access_event ''secret_access_started'' t l n) \<and>
       noted d1 d2 (secret_access_event ''secret_access'' t' l n)"
    using vs confirmed_values_noted(2) [OF _ tr] read_values_noted(2) [OF _ tr]
    by (auto split: if_splits)
  have vals: "if trim_space (req_env_path r) = '''' then values_read od ns vals
      else values_confirmed cfg od d r ns vals"
    using vs confirmed_values_noted(1) [OF _ tr] read_values_noted(1) [OF _ tr]
    by (auto simp: values_confirmed_def split: if_splits)
  show "execution_granted cfg od d rq b vals d2"
    unfolding execution_granted_def
    using ns books rq(2) actor own e p now vals noted noted_stores [OF s] by metis
qed

section \<open>The use case of an execution\<close>

definition execute_policy :: "'e exec_config \<Rightarrow> 'e daemon control_plane_policy" where
  "execute_policy ec = default_policy_engine (daemon_files ec) (ec_policy ec)"

text \<open>What holds when a command of an agent is started.\<close>

definition run_allowed ::
  "server_config \<Rightarrow> 'e outside \<Rightarrow> 'e exec_config \<Rightarrow> http_request \<Rightarrow> execute_body \<Rightarrow> 'e daemon \<Rightarrow>
   'e start \<Rightarrow> bool"
where
  "run_allowed cfg od ec rq b d x \<longleftrightarrow>
     (\<exists>vals resolved intent d1 d2 d3 input meta t.
        cp_validate_execute_request (execute_policy ec) (ec_profile ec) (xb_intent b) (xb_command b) = None \<and>
        cp_validate_network_egress (execute_policy ec) (xb_command b) intent = None \<and>
        cp_resolve_execute_command (execute_policy ec) (xb_command b) d1 = Inr resolved \<and>
        execution_granted cfg od d rq b vals d2 \<and> keeps d2 d3 \<and>
        xi_command input = xb_command b \<and> xi_lease_tok input = xb_lease_token b \<and>
        noted d d3 (execution_event ''execute_with_secret_started'' input meta t) \<and>
        x = (dur_mult (cp_clamp_timeout (execute_policy ec) (xb_timeout_sec b)) second, resolved,
          first_command_arg (xb_command b),
          build_execution_environment_with_path_override (ec_ambient_env ec) vals
            (rc_search_path resolved), dm_env d3))"

lemma exec_config_start [simp]:
  "daemon_files (ec\<lparr>ec_start := f\<rparr>) = daemon_files ec"
  "execute_policy (ec\<lparr>ec_start := f\<rparr>) = execute_policy ec"
  by (simp_all add: daemon_files_def execute_policy_def)

lemma execute_use_case_simps [simp]:
  "xu_service (execute_use_case cfg od ec) = Some (daemon_service cfg od)"
  "xu_policy (execute_use_case cfg od ec) = Some (execute_policy ec)"
  "xu_runner (execute_use_case cfg od ec) = Some (process_runner ec)"
  "xu_security_profile (execute_use_case cfg od ec) = ec_profile ec"
  "xu_ambient_env (execute_use_case cfg od ec) = ec_ambient_env ec"
  "xu_max_output_bytes (execute_use_case cfg od ec) = ep_max_output_bytes (dp_exec (ec_policy ec))"
  "xu_output_mode (execute_use_case cfg od ec) = ep_output_security_mode (dp_exec (ec_policy ec))"
  "xu_audit_failure_warning (execute_use_case cfg od ec) = durability_unavailable_message"
  by (simp_all add: execute_use_case_def execute_policy_def)

lemma run_audited_runner:
  "run_audited (execute_use_case cfg od (ec\<lparr>ec_start := f\<rparr>)) = run_audited (execute_use_case cfg od ec)"
proof -
  have "ec_policy (ec\<lparr>ec_start := f\<rparr>) = ec_policy ec" by simp
  then show ?thesis
    unfolding run_audited_def audit_failure_warning_def execute_use_case_simps by (rule arg_cong)
qed

lemma starts_stopped:
  assumes "h ec = (Inl e, d')" and "\<And>f. h (ec\<lparr>ec_start := f\<rparr>) = (Inl e, d')" and "keeps d d'"
  shows "\<exists>c. keeps d (snd (h ec)) \<and> starts h ec c \<and> (\<forall>x. c = Some x \<longrightarrow> P x)"
  using assms by (intro exI [of _ None]) (simp add: starts_def)


definition input_of :: "server_config \<Rightarrow> actor \<Rightarrow> execute_body \<Rightarrow> execute_input" where
  "input_of cfg actor b =
     \<lparr>xi_actor_type = fst actor, xi_actor_id = calling_agent cfg actor,
      xi_lease_tok = xb_lease_token b, xi_intent = xb_intent b, xi_command = xb_command b,
      xi_secrets = xb_secrets b, xi_command_fingerprint = xb_command_fingerprint b,
      xi_workdir_fingerprint = xb_workdir_fingerprint b,
      xi_requested_timeout_sec = xb_timeout_sec b\<rparr>"

text \<open>The request to the runner, and the run itself, as \<open>execute\<close> makes them.\<close>

definition secret_run_request ::
  "'e exec_config \<Rightarrow> execute_body \<Rightarrow> string go_map \<Rightarrow> resolved_command \<Rightarrow> command_run_request" where
  "secret_run_request ec b vals resolved =
     \<lparr>cr_command = resolved, cr_argv0 = first_command_arg (xb_command b),
      cr_env = build_execution_environment_with_path_override (ec_ambient_env ec) vals
        (rc_search_path resolved),
      cr_capture_limit = effective_output_capture_limit
        (ep_output_security_mode (dp_exec (ec_policy ec))) (ep_max_output_bytes (dp_exec (ec_policy ec)))\<rparr>"

definition secret_run where
  "secret_run cfg od ec actor b vals resolved ec' d =
     (let timeout = cp_clamp_timeout (execute_policy ec) (xb_timeout_sec b) in
      run_audited (execute_use_case cfg od ec) (daemon_service cfg od) (process_runner ec')
        (execution_event ''execute_with_secret_started'' (input_of cfg actor b)
           [(''timeout_sec'', utoa timeout)])
        timeout (secret_run_request ec b vals resolved) (cp_apply_output_security (execute_policy ec))
        (\<lambda>res. execution_event ''execute_with_secret'' (input_of cfg actor b)
           [(''exit_code'', utoa (cx_exit_code res)), (''timeout_sec'', utoa timeout)]) d)"

lemma secret_run_starts:
  fixes ec :: "'e exec_config" and od :: "'e outside"
  assumes ok: "daemon_ok d2" and k: "keeps d d2" and g: "execution_granted cfg od d rq b vals d2"
    and v: "cp_validate_execute_request (execute_policy ec) (ec_profile ec) (xb_intent b) (xb_command b) = None"
    and net: "cp_validate_network_egress (execute_policy ec) (xb_command b) intent = None"
    and res: "cp_resolve_execute_command (execute_policy ec) (xb_command b) d1 = Inr resolved"
  shows "\<exists>c. keeps d (snd (secret_run cfg od ec actor b vals resolved ec d2)) \<and>
    starts (\<lambda>ec'. secret_run cfg od ec actor b vals resolved ec' d2) ec c \<and>
    (\<forall>x. c = Some x \<longrightarrow> run_allowed cfg od ec rq b d x)"
proof -
  let ?run = "\<lambda>ec'. secret_run cfg od ec actor b vals resolved ec' d2"
  let ?timeout = "cp_clamp_timeout (execute_policy ec) (xb_timeout_sec b)"
  let ?started = "execution_event ''execute_with_secret_started'' (input_of cfg actor b)
    [(''timeout_sec'', utoa ?timeout)]"
  let ?rq = "secret_run_request ec b vals resolved"
  have "\<exists>c. keeps d2 (snd (?run ec)) \<and> starts ?run ec c \<and>
      (\<forall>x. c = Some x \<longrightarrow> (\<exists>d3 t. keeps d2 d3 \<and> noted d2 d3 (?started t) \<and>
         x = (dur_mult ?timeout second, cr_command ?rq, cr_argv0 ?rq, cr_env ?rq, dm_env d3)))"
    unfolding secret_run_def Let_def
    by (rule run_audited_starts [OF ok, where u = "execute_use_case cfg od ec" and cfg = cfg
          and od = od and ec = ec and started = ?started and secs = ?timeout and rq = ?rq
          and secure = "cp_apply_output_security (execute_policy ec)"
          and ended = "\<lambda>res. execution_event ''execute_with_secret'' (input_of cfg actor b)
            [(''exit_code'', utoa (cx_exit_code res)), (''timeout_sec'', utoa ?timeout)]"])
      blast
  then obtain c where c: "keeps d2 (snd (?run ec))" "starts ?run ec c"
      "\<And>x. c = Some x \<Longrightarrow> \<exists>d3 t. keeps d2 d3 \<and> noted d2 d3 (?started t) \<and>
         x = (dur_mult ?timeout second, cr_command ?rq, cr_argv0 ?rq, cr_env ?rq, dm_env d3)"
    by blast
  have "run_allowed cfg od ec rq b d x" if cx: "c = Some x" for x
  proof -
    obtain d3 t where x: "keeps d2 d3" "noted d2 d3 (?started t)"
        "x = (dur_mult ?timeout second, cr_command ?rq, cr_argv0 ?rq, cr_env ?rq, dm_env d3)"
      using c(3) [OF cx] by blast
    show ?thesis
      unfolding run_allowed_def
      by (rule exI [of _ vals], rule exI [of _ resolved], rule exI [of _ intent], rule exI [of _ d1],
          rule exI [of _ d2], rule exI [of _ d3], rule exI [of _ "input_of cfg actor b"],
          rule exI [of _ "[(''timeout_sec'', utoa ?timeout)]"], rule exI [of _ t])
        (use v net res g x keeps_noted [OF k x(2)] in
          \<open>simp add: input_of_def secret_run_request_def\<close>)
  qed
  with keeps_trans [OF k c(1)] c(2) show ?thesis by blast
qed

lemma execute_starts:
  fixes ec :: "'e exec_config" and od :: "'e outside"
  assumes ok: "daemon_ok d" and s: "same_stores od d d1"
    and actor: "agent_caller cfg (dm_auth d) rq (snd actor)"
  shows "\<exists>c. keeps d (snd (execute (execute_use_case cfg od ec) (input_of cfg actor b) d1)) \<and>
    starts (\<lambda>ec. execute (execute_use_case cfg od ec) (input_of cfg actor b) d1) ec c \<and>
    (\<forall>x. c = Some x \<longrightarrow> run_allowed cfg od ec rq b d x)"
proof -
  let ?h = "\<lambda>ec. execute (execute_use_case cfg od ec) (input_of cfg actor b) d1"
  let ?s = "daemon_service cfg od" and ?p = "execute_policy ec" and ?a = "trim_space (calling_agent cfg actor)"
  let ?goal = "\<exists>c. keeps d (snd (?h ec)) \<and> starts ?h ec c \<and> (\<forall>x. c = Some x \<longrightarrow> run_allowed cfg od ec rq b d x)"
  have ok1: "daemon_ok d1" by (rule daemon_ok_stores [OF ok s])
  have k1: "keeps d d1" by (rule stores_keeps [OF ok s])
  note stop = starts_stopped [where h = ?h and ec = ec]
  note [simp] = execute_def input_of_def
  show ?goal
  proof (cases "xb_secrets b = []")
    case True
    then show ?goal by (intro stop [OF _ _ k1]) simp_all
  next
    case sec: False
    show ?goal
    proof (cases "cp_validate_execute_request ?p (ec_profile ec) (xb_intent b) (xb_command b)")
      case (Some e)
      with sec show ?goal by (intro stop [OF _ _ k1]) simp_all
    next
      case v: None
      obtain x where i: "approved_lease_intent_by_agent ?s (xb_lease_token b) ?a d1 = (x, d1)"
        by (metis prod.collapse service_reads'(4))
      show ?goal
      proof (cases x)
        case (Inl e)
        with sec v i show ?goal by (intro stop [OF _ _ k1]) simp_all
      next
        case (Inr intent)
        show ?goal
        proof (cases "trim_space intent \<noteq> '''' \<and> trim_space (xb_intent b) \<noteq> trim_space intent")
          case True
          with sec v i Inr show ?goal by (intro stop [OF _ _ k1]) simp_all
        next
          case int: False
          then have int': "(trim_space intent \<noteq> '''' \<and> trim_space (xb_intent b) \<noteq> trim_space intent) = False"
            by blast
          note pre = sec v i Inr int'
          show ?goal
          proof (cases "cp_validate_network_egress ?p (xb_command b) intent")
            case (Some err)
            obtain t d2 where n: "sv_now ?s d1 = (t, d2)" by fastforce
            obtain y d3 where a: "audit_critical ?s
                (zero_event\<lparr>ev_event := ''network_egress_blocked'', ev_timestamp := t,
                   ev_actor_type := trim_space (fst actor), ev_actor_id := ?a,
                   ev_metadata := [(''reason'', err_msg err),
                     (''command'', join '' '' (xb_command b))]\<rparr>) d2 = (y, d3)" by fastforce
            have k3: "keeps d d3" by (rule keeps_trans [OF k1 now_audit_keeps(1) [OF ok1 n a]])
            obtain e where "?h ec = (Inl e, d3)" and "\<And>f. ?h (ec\<lparr>ec_start := f\<rparr>) = (Inl e, d3)"
              using pre(1-4) Some n a int by (cases y) (auto simp del: daemon_service_simps)
            then show ?goal by (rule stop [OF _ _ k3])
          next
            case net: None
            show ?goal
            proof (cases "cp_resolve_execute_command ?p (xb_command b) d1")
              case (Inl e)
              with pre net show ?goal by (intro stop [OF _ _ k1, where e = e]) auto
            next
              case res: (Inr resolved)
              obtain y d2 where r: "resolve_execution_secrets_by_agent ?s ?a (xb_lease_token b)
                  (xb_secrets b) (xb_command_fingerprint b) (xb_workdir_fingerprint b) d1 = (y, d2)"
                by fastforce
              note R = resolve_secrets_granted [OF ok s actor r]
              show ?goal
              proof (cases y)
                case (Inl e)
                with pre net res r show ?goal by (intro stop [OF _ _ R(1), where e = e]) auto
              next
                case y: (Inr vals)
                have eq: "?h ec = secret_run cfg od ec actor b vals resolved ec d2"
                    "?h (ec\<lparr>ec_start := f\<rparr>) = secret_run cfg od ec actor b vals resolved (ec\<lparr>ec_start := f\<rparr>) d2" for f
                  using pre net res r y
                  by (auto simp: Let_def run_audited_runner secret_run_def secret_run_request_def
                      simp del: daemon_service_simps)
                from secret_run_starts [OF keeps_ok [OF R(1)] R(1) R(2) [OF y] v net res, of actor]
                show ?goal using starts_cong [where h' = ?h] eq by metis
              qed
            qed
          qed
        qed
      qed
    qed
  qed
qed

section \<open>The handlers\<close>

lemma checked_cases:
  fixes who :: "(http_response + actor) \<times> 'e daemon"
  assumes "let_through od d ok who"
  obtains (refused) r d1 where "same_stores od d d1" and "rs_status r \<noteq> 200"
      and "\<And>answer. checked_method who rq m (\<lambda>actor. when_durable (answer actor)) = (r, d1)"
  | (through) actor d1 where "same_stores od d d1" and "ok actor" and "\<not> dm_closed d1"
      and "\<And>answer. checked_method who rq m (\<lambda>actor. when_durable (answer actor)) = answer actor d1"
proof (cases who)
  case (Pair x d1)
  show thesis
  proof (cases x)
    case (Inl r)
    with Pair assms show thesis
      by (intro refused [of d1 r]) (simp_all add: checked_method_def let_through_Inl)
  next
    case (Inr actor)
    with Pair assms have s: "same_stores od d d1" "ok actor" by (simp_all add: let_through_Inr)
    consider "rq_method rq \<noteq> m" | "rq_method rq = m" "dm_closed d1" | "rq_method rq = m" "\<not> dm_closed d1"
      by blast
    then show thesis
    proof cases
      case 1
      with Pair Inr s show thesis
        by (intro refused [of d1 method_not_allowed]) (simp_all add: checked_method_def)
    next
      case 2
      with Pair Inr s show thesis
        by (intro refused [of d1 "write_mapped_error ErrServiceUnavailable durability_unavailable_message"])
          (simp_all add: checked_method_def when_durable_def require_durability_ready_def
            durability_error_def Let_def)
    next
      case 3
      with Pair Inr s show thesis
        by (intro through [of d1 actor])
          (simp_all add: checked_method_def when_durable_def require_durability_ready_def
            durability_error_def)
    qed
  qed
qed

text \<open>
  Every answer of the execute handler keeps requests, leases and credentials, and depends on at
  most one process, started as \<open>run_allowed\<close> says.
\<close>

definition execute_outcome ::
  "server_config \<Rightarrow> 'e outside \<Rightarrow> 'e exec_config \<Rightarrow> http_request \<Rightarrow> execute_body http_body \<Rightarrow>
   'e daemon \<Rightarrow> bool"
where
  "execute_outcome cfg od ec rq body d \<longleftrightarrow>
     keeps d (snd (handle_execute cfg od ec rq body d)) \<and>
     (\<exists>c. starts (\<lambda>ec. handle_execute cfg od ec rq body d) ec c \<and>
        (\<forall>x. c = Some x \<longrightarrow> \<not> dm_closed d \<and>
           (\<exists>b. decode_body body = Inr b \<and> xb_secrets b \<noteq> [] \<and> run_allowed cfg od ec rq b d x)))"


lemma handle_execute_outcome:
  assumes ok: "daemon_ok d" shows "execute_outcome cfg od ec rq body d"
proof (rule checked_cases [OF require_agent_session_spec, of od d cfg rq rq "''POST''"])
  fix r d1
  assume "same_stores od d d1"
    and "\<And>answer. checked_method (require_agent_session cfg od rq d) rq ''POST''
      (\<lambda>actor. when_durable (answer actor)) = (r, d1)"
  then have "handle_execute cfg od ec rq body d = (r, d1)" "keeps d d1" for ec
    by (simp_all add: handle_execute_def stores_keeps [OF ok])
  then show ?thesis unfolding execute_outcome_def by (intro conjI exI [of _ None]) (simp_all add: starts_def)
next
  fix actor d1
  assume s: "same_stores od d d1" and op: "\<not> dm_closed d1"
    and actor: "agent_caller cfg (dm_auth d) rq (snd actor) \<and> fst actor = ''agent''"
    and "\<And>answer. checked_method (require_agent_session cfg od rq d) rq ''POST''
      (\<lambda>actor. when_durable (answer actor)) = answer actor d1"
  then have h: "handle_execute cfg od ec rq body d =
      (case decode_body body of
         Inl e \<Rightarrow> (bad_request (err_msg e), d1)
       | Inr req \<Rightarrow>
           if xb_command req = [] then (bad_request ''command is required'', d1)
           else if xb_secrets req = [] then (bad_request ''secrets are required'', d1)
           else (case execute (execute_use_case cfg od ec) (input_of cfg actor req) d1 of
                (Inl e, d) \<Rightarrow> (execute_failure e, d)
              | (Inr res, d) \<Rightarrow> (execution_response res, d)))" for ec
    unfolding handle_execute_def input_of_def by simp
  note k = stores_keeps [OF ok s]
  show ?thesis
  proof (cases "\<exists>b. decode_body body = Inr b \<and> xb_command b \<noteq> [] \<and> xb_secrets b \<noteq> []")
    case False
    then have "snd (handle_execute cfg od ec rq body d) = d1"
        and "handle_execute cfg od (ec\<lparr>ec_start := f\<rparr>) rq body d = handle_execute cfg od ec rq body d"
      for f
      by (auto simp: h split: sum.split)
    with k show ?thesis unfolding execute_outcome_def
      by (intro conjI exI [of _ None]) (simp_all add: starts_def)
  next
    case True
    then obtain b where b: "decode_body body = Inr b" "xb_command b \<noteq> []" "xb_secrets b \<noteq> []" by blast
    let ?x = "\<lambda>ec. execute (execute_use_case cfg od ec) (input_of cfg actor b) d1"
    let ?answer = "\<lambda>(y, d). (case y of Inl e \<Rightarrow> execute_failure e | Inr res \<Rightarrow> execution_response res, d)"
    have eq: "handle_execute cfg od ec rq body d = ?answer (?x ec)" for ec
      using b by (cases "?x ec"; cases "fst (?x ec)") (simp_all add: h)
    obtain c where c: "keeps d (snd (?x ec))" "starts ?x ec c"
        "\<forall>x. c = Some x \<longrightarrow> run_allowed cfg od ec rq b d x"
      using execute_starts [OF ok s conjunct1 [OF actor]] by blast
    have "starts (\<lambda>ec. handle_execute cfg od ec rq body d) ec c"
      unfolding eq by (rule starts_map [OF c(2)])
    moreover have "keeps d (snd (handle_execute cfg od ec rq body d))"
      using c(1) by (simp add: eq case_prod_beta)
    ultimately show ?thesis
      unfolding execute_outcome_def using c(3) b same_stores_open [OF s op] by blast
  qed
qed

section \<open>Docker on the host\<close>

definition docker_allowed ::
  "server_config \<Rightarrow> 'e exec_config \<Rightarrow> http_request \<Rightarrow> string list \<Rightarrow> 'e daemon \<Rightarrow> 'e start \<Rightarrow> bool" where
  "docker_allowed cfg ec rq command d x \<longleftrightarrow>
     operator_caller cfg rq \<and>
     cp_validate_host_docker_command (execute_policy ec) command = None \<and>
     (\<exists>resolved limit d1 d3 input meta t.
        cp_resolve_host_docker_command (execute_policy ec) command d1 = Inr resolved \<and>
        keeps d d3 \<and> di_command input = command \<and> di_actor_type input = ''operator'' \<and>
        noted d d3 (docker_event ''host_docker_execute_started'' input meta t) \<and>
        x = (limit, resolved, first_command_arg command,
          build_execution_environment_with_path_override (ec_ambient_env ec) []
            (rc_search_path resolved), dm_env d3))"

lemma docker_use_case_simps [simp]:
  "xu_service (host_docker_use_case cfg od ec) = Some (daemon_service cfg od)"
  "xu_policy (host_docker_use_case cfg od ec) = Some (execute_policy ec)"
  "xu_runner (host_docker_use_case cfg od ec) = Some (process_runner ec)"
  "xu_ambient_env (host_docker_use_case cfg od ec) = ec_ambient_env ec"
  "xu_max_output_bytes (host_docker_use_case cfg od ec) = ep_max_output_bytes (dp_exec (ec_policy ec))"
  "xu_output_mode (host_docker_use_case cfg od ec) = ''redacted''"
  "xu_timeout_sec (host_docker_use_case cfg od ec) = ho_docker_timeout_sec (dp_host_ops (ec_policy ec))"
  "xu_audit_failure_warning (host_docker_use_case cfg od ec) = durability_unavailable_message"
  by (simp_all add: host_docker_use_case_def)

lemma docker_use_case_start:
  "use_case_output_mode (host_docker_use_case cfg od (ec\<lparr>ec_start := f\<rparr>)) =
     use_case_output_mode (host_docker_use_case cfg od ec)"
  "run_audited (host_docker_use_case cfg od (ec\<lparr>ec_start := f\<rparr>)) =
     run_audited (host_docker_use_case cfg od ec)"
proof -
  have "ec_policy (ec\<lparr>ec_start := f\<rparr>) = ec_policy ec" by simp
  then show "run_audited (host_docker_use_case cfg od (ec\<lparr>ec_start := f\<rparr>)) =
      run_audited (host_docker_use_case cfg od ec)"
    unfolding run_audited_def audit_failure_warning_def docker_use_case_simps by (rule arg_cong)
qed (simp add: use_case_output_mode_def fun_eq_iff)

lemma docker_starts:
  fixes ec :: "'e exec_config" and od :: "'e outside"
  assumes ok: "daemon_ok d" and s: "same_stores od d d1" and op: "operator_caller cfg rq"
    and input: "di_command input = command" "di_actor_type input = ''operator''"
  shows "\<exists>c. keeps d (snd (host_docker_execute (host_docker_use_case cfg od ec) input d1)) \<and>
    starts (\<lambda>ec. host_docker_execute (host_docker_use_case cfg od ec) input d1) ec c \<and>
    (\<forall>x. c = Some x \<longrightarrow> docker_allowed cfg ec rq command d x)"
proof -
  let ?u = "host_docker_use_case cfg od ec" and ?p = "execute_policy ec"
  let ?h = "\<lambda>ec. host_docker_execute (host_docker_use_case cfg od ec) input d1"
  note k1 = stores_keeps [OF ok s]
  note stop = starts_stopped [where h = ?h and ec = ec and d' = d1, OF _ _ k1]
  consider e where "cp_validate_host_docker_command ?p command = Some e"
    | e where "cp_validate_host_docker_command ?p command = None"
        "cp_resolve_host_docker_command ?p command d1 = Inl e"
    | r where "cp_validate_host_docker_command ?p command = None"
        "cp_resolve_host_docker_command ?p command d1 = Inr r"
    by (cases "cp_validate_host_docker_command ?p command";
        cases "cp_resolve_host_docker_command ?p command d1") auto
  then show ?thesis
  proof cases
    case (1 e)
    then show ?thesis by (intro stop [where e = e]) (simp_all add: host_docker_execute_def input)
  next
    case (2 e)
    then show ?thesis
      by (intro stop [where e = e]) (simp_all add: host_docker_execute_def input Let_def)
  next
    case (3 resolved)
    let ?timeout = "if xu_timeout_sec ?u \<le> 0 then 30 else xu_timeout_sec ?u"
    let ?mode = "use_case_output_mode ?u ''redacted''"
    let ?started = "docker_event ''host_docker_execute_started'' input
      [(''timeout_sec'', utoa ?timeout)]"
    let ?rq = "\<lparr>cr_command = resolved, cr_argv0 = first_command_arg command,
      cr_env = build_execution_environment_with_path_override (xu_ambient_env ?u) []
        (rc_search_path resolved),
      cr_capture_limit = effective_output_capture_limit ?mode (xu_max_output_bytes ?u)\<rparr>"
    let ?run = "\<lambda>ec. run_audited ?u (daemon_service cfg od) (process_runner ec) ?started ?timeout ?rq
      (apply_output_mode ?mode)
      (\<lambda>res. docker_event ''host_docker_execute'' input [(''exit_code'', utoa (cx_exit_code res))]) d1"
    have eq: "?h ec = ?run ec" "?h (ec\<lparr>ec_start := f\<rparr>) = ?run (ec\<lparr>ec_start := f\<rparr>)" for f
      using 3 by (simp_all add: host_docker_execute_def input Let_def docker_use_case_start
          del: daemon_service_simps)
    obtain c where c: "keeps d1 (snd (?run ec))" "starts ?run ec c"
        "\<And>x. c = Some x \<Longrightarrow> \<exists>d3 t. keeps d1 d3 \<and> noted d1 d3 (?started t) \<and>
           x = (dur_mult ?timeout second, cr_command ?rq, cr_argv0 ?rq, cr_env ?rq, dm_env d3)"
      by (rule run_audited_starts [OF keeps_ok [OF k1]]) (rule that)
    have "docker_allowed cfg ec rq command d x" if cx: "c = Some x" for x
    proof -
      obtain d3 t where x: "keeps d1 d3" "noted d1 d3 (?started t)"
          "x = (dur_mult ?timeout second, cr_command ?rq, cr_argv0 ?rq, cr_env ?rq, dm_env d3)"
        using c(3) [OF cx] by blast
      with 3 op input keeps_trans [OF k1 x(1)] keeps_noted [OF k1 x(2)] show ?thesis
        unfolding docker_allowed_def by (intro conjI) (assumption, assumption, fastforce)
    qed
    moreover have "starts ?h ec c" by (rule starts_cong [OF c(2)]) (use eq in simp_all)
    moreover have "keeps d (snd (?h ec))" using keeps_trans [OF k1 c(1)] eq(1) by simp
    ultimately show ?thesis by blast
  qed
qed

definition docker_outcome ::
  "server_config \<Rightarrow> 'e outside \<Rightarrow> 'e exec_config \<Rightarrow> http_request \<Rightarrow> string list http_body \<Rightarrow>
   'e daemon \<Rightarrow> bool"
where
  "docker_outcome cfg od ec rq body d \<longleftrightarrow>
     keeps d (snd (handle_host_docker_execute cfg od ec rq body d)) \<and>
     (\<exists>c. starts (\<lambda>ec. handle_host_docker_execute cfg od ec rq body d) ec c \<and>
        (\<forall>x. c = Some x \<longrightarrow> \<not> dm_closed d \<and>
           (\<exists>command. decode_body body = Inr command \<and> docker_allowed cfg ec rq command d x)))"

lemma handle_docker_outcome:
  assumes ok: "daemon_ok d" shows "docker_outcome cfg od ec rq body d"
proof (rule checked_cases [OF require_operator_spec, of od d cfg rq rq "''POST''"])
  fix r d1
  assume "same_stores od d d1"
    and "\<And>answer. checked_method (require_operator cfg od rq d) rq ''POST''
      (\<lambda>actor. when_durable (answer actor)) = (r, d1)"
  then have "handle_host_docker_execute cfg od ec rq body d = (r, d1)" "keeps d d1" for ec
    by (simp_all add: handle_host_docker_execute_def stores_keeps [OF ok])
  then show ?thesis unfolding docker_outcome_def by (intro conjI exI [of _ None]) (simp_all add: starts_def)
next
  fix actor :: actor and d1
  assume s: "same_stores od d d1" and op: "\<not> dm_closed d1"
    and actor: "operator_caller cfg rq \<and> fst actor = ''operator''"
    and "\<And>answer. checked_method (require_operator cfg od rq d) rq ''POST''
      (\<lambda>actor. when_durable (answer actor)) = answer actor d1"
  then have h: "handle_host_docker_execute cfg od ec rq body d =
      (case decode_body body of
         Inl e \<Rightarrow> (bad_request (err_msg e), d1)
       | Inr command \<Rightarrow>
           (case host_docker_execute (host_docker_use_case cfg od ec)
              \<lparr>di_actor_type = fst actor, di_actor_id = snd actor, di_command = command\<rparr> d1 of
              (Inl e, d) \<Rightarrow> (docker_failure e, d)
            | (Inr res, d) \<Rightarrow> (execution_response res, d)))" for ec
    unfolding handle_host_docker_execute_def by simp
  show ?thesis
  proof (cases "decode_body body")
    case (Inl e)
    then show ?thesis unfolding docker_outcome_def
      by (intro conjI exI [of _ None]) (simp_all add: h starts_def stores_keeps [OF ok s])
  next
    case (Inr command)
    let ?x = "\<lambda>ec. host_docker_execute (host_docker_use_case cfg od ec)
      \<lparr>di_actor_type = fst actor, di_actor_id = snd actor, di_command = command\<rparr> d1"
    let ?answer = "\<lambda>(y, d). (case y of Inl e \<Rightarrow> docker_failure e | Inr res \<Rightarrow> execution_response res, d)"
    have eq: "handle_host_docker_execute cfg od ec rq body d = ?answer (?x ec)" for ec
      using Inr by (cases "?x ec"; cases "fst (?x ec)") (simp_all add: h)
    obtain c where c: "keeps d (snd (?x ec))" "starts ?x ec c"
        "\<forall>x. c = Some x \<longrightarrow> docker_allowed cfg ec rq command d x"
      using docker_starts [OF ok s conjunct1 [OF actor], of
          "\<lparr>di_actor_type = fst actor, di_actor_id = snd actor, di_command = command\<rparr>" command ec] actor
      by auto
    have "starts (\<lambda>ec. handle_host_docker_execute cfg od ec rq body d) ec c"
      unfolding eq by (rule starts_map [OF c(2)])
    moreover have "keeps d (snd (handle_host_docker_execute cfg od ec rq body d))"
      using c(1) by (simp add: eq case_prod_beta)
    ultimately show ?thesis
      unfolding docker_outcome_def using c(3) Inr same_stores_open [OF s op] by blast
  qed
qed

end
