(* ===== verification/ServerAuth.thy ===== *)
theory ServerAuth
  imports ServerReads
begin

text \<open>
  The handlers of credentials and the cleanup: each takes at most one step of the auth store,
  with its audit event, and requests and leases stay as they are.
\<close>

section \<open>The auth lifecycle on the daemon\<close>

definition the_frame :: "'e outside \<Rightarrow> 'e daemon \<Rightarrow> 'e daemon \<Rightarrow> bool" where
  "the_frame od d =
     auth_frame od (dm_env d) (dm_store d) (dm_limiter d)
       (if dm_closed d then Some (dm_reason d) else None)"

lemma frame_refl: "the_frame od d d"
  by (simp add: the_frame_def auth_frame_def)

lemma frame_iff:
  "the_frame od d d' \<longleftrightarrow> dm_store d' = dm_store d \<and> dm_limiter d' = dm_limiter d \<and> gate_kept d d' \<and>
     env_steps od (dm_env d) (dm_env d')"
  by (auto simp: the_frame_def auth_frame_def gate_kept_def)

definition auth_stepped :: "'e daemon \<Rightarrow> auth_action \<Rightarrow> audit_event \<Rightarrow> 'e daemon \<Rightarrow> bool" where
  "auth_stepped d a ev d' \<longleftrightarrow>
     auth_step (dm_auth d) a (dm_auth d') \<and> daemon_book d' = daemon_book d \<and> daemon_ok d' \<and>
     prefix (dm_trail d) (dm_trail d') \<and> gate_kept d d' \<and> noted d d' ev"

lemma keeps_auth_stepped:
  assumes "keeps d d1" and "auth_stepped d1 a ev d2" shows "auth_stepped d a ev d2"
  using assms by (auto simp: keeps_def auth_stepped_def intro: gate_kept_trans noted_earlier)

lemma auth_steady_stores:
  "auth_steady (auth_lifecycle_svc cfg od) (the_frame od d) dm_trail d d' \<Longrightarrow> same_stores od d d'"
  by (simp add: auth_steady_def frame_iff same_stores_def)

lemma auth_outcome_Inl:
  "auth_outcome (auth_lifecycle_svc cfg od) (the_frame od d) dm_trail d good (Inl e, d') \<Longrightarrow>
     same_stores od d d'"
  by (simp add: auth_outcome_def auth_steady_stores)

lemma auth_outcome_Inr:
  assumes "auth_outcome (auth_lifecycle_svc cfg od) (the_frame od d) dm_trail d good (Inr x, d')"
    and "daemon_ok d" and "\<And>st ev. good x st ev \<Longrightarrow> auth_step (dm_auth d) a st \<and> P st ev"
  obtains ev where "auth_stepped d a ev d'" and "P (dm_auth d') ev"
  using assms auth_ok_step
  by (fastforce simp: auth_outcome_def frame_iff auth_stepped_def daemon_book_def daemon_ok_def
      noted_def)

text \<open>What a handler of credentials does: it answers 200 exactly when it took its step.\<close>

definition auth_handled ::
  "'e daemon \<Rightarrow> (auth_action \<Rightarrow> audit_event \<Rightarrow> bool) \<Rightarrow> http_response \<times> 'e daemon \<Rightarrow> bool" where
  "auth_handled d good r \<longleftrightarrow>
     (rs_status (fst r) \<noteq> 200 \<and> keeps d (snd r)) \<or>
     (rs_status (fst r) = 200 \<and> \<not> dm_closed d \<and> (\<exists>a ev. good a ev \<and> auth_stepped d a ev (snd r)))"

lemma auth_handled_keeps: "keeps d d' \<Longrightarrow> rs_status r \<noteq> 200 \<Longrightarrow> auth_handled d good (r, d')"
  by (simp add: auth_handled_def)

lemma auth_handled_step:
  "keeps d d1 \<Longrightarrow> rs_status r = 200 \<Longrightarrow> \<not> dm_closed d \<Longrightarrow> good a ev \<Longrightarrow> auth_stepped d1 a ev d' \<Longrightarrow>
     auth_handled d good (r, d')"
  by (auto simp: auth_handled_def dest: keeps_auth_stepped)

lemma checked_auth:
  assumes "let_through od d ok who"
    and "\<And>r d1. same_stores od d d1 \<Longrightarrow> rs_status r \<noteq> 200 \<Longrightarrow> Q (r, d1)"
    and "\<And>actor d1. same_stores od d d1 \<Longrightarrow> ok actor \<Longrightarrow> sc_auth_enabled cfg \<Longrightarrow> \<not> dm_closed d1 \<Longrightarrow>
      Q (answer actor d1)"
  shows "Q (checked_method who rq m (\<lambda>actor. when_auth_enabled cfg (answer actor)))"
proof (cases "sc_auth_enabled cfg")
  case True
  have "Q (checked_method who rq m (\<lambda>actor. when_durable (answer actor)))"
    by (rule checked_durable [OF assms(1)]) (use assms(2,3) True in blast)+
  moreover have "when_auth_enabled cfg f = when_durable f" for f :: "'a daemon \<Rightarrow> http_response \<times> 'a daemon"
    using True by (intro ext) (simp add: when_auth_enabled_def)
  ultimately show ?thesis by simp
next
  case False
  with assms(1,2) show ?thesis
    by (cases who; cases "fst who")
      (auto simp: checked_method_def when_auth_enabled_def let_through_def)
qed

lemma limited_post_cases:
  assumes "\<And>r d1. same_stores od d d1 \<Longrightarrow> rs_status r \<noteq> 200 \<Longrightarrow> Q (r, d1)"
    and "\<And>d1. same_stores od d d1 \<Longrightarrow> sc_auth_enabled cfg \<Longrightarrow> \<not> dm_closed d1 \<Longrightarrow> Q (answer d1)"
  shows "Q (limited_post cfg od rq scope answer d)"
proof (rule enforce_cases [of od rq scope d])
  fix r d1 assume "enforce_auth_rate_limit od rq scope d = (Some r, d1)" "same_stores od d d1" "rs_status r \<noteq> 200"
  then show ?thesis using assms(1) by (simp add: limited_post_def)
next
  fix d1 assume e: "enforce_auth_rate_limit od rq scope d = (None, d1)" and s: "same_stores od d d1"
  show ?thesis
    using e s assms
    by (cases "dm_closed d1")
      (simp_all add: limited_post_def when_auth_enabled_def when_durable_def
        require_durability_ready_def durability_error_def Let_def)
qed

section \<open>The handlers\<close>

definition bootstraps :: "server_config \<Rightarrow> http_request \<Rightarrow> auth_action \<Rightarrow> audit_event \<Rightarrow> bool" where
  "bootstraps cfg rq a ev \<longleftrightarrow>
     sc_auth_enabled cfg \<and> operator_caller cfg rq \<and>
     (\<exists>t. a = Bootstrapped t \<and> ev_event ev = ''auth_bootstrap_created'' \<and>
        ev_agent_id ev = bt_agent_id t \<and>
        bt_expires_at t = bt_created_at t + dur_mult (sc_bootstrap_ttl_seconds cfg) second)"

definition pairs ::
  "server_config \<Rightarrow> bootstrap_consume_body http_body \<Rightarrow> auth_action \<Rightarrow> audit_event \<Rightarrow> bool" where
  "pairs cfg body a ev \<longleftrightarrow>
     sc_auth_enabled cfg \<and>
     (\<exists>b g. decode_body body = Inr b \<and> a = Paired (bu_token b) g \<and>
        pg_container_id g = bu_container_id b \<and>
        pg_absolute_expires_at g = pg_created_at g + dur_mult (sc_grant_absolute_minutes cfg) minute \<and>
        ev_event ev = ''auth_pair_completed'' \<and> ev_agent_id ev = pg_agent_id g)"

definition mints :: "server_config \<Rightarrow> string http_body \<Rightarrow> auth_action \<Rightarrow> audit_event \<Rightarrow> bool" where
  "mints cfg body a ev \<longleftrightarrow>
     sc_auth_enabled cfg \<and>
     (\<exists>t. decode_body body = Inr (st_grant_id t) \<and> a = Minted t \<and>
        st_expires_at t = st_created_at t + dur_mult (sc_session_ttl_minutes cfg) minute \<and>
        ev_event ev = ''auth_session_minted'' \<and> ev_agent_id ev = st_agent_id t)"

definition revokes :: "server_config \<Rightarrow> http_request \<Rightarrow> auth_action \<Rightarrow> audit_event \<Rightarrow> bool" where
  "revokes cfg rq a ev \<longleftrightarrow>
     sc_auth_enabled cfg \<and> operator_caller cfg rq \<and>
     (\<exists>gid tok. a = Revoked gid tok \<and> ev_event ev = ''auth_revoked'' \<and>
        ev_actor_type ev = ''operator'')"

lemma handle_bootstrap_outcome:
  assumes ok: "daemon_ok d" and fresh: "ids_fresh od d"
  shows "auth_handled d (bootstraps cfg rq) (handle_auth_bootstrap_create cfg od rq body d)"
  unfolding handle_auth_bootstrap_create_def
proof (rule checked_auth [OF require_operator_spec])
  fix r :: http_response and d1 assume "same_stores od d d1" and "rs_status r \<noteq> 200"
  then show "auth_handled d (bootstraps cfg rq) (r, d1)"
    by (intro auth_handled_keeps stores_keeps [OF ok])
next
  fix actor :: actor and d1
  assume s: "same_stores od d d1" and actor: "operator_caller cfg rq \<and> fst actor = ''operator''"
    and en: "sc_auth_enabled cfg" and op: "\<not> dm_closed d1"
  note k = stores_keeps [OF ok s] and ok1 = daemon_ok_stores [OF ok s]
  have fr: "go_get (as_bootstrap (al_get (auth_lifecycle_svc cfg od) d1))
      (fst (al_new_bootstrap_tok (auth_lifecycle_svc cfg od) z)) = None"
    if "auth_steady (auth_lifecycle_svc cfg od) (the_frame od d1) dm_trail d1 z" for z
    using that ids_fresh_stores [OF fresh s]
    by (auto simp: auth_steady_def frame_iff ids_fresh_def token_value Let_def)
  show "auth_handled d (bootstraps cfg rq)
      (case decode_body body of
         Inl e \<Rightarrow> (bad_request (err_msg e), d1)
       | Inr req \<Rightarrow>
           (case create_bootstrap (auth_lifecycle_svc cfg od) (bc_agent_id req)
                   (bc_container_id req) (fst actor) (snd actor) d1 of
              (Inl e, d) \<Rightarrow>
                (if gate_error e then (auth_unavailable, d) else (bad_request (err_msg e), d))
            | (Inr t, d) \<Rightarrow>
                (write_json [(''bootstrap_token'', JString (bt_token t)),
                   (''expires_at'', JTime (bt_expires_at t))], d)))"
  proof (cases "decode_body body")
    case (Inr req)
    obtain x d2 where r: "create_bootstrap (auth_lifecycle_svc cfg od) (bc_agent_id req)
        (bc_container_id req) (fst actor) (snd actor) d1 = (x, d2)" by fastforce
    note spec = ad.create_bootstrap_refines [OF frame_refl [unfolded the_frame_def] fr [unfolded the_frame_def],
      where agent = "bc_agent_id req" and container = "bc_container_id req" and actor_type = "fst actor"
        and actor_id = "snd actor", folded the_frame_def, unfolded r]
    show ?thesis
    proof (cases x)
      case (Inl e)
      with spec have "same_stores od d1 d2" by (simp add: auth_outcome_Inl)
      with ok1 k have "keeps d d2" by (auto intro: keeps_trans stores_keeps)
      with Inr r Inl show ?thesis by (simp add: auth_handled_keeps)
    next
      case t: (Inr t)
      obtain ev where "auth_stepped d1 (Bootstrapped t) ev d2" and "bootstraps cfg rq (Bootstrapped t) ev"
        by (rule auth_outcome_Inr [OF spec [unfolded t] ok1,
              where a = "Bootstrapped t" and P = "\<lambda>_. bootstraps cfg rq (Bootstrapped t)"])
          (use actor en in \<open>auto simp: bootstraps_def\<close>)
      with Inr r t k same_stores_open [OF s op] show ?thesis by (auto intro: auth_handled_step)
    qed
  qed (simp add: auth_handled_keeps k)
qed

lemma record_failure_keeps:
  assumes "keeps d d1" and "same_stores od d1 d2"
  shows "keeps d (record_auth_failure od rq scope reason d2)"
proof -
  have "daemon_ok d1" using assms(1) by (simp add: keeps_def)
  then have "keeps d1 (record_auth_failure od rq scope reason d2)"
    by (rule stores_keeps) (rule same_stores_trans [OF assms(2) record_failure_same_stores])
  with assms(1) show ?thesis by (rule keeps_trans)
qed

lemma handle_pair_outcome:
  assumes ok: "daemon_ok d" and fresh: "ids_fresh od d"
  shows "auth_handled d (pairs cfg body) (handle_auth_pair_complete cfg od rq body d)"
  unfolding handle_auth_pair_complete_def
proof (rule limited_post_cases)
  fix r :: http_response and d1 assume "same_stores od d d1" and "rs_status r \<noteq> 200"
  then show "auth_handled d (pairs cfg body) (r, d1)"
    by (intro auth_handled_keeps stores_keeps [OF ok])
next
  fix d1 assume s: "same_stores od d d1" and en: "sc_auth_enabled cfg" and op: "\<not> dm_closed d1"
  note k = stores_keeps [OF ok s] and ok1 = daemon_ok_stores [OF ok s]
  have fr: "go_get (as_grants (al_get (auth_lifecycle_svc cfg od) d1))
      (fst (al_new_grant_id (auth_lifecycle_svc cfg od) z)) = None"
    if "the_frame od d1 z" for z
    using that ids_fresh_stores [OF fresh s]
    by (auto simp: frame_iff ids_fresh_def token_value Let_def)
  show "auth_handled d (pairs cfg body)
      (case decode_body body of
         Inl e \<Rightarrow> (bad_request (err_msg e), d1)
       | Inr req \<Rightarrow>
           (case complete_pairing (auth_lifecycle_svc cfg od) (bu_token req) (bu_container_id req) d1 of
              (Inl e, d) \<Rightarrow>
                if gate_error e then (auth_unavailable, d)
                else
                  let d = record_auth_failure od rq ''auth_pair_complete'' (err_msg e) d in
                  if err_msg e = ''token and container_id are required''
                  then (bad_request (err_msg e), d)
                  else (write_mapped_error ErrForbidden (err_msg e), d)
            | (Inr g, d) \<Rightarrow>
                (write_json [(''grant_id'', JString (pg_grant_id g)),
                   (''idle_expires_at'', JTime (pg_idle_expires_at g)),
                   (''absolute_expires_at'', JTime (pg_absolute_expires_at g))], d)))"
  proof (cases "decode_body body")
    case (Inr req)
    obtain x d2 where r: "complete_pairing (auth_lifecycle_svc cfg od) (bu_token req)
        (bu_container_id req) d1 = (x, d2)" by fastforce
    note spec = ad.complete_pairing_refines [OF frame_refl [unfolded the_frame_def]
        fr [unfolded the_frame_def],
      where tok = "bu_token req" and container = "bu_container_id req", folded the_frame_def, unfolded r]
    show ?thesis
    proof (cases x)
      case (Inl e)
      with spec have s2: "same_stores od d1 d2" by (simp add: auth_outcome_Inl)
      have "keeps d d2" by (rule keeps_trans [OF k stores_keeps [OF ok1 s2]])
      with Inr r Inl record_failure_keeps [OF k s2] show ?thesis
        by (simp add: auth_handled_keeps Let_def)
    next
      case g: (Inr g)
      obtain ev where "auth_stepped d1 (Paired (bu_token req) g) ev d2"
          and "pairs cfg body (Paired (bu_token req) g) ev"
        by (rule auth_outcome_Inr [OF spec [unfolded g] ok1, where a = "Paired (bu_token req) g"
              and P = "\<lambda>_. pairs cfg body (Paired (bu_token req) g)"])
          (use Inr en in \<open>auto simp: pairs_def\<close>)
      with Inr r g k same_stores_open [OF s op] show ?thesis by (auto intro: auth_handled_step)
    qed
  qed (simp add: auth_handled_keeps k)
qed

lemma handle_mint_outcome:
  assumes ok: "daemon_ok d" and fresh: "ids_fresh od d"
  shows "auth_handled d (mints cfg body) (handle_auth_session_mint cfg od rq body d)"
  unfolding handle_auth_session_mint_def
proof (rule limited_post_cases)
  fix r :: http_response and d1 assume "same_stores od d d1" and "rs_status r \<noteq> 200"
  then show "auth_handled d (mints cfg body) (r, d1)"
    by (intro auth_handled_keeps stores_keeps [OF ok])
next
  fix d1 assume s: "same_stores od d d1" and en: "sc_auth_enabled cfg" and op: "\<not> dm_closed d1"
  note k = stores_keeps [OF ok s] and ok1 = daemon_ok_stores [OF ok s]
  have fr: "go_get (as_sessions (al_get (auth_lifecycle_svc cfg od) d1))
      (fst (al_new_session_tok (auth_lifecycle_svc cfg od) z)) = None"
    if "the_frame od d1 z" for z
    using that ids_fresh_stores [OF fresh s]
    by (auto simp: frame_iff ids_fresh_def token_value Let_def)
  have key: "pg_grant_id g = i" if "go_get (as_grants (al_get (auth_lifecycle_svc cfg od) d1)) i = Some g" for i g
    using that ok1 by (auto simp: daemon_ok_def auth_ok_def keyed_get)
  show "auth_handled d (mints cfg body)
      (case decode_body body of
         Inl e \<Rightarrow> (bad_request (err_msg e), d1)
       | Inr grant_id \<Rightarrow>
           (case mint_session (auth_lifecycle_svc cfg od) grant_id d1 of
              (Inl e, d) \<Rightarrow>
                if gate_error e then (auth_unavailable, d)
                else
                  let d = record_auth_failure od rq ''auth_session_mint'' (err_msg e) d in
                  if err_msg e = ''grant not found''
                  then (write_mapped_error ErrNotFound (err_msg e), d)
                  else if err_msg e = ''grant expired or revoked''
                  then (write_mapped_error ErrForbidden (err_msg e), d)
                  else (bad_request (err_msg e), d)
            | (Inr st, d) \<Rightarrow>
                (write_json [(''session_token'', JString (st_token st)),
                   (''expires_at'', JTime (st_expires_at st))], d)))"
  proof (cases "decode_body body")
    case (Inr gid)
    obtain x d2 where r: "mint_session (auth_lifecycle_svc cfg od) gid d1 = (x, d2)" by fastforce
    note spec = ad.mint_session_refines [OF frame_refl [unfolded the_frame_def]
        fr [unfolded the_frame_def] key,
      where gid = gid, folded the_frame_def, unfolded r]
    show ?thesis
    proof (cases x)
      case (Inl e)
      with spec have s2: "same_stores od d1 d2" by (simp add: auth_outcome_Inl)
      have "keeps d d2" by (rule keeps_trans [OF k stores_keeps [OF ok1 s2]])
      with Inr r Inl record_failure_keeps [OF k s2] show ?thesis
        by (simp add: auth_handled_keeps Let_def)
    next
      case t: (Inr t)
      obtain ev where "auth_stepped d1 (Minted t) ev d2" and "mints cfg body (Minted t) ev"
        by (rule auth_outcome_Inr [OF spec [unfolded t] ok1, where a = "Minted t"
              and P = "\<lambda>_. mints cfg body (Minted t)"])
          (use Inr en in \<open>auto simp: mints_def\<close>)
      with Inr r t k same_stores_open [OF s op] show ?thesis by (auto intro: auth_handled_step)
    qed
  qed (simp add: auth_handled_keeps k)
qed

lemma handle_revoke_outcome:
  assumes ok: "daemon_ok d"
  shows "auth_handled d (revokes cfg rq) (handle_auth_revoke cfg od rq body d)"
  unfolding handle_auth_revoke_def
proof (rule checked_auth [OF require_operator_spec])
  fix r :: http_response and d1 assume "same_stores od d d1" and "rs_status r \<noteq> 200"
  then show "auth_handled d (revokes cfg rq) (r, d1)"
    by (intro auth_handled_keeps stores_keeps [OF ok])
next
  fix actor :: actor and d1
  assume s: "same_stores od d d1" and actor: "operator_caller cfg rq \<and> fst actor = ''operator''"
    and en: "sc_auth_enabled cfg" and op: "\<not> dm_closed d1"
  note k = stores_keeps [OF ok s] and ok1 = daemon_ok_stores [OF ok s]
  have service: "auth_handled d (revokes cfg rq)
      (case revoke_auth (auth_lifecycle_svc cfg od) gid tok (fst actor) (snd actor) d1 of
         (Some e, d) \<Rightarrow>
           if gate_error e then (auth_unavailable, d)
           else if err_msg e = ''grant_id or session_token is required''
           then (bad_request (err_msg e), d)
           else (write_mapped_error ErrNotFound (err_msg e), d)
       | (None, d) \<Rightarrow> (write_json v, d))" for gid tok v
  proof -
    obtain x d2 where r: "revoke_auth (auth_lifecycle_svc cfg od) gid tok (fst actor) (snd actor) d1
        = (x, d2)" by fastforce
    note spec = ad.revoke_auth_refines [OF frame_refl [of od d1, unfolded the_frame_def],
      where gid = gid and tok = tok and actor_type = "fst actor" and actor_id = "snd actor" and cfg = cfg,
      folded the_frame_def, unfolded as_sum_def r prod.case]
    show ?thesis
    proof (cases x)
      case (Some e)
      with spec have "same_stores od d1 d2" by (simp add: auth_outcome_Inl)
      with ok1 k have "keeps d d2" by (auto intro: keeps_trans stores_keeps)
      with r Some show ?thesis by (simp add: auth_handled_keeps)
    next
      case None
      let ?a = "Revoked (if trim_space gid = '''' then '''' else gid) (if trim_space tok = '''' then '''' else tok)"
      obtain ev where "auth_stepped d1 ?a ev d2" and "revokes cfg rq ?a ev"
        by (rule auth_outcome_Inr [OF spec [unfolded None option.case] ok1,
              where a = ?a and P = "\<lambda>_. revokes cfg rq ?a"])
          (use actor en in \<open>auto simp: revokes_def\<close>)
      with r None k same_stores_open [OF s op] show ?thesis by (auto intro: auth_handled_step)
    qed
  qed
  show "auth_handled d (revokes cfg rq)
      (case decode_body body of
         Inl e \<Rightarrow> (bad_request (err_msg e), d1)
       | Inr req \<Rightarrow>
           let session_token = (if rv_session_token req = '''' then rv_session_id req
                                else rv_session_token req)
           in (case revoke_auth (auth_lifecycle_svc cfg od) (rv_grant_id req) session_token
                      (fst actor) (snd actor) d1 of
                 (Some e, d) \<Rightarrow>
                   if gate_error e then (auth_unavailable, d)
                   else if err_msg e = ''grant_id or session_token is required''
                   then (bad_request (err_msg e), d)
                   else (write_mapped_error ErrNotFound (err_msg e), d)
               | (None, d) \<Rightarrow> (write_json [(''status'', JString ''revoked'')], d)))"
    unfolding Let_def using service k by (cases "decode_body body") (simp_all add: auth_handled_keeps)
qed

section \<open>The cleanup\<close>


lemma cleanup_nothing:
  assumes "cleanup_expired now s = ((0, 0, 0), s')" shows "s' = s"
proof -
  have f: "filter (\<lambda>(k, t). \<not> P t) xs = xs" if "filter (\<lambda>(k, t). P t) xs = []"
    for P :: "'v \<Rightarrow> bool" and xs :: "(string \<times> 'v) list"
    using that by (auto simp: filter_empty_conv filter_id_conv)
  have m: "map (\<lambda>(k, g). (k, if lapsed_grant now g then g\<lparr>pg_revoked := True\<rparr> else g)) xs = xs"
    if "filter (\<lambda>(k, g). lapsed_grant now g) xs = []" for xs :: "(string \<times> pairing_grant) list"
    using that by (intro map_idI) (auto simp: filter_empty_conv)
  show ?thesis using assms by (auto simp: cleanup_expired_def f m)
qed

definition cleans :: "auth_action \<Rightarrow> audit_event \<Rightarrow> bool" where
  "cleans a ev \<longleftrightarrow> (\<exists>now. a = Cleaned now) \<and> ev_event ev = ''auth_cleanup''"

lemma undo_cleanup_keeps:
  assumes "daemon_ok d" and "daemon_book d1 = daemon_book d" and "wf_mem (dm_store d1)"
    and "prefix (dm_trail d) (dm_trail d1)" and "gate_kept d d1"
  shows "keeps d (snd (undo_cleanup cfg od (dm_auth d) err d1))"
proof -
  let ?d = "d1\<lparr>dm_auth := dm_auth d\<rparr>"
  have "keeps d ?d" using assms by (simp add: keeps_def daemon_book_def daemon_ok_def gate_kept_def)
  moreover from this have "keeps ?d (snd (persist_auth_store cfg od ?d))"
    by (intro stores_keeps [OF _ same_books_stores [OF same_books_persist_auth]]) (simp add: keeps_def)
  ultimately have "keeps d (snd (persist_auth_store cfg od ?d))" by (rule keeps_trans)
  then show ?thesis
    by (simp add: undo_cleanup_def Let_def case_prod_beta split: option.split)
qed

lemma server_audit_same_stores: "same_stores od d (snd (server_audit_critical od ev d))"
  using same_books_audit [of od d ev] same_books_trans [OF same_books_audit same_books_close]
  by (intro same_books_stores) (auto simp: server_audit_critical_def case_prod_beta split: option.split)

text \<open>A pass that removes nothing changes nothing; one that fails puts the store back.\<close>

lemma cleanup_pass_outcome:
  assumes ok: "daemon_ok d"
  shows "keeps d (snd (run_auth_cleanup_pass cfg od d)) \<or>
    (\<exists>a ev. cleans a ev \<and> auth_stepped d a ev (snd (run_auth_cleanup_pass cfg od d)))"
proof -
  obtain now d1 where n: "on_env (od_now od) d = (now, d1)" by fastforce
  have s1: "same_stores od d d1" using same_stores_now [of od d] n by simp
  have a1: "dm_auth d1 = dm_auth d" "daemon_book d1 = daemon_book d" "wf_mem (dm_store d1)"
    using s1 ok by (simp_all add: same_stores_def daemon_book_def daemon_ok_def)
  obtain rb rs rg st where c: "cleanup_expired now (dm_auth d) = ((rb, rs, rg), st)"
    by (metis prod.collapse)
  let ?d2 = "d1\<lparr>dm_auth := st\<rparr>"
  note run = run_auth_cleanup_pass_def Let_def n prod.case a1 c
  show ?thesis
  proof (cases "rb + rs + rg = 0")
    case True
    with c cleanup_nothing [of now "dm_auth d" st] have "st = dm_auth d" by simp
    with a1(1) have "d1\<lparr>dm_auth := st\<rparr> = d1" by (cases d1) simp
    with True have "snd (run_auth_cleanup_pass cfg od d) = d1" by (simp add: run)
    with stores_keeps [OF ok s1] show ?thesis by simp
  next
    case False
    obtain x d3 where p: "persist_auth_store cfg od ?d2 = (x, d3)" by fastforce
    have s3: "same_stores od ?d2 d3"
      using same_books_stores [OF same_books_persist_auth, of od ?d2 cfg] p by simp
    have undo: "keeps d (snd (undo_cleanup cfg od (dm_auth d) err z))" if "same_stores od ?d2 z" for err z
      using that a1 s1
      by (intro undo_cleanup_keeps [OF ok])
        (auto simp: same_stores_def daemon_book_def gate_kept_def)
    show ?thesis
    proof (cases x)
      case (Some err)
      with False p undo [OF s3] show ?thesis by (auto simp: run)
    next
      case None
      obtain t d4 where n4: "on_env (od_now od) d3 = (t, d4)" by fastforce
      have s4: "same_stores od ?d2 d4" using same_stores_trans [OF s3 same_stores_now] n4 by (metis snd_conv)
      let ?ev = "zero_event\<lparr>ev_event := ''auth_cleanup'', ev_timestamp := t,
        ev_actor_type := ''system'', ev_actor_id := ''promptlockd'',
        ev_metadata := [(''removed_bootstrap'', show_nat rb),
          (''removed_sessions'', show_nat rs), (''revoked_grants'', show_nat rg)]\<rparr>"
      obtain y d5 where w: "server_audit_critical od ?ev d4 = (y, d5)" by fastforce
      show ?thesis
      proof (cases y)
        case (Some err)
        have "same_stores od d4 d5"
          using server_audit_same_stores [of od d4 ?ev] w by simp
        with s4 have "same_stores od ?d2 d5" by (rule same_stores_trans)
        from undo [OF this] False p None n4 w Some show ?thesis by (auto simp: run)
      next
        case y: None
        then have a: "daemon_audit od ?ev d4 = (None, d5)"
          using w by (auto simp: server_audit_critical_def split: prod.splits option.splits)
        note A = daemon_audit_ok [OF a]
        have s5: "same_stores od ?d2 d5" by (rule same_stores_trans [OF s4 same_books_stores [OF A(1)]])
        have st: "st = snd (cleanup_expired now (dm_auth d))" using c by simp
        have step: "auth_step (dm_auth d) (Cleaned now) st" unfolding st by (rule auth_step.cleaned)
        have "prefix (dm_trail d) (dm_trail d4)" "gate_kept d d5"
          using s1 s4 s5 by (auto simp: same_stores_def gate_kept_def)
        with A(2) have "noted d d5 ?ev" "prefix (dm_trail d) (dm_trail d5)"
          by (auto simp: noted_def prefix_def)
        moreover have "daemon_ok d5" "daemon_book d5 = daemon_book d" "dm_auth d5 = st"
          using s5 a1 ok auth_ok_step [OF step]
          by (auto simp: same_stores_def daemon_ok_def daemon_book_def)
        ultimately have "auth_stepped d (Cleaned now) ?ev d5"
          using step \<open>gate_kept d d5\<close> by (simp add: auth_stepped_def)
        moreover have "snd (run_auth_cleanup_pass cfg od d) = d5"
          using False p None n4 w y by (auto simp: run)
        moreover have "cleans (Cleaned now) ?ev" by (simp add: cleans_def)
        ultimately show ?thesis by blast
      qed
    qed
  qed
qed

end
