(* ===== verification/ServerRun.thy ===== *)
theory ServerRun
  imports ServerExec ServerAuth
begin

text \<open>
  The whole daemon: every answer of every listener, and every run. An answer keeps requests,
  leases and credentials, or takes one step of the book of leases or of the auth store that the
  call and its caller may take; so a run reaches only books and auth stores that the two
  specifications allow.
\<close>

section \<open>What a call may do\<close>

fun may_lease ::
  "server_config \<Rightarrow> 'e daemon \<Rightarrow> call \<Rightarrow> lease_action \<Rightarrow> (int \<Rightarrow> audit_event) \<Rightarrow> bool" where
  "may_lease cfg d (LeaseRequestCall rq b) a ev \<longleftrightarrow> requests cfg d rq a ev"
| "may_lease cfg d (ApproveCall rq b) a ev \<longleftrightarrow> approves cfg rq a ev"
| "may_lease cfg d (DenyCall rq b) a ev \<longleftrightarrow> denies cfg rq a ev"
| "may_lease cfg d (CancelCall rq b) a ev \<longleftrightarrow> withdraws cfg d rq a ev"
| "may_lease cfg d c a ev \<longleftrightarrow> False"

fun may_auth :: "server_config \<Rightarrow> call \<Rightarrow> auth_action \<Rightarrow> audit_event \<Rightarrow> bool" where
  "may_auth cfg (BootstrapCreateCall rq b) a ev \<longleftrightarrow> bootstraps cfg rq a ev"
| "may_auth cfg (PairCompleteCall rq b) a ev \<longleftrightarrow> pairs cfg b a ev"
| "may_auth cfg (SessionMintCall rq b) a ev \<longleftrightarrow> mints cfg b a ev"
| "may_auth cfg (RevokeCall rq b) a ev \<longleftrightarrow> revokes cfg rq a ev"
| "may_auth cfg c a ev \<longleftrightarrow> False"

lemma may_lease_eta:
  "may_lease cfg d (LeaseRequestCall rq lb) = requests cfg d rq"
  "may_lease cfg d (ApproveCall rq ib) = approves cfg rq"
  "may_lease cfg d (DenyCall rq sb) = denies cfg rq"
  "may_lease cfg d (CancelCall rq sb) = withdraws cfg d rq"
  by (simp_all add: fun_eq_iff)

lemma may_auth_eta:
  "may_auth cfg (BootstrapCreateCall rq bb) = bootstraps cfg rq"
  "may_auth cfg (PairCompleteCall rq pb) = pairs cfg pb"
  "may_auth cfg (SessionMintCall rq sb) = mints cfg sb"
  "may_auth cfg (RevokeCall rq rb) = revokes cfg rq"
  by (simp_all add: fun_eq_iff)

definition served ::
  "'e server_setup \<Rightarrow> listener \<Rightarrow> call \<Rightarrow> 'e daemon \<Rightarrow> http_response \<times> 'e daemon \<Rightarrow> bool" where
  "served u l c d r \<longleftrightarrow>
     keeps d (snd r) \<or>
     (rs_status (fst r) = 200 \<and> \<not> dm_closed d \<and> call_path c \<in> set (listener_routes l) \<and>
      ((\<exists>a ev. may_lease (st_config u) d c a ev \<and> stepped (sc_policy (st_config u)) d a ev (snd r)) \<or>
       (\<exists>a ev. may_auth (st_config u) c a ev \<and> auth_stepped d a ev (snd r))))"

section \<open>The closed gate\<close>

lemma closed_checked:
  assumes "let_through od d ok who" and "dm_closed d" and "daemon_ok d"
  shows "rs_status (fst (checked_method who rq m (\<lambda>actor. when_durable (answer actor)))) \<noteq> 200 \<and>
    keeps d (snd (checked_method who rq m (\<lambda>actor. when_durable (answer actor))))"
proof (rule checked_cases [OF assms(1), of rq m])
  fix actor d1 assume "same_stores od d d1" "\<not> dm_closed d1"
  with assms(2) same_stores_open show ?thesis by blast
qed (use stores_keeps [OF assms(3)] in auto)

fun ungated :: "call \<Rightarrow> bool" where
  "ungated (CapabilitiesCall rq) \<longleftrightarrow> True"
| "ungated (ResolveIntentCall rq b) \<longleftrightarrow> True"
| "ungated c \<longleftrightarrow> False"

lemma auth_handled_closed:
  "auth_handled d good r \<Longrightarrow> dm_closed d \<Longrightarrow> rs_status (fst r) \<noteq> 200 \<and> keeps d (snd r)"
  by (auto simp: auth_handled_def)

lemma auth_handler_closed:
  assumes "daemon_ok d" and "dm_closed d"
  shows "rs_status (fst (handle_auth_bootstrap_create cfg od rq b d)) \<noteq> 200 \<and>
      keeps d (snd (handle_auth_bootstrap_create cfg od rq b d))"
    and "rs_status (fst (handle_auth_pair_complete cfg od rq p d)) \<noteq> 200 \<and>
      keeps d (snd (handle_auth_pair_complete cfg od rq p d))"
    and "rs_status (fst (handle_auth_session_mint cfg od rq g d)) \<noteq> 200 \<and>
      keeps d (snd (handle_auth_session_mint cfg od rq g d))"
    and "rs_status (fst (handle_auth_revoke cfg od rq v d)) \<noteq> 200 \<and>
      keeps d (snd (handle_auth_revoke cfg od rq v d))"
proof -
  let ?Q = "\<lambda>r. rs_status (fst r) \<noteq> 200 \<and> keeps d (snd r)"
  note k = stores_keeps [OF assms(1)]
  have op: "dm_closed d1" if "same_stores od d d1" for d1
    using that assms(2) same_stores_open by blast
  show "?Q (handle_auth_bootstrap_create cfg od rq b d)"
    unfolding handle_auth_bootstrap_create_def
    by (rule checked_auth [OF require_operator_spec]) (use k op assms(2) in auto)
  show "?Q (handle_auth_pair_complete cfg od rq p d)"
    unfolding handle_auth_pair_complete_def
    by (rule limited_post_cases) (use k op assms(2) in auto)
  show "?Q (handle_auth_session_mint cfg od rq g d)"
    unfolding handle_auth_session_mint_def
    by (rule limited_post_cases) (use k op assms(2) in auto)
  show "?Q (handle_auth_revoke cfg od rq v d)"
    unfolding handle_auth_revoke_def
    by (rule checked_auth [OF require_operator_spec]) (use k op assms(2) in auto)
qed

lemma handle_closed:
  assumes "daemon_ok d" and "dm_closed d" and "\<not> ungated c"
  shows "rs_status (fst (handle u c d)) \<noteq> 200 \<and> keeps d (snd (handle u c d))"
  using assms(3) auth_handler_closed [OF assms(1,2)]
    closed_checked [OF require_agent_session_spec assms(2,1)]
    closed_checked [OF require_operator_spec assms(2,1)]
  by (cases c)
    (simp_all add: handle_request_status_def handle_request_def handle_approve_def handle_deny_def
      handle_cancel_def handle_access_def handle_execute_def handle_pending_requests_def
      handle_lease_by_request_def handle_host_docker_execute_def)

section \<open>Every answer\<close>

lemma lease_outcome_served:
  assumes "daemon_ok d" and "lease_outcome (st_config u) d (may_lease (st_config u) d c) (handle u c d)"
    and "\<not> ungated c" and "call_path c \<in> set (listener_routes l)"
  shows "served u l c d (handle u c d)"
  using assms handle_closed [OF assms(1) _ assms(3), of u]
  by (auto simp: lease_outcome_def served_def)

lemma auth_outcome_served:
  assumes "auth_handled d (may_auth (st_config u) c) (handle u c d)"
    and "call_path c \<in> set (listener_routes l)"
  shows "served u l c d (handle u c d)"
  using assms by (auto simp: auth_handled_def served_def)

lemma handle_served:
  assumes ok: "daemon_ok d" and fresh: "ids_fresh (st_outside u) d"
    and l: "call_path c \<in> set (listener_routes l)"
  shows "served u l c d (handle u c d)"
proof (cases c)
  case (LeaseRequestCall rq b)
  show ?thesis
    by (rule lease_outcome_served [OF ok _ _ l])
      (use handle_request_outcome [OF ok fresh] in \<open>simp_all add: LeaseRequestCall may_lease_eta decided_def\<close>)
next
  case (ApproveCall rq b)
  show ?thesis
    by (rule lease_outcome_served [OF ok _ _ l])
      (use handle_approve_outcome [OF ok fresh] in \<open>simp_all add: ApproveCall may_lease_eta decided_def\<close>)
next
  case (DenyCall rq b)
  show ?thesis
    by (rule lease_outcome_served [OF ok _ _ l])
      (use handle_deny_outcome [OF ok] in \<open>simp_all add: DenyCall may_lease_eta decided_def\<close>)
next
  case (CancelCall rq b)
  show ?thesis
    by (rule lease_outcome_served [OF ok _ _ l])
      (use handle_cancel_outcome [OF ok] in \<open>simp_all add: CancelCall may_lease_eta decided_def\<close>)
next
  case (BootstrapCreateCall rq b)
  show ?thesis
    by (rule auth_outcome_served [OF _ l])
      (use handle_bootstrap_outcome [OF ok fresh] in \<open>simp add: BootstrapCreateCall may_auth_eta\<close>)
next
  case (PairCompleteCall rq b)
  show ?thesis
    by (rule auth_outcome_served [OF _ l])
      (use handle_pair_outcome [OF ok fresh] in \<open>simp add: PairCompleteCall may_auth_eta\<close>)
next
  case (SessionMintCall rq b)
  show ?thesis
    by (rule auth_outcome_served [OF _ l])
      (use handle_mint_outcome [OF ok fresh] in \<open>simp add: SessionMintCall may_auth_eta\<close>)
next
  case (RevokeCall rq b)
  show ?thesis
    by (rule auth_outcome_served [OF _ l])
      (use handle_revoke_outcome [OF ok] in \<open>simp add: RevokeCall may_auth_eta\<close>)
next
  case (AccessCall rq b)
  show ?thesis
    using handle_access_outcome [OF ok, of "st_config u" "st_outside u" rq b]
    by (simp add: AccessCall served_def access_outcome_def)
next
  case (ExecuteCall rq b)
  show ?thesis
    using handle_execute_outcome [OF ok, of "st_config u" "st_outside u" "st_exec u" rq b]
    by (simp add: ExecuteCall served_def execute_outcome_def)
next
  case (DockerCall rq b)
  show ?thesis
    using handle_docker_outcome [OF ok, of "st_config u" "st_outside u" "st_exec u" rq b]
    by (simp add: DockerCall served_def docker_outcome_def)
qed (simp_all add: served_def keeps_refl ok handle_request_status_keeps
    handle_pending_requests_keeps handle_lease_by_request_keeps handle_resolve_intent_keeps)

lemma serve_served:
  assumes "daemon_ok d" and "ids_fresh (st_outside u) d"
  shows "served u l c d (serve u l c d)"
  using handle_served [OF assms] by (simp add: serve_def served_def keeps_refl assms(1))

section \<open>Runs\<close>

text \<open>
  A run of the daemon: events, between which the outside may become anything, as long as the
  random identifiers drawn for an event are new.
\<close>

inductive daemon_run :: "'e server_setup \<Rightarrow> 'e daemon \<Rightarrow> event list \<Rightarrow> 'e daemon \<Rightarrow> bool" for u d0 where
  started: "daemon_run u d0 [] d0"
| elapsed: "daemon_run u d0 es d \<Longrightarrow> daemon_run u d0 es (d\<lparr>dm_env := e\<rparr>)"
| reacted: "daemon_run u d0 es d \<Longrightarrow> ids_fresh (st_outside u) d \<Longrightarrow>
    daemon_run u d0 (es @ [ev]) (react u ev d)"

text \<open>Everything a step of a run can do.\<close>

definition moved :: "'e server_setup \<Rightarrow> 'e daemon \<Rightarrow> 'e daemon \<Rightarrow> bool" where
  "moved u d d' \<longleftrightarrow>
     keeps d d' \<or>
     (\<exists>l c a ev. call_path c \<in> set (listener_routes l) \<and> may_lease (st_config u) d c a ev \<and>
        stepped (sc_policy (st_config u)) d a ev d') \<or>
     (\<exists>a ev. auth_stepped d a ev d')"

lemma react_moved:
  assumes "daemon_ok d" and "ids_fresh (st_outside u) d"
  shows "moved u d (react u ev d)"
proof (cases ev)
  case (Called l c)
  with serve_served [OF assms, of l c] show ?thesis by (auto simp: served_def moved_def)
next
  case CleanupTick
  with cleanup_pass_outcome [OF assms(1), of "st_config u" "st_outside u"] show ?thesis
    by (auto simp: moved_def)
qed

lemma moved_ok: "moved u d d' \<Longrightarrow> daemon_ok d'"
  by (auto simp: moved_def keeps_def stepped_def auth_stepped_def)

lemma run_ok:
  assumes "daemon_run u d es d'" and "daemon_ok d" shows "daemon_ok d'"
  using assms
proof (induction rule: daemon_run.induct)
  case (reacted es d' ev)
  then show ?case using moved_ok [OF react_moved] by blast
qed (simp_all add: daemon_ok_def)

text \<open>Induction over runs, with what each step may do at hand.\<close>

lemma run_induct [consumes 2, case_names started elapsed moved]:
  assumes "daemon_run u d0 es d" and "daemon_ok d0"
    and "P d0"
    and "\<And>d e. daemon_ok d \<Longrightarrow> P d \<Longrightarrow> P (d\<lparr>dm_env := e\<rparr>)"
    and "\<And>d d'. daemon_ok d \<Longrightarrow> P d \<Longrightarrow> moved u d d' \<Longrightarrow> P d'"
  shows "P d"
  using assms(1)
proof (induction rule: daemon_run.induct)
  case (elapsed es d e)
  then show ?case using assms(4) run_ok [OF elapsed(1) assms(2)] by blast
next
  case (reacted es d ev)
  then show ?case using assms(5) run_ok [OF reacted(1) assms(2)] react_moved by blast
qed (rule assms(3))

lemma moved_book:
  "moved u d d' \<Longrightarrow> daemon_book d' = daemon_book d \<or>
     (\<exists>a. lease_step (sc_policy (st_config u)) (daemon_book d) a (daemon_book d'))"
  by (auto simp: moved_def keeps_def stepped_def auth_stepped_def)

lemma moved_auth:
  "moved u d d' \<Longrightarrow> dm_auth d' = dm_auth d \<or> (\<exists>a. auth_step (dm_auth d) a (dm_auth d'))"
  by (auto simp: moved_def keeps_def stepped_def auth_stepped_def)

lemma moved_trail: "moved u d d' \<Longrightarrow> prefix (dm_trail d) (dm_trail d') \<and> gate_kept d d'"
  by (auto simp: moved_def keeps_def stepped_def auth_stepped_def)

lemma daemon_book_env [simp]: "daemon_book (d\<lparr>dm_env := e\<rparr>) = daemon_book d"
  by (simp add: daemon_book_def)

text \<open>The daemon before its first event.\<close>

definition starts_empty :: "'e daemon \<Rightarrow> bool" where
  "starts_empty d \<longleftrightarrow>
     daemon_book d = (\<lambda>_. None, \<lambda>_. None) \<and> wf_mem (dm_store d) \<and> dm_auth d = new_auth_store \<and>
     \<not> dm_closed d"

lemma empty_ok: "starts_empty d \<Longrightarrow> daemon_ok d"
  by (simp add: starts_empty_def daemon_ok_def auth_ok_new)

lemma run_book:
  assumes "daemon_run u d0 es d" and "starts_empty d0"
  shows "reachable_book (sc_policy (st_config u)) (daemon_book d)"
  using assms(1) empty_ok [OF assms(2)]
proof (induction rule: run_induct)
  case started
  then show ?case using assms(2) by (simp add: starts_empty_def reachable_book.init)
next
  case (moved d d')
  then show ?case using moved_book reachable_book.step by metis
qed simp

lemma run_auth:
  assumes "daemon_run u d0 es d" and "starts_empty d0"
  shows "\<exists>as. auth_run new_auth_store as (dm_auth d)"
  using assms(1) empty_ok [OF assms(2)]
proof (induction rule: run_induct)
  case started
  then show ?case using assms(2) auth_run.nil by (fastforce simp: starts_empty_def)
next
  case (moved d d')
  then show ?case using moved_auth auth_run.snoc by metis
qed simp

lemma run_final:
  assumes "daemon_run u d0 es d" and "daemon_ok d0"
  shows "extends (daemon_book d0) (daemon_book d) \<and> grants_kept (dm_auth d0) (dm_auth d) \<and>
    prefix (dm_trail d0) (dm_trail d) \<and> gate_kept d0 d"
  using assms
proof (induction rule: run_induct)
  case (moved d d')
  have "extends (daemon_book d) (daemon_book d')" using moved_book [OF moved(2)] step_extends by fastforce
  moreover have "grants_kept (dm_auth d) (dm_auth d')"
    using moved_auth [OF moved(2)] grants_kept_step moved(1) by (fastforce simp: daemon_ok_def)
  ultimately show ?case
    using moved(3) moved_trail [OF moved(2)]
    by (auto intro: extends_trans grants_kept_trans gate_kept_trans)
qed (simp_all add: gate_kept_def)

text \<open>No lease without an operator's approval on the trail.\<close>

definition approved_on_trail :: "'e daemon \<Rightarrow> lease \<Rightarrow> bool" where
  "approved_on_trail d l \<longleftrightarrow>
     (\<exists>who r t. req_id r = lease_request_id l \<and> approved_event ''operator'' who r l t \<in> set (dm_trail d))"

lemma approved_later: "approved_on_trail d l \<Longrightarrow> prefix (dm_trail d) (dm_trail d') \<Longrightarrow> approved_on_trail d' l"
  using set_mono_prefix [of "dm_trail d" "dm_trail d'"] unfolding approved_on_trail_def by blast

lemma new_lease_approved:
  assumes "moved u d d'" and "snd (daemon_book d') tok = Some l" and "snd (daemon_book d) tok \<noteq> Some l"
  shows "approved_on_trail d' l"
proof -
  have "daemon_book d' \<noteq> daemon_book d" using assms(2,3) by auto
  then obtain c a ev where m: "may_lease (st_config u) d c a ev"
      "stepped (sc_policy (st_config u)) d a ev d'"
    using assms(1) by (auto simp: moved_def keeps_def auth_stepped_def)
  have st: "lease_step (sc_policy (st_config u)) (daemon_book d) a (daemon_book d')"
    and n: "\<exists>t. noted d d' (ev t)"
    using m(2) by (simp_all add: stepped_def)
  obtain l' where a: "a = Approved l'" "l = l'"
    using st assms(2,3) by (cases rule: lease_step.cases) (auto split: if_splits)
  with m(1) have "\<exists>who r. req_id r = lease_request_id l \<and> ev = approved_event ''operator'' who r l"
    by (cases c) (auto simp: requests_def approves_def denies_def withdraws_def)
  then obtain who r where "req_id r = lease_request_id l" "ev = approved_event ''operator'' who r l"
    by blast
  with n show ?thesis
    unfolding approved_on_trail_def noted_def by (metis in_set_dropD)
qed

lemma lease_approved_later:
  assumes "moved u d d'" and "snd (daemon_book d') tok = Some l"
  shows "approved_on_trail d' l \<or>
    snd (daemon_book d) tok = Some l \<and> (approved_on_trail d l \<longrightarrow> approved_on_trail d' l)"
  using new_lease_approved [OF assms] approved_later moved_trail [OF assms(1)] by blast

lemma run_leases_approved:
  assumes "daemon_run u d0 es d" and "starts_empty d0"
  shows "\<forall>tok l. snd (daemon_book d) tok = Some l \<longrightarrow> approved_on_trail d l"
  using assms(1) empty_ok [OF assms(2)]
proof (induction rule: run_induct)
  case started
  then show ?case using assms(2) by (simp add: starts_empty_def)
next
  case (elapsed d e)
  then show ?case by (simp add: approved_on_trail_def)
next
  case (moved d d')
  then show ?case using lease_approved_later by blast
qed

section \<open>The cap on pending requests\<close>

lemma pending_decided:
  assumes "R i = Some r" and "st \<noteq> RequestPending" and "req_id r = i"
    and keys: "\<And>i r. R i = Some r \<Longrightarrow> req_id r = i"
  shows "agent_pending (R(i \<mapsto> r\<lparr>req_status := st\<rparr>), L') a \<subseteq> agent_pending (R, L) a"
  using assms by (auto simp: agent_pending_def split: if_splits)

lemma pending_submitted:
  "agent_pending (R(i \<mapsto> r), L) a \<subseteq>
     (if trim_space (req_agent_id r) = trim_space a then {r} else {}) \<union> agent_pending (R, L) a"
  by (auto simp: agent_pending_def split: if_splits)

definition within_cap :: "server_config \<Rightarrow> book \<Rightarrow> bool" where
  "within_cap cfg B \<longleftrightarrow>
     (\<forall>a. finite (agent_pending B a) \<and> int (card (agent_pending B a)) \<le> pending_cap cfg)"

lemma agent_pending_trim:
  "trim_space a = trim_space b \<Longrightarrow> agent_pending B a = agent_pending B b"
  by (simp add: agent_pending_def)

lemma within_cap_subset:
  assumes "within_cap cfg B" and "\<And>a. agent_pending B' a \<subseteq> agent_pending B a"
  shows "within_cap cfg B'"
  unfolding within_cap_def
proof (intro allI conjI)
  fix a
  have f: "finite (agent_pending B a)" and c: "int (card (agent_pending B a)) \<le> pending_cap cfg"
    using assms(1) by (simp_all add: within_cap_def)
  show "finite (agent_pending B' a)" by (rule finite_subset [OF assms(2) f])
  show "int (card (agent_pending B' a)) \<le> pending_cap cfg"
    using card_mono [OF f assms(2)] c by simp
qed

lemma within_cap_submitted:
  assumes "within_cap cfg (R, L)" and "int (card (agent_pending (R, L) (req_agent_id r))) < pending_cap cfg"
  shows "within_cap cfg (R(i \<mapsto> r), L)"
  unfolding within_cap_def
proof (intro allI conjI)
  fix a
  let ?new = "(if trim_space (req_agent_id r) = trim_space a then {r} else {}) \<union> agent_pending (R, L) a"
  have f: "finite (agent_pending (R, L) a)" and c: "int (card (agent_pending (R, L) a)) \<le> pending_cap cfg"
    using assms(1) by (simp_all add: within_cap_def)
  then have n: "finite ?new" by simp
  show "finite (agent_pending (R(i \<mapsto> r), L) a)" by (rule finite_subset [OF pending_submitted n])
  have "int (card ?new) \<le> pending_cap cfg"
  proof (cases "trim_space (req_agent_id r) = trim_space a")
    case True
    with agent_pending_trim [OF True, of "(R, L)"] assms(2)
    have "int (card (agent_pending (R, L) a)) < pending_cap cfg" by simp
    with True f show ?thesis by (simp add: card_insert_if)
  qed (use c in simp)
  with card_mono [OF n pending_submitted [of R i r L a]]
  show "int (card (agent_pending (R(i \<mapsto> r), L) a)) \<le> pending_cap cfg" by simp
qed

lemma moved_within_cap:
  assumes "daemon_ok d" and "moved u d d'" and cap: "within_cap (st_config u) (daemon_book d)"
  shows "within_cap (st_config u) (daemon_book d')"
proof (cases "daemon_book d' = daemon_book d")
  case False
  then obtain c a ev where m: "may_lease (st_config u) d c a ev"
      "lease_step (sc_policy (st_config u)) (daemon_book d) a (daemon_book d')"
    using assms(2) by (auto simp: moved_def keeps_def auth_stepped_def stepped_def)
  obtain R L where b: "daemon_book d = (R, L)" by fastforce
  have keys: "req_id r = i" if "R i = Some r" for i r
    using that assms(1) b by (auto simp: daemon_ok_def wf_mem_def daemon_book_def keyed_get)
  from m(2) show ?thesis
  proof cases
    case (submit R' r L')
    have "int (card (agent_pending (daemon_book d) (req_agent_id r))) < pending_cap (st_config u)"
      using m(1) submit(2) by (cases c) (auto simp: requests_def approves_def denies_def withdraws_def)
    with submit(1,3) cap show ?thesis by (simp add: within_cap_submitted)
  next
    case (approve R' i r L' l)
    with b keys have "agent_pending (daemon_book d') a \<subseteq> agent_pending (daemon_book d) a" for a
      using pending_decided [of R i r RequestApproved] by simp
    with cap show ?thesis by (rule within_cap_subset)
  next
    case (deny R' i r L')
    with b keys have "agent_pending (daemon_book d') a \<subseteq> agent_pending (daemon_book d) a" for a
      using pending_decided [of R i r RequestDenied] by simp
    with cap show ?thesis by (rule within_cap_subset)
  qed
qed (use cap in simp)

lemma run_within_cap:
  assumes "daemon_run u d0 es d" and "daemon_ok d0" and "within_cap (st_config u) (daemon_book d0)"
  shows "within_cap (st_config u) (daemon_book d)"
  using assms(1,2) by (induction rule: run_induct) (use assms(3) moved_within_cap in auto)

lemma run_new_lease:
  assumes "daemon_run u d0 es d" and "daemon_ok d0"
  shows "\<forall>tok l. snd (daemon_book d) tok = Some l \<longrightarrow>
    snd (daemon_book d0) tok = Some l \<or> approved_on_trail d l"
  using assms
proof (induction rule: run_induct)
  case (elapsed d e)
  then show ?case by (simp add: approved_on_trail_def)
next
  case (moved d d')
  then show ?case using lease_approved_later by blast
qed simp

end
