(* ===== verification/DaemonExample.thy ===== *)
theory DaemonExample
  imports ServerRun
begin

text \<open>
  A concrete daemon for the witnesses: its outside is a counter, its clock stands still, its
  random bytes are new at every draw and its files never fail.
\<close>

definition counter_outside :: "nat outside" where
  "counter_outside =
     \<lparr>od_audit_os = \<lparr>ao_append = \<lambda>_ e. (None, e), ao_sync_file = \<lambda>e. (None, e),
        ao_sync_parent = \<lambda>e. (None, e)\<rparr>,
      od_fs = \<lparr>fs_mkdir_all = \<lambda>_ e. (None, e), fs_create_temp = \<lambda>_ _ e. (Inr ''/tmp/f'', e),
        fs_chmod = \<lambda>_ e. (None, e), fs_write = \<lambda>_ _ e. (None, e), fs_sync = \<lambda>_ e. (None, e),
        fs_close = \<lambda>_ e. (None, e), fs_rename = \<lambda>_ _ e. (None, e), fs_remove = \<lambda>_ e. (None, e),
        fs_open_dir = \<lambda>_ e. (None, e), fs_sync_dir = \<lambda>_ e. (None, e), fs_read = \<lambda>_ e. (Inr None, e)\<rparr>,
      od_codec = example_codec example_auth_store,
      od_now = \<lambda>e. (0, e),
      od_random = \<lambda>e. (replicate e (CHR ''r''), Suc e),
      od_nonce = \<lambda>e. (Inr (replicate 12 (CHR ''n'')), e),
      od_env_paths = None,
      od_secret_source = None,
      od_paths = \<lparr>os_getwd = \<lambda>_. Inr ''/'', os_eval_symlinks = \<lambda>p _. Inr p\<rparr>\<rparr>"

lemma counter_calls [simp]:
  "od_now counter_outside e = (0, e)" "od_random counter_outside e = (replicate e (CHR ''r''), Suc e)"
  "od_env_paths counter_outside = None" "od_secret_source counter_outside = None"
  by (simp_all add: counter_outside_def)

text \<open>An audit record is always written; what it does to the sink does not matter here.\<close>

definition noting :: "audit_event \<Rightarrow> nat daemon \<Rightarrow> nat daemon" where
  "noting ev d = snd (daemon_audit counter_outside ev d)"

lemma sanitized_timestamp: "ev_timestamp (sanitize_audit_event ev) = ev_timestamp ev"
  by (simp add: sanitize_audit_event_def Let_def)

lemma json_time_start: "json_time 0 \<noteq> None"
  by code_simp

lemma counter_sink:
  assumes "json_time (ev_timestamp ev) \<noteq> None"
  shows "\<exists>k'. sink_write (od_audit_os counter_outside) ev (k, e) = (None, k', e)"
proof -
  obtain raw where "marshal_event (sanitize_audit_event ev) = Inr raw"
    using assms by (auto simp: marshal_event_def sanitized_timestamp)
  then show ?thesis by (simp add: sink_write_def Let_def counter_outside_def)
qed

lemma counter_audit:
  assumes "ev_timestamp ev = 0"
  shows "daemon_audit counter_outside ev d = (None, noting ev d)"
    and "\<exists>k. noting ev d = d\<lparr>dm_sink := k, dm_trail := dm_trail d @ [ev]\<rparr>"
  using counter_sink [of ev "dm_sink d" "dm_env d"] assms json_time_start
  by (auto simp: noting_def daemon_audit_def)

lemma noting_simps [simp]:
  assumes "ev_timestamp ev = 0"
  shows "dm_store (noting ev d) = dm_store d" "dm_auth (noting ev d) = dm_auth d"
    "dm_limiter (noting ev d) = dm_limiter d" "dm_closed (noting ev d) = dm_closed d"
    "dm_env (noting ev d) = dm_env d" "dm_trail (noting ev d) = dm_trail d @ [ev]"
  using counter_audit(2) [OF assms, of d] by auto

lemma counter_now [simp]: "on_env (od_now counter_outside) d = (0, d)"
  by (simp add: on_env_def)

section \<open>Configurations\<close>

definition example_config :: server_config where
  "example_config =
     \<lparr>sc_policy = default_policy, sc_request_policy = default_request_policy,
      sc_allow_plaintext_secret_return = True, sc_auth_enabled = True, sc_operator_tok = ''op'',
      sc_bootstrap_ttl_seconds = 60, sc_grant_idle_minutes = 480, sc_grant_absolute_minutes = 1440,
      sc_session_ttl_minutes = 10, sc_state_store_file = '''', sc_auth_store_file = '''',
      sc_auth_store_key = '''', sc_intents = []\<rparr>"

definition example_request :: lease_request where
  "example_request =
     \<lparr>req_id = ''req_1'', req_agent_id = ''agent'', req_task_id = ''task'', req_intent = ''deploy'',
      req_reason = ''release'', req_ttl_minutes = 5, req_secrets = [''db_url''],
      req_command_fingerprint = ''c'', req_workdir_fingerprint = ''w'', req_command_summary = '''',
      req_workdir_summary = '''', req_env_path = '''', req_env_path_canonical = '''',
      req_status = RequestPending, req_created_at = 0\<rparr>"

definition example_lease :: lease where
  "example_lease =
     \<lparr>lease_token = ''lease_0'', lease_request_id = ''req_0'', lease_agent_id = ''agent'',
      lease_task_id = ''task'', lease_intent = ''deploy'', lease_secrets = [''db_url''],
      lease_command_fingerprint = ''c'', lease_workdir_fingerprint = ''w'', lease_expires_at = 300\<rparr>"

text \<open>One request is pending, one was approved; the agent has a session.\<close>

definition example_daemon :: "nat daemon" where
  "example_daemon =
     \<lparr>dm_store =
        \<lparr>ms_requests = [(''req_0'', example_request\<lparr>req_id := ''req_0'', req_status := RequestApproved\<rparr>),
           (''req_1'', example_request)],
         ms_leases = [(''lease_0'', example_lease)], ms_secrets = [(''db_url'', ''postgres://'')]\<rparr>,
      dm_auth =
        \<lparr>as_bootstrap = [(''boot_0'', \<lparr>bt_token = ''boot_0'', bt_agent_id = ''agent'',
           bt_container_id = ''box'', bt_created_at = 0, bt_expires_at = 60, bt_used = True\<rparr>)],
         as_grants = [(''grant_0'', \<lparr>pg_grant_id = ''grant_0'', pg_agent_id = ''agent'',
           pg_container_id = ''box'', pg_created_at = 0, pg_last_used_at = 0, pg_idle_expires_at = 100,
           pg_absolute_expires_at = 200, pg_revoked = False\<rparr>)],
         as_sessions = [(''sess_0'', \<lparr>st_token = ''sess_0'', st_grant_id = ''grant_0'',
           st_agent_id = ''agent'', st_created_at = 0, st_expires_at = 50, st_revoked = False\<rparr>)]\<rparr>,
      dm_sink = \<lparr>fk_content = '''', fk_last_hash = '''', fk_need_sync = True\<rparr>, dm_trail = [], dm_limiter = None, dm_closed = False, dm_reason = '''',
      dm_env = 7\<rparr>"

definition by_agent :: http_request where
  "by_agent = \<lparr>rq_method = ''POST'', rq_remote_addr = ''10.0.0.2:40000'',
     rq_authorization = ''Bearer sess_0'', rq_request_id = ''req_1''\<rparr>"

definition by_operator :: http_request where
  "by_operator = \<lparr>rq_method = ''POST'', rq_remote_addr = ''10.0.0.1:40000'',
     rq_authorization = ''Bearer op'', rq_request_id = ''req_1''\<rparr>"

definition body_of :: "'b \<Rightarrow> 'b http_body" where
  "body_of x = \<lparr>hb_first = Decoded x, hb_more = EndOfInput\<rparr>"

lemma example_tokens [simp]:
  "bearer_token by_agent = ''sess_0''" "bearer_token by_operator = ''op''"
  by code_simp+

lemma example_config_simps [simp]:
  "sc_auth_enabled example_config" "sc_allow_plaintext_secret_return example_config"
  "sc_operator_tok example_config = ''op''" "sc_policy example_config = default_policy"
  "sc_state_store_file example_config = ''''" "sc_auth_store_file example_config = ''''"
  "sc_grant_idle_minutes example_config = 480" "sc_session_ttl_minutes example_config = 10"
  "rq_method by_agent = ''POST''" "rq_request_id by_agent = ''req_1''"
  "rq_method by_operator = ''POST''" "rq_request_id by_operator = ''req_1''"
  by (simp_all add: example_config_def by_agent_def by_operator_def)

lemma example_lease_fields:
  "lease_expires_at example_lease = 300" "lease_secrets example_lease = [''db_url'']"
  "lease_command_fingerprint example_lease = ''c''" "lease_workdir_fingerprint example_lease = ''w''"
  by (simp_all add: example_lease_def)

lemma counter_critical:
  "ev_timestamp ev = 0 \<Longrightarrow>
     audit_critical (daemon_service cfg counter_outside) ev d = (None, noting ev d)"
  by (simp add: audit_critical_def write_audit_event_def counter_audit(1))

lemma example_ok: "daemon_ok example_daemon"
proof -
  have "trim_space ''agent'' \<noteq> ''''" by code_simp
  then show ?thesis
    by (auto simp: daemon_ok_def wf_mem_def auth_ok_def keyed_def example_daemon_def
        example_request_def example_lease_def wf_map_def)
qed

section \<open>What the handlers answer\<close>

lemma example_agent_session:
  "require_agent_session example_config counter_outside by_agent example_daemon =
     (Inr (''agent'', ''agent''), example_daemon)"
  by (simp add: require_agent_session_def example_config_def enforce_auth_rate_limit_def
      example_daemon_def validate_session_def get_session_def validate_grant_active_def get_grant_def)

lemma example_operator:
  "require_operator example_config counter_outside by_operator example_daemon =
     (Inr (''operator'', ''token-operator''), example_daemon)"
  by (simp add: require_operator_def example_config_def enforce_auth_rate_limit_def
      example_daemon_def)

lemma example_gate: "require_durability_ready example_daemon = None"
  by (simp add: require_durability_ready_def durability_error_def example_daemon_def)

definition example_access :: access_body where
  "example_access = \<lparr>ab_lease_token = ''lease_0'', ab_secret = ''db_url'',
     ab_command_fingerprint = ''c'', ab_workdir_fingerprint = ''w''\<rparr>"

lemma example_lease_get:
  "get_lease_owned_by_agent (daemon_service example_config counter_outside) ''lease_0'' ''agent''
     example_daemon = (Inr example_lease, example_daemon)"
  by (simp add: get_lease_owned_by_agent_def daemon_leases_def on_mem_def get_lease_def
      example_daemon_def example_lease_def)

lemma example_secret:
  "dm_store d = dm_store example_daemon \<Longrightarrow>
     daemon_secrets counter_outside ''db_url'' d = (Inr ''postgres://'', d)"
  by (simp add: daemon_secrets_def on_mem_def get_secret_def example_daemon_def)

lemma example_lease_access:
  "access_secret_for_lease (daemon_service example_config counter_outside) example_lease ''db_url''
     ''c'' ''w'' example_daemon =
    (Inr ''postgres://'', noting (secret_access_event ''secret_access'' 0 example_lease ''db_url'')
      (noting (secret_access_event ''secret_access_started'' 0 example_lease ''db_url'') example_daemon))"
  by (simp add: access_secret_for_lease_def counter_critical example_secret is_expired_def
       example_lease_fields secret_access_event_def)

lemma example_access_answer:
  "fst (handle_access example_config counter_outside by_agent (body_of example_access) example_daemon) =
     write_json [(''secret'', JString ''db_url''), (''value'', JString ''postgres://'')]"
  by (simp add: handle_access_def example_agent_session checked_method_def calling_agent_def
      when_durable_def example_gate reject_plaintext_secret_access_def body_of_def decode_body_def
      access_secret_by_agent_def example_access_def example_lease_get example_lease_access)

lemma example_request_get:
  "rs_get daemon_requests ''req_1'' example_daemon = (Inr example_request, example_daemon)"
  by (simp add: daemon_requests_def on_mem_def get_request_def example_daemon_def example_request_def)

lemma example_valid: "validate_request default_policy 5 [''db_url''] = None"
  by code_simp

lemma counter_persist: "persist_request_lease_state example_config counter_outside d = (None, d)"
  by (simp add: persist_request_lease_state_def)

section \<open>The example server\<close>

definition example_exec :: "nat exec_config" where
  "example_exec =
     \<lparr>ec_profile = ''hardened'',
      ec_policy = \<lparr>dp_exec = default_execution_policy, dp_host_ops = default_host_ops_policy,
        dp_network = default_network_egress_policy, dp_output_mode = ''redacted'',
        dp_default_timeout = 60, dp_max_timeout = 600\<rparr>,
      ec_files = \<lparr>of_paths = \<lparr>os_getwd = \<lambda>_. Inr ''/work'', os_eval_symlinks = \<lambda>p _. Inr p\<rparr>,
        of_lstat = \<lambda>p _. of_lstat example_files p (), of_stat = \<lambda>p _. of_stat example_files p ()\<rparr>,
      ec_ambient_env = [''HOME=/root''],
      ec_start = \<lambda>_ _ _ _ e. (\<lparr>pe_chunks = [''done''], pe_exit = Inr 0\<rparr>, e)\<rparr>"

definition example_setup :: "nat server_setup" where
  "example_setup =
     \<lparr>st_config = example_config, st_outside = counter_outside, st_exec = example_exec,
      st_meta = \<lparr>mt_insecure_dev_mode = False, mt_unix_socket_configured = True,
        mt_env_path_enabled = False, mt_agent_bridge_address = ''''\<rparr>\<rparr>"

lemma example_setup_simps [simp]:
  "st_config example_setup = example_config" "st_outside example_setup = counter_outside"
  "st_exec example_setup = example_exec"
  by (simp_all add: example_setup_def)

lemma length_hex_encode: "length (hex_encode s) = 2 * length s"
  by (induction s) (simp_all add: hex_encode_def hex_byte_def)

lemma example_fresh: "ids_fresh counter_outside example_daemon"
proof -
  have "hex_encode s \<noteq> [c]" for s c
    using length_hex_encode [of s] by (metis One_nat_def dvd_triv_left even_Suc even_zero length_Cons list.size(3))
  then show ?thesis by (auto simp: ids_fresh_def example_daemon_def Let_def)
qed

text \<open>The daemon before its first event.\<close>

definition empty_daemon :: "nat daemon" where
  "empty_daemon = example_daemon\<lparr>dm_store := new_store, dm_auth := new_auth_store\<rparr>"

lemma empty_daemon_starts: "starts_empty empty_daemon"
  by (simp add: starts_empty_def empty_daemon_def example_daemon_def daemon_book_def new_store_def
      wf_new_store [unfolded new_store_def] fun_eq_iff)

lemma empty_daemon_fresh: "ids_fresh od empty_daemon"
  by (simp add: ids_fresh_def empty_daemon_def new_store_def new_auth_store_def Let_def)

definition example_execute :: execute_body where
  "example_execute = \<lparr>xb_lease_token = ''lease_0'', xb_intent = ''deploy'',
     xb_command = [''make'', ''test''], xb_secrets = [''db_url''], xb_command_fingerprint = ''c'',
     xb_workdir_fingerprint = ''w'', xb_timeout_sec = 30\<rparr>"

lemma example_command:
  "cp_validate_execute_request (execute_policy example_exec) ''hardened'' ''deploy'' [''make'', ''test''] = None"
  "cp_validate_network_egress (execute_policy example_exec) [''make'', ''test''] ''deploy'' = None"
  by code_simp+

lemma example_resolved:
  "\<exists>rc. cp_resolve_execute_command (execute_policy example_exec) [''make'', ''test''] example_daemon = Inr rc"
proof -
  have "case cp_resolve_execute_command (execute_policy example_exec) [''make'', ''test''] example_daemon of
      Inl e \<Rightarrow> False | Inr rc \<Rightarrow> True" by code_simp
  then show ?thesis by (auto split: sum.splits)
qed

lemma example_request_owned:
  "get_request_owned_by_agent (daemon_service example_config counter_outside) ''req_0'' ''agent''
     example_daemon =
   (Inr (example_request\<lparr>req_id := ''req_0'', req_status := RequestApproved\<rparr>), example_daemon)"
  by (simp add: get_request_owned_by_agent_def daemon_requests_def on_mem_def get_request_def
      example_daemon_def example_request_def)

lemma example_trim [simp]: "trim_space ''agent'' = ''agent''" "trim_space ''deploy'' = ''deploy''"
  by code_simp+

lemma example_intent:
  "approved_lease_intent_by_agent (daemon_service example_config counter_outside) ''lease_0'' ''agent''
     example_daemon = (Inr ''deploy'', example_daemon)"
  by (simp add: approved_lease_intent_by_agent_def example_lease_get example_request_owned Let_def
      example_lease_def [of] example_lease_fields)

lemma example_secrets:
  "\<exists>d. resolve_execution_secrets_by_agent (daemon_service example_config counter_outside) ''agent''
     ''lease_0'' [''db_url''] ''c'' ''w'' example_daemon = (Inr [(''db_url'', ''postgres://'')], d)"
proof -
  have n: "normalize_execution_secret_names [''db_url''] = Inr [''db_url'']" by code_simp
  have "lease_request_id example_lease = ''req_0''" "req_env_path example_request = ''''"
    by (simp_all add: example_lease_def example_request_def)
  then show ?thesis
    by (simp add: resolve_execution_secrets_by_agent_def n example_lease_get is_expired_def
        example_lease_fields first_not_allowed_None example_request_owned example_lease_access)
qed

lemma example_run_audited:
  assumes "\<And>t. ev_timestamp (started t) = t" and "\<And>r t. ev_timestamp (ended r t) = t"
  shows "\<exists>out. fst (run_audited u (daemon_service cfg counter_outside) (process_runner example_exec) started
     secs rq secure ended d) = Inr out"
proof -
  have "\<exists>r. fst (process_runner example_exec limit rq z) = Inr r" for limit rq z
    by (auto simp: process_runner_def on_env_def example_exec_def run_command_with_bounded_output_def)
  then obtain r where "fst (process_runner example_exec (dur_mult secs second) rq (noting (started 0) d)) = Inr r"
    by blast
  with assms show ?thesis
    by (auto simp: run_audited_def counter_critical Let_def case_prod_beta)
qed

lemma example_execute_answer:
  "rs_status (fst (handle_execute example_config counter_outside example_exec by_agent
     (body_of example_execute) example_daemon)) = 200"
proof -
  let ?s = "daemon_service example_config counter_outside"
  have sec: "xb_secrets example_execute = [''db_url'']" by (simp add: example_execute_def)
  obtain rc where rc: "cp_resolve_execute_command (execute_policy example_exec) [''make'', ''test'']
      example_daemon = Inr rc" using example_resolved by blast
  obtain d where d: "resolve_execution_secrets_by_agent ?s ''agent'' ''lease_0'' [''db_url''] ''c'' ''w''
      example_daemon = (Inr [(''db_url'', ''postgres://'')], d)" using example_secrets by blast
  have profile: "ec_profile example_exec = ''hardened''" by (simp add: example_exec_def)
  have "\<exists>out. fst (execute (execute_use_case example_config counter_outside example_exec)
      (input_of example_config (''agent'', ''agent'') example_execute) example_daemon) = Inr out"
    by (simp add: execute_def input_of_def example_execute_def calling_agent_def example_command
        example_intent rc d profile Let_def example_run_audited execution_event_def
        del: daemon_service_simps)
  then show ?thesis
    by (auto simp: handle_execute_def example_agent_session checked_method_def when_durable_def
        example_gate body_of_def decode_body_def example_execute_def input_of_def case_prod_beta
        execution_response_def)
qed

section \<open>Docker\<close>

text \<open>A host with docker, on which the process started for it ends with the given exit code.\<close>

definition docker_exec :: "int \<Rightarrow> nat exec_config" where
  "docker_exec n = example_exec
     \<lparr>ec_files := \<lparr>of_paths = \<lparr>os_getwd = \<lambda>_. Inr ''/work'', os_eval_symlinks = \<lambda>p _. Inr p\<rparr>,
        of_lstat = \<lambda>p _. p = ''/usr/bin/docker'',
        of_stat = \<lambda>p _. if p = ''/usr/bin/docker'' then Inr (False, 493) else Inl (Plain ''no such file'')\<rparr>,
      ec_start := \<lambda>_ _ _ _ e. (\<lparr>pe_chunks = [''CONTAINER ID''], pe_exit = Inr n\<rparr>, e)\<rparr>"

lemma docker_exec_start: "(docker_exec n)\<lparr>ec_start := ec_start (docker_exec m)\<rparr> = docker_exec m"
  by (simp add: docker_exec_def)

lemma docker_run_audited:
  assumes "\<And>t. ev_timestamp (started t) = t" and "\<And>r t. ev_timestamp (ended r t) = t"
  shows "\<exists>out. fst (run_audited u (daemon_service cfg counter_outside) (process_runner (docker_exec n)) started
     secs rq secure ended d) = Inr out \<and> co_exit_code out = n"
proof -
  have "\<exists>r. fst (process_runner (docker_exec n) limit rq z) = Inr r \<and> cx_exit_code r = n" for limit rq z
    by (auto simp: process_runner_def on_env_def docker_exec_def run_command_with_bounded_output_def)
  then obtain r where "fst (process_runner (docker_exec n) (dur_mult secs second) rq (noting (started 0) d)) = Inr r"
    and "cx_exit_code r = n" by blast
  with assms show ?thesis
    by (auto simp: run_audited_def counter_critical Let_def case_prod_beta)
qed

lemma docker_command:
  "cp_validate_host_docker_command (execute_policy (docker_exec n)) [''docker'', ''ps''] = None"
  by (simp add: docker_exec_def) code_simp

lemma docker_resolved:
  "\<exists>rc. cp_resolve_host_docker_command (execute_policy (docker_exec n)) [''docker'', ''ps''] example_daemon = Inr rc"
proof -
  have "case cp_resolve_host_docker_command (execute_policy (docker_exec n)) [''docker'', ''ps''] example_daemon of
      Inl e \<Rightarrow> False | Inr rc \<Rightarrow> True" by code_simp
  then show ?thesis by (auto split: sum.splits)
qed

lemma docker_answer:
  "\<exists>out. fst (handle_host_docker_execute example_config counter_outside (docker_exec n) by_operator
     (body_of [''docker'', ''ps'']) example_daemon) = execution_response out \<and> co_exit_code out = n"
proof -
  obtain rc where rc: "cp_resolve_host_docker_command (execute_policy (docker_exec n)) [''docker'', ''ps'']
      example_daemon = Inr rc" using docker_resolved by blast
  have "\<exists>out. fst (host_docker_execute (host_docker_use_case example_config counter_outside (docker_exec n))
      \<lparr>di_actor_type = ''operator'', di_actor_id = ''token-operator'', di_command = [''docker'', ''ps'']\<rparr>
      example_daemon) = Inr out \<and> co_exit_code out = n"
    by (simp add: host_docker_execute_def docker_command rc Let_def docker_run_audited docker_event_def
        del: daemon_service_simps)
  then show ?thesis
    by (auto simp: handle_host_docker_execute_def example_operator checked_method_def when_durable_def
        example_gate body_of_def decode_body_def case_prod_beta)
qed

end
