(* ===== verification/CallerProps.thy ===== *)
theory CallerProps
  imports DaemonExample
begin

text \<open>
  Properties of who gets in: nothing changes behind a closed gate, a used bootstrap token pairs
  nothing, and a revoked grant locks its sessions out for good. The witnesses are on the daemon
  of \<open>DaemonExample\<close>.
\<close>

section \<open>The closed gate\<close>

lemma serve_closed:
  assumes "daemon_ok d" and "dm_closed d" and "\<not> ungated c"
  shows "rs_status (fst (serve u l c d)) \<noteq> 200 \<and> keeps d (snd (serve u l c d))"
  using handle_closed [OF assms, of u] assms(1) by (simp add: serve_def keeps_refl)

lemma serve_closed_book:
  assumes "daemon_ok d" and "ids_fresh (st_outside u) d" and "dm_closed d"
  shows "daemon_book (snd (serve u l c d)) = daemon_book d \<and> dm_closed (snd (serve u l c d))"
  using serve_served [OF assms(1,2), of l c] assms(3)
  by (auto simp: served_def keeps_def gate_kept_def)

lemma react_closed:
  assumes "daemon_ok d" and "ids_fresh (st_outside u) d" and "dm_closed d"
  shows "daemon_book (react u ev d) = daemon_book d \<and> dm_closed (react u ev d)"
proof (cases ev)
  case (Called l c)
  with serve_closed_book [OF assms, of l c] show ?thesis by simp
next
  case CleanupTick
  with cleanup_pass_outcome [OF assms(1), of "st_config u" "st_outside u"] assms(3) show ?thesis
    by (auto simp: keeps_def auth_stepped_def gate_kept_def)
qed

lemma run_closed:
  assumes "daemon_run u d es d'" and "daemon_ok d" and "dm_closed d"
  shows "daemon_book d' = daemon_book d \<and> dm_closed d'"
  using assms
proof (induction rule: daemon_run.induct)
  case (reacted es d' ev)
  then show ?case using react_closed run_ok by metis
qed simp_all

text \<open>
  C11: behind a closed durability gate every call is refused but for the capabilities and the
  lookup of intents, and leaves requests, leases and credentials as they are.
\<close>

theorem closed_gate_refuses:
  assumes "daemon_ok d" and "dm_closed d" and "\<not> ungated c"
  shows "rs_status (fst (serve u l c d)) \<noteq> 200 \<and> keeps d (snd (serve u l c d))"
  using assms by (rule serve_closed)

definition closed_daemon :: "nat daemon" where
  "closed_daemon = example_daemon\<lparr>dm_closed := True, dm_reason := ''durability failure''\<rparr>"

lemma closed_daemon_ok: "daemon_ok closed_daemon" "dm_closed closed_daemon"
  using example_ok by (simp_all add: closed_daemon_def daemon_ok_def)

lemma closed_daemon_fresh: "ids_fresh counter_outside closed_daemon"
  using example_fresh by (simp add: closed_daemon_def ids_fresh_def)

definition approve_call :: call where "approve_call = ApproveCall by_operator (body_of 0)"

theorem closed_gate_refuses_witness:
  "rs_status (fst (serve example_setup OperatorListener approve_call closed_daemon)) \<noteq> 200"
  using closed_gate_refuses [OF closed_daemon_ok, of approve_call] by (simp add: approve_call_def)

text \<open>
  Once the gate is closed it stays closed, and in the whole rest of the run no request is
  made or decided and no lease is made, whatever is called and whatever the files do.
\<close>

theorem closed_gate_freezes_leases:
  assumes "daemon_run u d es d'" and "daemon_ok d" and "dm_closed d"
  shows "daemon_book d' = daemon_book d \<and> dm_closed d'"
  using assms by (rule run_closed)

theorem closed_gate_freezes_leases_witness:
  "snd (daemon_book (react example_setup (Called OperatorListener approve_call) closed_daemon)) ''lease_0'' =
     Some example_lease"
proof -
  have "daemon_run example_setup closed_daemon ([] @ [Called OperatorListener approve_call])
      (react example_setup (Called OperatorListener approve_call) closed_daemon)"
    by (rule daemon_run.reacted [OF daemon_run.started]) (simp add: closed_daemon_fresh)
  from closed_gate_freezes_leases [OF this closed_daemon_ok] show ?thesis
    by (simp add: daemon_book_def closed_daemon_def example_daemon_def)
qed

section \<open>Credentials that are used up\<close>

lemma pair_used:
  assumes "daemon_ok d" and "ids_fresh od d" and "decode_body body = Inr b"
    and "go_get (as_bootstrap (dm_auth d)) (bu_token b) = Some t" and "bt_used t"
  shows "rs_status (fst (handle_auth_pair_complete cfg od rq body d)) \<noteq> 200 \<and>
    keeps d (snd (handle_auth_pair_complete cfg od rq body d))"
proof -
  have "False" if "pairs cfg body a ev" and "auth_step (dm_auth d) a s'" for a ev s'
    using that assms(3-5) by (auto simp: pairs_def elim!: paired_stepE consume_bootstrap_ok)
  with handle_pair_outcome [OF assms(1,2), of cfg body rq] show ?thesis
    by (auto simp: auth_handled_def auth_stepped_def)
qed

text \<open>
  A bootstrap token that was used pairs nothing any more: the answer is an error, and
  requests, leases and credentials stay as they are.
\<close>

theorem used_token_pairs_nothing:
  assumes "daemon_ok d" and "ids_fresh od d" and "decode_body body = Inr b"
    and "go_get (as_bootstrap (dm_auth d)) (bu_token b) = Some t" and "bt_used t"
  shows "rs_status (fst (handle_auth_pair_complete cfg od rq body d)) \<noteq> 200 \<and>
    keeps d (snd (handle_auth_pair_complete cfg od rq body d))"
  using assms by (rule pair_used)

theorem used_token_pairs_nothing_witness:
  "rs_status (fst (handle_auth_pair_complete example_config counter_outside by_agent
     (body_of \<lparr>bu_token = ''boot_0'', bu_container_id = ''box''\<rparr>) example_daemon)) \<noteq> 200"
  using used_token_pairs_nothing [OF example_ok example_fresh, of "body_of \<lparr>bu_token = ''boot_0'', bu_container_id = ''box''\<rparr>"]
  by (simp add: decode_body_def body_of_def example_daemon_def)

lemma revoked_session_dead:
  assumes "go_get (as_sessions a) tok = Some st" and "go_get (as_grants a) (st_grant_id st) = Some g"
    and "pg_revoked g" and "auth_ok a"
  shows "\<not> live_session a tok agent"
  using assms by (auto simp: live_session_def validate_session_def get_session_def active_grant_def Let_def
      split: if_splits option.splits sum.splits)

lemma revoked_locked_out:
  assumes "daemon_run u d es d'" and "daemon_ok d"
    and "go_get (as_grants (dm_auth d)) i = Some g" and "pg_revoked g"
    and "go_get (as_sessions (dm_auth d')) (bearer_token rq) = Some st" and "st_grant_id st = i"
    and "sc_auth_enabled cfg"
  shows "\<exists>refused. fst (require_agent_session cfg od rq d') = Inl refused \<and> rs_status refused \<noteq> 200"
proof -
  have "grants_kept (dm_auth d) (dm_auth d')" using run_final [OF assms(1,2)] by blast
  with assms(3,4) obtain g' where "go_get (as_grants (dm_auth d')) i = Some g'" "pg_revoked g'"
    unfolding grants_kept_def by blast
  moreover have "auth_ok (dm_auth d')" using run_ok [OF assms(1,2)] by (simp add: daemon_ok_def)
  ultimately have "\<not> live_session (dm_auth d') (bearer_token rq) agent" for agent
    using revoked_session_dead assms(5,6) by blast
  with require_agent_session_spec [of od d' cfg rq] assms(7) show ?thesis
    by (auto simp: let_through_def agent_caller_def split: sum.splits)
qed

text \<open>
  C12: once a grant is revoked, no session of it gets past the check of the agent's bearer token
  in any later state of the run, not even a session minted before.
\<close>

theorem revoked_grant_locks_out:
  assumes "daemon_run u d es d'" and "daemon_ok d"
    and "go_get (as_grants (dm_auth d)) i = Some g" and "pg_revoked g"
    and "go_get (as_sessions (dm_auth d')) (bearer_token rq) = Some st" and "st_grant_id st = i"
    and "sc_auth_enabled cfg"
  shows "\<exists>refused. fst (require_agent_session cfg od rq d') = Inl refused \<and> rs_status refused \<noteq> 200"
  using assms by (rule revoked_locked_out)

definition revoked_daemon :: "nat daemon" where
  "revoked_daemon = example_daemon\<lparr>dm_auth := snd (revoke_grant ''grant_0'' (dm_auth example_daemon))\<rparr>"

lemma revoked_daemon_ok: "daemon_ok revoked_daemon"
proof -
  have "revoke_grant ''grant_0'' (dm_auth example_daemon) =
      (None, snd (revoke_grant ''grant_0'' (dm_auth example_daemon)))"
    by (simp add: revoke_grant_def example_daemon_def)
  then show ?thesis
    using example_ok auth_ok_revoke_grant by (fastforce simp: daemon_ok_def revoked_daemon_def)
qed

theorem revoked_grant_locks_out_witness:
  "\<exists>refused. fst (require_agent_session example_config counter_outside by_agent revoked_daemon) = Inl refused \<and>
     rs_status refused \<noteq> 200"
proof -
  have a: "go_get (as_grants (dm_auth revoked_daemon)) ''grant_0'' =
        Some (\<lparr>pg_grant_id = ''grant_0'', pg_agent_id = ''agent'', pg_container_id = ''box'',
          pg_created_at = 0, pg_last_used_at = 0, pg_idle_expires_at = 100,
          pg_absolute_expires_at = 200, pg_revoked = True\<rparr>)"
      "go_get (as_sessions (dm_auth revoked_daemon)) (bearer_token by_agent) =
        Some (\<lparr>st_token = ''sess_0'', st_grant_id = ''grant_0'', st_agent_id = ''agent'',
          st_created_at = 0, st_expires_at = 50, st_revoked = False\<rparr>)"
    by (simp_all add: revoked_daemon_def example_daemon_def revoke_grant_def)
  show ?thesis
    by (rule revoked_grant_locks_out [OF daemon_run.started revoked_daemon_ok a(1) _ a(2)]) simp_all
qed

text \<open>
  A pass of the clean-up either changes no store, or takes exactly the clean-up step of the
  auth store at the time it read, with its event on the trail; it never touches a lease.
\<close>

theorem cleanup_is_one_step:
  assumes "daemon_ok d"
  shows "keeps d (snd (run_auth_cleanup_pass cfg od d)) \<or>
    (\<exists>a ev. cleans a ev \<and> auth_stepped d a ev (snd (run_auth_cleanup_pass cfg od d)))"
  using assms by (rule cleanup_pass_outcome)

lemma example_cleanup:
  "as_bootstrap (dm_auth (snd (run_auth_cleanup_pass example_config counter_outside example_daemon))) = []"
  by (simp add: run_auth_cleanup_pass_def Let_def cleanup_expired_def example_daemon_def
      stale_bootstrap_def stale_session_def lapsed_grant_def persist_auth_store_def
      server_audit_critical_def counter_audit)

theorem cleanup_is_one_step_witness:
  "\<exists>a ev. cleans a ev \<and> auth_stepped example_daemon a ev
     (snd (run_auth_cleanup_pass example_config counter_outside example_daemon))"
proof -
  have "as_bootstrap (dm_auth example_daemon) \<noteq> []" by (simp add: example_daemon_def)
  then have "\<not> keeps example_daemon (snd (run_auth_cleanup_pass example_config counter_outside example_daemon))"
    using example_cleanup by (auto simp: keeps_def)
  with cleanup_is_one_step [OF example_ok, of example_config counter_outside] show ?thesis by blast
qed

end
