(* ===== verification/DaemonProps.thy ===== *)
theory DaemonProps
  imports CallerProps
begin

text \<open>
  The properties of the daemon as a whole, with their witnesses on the daemon of
  \<open>DaemonExample\<close>.
\<close>

section \<open>An operator can always decide\<close>

text \<open>The clock shows a year that RFC 3339 can express, and everything written reports success.\<close>

definition storage_works :: "server_config \<Rightarrow> 'e outside \<Rightarrow> bool" where
  "storage_works cfg od \<longleftrightarrow>
     (\<forall>e. json_time (fst (od_now od e)) \<noteq> None) \<and>
     (\<forall>ev d. json_time (ev_timestamp ev) \<noteq> None \<longrightarrow> fst (daemon_audit od ev d) = None) \<and>
     (\<forall>d. fst (persist_request_lease_state cfg od d) = None)"

lemma works_critical:
  assumes "storage_works cfg od" and "json_time (ev_timestamp ev) \<noteq> None"
  shows "fst (audit_critical (daemon_service cfg od) ev d) = None"
  using assms by (simp add: storage_works_def audit_critical_def case_prod_beta)

lemma works_finish:
  assumes "storage_works cfg od" and "\<And>t. ev_timestamp (ev t) = t"
  shows "fst (finish_mutation (daemon_service cfg od) undo ev d) = None"
  using works_critical [OF assms(1)] assms
  by (simp add: storage_works_def finish_mutation_def commit_request_lease_state_def case_prod_beta
      on_env_def)

lemma mem_saves [simp]:
  "fst (ls_save daemon_leases l d) = None" "fst (rs_update daemon_requests r d) = None"
  by (simp_all add: daemon_leases_def daemon_requests_def save_lease_def update_request_def)

lemma approve_works:
  assumes "storage_works cfg od" and "fst (daemon_book d) i = Some q"
    and "req_status q = RequestPending"
    and "validate_request (sc_policy cfg) (if ttl = 0 then req_ttl_minutes q else ttl) (req_secrets q) = None"
  shows "\<exists>l. fst (approve_request_with_actor (daemon_service cfg od) i ttl at ai d) = Inr l"
proof -
  have "fst (rs_get daemon_requests i d) = Inr q"
    using assms(2) by (simp add: daemon_requests_def get_request_def daemon_book_def)
  then show ?thesis
    using assms(3,4) works_finish [OF assms(1)]
    by (simp add: approve_request_with_actor_def Let_def case_prod_beta)
qed

lemma enforce_None_open:
  "enforce_auth_rate_limit od rq scope d = (None, d1) \<Longrightarrow> dm_closed d1 = dm_closed d"
  by (auto simp: enforce_auth_rate_limit_def Let_def case_prod_beta split: option.splits bool.splits)

lemma operator_let_in:
  assumes "fst (enforce_auth_rate_limit od rq ''operator'' d) = None" and "operator_caller cfg rq"
  obtains actor d1 where "require_operator cfg od rq d = (Inr actor, d1)"
    and "dm_closed d1 = dm_closed d" and "daemon_book d1 = daemon_book d"
proof -
  obtain d0 where e: "enforce_auth_rate_limit od rq ''operator'' d = (None, d0)"
    using assms(1) by (metis prod.collapse)
  have "daemon_book d0 = daemon_book d"
    using enforce_same_stores [of od d rq "''operator''"] e
    by (simp add: same_stores_def daemon_book_def)
  with e enforce_None_open [OF e] assms(2) show thesis
    by (cases "sc_auth_enabled cfg")
      (auto simp: require_operator_def operator_caller_def Let_def intro: that)
qed

lemma approve_succeeds:
  assumes "storage_works cfg od" and "\<not> dm_closed d" and "operator_caller cfg rq"
    and "fst (enforce_auth_rate_limit od rq ''operator'' d) = None"
    and "rq_method rq = ''POST''" and "rq_request_id rq \<noteq> ''''"
    and "decode_optional_json_body 0 body = Inr ttl"
    and "fst (daemon_book d) (rq_request_id rq) = Some q" and "req_status q = RequestPending"
    and "validate_request (sc_policy cfg) (if ttl = 0 then req_ttl_minutes q else ttl) (req_secrets q) = None"
  shows "rs_status (fst (handle_approve cfg od rq body d)) = 200"
proof -
  obtain actor d1 where a: "require_operator cfg od rq d = (Inr actor, d1)"
    and d1: "dm_closed d1 = dm_closed d" "daemon_book d1 = daemon_book d"
    by (rule operator_let_in [OF assms(4,3)])
  have "\<exists>l. fst (approve_request_with_actor (daemon_service cfg od) (rq_request_id rq) ttl
      (fst actor) (snd actor) d1) = Inr l"
    by (rule approve_works [OF assms(1)]) (use assms(8-10) d1 in simp_all)
  with a d1 assms(2,5-7) show ?thesis
    by (auto simp: handle_approve_def checked_method_def when_durable_def require_durability_ready_def
        durability_error_def Let_def case_prod_beta)
qed

text \<open>
  C10: as long as the gate is open, the caller is the operator and not throttled, and files can
  be written, approving a pending request whose duration the policy accepts succeeds: no state
  of the stores makes a pending request undecidable.
\<close>

theorem pending_request_can_be_approved:
  assumes "storage_works cfg od" and "\<not> dm_closed d" and "operator_caller cfg rq"
    and "fst (enforce_auth_rate_limit od rq ''operator'' d) = None"
    and "rq_method rq = ''POST''" and "rq_request_id rq \<noteq> ''''"
    and "decode_optional_json_body 0 body = Inr ttl"
    and "fst (daemon_book d) (rq_request_id rq) = Some q" and "req_status q = RequestPending"
    and "validate_request (sc_policy cfg) (if ttl = 0 then req_ttl_minutes q else ttl) (req_secrets q) = None"
  shows "rs_status (fst (handle_approve cfg od rq body d)) = 200"
  using assms by (rule approve_succeeds)

lemma counter_works: "storage_works example_config counter_outside"
  unfolding storage_works_def
proof (intro conjI allI impI)
  fix ev :: audit_event and d :: "nat daemon" assume "json_time (ev_timestamp ev) \<noteq> None"
  then show "fst (daemon_audit counter_outside ev d) = None"
    using counter_sink [of ev "dm_sink d" "dm_env d"] by (auto simp: daemon_audit_def)
qed (simp_all add: json_time_start counter_persist)

lemma example_pending:
  "fst (daemon_book example_daemon) ''req_1'' = Some example_request"
  "req_status example_request = RequestPending" "req_ttl_minutes example_request = 5"
  "req_secrets example_request = [''db_url'']"
  by (simp_all add: daemon_book_def example_daemon_def example_request_def)

lemma example_body [simp]: "decode_optional_json_body z (body_of x) = Inr x" "decode_body (body_of x) = Inr x"
  by (simp_all add: decode_optional_json_body_def decode_body_def body_of_def)

lemma example_open [simp]: "\<not> dm_closed example_daemon" "dm_limiter example_daemon = None"
  by (simp_all add: example_daemon_def)

lemma example_operator_caller: "operator_caller example_config by_operator"
  by (simp add: operator_caller_def)

theorem pending_request_can_be_approved_witness:
  "rs_status (fst (handle_approve example_config counter_outside by_operator (body_of 0) example_daemon)) = 200"
  by (rule pending_request_can_be_approved [OF counter_works _ example_operator_caller,
        where q = example_request and ttl = 0])
    (simp_all add: example_pending example_valid enforce_auth_rate_limit_def)

lemma example_approved:
  "rs_status (fst (handle_approve example_config counter_outside by_operator (body_of 0) example_daemon)) = 200"
  by (rule approve_succeeds [OF counter_works _ example_operator_caller,
        where q = example_request and ttl = 0])
    (simp_all add: example_pending example_valid enforce_auth_rate_limit_def)

lemma example_new_lease:
  obtains tok l where
    "snd (daemon_book (snd (handle_approve example_config counter_outside by_operator (body_of 0)
       example_daemon))) tok = Some l"
    and "snd (daemon_book example_daemon) tok = None"
proof -
  let ?r = "handle_approve example_config counter_outside by_operator (body_of 0) example_daemon"
  obtain a ev where g: "approves example_config by_operator a ev"
      "stepped default_policy example_daemon a ev (snd ?r)"
    using handle_approve_outcome [OF example_ok example_fresh, of example_config by_operator "body_of 0"]
      example_approved by (auto simp: decided_def)
  then obtain l where "lease_step default_policy (daemon_book example_daemon) (Approved l) (daemon_book (snd ?r))"
    by (auto simp: approves_def stepped_def)
  then show thesis
    by (cases rule: lease_step.cases) (auto intro!: that [of "lease_token l" l])
qed

section \<open>Every answer is a step of the specifications\<close>

text \<open>
  C1: whatever is called on whatever listener, the answer leaves requests, leases and
  credentials as they are, or it is a 200 on an open gate, the listener serves the path, and the
  stores took exactly one step of the book of leases or of the auth store that this call and its
  caller may take, with its audit event on the trail.
\<close>

theorem serve_refines:
  assumes "daemon_ok d" and "ids_fresh (st_outside u) d"
  shows "served u l c d (serve u l c d)"
  using assms by (rule serve_served)

lemma serve_approve:
  "serve example_setup OperatorListener approve_call example_daemon =
     handle_approve example_config counter_outside by_operator (body_of 0) example_daemon"
  by (simp add: serve_def approve_call_def operator_routes_only_def)

theorem serve_refines_witness:
  "served example_setup OperatorListener approve_call example_daemon
     (serve example_setup OperatorListener approve_call example_daemon) \<and>
   rs_status (fst (serve example_setup OperatorListener approve_call example_daemon)) = 200"
proof -
  have f: "ids_fresh (st_outside example_setup) example_daemon" by (simp add: example_fresh)
  show ?thesis
    using serve_refines [OF example_ok f, of OperatorListener approve_call] example_approved
    by (simp add: serve_approve)
qed

section \<open>Runs\<close>

text \<open>
  C2: in every run from an empty broker, entries are well-formed, each lease belongs to exactly
  one approved request whose scope it carries, every request passed the policy, and grants,
  tokens and sessions are what the five steps of the auth store can lead to.
\<close>

theorem run_invariant:
  assumes "daemon_run u d0 es d" and "starts_empty d0"
  shows "daemon_ok d \<and> book_ok (sc_policy (st_config u)) (daemon_book d) \<and>
    (\<exists>as. auth_run new_auth_store as (dm_auth d))"
  using run_ok [OF assms(1) empty_ok [OF assms(2)]] reachable_book_ok [OF run_book [OF assms]]
    run_auth [OF assms] by blast

lemma one_event: "ids_fresh (st_outside u) d \<Longrightarrow> daemon_run u d [ev] (react u ev d)"
  using daemon_run.reacted [OF daemon_run.started, of u d ev] by simp

theorem run_invariant_witness:
  "book_ok default_policy (daemon_book (react example_setup (Called OperatorListener approve_call) empty_daemon))"
proof -
  have "daemon_run example_setup empty_daemon [Called OperatorListener approve_call]
      (react example_setup (Called OperatorListener approve_call) empty_daemon)"
    by (rule one_event [OF empty_daemon_fresh])
  from run_invariant [OF this empty_daemon_starts] show ?thesis by simp
qed

text \<open>
  C8: along a run no request disappears or changes but for its status, which only moves from
  pending to a decision; no lease disappears or changes; no grant disappears or changes its
  agent, container or absolute expiry, and a revoked one stays revoked; the trail only grows; a
  closed gate stays closed.
\<close>

theorem decisions_are_final:
  assumes "daemon_run u d es d'" and "daemon_ok d"
  shows "extends (daemon_book d) (daemon_book d') \<and> grants_kept (dm_auth d) (dm_auth d') \<and>
    prefix (dm_trail d) (dm_trail d') \<and> gate_kept d d'"
  using assms by (rule run_final)

lemma example_daemon_run:
  "daemon_run example_setup example_daemon [Called OperatorListener approve_call]
     (react example_setup (Called OperatorListener approve_call) example_daemon)"
  by (rule one_event) (simp add: example_fresh)

lemma react_approve:
  "react example_setup (Called OperatorListener approve_call) example_daemon =
     snd (handle_approve example_config counter_outside by_operator (body_of 0) example_daemon)"
  by (simp add: serve_approve)

theorem decisions_are_final_witness:
  "snd (daemon_book (react example_setup (Called OperatorListener approve_call) example_daemon)) ''lease_0'' =
     Some example_lease"
proof -
  have "snd (daemon_book example_daemon) ''lease_0'' = Some example_lease"
    by (simp add: daemon_book_def example_daemon_def)
  with decisions_are_final [OF example_daemon_run example_ok] show ?thesis by (auto simp: extends_def)
qed

text \<open>
  C3: every lease that appears in a run was approved by an operator before, for its request,
  and the approval is in the audit log.
\<close>

theorem leases_are_approved:
  assumes "daemon_run u d0 es d" and "daemon_ok d0"
    and "snd (daemon_book d) tok = Some l" and "snd (daemon_book d0) tok = None"
  shows "approved_on_trail d l"
  using run_new_lease [OF assms(1,2)] assms(3,4) by (metis option.distinct(1))

theorem leases_are_approved_witness:
  "\<exists>l. approved_on_trail (react example_setup (Called OperatorListener approve_call) example_daemon) l"
proof -
  obtain tok l where t: "snd (daemon_book (react example_setup (Called OperatorListener approve_call)
      example_daemon)) tok = Some l" "snd (daemon_book example_daemon) tok = None"
    unfolding react_approve by (rule example_new_lease)
  show ?thesis using leases_are_approved [OF example_daemon_run example_ok t] by blast
qed

text \<open>
  C9: the number of pending requests of an agent never exceeds the cap of the request policy,
  at any point of any run that starts within it.
\<close>

theorem pending_cap_holds:
  assumes "daemon_run u d0 es d" and "daemon_ok d0" and "within_cap (st_config u) (daemon_book d0)"
  shows "within_cap (st_config u) (daemon_book d)"
  using assms by (rule run_within_cap)

theorem pending_cap_holds_witness:
  "int (card (agent_pending
     (daemon_book (react example_setup (Called OperatorListener approve_call) example_daemon)) ''agent'')) \<le> 2"
proof -
  have cap: "pending_cap example_config = 2" by code_simp
  have "within_cap (st_config example_setup) (daemon_book example_daemon)"
    unfolding within_cap_def
  proof (intro allI conjI)
    fix a
    have sub: "agent_pending (daemon_book example_daemon) a \<subseteq> {example_request}"
      by (auto simp: agent_pending_def daemon_book_def example_daemon_def split: if_splits)
    then show "finite (agent_pending (daemon_book example_daemon) a)" by (rule finite_subset) simp
    have "card (agent_pending (daemon_book example_daemon) a) \<le> card {example_request}"
      by (rule card_mono [OF _ sub]) simp
    then show "int (card (agent_pending (daemon_book example_daemon) a)) \<le> pending_cap (st_config example_setup)"
      by (simp add: example_setup_def cap)
  qed
  from pending_cap_holds [OF example_daemon_run example_ok this] show ?thesis by (simp add: within_cap_def cap)
qed

section \<open>Who may decide\<close>

text \<open>
  C4: nothing that is called on the agents' listener makes a lease or approves a request: the
  leases stay as they are, and an approved request was approved before.
\<close>

theorem agents_cannot_approve:
  assumes "daemon_ok d" and "ids_fresh (st_outside u) d"
  shows "snd (daemon_book (snd (serve u AgentListener c d))) = snd (daemon_book d) \<and>
    (\<forall>i r. fst (daemon_book (snd (serve u AgentListener c d))) i = Some r \<longrightarrow>
       req_status r = RequestApproved \<longrightarrow> fst (daemon_book d) i = Some r)"
proof (cases "daemon_book (snd (serve u AgentListener c d)) = daemon_book d")
  case False
  have "served u AgentListener c d (serve u AgentListener c d)" by (rule serve_served [OF assms])
  with False obtain a ev where l: "call_path c \<in> set (listener_routes AgentListener)"
      "may_lease (st_config u) d c a ev"
    and st: "lease_step (sc_policy (st_config u)) (daemon_book d) a (daemon_book (snd (serve u AgentListener c d)))"
    by (auto simp: served_def keeps_def auth_stepped_def stepped_def)
  have "\<nexists>l. a = Approved l"
    using l by (cases c) (auto simp: shared_routes_def agent_routes_only_def requests_def
        approves_def denies_def withdraws_def)
  with st show ?thesis by (cases rule: lease_step.cases) (auto split: if_splits)
qed auto

theorem agents_cannot_approve_witness:
  "snd (daemon_book (snd (serve example_setup AgentListener approve_call example_daemon))) ''lease_0'' =
     Some example_lease"
proof -
  have f: "ids_fresh (st_outside example_setup) example_daemon" by (simp add: example_fresh)
  show ?thesis
    using agents_cannot_approve [OF example_ok f, of approve_call]
    by (simp add: daemon_book_def example_daemon_def)
qed

section \<open>Secrets and commands\<close>







end
