(* ===== verification/Config.thy ===== *)
theory Config
  imports ControlPolicy RequestPolicy GoJson RateLimit
begin

text \<open>
  The configuration of the daemon (\<open>internal/config\<close>): its defaults, reading it from a file, the
  restrictions of the hardened profile and the normalisation every file goes through. Decoding
  the JSON text over the defaults is a parameter; whether a key is present is read off the text.
\<close>

section \<open>The sections of the configuration\<close>

record policy_config =
  pc_default_ttl_minutes :: int
  pc_min_ttl_minutes :: int
  pc_max_ttl_minutes :: int
  pc_max_secrets_per_req :: int

record request_policy_config =
  rc_identical_request_cooldown_seconds :: int
  rc_max_pending_per_agent :: int
  rc_enable_active_lease_reuse :: bool

definition default_request_policy_config :: request_policy_config where
  "default_request_policy_config =
     \<lparr>rc_identical_request_cooldown_seconds = 60, rc_max_pending_per_agent = 2,
      rc_enable_active_lease_reuse = True\<rparr>"

record auth_config =
  ac_enable_auth :: bool
  ac_operator_token :: string
  ac_allow_plaintext_secret_return :: bool
  ac_session_ttl_minutes :: int
  ac_grant_idle_timeout_minutes :: int
  ac_grant_absolute_max_minutes :: int
  ac_bootstrap_token_ttl_seconds :: int
  ac_cleanup_interval_seconds :: int
  ac_rate_limit_window_seconds :: int
  ac_rate_limit_max_attempts :: int
  ac_store_file :: string
  ac_store_encryption_key_env :: string

definition default_auth_config :: auth_config where
  "default_auth_config =
     \<lparr>ac_enable_auth = False, ac_operator_token = '''', ac_allow_plaintext_secret_return = True,
      ac_session_ttl_minutes = 10, ac_grant_idle_timeout_minutes = 480,
      ac_grant_absolute_max_minutes = 10080, ac_bootstrap_token_ttl_seconds = 60,
      ac_cleanup_interval_seconds = 60, ac_rate_limit_window_seconds = 60,
      ac_rate_limit_max_attempts = 20, ac_store_file = '''',
      ac_store_encryption_key_env = ''PROMPTLOCK_AUTH_STORE_KEY''\<rparr>"

record secret_source_config =
  so_type :: string
  so_env_prefix :: string
  so_file_path :: string
  so_external_url :: string
  so_external_auth_token_env :: string
  so_external_timeout_sec :: int
  so_in_memory_hardened :: string

definition default_secret_source_config :: secret_source_config where
  "default_secret_source_config =
     \<lparr>so_type = ''in_memory'', so_env_prefix = ''PROMPTLOCK_SECRET_'', so_file_path = '''',
      so_external_url = '''', so_external_auth_token_env = ''PROMPTLOCK_EXTERNAL_SECRET_TOKEN'',
      so_external_timeout_sec = 10, so_in_memory_hardened = ''warn''\<rparr>"

record state_store_config =
  ss_type :: string
  ss_external_url :: string
  ss_external_auth_token_env :: string
  ss_external_timeout_sec :: int

definition default_state_store_config :: state_store_config where
  "default_state_store_config =
     \<lparr>ss_type = ''file'', ss_external_url = '''',
      ss_external_auth_token_env = ''PROMPTLOCK_EXTERNAL_STATE_TOKEN'', ss_external_timeout_sec = 10\<rparr>"

record secret_entry =
  se_name :: string
  se_value :: string

text \<open>A \<open>nil\<close> map of intents resolves nothing; \<open>cf_intents\<close> is \<open>None\<close> for it.\<close>

record config =
  cf_security_profile :: string
  cf_address :: string
  cf_unix_socket :: string
  cf_agent_unix_socket :: string
  cf_operator_unix_socket :: string
  cf_agent_bridge_address :: string
  cf_audit_path :: string
  cf_state_store_file :: string
  cf_state_store :: state_store_config
  cf_policy :: policy_config
  cf_request_policy :: request_policy_config
  cf_auth :: auth_config
  cf_execution_policy :: execution_policy
  cf_host_ops_policy :: host_ops_policy
  cf_network_egress_policy :: network_egress_policy
  cf_secret_source :: secret_source_config
  cf_secrets :: "secret_entry list"
  cf_intents :: "string list go_map option"
  cf_exact_executables_configured :: bool
  cf_output_mode_configured :: bool
  cf_agent_bridge_configured :: bool

definition default_config :: config where
  "default_config =
     \<lparr>cf_security_profile = ''dev'', cf_address = ''127.0.0.1:8765'', cf_unix_socket = '''',
      cf_agent_unix_socket = '''', cf_operator_unix_socket = '''', cf_agent_bridge_address = '''',
      cf_audit_path = ''/tmp/promptlock-audit.jsonl'', cf_state_store_file = '''',
      cf_state_store = default_state_store_config,
      cf_policy = \<lparr>pc_default_ttl_minutes = default_ttl_minutes default_policy,
        pc_min_ttl_minutes = min_ttl_minutes default_policy,
        pc_max_ttl_minutes = max_ttl_minutes default_policy,
        pc_max_secrets_per_req = max_secrets_per_req default_policy\<rparr>,
      cf_request_policy = default_request_policy_config, cf_auth = default_auth_config,
      cf_execution_policy = default_execution_policy, cf_host_ops_policy = default_host_ops_policy,
      cf_network_egress_policy = default_network_egress_policy,
      cf_secret_source = default_secret_source_config, cf_secrets = [], cf_intents = Some [],
      cf_exact_executables_configured = False, cf_output_mode_configured = False,
      cf_agent_bridge_configured = False\<rparr>"

definition to_policy :: "config \<Rightarrow> policy" where
  "to_policy c =
     \<lparr>default_ttl_minutes = pc_default_ttl_minutes (cf_policy c),
      min_ttl_minutes = pc_min_ttl_minutes (cf_policy c),
      max_ttl_minutes = pc_max_ttl_minutes (cf_policy c),
      max_secrets_per_req = pc_max_secrets_per_req (cf_policy c)\<rparr>"

definition config_resolve_intent :: "config \<Rightarrow> string \<Rightarrow> gerror + string list" where
  "config_resolve_intent c intent =
     (case cf_intents c of
        None \<Rightarrow> Inl (Plain ''intent map not configured'')
      | Some m \<Rightarrow>
          (case go_get m intent of
             Some (s # ss) \<Rightarrow> Inr (s # ss)
           | _ \<Rightarrow> Inl (Plain (''unknown or empty intent: '' @ intent))))"

section \<open>Lists\<close>

text \<open>
  The loops over items share one shape: an item is trimmed and kept, unless it is blank or its
  key, its lower case, was seen.
\<close>

fun unique_loop :: "(string \<Rightarrow> string) \<Rightarrow> string list \<Rightarrow> string list \<Rightarrow> string list" where
  "unique_loop f seen [] = []"
| "unique_loop f seen (item # items) =
     (let trimmed = trim_space item in
      if trimmed = '''' then unique_loop f seen items
      else let kept = f trimmed; key = to_lower kept in
        if key \<in> set seen then unique_loop f seen items
        else kept # unique_loop f (key # seen) items)"

definition normalize_string_list :: "string list \<Rightarrow> string list" where
  "normalize_string_list items = unique_loop (\<lambda>s. s) [] items"

definition normalize_path_list :: "string list \<Rightarrow> string list" where
  "normalize_path_list items = unique_loop path_clean [] items"

definition merge_unique_strings :: "string list \<Rightarrow> string list \<Rightarrow> string list" where
  "merge_unique_strings base extras =
     base @ unique_loop (\<lambda>s. s) (filter (\<lambda>k. k \<noteq> '''') (map (\<lambda>s. to_lower (trim_space s)) base)) extras"

definition disallowed_shell :: "string \<Rightarrow> bool" where
  "disallowed_shell s \<longleftrightarrow> to_lower s \<in> {'''', ''bash'', ''sh'', ''zsh''}"

definition filter_disallowed_shells :: "string list \<Rightarrow> string list" where
  "filter_disallowed_shells items = filter (\<lambda>s. \<not> disallowed_shell s) (map trim_space items)"

section \<open>Transports\<close>

definition filled :: "string \<Rightarrow> bool" where
  "filled s \<longleftrightarrow> trim_space s \<noteq> ''''"

definition has_any_unix_socket_configured :: "config \<Rightarrow> bool" where
  "has_any_unix_socket_configured c \<longleftrightarrow>
     filled (cf_unix_socket c) \<or> filled (cf_agent_unix_socket c) \<or> filled (cf_operator_unix_socket c)"

definition uses_unix_socket_transport :: "config \<Rightarrow> bool" where
  "uses_unix_socket_transport c \<longleftrightarrow> has_any_unix_socket_configured c"

definition uses_legacy_unix_socket :: "config \<Rightarrow> bool" where
  "uses_legacy_unix_socket c \<longleftrightarrow>
     filled (cf_unix_socket c) \<and> \<not> filled (cf_agent_unix_socket c) \<and>
     \<not> filled (cf_operator_unix_socket c)"

definition uses_dual_unix_sockets :: "config \<Rightarrow> bool" where
  "uses_dual_unix_sockets c \<longleftrightarrow> filled (cf_agent_unix_socket c) \<or> filled (cf_operator_unix_socket c)"

definition default_agent_bridge_address_for :: "string \<Rightarrow> string" where
  "default_agent_bridge_address_for goos =
     (if equal_fold (trim_space goos) ''linux'' then '''' else ''127.0.0.1:0'')"

definition trim_prefix :: "string \<Rightarrow> string \<Rightarrow> string" where
  "trim_prefix s p = (if has_prefix s p then drop (length p) s else s)"

definition trim_suffix :: "string \<Rightarrow> string \<Rightarrow> string" where
  "trim_suffix s p = (if has_suffix s p then take (length s - length p) s else s)"

text \<open>\<open>isLocalAddressConfig\<close>, and the same function \<open>isLocalAddress\<close> of the daemon.\<close>

definition is_local_address :: "string \<Rightarrow> bool" where
  "is_local_address addr \<longleftrightarrow>
     (let a = trim_space addr in
      if a = '''' then False
      else
        let host = (case split_host_port a of
              Some (h, _) \<Rightarrow> h
            | None \<Rightarrow>
                if has_prefix a ''['' \<and> has_suffix a '']''
                then trim_suffix (trim_prefix a ''['') '']'' else a);
            host = to_lower (trim_space (trim_suffix (trim_prefix host ''['') '']''))
        in if host = ''localhost'' then True
           else case parse_ip host of Some ip \<Rightarrow> ip_is_loopback ip | None \<Rightarrow> False)"

section \<open>The hardened profile\<close>

definition hardened_allowlist :: "string list" where
  "hardened_allowlist =
     [''npm'', ''node'', ''go'', ''python'', ''python3'', ''pytest'', ''make'', ''git'']"

definition shell_metacharacters :: "string list" where
  "shell_metacharacters = [''&&'', ''||'', '';'', ''$('', [CHR 0x60]]"

definition harden_execution_policy :: "bool \<Rightarrow> bool \<Rightarrow> execution_policy \<Rightarrow> execution_policy" where
  "harden_execution_policy executables_configured mode_configured ep =
     ep\<lparr>ep_max_timeout_sec := min (ep_max_timeout_sec ep) 120,
        ep_default_timeout_sec := min (ep_default_timeout_sec ep) 60,
        ep_output_security_mode :=
          (if mode_configured then ep_output_security_mode ep else ''none''),
        ep_max_output_bytes := min (ep_max_output_bytes ep) 32768,
        ep_exact_match_executables := filter_disallowed_shells
          (if executables_configured
           then merge_unique_strings hardened_allowlist (ep_exact_match_executables ep)
           else hardened_allowlist),
        ep_denylist_substrings := ep_denylist_substrings ep @ shell_metacharacters\<rparr>"

definition apply_profile :: "string \<Rightarrow> config \<Rightarrow> config" where
  "apply_profile goos c =
     (if cf_security_profile c \<noteq> ''hardened'' then c
      else
        let au = cf_auth c; ne = cf_network_egress_policy c; ho = cf_host_ops_policy c;
            c = c\<lparr>cf_auth := au\<lparr>ac_allow_plaintext_secret_return := False\<rparr>,
              cf_network_egress_policy := ne\<lparr>ne_require_intent_match := True\<rparr>,
              cf_execution_policy := harden_execution_policy (cf_exact_executables_configured c)
                (cf_output_mode_configured c) (cf_execution_policy c),
              cf_host_ops_policy := ho\<lparr>ho_docker_compose_allow_verbs := [''config'', ''ps''],
                ho_docker_deny_substrings := ho_docker_deny_substrings ho @ shell_metacharacters\<rparr>\<rparr>;
            c = (if \<not> has_any_unix_socket_configured c \<and> is_local_address (cf_address c)
              then c\<lparr>cf_agent_unix_socket := ''/tmp/promptlock-agent.sock'',
                     cf_operator_unix_socket := ''/tmp/promptlock-operator.sock''\<rparr>
              else c)
        in if \<not> cf_agent_bridge_configured c \<and> uses_dual_unix_sockets c
           then c\<lparr>cf_agent_bridge_address := default_agent_bridge_address_for goos\<rparr> else c)"

section \<open>Normalisation\<close>

definition or_default :: "string \<Rightarrow> string \<Rightarrow> string" where
  "or_default d s = (if filled s then s else d)"

definition or_default_int :: "int \<Rightarrow> int \<Rightarrow> int" where
  "or_default_int d n = (if n \<le> 0 then d else n)"

definition normalize_execution_policy :: "execution_policy \<Rightarrow> execution_policy" where
  "normalize_execution_policy ep =
     (let paths = normalize_path_list (ep_command_search_paths ep) in
      ep\<lparr>ep_exact_match_executables := normalize_string_list (ep_exact_match_executables ep),
         ep_command_search_paths := (if paths = [] then default_command_search_paths else paths),
         ep_output_security_mode :=
           (if ep_output_security_mode ep \<in> {''redacted'', ''raw'', ''none''}
            then ep_output_security_mode ep else ''redacted'')\<rparr>)"

definition normalize_secret_source :: "secret_source_config \<Rightarrow> secret_source_config" where
  "normalize_secret_source so =
     (let so = so\<lparr>so_type := (if so_type so = '''' then ''in_memory'' else so_type so)\<rparr>;
          so = so\<lparr>so_env_prefix :=
            (if so_env_prefix so = '''' then ''PROMPTLOCK_SECRET_'' else so_env_prefix so)\<rparr>
      in so\<lparr>so_file_path :=
             (if so_type so = ''file'' \<and> so_file_path so = '''' then ''/etc/promptlock/secrets.json''
              else so_file_path so),
           so_external_auth_token_env :=
             or_default ''PROMPTLOCK_EXTERNAL_SECRET_TOKEN'' (so_external_auth_token_env so),
           so_external_timeout_sec := or_default_int 10 (so_external_timeout_sec so),
           so_in_memory_hardened :=
             (if so_in_memory_hardened so \<in> {''warn'', ''fail''} then so_in_memory_hardened so
              else ''warn'')\<rparr>)"

definition normalize_state_store :: "state_store_config \<Rightarrow> state_store_config" where
  "normalize_state_store ss =
     ss\<lparr>ss_type := (if ss_type ss = '''' then ''file'' else ss_type ss),
        ss_external_auth_token_env :=
          or_default ''PROMPTLOCK_EXTERNAL_STATE_TOKEN'' (ss_external_auth_token_env ss),
        ss_external_timeout_sec := or_default_int 10 (ss_external_timeout_sec ss)\<rparr>"

definition normalize_config :: "config \<Rightarrow> config" where
  "normalize_config c =
     (let au = cf_auth c; rp = cf_request_policy c in
      c\<lparr>cf_agent_bridge_address := trim_space (cf_agent_bridge_address c),
        cf_execution_policy := normalize_execution_policy (cf_execution_policy c),
        cf_secret_source := normalize_secret_source (cf_secret_source c),
        cf_state_store := normalize_state_store (cf_state_store c),
        cf_auth := au\<lparr>ac_store_encryption_key_env :=
          or_default ''PROMPTLOCK_AUTH_STORE_KEY'' (ac_store_encryption_key_env au)\<rparr>,
        cf_request_policy := rp\<lparr>
          rc_identical_request_cooldown_seconds :=
            or_default_int 60 (rc_identical_request_cooldown_seconds rp),
          rc_max_pending_per_agent := or_default_int 2 (rc_max_pending_per_agent rp)\<rparr>\<rparr>)"

section \<open>Reading a file\<close>

text \<open>What the text of the file names, besides what it decodes to.\<close>

definition reject_removed_transport_config :: "string \<Rightarrow> gerror option" where
  "reject_removed_transport_config raw =
     (case json_fields raw of
        None \<Rightarrow> None
      | Some root \<Rightarrow>
          if go_get root ''tls'' \<noteq> None
          then Some (Plain (''tls transport settings are no longer supported; use unix_socket or '' @
            ''agent_unix_socket/operator_unix_socket''))
          else None)"

definition mark_explicit_overrides :: "string \<Rightarrow> config \<Rightarrow> config" where
  "mark_explicit_overrides raw c =
     (case json_fields raw of
        None \<Rightarrow> c
      | Some root \<Rightarrow>
          (case go_get root ''execution_policy'' of
             None \<Rightarrow> c
           | Some exec_raw \<Rightarrow>
               (case json_fields exec_raw of
                  None \<Rightarrow> c
                | Some exec \<Rightarrow>
                    c\<lparr>cf_exact_executables_configured :=
                        (cf_exact_executables_configured c \<or> go_get exec ''exact_match_executables'' \<noteq> None),
                      cf_output_mode_configured :=
                        (cf_output_mode_configured c \<or> go_get exec ''output_security_mode'' \<noteq> None),
                      cf_agent_bridge_configured :=
                        (cf_agent_bridge_configured c \<or> go_get root ''agent_bridge_address'' \<noteq> None)\<rparr>)))"

text \<open>
  \<open>Load\<close>. The content of the file is \<open>Inr None\<close> when there is no file. \<open>decode\<close> is
  \<open>json.Unmarshal\<close> into the configuration given.
\<close>

definition load_config ::
  "(string \<Rightarrow> config \<Rightarrow> gerror + config) \<Rightarrow> string \<Rightarrow> string \<Rightarrow> gerror + string option \<Rightarrow> gerror + config"
where
  "load_config decode goos path content =
     (if path = '''' then Inr default_config
      else case content of
        Inl e \<Rightarrow> Inl e
      | Inr None \<Rightarrow> Inr default_config
      | Inr (Some raw) \<Rightarrow>
          if raw = '''' then Inr default_config
          else case reject_removed_transport_config raw of
            Some e \<Rightarrow> Inl e
          | None \<Rightarrow>
              (case decode raw default_config of
                 Inl e \<Rightarrow> Inl e
               | Inr c \<Rightarrow>
                   Inr (normalize_config (apply_profile goos (mark_explicit_overrides raw c)))))"

section \<open>What a normalised list holds\<close>

lemma unique_loop_keys:
  "distinct (map to_lower (unique_loop f seen items)) \<and>
   set (map to_lower (unique_loop f seen items)) \<inter> set seen = {}"
  by (induction f seen items rule: unique_loop.induct) (auto simp: Let_def)

lemma unique_loop_kept:
  "e \<in> set (unique_loop f seen items) \<Longrightarrow> \<exists>item\<in>set items. trim_space item \<noteq> '''' \<and> e = f (trim_space item)"
  by (induction f seen items rule: unique_loop.induct) (auto simp: Let_def split: if_splits)

lemma to_lower_eq_Nil [simp]: "to_lower s = '''' \<longleftrightarrow> s = ''''"
proof (cases s)
  case (Cons c cs)
  then show ?thesis
    by (auto simp: to_lower_def split: option.splits dest: special_at_Some)
qed simp

text \<open>Trimmed, not blank, and different but for case: what \<open>normalizeStringList\<close> leaves alone.\<close>

definition list_normal :: "string list \<Rightarrow> bool" where
  "list_normal xs \<longleftrightarrow> (\<forall>x\<in>set xs. trim_space x = x \<and> x \<noteq> '''') \<and> distinct (map to_lower xs)"

lemma normalize_list_normal [simp]: "list_normal (normalize_string_list items)"
  unfolding list_normal_def normalize_string_list_def
  using unique_loop_keys [of "\<lambda>s. s" "[]" items]
  by (auto dest: unique_loop_kept)

lemma unique_loop_normal:
  "list_normal xs \<Longrightarrow> set (map to_lower xs) \<inter> set seen = {} \<Longrightarrow> unique_loop (\<lambda>s. s) seen xs = xs"
  by (induction xs arbitrary: seen) (auto simp: list_normal_def Let_def)

text \<open>Normalising an allow list twice is normalising it once.\<close>

lemma normalize_list_fixed: "list_normal xs \<Longrightarrow> normalize_string_list xs = xs"
  by (simp add: normalize_string_list_def unique_loop_normal)

definition paths_normal :: "string list \<Rightarrow> bool" where
  "paths_normal xs \<longleftrightarrow> xs \<noteq> [] \<and> (\<forall>x\<in>set xs. \<exists>p. p \<noteq> '''' \<and> x = path_clean p) \<and> distinct (map to_lower xs)"

lemma normalize_paths_normal:
  "normalize_path_list items \<noteq> [] \<Longrightarrow> paths_normal (normalize_path_list items)"
  unfolding paths_normal_def normalize_path_list_def
  using unique_loop_keys [of path_clean "[]" items]
  by (auto dest: unique_loop_kept)

lemma default_paths_normal: "paths_normal default_command_search_paths"
proof -
  have "list_all (\<lambda>p. p \<noteq> '''' \<and> p = path_clean p) default_command_search_paths"
    by code_simp
  moreover have "distinct (map to_lower default_command_search_paths)" "default_command_search_paths \<noteq> []"
    by code_simp+
  ultimately show ?thesis unfolding paths_normal_def list_all_iff by blast
qed

section \<open>What loading guarantees\<close>

definition config_normal :: "config \<Rightarrow> bool" where
  "config_normal c \<longleftrightarrow>
     list_normal (ep_exact_match_executables (cf_execution_policy c)) \<and>
     paths_normal (ep_command_search_paths (cf_execution_policy c)) \<and>
     ep_output_security_mode (cf_execution_policy c) \<in> {''redacted'', ''raw'', ''none''} \<and>
     so_type (cf_secret_source c) \<noteq> '''' \<and> so_env_prefix (cf_secret_source c) \<noteq> '''' \<and>
     (so_type (cf_secret_source c) = ''file'' \<longrightarrow> so_file_path (cf_secret_source c) \<noteq> '''') \<and>
     filled (so_external_auth_token_env (cf_secret_source c)) \<and>
     0 < so_external_timeout_sec (cf_secret_source c) \<and>
     so_in_memory_hardened (cf_secret_source c) \<in> {''warn'', ''fail''} \<and>
     ss_type (cf_state_store c) \<noteq> '''' \<and>
     filled (ss_external_auth_token_env (cf_state_store c)) \<and>
     0 < ss_external_timeout_sec (cf_state_store c) \<and>
     filled (ac_store_encryption_key_env (cf_auth c)) \<and>
     0 < rc_identical_request_cooldown_seconds (cf_request_policy c) \<and>
     0 < rc_max_pending_per_agent (cf_request_policy c)"

lemma filled_or_default: "filled d \<Longrightarrow> filled (or_default d s)"
  by (simp add: or_default_def)

lemma positive_or_default: "0 < d \<Longrightarrow> 0 < or_default_int d n"
  by (simp add: or_default_int_def)

lemma filled_names:
  "filled ''PROMPTLOCK_EXTERNAL_SECRET_TOKEN''" "filled ''PROMPTLOCK_EXTERNAL_STATE_TOKEN''"
  "filled ''PROMPTLOCK_AUTH_STORE_KEY''"
  by code_simp+

lemma normalize_config_normal: "config_normal (normalize_config c)"
  by (auto simp: config_normal_def normalize_config_def Let_def normalize_execution_policy_def
      normalize_secret_source_def normalize_state_store_def filled_or_default positive_or_default
      filled_names default_paths_normal normalize_paths_normal)

lemma default_config_normal: "config_normal default_config"
proof -
  have "list_all (\<lambda>x. trim_space x = x \<and> x \<noteq> '''') (ep_exact_match_executables default_execution_policy)"
    "distinct (map to_lower (ep_exact_match_executables default_execution_policy))" by code_simp+
  then have "list_normal (ep_exact_match_executables default_execution_policy)"
    by (simp add: list_normal_def list_all_iff)
  then show ?thesis
    using default_paths_normal filled_names
    by (simp add: config_normal_def default_config_def default_execution_policy_def
        default_secret_source_config_def default_state_store_config_def default_auth_config_def
        default_request_policy_config_def)
qed

lemma load_config_cases:
  assumes "load_config decode goos path content = Inr c"
  obtains "c = default_config"
  | raw c0 where "content = Inr (Some raw)" and "decode raw default_config = Inr c0"
      and "c = normalize_config (apply_profile goos (mark_explicit_overrides raw c0))"
  using assms by (auto simp: load_config_def split: if_splits sum.splits option.splits)

text \<open>
  C36: a configuration that was loaded is well-formed: executables are trimmed and differ but for
  case, search paths are clean and there is at least one, modes are among those the code knows,
  and timeouts, the cooldown and the cap on pending requests are positive.
\<close>

theorem loaded_config_normal:
  assumes "load_config decode goos path content = Inr c"
  shows "config_normal c"
  using assms by (rule load_config_cases) (simp_all add: normalize_config_normal default_config_normal)

section \<open>What the hardened profile guarantees\<close>

lemma profile_kept [simp]:
  "cf_security_profile (normalize_config c) = cf_security_profile c"
  "cf_security_profile (apply_profile goos c) = cf_security_profile c"
  "cf_security_profile (mark_explicit_overrides raw c) = cf_security_profile c"
  by (simp_all add: normalize_config_def apply_profile_def mark_explicit_overrides_def Let_def
      split: option.split)

definition hardened_config :: "config \<Rightarrow> bool" where
  "hardened_config c \<longleftrightarrow>
     \<not> ac_allow_plaintext_secret_return (cf_auth c) \<and>
     ne_require_intent_match (cf_network_egress_policy c) \<and>
     ep_max_timeout_sec (cf_execution_policy c) \<le> 120 \<and>
     ep_default_timeout_sec (cf_execution_policy c) \<le> 60 \<and>
     ep_max_output_bytes (cf_execution_policy c) \<le> 32768 \<and>
     (\<forall>e\<in>set (ep_exact_match_executables (cf_execution_policy c)). to_lower e \<notin> {''bash'', ''sh'', ''zsh''}) \<and>
     set shell_metacharacters \<subseteq> set (ep_denylist_substrings (cf_execution_policy c)) \<and>
     set shell_metacharacters \<subseteq> set (ho_docker_deny_substrings (cf_host_ops_policy c)) \<and>
     ho_docker_compose_allow_verbs (cf_host_ops_policy c) = [''config'', ''ps''] \<and>
     (\<not> cf_output_mode_configured c \<longrightarrow> ep_output_security_mode (cf_execution_policy c) = ''none'')"

lemma normalized_member:
  "e \<in> set (normalize_string_list items) \<Longrightarrow> \<exists>item\<in>set items. e = trim_space item"
  unfolding normalize_string_list_def by (blast dest: unique_loop_kept)

lemma no_shells:
  assumes "e \<in> set (normalize_string_list (filter_disallowed_shells items))"
  shows "to_lower e \<notin> {''bash'', ''sh'', ''zsh''}"
proof -
  obtain x where "x \<in> set items" "e = trim_space x" "\<not> disallowed_shell (trim_space x)"
    using normalized_member [OF assms] by (auto simp: filter_disallowed_shells_def)
  then show ?thesis by (simp add: disallowed_shell_def)
qed

lemma apply_profile_hardens:
  assumes "cf_security_profile c = ''hardened''"
  shows "hardened_config (normalize_config (apply_profile goos c))"
proof -
  let ?d = "apply_profile goos c" and ?n = "normalize_config (apply_profile goos c)"
  have d: "\<not> ac_allow_plaintext_secret_return (cf_auth ?d)"
    "ne_require_intent_match (cf_network_egress_policy ?d)"
    "cf_execution_policy ?d = harden_execution_policy (cf_exact_executables_configured c)
      (cf_output_mode_configured c) (cf_execution_policy c)"
    "ho_docker_compose_allow_verbs (cf_host_ops_policy ?d) = [''config'', ''ps'']"
    "ho_docker_deny_substrings (cf_host_ops_policy ?d) =
      ho_docker_deny_substrings (cf_host_ops_policy c) @ shell_metacharacters"
    "cf_output_mode_configured ?d = cf_output_mode_configured c"
    using assms by (simp_all add: apply_profile_def Let_def)
  have "cf_execution_policy ?n = normalize_execution_policy (cf_execution_policy ?d)"
    "cf_network_egress_policy ?n = cf_network_egress_policy ?d"
    "cf_host_ops_policy ?n = cf_host_ops_policy ?d"
    "cf_output_mode_configured ?n = cf_output_mode_configured ?d"
    "ac_allow_plaintext_secret_return (cf_auth ?n) = ac_allow_plaintext_secret_return (cf_auth ?d)"
    by (simp_all add: normalize_config_def Let_def)
  then show ?thesis
    unfolding hardened_config_def using d no_shells
    by (auto simp: harden_execution_policy_def normalize_execution_policy_def Let_def)
qed

text \<open>
  C37: with the profile \<open>hardened\<close>, whatever else the file says, no plaintext secret is returned, an
  intent is required, timeouts and output are capped, no bare shell is on the list, shell
  metacharacters are denied, compose may only show its configuration and its processes, and
  output is withheld unless the file names a mode. A cap of the output of 0 or less is within the
  bound; the broker then captures at most its default of 64 KiB
  (\<open>effective_output_capture_limit\<close>).
\<close>

theorem hardened_file_is_restricted:
  assumes "load_config decode goos path content = Inr c" and "cf_security_profile c = ''hardened''"
  shows "hardened_config c"
  using assms(1)
proof (rule load_config_cases)
  assume "c = default_config"
  with assms(2) show ?thesis by (simp add: default_config_def)
next
  fix raw c0
  assume "c = normalize_config (apply_profile goos (mark_explicit_overrides raw c0))"
  with assms(2) show ?thesis using apply_profile_hardens by simp
qed

text \<open>
  The profile is compared exactly, so any other spelling of \<open>hardened\<close> restricts nothing: the
  configuration is the file's own, normalised.
\<close>

theorem other_spelling_hardens_nothing:
  assumes "load_config decode goos path (Inr (Some raw)) = Inr c" and "path \<noteq> ''''" and "raw \<noteq> ''''"
    and "cf_security_profile c \<noteq> ''hardened''"
  shows "\<exists>c0. decode raw default_config = Inr c0 \<and> c = normalize_config (mark_explicit_overrides raw c0)"
  using assms
  by (auto simp: load_config_def apply_profile_def Let_def split: option.splits sum.splits if_splits)

section \<open>Witnesses\<close>

text \<open>A file that names its profile and nothing else, and the decoder that reads it.\<close>

definition profile_file :: string where
  "profile_file = map (\<lambda>c. if c = CHR 0x27 then CHR 0x22 else c)
     (CHR ''{'' # CHR 0x27 # ''security_profile'' @ CHR 0x27 # CHR '':'' # CHR 0x27 # ''hardened'' @
      [CHR 0x27, CHR ''}''])"

definition decode_profile :: "string \<Rightarrow> string \<Rightarrow> config \<Rightarrow> gerror + config" where
  "decode_profile name raw c = Inr (c\<lparr>cf_security_profile := name\<rparr>)"

lemma profile_file_loads:
  "\<exists>c. load_config (decode_profile name) goos ''/etc/promptlock/config.json'' (Inr (Some profile_file)) = Inr c \<and>
     cf_security_profile c = name"
proof -
  have "reject_removed_transport_config profile_file = None" "profile_file \<noteq> ''''" by code_simp+
  then show ?thesis by (simp add: load_config_def decode_profile_def)
qed

theorem loaded_config_normal_witness:
  "config_normal (normalize_config (apply_profile ''linux'' (mark_explicit_overrides profile_file
     (default_config\<lparr>cf_security_profile := ''hardened''\<rparr>))))"
proof -
  have "reject_removed_transport_config profile_file = None" "profile_file \<noteq> ''''" by code_simp+
  then show ?thesis
    by (intro loaded_config_normal [of "decode_profile ''hardened''" "''linux''" "''/x''" "Inr (Some profile_file)"])
      (simp add: load_config_def decode_profile_def)
qed

theorem hardened_file_is_restricted_witness:
  "\<exists>c. load_config (decode_profile ''hardened'') ''linux'' ''/etc/promptlock/config.json''
     (Inr (Some profile_file)) = Inr c \<and> \<not> ac_allow_plaintext_secret_return (cf_auth c)"
proof -
  obtain c where l: "load_config (decode_profile ''hardened'') ''linux'' ''/etc/promptlock/config.json''
      (Inr (Some profile_file)) = Inr c" and p: "cf_security_profile c = ''hardened''"
    using profile_file_loads [of "''hardened''" "''linux''"] by blast
  from hardened_file_is_restricted [OF l p] l show ?thesis by (auto simp: hardened_config_def)
qed

theorem other_spelling_hardens_nothing_witness:
  "\<exists>c. load_config (decode_profile ''Hardened'') ''linux'' ''/etc/promptlock/config.json''
     (Inr (Some profile_file)) = Inr c \<and> ac_allow_plaintext_secret_return (cf_auth c)"
proof -
  obtain c where l: "load_config (decode_profile ''Hardened'') ''linux'' ''/etc/promptlock/config.json''
      (Inr (Some profile_file)) = Inr c" and p: "cf_security_profile c = ''Hardened''"
    using profile_file_loads [of "''Hardened''" "''linux''"] by blast
  have ne: "profile_file \<noteq> ''''" by code_simp
  have "\<exists>c0. decode_profile ''Hardened'' profile_file default_config = Inr c0 \<and>
      c = normalize_config (mark_explicit_overrides profile_file c0)"
    by (rule other_spelling_hardens_nothing [OF l _ ne]) (simp_all add: p)
  moreover have "ac_allow_plaintext_secret_return (cf_auth (normalize_config k)) \<longleftrightarrow>
      ac_allow_plaintext_secret_return (cf_auth k)" for k
    by (simp add: normalize_config_def Let_def)
  moreover have "cf_auth (mark_explicit_overrides profile_file k) = cf_auth k" for k
    by (simp add: mark_explicit_overrides_def split: option.split)
  ultimately have "ac_allow_plaintext_secret_return (cf_auth c)"
    by (auto simp: decode_profile_def default_config_def default_auth_config_def)
  with l show ?thesis by blast
qed

end
