(* ===== verification/EnvPath.thy ===== *)
theory EnvPath
  imports AuditChain Service
begin

text \<open>
  Secrets from a \<open>.env\<close> file inside a configured directory
  (\<open>internal/adapters/envpath/store.go\<close>): where a path may lead, how the file is read, and which
  of its values answer a request. Working directory, symbolic links, \<open>Stat\<close> and \<open>Open\<close> are the
  operating system's; the last two may see another state of the files than the call before.
\<close>

section \<open>The operating system\<close>

text \<open>
  An open file: whether it is a directory, whether it can be rewound, and the bytes it yields
  until its end or a read error.
\<close>

record open_file =
  of_is_dir :: "gerror + bool"
  of_seek :: "gerror option"
  of_bytes :: string
  of_read_error :: "gerror option"

record 'w env_files =
  ef_paths :: "'w os_path"
  ef_stat :: "string \<Rightarrow> 'w \<Rightarrow> (gerror + bool) \<times> 'w"
  ef_open :: "string \<Rightarrow> 'w \<Rightarrow> (gerror + open_file) \<times> 'w"

section \<open>Paths\<close>

definition canonical_path :: "'w os_path \<Rightarrow> string \<Rightarrow> 'w \<Rightarrow> gerror + string" where
  "canonical_path os path w =
     (case path_abs os (trim_space path) w of
        Inl e \<Rightarrow> Inl e
      | Inr abs_path \<Rightarrow>
          (case os_eval_symlinks os abs_path w of
             Inl e \<Rightarrow> Inl e
           | Inr resolved \<Rightarrow> Inr (path_clean resolved)))"

definition within_root :: "string \<Rightarrow> string \<Rightarrow> bool" where
  "within_root root targ \<longleftrightarrow>
     (if path_clean root = path_clean targ then True
      else case path_rel root targ of
        Inl _ \<Rightarrow> False
      | Inr rel \<Rightarrow>
          let rel = path_clean rel in
          if rel = ''.'' then True
          else if rel = ''..'' then False
          else \<not> has_prefix rel ''../'')"

definition new_env_path_store :: "'w env_files \<Rightarrow> string \<Rightarrow> 'w \<Rightarrow> (gerror + string) \<times> 'w" where
  "new_env_path_store os root w =
     (let trimmed = trim_space root in
      if trimmed = '''' then (Inl (Plain ''env-path store requires non-empty root''), w)
      else case canonical_path (ef_paths os) trimmed w of
        Inl e \<Rightarrow> (Inl (Wrapped e (''resolve env-path root: '' @ err_msg e)), w)
      | Inr canonical_root \<Rightarrow>
          (case ef_stat os canonical_root w of
             (Inl e, w) \<Rightarrow>
               (Inl (Wrapped e (''stat env-path root '' @ quote canonical_root @ '': '' @ err_msg e)), w)
           | (Inr is_dir, w) \<Rightarrow>
               if \<not> is_dir
               then (Inl (Plain (''env-path root '' @ quote canonical_root @ '' is not a directory'')), w)
               else (Inr canonical_root, w)))"

definition resolve_target_path :: "'w env_files \<Rightarrow> string \<Rightarrow> string \<Rightarrow> 'w \<Rightarrow> gerror + string" where
  "resolve_target_path os root env_path w =
     (let trimmed = trim_space env_path in
      if trimmed = '''' then Inl (Plain ''env path is required'')
      else
        let candidate = (if is_abs trimmed then trimmed else path_join [root, trimmed]) in
        case canonical_path (ef_paths os) candidate w of
          Inl e \<Rightarrow> Inl (Wrapped e (''resolve env path '' @ quote trimmed @ '': '' @ err_msg e))
        | Inr targ \<Rightarrow>
            if \<not> within_root root targ
            then Inl (Plain (''env path '' @ quote trimmed @ '' resolves outside allowed root''))
            else Inr targ)"

definition store_canonicalize ::
  "'w env_files \<Rightarrow> string \<Rightarrow> string \<Rightarrow> 'w \<Rightarrow> (gerror + string) \<times> 'w" where
  "store_canonicalize os root env_path w =
     (case resolve_target_path os root env_path w of
        Inl e \<Rightarrow> (Inl e, w)
      | Inr targ \<Rightarrow>
          (case ef_stat os targ w of
             (Inl e, w) \<Rightarrow> (Inl (Wrapped e (''stat env file '' @ quote targ @ '': '' @ err_msg e)), w)
           | (Inr is_dir, w) \<Rightarrow>
               if is_dir then (Inl (Plain (''env path '' @ quote targ @ '' is a directory'')), w)
               else (Inr targ, w)))"

section \<open>The file\<close>

text \<open>
  A value between quotes loses them. Both kinds are tried one after the other, so what is left of
  the first may be one single quote, which then counts as a quoted text of length 1: the slice
  \<open>value[1:0]\<close> panics. The panic is the error value \<open>quote_panic\<close>.
\<close>

definition quote_panic :: gerror where
  "quote_panic = Plain ''panic: runtime error: slice bounds out of range [1:0]''"

definition strip_quotes :: "char \<Rightarrow> string \<Rightarrow> gerror + string" where
  "strip_quotes q v =
     (if has_prefix v [q] \<and> has_suffix v [q]
      then (if length v < 2 then Inl quote_panic else Inr (butlast (tl v)))
      else Inr v)"

definition unquote_value :: "string \<Rightarrow> gerror + string" where
  "unquote_value v =
     (if length v < 2 then Inr v
      else case strip_quotes (CHR 0x22) v of
        Inl e \<Rightarrow> Inl e
      | Inr v \<Rightarrow> strip_quotes (CHR 0x27) v)"

definition dotenv_line :: "nat \<Rightarrow> string \<Rightarrow> string \<Rightarrow> gerror" where
  "dotenv_line n before_msg after_msg = Plain (before_msg @ show_nat n @ after_msg)"

text \<open>One line that is neither blank nor a comment: its key and its value.\<close>

definition dotenv_entry :: "nat \<Rightarrow> string \<Rightarrow> gerror + (string \<times> string)" where
  "dotenv_entry n line =
     (case cut line (CHR ''='') of
        (key_part, value_part, found) \<Rightarrow>
          if \<not> found then Inl (dotenv_line n ''dotenv line '' ('' missing '' @ [CHR 0x27, CHR ''='', CHR 0x27]))
          else
            let key = trim_space key_part in
            if key = '''' then Inl (dotenv_line n ''dotenv line '' '' has empty key'')
            else case unquote_value (trim_space value_part) of
              Inl e \<Rightarrow> Inl e
            | Inr v \<Rightarrow> Inr (key, v))"

text \<open>
  The lines, up to the first one that does not fit the buffer of the scanner; \<open>pre\<close> is what is done
  to a line first, \<open>what\<close> begins the message of a failed read.
\<close>

fun dotenv_loop ::
  "(string \<Rightarrow> string) \<Rightarrow> string \<Rightarrow> nat \<Rightarrow> string go_map \<Rightarrow> string list \<Rightarrow> gerror + string go_map" where
  "dotenv_loop pre what n vals [] = Inr vals"
| "dotenv_loop pre what n vals (raw # rest) =
     (if line_too_long raw
      then Inl (Plain (what @ ''bufio.Scanner: token too long''))
      else
        let line = trim_space (drop_cr raw) in
        if line = '''' \<or> has_prefix line ''#'' then dotenv_loop pre what (n + 1) vals rest
        else case dotenv_entry (n + 1) (pre line) of
          Inl e \<Rightarrow> Inl e
        | Inr (k, v) \<Rightarrow> dotenv_loop pre what (n + 1) (go_set vals k v) rest)"

definition drop_export :: "string \<Rightarrow> string" where
  "drop_export line =
     (if has_prefix line ''export '' then trim_space (drop (length ''export '') line) else line)"

definition parse_dot_env :: "open_file \<Rightarrow> gerror + string go_map" where
  "parse_dot_env f =
     (case of_seek f of
        Some e \<Rightarrow> Inl (Wrapped e (''seek env file: '' @ err_msg e))
      | None \<Rightarrow>
          (case dotenv_loop drop_export ''read env file: '' 0 [] (content_lines (of_bytes f)) of
             Inl e \<Rightarrow> Inl e
           | Inr vals \<Rightarrow>
               (case of_read_error f of
                  Some e \<Rightarrow> Inl (Wrapped e (''read env file: '' @ err_msg e))
                | None \<Rightarrow> if vals = [] then Inl (Plain ''env file is empty'') else Inr vals)))"

section \<open>Requested values\<close>

fun requested_loop :: "string list \<Rightarrow> string list \<Rightarrow> string list" where
  "requested_loop out [] = out"
| "requested_loop out (key # keys) =
     (let trimmed = trim_space key in
      if trimmed = '''' then requested_loop out keys
      else if trimmed \<in> set out then requested_loop out keys
      else requested_loop (out @ [trimmed]) keys)"

definition normalize_requested_keys :: "string list \<Rightarrow> gerror + string list" where
  "normalize_requested_keys keys =
     (let out = requested_loop [] keys in
      if out = [] then Inl (Plain ''requested keys are required'') else Inr out)"

definition lookup_secret_value :: "string go_map \<Rightarrow> string \<Rightarrow> string option" where
  "lookup_secret_value parsed key =
     (case go_get parsed key of
        Some v \<Rightarrow> Some v
      | None \<Rightarrow>
          (case go_get parsed (to_upper key) of
             Some v \<Rightarrow> Some v
           | None \<Rightarrow> go_get parsed (to_lower key)))"

fun lookup_loop ::
  "string go_map \<Rightarrow> string go_map \<Rightarrow> string list \<Rightarrow> string list \<Rightarrow> string go_map \<times> string list" where
  "lookup_loop parsed resolved missing [] = (resolved, missing)"
| "lookup_loop parsed resolved missing (key # keys) =
     (case lookup_secret_value parsed key of
        Some v \<Rightarrow> lookup_loop parsed (go_set resolved key v) missing keys
      | None \<Rightarrow> lookup_loop parsed resolved (missing @ [key]) keys)"

definition store_resolve ::
  "'w env_files \<Rightarrow> string \<Rightarrow> string \<Rightarrow> string list \<Rightarrow> 'w \<Rightarrow> (gerror + string go_map \<times> string) \<times> 'w"
where
  "store_resolve os root env_path requested w =
     (case normalize_requested_keys requested of
        Inl e \<Rightarrow> (Inl e, w)
      | Inr keys \<Rightarrow>
          (case store_canonicalize os root env_path w of
             (Inl e, w) \<Rightarrow> (Inl e, w)
           | (Inr targ, w) \<Rightarrow>
               (case ef_open os targ w of
                  (Inl e, w) \<Rightarrow>
                    (Inl (Wrapped e (''open env file '' @ quote targ @ '': '' @ err_msg e)), w)
                | (Inr f, w) \<Rightarrow>
                    ((case of_is_dir f of
                       Inl e \<Rightarrow> Inl (Wrapped e (''stat env file '' @ quote targ @ '': '' @ err_msg e))
                     | Inr is_dir \<Rightarrow>
                         if is_dir then Inl (Plain (''env path '' @ quote targ @ '' is a directory''))
                         else case parse_dot_env f of
                           Inl e \<Rightarrow>
                             Inl (Wrapped e (''parse env file '' @ quote targ @ '': '' @ err_msg e))
                         | Inr parsed \<Rightarrow>
                             (case lookup_loop parsed [] [] keys of
                                (resolved, missing) \<Rightarrow>
                                  if missing \<noteq> []
                                  then Inl (Plain (''requested keys missing from env file: '' @
                                         join '', '' missing))
                                  else Inr (resolved, targ))), w))))"

text \<open>The adapter as a port of the service.\<close>

definition env_path_adapter :: "'w env_files \<Rightarrow> string \<Rightarrow> 'w env_path_secret_store" where
  "env_path_adapter os root =
     \<lparr>eps_canonicalize = store_canonicalize os root, eps_resolve = store_resolve os root\<rparr>"

section \<open>Inside the root\<close>

lemma clean_parts_up:
  "''..'' \<notin> set ts \<Longrightarrow>
     clean_parts False (replicate k ''..'') (replicate n ''..'' @ ts) = rev ts @ replicate (n + k) ''..''"
proof (induction n arbitrary: k)
  case (Suc n)
  then show ?case
    using Suc.IH [of "Suc k"] by (cases k) simp_all
qed (simp add: clean_parts_no_dots)

lemma path_rel_clean:
  assumes "path_rel a b = Inr rel" and "is_abs a" and "is_abs b"
  shows "path_clean rel = rel"
proof (cases "path_clean a = path_clean b")
  case True
  then have "rel = ''.''" using assms(1) by (simp add: path_rel_def)
  moreover have "path_clean ''.'' = ''.''" by code_simp
  ultimately show ?thesis by simp
next
  case False
  obtain bs ts where st: "strip_common (components a) (components b) = (bs, ts)" by fastforce
  then obtain zs where z: "components a = zs @ bs" "components b = zs @ ts"
    using strip_common_spec by blast
  let ?cs = "replicate (length bs) ''..'' @ ts"
  have r: "rel = join ''/'' ?cs"
    using assms False st by (auto simp: path_rel_def Let_def split: if_splits)
  have ne: "?cs \<noteq> []" using False z assms(2,3) by (auto simp: path_clean_eq_iff)
  have ok: "\<forall>x\<in>set ?cs. part_ok x"
    using components_ok [of _ b] z(2) by (auto simp: part_ok_def)
  have nd: "''..'' \<notin> set ts" using components_rooted [OF assms(3)] z(2) by simp
  have rp: "rel = path_of False ?cs" using r ne by (simp add: path_of_def)
  have "path_parts rel = ?cs" unfolding r by (rule path_parts_join [OF ok])
  moreover have na: "is_abs rel = False" unfolding rp by (rule is_abs_path_of [OF ok])
  ultimately have "components rel = ?cs"
    using clean_parts_up [OF nd, of 0 "length bs"] by (simp add: components_def)
  with na rp show ?thesis by (simp add: path_clean_def)
qed

lemma within_root_iff:
  assumes "is_abs root" and "is_abs targ"
  shows "within_root root targ \<longleftrightarrow> prefix (components root) (components targ)"
proof (cases "path_clean root = path_clean targ")
  case True
  then show ?thesis using assms by (simp add: within_root_def path_clean_eq_iff)
next
  case False
  then have ne: "components root \<noteq> components targ" using assms by (simp add: path_clean_eq_iff)
  show ?thesis
  proof (rule path_rel_abs [OF assms])
    fix rel assume r: "path_rel root targ = Inr rel" and d: "rel = ''.'' \<longleftrightarrow> components root = components targ"
      and l: "leaves_root rel \<longleftrightarrow> \<not> prefix (components root) (components targ)"
    show ?thesis
      using False ne r d l path_rel_clean [OF r assms] by (auto simp: within_root_def leaves_root_def)
  qed
qed

text \<open>The operating system answers with absolute paths.\<close>

definition absolute_os :: "'w os_path \<Rightarrow> bool" where
  "absolute_os os \<longleftrightarrow>
     (\<forall>w d. os_getwd os w = Inr d \<longrightarrow> is_abs d) \<and>
     (\<forall>p w q. is_abs p \<longrightarrow> os_eval_symlinks os p w = Inr q \<longrightarrow> is_abs q)"

lemma joined_is_abs:
  assumes "is_abs d" shows "is_abs (path_join [d, p])"
proof -
  have "d \<noteq> ''''" using assms by (auto simp: is_abs_def has_prefix_def)
  moreover have "is_abs (d @ s)" for s
    using assms by (auto simp: is_abs_def has_prefix_iff)
  ultimately show ?thesis using assms by (simp add: path_join_def Let_def)
qed

lemma path_abs_is_abs:
  "absolute_os os \<Longrightarrow> path_abs os p w = Inr q \<Longrightarrow> is_abs q"
  by (auto simp: path_abs_def absolute_os_def joined_is_abs split: if_splits sum.splits)

lemma canonical_path_ok:
  assumes "absolute_os os" and "canonical_path os p w = Inr q"
  shows "is_abs q \<and> (\<exists>a r. path_abs os (trim_space p) w = Inr a \<and> os_eval_symlinks os a w = Inr r \<and>
    q = path_clean r \<and> is_abs r)"
proof -
  obtain a r where "path_abs os (trim_space p) w = Inr a" "os_eval_symlinks os a w = Inr r" "q = path_clean r"
    using assms(2) by (auto simp: canonical_path_def split: sum.splits)
  moreover from this have "is_abs r"
    using path_abs_is_abs [OF assms(1)] assms(1) unfolding absolute_os_def by blast
  ultimately show ?thesis by auto
qed

lemma new_store_root:
  assumes "new_env_path_store os root0 w = (Inr root, w')" and "absolute_os (ef_paths os)"
  shows "is_abs root"
proof -
  have "canonical_path (ef_paths os) (trim_space root0) w = Inr root"
    using assms(1) by (auto simp: new_env_path_store_def Let_def split: if_splits sum.splits prod.splits)
  with canonical_path_ok [OF assms(2)] show ?thesis by blast
qed

lemma resolve_target_inside:
  assumes "resolve_target_path os root env_path w = Inr targ" and "is_abs root"
    and "absolute_os (ef_paths os)"
  shows "is_abs targ \<and> prefix (components root) (components targ) \<and>
    (\<exists>a r. os_eval_symlinks (ef_paths os) a w = Inr r \<and> targ = path_clean r)"
proof -
  obtain cand where c: "canonical_path (ef_paths os) cand w = Inr targ" and i: "within_root root targ"
    using assms(1) by (auto simp: resolve_target_path_def Let_def split: if_splits sum.splits)
  with canonical_path_ok [OF assms(3) c] within_root_iff [OF assms(2)] show ?thesis by blast
qed

lemma canonicalize_target:
  "store_canonicalize os root env_path w = (Inr targ, w') \<Longrightarrow> resolve_target_path os root env_path w = Inr targ"
  by (auto simp: store_canonicalize_def split: sum.splits prod.splits if_splits)

text \<open>
  To speak of what is opened, the operating system is given a second component of its state, the
  list of the paths that \<open>Open\<close> was called with; its answers stay the same.
\<close>

definition traced :: "'w env_files \<Rightarrow> ('w \<times> string list) env_files" where
  "traced os =
     \<lparr>ef_paths = \<lparr>os_getwd = \<lambda>w. os_getwd (ef_paths os) (fst w),
        os_eval_symlinks = \<lambda>p w. os_eval_symlinks (ef_paths os) p (fst w)\<rparr>,
      ef_stat = \<lambda>p (w, ps). (case ef_stat os p w of (x, w) \<Rightarrow> (x, w, ps)),
      ef_open = \<lambda>p (w, ps). (case ef_open os p w of (x, w) \<Rightarrow> (x, w, ps @ [p]))\<rparr>"

lemma traced_simps [simp]:
  "os_getwd (ef_paths (traced os)) (w, ps) = os_getwd (ef_paths os) w"
  "os_eval_symlinks (ef_paths (traced os)) p (w, ps) = os_eval_symlinks (ef_paths os) p w"
  "ef_stat (traced os) p (w, ps) = (case ef_stat os p w of (x, w) \<Rightarrow> (x, w, ps))"
  "ef_open (traced os) p (w, ps) = (case ef_open os p w of (x, w) \<Rightarrow> (x, w, ps @ [p]))"
  by (simp_all add: traced_def)

lemma canonical_traced: "canonical_path (ef_paths (traced os)) p (w, ps) = canonical_path (ef_paths os) p w"
  by (simp add: canonical_path_def path_abs_def split: sum.split)

lemma resolve_target_traced:
  "resolve_target_path (traced os) root env_path (w, ps) = resolve_target_path os root env_path w"
  by (simp add: resolve_target_path_def canonical_traced Let_def)

lemma canonicalize_traced:
  "store_canonicalize (traced os) root env_path (w, ps) =
     (case store_canonicalize os root env_path w of (x, w) \<Rightarrow> (x, w, ps))"
proof (cases "resolve_target_path os root env_path w")
  case (Inr targ)
  then show ?thesis
    by (cases "ef_stat os targ w"; cases "fst (ef_stat os targ w)")
      (simp_all add: store_canonicalize_def resolve_target_traced)
qed (simp add: store_canonicalize_def resolve_target_traced)

lemma resolve_traced:
  assumes "store_resolve (traced os) root env_path requested (w, ps) = (x, w', opened)"
  shows "store_resolve os root env_path requested w = (x, w') \<and>
     (opened = ps \<or> (\<exists>targ w1. store_canonicalize os root env_path w = (Inr targ, w1) \<and> opened = ps @ [targ]))"
proof (cases "normalize_requested_keys requested")
  case (Inl e)
  with assms show ?thesis by (simp add: store_resolve_def)
next
  case (Inr keys)
  obtain c w1 where c: "store_canonicalize os root env_path w = (c, w1)" by fastforce
  show ?thesis
  proof (cases c)
    case (Inl e)
    with assms Inr c show ?thesis by (simp add: store_resolve_def canonicalize_traced)
  next
    case targ: (Inr targ)
    obtain f w2 where "ef_open os targ w1 = (f, w2)" by fastforce
    with assms Inr c targ show ?thesis by (cases f) (auto simp: store_resolve_def canonicalize_traced)
  qed
qed

text \<open>
  C38: whatever path is asked for, the adapter opens at most one file, and this file, like every path
  it names as canonical, lies inside its root: it is what following the symbolic links of a path
  ended in, and its elements extend those of the root.
\<close>

theorem env_file_inside_root:
  assumes "new_env_path_store os root0 w0 = (Inr root, w1)" and "absolute_os (ef_paths os)"
    and "store_resolve (traced os) root env_path requested (w, []) = (x, w', opened)"
    and "inside = (\<lambda>p. prefix (components root) (components p) \<and>
      (\<exists>a r. os_eval_symlinks (ef_paths os) a w = Inr r \<and> p = path_clean r))"
  shows "length opened \<le> 1 \<and> (\<forall>p\<in>set opened. inside p) \<and>
    store_resolve os root env_path requested w = (x, w') \<and>
    (\<forall>targ w2. store_canonicalize os root env_path w = (Inr targ, w2) \<longrightarrow> inside targ)"
proof -
  have i: "inside targ" if "store_canonicalize os root env_path w = (Inr targ, w2)" for targ w2
    using resolve_target_inside [OF canonicalize_target [OF that] new_store_root [OF assms(1,2)] assms(2)]
    unfolding assms(4) by blast
  from resolve_traced [OF assms(3)] show ?thesis using i by auto
qed

section \<open>What a request is answered with\<close>

lemma requested_loop_set:
  "set (requested_loop out keys) = set out \<union> {trim_space k | k. k \<in> set keys \<and> trim_space k \<noteq> ''''}"
  by (induction out keys rule: requested_loop.induct) (auto simp: Let_def)

lemma lookup_loop_spec:
  "lookup_loop parsed resolved missing keys = (vals, gone) \<Longrightarrow>
     gone = missing @ filter (\<lambda>k. lookup_secret_value parsed k = None) keys \<and>
     (\<forall>k. go_get vals k =
        (if k \<in> set keys \<and> lookup_secret_value parsed k \<noteq> None then lookup_secret_value parsed k
         else go_get resolved k))"
proof (induction parsed resolved missing keys rule: lookup_loop.induct)
  case (2 parsed resolved missing key keys)
  show ?case
  proof (cases "lookup_secret_value parsed key")
    case None
    with 2 show ?thesis by auto
  next
    case (Some v)
    then have "lookup_loop parsed (go_set resolved key v) missing keys = (vals, gone)"
      using "2.prems" by simp
    from "2.IH"(2) [OF Some this] Some show ?thesis by auto
  qed
qed simp

text \<open>What the answer to a request for the keys \<open>ks\<close> says of the file it was read from.\<close>

definition answered_from :: "open_file \<Rightarrow> string list \<Rightarrow> string go_map \<Rightarrow> bool" where
  "answered_from f requested vals \<longleftrightarrow>
     (\<exists>parsed. parse_dot_env f = Inr parsed \<and>
        (\<forall>k. go_get vals k =
           (if \<exists>r\<in>set requested. k = trim_space r \<and> k \<noteq> '''' then lookup_secret_value parsed k else None)) \<and>
        (\<forall>r\<in>set requested. trim_space r \<noteq> '''' \<longrightarrow> lookup_secret_value parsed (trim_space r) \<noteq> None))"

lemma resolve_from_file:
  assumes "store_resolve os root env_path requested w = (Inr (vals, targ), w')"
  shows "\<exists>w1 f. store_canonicalize os root env_path w = (Inr targ, w1) \<and>
    ef_open os targ w1 = (Inr f, w') \<and> of_is_dir f = Inr False \<and> answered_from f requested vals"
proof -
  obtain keys w1 f parsed gone where n: "normalize_requested_keys requested = Inr keys"
    and c: "store_canonicalize os root env_path w = (Inr targ, w1)" "ef_open os targ w1 = (Inr f, w')"
    and f: "of_is_dir f = Inr False" "parse_dot_env f = Inr parsed"
    and l: "lookup_loop parsed [] [] keys = (vals, gone)" "gone = []"
    using assms by (auto simp: store_resolve_def split: sum.splits prod.splits if_splits)
  have keys: "set keys = {trim_space k | k. k \<in> set requested \<and> trim_space k \<noteq> ''''}"
    using n requested_loop_set [of "[]" requested]
    by (auto simp: normalize_requested_keys_def Let_def split: if_splits)
  have "filter (\<lambda>k. lookup_secret_value parsed k = None) keys = []"
    and v: "\<forall>k. go_get vals k =
      (if k \<in> set keys \<and> lookup_secret_value parsed k \<noteq> None then lookup_secret_value parsed k
       else go_get [] k)"
    using lookup_loop_spec [OF l(1)] l(2) by simp_all
  then have g: "\<forall>k\<in>set keys. lookup_secret_value parsed k \<noteq> None"
    by (simp add: filter_empty_conv)
  have "answered_from f requested vals"
    unfolding answered_from_def
  proof (intro exI [of _ parsed] conjI allI ballI impI)
    fix k
    show "go_get vals k = (if \<exists>r\<in>set requested. k = trim_space r \<and> k \<noteq> '''' then lookup_secret_value parsed k else None)"
      using v g keys by (cases "k \<in> set keys") auto
  next
    fix r assume "r \<in> set requested" "trim_space r \<noteq> ''''"
    then show "lookup_secret_value parsed (trim_space r) \<noteq> None" using g keys by blast
  qed (rule f(2))
  with c f show ?thesis by blast
qed

text \<open>
  C39: an answered request was read from a file inside the root: every requested name that is not
  blank has a value, namely the one the file gives for the name as it is, or in upper case, or in
  lower case; and nothing that was not requested is handed out.
\<close>

theorem env_file_answers_request:
  assumes "new_env_path_store os root0 w0 = (Inr root, w1)" and "absolute_os (ef_paths os)"
    and "store_resolve os root env_path requested w = (Inr (vals, targ), w')"
  shows "prefix (components root) (components targ) \<and>
    (\<exists>w1 f. ef_open os targ w1 = (Inr f, w') \<and> of_is_dir f = Inr False \<and> answered_from f requested vals)"
proof -
  obtain w2 f where f: "store_canonicalize os root env_path w = (Inr targ, w2)"
      "ef_open os targ w2 = (Inr f, w')" "of_is_dir f = Inr False" "answered_from f requested vals"
    using resolve_from_file [OF assms(3)] by blast
  from resolve_target_inside [OF canonicalize_target [OF f(1)] new_store_root [OF assms(1,2)] assms(2)]
  show ?thesis using f by blast
qed

text \<open>
  A line whose value is an apostrophe between double quotes makes the parser slice a text of
  length 1 from 1 to 0: the broker panics on a file that an agent names.
\<close>

theorem quoted_apostrophe_panics:
  assumes "trim_space value = [CHR 0x22, CHR 0x27, CHR 0x22]" and "CHR ''='' \<notin> set key"
    and "trim_space key \<noteq> ''''"
  shows "dotenv_entry n (key @ CHR ''='' # value) = Inl quote_panic"
proof -
  have "cut (key @ CHR ''='' # value) (CHR ''='') = (key, value, True)"
    using assms(2) by (simp add: cut_found)
  with assms show ?thesis
    by (simp add: dotenv_entry_def unquote_value_def strip_quotes_def has_prefix_def has_suffix_def)
qed

section \<open>Witnesses\<close>

text \<open>One directory with one file in it.\<close>

definition env_file_bytes :: string where
  "env_file_bytes = ''# demo'' @ [new_line] @ ''export DB_URL='' @ [CHR 0x22] @ ''postgres://'' @
     [CHR 0x22, new_line] @ ''OTHER=1'' @ [new_line]"

definition one_file :: "unit env_files" where
  "one_file =
     \<lparr>ef_paths = \<lparr>os_getwd = \<lambda>_. Inr ''/work'', os_eval_symlinks = \<lambda>p _. Inr p\<rparr>,
      ef_stat = \<lambda>p w. (Inr (p = ''/work''), w),
      ef_open = \<lambda>p w. (Inr \<lparr>of_is_dir = Inr False, of_seek = None, of_bytes = env_file_bytes,
        of_read_error = None\<rparr>, w)\<rparr>"

lemma one_file_absolute: "absolute_os (ef_paths one_file)"
proof -
  have "is_abs ''/work''" by code_simp
  then show ?thesis by (simp add: absolute_os_def one_file_def)
qed

lemma line_too_long_code [code]: "line_too_long line \<longleftrightarrow> 65536 \<le> int (length line)"
  by (simp add: line_too_long_def max_scan_token_size_def)

lemma one_file_answers:
  "new_env_path_store one_file '' /work '' () = (Inr ''/work'', ())"
  "store_canonicalize one_file ''/work'' ''app/.env'' () = (Inr ''/work/app/.env'', ())"
  "store_resolve one_file ''/work'' ''app/.env'' [''db_url''] () =
     (Inr ([(''db_url'', ''postgres://'')], ''/work/app/.env''), ())"
  by code_simp+

lemma one_file_opens:
  "store_resolve (traced one_file) ''/work'' ''app/.env'' [''db_url''] ((), []) =
     (Inr ([(''db_url'', ''postgres://'')], ''/work/app/.env''), (), [''/work/app/.env''])"
  by code_simp

theorem env_file_inside_root_witness:
  "prefix (components ''/work'') (components ''/work/app/.env'') \<and>
   store_resolve one_file ''/work'' ''app/.env'' [''db_url''] () =
     (Inr ([(''db_url'', ''postgres://'')], ''/work/app/.env''), ())"
  using env_file_inside_root [OF one_file_answers(1) one_file_absolute one_file_opens refl] by simp

theorem env_file_answers_request_witness:
  "prefix (components ''/work'') (components ''/work/app/.env'') \<and>
   (\<exists>f. answered_from f [''db_url''] [(''db_url'', ''postgres://'')])"
  using env_file_answers_request [OF one_file_answers(1) one_file_absolute one_file_answers(3)] by blast

theorem quoted_apostrophe_panics_witness:
  "dotenv_entry 1 (''KEY='' @ [CHR 0x22, CHR 0x27, CHR 0x22]) = Inl quote_panic"
proof -
  have "trim_space [CHR 0x22, CHR 0x27, CHR 0x22] = [CHR 0x22, CHR 0x27, CHR 0x22]"
    "trim_space ''KEY'' \<noteq> ''''" by code_simp+
  then show ?thesis
    using quoted_apostrophe_panics [of "[CHR 0x22, CHR 0x27, CHR 0x22]" "''KEY''" 1] by simp
qed

end
