(* ===== verification/LaunchEnv.thy ===== *)
theory LaunchEnv
  imports EnvPath RequestPolicy
begin

text \<open>
  Environment files: the file a launched MCP server is given its variables in
  (\<open>internal/mcplaunchenv/envfile.go\<close>, printed by the client and parsed by the launcher), and the
  decrypted SOPS file the daemon completes its own environment with
  (\<open>internal/sopsenv/loader.go\<close>, \<open>cmd/promptlockd/sops_env.go\<close>).
\<close>

section \<open>The file of a launched server\<close>

definition file_path_from_env :: "(string \<Rightarrow> string) option \<Rightarrow> string" where
  "file_path_from_env getenv =
     (case getenv of
        None \<Rightarrow> ''/run/promptlock/promptlock-mcp.env''
      | Some get \<Rightarrow>
          let override = trim_space (get ''PROMPTLOCK_MCP_ENV_FILE'') in
          if override \<noteq> '''' then override else ''/run/promptlock/promptlock-mcp.env'')"

fun parse_env_loop :: "nat \<Rightarrow> string go_map \<Rightarrow> string list \<Rightarrow> gerror + string go_map" where
  "parse_env_loop i vals [] = Inr vals"
| "parse_env_loop i vals (raw # rest) =
     (let line = trim_space raw in
      if line = '''' \<or> has_prefix line ''#'' then parse_env_loop (i + 1) vals rest
      else case cut line (CHR ''='') of
        (name, value, found) \<Rightarrow>
          if \<not> found \<or> trim_space name = ''''
          then Inl (Plain (''line '' @ show_nat (i + 1) @ '' is not KEY=VALUE''))
          else parse_env_loop (i + 1) (go_set vals (trim_space name) value) rest)"

definition parse_env_file :: "string \<Rightarrow> gerror + string go_map" where
  "parse_env_file data = parse_env_loop 0 [] (split_char new_line data)"

text \<open>The keys of the given order first, each line refused when its value breaks it.\<close>

fun ordered_lines ::
  "string go_map \<Rightarrow> string list \<Rightarrow> string list \<Rightarrow> string list \<Rightarrow> gerror + string list \<times> string list" where
  "ordered_lines vals ls seen [] = Inr (ls, seen)"
| "ordered_lines vals ls seen (key # order) =
     (let key = trim_space key in
      if key = '''' then ordered_lines vals ls seen order
      else case go_get vals key of
        None \<Rightarrow> ordered_lines vals ls seen order
      | Some value \<Rightarrow>
          if contains value [new_line] then Inl (Plain (key @ '' contains newline''))
          else ordered_lines vals (ls @ [key @ ''='' @ value]) (key # seen) order)"

fun extra_lines :: "string go_map \<Rightarrow> string list \<Rightarrow> string list \<Rightarrow> gerror + string list" where
  "extra_lines vals ls [] = Inr ls"
| "extra_lines vals ls (key # keys) =
     (let value = (case go_get vals key of None \<Rightarrow> '''' | Some v \<Rightarrow> v) in
      if contains value [new_line] then Inl (Plain (key @ '' contains newline''))
      else extra_lines vals (ls @ [key @ ''='' @ value]) keys)"

definition format_env_file :: "string go_map \<Rightarrow> string list \<Rightarrow> gerror + string" where
  "format_env_file vals order =
     (if vals = [] then Inl (Plain ''wrapper MCP env values are required'')
      else case ordered_lines vals [] [] order of
        Inl e \<Rightarrow> Inl e
      | Inr (ls, seen) \<Rightarrow>
          (case extra_lines vals ls (sort (filter (\<lambda>k. k \<notin> set seen) (map fst vals))) of
             Inl e \<Rightarrow> Inl e
           | Inr ls \<Rightarrow> Inr (join [new_line] ls @ [new_line])))"

section \<open>What is printed is read back\<close>

text \<open>
  An entry that survives: its name has no blank at its ends, no equals sign and no line break, and
  does not begin a comment; its value does not end in a blank, which the parser would take off.
\<close>

definition entry_ok :: "string \<Rightarrow> string \<Rightarrow> bool" where
  "entry_ok k v \<longleftrightarrow>
     trim_space k = k \<and> k \<noteq> '''' \<and> CHR ''='' \<notin> set k \<and> new_line \<notin> set k \<and> \<not> has_prefix k ''#'' \<and>
     trim_space (k @ ''='' @ v) = k @ ''='' @ v"

abbreviation value_line :: "string go_map \<Rightarrow> string \<Rightarrow> string" where
  "value_line vals k \<equiv> k @ ''='' @ the (go_get vals k)"

lemma contains_char: "contains v [c] \<longleftrightarrow> c \<in> set v"
  by (auto simp: contains_iff in_set_conv_decomp)

lemma ordered_lines_ok:
  "ordered_lines vals ls seen order = Inr (ls', seen') \<Longrightarrow>
     \<exists>ks. ls' = ls @ map (value_line vals) ks \<and> set seen' = set ks \<union> set seen \<and>
       (\<forall>k\<in>set ks. \<exists>v. go_get vals k = Some v \<and> new_line \<notin> set v)"
proof (induction vals ls seen order rule: ordered_lines.induct)
  case (2 vals ls seen key order)
  let ?k = "trim_space key"
  consider "?k = '''' \<or> go_get vals ?k = None" | v where "?k \<noteq> ''''" "go_get vals ?k = Some v" by fastforce
  then show ?case
  proof cases
    case 1
    then have "ordered_lines vals ls seen order = Inr (ls', seen')"
      using "2.prems" by (cases "?k = ''''") (simp_all add: Let_def)
    with 1 "2.IH"(1,2) [OF refl] show ?thesis by auto
  next
    case (2 v)
    have n: "\<not> contains v [new_line]"
      and r: "ordered_lines vals (ls @ [value_line vals ?k]) (?k # seen) order = Inr (ls', seen')"
      using "2.prems" 2 by (auto simp: Let_def split: if_splits)
    obtain ks where "ls' = (ls @ [value_line vals ?k]) @ map (value_line vals) ks"
        "set seen' = set ks \<union> set (?k # seen)"
        "\<forall>k\<in>set ks. \<exists>v. go_get vals k = Some v \<and> new_line \<notin> set v"
      using "2.IH"(3) [OF refl 2(1,2) n] r 2(2) by auto
    moreover have "new_line \<notin> set v" using n by (simp add: contains_char)
    ultimately show ?thesis using 2(2) by (intro exI [of _ "?k # ks"]) auto
  qed
qed simp

lemma extra_lines_ok:
  "extra_lines vals ls keys = Inr ls' \<Longrightarrow> (\<forall>k\<in>set keys. go_get vals k \<noteq> None) \<Longrightarrow>
     ls' = ls @ map (value_line vals) keys \<and>
     (\<forall>k\<in>set keys. \<exists>v. go_get vals k = Some v \<and> new_line \<notin> set v)"
proof (induction vals ls keys rule: extra_lines.induct)
  case (2 vals ls key keys)
  then obtain v where v: "go_get vals key = Some v" by auto
  with "2.prems" have n: "\<not> contains v [new_line]" by (auto split: if_splits)
  moreover have "new_line \<notin> set v" using n by (simp add: contains_char)
  ultimately show ?case using 2 v by (auto simp: Let_def)
qed simp

lemma parse_lines:
  assumes "\<forall>k\<in>set ks. entry_ok k (the (go_get vals k))"
  shows "parse_env_loop i acc (map (value_line vals) ks @ ['''']) =
    Inr (foldl (\<lambda>m k. go_set m k (the (go_get vals k))) acc ks)"
  using assms
proof (induction ks arbitrary: i acc)
  case (Cons k ks)
  then have e: "entry_ok k (the (go_get vals k))" by simp
  then have t: "trim_space (value_line vals k) = value_line vals k" "trim_space k = k" "k \<noteq> ''''"
    and c: "cut (value_line vals k) (CHR ''='') = (k, the (go_get vals k), True)"
    by (auto simp: entry_ok_def cut_found)
  have h: "\<not> has_prefix (value_line vals k) ''#''"
    using e by (cases k) (auto simp: entry_ok_def has_prefix_def)
  show ?case using Cons t c h by (simp add: Let_def)
qed simp

lemma foldl_go_set:
  "go_get (foldl (\<lambda>m k. go_set m k (f k)) acc ks) k = (if k \<in> set ks then Some (f k) else go_get acc k)"
  by (induction ks arbitrary: acc) auto

lemma split_joined_lines:
  assumes "\<forall>l\<in>set ls. new_line \<notin> set l" and "ls \<noteq> []"
  shows "split_char new_line (join [new_line] ls @ [new_line]) = ls @ ['''']"
proof -
  have "join [new_line] ls @ [new_line] = join [new_line] (ls @ [''''])"
    using assms(2) by (simp add: join_append_nonempty)
  with assms show ?thesis by (simp add: split_char_join)
qed

lemma formatted_file_parses:
  assumes "format_env_file vals order = Inr text" and "wf_map vals"
    and "\<forall>k v. go_get vals k = Some v \<longrightarrow> entry_ok k v"
  shows "\<exists>vals'. parse_env_file text = Inr vals' \<and> go_get vals' = go_get vals"
proof -
  obtain ls seen ls' where o: "ordered_lines vals [] [] order = Inr (ls, seen)"
    and x: "extra_lines vals ls (sort (filter (\<lambda>k. k \<notin> set seen) (map fst vals))) = Inr ls'"
    and t: "text = join [new_line] ls' @ [new_line]" and ne: "vals \<noteq> []"
    using assms(1) by (auto simp: format_env_file_def split: if_splits sum.splits)
  let ?extra = "sort (filter (\<lambda>k. k \<notin> set seen) (map fst vals))"
  have dom: "go_get vals k \<noteq> None \<longleftrightarrow> k \<in> set (map fst vals)" for k
    using go_get_mem [OF assms(2)] by force
  obtain ks where ks: "ls = map (value_line vals) ks" "set seen = set ks"
      "\<forall>k\<in>set ks. \<exists>v. go_get vals k = Some v \<and> new_line \<notin> set v"
    using ordered_lines_ok [OF o] by auto
  have "\<forall>k\<in>set ?extra. go_get vals k \<noteq> None"
  proof
    fix k assume "k \<in> set ?extra"
    then have "k \<in> set (map fst vals)" by simp
    then show "go_get vals k \<noteq> None" using dom [of k] by blast
  qed
  then have ls': "ls' = map (value_line vals) (ks @ ?extra)"
    and ex: "\<forall>k\<in>set ?extra. \<exists>v. go_get vals k = Some v \<and> new_line \<notin> set v"
    using extra_lines_ok [OF x] ks(1) by simp_all
  have all: "\<forall>k\<in>set (ks @ ?extra). \<exists>v. go_get vals k = Some v \<and> new_line \<notin> set v"
    using ks(3) ex by auto
  then have ok: "\<forall>k\<in>set (ks @ ?extra). entry_ok k (the (go_get vals k))" using assms(3) by fastforce
  have "\<forall>l\<in>set ls'. new_line \<notin> set l"
  proof
    fix l assume "l \<in> set ls'"
    then obtain k where k: "k \<in> set (ks @ ?extra)" "l = value_line vals k" unfolding ls' by auto
    then obtain v where "go_get vals k = Some v" "new_line \<notin> set v" using all by blast
    moreover have "new_line \<notin> set k" using ok k(1) by (simp add: entry_ok_def)
    ultimately show "new_line \<notin> set l" using k(2) by (simp add: new_line_def)
  qed
  moreover have cover: "k \<in> set (ks @ ?extra) \<longleftrightarrow> go_get vals k \<noteq> None" for k
    using ks(2) ks(3) dom [of k] by auto
  moreover have "ls' \<noteq> []"
  proof -
    obtain k v where "(k, v) \<in> set vals" using ne by (cases vals) auto
    then have "k \<in> set (ks @ ?extra)" using cover dom by force
    then have "ks @ ?extra \<noteq> []" by (metis empty_iff list.set(1))
    then show ?thesis unfolding ls' by (simp only: map_is_Nil_conv not_False_eq_True)
  qed
  ultimately have s: "split_char new_line text = ls' @ ['''']"
    unfolding t by (intro split_joined_lines)
  let ?m = "foldl (\<lambda>m k. go_set m k (the (go_get vals k))) [] (ks @ ?extra)"
  have "parse_env_file text = Inr ?m"
    unfolding parse_env_file_def s ls' by (rule parse_lines [OF ok])
  moreover have "go_get ?m = go_get vals"
  proof
    fix k
    show "go_get ?m k = go_get vals k"
      using cover [of k] unfolding foldl_go_set by auto
  qed
  ultimately show ?thesis by blast
qed

text \<open>
  C40: a file that was printed is parsed to the same variables, whatever the order of the lines, when
  the names and values are ones the format can hold.
\<close>

theorem env_file_round_trip:
  assumes "format_env_file vals order = Inr text" and "wf_map vals"
    and "\<forall>k v. go_get vals k = Some v \<longrightarrow> entry_ok k v"
  shows "\<exists>vals'. parse_env_file text = Inr vals' \<and> go_get vals' = go_get vals"
  by (rule formatted_file_parses [OF assms])

theorem env_file_round_trip_witness:
  "\<exists>vals. parse_env_file (''B=2'' @ [new_line] @ ''A=x y'' @ [new_line]) = Inr vals \<and>
     go_get vals ''A'' = Some ''x y''"
proof -
  let ?v = "[(''A'', ''x y''), (''B'', ''2'')]"
  have f: "format_env_file ?v [''B''] = Inr (''B=2'' @ [new_line] @ ''A=x y'' @ [new_line])"
    and ok: "entry_ok ''A'' ''x y''" "entry_ok ''B'' ''2''"
    by code_simp+
  have "wf_map ?v" by (simp add: wf_map_def)
  moreover have "\<forall>k v. go_get ?v k = Some v \<longrightarrow> entry_ok k v"
    using ok by (auto split: if_splits)
  ultimately have "\<exists>vals'. parse_env_file (''B=2'' @ [new_line] @ ''A=x y'' @ [new_line]) = Inr vals' \<and>
      go_get vals' = go_get ?v"
    by (rule env_file_round_trip [OF f])
  then show ?thesis by auto
qed

section \<open>The decrypted SOPS file\<close>

text \<open>
  The file is decrypted by the program \<open>sops\<close>, a parameter. Its payload is a JSON object of strings
  or a dotenv file; the decoder of a JSON object into its values is a parameter too, where \<open>None\<close>
  stands for a value that is no string. A Go map is walked in the order of the list.
\<close>

record 'w sops_outside =
  sx_decrypt :: "string \<Rightarrow> 'w \<Rightarrow> (gerror + string) \<times> 'w"
  sx_decode :: "string \<Rightarrow> gerror + string option go_map"

fun json_values :: "string go_map \<Rightarrow> string option go_map \<Rightarrow> gerror + string go_map" where
  "json_values out [] = Inr out"
| "json_values out ((key, value) # raw) =
     (let trimmed = trim_space key in
      if trimmed = '''' then Inl (Plain ''json payload contains empty env key'')
      else case value of
        None \<Rightarrow> Inl (Plain (''json payload value for '' @ trimmed @ '' must be string''))
      | Some v \<Rightarrow> json_values (go_set out trimmed v) raw)"

definition parse_decrypted_payload :: "'w sops_outside \<Rightarrow> string \<Rightarrow> gerror + string go_map" where
  "parse_decrypted_payload sx data =
     (let trimmed = trim_space data in
      if trimmed = '''' then Inl (Plain ''decrypted payload is empty'')
      else if hd trimmed = CHR ''{'' then
        (case sx_decode sx trimmed of
           Inl e \<Rightarrow> Inl (Wrapped e (''json object decode failed: '' @ err_msg e))
         | Inr raw \<Rightarrow>
             if raw = [] then Inl (Plain ''json object payload is empty'') else json_values [] raw)
      else
        (case dotenv_loop (\<lambda>line. line) ''read dotenv payload: '' 0 [] (content_lines trimmed) of
           Inl e \<Rightarrow> Inl e
         | Inr out \<Rightarrow> if out = [] then Inl (Plain ''dotenv payload is empty'') else Inr out))"

text \<open>
  The environment of the process is a map. \<open>Setenv\<close> refuses a name with \<open>=\<close> or a zero byte, and a
  value with a zero byte.
\<close>

definition setenv_ok :: "string \<Rightarrow> string \<Rightarrow> bool" where
  "setenv_ok key value \<longleftrightarrow>
     key \<noteq> '''' \<and> CHR ''='' \<notin> set key \<and> CHR 0x00 \<notin> set key \<and> CHR 0x00 \<notin> set value"

fun set_missing :: "string \<Rightarrow> string go_map \<Rightarrow> string go_map \<Rightarrow> gerror + string go_map" where
  "set_missing path env [] = Inr env"
| "set_missing path env ((key, value) # rest) =
     (if go_get env key \<noteq> None then set_missing path env rest
      else if \<not> setenv_ok key value
      then Inl (Plain (''set env '' @ key @ '' from sops file '' @ path @ '': setenv: invalid argument''))
      else set_missing path (go_set env key value) rest)"

definition getenv :: "string go_map \<Rightarrow> string \<Rightarrow> string" where
  "getenv env key = (case go_get env key of None \<Rightarrow> '''' | Some v \<Rightarrow> v)"

fun first_missing :: "string go_map \<Rightarrow> string list \<Rightarrow> string option" where
  "first_missing env [] = None"
| "first_missing env (r # rest) =
     (let key = trim_space r in
      if key = '''' then first_missing env rest
      else if trim_space (getenv env key) = '''' then Some key else first_missing env rest)"

definition load_sops_file ::
  "'w sops_outside \<Rightarrow> string \<Rightarrow> string list \<Rightarrow> string go_map \<Rightarrow> 'w \<Rightarrow> (gerror + string go_map) \<times> 'w" where
  "load_sops_file sx path required env w =
     (let trimmed = trim_space path in
      if trimmed = '''' then (Inr env, w)
      else case sx_decrypt sx trimmed w of
        (Inl e, w) \<Rightarrow> (Inl e, w)
      | (Inr decrypted, w) \<Rightarrow>
          ((case parse_decrypted_payload sx decrypted of
             Inl e \<Rightarrow> Inl (Wrapped e (''parse decrypted sops env '' @ trimmed @ '': '' @ err_msg e))
           | Inr vals \<Rightarrow>
               (case set_missing trimmed env vals of
                  Inl e \<Rightarrow> Inl e
                | Inr env \<Rightarrow>
                    (case first_missing env required of
                       Some key \<Rightarrow>
                         Inl (Plain (''required env '' @ key @ '' missing after loading sops file '' @ trimmed))
                     | None \<Rightarrow> Inr env))), w))"

lemma set_missing_spec:
  "set_missing path env vals = Inr env' \<Longrightarrow>
     go_get env' k = (case go_get env k of Some v \<Rightarrow> Some v | None \<Rightarrow> go_get vals k)"
  by (induction path env vals rule: set_missing.induct) (auto split: option.splits if_splits)

text \<open>What the environment already had is never replaced.\<close>

lemma sops_keeps_environment:
  assumes "load_sops_file sx path required env w = (Inr env', w')" and "go_get env k = Some v"
  shows "go_get env' k = Some v"
  using assms set_missing_spec
  by (auto simp: load_sops_file_def Let_def split: if_splits sum.splits prod.splits option.splits)

end
