(* ===== verification/Backends.thy ===== *)
theory Backends
  imports MemoryStore NetAddr Base64 LaunchEnv
begin

text \<open>
  The adapters that are not the default: secrets from the environment
  (\<open>internal/adapters/envsecret\<close>), from a file (\<open>internal/adapters/filesecret\<close>) or from a service
  (\<open>internal/adapters/externalsecret\<close>), and requests and leases kept by a service
  (\<open>internal/adapters/externalstate\<close>). The HTTP client and the JSON texts of the structs are
  parameters; what is asked, and what is made of an answer, is the adapters' own.
\<close>

section \<open>Secrets from the environment\<close>

definition new_env_secret_store :: "string \<Rightarrow> string" where
  "new_env_secret_store pre =
     (let p = trim_space pre in if p = '''' then ''PROMPTLOCK_SECRET_'' else p)"

definition env_get_secret :: "string \<Rightarrow> string go_map \<Rightarrow> string \<Rightarrow> gerror + string" where
  "env_get_secret pre env name =
     (let key = pre @ to_upper (trim_space name) in
      case go_get env key of
        Some v \<Rightarrow>
          if trim_space v = ''''
          then Inl (Plain (''secret '' @ quote name @ '' not found in env source ('' @ key @ '')''))
          else Inr v
      | None \<Rightarrow> Inl (Plain (''secret '' @ quote name @ '' not found in env source ('' @ key @ '')'')))"

section \<open>Secrets from a file\<close>

record file_secret_store =
  fs_path :: string
  fs_data :: "string go_map"

text \<open>\<open>Reload\<close> keeps the data it had when the file cannot be read or decoded.\<close>

definition reload ::
  "(string \<Rightarrow> gerror + string go_map) \<Rightarrow> gerror + string \<Rightarrow> file_secret_store \<Rightarrow>
   gerror option \<times> file_secret_store" where
  "reload decode content st =
     (case content of
        Inl e \<Rightarrow> (Some (Wrapped e (''read secret file: '' @ err_msg e)), st)
      | Inr b \<Rightarrow>
          (case decode b of
             Inl e \<Rightarrow> (Some (Wrapped e (''parse secret file: '' @ err_msg e)), st)
           | Inr m \<Rightarrow> (None, st\<lparr>fs_data := m\<rparr>)))"

definition new_file_secret_store ::
  "(string \<Rightarrow> gerror + string go_map) \<Rightarrow> (string \<Rightarrow> 'w \<Rightarrow> (gerror + string) \<times> 'w) \<Rightarrow> string \<Rightarrow> 'w \<Rightarrow>
   (gerror + file_secret_store) \<times> 'w" where
  "new_file_secret_store decode read_file path w =
     (let p = trim_space path in
      if p = '''' then (Inl (Plain ''file secret source requires non-empty file path''), w)
      else case read_file p w of
        (content, w) \<Rightarrow>
          (case reload decode content \<lparr>fs_path = p, fs_data = []\<rparr> of
             (Some e, _) \<Rightarrow> (Inl e, w)
           | (None, st) \<Rightarrow> (Inr st, w)))"

definition file_get_secret :: "file_secret_store \<Rightarrow> string \<Rightarrow> gerror + string" where
  "file_get_secret st name =
     (case go_get (fs_data st) (trim_space name) of
        Some v \<Rightarrow>
          if trim_space v = '''' then Inl (Plain (''secret '' @ quote name @ '' not found in file source''))
          else Inr v
      | None \<Rightarrow> Inl (Plain (''secret '' @ quote name @ '' not found in file source'')))"

section \<open>URLs\<close>

text \<open>
  Scheme and host of \<open>url.Parse(s)\<close>, \<open>None\<close> for an error, as \<open>url_hostname\<close> reads the host name.
\<close>

definition url_host_text :: "string \<Rightarrow> string" where
  "url_host_text host =
     (if CHR ''['' \<in> set host then host
      else case unescape True host of Some h \<Rightarrow> h | None \<Rightarrow> '''')"

definition url_parts :: "string \<Rightarrow> (string \<times> string) option" where
  "url_parts raw =
     (let (u, frag, _) = cut raw (CHR ''#'') in
      if list_ex (\<lambda>c. byte c < 32 \<or> byte c = 127) u \<or> unescape False frag = None then None
      else if u = ''*'' then Some ('''', '''')
      else case scheme_loop u '''' u of
        None \<Rightarrow> None
      | Some (scheme, rest) \<Rightarrow>
          let (rest, _, _) = cut rest (CHR ''?'') in
          if \<not> has_prefix rest ''/'' \<and> scheme \<noteq> '''' then Some (to_lower scheme, '''')
          else if \<not> has_prefix rest ''/'' \<and> CHR '':'' \<in> set (takeWhile (\<lambda>c. c \<noteq> CHR ''/'') rest)
          then None
          else if has_prefix rest ''//'' \<and> (scheme \<noteq> '''' \<or> \<not> has_prefix rest ''///'') then
            let authority = takeWhile (\<lambda>c. c \<noteq> CHR ''/'') (drop 2 rest);
                path = drop (length authority + 2) rest;
                (userinfo, host) = (case before_last (CHR ''@'') authority of
                    None \<Rightarrow> ('''', authority) | Some (user, h) \<Rightarrow> (user, h))
            in if \<not> list_all userinfo_char userinfo \<or> unescape False userinfo = None \<or>
                  unescape False path = None \<or> parse_host_name host = None then None
               else Some (to_lower scheme, url_host_text host)
          else if unescape False rest = None then None else Some (to_lower scheme, ''''))"

text \<open>\<open>url.PathEscape\<close>: a byte a path segment may not hold is written in two hex digits.\<close>

definition segment_char :: "char \<Rightarrow> bool" where
  "segment_char c \<longleftrightarrow> alpha c \<or> dec_digit c \<or> c \<in> set ''-_.~$&+=:@''"

definition upper_hex :: "nat \<Rightarrow> char" where
  "upper_hex n = (if n < 10 then char_of (48 + n) else char_of (55 + n))"

definition escape_byte :: "char \<Rightarrow> string" where
  "escape_byte c =
     (if segment_char c then [c] else [CHR ''%'', upper_hex (byte c div 16), upper_hex (byte c mod 16)])"

definition path_escape :: "string \<Rightarrow> string" where
  "path_escape s = concat (map escape_byte s)"

section \<open>A service over HTTP\<close>

record http_exchange =
  hx_method :: string
  hx_url :: string
  hx_headers :: "(string \<times> string) list"
  hx_body :: "string option"
  hx_timeout :: int

text \<open>
  The client: whether a URL makes a request, the exchange with the status and the body that was
  read, and the standard text of a status. \<open>hc_endpoint\<close> is the text of a parsed base URL without
  query, fragment and final slash.
\<close>

record 'w http_client =
  hc_endpoint :: "string \<Rightarrow> string"
  hc_check_url :: "string \<Rightarrow> gerror option"
  hc_do :: "http_exchange \<Rightarrow> 'w \<Rightarrow> (gerror + int \<times> (gerror + string)) \<times> 'w"
  hc_status_text :: "int \<Rightarrow> string"

record external_store =
  xs_base_endpoint :: string
  xs_auth_token_env_var :: string
  xs_timeout :: int

text \<open>
  \<open>New\<close> of both services; \<open>what\<close> is how the messages call it. The text of a parse error of the
  library is left out of the message.
\<close>

definition new_external_store ::
  "string \<Rightarrow> 'w http_client \<Rightarrow> string \<Rightarrow> string \<Rightarrow> int \<Rightarrow> gerror + external_store" where
  "new_external_store what cl base_url token_env timeout_seconds =
     (let raw = trim_space base_url in
      if raw = '''' then Inl (Plain (what @ '' requires non-empty base URL''))
      else case url_parts raw of
        None \<Rightarrow> Inl (Plain (''invalid '' @ what @ '' base URL '' @ quote base_url))
      | Some (scheme, host) \<Rightarrow>
          if scheme = '''' \<or> host = '''' then Inl (Plain (''invalid '' @ what @ '' base URL '' @ quote base_url))
          else if scheme \<noteq> ''http'' \<and> scheme \<noteq> ''https''
          then Inl (Plain (''unsupported '' @ what @ '' URL scheme '' @ quote scheme @
                 '' (expected http or https)''))
          else
            let timeout = dur_mult timeout_seconds second;
                timeout = (if timeout \<le> 0 then 10 * second else timeout)
            in Inr \<lparr>xs_base_endpoint = hc_endpoint cl raw, xs_auth_token_env_var = trim_space token_env,
                 xs_timeout = timeout\<rparr>)"

definition ok_status :: "int \<Rightarrow> bool" where
  "ok_status n \<longleftrightarrow> 200 \<le> n \<and> n \<le> 299"

text \<open>The bearer token of a service, read from the environment at every call.\<close>

definition bearer_headers :: "external_store \<Rightarrow> string go_map \<Rightarrow> (string \<times> string) list option" where
  "bearer_headers st env =
     (if xs_auth_token_env_var st = '''' then Some []
      else
        let token = trim_space (getenv env (xs_auth_token_env_var st)) in
        if token = '''' then None else Some [(''Authorization'', ''Bearer '' @ token)])"

section \<open>Secrets from a service\<close>

definition secret_url :: "external_store \<Rightarrow> string \<Rightarrow> string" where
  "secret_url st name = xs_base_endpoint st @ ''/v1/secrets/'' @ path_escape name"

definition secret_body ::
  "(string \<Rightarrow> gerror + string) \<Rightarrow> int \<Rightarrow> string \<Rightarrow> gerror + string" where
  "secret_body parse_value status body =
     (let trimmed = trim_space body in
      if \<not> ok_status status
      then Inl (Plain (''external secret source returned status '' @ itoa status @
             (if trimmed = '''' then '''' else '': '' @ trimmed)))
      else if trimmed = '''' then Inl (Plain ''external secret source returned empty secret value'')
      else if has_prefix trimmed ''{'' then
        (case parse_value trimmed of
           Inl e \<Rightarrow> Inl (Wrapped e (''parse external secret JSON response: '' @ err_msg e))
         | Inr v \<Rightarrow>
             if trim_space v = ''''
             then Inl (Plain ''external secret source returned empty secret value'') else Inr v)
      else Inr body)"

definition external_get_secret ::
  "'w http_client \<Rightarrow> (string \<Rightarrow> gerror + string) \<Rightarrow> external_store \<Rightarrow> string go_map \<Rightarrow> 'w secret_store"
where
  "external_get_secret cl parse_value st env name w =
     (let secret_name = trim_space name in
      if secret_name = '''' then (Inl (Plain ''secret name is required''), w)
      else
        let url = secret_url st secret_name in
        case hc_check_url cl url of
          Some e \<Rightarrow> (Inl (Wrapped e (''build external secret request: '' @ err_msg e)), w)
        | None \<Rightarrow>
            (case bearer_headers st env of
               None \<Rightarrow>
                 (Inl (Plain (''external secret auth token env '' @ xs_auth_token_env_var st @ '' is empty'')), w)
             | Some headers \<Rightarrow>
                 (case hc_do cl \<lparr>hx_method = ''GET'', hx_url = url, hx_headers = headers, hx_body = None,
                      hx_timeout = xs_timeout st\<rparr> w of
                    (Inl e, w) \<Rightarrow> (Inl (Wrapped e (''request external secret source: '' @ err_msg e)), w)
                  | (Inr (status, Inl e), w) \<Rightarrow>
                      (Inl (Wrapped e (''read external secret response: '' @ err_msg e)), w)
                  | (Inr (status, Inr body), w) \<Rightarrow> (secret_body parse_value status body, w))))"

section \<open>Requests and leases kept by a service\<close>

record state_codec =
  xc_request_json :: "lease_request \<Rightarrow> gerror + string"
  xc_parse_request :: "string \<Rightarrow> gerror + lease_request"
  xc_lease_json :: "lease \<Rightarrow> gerror + string"
  xc_parse_lease :: "string \<Rightarrow> gerror + lease"
  xc_parse_pending :: "string \<Rightarrow> gerror + lease_request list option"

definition unavailable :: "gerror \<Rightarrow> gerror" where
  "unavailable e = the (wrap_store_unavailable (Some e))"

lemma unavailable_is [simp]: "err_is (unavailable e) ErrStoreUnavailable"
  by (simp add: unavailable_def wrap_store_unavailable_def)

definition request_url :: "external_store \<Rightarrow> string \<Rightarrow> string" where
  "request_url st i = xs_base_endpoint st @ ''/v1/state/requests/'' @ path_escape i"

definition pending_requests_url :: "external_store \<Rightarrow> string" where
  "pending_requests_url st = xs_base_endpoint st @ ''/v1/state/requests/pending''"

definition lease_url :: "external_store \<Rightarrow> string \<Rightarrow> string" where
  "lease_url st t = xs_base_endpoint st @ ''/v1/state/leases/'' @ path_escape t"

definition lease_by_request_url :: "external_store \<Rightarrow> string \<Rightarrow> string" where
  "lease_by_request_url st i = xs_base_endpoint st @ ''/v1/state/leases/by-request/'' @ path_escape i"

text \<open>
  \<open>send\<close>, up to the decoding of the body: what the service answered, or why there is no answer.
  \<open>wants\<close> is whether the caller decodes the body; \<open>not_found\<close> is \<open>''''\<close> where a missing entry is
  no case of its own.
\<close>

definition state_answer ::
  "'w http_client \<Rightarrow> bool \<Rightarrow> string \<Rightarrow> gerror + int \<times> (gerror + string) \<Rightarrow> gerror + string" where
  "state_answer cl wants not_found r =
     (case r of
        Inl e \<Rightarrow> Inl (unavailable (Wrapped e (''request external state backend: '' @ err_msg e)))
      | Inr (status, Inl e) \<Rightarrow>
          Inl (unavailable (Wrapped e (''read external state response: '' @ err_msg e)))
      | Inr (status, Inr body) \<Rightarrow>
          if status = 404 \<and> not_found \<noteq> '''' then Inl (Plain not_found)
          else if \<not> ok_status status
          then Inl (unavailable (Plain (''external state backend returned status '' @ itoa status @ '': '' @
                 (if trim_space body = '''' then hc_status_text cl status else trim_space body))))
          else if wants \<and> trim_space body = ''''
          then Inl (unavailable (Plain ''external state backend returned empty response body''))
          else Inr body)"

definition state_send ::
  "'w http_client \<Rightarrow> external_store \<Rightarrow> string go_map \<Rightarrow> string \<Rightarrow> string \<Rightarrow> (gerror + string) option \<Rightarrow>
   bool \<Rightarrow> string \<Rightarrow> 'w \<Rightarrow> (gerror + string) \<times> 'w" where
  "state_send cl st env meth url payload wants not_found w =
     (case (case payload of None \<Rightarrow> Inr None | Some (Inl e) \<Rightarrow> Inl e | Some (Inr b) \<Rightarrow> Inr (Some b)) of
        Inl e \<Rightarrow> (Inl e, w)
      | Inr body \<Rightarrow>
          (case hc_check_url cl url of
             Some e \<Rightarrow> (Inl (unavailable (Wrapped e (''build external state request: '' @ err_msg e))), w)
           | None \<Rightarrow>
               (case bearer_headers st env of
                  None \<Rightarrow>
                    (Inl (unavailable (Plain (''external state auth token env '' @
                       xs_auth_token_env_var st @ '' is empty''))), w)
                | Some auth \<Rightarrow>
                    (case hc_do cl \<lparr>hx_method = meth, hx_url = url,
                         hx_headers = [(''Accept'', ''application/json'')] @
                           (if body = None then [] else [(''Content-Type'', ''application/json'')]) @ auth,
                         hx_body = body, hx_timeout = xs_timeout st\<rparr> w of
                       (r, w) \<Rightarrow> (state_answer cl wants not_found r, w)))))"

definition state_parsed :: "(string \<Rightarrow> gerror + 'a) \<Rightarrow> (gerror + string) \<times> 'w \<Rightarrow> (gerror + 'a) \<times> 'w" where
  "state_parsed parse r =
     (case r of
        (Inl e, w) \<Rightarrow> (Inl e, w)
      | (Inr body, w) \<Rightarrow>
          (case parse body of
             Inl e \<Rightarrow> (Inl (unavailable (Wrapped e (''parse external state response: '' @ err_msg e))), w)
           | Inr x \<Rightarrow> (Inr x, w)))"

definition state_done :: "(gerror + string) \<times> 'w \<Rightarrow> gerror option \<times> 'w" where
  "state_done r = (case r of (Inl e, w) \<Rightarrow> (Some e, w) | (Inr _, w) \<Rightarrow> (None, w))"

definition ext_save_request ::
  "'w http_client \<Rightarrow> state_codec \<Rightarrow> external_store \<Rightarrow> string go_map \<Rightarrow> lease_request \<Rightarrow> 'w \<Rightarrow>
   gerror option \<times> 'w" where
  "ext_save_request cl xc st env r w =
     (if trim_space (req_id r) = '''' then (Some (Plain ''request id is required''), w)
      else state_done (state_send cl st env ''PUT'' (request_url st (req_id r))
             (Some (xc_request_json xc r)) False '''' w))"

definition ext_get_request ::
  "'w http_client \<Rightarrow> state_codec \<Rightarrow> external_store \<Rightarrow> string go_map \<Rightarrow> string \<Rightarrow> 'w \<Rightarrow>
   (gerror + lease_request) \<times> 'w" where
  "ext_get_request cl xc st env i w =
     (let i = trim_space i in
      if i = '''' then (Inl (Plain ''request id is required''), w)
      else state_parsed (xc_parse_request xc)
             (state_send cl st env ''GET'' (request_url st i) None True ''request not found'' w))"

definition ext_delete_request ::
  "'w http_client \<Rightarrow> external_store \<Rightarrow> string go_map \<Rightarrow> string \<Rightarrow> 'w \<Rightarrow> gerror option \<times> 'w" where
  "ext_delete_request cl st env i w =
     (let i = trim_space i in
      if i = '''' then (Some (Plain ''request id is required''), w)
      else state_done (state_send cl st env ''DELETE'' (request_url st i) None False ''request not found'' w))"

definition ext_list_pending ::
  "'w http_client \<Rightarrow> state_codec \<Rightarrow> external_store \<Rightarrow> string go_map \<Rightarrow> 'w \<Rightarrow>
   (gerror + lease_request list) \<times> 'w" where
  "ext_list_pending cl xc st env w =
     state_parsed (\<lambda>body. case xc_parse_pending xc body of
          Inl e \<Rightarrow> Inl e | Inr None \<Rightarrow> Inr [] | Inr (Some rs) \<Rightarrow> Inr rs)
       (state_send cl st env ''GET'' (pending_requests_url st) None True '''' w)"

definition ext_save_lease ::
  "'w http_client \<Rightarrow> state_codec \<Rightarrow> external_store \<Rightarrow> string go_map \<Rightarrow> lease \<Rightarrow> 'w \<Rightarrow> gerror option \<times> 'w"
where
  "ext_save_lease cl xc st env l w =
     (if trim_space (lease_token l) = '''' then (Some (Plain ''lease token is required''), w)
      else state_done (state_send cl st env ''PUT'' (lease_url st (lease_token l))
             (Some (xc_lease_json xc l)) False '''' w))"

definition ext_delete_lease ::
  "'w http_client \<Rightarrow> external_store \<Rightarrow> string go_map \<Rightarrow> string \<Rightarrow> 'w \<Rightarrow> gerror option \<times> 'w" where
  "ext_delete_lease cl st env t w =
     (let t = trim_space t in
      if t = '''' then (Some (Plain ''lease token is required''), w)
      else state_done (state_send cl st env ''DELETE'' (lease_url st t) None False ''lease not found'' w))"

definition ext_get_lease ::
  "'w http_client \<Rightarrow> state_codec \<Rightarrow> external_store \<Rightarrow> string go_map \<Rightarrow> string \<Rightarrow> 'w \<Rightarrow>
   (gerror + lease) \<times> 'w" where
  "ext_get_lease cl xc st env t w =
     (let t = trim_space t in
      if t = '''' then (Inl (Plain ''lease token is required''), w)
      else state_parsed (xc_parse_lease xc)
             (state_send cl st env ''GET'' (lease_url st t) None True ''lease not found'' w))"

definition ext_get_lease_by_request ::
  "'w http_client \<Rightarrow> state_codec \<Rightarrow> external_store \<Rightarrow> string go_map \<Rightarrow> string \<Rightarrow> 'w \<Rightarrow>
   (gerror + lease) \<times> 'w" where
  "ext_get_lease_by_request cl xc st env i w =
     (let i = trim_space i in
      if i = '''' then (Inl (Plain ''request id is required''), w)
      else state_parsed (xc_parse_lease xc)
             (state_send cl st env ''GET'' (lease_by_request_url st i) None True
                ''lease not found for request'' w))"

text \<open>The adapter as the two ports: \<open>UpdateRequest\<close> does what \<open>SaveRequest\<close> does; leases are not listed.\<close>

definition external_requests ::
  "'w http_client \<Rightarrow> state_codec \<Rightarrow> external_store \<Rightarrow> string go_map \<Rightarrow> 'w request_store" where
  "external_requests cl xc st env =
     \<lparr>rs_save = ext_save_request cl xc st env, rs_get = ext_get_request cl xc st env,
      rs_update = ext_save_request cl xc st env, rs_delete = ext_delete_request cl st env,
      rs_list_pending = ext_list_pending cl xc st env\<rparr>"

definition external_leases ::
  "'w http_client \<Rightarrow> state_codec \<Rightarrow> external_store \<Rightarrow> string go_map \<Rightarrow> 'w lease_store" where
  "external_leases cl xc st env =
     \<lparr>ls_save = ext_save_lease cl xc st env, ls_delete = ext_delete_lease cl st env,
      ls_get = ext_get_lease cl xc st env,
      ls_get_by_request = ext_get_lease_by_request cl xc st env, ls_list = None\<rparr>"

section \<open>Different identifiers, different resources\<close>

lemma upper_hex_inj:
  assumes "m < 16" and "n < 16" and "upper_hex m = upper_hex n" shows "m = n"
proof -
  have "\<forall>m\<in>set [0..<16]. \<forall>n\<in>set [0..<16]. upper_hex m = upper_hex n \<longrightarrow> m = n" by code_simp
  with assms show ?thesis by auto
qed

lemma byte_nibbles: "byte c div 16 < 16" "byte c mod 16 < 16"
  using byte_less [of c] by (simp_all add: less_mult_imp_div_less)

lemma escape_byte_inj:
  assumes "escape_byte a @ s = escape_byte b @ t" shows "a = b \<and> s = t"
proof -
  have p: "\<not> segment_char CHR ''%''" by code_simp
  show ?thesis
  proof (cases "segment_char a \<longleftrightarrow> segment_char b")
    case False
    then show ?thesis using assms p by (auto simp: escape_byte_def split: if_splits)
  next
    case True
    show ?thesis
    proof (cases "segment_char a")
      case True
      then show ?thesis using assms \<open>segment_char a = segment_char b\<close> by (simp add: escape_byte_def)
    next
      case False
      then have "upper_hex (byte a div 16) = upper_hex (byte b div 16)"
          "upper_hex (byte a mod 16) = upper_hex (byte b mod 16)" and st: "s = t"
        using assms \<open>segment_char a = segment_char b\<close> by (simp_all add: escape_byte_def)
      then have "byte a div 16 = byte b div 16" "byte a mod 16 = byte b mod 16"
        by (auto intro!: upper_hex_inj simp: byte_nibbles)
      then have "byte a = byte b" by (metis div_mult_mod_eq)
      then show ?thesis using st by (metis of_char_eq_iff)
    qed
  qed
qed

lemma path_escape_inj: "path_escape s = path_escape t \<Longrightarrow> s = t"
proof (induction s arbitrary: t)
  case Nil
  then show ?case by (cases t) (auto simp: path_escape_def escape_byte_def split: if_splits)
next
  case (Cons a s)
  then obtain b t' where t: "t = b # t'"
    by (cases t) (auto simp: path_escape_def escape_byte_def split: if_splits)
  with Cons.prems have "escape_byte a @ path_escape s = escape_byte b @ path_escape t'"
    by (simp add: path_escape_def)
  then have "a = b" "path_escape s = path_escape t'" using escape_byte_inj by blast+
  with Cons.IH t show ?case by simp
qed

lemma path_escape_segment: "CHR ''/'' \<notin> set (path_escape s)"
proof -
  have "CHR ''/'' \<notin> set (escape_byte c)" for c
  proof -
    have h: "\<forall>n\<in>set [0..<16]. upper_hex n \<noteq> CHR ''/''" by code_simp
    have "upper_hex (byte c div 16) \<noteq> CHR ''/''" "upper_hex (byte c mod 16) \<noteq> CHR ''/''"
      using h byte_nibbles [of c] by auto
    moreover have "\<not> segment_char CHR ''/''" by code_simp
    ultimately show ?thesis by (auto simp: escape_byte_def)
  qed
  then show ?thesis by (auto simp: path_escape_def)
qed

text \<open>
  Two identifiers never name the same resource of the state service, and an identifier is one
  segment of its URL whatever bytes it holds.
\<close>

theorem external_resources_differ:
  "(request_url st i = request_url st j \<longleftrightarrow> i = j) \<and> (lease_url st t = lease_url st u \<longleftrightarrow> t = u) \<and>
   (lease_by_request_url st i = lease_by_request_url st j \<longleftrightarrow> i = j) \<and>
   CHR ''/'' \<notin> set (path_escape i)"
  using path_escape_inj path_escape_segment
  by (auto simp: request_url_def lease_url_def lease_by_request_url_def)

section \<open>What an error means\<close>

lemma state_answer_err:
  "state_answer cl wants nf r = Inl e \<Longrightarrow>
     err_is e ErrStoreUnavailable \<or> (nf \<noteq> '''' \<and> e = Plain nf \<and> (\<exists>b. r = Inr (404, Inr b)))"
  by (auto simp: state_answer_def split: sum.splits prod.splits if_splits)

lemma state_send_err:
  assumes "state_send cl st env meth url payload wants nf w = (Inl e, w')"
    and "\<And>x. payload \<noteq> Some (Inl x)"
  shows "err_is e ErrStoreUnavailable \<or> (nf \<noteq> '''' \<and> e = Plain nf)"
proof -
  have "err_is e ErrStoreUnavailable \<or> (\<exists>r. state_answer cl wants nf r = Inl e)"
    using assms by (auto simp: state_send_def split: option.splits sum.splits prod.splits)
  then show ?thesis using state_answer_err by blast
qed

lemma state_parsed_err:
  "state_parsed parse (r, w) = (Inl e, w') \<Longrightarrow> err_is e ErrStoreUnavailable \<or> r = Inl e"
  by (auto simp: state_parsed_def split: sum.splits)

lemma state_done_err: "state_done (r, w) = (Some e, w') \<Longrightarrow> r = Inl e"
  by (auto simp: state_done_def split: sum.splits)

lemma read_err:
  assumes "state_parsed parse (state_send cl st env meth url None wants nf w) = (Inl e, w')"
  shows "err_is e ErrStoreUnavailable \<or> (nf \<noteq> '''' \<and> e = Plain nf)"
proof -
  obtain r w1 where s: "state_send cl st env meth url None wants nf w = (r, w1)" by fastforce
  with assms state_parsed_err have "err_is e ErrStoreUnavailable \<or> r = Inl e" by metis
  then show ?thesis using state_send_err [of cl st env meth url None wants nf w e w1] s by auto
qed

text \<open>
  Reading an entry that is named fails in two ways only: the service said that it is not there,
  or the error is one that the handlers answer with 503.
\<close>

theorem external_read_errors:
  assumes "ext_get_request cl xc st env i w = (Inl e, w') \<or> ext_get_lease cl xc st env i w = (Inl e, w') \<or>
      ext_get_lease_by_request cl xc st env i w = (Inl e, w')"
    and "trim_space i \<noteq> ''''"
  shows "err_is e ErrStoreUnavailable \<or>
    e \<in> Plain ` {''request not found'', ''lease not found'', ''lease not found for request''}"
  using assms(1)
proof (elim disjE)
  assume h: "ext_get_request cl xc st env i w = (Inl e, w')"
  from read_err [OF h [unfolded ext_get_request_def Let_def if_not_P [OF assms(2)]]] show ?thesis by auto
next
  assume h: "ext_get_lease cl xc st env i w = (Inl e, w')"
  from read_err [OF h [unfolded ext_get_lease_def Let_def if_not_P [OF assms(2)]]] show ?thesis by auto
next
  assume h: "ext_get_lease_by_request cl xc st env i w = (Inl e, w')"
  from read_err [OF h [unfolded ext_get_lease_by_request_def Let_def if_not_P [OF assms(2)]]] show ?thesis by auto
qed

text \<open>A client whose service is down.\<close>

definition dead_client :: "unit http_client" where
  "dead_client =
     \<lparr>hc_endpoint = \<lambda>s. s, hc_check_url = \<lambda>_. None,
      hc_do = \<lambda>_ w. (Inl (Plain ''connection refused''), w), hc_status_text = \<lambda>_. ''''\<rparr>"

definition no_codec :: state_codec where
  "no_codec =
     \<lparr>xc_request_json = \<lambda>_. Inr ''{}'', xc_parse_request = \<lambda>_. Inl (Plain ''unexpected end of JSON input''),
      xc_lease_json = \<lambda>_. Inr ''{}'', xc_parse_lease = \<lambda>_. Inl (Plain ''unexpected end of JSON input''),
      xc_parse_pending = \<lambda>_. Inr None\<rparr>"

theorem external_read_errors_witness:
  "\<exists>e. ext_get_request dead_client no_codec
       \<lparr>xs_base_endpoint = ''https://state'', xs_auth_token_env_var = '''', xs_timeout = second\<rparr> []
       ''req_1'' () = (Inl e, ()) \<and> err_is e ErrStoreUnavailable"
proof -
  let ?st = "\<lparr>xs_base_endpoint = ''https://state'', xs_auth_token_env_var = '''', xs_timeout = second\<rparr>"
  have t: "trim_space ''req_1'' = ''req_1''" by code_simp
  obtain e where e: "ext_get_request dead_client no_codec ?st [] ''req_1'' () = (Inl e, ())"
      "e = unavailable (Wrapped (Plain ''connection refused'')
         (''request external state backend: '' @ err_msg (Plain ''connection refused'')))"
    by (simp add: ext_get_request_def t state_send_def bearer_headers_def dead_client_def
        state_answer_def state_parsed_def)
  have "err_is e ErrStoreUnavailable \<or>
      e \<in> Plain ` {''request not found'', ''lease not found'', ''lease not found for request''}"
    by (rule external_read_errors [where i = "''req_1''"]) (use e(1) t in auto)
  then show ?thesis using e by auto
qed

end
