(* ===== verification/StartChecks.thy ===== *)
theory StartChecks
  imports Config Backends
begin

text \<open>
  What the daemon asks of its configuration before it starts (\<open>cmd/promptlockd/safety.go\<close>), the
  environment variables that override the file (\<open>cmd/promptlockd/env_overrides.go\<close>), the SOPS file
  it may complete its environment from (\<open>cmd/promptlockd/sops_env.go\<close>), the directory of
  environment files (\<open>cmd/promptlockd/envpath_runtime.go\<close>) and the listeners it opens
  (\<open>cmd/promptlockd/runtime.go\<close>). The environment is a map that does not change afterwards.
\<close>

definition getenv_or :: "string go_map \<Rightarrow> string \<Rightarrow> string \<Rightarrow> string" where
  "getenv_or env key fallback = (if getenv env key = '''' then fallback else getenv env key)"

section \<open>Overrides\<close>

text \<open>\<open>strconv.Atoi\<close>: an optional sign and decimal digits, within 64 bits.\<close>

definition atoi :: "string \<Rightarrow> gerror + int" where
  "atoi s =
     (let err = (\<lambda>why. Inl (Plain (''strconv.Atoi: parsing '' @ quote s @ '': '' @ why)));
          signed = has_prefix s ''-'' \<or> has_prefix s ''+'';
          digits = (if signed then tl s else s);
          n = int (decimal_value digits);
          v = (if has_prefix s ''-'' then - n else n)
      in if digits = '''' \<or> \<not> list_all dec_digit digits then err ''invalid syntax''
         else if v < - (2 ^ 63) \<or> 2 ^ 63 \<le> v then err ''value out of range''
         else Inr v)"

definition override :: "string go_map \<Rightarrow> string \<Rightarrow> string \<Rightarrow> string" where
  "override env key current = getenv_or env key current"

definition apply_env_overrides :: "string go_map \<Rightarrow> config \<Rightarrow> gerror + config" where
  "apply_env_overrides env c =
     (let ss = cf_state_store c; au = cf_auth c;
          c = c\<lparr>cf_audit_path := override env ''PROMPTLOCK_AUDIT_PATH'' (cf_audit_path c),
            cf_address := override env ''PROMPTLOCK_ADDR'' (cf_address c),
            cf_unix_socket := override env ''PROMPTLOCK_UNIX_SOCKET'' (cf_unix_socket c),
            cf_agent_unix_socket := override env ''PROMPTLOCK_AGENT_UNIX_SOCKET'' (cf_agent_unix_socket c),
            cf_operator_unix_socket :=
              override env ''PROMPTLOCK_OPERATOR_UNIX_SOCKET'' (cf_operator_unix_socket c),
            cf_agent_bridge_address :=
              override env ''PROMPTLOCK_AGENT_BRIDGE_ADDRESS'' (cf_agent_bridge_address c),
            cf_state_store_file := override env ''PROMPTLOCK_STATE_STORE_FILE'' (cf_state_store_file c),
            cf_auth := au\<lparr>ac_operator_token := override env ''PROMPTLOCK_OPERATOR_TOKEN'' (ac_operator_token au)\<rparr>,
            cf_state_store := ss\<lparr>
              ss_type := override env ''PROMPTLOCK_STATE_STORE_TYPE'' (ss_type ss),
              ss_external_url := override env ''PROMPTLOCK_STATE_STORE_EXTERNAL_URL'' (ss_external_url ss),
              ss_external_auth_token_env :=
                override env ''PROMPTLOCK_STATE_STORE_EXTERNAL_AUTH_TOKEN_ENV'' (ss_external_auth_token_env ss)\<rparr>\<rparr>;
          v = trim_space (getenv env ''PROMPTLOCK_STATE_STORE_EXTERNAL_TIMEOUT_SEC'')
      in if v = '''' then Inr c
         else case atoi v of
           Inl e \<Rightarrow> Inl (Wrapped e
             (''invalid PROMPTLOCK_STATE_STORE_EXTERNAL_TIMEOUT_SEC: '' @ err_msg e))
         | Inr n \<Rightarrow> (let ss = cf_state_store c in Inr (c\<lparr>cf_state_store := ss\<lparr>ss_external_timeout_sec := n\<rparr>\<rparr>)))"

section \<open>Secret source and state store\<close>

definition normalized_secret_source_type :: "config \<Rightarrow> string" where
  "normalized_secret_source_type c =
     (let s = to_lower (trim_space (so_type (cf_secret_source c))) in
      if s = '''' then ''in_memory'' else s)"

definition normalized_state_store_type :: "config \<Rightarrow> string" where
  "normalized_state_store_type c =
     (let s = to_lower (trim_space (ss_type (cf_state_store c))) in if s = '''' then ''file'' else s)"

definition normalized_security_profile :: "config \<Rightarrow> string" where
  "normalized_security_profile c =
     (let s = to_lower (trim_space (cf_security_profile c)) in if s = '''' then ''dev'' else s)"

text \<open>The checks of an external URL: \<open>what\<close> is the section; then the schemes that are accepted.\<close>

definition external_url_invalid :: "string \<Rightarrow> string \<Rightarrow> gerror option" where
  "external_url_invalid what url =
     (case url_parts (trim_space url) of
        None \<Rightarrow> Some (Plain (what @ ''.external_url is invalid: '' @ quote url))
      | Some (scheme, host) \<Rightarrow>
          if \<not> filled scheme \<or> \<not> filled host
          then Some (Plain (what @ ''.external_url is invalid: '' @ quote url)) else None)"

definition url_scheme :: "string \<Rightarrow> string" where
  "url_scheme url = (case url_parts (trim_space url) of None \<Rightarrow> '''' | Some (scheme, _) \<Rightarrow> scheme)"

definition external_url_error :: "string \<Rightarrow> string \<Rightarrow> gerror option" where
  "external_url_error what url =
     (case external_url_invalid what url of
        Some e \<Rightarrow> Some e
      | None \<Rightarrow>
          if url_scheme url \<notin> {''http'', ''https''}
          then Some (Plain (what @ ''.external_url scheme must be http or https'')) else None)"

definition validate_secret_source_safety :: "config \<Rightarrow> gerror option" where
  "validate_secret_source_safety c =
     (let so = cf_secret_source c; src = normalized_secret_source_type c in
      if src \<notin> {''in_memory'', ''env'', ''file'', ''external''}
      then Some (Plain (''unsupported secret_source.type '' @ quote (so_type so) @
             '' (supported: in_memory, env, file, external)''))
      else if src = ''file'' \<and> \<not> filled (so_file_path so)
      then Some (Plain ''secret_source.type=file requires secret_source.file_path'')
      else if src = ''external'' \<and> \<not> filled (so_external_url so)
      then Some (Plain ''secret_source.type=external requires secret_source.external_url'')
      else if src = ''external'' \<and> \<not> filled (so_external_auth_token_env so)
      then Some (Plain ''secret_source.type=external requires secret_source.external_auth_token_env'')
      else if src = ''external'' \<and> external_url_error ''secret_source'' (so_external_url so) \<noteq> None
      then external_url_error ''secret_source'' (so_external_url so)
      else if to_lower (trim_space (cf_security_profile c)) = ''hardened'' \<and> src = ''in_memory'' \<and>
        to_lower (trim_space (so_in_memory_hardened so)) = ''fail''
      then Some (Plain (''hardened profile with in_memory secret_source is disallowed '' @
             ''(secret_source.in_memory_hardened=fail)''))
      else None)"

definition unsupported_state_store :: "config \<Rightarrow> gerror option" where
  "unsupported_state_store c =
     Some (Plain (''unsupported state_store.type '' @ quote (ss_type (cf_state_store c)) @
       '' (supported: file, external)''))"

definition validate_state_store_safety :: "config \<Rightarrow> gerror option" where
  "validate_state_store_safety c =
     (let ss = cf_state_store c; mode = normalized_state_store_type c in
      if mode = ''file'' then None
      else if mode = ''external'' then
        (if \<not> filled (ss_external_url ss)
         then Some (Plain ''state_store.type=external requires state_store.external_url'')
         else if \<not> filled (ss_external_auth_token_env ss)
         then Some (Plain ''state_store.type=external requires state_store.external_auth_token_env'')
         else external_url_error ''state_store'' (ss_external_url ss))
      else unsupported_state_store c)"

section \<open>Sockets and transport\<close>

definition validate_socket_config :: "config \<Rightarrow> gerror option" where
  "validate_socket_config c =
     (let agent_path = trim_space (cf_agent_unix_socket c);
          operator_path = trim_space (cf_operator_unix_socket c);
          bridge = trim_space (cf_agent_bridge_address c)
      in if filled (cf_unix_socket c) \<and> (agent_path \<noteq> '''' \<or> operator_path \<noteq> '''')
         then Some (Plain ''legacy unix_socket cannot be combined with agent_unix_socket or operator_unix_socket'')
         else if agent_path \<noteq> '''' \<and> operator_path \<noteq> '''' \<and> agent_path = operator_path
         then Some (Plain ''agent_unix_socket and operator_unix_socket must be different paths'')
         else if bridge \<noteq> '''' \<and> (agent_path = '''' \<or> operator_path = '''')
         then Some (Plain (''agent_bridge_address requires dual-socket transport '' @
                ''(agent_unix_socket + operator_unix_socket)''))
         else if bridge \<noteq> '''' \<and> \<not> is_local_address bridge
         then Some (Plain (''agent_bridge_address must be loopback-only, got '' @
                quote (cf_agent_bridge_address c)))
         else None)"

text \<open>Reachable from elsewhere over TCP.\<close>

definition remote_tcp :: "config \<Rightarrow> bool" where
  "remote_tcp c \<longleftrightarrow> \<not> uses_unix_socket_transport c \<and> \<not> is_local_address (cf_address c)"

definition validate_transport_safety :: "config \<Rightarrow> string \<Rightarrow> string \<Rightarrow> gerror option" where
  "validate_transport_safety c allow_insecure_auth_tcp allow_insecure_noauth_tcp =
     (if ac_enable_auth (cf_auth c) \<and> remote_tcp c \<and> allow_insecure_auth_tcp \<noteq> ''1''
      then Some (Plain (''auth enabled on non-local TCP without unix socket transport; set unix_socket or '' @
             ''agent_unix_socket/operator_unix_socket, or PROMPTLOCK_ALLOW_INSECURE_TCP=1''))
      else if \<not> ac_enable_auth (cf_auth c) \<and> remote_tcp c \<and> allow_insecure_noauth_tcp \<noteq> ''1''
      then Some (Plain (''auth disabled on non-local TCP without unix socket transport; enable auth, set '' @
             ''unix_socket or agent_unix_socket/operator_unix_socket, or PROMPTLOCK_ALLOW_INSECURE_NOAUTH_TCP=1''))
      else None)"

definition is_insecure_dev_mode :: "config \<Rightarrow> bool" where
  "is_insecure_dev_mode c \<longleftrightarrow>
     \<not> ac_enable_auth (cf_auth c) \<and> ac_allow_plaintext_secret_return (cf_auth c)"

section \<open>Profile and deployment\<close>

definition validate_security_profile :: "config \<Rightarrow> string \<Rightarrow> gerror option" where
  "validate_security_profile c allow_insecure_profile =
     (let profile = normalized_security_profile c in
      if profile = ''dev'' then None
      else if profile = ''insecure'' \<and> allow_insecure_profile \<noteq> ''1''
      then Some (Plain (''security_profile=insecure requires explicit opt-in: set '' @
             ''PROMPTLOCK_ALLOW_INSECURE_PROFILE=1''))
      else if \<not> ac_enable_auth (cf_auth c)
      then Some (Plain (''security_profile='' @ profile @ '' requires auth.enable_auth=true''))
      else None)"

text \<open>An external service of a profile that is not for development: https, with its token set.\<close>

definition external_deployment_error ::
  "string \<Rightarrow> string \<Rightarrow> string go_map \<Rightarrow> string \<Rightarrow> string \<Rightarrow> gerror option" where
  "external_deployment_error what profile env url token_env =
     (let token_env = trim_space token_env in
      if \<not> filled url
      then Some (Plain (''non-dev profile with '' @ what @ ''.type=external requires '' @ what @ ''.external_url''))
      else case external_url_invalid what url of
        Some e \<Rightarrow> Some e
      | None \<Rightarrow>
          if url_scheme url \<noteq> ''https''
          then Some (Plain (''non-dev profile requires https '' @ what @ ''.external_url when '' @ what @
                 ''.type=external''))
          else if token_env = ''''
          then Some (Plain (''non-dev profile with '' @ what @ ''.type=external requires '' @ what @
                 ''.external_auth_token_env''))
          else if \<not> filled (getenv env token_env)
          then Some (Plain (what @ ''.type=external requires auth token env '' @ token_env @
                 '' to be set in '' @ profile @ '' profile''))
          else None)"

definition state_deployment_error :: "config \<Rightarrow> string go_map \<Rightarrow> gerror option" where
  "state_deployment_error c env =
     (let mode = normalized_state_store_type c; ss = cf_state_store c in
      if mode = ''file'' then
        (if \<not> filled (cf_state_store_file c)
         then Some (Plain (''non-dev profile requires state_store_file for durable request/lease state '' @
                ''when state_store.type=file''))
         else None)
      else if mode = ''external''
      then external_deployment_error ''state_store'' (normalized_security_profile c) env
             (ss_external_url ss) (ss_external_auth_token_env ss)
      else unsupported_state_store c)"

definition secret_deployment_error :: "config \<Rightarrow> string go_map \<Rightarrow> gerror option" where
  "secret_deployment_error c env =
     (let src = normalized_secret_source_type c; so = cf_secret_source c in
      if src = ''in_memory''
      then Some (Plain (''non-dev profile requires secret_source.type of env, file, or external '' @
             ''(in_memory is not allowed)''))
      else if src = ''external''
      then external_deployment_error ''secret_source'' (normalized_security_profile c) env
             (so_external_url so) (so_external_auth_token_env so)
      else None)"

definition auth_store_key_env :: "config \<Rightarrow> string" where
  "auth_store_key_env c =
     (let k = trim_space (ac_store_encryption_key_env (cf_auth c)) in
      if k = '''' then ''PROMPTLOCK_AUTH_STORE_KEY'' else k)"

definition validate_deployment_mode :: "config \<Rightarrow> string go_map \<Rightarrow> string \<Rightarrow> gerror option" where
  "validate_deployment_mode c env allow_dev_profile =
     (let profile = normalized_security_profile c in
      if profile = ''dev'' then
        (if allow_dev_profile \<noteq> ''1''
         then Some (Plain (''security_profile=dev is disabled by default; set PROMPTLOCK_ALLOW_DEV_PROFILE=1 '' @
                ''for local testing or use security_profile=hardened''))
         else None)
      else case state_deployment_error c env of
        Some e \<Rightarrow> Some e
      | None \<Rightarrow>
          if \<not> filled (ac_store_file (cf_auth c))
          then Some (Plain ''non-dev profile requires auth.store_file for durable auth state'')
          else case secret_deployment_error c env of
            Some e \<Rightarrow> Some e
          | None \<Rightarrow>
              if ac_enable_auth (cf_auth c) \<and> filled (ac_store_file (cf_auth c)) \<and>
                \<not> filled (getenv env (auth_store_key_env c))
              then Some (Plain (''auth.store_file requires encrypted persistence in '' @ profile @
                     '' profile; set '' @ auth_store_key_env c))
              else None)"

text \<open>The key of the auth store; \<open>''''\<close> is no key.\<close>

definition resolve_auth_store_encryption_key :: "config \<Rightarrow> string go_map \<Rightarrow> gerror + string" where
  "resolve_auth_store_encryption_key c env =
     (let v = trim_space (getenv env (auth_store_key_env c)) in
      if v = '''' then Inr ''''
      else if length v < 16
      then Inl (Plain (auth_store_key_env c @ '' must be at least 16 characters''))
      else Inr v)"

section \<open>SOPS, environment files, listeners\<close>

definition load_startup_sops_env ::
  "'w sops_outside \<Rightarrow> config \<Rightarrow> string go_map \<Rightarrow> 'w \<Rightarrow> (gerror + string go_map) \<times> 'w" where
  "load_startup_sops_env sx c env w =
     (let path = trim_space (getenv env ''PROMPTLOCK_SOPS_ENV_FILE'') in
      if path = '''' then (Inr env, w)
      else
        let required =
          (if normalized_security_profile c \<noteq> ''dev'' \<and> ac_enable_auth (cf_auth c) \<and>
             filled (ac_store_file (cf_auth c))
           then [auth_store_key_env c] else [])
        in load_sops_file sx path required env w)"

text \<open>A disabled store refuses every path for its reason.\<close>

definition disabled_env_paths :: "string \<Rightarrow> 'w env_path_secret_store" where
  "disabled_env_paths reason =
     \<lparr>eps_canonicalize = \<lambda>_ w. (Inl (Plain (trim_space reason)), w),
      eps_resolve = \<lambda>_ _ w. (Inl (Plain (trim_space reason)), w)\<rparr>"

text \<open>\<open>newEnvPathSecretStore\<close>: the store, and whether it is disabled.\<close>

definition new_env_path_secret_store ::
  "'w env_files \<Rightarrow> config \<Rightarrow> string go_map \<Rightarrow> 'w \<Rightarrow> (gerror + 'w env_path_secret_store \<times> bool) \<times> 'w" where
  "new_env_path_secret_store os c env w =
     (let configured = trim_space (getenv env ''PROMPTLOCK_ENV_PATH_ROOT'') in
      if configured = '''' \<and> normalized_security_profile c \<noteq> ''dev''
      then (Inr (disabled_env_paths ''env_path requires PROMPTLOCK_ENV_PATH_ROOT in non-dev profiles'', True), w)
      else
        case (if configured \<noteq> '''' then Inr configured else os_getwd (ef_paths os) w) of
          Inl e \<Rightarrow>
            (Inl (Wrapped e (''resolve env-path root from working directory: '' @ err_msg e)), w)
        | Inr root \<Rightarrow>
            (case new_env_path_store os root w of
               (Inl e, w) \<Rightarrow>
                 (Inl (Wrapped e (''init env-path secret source root '' @ quote root @ '': '' @ err_msg e)), w)
             | (Inr canonical_root, w) \<Rightarrow> (Inr (env_path_adapter os canonical_root, False), w)))"

section \<open>What the checks mean\<close>

lemma url_scheme_https: "url_scheme url = ''https'' \<Longrightarrow> \<exists>host. url_parts (trim_space url) = Some (''https'', host)"
  by (auto simp: url_scheme_def split: option.splits)

text \<open>What a profile other than the one for development has to have.\<close>

definition deployed :: "config \<Rightarrow> string go_map \<Rightarrow> bool" where
  "deployed c env \<longleftrightarrow>
     ac_enable_auth (cf_auth c) \<and> filled (ac_store_file (cf_auth c)) \<and>
     filled (getenv env (auth_store_key_env c)) \<and>
     normalized_secret_source_type c \<noteq> ''in_memory'' \<and>
     (normalized_state_store_type c = ''file'' \<longrightarrow> filled (cf_state_store_file c)) \<and>
     (normalized_state_store_type c = ''external'' \<longrightarrow>
        url_scheme (ss_external_url (cf_state_store c)) = ''https'' \<and>
        filled (getenv env (trim_space (ss_external_auth_token_env (cf_state_store c))))) \<and>
     (normalized_secret_source_type c = ''external'' \<longrightarrow>
        url_scheme (so_external_url (cf_secret_source c)) = ''https'' \<and>
        filled (getenv env (trim_space (so_external_auth_token_env (cf_secret_source c)))))"

lemma external_deployment_None:
  "external_deployment_error what profile env url token_env = None \<Longrightarrow>
     url_scheme url = ''https'' \<and> filled (getenv env (trim_space token_env))"
  by (auto simp: external_deployment_error_def Let_def split: if_splits option.splits)

lemma checks_deployed:
  assumes "validate_security_profile c a = None" and "validate_deployment_mode c env b = None"
    and "normalized_security_profile c \<noteq> ''dev''"
  shows "deployed c env"
proof -
  have au: "ac_enable_auth (cf_auth c)"
    using assms(1,3) by (auto simp: validate_security_profile_def Let_def split: if_splits)
  have s: "state_deployment_error c env = None" and f: "filled (ac_store_file (cf_auth c))"
    and x: "secret_deployment_error c env = None" and k: "filled (getenv env (auth_store_key_env c))"
    using assms(2,3) au by (auto simp: validate_deployment_mode_def Let_def split: if_splits option.splits)
  have "normalized_state_store_type c = ''file'' \<longrightarrow> filled (cf_state_store_file c)"
    and "normalized_state_store_type c = ''external'' \<longrightarrow>
        url_scheme (ss_external_url (cf_state_store c)) = ''https'' \<and>
        filled (getenv env (trim_space (ss_external_auth_token_env (cf_state_store c))))"
    using s external_deployment_None by (auto simp: state_deployment_error_def Let_def split: if_splits)
  moreover have "normalized_secret_source_type c \<noteq> ''in_memory''"
    and "normalized_secret_source_type c = ''external'' \<longrightarrow>
        url_scheme (so_external_url (cf_secret_source c)) = ''https'' \<and>
        filled (getenv env (trim_space (so_external_auth_token_env (cf_secret_source c))))"
    using x external_deployment_None by (auto simp: secret_deployment_error_def Let_def split: if_splits)
  ultimately show ?thesis using au f k unfolding deployed_def by blast
qed

lemma dev_checks:
  assumes "validate_deployment_mode c env b = None" and "normalized_security_profile c = ''dev''"
  shows "b = ''1''"
  using assms by (auto simp: validate_deployment_mode_def Let_def split: if_splits)

lemma transport_checks:
  assumes "validate_transport_safety c a b = None" and "remote_tcp c"
  shows "if ac_enable_auth (cf_auth c) then a = ''1'' else b = ''1''"
  using assms by (auto simp: validate_transport_safety_def split: if_splits)

lemma long_key:
  "resolve_auth_store_encryption_key c env = Inr key \<Longrightarrow> key \<noteq> '''' \<Longrightarrow> 16 \<le> length key"
  by (auto simp: resolve_auth_store_encryption_key_def Let_def split: if_splits)

lemma key_present:
  "resolve_auth_store_encryption_key c env = Inr key \<Longrightarrow> filled (getenv env (auth_store_key_env c)) \<Longrightarrow>
     key \<noteq> ''''"
  by (auto simp: resolve_auth_store_encryption_key_def filled_def Let_def split: if_splits)

end
