(* ===== verification/Startup.thy ===== *)
theory Startup
  imports StartChecks Server
begin

text \<open>
  The start of the daemon (\<open>run\<close> of \<open>cmd/promptlockd/main.go\<close>): configuration, checks, backends,
  locks, the state of the last run, and the server that results. Each stage may fail, and the
  first failure is what \<open>run\<close> returns. Opening the sockets and the log on standard error are left
  out; the goroutine of the cleanup is the event \<open>CleanupTick\<close>.
\<close>

definition and_then ::
  "(gerror + 'a) \<times> 'e \<Rightarrow> ('a \<Rightarrow> 'e \<Rightarrow> (gerror + 'b) \<times> 'e) \<Rightarrow> (gerror + 'b) \<times> 'e" where
  "and_then m f = (case m of (Inl e, w) \<Rightarrow> (Inl e, w) | (Inr x, w) \<Rightarrow> f x w)"

definition unless_error :: "gerror option \<Rightarrow> 'a \<Rightarrow> gerror + 'a" where
  "unless_error e x = (case e of Some err \<Rightarrow> Inl err | None \<Rightarrow> Inr x)"

lemma and_then_Inr:
  "and_then m f = (Inr y, w') \<longleftrightarrow> (\<exists>x w. m = (Inr x, w) \<and> f x w = (Inr y, w'))"
  by (auto simp: and_then_def split: prod.splits sum.splits)

lemma unless_error_Inr [simp]: "unless_error e x = Inr y \<longleftrightarrow> e = None \<and> y = x"
  by (auto simp: unless_error_def split: option.splits)

section \<open>Listeners\<close>

text \<open>
  The calls that open sockets; a TCP listener tells the address it is bound to. What the source
  calls a target is the address, what it serves, and the mode of a socket file. The loop serving
  the targets is the library's; its requests are the events of \<open>Server\<close>.
\<close>

record 'e sockets =
  sk_mkdir_all :: "string \<Rightarrow> 'e \<Rightarrow> gerror option \<times> 'e"
  sk_remove :: "string \<Rightarrow> 'e \<Rightarrow> 'e"
  sk_listen_unix :: "string \<Rightarrow> 'e \<Rightarrow> gerror option \<times> 'e"
  sk_chmod :: "string \<Rightarrow> int \<Rightarrow> 'e \<Rightarrow> gerror option \<times> 'e"
  sk_close :: "string \<Rightarrow> 'e \<Rightarrow> 'e"
  sk_listen_tcp :: "string \<Rightarrow> 'e \<Rightarrow> (gerror + string) \<times> 'e"

record listener_target =
  lt_label :: string
  lt_serves :: listener
  lt_mode :: "int option"

definition ensure_unix_socket_parent_dir :: "'e sockets \<Rightarrow> string \<Rightarrow> 'e \<Rightarrow> gerror option \<times> 'e" where
  "ensure_unix_socket_parent_dir sk path e =
     (let parent = path_dir (trim_space path) in
      if parent = '''' \<or> parent = ''.'' then (None, e) else sk_mkdir_all sk parent e)"

fun new_unix_socket_targets ::
  "'e sockets \<Rightarrow> (string \<times> int \<times> listener) list \<Rightarrow> 'e \<Rightarrow> (gerror + listener_target list) \<times> 'e" where
  "new_unix_socket_targets sk [] e = (Inr [], e)"
| "new_unix_socket_targets sk ((path, mode, serves) # targets) e =
     (case ensure_unix_socket_parent_dir sk path e of
        (Some err, e) \<Rightarrow> (Inl err, e)
      | (None, e) \<Rightarrow>
     (case sk_listen_unix sk path (sk_remove sk path e) of
        (Some err, e) \<Rightarrow> (Inl err, e)
      | (None, e) \<Rightarrow>
     (case sk_chmod sk path mode e of
        (Some err, e) \<Rightarrow> (Inl err, sk_remove sk path (sk_close sk path e))
      | (None, e) \<Rightarrow>
          and_then (new_unix_socket_targets sk targets e) (\<lambda>ts e.
            (Inr (\<lparr>lt_label = path, lt_serves = serves, lt_mode = Some mode\<rparr> # ts), e)))))"

definition new_tcp_listener_target ::
  "'e sockets \<Rightarrow> string \<Rightarrow> listener \<Rightarrow> 'e \<Rightarrow> (gerror + listener_target) \<times> 'e" where
  "new_tcp_listener_target sk address serves e =
     and_then (sk_listen_tcp sk address e) (\<lambda>actual e.
       (Inr \<lparr>lt_label = actual, lt_serves = serves, lt_mode = None\<rparr>, e))"

text \<open>The targets of the configuration; the bridge tells its address to the server.\<close>

definition configured_targets ::
  "'e sockets \<Rightarrow> config \<Rightarrow> string \<Rightarrow> 'e \<Rightarrow> (gerror + listener_target list \<times> string) \<times> 'e" where
  "configured_targets sk c bridge_address e =
     (if uses_legacy_unix_socket c then
        and_then (new_unix_socket_targets sk [(cf_unix_socket c, 384, LegacyListener)] e)
          (\<lambda>ts e. (Inr (ts, bridge_address), e))
      else if uses_dual_unix_sockets c then
        (if \<not> filled (cf_operator_unix_socket c) \<or> \<not> filled (cf_agent_unix_socket c)
         then (Inl (Plain ''agent_unix_socket and operator_unix_socket are both required in dual-socket mode''), e)
         else
           and_then (new_unix_socket_targets sk
               [(cf_agent_unix_socket c, 432, AgentListener),
                (cf_operator_unix_socket c, 384, OperatorListener)] e) (\<lambda>ts e.
           if filled (cf_agent_bridge_address c) then
             and_then (new_tcp_listener_target sk (cf_agent_bridge_address c) AgentListener e)
               (\<lambda>b e. (Inr (ts @ [b], lt_label b), e))
           else (Inr (ts, bridge_address), e)))
      else
        and_then (new_tcp_listener_target sk (cf_address c) LegacyListener e)
          (\<lambda>t e. (Inr ([t], bridge_address), e)))"

section \<open>The system\<close>

text \<open>
  The system the daemon starts on. \<open>sy_outside\<close> is the outside of \<open>Daemon\<close>, whose backends are
  chosen here; \<open>sy_open_log\<close> reads the audit file, \<open>None\<close> when there is none; \<open>sy_lock\<close> takes the
  lock of a file.
\<close>

record 'e system =
  sy_outside :: "'e outside"
  sy_goos :: string
  sy_decode_config :: "string \<Rightarrow> config \<Rightarrow> gerror + config"
  sy_decode_strings :: "string \<Rightarrow> gerror + string go_map"
  sy_parse_value :: "string \<Rightarrow> gerror + string"
  sy_sops :: "'e sops_outside"
  sy_env_files :: "'e env_files"
  sy_exec_files :: "'e os_files"
  sy_start :: "int \<Rightarrow> resolved_command \<Rightarrow> string \<Rightarrow> string list \<Rightarrow> 'e \<Rightarrow> process_end \<times> 'e"
  sy_client :: "'e http_client"
  sy_sockets :: "'e sockets"
  sy_lock :: "string \<Rightarrow> 'e \<Rightarrow> gerror option \<times> 'e"
  sy_open_log :: "string \<Rightarrow> 'e \<Rightarrow> (gerror + string option) \<times> 'e"

section \<open>The stages\<close>

text \<open>The configuration, its overrides and its first checks; the environment may be completed.\<close>

definition startup_config ::
  "'e system \<Rightarrow> string go_map \<Rightarrow> 'e \<Rightarrow> (gerror + config \<times> string go_map) \<times> 'e" where
  "startup_config sys env e =
     (let path = getenv_or env ''PROMPTLOCK_CONFIG'' ''/etc/promptlock/config.json'';
          (content, e) = fs_read (od_fs (sy_outside sys)) path e in
      case load_config (sy_decode_config sys) (sy_goos sys) path content of
        Inl err \<Rightarrow> (Inl err, e)
      | Inr c \<Rightarrow>
          (case apply_env_overrides env c of
             Inl err \<Rightarrow> (Inl err, e)
           | Inr c \<Rightarrow>
               and_then (unless_error (validate_socket_config c) (), e) (\<lambda>_ e.
               and_then (load_startup_sops_env (sy_sops sys) c env e) (\<lambda>env e.
               (case validate_secret_source_safety c of
                  Some err \<Rightarrow> (Inl err, e)
                | None \<Rightarrow> (unless_error (validate_state_store_safety c) (c, env), e))))))"

text \<open>The demo secrets and those of the configuration, in the store of the daemon.\<close>

fun config_secrets :: "secret_entry list \<Rightarrow> mem_store \<Rightarrow> mem_store" where
  "config_secrets [] s = s"
| "config_secrets (x # xs) s =
     config_secrets xs (if se_name x \<noteq> '''' then set_secret (se_name x) (se_value x) s else s)"

definition demo_secrets :: "string go_map \<Rightarrow> mem_store \<Rightarrow> mem_store" where
  "demo_secrets env s =
     set_secret ''npm_token'' (getenv_or env ''PROMPTLOCK_DEMO_NPM_TOKEN'' ''DEMO_NPM_TOKEN'')
       (set_secret ''github_token'' (getenv_or env ''PROMPTLOCK_DEMO_GITHUB_TOKEN'' ''DEMO_GITHUB_TOKEN'') s)"

definition read_existing :: "'e file_system \<Rightarrow> string \<Rightarrow> 'e \<Rightarrow> (gerror + string) \<times> 'e" where
  "read_existing fs path e =
     (case fs_read fs path e of
        (Inl err, e) \<Rightarrow> (Inl err, e)
      | (Inr None, e) \<Rightarrow> (Inl (Plain (''open '' @ path @ '': no such file or directory'')), e)
      | (Inr (Some b), e) \<Rightarrow> (Inr b, e))"

text \<open>The source of secrets; \<open>None\<close> is the store of the daemon, which then holds them.\<close>

definition startup_secrets ::
  "'e system \<Rightarrow> config \<Rightarrow> string go_map \<Rightarrow> 'e \<Rightarrow> (gerror + 'e secret_store option \<times> mem_store) \<times> 'e"
where
  "startup_secrets sys c env e =
     (let so = cf_secret_source c; src = to_lower (trim_space (so_type so)) in
      if src = ''env'' then
        (let pre = new_env_secret_store (so_env_prefix so) in
         (Inr (Some (\<lambda>name e. (env_get_secret pre env name, e)), new_store), e))
      else if src = ''file'' then
        (case new_file_secret_store (sy_decode_strings sys) (read_existing (od_fs (sy_outside sys)))
               (so_file_path so) e of
           (Inl err, e) \<Rightarrow> (Inl (Wrapped err (''init file secret source: '' @ err_msg err)), e)
         | (Inr st, e) \<Rightarrow> (Inr (Some (\<lambda>name e. (file_get_secret st name, e)), new_store), e))
      else if src = ''external'' then
        (case new_external_store ''external secret source'' (sy_client sys) (so_external_url so)
               (so_external_auth_token_env so) (so_external_timeout_sec so) of
           Inl err \<Rightarrow> (Inl (Wrapped err (''init external secret source: '' @ err_msg err)), e)
         | Inr st \<Rightarrow>
             (Inr (Some (external_get_secret (sy_client sys) (sy_parse_value sys) st env), new_store), e))
      else (Inr (None, config_secrets (cf_secrets c) (demo_secrets env new_store)), e))"

definition startup_state_service :: "'e system \<Rightarrow> config \<Rightarrow> gerror + external_store option" where
  "startup_state_service sys c =
     (if normalized_state_store_type c = ''external'' then
        (let ss = cf_state_store c in
         case new_external_store ''external state store'' (sy_client sys) (ss_external_url ss)
                (ss_external_auth_token_env ss) (ss_external_timeout_sec ss) of
           Inl err \<Rightarrow> Inl (Wrapped err (''init external state store: '' @ err_msg err))
         | Inr st \<Rightarrow> Inr (Some st))
      else Inr None)"

definition lock_persistent_path ::
  "'e system \<Rightarrow> string \<Rightarrow> string list \<Rightarrow> 'e \<Rightarrow> (gerror + string list) \<times> 'e" where
  "lock_persistent_path sys path locked e =
     (let trimmed = trim_space path; lock_path = trimmed @ ''.lock'' in
      if trimmed = '''' \<or> lock_path \<in> set locked then (Inr locked, e)
      else case sy_lock sys lock_path e of
        (Some err, e) \<Rightarrow>
          (Inl (Wrapped err (''acquire persistence lock for '' @ trimmed @ '': '' @ err_msg err)), e)
      | (None, e) \<Rightarrow> (Inr (lock_path # locked), e))"

text \<open>Locks, and the requests and leases of the last run.\<close>

definition startup_state ::
  "'e system \<Rightarrow> config \<Rightarrow> mem_store \<Rightarrow> 'e \<Rightarrow> (gerror + mem_store) \<times> 'e" where
  "startup_state sys c store e =
     (let to_file = (normalized_state_store_type c = ''file'') in
      and_then (if to_file then lock_persistent_path sys (cf_state_store_file c) [] e else (Inr [], e)) (\<lambda>locked e.
      and_then (if ac_enable_auth (cf_auth c) then lock_persistent_path sys (ac_store_file (cf_auth c)) locked e
                else (Inr locked, e)) (\<lambda>_ e.
      if to_file \<and> filled (cf_state_store_file c) then
        (case load_state_from_file (od_codec (sy_outside sys)) (od_fs (sy_outside sys))
               (cf_state_store_file c) store e of
           (Some err, _, e) \<Rightarrow> (Inl (Wrapped err (''load request/lease state store: '' @ err_msg err)), e)
         | (None, store, e) \<Rightarrow> (Inr store, e))
      else (Inr store, e))))"

text \<open>The checks before the server is built, and the key of the auth store.\<close>

definition startup_checks :: "config \<Rightarrow> string go_map \<Rightarrow> gerror + string" where
  "startup_checks c env =
     (case validate_security_profile c (getenv env ''PROMPTLOCK_ALLOW_INSECURE_PROFILE'') of
        Some err \<Rightarrow> Inl err
      | None \<Rightarrow>
     (case validate_deployment_mode c env (getenv env ''PROMPTLOCK_ALLOW_DEV_PROFILE'') of
        Some err \<Rightarrow> Inl err
      | None \<Rightarrow>
     if ac_enable_auth (cf_auth c) \<and> ac_operator_token (cf_auth c) = ''''
     then Inl (Plain ''auth enabled but operator_token is empty'')
     else case validate_transport_safety c (getenv env ''PROMPTLOCK_ALLOW_INSECURE_TCP'')
            (getenv env ''PROMPTLOCK_ALLOW_INSECURE_NOAUTH_TCP'') of
        Some err \<Rightarrow> Inl err
      | None \<Rightarrow> resolve_auth_store_encryption_key c env))"

definition startup_auth ::
  "'e system \<Rightarrow> config \<Rightarrow> string \<Rightarrow> 'e \<Rightarrow> (gerror + auth_store) \<times> 'e" where
  "startup_auth sys c key e =
     (let od = sy_outside sys; path = ac_store_file (cf_auth c) in
      if ac_enable_auth (cf_auth c) \<and> filled path then
        (case (if key \<noteq> '''' then load_from_file_encrypted (od_codec od) (od_fs od) path key new_auth_store e
               else load_from_file (od_codec od) (od_fs od) path new_auth_store e) of
           (Some err, _, e) \<Rightarrow> (Inl (Wrapped err (''load auth store: '' @ err_msg err)), e)
         | (None, st, e) \<Rightarrow> (Inr st, e))
      else (Inr new_auth_store, e))"

section \<open>The server\<close>

definition ambient_env :: "string go_map \<Rightarrow> string list" where
  "ambient_env env = map (\<lambda>(k, v). k @ ''='' @ v) env"

text \<open>What the server is built of: its configuration, its outside, its runner and its metadata.\<close>

definition server_config_of :: "config \<Rightarrow> string \<Rightarrow> server_config" where
  "server_config_of c key =
     (let au = cf_auth c; rp = cf_request_policy c in
      \<lparr>sc_policy = to_policy c,
       sc_request_policy =
         \<lparr>identical_request_cooldown = dur_mult (rc_identical_request_cooldown_seconds rp) second,
          max_pending_per_agent = rc_max_pending_per_agent rp,
          enable_active_lease_reuse = rc_enable_active_lease_reuse rp\<rparr>,
       sc_allow_plaintext_secret_return = ac_allow_plaintext_secret_return au,
       sc_auth_enabled = ac_enable_auth au, sc_operator_tok = ac_operator_token au,
       sc_bootstrap_ttl_seconds = ac_bootstrap_token_ttl_seconds au,
       sc_grant_idle_minutes = ac_grant_idle_timeout_minutes au,
       sc_grant_absolute_minutes = ac_grant_absolute_max_minutes au,
       sc_session_ttl_minutes = ac_session_ttl_minutes au,
       sc_state_store_file =
         (if normalized_state_store_type c = ''external'' then '''' else cf_state_store_file c),
       sc_auth_store_file = ac_store_file au, sc_auth_store_key = key,
       sc_intents = (case cf_intents c of None \<Rightarrow> [] | Some m \<Rightarrow> m)\<rparr>)"

definition server_setup_of ::
  "'e system \<Rightarrow> config \<Rightarrow> string go_map \<Rightarrow> string \<Rightarrow> 'e secret_store option \<Rightarrow>
   'e env_path_secret_store \<times> bool \<Rightarrow> 'e server_setup" where
  "server_setup_of sys c env key secrets env_paths =
     \<lparr>st_config = server_config_of c key,
      st_outside = (sy_outside sys)\<lparr>od_secret_source := secrets, od_env_paths := Some (fst env_paths)\<rparr>,
      st_exec =
        \<lparr>ec_profile = to_lower (trim_space (cf_security_profile c)),
         ec_policy = new_default_control_plane_policy (cf_execution_policy c) (cf_host_ops_policy c)
           (cf_network_egress_policy c),
         ec_files = sy_exec_files sys, ec_ambient_env = ambient_env env, ec_start = sy_start sys\<rparr>,
      st_meta =
        \<lparr>mt_insecure_dev_mode = is_insecure_dev_mode c,
         mt_unix_socket_configured = uses_unix_socket_transport c,
         mt_env_path_enabled = \<not> snd env_paths,
         mt_agent_bridge_address = trim_space (cf_agent_bridge_address c)\<rparr>\<rparr>"

definition first_daemon :: "config \<Rightarrow> mem_store \<Rightarrow> auth_store \<Rightarrow> file_sink \<Rightarrow> 'e \<Rightarrow> 'e daemon" where
  "first_daemon c store st k e =
     \<lparr>dm_store = store, dm_auth = st, dm_sink = k, dm_trail = [],
      dm_limiter = Some (new_auth_rate_limiter (ac_rate_limit_window_seconds (cf_auth c))
        (ac_rate_limit_max_attempts (cf_auth c))),
      dm_closed = False, dm_reason = '''', dm_env = e\<rparr>"

text \<open>The warnings of the start, each when its condition holds; a failure to write one is ignored.\<close>

definition startup_warnings :: "config \<Rightarrow> string go_map \<Rightarrow> string \<Rightarrow> (bool \<times> string \<times> string go_map) list" where
  "startup_warnings c env key =
     (let au = cf_auth c; address = [(''address'', cf_address c)] in
      [(to_lower (trim_space (cf_security_profile c)) = ''hardened'' \<and>
          equal_fold (trim_space (so_type (cf_secret_source c))) ''in_memory'',
        ''startup_inmemory_secret_source_warning'', []),
       (ac_enable_auth au \<and> remote_tcp c \<and> getenv env ''PROMPTLOCK_ALLOW_INSECURE_TCP'' = ''1'',
        ''startup_insecure_tcp_override'', address),
       (\<not> ac_enable_auth au \<and> remote_tcp c \<and> getenv env ''PROMPTLOCK_ALLOW_INSECURE_NOAUTH_TCP'' = ''1'',
        ''startup_insecure_noauth_tcp_override'', address),
       (is_insecure_dev_mode c, ''startup_insecure_dev_mode_warning'', []),
       (ac_enable_auth au \<and> filled (ac_store_file au) \<and> key = '''',
        ''startup_auth_store_plaintext_warning'', [(''store_file'', ac_store_file au)])])"

fun write_warnings ::
  "'e outside \<Rightarrow> (bool \<times> string \<times> string go_map) list \<Rightarrow> 'e daemon \<Rightarrow> 'e daemon" where
  "write_warnings od [] d = d"
| "write_warnings od ((due, event, meta) # ws) d =
     (if due then
        (case on_env (od_now od) d of
           (t, d) \<Rightarrow>
             write_warnings od ws (snd (daemon_audit od
               (zero_event\<lparr>ev_event := event, ev_timestamp := t, ev_actor_type := ''system'',
                  ev_actor_id := ''promptlockd'', ev_metadata := meta\<rparr>) d)))
      else write_warnings od ws d)"

text \<open>
  The started daemon. With an external state store \<open>sd_service\<close> keeps the requests and leases, and
  the maps of \<open>dm_store\<close> stay empty: \<open>Server\<close> describes the daemon whose state is its own.
\<close>

record 'e started =
  sd_config :: config
  sd_environment :: "string go_map"
  sd_setup :: "'e server_setup"
  sd_service :: "external_store option"
  sd_daemon :: "'e daemon"
  sd_targets :: "listener_target list"

definition run :: "'e system \<Rightarrow> string go_map \<Rightarrow> 'e \<Rightarrow> (gerror + 'e started) \<times> 'e" where
  "run sys env e =
     and_then (startup_config sys env e) (\<lambda>(c, env) e.
     and_then (new_env_path_secret_store (sy_env_files sys) c env e) (\<lambda>env_paths e.
     and_then (startup_secrets sys c env e) (\<lambda>(secrets, store) e.
     and_then (startup_state_service sys c, e) (\<lambda>service e.
     and_then (startup_state sys c store e) (\<lambda>store e.
     and_then (sy_open_log sys (cf_audit_path c) e) (\<lambda>existing e.
     and_then (new_file_sink existing, e) (\<lambda>k e.
     and_then (startup_checks c env, e) (\<lambda>key e.
     and_then (startup_auth sys c key e) (\<lambda>st e.
       (let u = server_setup_of sys c env key secrets env_paths;
            d = write_warnings (st_outside u) (startup_warnings c env key) (first_daemon c store st k e)
        in
        and_then (configured_targets (sy_sockets sys) c (mt_agent_bridge_address (st_meta u)) (dm_env d))
          (\<lambda>(targets, bridge) e.
            (Inr \<lparr>sd_config = c, sd_environment = env,
                 sd_setup = u\<lparr>st_meta := (st_meta u)\<lparr>mt_agent_bridge_address := bridge\<rparr>\<rparr>,
                 sd_service = service, sd_daemon = d\<lparr>dm_env := e\<rparr>, sd_targets = targets\<rparr>, e))))))))))))"

end
