(* ===== verification/StartupProps.thy ===== *)
theory StartupProps
  imports Startup DaemonExample
begin

text \<open>
  What a daemon that has started can rely on: its configuration passed the checks, its sockets
  serve the routes they should, and without files of an earlier run it starts from the empty
  broker, so the invariants of \<open>ServerRun\<close> hold in every state it can come to.
\<close>

section \<open>The stages of a start that succeeded\<close>

lemma run_stages:
  assumes "run sys env e = (Inr s, e')"
  obtains c env' e1 env_paths e2 secrets store e3 service store' e5 existing e6 k key st e7 targets bridge
  where "startup_config sys env e = (Inr (c, env'), e1)"
    and "new_env_path_secret_store (sy_env_files sys) c env' e1 = (Inr env_paths, e2)"
    and "startup_secrets sys c env' e2 = (Inr (secrets, store), e3)"
    and "startup_state_service sys c = Inr service"
    and "startup_state sys c store e3 = (Inr store', e5)"
    and "sy_open_log sys (cf_audit_path c) e5 = (Inr existing, e6)"
    and "new_file_sink existing = Inr k"
    and "startup_checks c env' = Inr key"
    and "startup_auth sys c key e6 = (Inr st, e7)"
    and "configured_targets (sy_sockets sys) c (trim_space (cf_agent_bridge_address c))
      (dm_env (write_warnings (st_outside (server_setup_of sys c env' key secrets env_paths))
        (startup_warnings c env' key) (first_daemon c store' st k e7))) = (Inr (targets, bridge), e')"
    and "s =
      (let u = server_setup_of sys c env' key secrets env_paths in
       \<lparr>sd_config = c, sd_environment = env',
        sd_setup = u\<lparr>st_meta := (st_meta u)\<lparr>mt_agent_bridge_address := bridge\<rparr>\<rparr>,
        sd_service = service,
        sd_daemon = (write_warnings (st_outside u) (startup_warnings c env' key)
          (first_daemon c store' st k e7))\<lparr>dm_env := e'\<rparr>,
        sd_targets = targets\<rparr>)"
proof -
  have m: "mt_agent_bridge_address (st_meta (server_setup_of sys c env' key secrets env_paths)) =
      trim_space (cf_agent_bridge_address c)" for c env' key secrets env_paths
    by (simp add: server_setup_of_def)
  from assms show thesis
    unfolding run_def and_then_Inr Let_def split_paired_Ex prod.case prod.inject m sum.inject
    by (elim exE conjE, hypsubst) (rule that, assumption+, simp only: Let_def)
qed

lemma daemon_audit_keeps:
  "dm_store (snd (daemon_audit od ev d)) = dm_store d" "dm_auth (snd (daemon_audit od ev d)) = dm_auth d"
  "dm_closed (snd (daemon_audit od ev d)) = dm_closed d"
  by (simp_all add: daemon_audit_def split: prod.split option.split)

lemma write_warnings_stores:
  "dm_store (write_warnings od ws d) = dm_store d \<and> dm_auth (write_warnings od ws d) = dm_auth d \<and>
   dm_closed (write_warnings od ws d) = dm_closed d"
proof (induction ws arbitrary: d)
  case (Cons w ws)
  obtain due event meta where w: "w = (due, event, meta)" by (cases w)
  show ?case by (simp add: w Cons.IH daemon_audit_keeps case_prod_beta)
qed simp

section \<open>Configuration\<close>

lemma startup_checks_Inr:
  assumes "startup_checks c env = Inr key"
  shows "validate_security_profile c (getenv env ''PROMPTLOCK_ALLOW_INSECURE_PROFILE'') = None"
    and "validate_deployment_mode c env (getenv env ''PROMPTLOCK_ALLOW_DEV_PROFILE'') = None"
    and "ac_enable_auth (cf_auth c) \<Longrightarrow> ac_operator_token (cf_auth c) \<noteq> ''''"
    and "validate_transport_safety c (getenv env ''PROMPTLOCK_ALLOW_INSECURE_TCP'')
      (getenv env ''PROMPTLOCK_ALLOW_INSECURE_NOAUTH_TCP'') = None"
    and "resolve_auth_store_encryption_key c env = Inr key"
  using assms unfolding startup_checks_def by (auto split: option.splits if_splits)

text \<open>What is on in a daemon that has started: what the profile asks for, or an explicit opt-in.\<close>

definition started_safely :: "'e started \<Rightarrow> bool" where
  "started_safely s \<longleftrightarrow>
     (let c = sd_config s; env = sd_environment s; cfg = st_config (sd_setup s) in
      (if normalized_security_profile c = ''dev''
       then getenv env ''PROMPTLOCK_ALLOW_DEV_PROFILE'' = ''1''
       else deployed c env \<and> sc_auth_enabled cfg \<and> 16 \<le> length (sc_auth_store_key cfg)) \<and>
      (normalized_security_profile c = ''insecure'' \<longrightarrow>
         getenv env ''PROMPTLOCK_ALLOW_INSECURE_PROFILE'' = ''1'') \<and>
      (sc_auth_enabled cfg \<longrightarrow> sc_operator_tok cfg \<noteq> '''') \<and>
      (remote_tcp c \<longrightarrow>
         getenv env (if sc_auth_enabled cfg then ''PROMPTLOCK_ALLOW_INSECURE_TCP''
                     else ''PROMPTLOCK_ALLOW_INSECURE_NOAUTH_TCP'') = ''1''))"

lemma insecure_checks:
  assumes "validate_security_profile c a = None" and "normalized_security_profile c = ''insecure''"
  shows "a = ''1''"
  using assms by (auto simp: validate_security_profile_def Let_def split: if_splits)

text \<open>
  C24: a daemon starts only when its configuration passed every check: outside the profile for
  development it is deployed (authentication on, durable state, a key for the auth store, an
  external backend over https with its token), the profiles \<open>dev\<close> and \<open>insecure\<close> and a TCP
  address that others can reach need their opt-in, and with authentication there is an operator
  token.
\<close>

theorem started_daemon_is_safe:
  assumes "run sys env e = (Inr s, e')"
  shows "started_safely s"
proof -
  obtain c env' key u where ck: "startup_checks c env' = Inr key"
    and s: "sd_config s = c" "sd_environment s = env'" "st_config (sd_setup s) = server_config_of c key"
    using assms by (rule run_stages) (auto simp: Let_def server_setup_of_def)
  note v = startup_checks_Inr [OF ck]
  have cfg: "sc_auth_enabled (server_config_of c key) = ac_enable_auth (cf_auth c)"
    "sc_operator_tok (server_config_of c key) = ac_operator_token (cf_auth c)"
    "sc_auth_store_key (server_config_of c key) = key"
    by (simp_all add: server_config_of_def Let_def)
  have dep: "deployed c env'" if "normalized_security_profile c \<noteq> ''dev''"
    by (rule checks_deployed [OF v(1,2) that])
  then have key: "16 \<le> length key" if "normalized_security_profile c \<noteq> ''dev''"
    using that key_present [OF v(5)] long_key [OF v(5)] by (auto simp: deployed_def)
  show ?thesis
    unfolding started_safely_def Let_def s cfg
    using dep key dev_checks [OF v(2)] insecure_checks [OF v(1)] v(3) transport_checks [OF v(4)]
    by (auto simp: deployed_def split: if_splits)
qed

section \<open>Listeners\<close>

declare new_unix_socket_targets.simps [simp del]

lemma unix_targets:
  "new_unix_socket_targets sk targets e = (Inr ts, e') \<Longrightarrow>
     map (\<lambda>t. (lt_label t, lt_mode t, lt_serves t)) ts = map (\<lambda>(p, m, l). (p, Some m, l)) targets"
  by (induction sk targets e arbitrary: ts e' rule: new_unix_socket_targets.induct)
    (auto simp: new_unix_socket_targets.simps and_then_Inr split: prod.splits option.splits)

text \<open>Who can connect to a target: the owner of a socket file, its group, or whoever reaches a port.\<close>

definition owner_only :: "listener_target \<Rightarrow> bool" where
  "owner_only t \<longleftrightarrow> lt_mode t = Some 384"

lemma configured_targets_serve:
  assumes "configured_targets sk c bridge e = (Inr (ts, b), e')" and "t \<in> set ts"
    and "lt_serves t \<noteq> AgentListener"
  shows "owner_only t \<or> \<not> uses_unix_socket_transport c"
  using assms
  by (auto simp: configured_targets_def and_then_Inr new_tcp_listener_target_def owner_only_def
      uses_unix_socket_transport_def has_any_unix_socket_configured_def uses_legacy_unix_socket_def
      uses_dual_unix_sockets_def map_eq_Cons_conv dest!: unix_targets split: if_splits)

lemma agents_have_no_operator_route:
  "set (listener_routes AgentListener) \<inter> set operator_routes_only = {}"
  by code_simp

text \<open>
  C26: with unix sockets, what a started daemon serves beyond its own user's socket file does not
  answer to a path of the operator: the group's socket and the TCP bridge answer 404 and change
  nothing.
\<close>

theorem operator_socket_is_private:
  assumes "run sys env e = (Inr s, e')" and "uses_unix_socket_transport (sd_config s)"
    and "t \<in> set (sd_targets s)" and "\<not> owner_only t" and "call_path c \<in> set operator_routes_only"
  shows "serve (sd_setup s) (lt_serves t) c d = (write_mapped_error ErrNotFound ''404 page not found'', d)"
proof -
  obtain k b x where ct: "configured_targets (sy_sockets sys) (sd_config s) b x = (Inr (sd_targets s, k), e')"
    using assms(1) by (rule run_stages) (auto simp: Let_def)
  then have "lt_serves t = AgentListener"
    using configured_targets_serve [OF ct assms(3)] assms(2,4) by blast
  then show ?thesis using agents_have_no_operator_route assms(5) by (auto simp: serve_def)
qed

section \<open>The first start\<close>

lemma set_secret_wf: "wf_mem st \<Longrightarrow> wf_mem (set_secret name v st)"
  by (simp add: wf_mem_def set_secret_def)

lemma config_secrets_book:
  "ms_requests (config_secrets xs st) = ms_requests st \<and> ms_leases (config_secrets xs st) = ms_leases st \<and>
   (wf_mem st \<longrightarrow> wf_mem (config_secrets xs st))"
  by (induction xs st rule: config_secrets.induct) (auto simp: set_secret_def set_secret_wf [unfolded set_secret_def])

lemma startup_secrets_empty:
  assumes "startup_secrets sys c env e = (Inr (secrets, st), e')"
  shows "ms_requests st = [] \<and> ms_leases st = [] \<and> wf_mem st"
proof -
  have demo: "ms_requests (demo_secrets env new_store) = []" "ms_leases (demo_secrets env new_store) = []"
    "wf_mem (demo_secrets env new_store)"
    by (simp_all add: demo_secrets_def set_secret_wf wf_new_store) (simp_all add: set_secret_def new_store_def)
  show ?thesis
    using assms demo config_secrets_book [of "cf_secrets c" "demo_secrets env new_store"] wf_new_store
    by (auto simp: startup_secrets_def Let_def new_store_def split: if_splits prod.splits sum.splits)
qed

text \<open>
  No file of an earlier run: when the start comes to read the state file and the file of the auth
  store, after the stages before it, there is none. What the daemon saves later is not restricted.
\<close>

definition locks_taken :: "'e system \<Rightarrow> config \<Rightarrow> 'e \<Rightarrow> (gerror + string list) \<times> 'e" where
  "locks_taken sys c e =
     and_then (if normalized_state_store_type c = ''file''
               then lock_persistent_path sys (cf_state_store_file c) [] e else (Inr [], e)) (\<lambda>locked e.
     if ac_enable_auth (cf_auth c) then lock_persistent_path sys (ac_store_file (cf_auth c)) locked e
     else (Inr locked, e))"

definition absent :: "'e system \<Rightarrow> string \<Rightarrow> 'e \<Rightarrow> bool" where
  "absent sys path e \<longleftrightarrow> fst (fs_read (od_fs (sy_outside sys)) path e) = Inr None"

definition first_start :: "'e system \<Rightarrow> string go_map \<Rightarrow> 'e \<Rightarrow> bool" where
  "first_start sys env e \<longleftrightarrow>
     (case startup_config sys env e of (Inl _, _) \<Rightarrow> False | (Inr (c, env), e) \<Rightarrow>
     (case new_env_path_secret_store (sy_env_files sys) c env e of (Inl _, _) \<Rightarrow> False | (Inr _, e) \<Rightarrow>
     (case startup_secrets sys c env e of (Inl _, _) \<Rightarrow> False | (Inr (_, store), e) \<Rightarrow>
     (normalized_state_store_type c = ''file'' \<and> filled (cf_state_store_file c) \<longrightarrow>
        absent sys (cf_state_store_file c) (snd (locks_taken sys c e))) \<and>
     (case startup_state sys c store e of (Inl _, _) \<Rightarrow> False | (Inr _, e) \<Rightarrow>
        ac_enable_auth (cf_auth c) \<and> filled (ac_store_file (cf_auth c)) \<longrightarrow>
          absent sys (ac_store_file (cf_auth c)) (snd (sy_open_log sys (cf_audit_path c) e))))))"

lemma absent_read: "absent sys path e \<Longrightarrow> \<exists>e'. fs_read (od_fs (sy_outside sys)) path e = (Inr None, e')"
  by (cases "fs_read (od_fs (sy_outside sys)) path e") (simp add: absent_def)

lemma startup_state_empty:
  assumes "startup_state sys c st e = (Inr st', e')"
    and "normalized_state_store_type c = ''file'' \<and> filled (cf_state_store_file c) \<longrightarrow>
      absent sys (cf_state_store_file c) (snd (locks_taken sys c e))"
  shows "st' = st"
proof -
  let ?path = "cf_state_store_file c"
  let ?load = "load_state_from_file (od_codec (sy_outside sys)) (od_fs (sy_outside sys)) ?path st"
  obtain l e1 l2 e2 where k: "(if normalized_state_store_type c = ''file''
        then lock_persistent_path sys ?path [] e else (Inr [], e)) = (Inr l, e1)"
      "(if ac_enable_auth (cf_auth c) then lock_persistent_path sys (ac_store_file (cf_auth c)) l e1
        else (Inr l, e1)) = (Inr l2, e2)"
    and r: "(if normalized_state_store_type c = ''file'' \<and> filled ?path then
        (case ?load e2 of
           (Some err, _, e) \<Rightarrow> (Inl (Wrapped err (''load request/lease state store: '' @ err_msg err)), e)
         | (None, store, e) \<Rightarrow> (Inr store, e))
      else (Inr st, e2)) = (Inr st', e')"
    using assms(1) unfolding startup_state_def Let_def and_then_Inr by blast
  have "locks_taken sys c e = (Inr l2, e2)"
    unfolding locks_taken_def and_then_Inr using k by blast
  show ?thesis
  proof (cases "normalized_state_store_type c = ''file'' \<and> filled ?path")
    case True
    then obtain e3 where "fs_read (od_fs (sy_outside sys)) ?path e2 = (Inr None, e3)"
      using assms(2) absent_read \<open>locks_taken sys c e = (Inr l2, e2)\<close> by (metis snd_conv)
    then have "?load e2 = (None, st, e3)" by (simp add: load_state_from_file_def)
    with r True show ?thesis by simp
  next
    case False
    with r show ?thesis by (auto split: if_splits)
  qed
qed

lemma startup_auth_empty:
  assumes "startup_auth sys c key e = (Inr st, e')"
    and "ac_enable_auth (cf_auth c) \<and> filled (ac_store_file (cf_auth c)) \<longrightarrow>
      absent sys (ac_store_file (cf_auth c)) e"
  shows "st = new_auth_store"
proof (cases "ac_enable_auth (cf_auth c) \<and> filled (ac_store_file (cf_auth c))")
  case True
  then obtain e1 where "fs_read (od_fs (sy_outside sys)) (ac_store_file (cf_auth c)) e = (Inr None, e1)"
    using absent_read [OF mp [OF assms(2) True]] by (elim exE)
  then show ?thesis using assms(1)
    by (auto simp: startup_auth_def Let_def load_from_file_def load_from_file_encrypted_def split: if_splits)
next
  case False
  then show ?thesis using assms(1) by (auto simp: startup_auth_def Let_def split: if_splits)
qed

lemma first_start_empty:
  assumes "run sys env e = (Inr s, e')" and "first_start sys env e"
  shows "starts_empty (sd_daemon s)"
  using assms(1)
proof (rule run_stages)
  fix c env' e1 env_paths e2 secrets store e3 service store' e5 existing e6 k key st e7 targets bridge
  let ?u = "server_setup_of sys c env' key secrets env_paths"
  let ?d = "write_warnings (st_outside ?u) (startup_warnings c env' key) (first_daemon c store' st k e7)"
  assume r: "startup_config sys env e = (Inr (c, env'), e1)"
      "new_env_path_secret_store (sy_env_files sys) c env' e1 = (Inr env_paths, e2)"
    and m: "startup_secrets sys c env' e2 = (Inr (secrets, store), e3)"
    and l: "startup_state sys c store e3 = (Inr store', e5)"
    and o: "sy_open_log sys (cf_audit_path c) e5 = (Inr existing, e6)"
    and a: "startup_auth sys c key e6 = (Inr st, e7)"
    and "s = (let u = ?u in
       \<lparr>sd_config = c, sd_environment = env',
        sd_setup = u\<lparr>st_meta := (st_meta u)\<lparr>mt_agent_bridge_address := bridge\<rparr>\<rparr>, sd_service = service,
        sd_daemon = (write_warnings (st_outside u) (startup_warnings c env' key)
          (first_daemon c store' st k e7))\<lparr>dm_env := e'\<rparr>, sd_targets = targets\<rparr>)"
  then have s: "sd_daemon s = ?d\<lparr>dm_env := e'\<rparr>" by (simp add: Let_def)
  note first = assms(2) [unfolded first_start_def r m l prod.case sum.case o snd_conv]
  have "store' = store" by (rule startup_state_empty [OF l conjunct1 [OF first]])
  moreover have "st = new_auth_store" by (rule startup_auth_empty [OF a conjunct2 [OF first]])
  ultimately have "dm_store ?d = store" "dm_auth ?d = new_auth_store" "\<not> dm_closed ?d"
    using write_warnings_stores [of "st_outside ?u" "startup_warnings c env' key" "first_daemon c store' st k e7"]
    by (simp_all add: first_daemon_def)
  then show ?thesis
    using startup_secrets_empty [OF m] unfolding s starts_empty_def
    by (simp add: daemon_book_def fun_eq_iff)
qed

text \<open>
  C25: a daemon that finds no files of an earlier run when it starts and keeps its state itself
  is, in every state it can come to, whatever it saves on the way, a well-formed broker whose leases
  each belong to one approved request within the policy of the configuration; each lease has
  its approval by an operator on the trail, and grants and sessions come from the steps of the
  auth store alone.
\<close>

theorem first_run_invariant:
  assumes "run sys env e = (Inr s, e')" and "sd_service s = None" and "first_start sys env e"
    and "daemon_run (sd_setup s) (sd_daemon s) es d"
  shows "daemon_ok d \<and> book_ok (to_policy (sd_config s)) (daemon_book d) \<and>
    (\<forall>tok l. snd (daemon_book d) tok = Some l \<longrightarrow> approved_on_trail d l) \<and>
    (\<exists>as. auth_run new_auth_store as (dm_auth d))"
proof -
  have "sc_policy (st_config (sd_setup s)) = to_policy (sd_config s)"
    using assms(1) by (rule run_stages) (auto simp: Let_def server_setup_of_def server_config_of_def)
  moreover note st = first_start_empty [OF assms(1,3)]
  ultimately show ?thesis
    using run_ok [OF assms(4) empty_ok [OF st]] reachable_book_ok [OF run_book [OF assms(4) st]]
      run_auth [OF assms(4) st] run_leases_approved [OF assms(4) st] by simp
qed

section \<open>A system that starts\<close>

text \<open>
  Its world is the disk of \<open>AtomicFile\<close>, at first with the configuration file alone; the profile is
  the hardened one.
\<close>

definition hardened_example :: config where
  "hardened_example = default_config\<lparr>cf_security_profile := ''hardened'', cf_address := '''',
     cf_agent_unix_socket := ''/run/agent.sock'', cf_operator_unix_socket := ''/run/operator.sock'',
     cf_state_store_file := ''/var/state.json'', cf_secret_source := default_secret_source_config\<lparr>so_type := ''env''\<rparr>,
     cf_auth := default_auth_config\<lparr>ac_enable_auth := True, ac_operator_token := ''op'',
       ac_store_file := ''/var/auth.json''\<rparr>\<rparr>"

definition example_env :: "string go_map" where
  "example_env = [(''PROMPTLOCK_AUTH_STORE_KEY'', ''0123456789abcdef'')]"

definition start_disk :: disk where
  "start_disk = \<lparr>dk_files = [(''/etc/promptlock/config.json'', ''{}'')], dk_plan = []\<rparr>"

definition disk_outside :: "disk outside" where
  "disk_outside =
     \<lparr>od_audit_os = \<lparr>ao_append = \<lambda>_ e. (None, e), ao_sync_file = \<lambda>e. (None, e),
        ao_sync_parent = \<lambda>e. (None, e)\<rparr>,
      od_fs = mem_disk, od_codec = example_codec example_auth_store, od_now = \<lambda>e. (0, e),
      od_random = \<lambda>e. (replicate 16 (CHR ''r''), e),
      od_nonce = \<lambda>e. (Inr (replicate 12 (CHR ''n'')), e), od_env_paths = None,
      od_secret_source = None,
      od_paths = \<lparr>os_getwd = \<lambda>_. Inr ''/'', os_eval_symlinks = \<lambda>p _. Inr p\<rparr>\<rparr>"

definition example_system :: "disk system" where
  "example_system =
      \<lparr>sy_outside = disk_outside, sy_goos = ''linux'',
       sy_decode_config = \<lambda>_ _. Inr hardened_example, sy_decode_strings = \<lambda>_. Inr [],
       sy_parse_value = \<lambda>s. Inr s,
       sy_sops = \<lparr>sx_decrypt = \<lambda>_ e. (Inr '''', e), sx_decode = \<lambda>_. Inr []\<rparr>,
       sy_env_files = \<lparr>ef_paths = od_paths disk_outside, ef_stat = \<lambda>_ e. (Inr True, e),
         ef_open = \<lambda>_ e. (Inl (Plain ''none''), e)\<rparr>,
       sy_exec_files = \<lparr>of_paths = od_paths disk_outside, of_lstat = \<lambda>p _. of_lstat example_files p (),
         of_stat = \<lambda>p _. of_stat example_files p ()\<rparr>,
       sy_start = \<lambda>_ _ _ _ e. (\<lparr>pe_chunks = [''done''], pe_exit = Inr 0\<rparr>, e),
       sy_client = \<lparr>hc_endpoint = \<lambda>s. s, hc_check_url = \<lambda>_. None,
         hc_do = \<lambda>_ e. (Inl (Plain ''none''), e), hc_status_text = \<lambda>_. ''''\<rparr>,
       sy_sockets = \<lparr>sk_mkdir_all = \<lambda>_ e. (None, e), sk_remove = \<lambda>_ e. e, sk_listen_unix = \<lambda>_ e. (None, e),
         sk_chmod = \<lambda>_ _ e. (None, e), sk_close = \<lambda>_ e. e, sk_listen_tcp = \<lambda>a e. (Inr a, e)\<rparr>,
       sy_lock = \<lambda>_ e. (None, e), sy_open_log = \<lambda>_ e. (Inr None, e)\<rparr>"

definition loaded_example :: config where
  "loaded_example = normalize_config (apply_profile ''linux'' (mark_explicit_overrides ''{}'' hardened_example))"

lemma example_config_loads: "startup_config example_system example_env start_disk =
  (Inr (loaded_example, example_env), start_disk)"
  by code_simp

text \<open>What the witnesses need to know of it, evaluated once.\<close>

definition config_facts where
  "config_facts c =
     (let au = cf_auth c in
      ((normalized_security_profile c, normalized_state_store_type c,
        to_lower (trim_space (so_type (cf_secret_source c)))),
       (cf_state_store_file c, ac_store_file au, cf_agent_unix_socket c, cf_operator_unix_socket c),
       (ac_enable_auth au, ac_operator_token au, filled (cf_agent_bridge_address c), uses_dual_unix_sockets c,
        uses_legacy_unix_socket c, uses_unix_socket_transport c),
       startup_checks c example_env,
       map fst (startup_warnings c example_env ''0123456789abcdef'')))"

lemma loaded_example_facts:
  "config_facts loaded_example =
     ((''hardened'', ''file'', ''env''),
      (''/var/state.json'', ''/var/auth.json'', ''/run/agent.sock'', ''/run/operator.sock''),
      (True, ''op'', False, True, False, True), Inr ''0123456789abcdef'', [False, False, False, False, False])"
  by code_simp

lemmas loaded_example_fields = loaded_example_facts [unfolded config_facts_def Let_def prod.inject]

lemma no_warnings: "list_all Not (map fst ws) \<Longrightarrow> write_warnings od ws d = d"
  by (induction od ws d rule: write_warnings.induct) simp_all

lemma example_reads:
  "fs_read (od_fs (sy_outside example_system)) p start_disk =
     (Inr (if p = ''/etc/promptlock/config.json'' then Some ''{}'' else None), start_disk)"
  by (simp add: example_system_def disk_outside_def mem_disk_def start_disk_def)

lemma example_paths [simp]:
  "filled ''/var/state.json''" "filled ''/var/auth.json''" "filled ''/run/agent.sock''"
  "filled ''/run/operator.sock''"
  by code_simp+

lemma example_calls [simp]:
  "sy_lock example_system p e = (None, e)" "sk_mkdir_all (sy_sockets example_system) p e = (None, e)"
  "sk_remove (sy_sockets example_system) p e = e" "sk_listen_unix (sy_sockets example_system) p e = (None, e)"
  "sk_chmod (sy_sockets example_system) p m e = (None, e)" "sy_open_log example_system p e = (Inr None, e)"
  by (simp_all add: example_system_def)

lemma example_stages:
  "new_env_path_secret_store (sy_env_files example_system) loaded_example example_env start_disk =
     (Inr (disabled_env_paths ''env_path requires PROMPTLOCK_ENV_PATH_ROOT in non-dev profiles'', True), start_disk)"
  "startup_secrets example_system loaded_example example_env start_disk =
     (Inr (Some (\<lambda>name e. (env_get_secret (new_env_secret_store (so_env_prefix (cf_secret_source loaded_example)))
        example_env name, e)), new_store), start_disk)"
  "startup_state_service example_system loaded_example = Inr None"
  "startup_state example_system loaded_example new_store start_disk = (Inr new_store, start_disk)"
  "startup_auth example_system loaded_example ''0123456789abcdef'' start_disk = (Inr new_auth_store, start_disk)"
proof -
  have g: "trim_space (getenv example_env ''PROMPTLOCK_ENV_PATH_ROOT'') = ''''" by code_simp
  show "new_env_path_secret_store (sy_env_files example_system) loaded_example example_env start_disk =
     (Inr (disabled_env_paths ''env_path requires PROMPTLOCK_ENV_PATH_ROOT in non-dev profiles'', True), start_disk)"
    unfolding new_env_path_secret_store_def g Let_def by (simp add: loaded_example_fields)
  show "startup_secrets example_system loaded_example example_env start_disk =
     (Inr (Some (\<lambda>name e. (env_get_secret (new_env_secret_store (so_env_prefix (cf_secret_source loaded_example)))
        example_env name, e)), new_store), start_disk)"
    by (simp add: startup_secrets_def Let_def loaded_example_fields)
  show "startup_state_service example_system loaded_example = Inr None"
    by (simp add: startup_state_service_def loaded_example_fields)
  show "startup_state example_system loaded_example new_store start_disk = (Inr new_store, start_disk)"
    by (simp add: startup_state_def Let_def loaded_example_fields lock_persistent_path_def and_then_def
        load_state_from_file_def example_reads)
  show "startup_auth example_system loaded_example ''0123456789abcdef'' start_disk = (Inr new_auth_store, start_disk)"
    by (simp add: startup_auth_def Let_def loaded_example_fields load_from_file_encrypted_def example_reads)
qed

lemma example_targets:
  "configured_targets (sy_sockets example_system) loaded_example b e =
     (Inr ([\<lparr>lt_label = ''/run/agent.sock'', lt_serves = AgentListener, lt_mode = Some 432\<rparr>,
        \<lparr>lt_label = ''/run/operator.sock'', lt_serves = OperatorListener, lt_mode = Some 384\<rparr>], b), e)"
  by (simp add: configured_targets_def loaded_example_fields new_unix_socket_targets.simps and_then_def
      ensure_unix_socket_parent_dir_def Let_def)

text \<open>What starts, and with what.\<close>

definition example_key :: string where
  "example_key = ''0123456789abcdef''"

definition fresh_sink :: file_sink where
  "fresh_sink = \<lparr>fk_content = '''', fk_last_hash = '''', fk_need_sync = True\<rparr>"

lemma example_starts:
  "\<exists>s. run example_system example_env start_disk = (Inr s, start_disk) \<and> sd_config s = loaded_example \<and>
     sd_environment s = example_env \<and> sd_service s = None \<and>
     sd_targets s = [\<lparr>lt_label = ''/run/agent.sock'', lt_serves = AgentListener, lt_mode = Some 432\<rparr>,
        \<lparr>lt_label = ''/run/operator.sock'', lt_serves = OperatorListener, lt_mode = Some 384\<rparr>] \<and>
     st_config (sd_setup s) = server_config_of loaded_example example_key \<and>
     (\<exists>src paths. st_outside (sd_setup s) = disk_outside\<lparr>od_secret_source := src, od_env_paths := paths\<rparr>) \<and>
     sd_daemon s = first_daemon loaded_example new_store new_auth_store fresh_sink start_disk"
  unfolding run_def
  by (simp add: and_then_def example_config_loads example_stages loaded_example_fields new_file_sink_def
      Let_def no_warnings example_targets first_daemon_def example_key_def fresh_sink_def server_setup_of_def)
    (simp add: example_system_def, blast)

text \<open>
  An operator has a bootstrap token made: the auth store is saved, so a later start would find a
  file.
\<close>

definition bootstrap_call :: call where
  "bootstrap_call = BootstrapCreateCall by_operator
     (body_of \<lparr>bc_agent_id = ''agent'', bc_container_id = ''box''\<rparr>)"

definition example_daemon_started :: "disk daemon" where
  "example_daemon_started = first_daemon loaded_example new_store new_auth_store fresh_sink start_disk"

lemma disk_saves:
  "\<exists>e. write_file_atomically mem_disk ''/var/auth.json'' b start_disk = (None, e) \<and>
     go_get (dk_files e) ''/var/auth.json'' = Some b"
proof -
  have p: "path_dir ''/var/auth.json'' = ''/var''" "path_base ''/var/auth.json'' = ''auth.json''" by code_simp+
  have "fst (write_file_atomically mem_disk ''/var/auth.json'' b start_disk) = None"
    by (simp add: write_file_atomically_def sync_parent_dir_def Let_def p mem_disk_def disk_call_def
        disk_create_temp_def disk_put_def temp_name_def start_disk_def disk_rename_def)
  then obtain e where w: "write_file_atomically mem_disk ''/var/auth.json'' b start_disk = (None, e)"
    by (metis prod.collapse)
  with md.old_or_new(2) [OF w] show ?thesis by blast
qed

lemma example_saves_auth:
  assumes od: "od = disk_outside\<lparr>od_secret_source := src, od_env_paths := paths\<rparr>"
    and d: "dm_env d = start_disk"
  shows "\<exists>e. persist_auth_store (server_config_of loaded_example example_key) od d =
      (None, d\<lparr>dm_env := e\<rparr>) \<and> go_get (dk_files e) ''/var/auth.json'' \<noteq> None"
proof -
  have k: "example_key \<noteq> ''''" "\<not> length (trim_space example_key) < 16"
    "trim_space ''/var/auth.json'' = ''/var/auth.json''" by code_simp+
  have c: "sc_auth_enabled (server_config_of loaded_example example_key)"
    "sc_auth_store_file (server_config_of loaded_example example_key) = ''/var/auth.json''"
    "sc_auth_store_key (server_config_of loaded_example example_key) = example_key"
    by (simp_all add: server_config_of_def Let_def loaded_example_fields)
  have o: "od_codec od = example_codec example_auth_store" "od_fs od = mem_disk"
    "od_nonce od e = (Inr (replicate 12 (CHR ''n'')), e)" for e
    by (simp_all add: od disk_outside_def)
  let ?enc = "\<lparr>ep_version = encrypted_persisted_state_v1, ep_nonce = b64_encode (replicate 12 (CHR ''n'')),
    ep_ciphertext = b64_encode (''sealed:'' @ ''snapshot'')\<rparr>"
  obtain e where w: "write_file_atomically mem_disk ''/var/auth.json''
      (put_fields [ep_version ?enc, ep_nonce ?enc, ep_ciphertext ?enc]) start_disk = (None, e)"
    and f: "go_get (dk_files e) ''/var/auth.json'' \<noteq> None"
    using disk_saves by blast
  have "save_to_file_encrypted (example_codec example_auth_store) mem_disk (od_nonce od) ''/var/auth.json''
      example_key (dm_auth d) start_disk = (None, e)"
    using w k(2) by (simp add: save_to_file_encrypted_def encrypt_state_def normalize_encryption_key_def
        example_codec_def o)
  then show ?thesis
    using f by (intro exI [of _ e])
      (simp add: persist_auth_store_def c k o Let_def on_env_def d close_durability_gate_def)
qed

lemma disk_audit:
  assumes od: "od = disk_outside\<lparr>od_secret_source := src, od_env_paths := paths\<rparr>"
    and ev: "ev_timestamp ev = 0"
  shows "\<exists>d'. daemon_audit od ev d = (None, d') \<and> dm_env d' = dm_env d"
proof -
  obtain raw where "marshal_event (sanitize_audit_event ev) = Inr raw"
    using ev json_time_start by (auto simp: marshal_event_def sanitized_timestamp)
  then show ?thesis
    by (simp add: daemon_audit_def sink_write_def Let_def od disk_outside_def)
qed

lemma fresh_limiter: "fst (limiter_allow key now (new_auth_rate_limiter w m))"
  by (simp add: limiter_allow_def new_auth_rate_limiter_def current_bucket_def Let_def)

lemma example_call_saves:
  assumes cfg: "st_config u = server_config_of loaded_example example_key"
    and od: "st_outside u = disk_outside\<lparr>od_secret_source := src, od_env_paths := paths\<rparr>"
  shows "go_get (dk_files (dm_env (react u (Called OperatorListener bootstrap_call)
    example_daemon_started))) ''/var/auth.json'' \<noteq> None"
proof -
  let ?d = example_daemon_started and ?c = "server_config_of loaded_example example_key"
  note od' = od [symmetric]
  have c: "sc_auth_enabled ?c" "sc_operator_tok ?c = ''op''"
    by (simp_all add: server_config_of_def Let_def loaded_example_fields)
  have now: "on_env (od_now (st_outside u)) x = (0, x)"
    "on_env (od_random (st_outside u)) x = (replicate 16 (CHR ''r''), x)" for x
    by (simp_all add: od disk_outside_def on_env_def)
  obtain l where l: "limiter_allow (limiter_key (rq_remote_addr by_operator) ''operator'') 0
      (new_auth_rate_limiter (ac_rate_limit_window_seconds (cf_auth loaded_example))
        (ac_rate_limit_max_attempts (cf_auth loaded_example))) = (True, l)"
    using fresh_limiter by (metis prod.collapse)
  let ?d1 = "?d\<lparr>dm_limiter := Some l\<rparr>"
  have op: "require_operator ?c (st_outside u) by_operator ?d = (Inr (''operator'', ''token-operator''), ?d1)"
    using l by (simp add: require_operator_def enforce_auth_rate_limit_def now c example_daemon_started_def
        first_daemon_def)
  have gate: "require_durability_ready ?d1 = None"
    by (simp add: require_durability_ready_def durability_error_def example_daemon_started_def first_daemon_def)
  have t: "trim_space ''agent'' \<noteq> ''''" "trim_space ''box'' \<noteq> ''''" by code_simp+
  let ?tok = "\<lparr>bt_token = ''boot_'' @ hex_encode (replicate 16 (CHR ''r'')), bt_agent_id = ''agent'',
     bt_container_id = ''box'', bt_created_at = 0,
     bt_expires_at = dur_mult (sc_bootstrap_ttl_seconds ?c) second, bt_used = False\<rparr>"
  let ?d2 = "?d1\<lparr>dm_auth := save_bootstrap ?tok (dm_auth ?d1)\<rparr>"
  have e: "dm_env ?d2 = start_disk" by (simp add: example_daemon_started_def first_daemon_def)
  obtain e where p: "persist_auth_store ?c (st_outside u) ?d2 = (None, ?d2\<lparr>dm_env := e\<rparr>)"
    and f: "go_get (dk_files e) ''/var/auth.json'' \<noteq> None"
    using example_saves_auth [OF od e] by blast
  let ?ev = "zero_event\<lparr>ev_event := ''auth_bootstrap_created'', ev_timestamp := 0,
     ev_actor_type := ''operator'', ev_actor_id := ''token-operator'', ev_agent_id := ''agent'',
     ev_metadata := [(''container_id'', ''box'')]\<rparr>"
  obtain d3 where a: "daemon_audit (st_outside u) ?ev (?d2\<lparr>dm_env := e\<rparr>) = (None, d3)" "dm_env d3 = e"
    using disk_audit [OF od, of ?ev "?d2\<lparr>dm_env := e\<rparr>"] by auto
  have "create_bootstrap (auth_lifecycle_svc ?c (st_outside u)) ''agent'' ''box'' ''operator'' ''token-operator''
      ?d1 = (Inr ?tok, d3)"
    using p a(1) by (simp add: create_bootstrap_def t auth_lifecycle_svc_def now must_secure_token_def
        on_store_def finish_auth_mutation_def persist_auth_def auth_audit_critical_def Let_def)
  moreover have "''/v1/auth/bootstrap/create'' \<in> set operator_routes_only"
    by (simp add: operator_routes_only_def)
  ultimately have "dm_env (react u (Called OperatorListener bootstrap_call) ?d) = e"
    using a(2) by (simp add: serve_def bootstrap_call_def cfg handle_auth_bootstrap_create_def op
        checked_method_def when_auth_enabled_def c when_durable_def gate body_of_def decode_body_def)
  with f show ?thesis by simp
qed

section \<open>Witnesses\<close>

theorem started_daemon_is_safe_witness:
  "\<exists>s. run example_system example_env start_disk = (Inr s, start_disk) \<and> started_safely s \<and> deployed (sd_config s) example_env"
proof -
  obtain s where r: "run example_system example_env start_disk = (Inr s, start_disk)" "sd_config s = loaded_example"
    "sd_environment s = example_env" using example_starts by blast
  note safe = started_daemon_is_safe [OF r(1)]
  then have "deployed loaded_example example_env"
    using r(2,3) by (simp add: started_safely_def Let_def loaded_example_fields)
  with r safe show ?thesis by auto
qed

theorem operator_socket_is_private_witness:
  "\<exists>s t. run example_system example_env start_disk = (Inr s, start_disk) \<and> t \<in> set (sd_targets s) \<and>
     rs_status (fst (serve (sd_setup s) (lt_serves t) (ApproveCall by_agent (body_of 5)) (sd_daemon s))) = 404"
proof -
  obtain s where r: "run example_system example_env start_disk = (Inr s, start_disk)" "sd_config s = loaded_example"
    and t: "sd_targets s = [\<lparr>lt_label = ''/run/agent.sock'', lt_serves = AgentListener, lt_mode = Some 432\<rparr>,
        \<lparr>lt_label = ''/run/operator.sock'', lt_serves = OperatorListener, lt_mode = Some 384\<rparr>]"
    using example_starts by blast
  let ?t = "\<lparr>lt_label = ''/run/agent.sock'', lt_serves = AgentListener, lt_mode = Some 432\<rparr>"
  have "serve (sd_setup s) (lt_serves ?t) (ApproveCall by_agent (body_of 5)) (sd_daemon s) =
      (write_mapped_error ErrNotFound ''404 page not found'', sd_daemon s)"
    by (rule operator_socket_is_private [OF r(1)])
      (simp_all add: r(2) t loaded_example_fields owner_only_def operator_routes_only_def)
  moreover have "rs_status (write_mapped_error ErrNotFound ''404 page not found'') = 404" by code_simp
  ultimately show ?thesis using r(1) t by (intro exI [of _ s] exI [of _ ?t]) simp
qed

text \<open>
  The run of one call, after which the auth store has its file: a second start would not be a first
  one.
\<close>

theorem first_run_invariant_witness:
  "\<exists>s d. run example_system example_env start_disk = (Inr s, start_disk) \<and>
     daemon_run (sd_setup s) (sd_daemon s) [Called OperatorListener bootstrap_call] d \<and>
     \<not> absent example_system ''/var/auth.json'' (dm_env d) \<and>
     daemon_ok d \<and> book_ok (to_policy (sd_config s)) (daemon_book d)"
proof -
  obtain s src paths where r: "run example_system example_env start_disk = (Inr s, start_disk)"
      "sd_config s = loaded_example" "sd_service s = None"
    and u: "st_config (sd_setup s) = server_config_of loaded_example example_key"
      "st_outside (sd_setup s) = disk_outside\<lparr>od_secret_source := src, od_env_paths := paths\<rparr>"
    and d: "sd_daemon s = example_daemon_started"
    using example_starts unfolding example_daemon_started_def by blast
  let ?d = "react (sd_setup s) (Called OperatorListener bootstrap_call) (sd_daemon s)"
  have first: "first_start example_system example_env start_disk"
    by (simp add: first_start_def example_config_loads example_stages absent_def example_reads
        locks_taken_def loaded_example_fields lock_persistent_path_def and_then_def Let_def)
  have "ids_fresh od (sd_daemon s)" for od
    by (simp add: ids_fresh_def d example_daemon_started_def first_daemon_def new_store_def
        new_auth_store_def Let_def)
  then have run: "daemon_run (sd_setup s) (sd_daemon s) [Called OperatorListener bootstrap_call] ?d"
    using daemon_run.reacted [OF daemon_run.started] by (metis append_Nil)
  have "fs_read (od_fs (sy_outside example_system)) p x = (Inr (go_get (dk_files x) p), x)" for p x
    by (simp add: example_system_def disk_outside_def mem_disk_def)
  then have "\<not> absent example_system ''/var/auth.json'' (dm_env ?d)"
    using example_call_saves [OF u] by (simp add: absent_def d)
  with r(1) run first_run_invariant [OF r(1,3) first run] show ?thesis by blast
qed

end
