(* ===== verification/BrokerClient.thy ===== *)
theory BrokerClient
  imports Backends Config
begin

text \<open>
  How the MCP adapter reaches the broker (\<open>cmd/promptlock-mcp/main.go\<close>): the transport it chooses,
  the URL of a call, the calls, and how an answer that is no success becomes an error. The environment of the process is a map; sockets, files and the HTTP
  exchange are parameters.
\<close>

section \<open>Exchanges\<close>

text \<open>
  An answer as the client sees it: the status, its line, and the body or the error that cut it off.
  An exchange that fails says whether it ran out of time.
\<close>

record http_answer =
  ha_status :: int
  ha_status_line :: string
  ha_body :: "gerror + string"

type_synonym http_failure = "gerror \<times> bool"

record 'w web =
  wb_check_url :: "string \<Rightarrow> gerror option"
  wb_do :: "string option \<Rightarrow> http_exchange \<Rightarrow> 'w \<Rightarrow> (http_failure + http_answer) \<times> 'w"

definition broker_client_timeout :: int where
  "broker_client_timeout = 10 * second"

definition normalize_broker_request_error :: "http_failure \<Rightarrow> gerror" where
  "normalize_broker_request_error f =
     (if snd f then Plain ''broker request timed out after 10s'' else fst f)"

text \<open>Where the broker is: a socket file, or a base URL.\<close>

record broker_transport =
  br_base_url :: string
  br_unix_socket :: string

section \<open>The MCP adapter\<close>

definition wrapped_env :: "string go_map \<Rightarrow> string \<Rightarrow> string \<Rightarrow> string" where
  "wrapped_env env wrapper key =
     (let v = trim_space (getenv env wrapper) in if v \<noteq> '''' then v else trim_space (getenv env key))"

definition effective_env :: "string go_map \<Rightarrow> string \<Rightarrow> string" where
  "effective_env env key =
     (if key = ''PROMPTLOCK_SESSION_TOKEN'' then wrapped_env env ''PROMPTLOCK_WRAPPER_SESSION_TOKEN'' key
      else if key = ''PROMPTLOCK_AGENT_UNIX_SOCKET''
      then wrapped_env env ''PROMPTLOCK_WRAPPER_AGENT_UNIX_SOCKET'' key
      else if key = ''PROMPTLOCK_BROKER_URL'' then wrapped_env env ''PROMPTLOCK_WRAPPER_BROKER_URL'' key
      else if key = ''PROMPTLOCK_AGENT_ID'' then wrapped_env env key ''PROMPTLOCK_WRAPPER_AGENT_ID''
      else if key = ''PROMPTLOCK_TASK_ID'' then wrapped_env env key ''PROMPTLOCK_WRAPPER_TASK_ID''
      else trim_space (getenv env key))"

definition env_default :: "string go_map \<Rightarrow> string \<Rightarrow> string \<Rightarrow> string" where
  "env_default env k d = (let v = effective_env env k in if v \<noteq> '''' then v else d)"

text \<open>\<open>stat p w\<close> says whether there is a file.\<close>

definition resolve_broker_transport ::
  "string go_map \<Rightarrow> (string \<Rightarrow> 'w \<Rightarrow> bool) \<Rightarrow> 'w \<Rightarrow> gerror + broker_transport" where
  "resolve_broker_transport env stat w =
     (let explicit_unix = trim_space (getenv env ''PROMPTLOCK_BROKER_UNIX_SOCKET'') in
      if explicit_unix \<noteq> '''' then
        (if \<not> stat explicit_unix w
         then Inl (Plain (''broker unix socket not found at '' @ explicit_unix))
         else Inr \<lparr>br_base_url = '''', br_unix_socket = explicit_unix\<rparr>)
      else
        let configured = effective_env env ''PROMPTLOCK_AGENT_UNIX_SOCKET'';
            agent_unix = (if configured = '''' then ''/tmp/promptlock-agent.sock'' else configured);
            explicit_url = effective_env env ''PROMPTLOCK_BROKER_URL''
        in if stat agent_unix w then Inr \<lparr>br_base_url = '''', br_unix_socket = agent_unix\<rparr>
           else if explicit_url \<noteq> '''' then Inr \<lparr>br_base_url = explicit_url, br_unix_socket = ''''\<rparr>
           else Inl (Plain (''agent broker unix socket not found at '' @ agent_unix @
                  ''; set PROMPTLOCK_BROKER_URL for explicit TCP transport'')))"

definition broker_request_url :: "broker_transport \<Rightarrow> string \<Rightarrow> string" where
  "broker_request_url b path =
     (let base = (if filled (br_unix_socket b) then ''http://promptlock'' else trim_space (br_base_url b)) in
      if has_suffix base ''/'' \<and> has_prefix path ''/'' then trim_suffix base ''/'' @ path
      else if \<not> has_suffix base ''/'' \<and> \<not> has_prefix path ''/'' then base @ ''/'' @ path
      else base @ path)"

definition broker_dial :: "broker_transport \<Rightarrow> string option" where
  "broker_dial b = (if filled (br_unix_socket b) then Some (trim_space (br_unix_socket b)) else None)"

text \<open>At most 4096 bytes of the body go into the message, its blanks collapsed.\<close>

definition broker_response_error :: "http_answer \<Rightarrow> gerror" where
  "broker_response_error a =
     (case ha_body a of
        Inl _ \<Rightarrow> Plain (''request failed: '' @ ha_status_line a)
      | Inr body \<Rightarrow>
          (let msg = join '' '' (split_fields (take 4096 body)) in
           if msg = '''' then Plain (''request failed: '' @ ha_status_line a)
           else Plain (''request failed: '' @ ha_status_line a @ '': '' @ msg)))"

definition exchange ::
  "'w web \<Rightarrow> broker_transport \<Rightarrow> http_exchange \<Rightarrow> 'w \<Rightarrow> (gerror + (gerror + string)) \<times> 'w" where
  "exchange web b x w =
     (case wb_check_url web (hx_url x) of
        Some e \<Rightarrow> (Inl e, w)
      | None \<Rightarrow>
          (case wb_do web (broker_dial b) x w of
             (Inl f, w) \<Rightarrow> (Inl (normalize_broker_request_error f), w)
           | (Inr a, w) \<Rightarrow>
               if 300 \<le> ha_status a then (Inl (broker_response_error a), w) else (Inr (ha_body a), w)))"

definition post_exchange :: "broker_transport \<Rightarrow> string \<Rightarrow> string \<Rightarrow> string \<Rightarrow> http_exchange" where
  "post_exchange b path token body =
     \<lparr>hx_method = ''POST'', hx_url = broker_request_url b path,
      hx_headers = [(''Content-Type'', ''application/json''), (''Authorization'', ''Bearer '' @ token)],
      hx_body = Some body, hx_timeout = broker_client_timeout\<rparr>"

definition get_exchange :: "broker_transport \<Rightarrow> string \<Rightarrow> string \<Rightarrow> http_exchange" where
  "get_exchange b path token =
     \<lparr>hx_method = ''GET'', hx_url = broker_request_url b path,
      hx_headers = [(''Authorization'', ''Bearer '' @ token)],
      hx_body = None, hx_timeout = broker_client_timeout\<rparr>"

text \<open>The answer is decoded by \<open>dec\<close>, which stands for \<open>json.Decoder.Decode\<close> into a struct.\<close>

definition post_auth ::
  "'w web \<Rightarrow> broker_transport \<Rightarrow> string \<Rightarrow> string \<Rightarrow> string \<Rightarrow> (gerror + string \<Rightarrow> gerror + 'a) \<Rightarrow> 'w \<Rightarrow>
   (gerror + 'a) \<times> 'w" where
  "post_auth web b path token body dec w =
     (case exchange web b (post_exchange b path token body) w of
        (Inl e, w) \<Rightarrow> (Inl e, w)
      | (Inr answer, w) \<Rightarrow> (dec answer, w))"

definition get_auth ::
  "'w web \<Rightarrow> broker_transport \<Rightarrow> string \<Rightarrow> string \<Rightarrow> (gerror + string \<Rightarrow> gerror + 'a) \<Rightarrow> 'w \<Rightarrow>
   (gerror + 'a) \<times> 'w" where
  "get_auth web b path token dec w =
     (case exchange web b (get_exchange b path token) w of
        (Inl e, w) \<Rightarrow> (Inl e, w)
      | (Inr answer, w) \<Rightarrow> (dec answer, w))"

text \<open>\<open>url.QueryEscape\<close>.\<close>

definition query_char :: "char \<Rightarrow> bool" where
  "query_char c \<longleftrightarrow> alpha c \<or> dec_digit c \<or> c \<in> set ''-_.~''"

definition query_byte :: "char \<Rightarrow> string" where
  "query_byte c =
     (if query_char c then [c] else if c = CHR '' '' then ''+''
      else [CHR ''%'', upper_hex (byte c div 16), upper_hex (byte c mod 16)])"

definition query_escape :: "string \<Rightarrow> string" where
  "query_escape s = concat (map query_byte s)"

end
