(* ===== verification/McpServer.thy ===== *)
theory McpServer
  imports Complex_Main "HOL-Library.Multiset" BrokerClient
begin

text \<open>
  The MCP adapter as a server of JSON-RPC requests over standard input and output
  (\<open>main\<close> and \<open>handle\<close> of \<open>cmd/promptlock-mcp/main.go\<close>): request identifiers, the methods, the table
  of calls in flight, and the check of the arguments of its one tool. A call runs beside the
  loop; its end is an event of its own. Every line is answered, once or not at all.
\<close>

section \<open>Values\<close>

text \<open>A JSON value as \<open>encoding/json\<close> decodes it into \<open>any\<close>: a number is a finite 64-bit float.\<close>

datatype jval =
    JNull
  | JLogic bool
  | JNumber rat
  | JText string
  | JArray "jval list"
  | JMap "jval go_map"

text \<open>
  What Go does with a float: \<open>ff_int\<close> is the conversion to an integer where the value does not fit,
  which the language leaves open, and \<open>ff_text\<close> the verb \<open>%g\<close>.
\<close>

record float_forms =
  ff_int :: "rat \<Rightarrow> int"
  ff_text :: "rat \<Rightarrow> string"

definition float_to_int :: "float_forms \<Rightarrow> rat \<Rightarrow> int" where
  "float_to_int ff q =
     (let n = (if q < 0 then - \<lfloor>- q\<rfloor> else \<lfloor>q\<rfloor>) in if - (2 ^ 63) \<le> n \<and> n < 2 ^ 63 then n else ff_int ff q)"

definition whole :: "rat \<Rightarrow> bool" where
  "whole q \<longleftrightarrow> of_int \<lfloor>q\<rfloor> = q"

section \<open>Identifiers\<close>

fun rpc_request_key :: "float_forms \<Rightarrow> jval \<Rightarrow> string option" where
  "rpc_request_key ff (JText v) = (if trim_space v = '''' then None else Some (''str:'' @ v))"
| "rpc_request_key ff (JNumber q) =
     Some (if whole q then ''num:'' @ itoa (float_to_int ff q) else ''num:'' @ ff_text ff q)"
| "rpc_request_key ff _ = None"

definition is_valid_rpc_request_id :: "float_forms \<Rightarrow> jval \<Rightarrow> bool" where
  "is_valid_rpc_request_id ff v \<longleftrightarrow> v = JNull \<or> rpc_request_key ff v \<noteq> None"

section \<open>Messages\<close>

record rpc_req =
  rpc_version :: string
  rpc_id :: jval
  rpc_method :: string
  rpc_params :: string

record rpc_resp =
  resp_id :: jval
  resp_body :: "(int \<times> string) + jval"

record call_params =
  cp_name :: string
  cp_arguments :: "jval go_map"

text \<open>
  Decoding the text of a message, of any value, and of the parameters of a call, and the version
  of the build, are parameters.
\<close>

record mcp_outside =
  mo_floats :: float_forms
  mo_request :: "string \<Rightarrow> gerror + rpc_req"
  mo_object :: "string \<Rightarrow> gerror + jval go_map"
  mo_call :: "string \<Rightarrow> gerror + call_params"
  mo_version :: string

definition is_null_or_empty_params :: "string \<Rightarrow> bool" where
  "is_null_or_empty_params raw \<longleftrightarrow> trim_space raw = '''' \<or> trim_space raw = ''null''"

definition usable_id :: "float_forms \<Rightarrow> jval \<Rightarrow> jval option" where
  "usable_id ff v = (if \<not> is_valid_rpc_request_id ff v \<or> v = JNull then None else Some v)"

definition parse_cancellation_request_id :: "mcp_outside \<Rightarrow> string \<Rightarrow> jval option" where
  "parse_cancellation_request_id mo params =
     (if is_null_or_empty_params params then None
      else case mo_object mo params of
        Inl _ \<Rightarrow> None
      | Inr m \<Rightarrow>
          (case go_get m ''requestId'' of
             Some v \<Rightarrow> usable_id (mo_floats mo) v
           | None \<Rightarrow>
               (case go_get m ''id'' of Some v \<Rightarrow> usable_id (mo_floats mo) v | None \<Rightarrow> None)))"

text \<open>The only version the adapter speaks, whatever the client asks for.\<close>

definition select_protocol_version :: "string \<Rightarrow> string" where
  "select_protocol_version params = ''2024-11-05''"

section \<open>The server\<close>

text \<open>
  The calls in flight by their key, with the identifier to answer; the keys whose call was
  cancelled; the arguments of the calls that were started; what was written; and whether the loop
  is still reading.
\<close>

record mcp_server =
  mx_inflight :: "jval go_map"
  mx_cancelled :: "string list"
  mx_started :: "(string \<times> jval go_map) list"
  mx_out :: "rpc_resp list"
  mx_running :: bool

definition new_mcp_server :: mcp_server where
  "new_mcp_server =
     \<lparr>mx_inflight = [], mx_cancelled = [], mx_started = [], mx_out = [], mx_running = True\<rparr>"

definition emit :: "jval \<Rightarrow> (int \<times> string) + jval \<Rightarrow> mcp_server \<Rightarrow> mcp_server" where
  "emit i b s = s\<lparr>mx_out := mx_out s @ [\<lparr>resp_id = i, resp_body = b\<rparr>]\<rparr>"

definition rpc_error :: "jval \<Rightarrow> int \<Rightarrow> string \<Rightarrow> mcp_server \<Rightarrow> mcp_server" where
  "rpc_error i code msg s = emit i (Inl (code, msg)) s"

definition reply :: "jval \<Rightarrow> jval \<Rightarrow> mcp_server \<Rightarrow> mcp_server" where
  "reply i v s = (if i = JNull then s else emit i (Inr v) s)"

definition register_in_flight :: "string \<Rightarrow> jval \<Rightarrow> mcp_server \<Rightarrow> bool \<times> mcp_server" where
  "register_in_flight key i s =
     (if go_get (mx_inflight s) key \<noteq> None then (False, s)
      else (True, s\<lparr>mx_inflight := go_set (mx_inflight s) key i\<rparr>))"

definition unregister_in_flight :: "string \<Rightarrow> mcp_server \<Rightarrow> mcp_server" where
  "unregister_in_flight key s =
     s\<lparr>mx_inflight := go_delete (mx_inflight s) key,
       mx_cancelled := filter (\<lambda>k. k \<noteq> key) (mx_cancelled s)\<rparr>"

definition cancel_in_flight :: "mcp_outside \<Rightarrow> string \<Rightarrow> mcp_server \<Rightarrow> mcp_server" where
  "cancel_in_flight mo params s =
     (case parse_cancellation_request_id mo params of
        None \<Rightarrow> s
      | Some i \<Rightarrow>
          (case rpc_request_key (mo_floats mo) i of
             None \<Rightarrow> s
           | Some key \<Rightarrow>
               if go_get (mx_inflight s) key \<noteq> None then s\<lparr>mx_cancelled := key # mx_cancelled s\<rparr> else s))"

text \<open>Every call is cancelled when the loop ends.\<close>

definition cancel_all_in_flight :: "mcp_server \<Rightarrow> mcp_server" where
  "cancel_all_in_flight s = s\<lparr>mx_cancelled := map fst (mx_inflight s) @ mx_cancelled s\<rparr>"

definition stop_reading :: "mcp_server \<Rightarrow> mcp_server" where
  "stop_reading s = (cancel_all_in_flight s)\<lparr>mx_running := False\<rparr>"

section \<open>The tool\<close>

definition text_schema :: "(string \<times> jval) list \<Rightarrow> jval" where
  "text_schema parts = JMap ((''type'', JText ''string'') # parts)"

definition tools_list :: jval where
  "tools_list =
     JMap [(''tools'', JArray [JMap
       [(''name'', JText ''execute_with_intent''),
        (''description'', JText (''Request a lease by configured intent id and execute command via '' @
           ''broker-exec path. intent must be a configured intent id (for example run_tests), not '' @
           ''free-form text.'')),
        (''inputSchema'', JMap
          [(''type'', JText ''object''), (''additionalProperties'', JLogic False),
           (''required'', JArray [JText ''intent'', JText ''command'']),
           (''properties'', JMap
             [(''intent'', text_schema [(''minLength'', JNumber 1), (''maxLength'', JNumber 64),
                 (''pattern'', JText ''^[A-Za-z0-9_-]+$''),
                 (''description'', JText (''Broker intent identifier; must exactly match a configured '' @
                    ''intent id. Quickstart usually uses run_tests.''))]),
              (''command'', JMap [(''type'', JText ''array''), (''minItems'', JNumber 1),
                 (''maxItems'', JNumber 32),
                 (''description'', JText (''Command argv to execute (first item is executable, '' @
                    ''remaining items are args).'')),
                 (''items'', text_schema [(''minLength'', JNumber 1), (''maxLength'', JNumber 256)])]),
              (''ttl_minutes'', JMap [(''type'', JText ''integer''), (''minimum'', JNumber 1),
                 (''maximum'', JNumber 60), (''default'', JNumber 5),
                 (''description'', JText ''Optional lease TTL in minutes (defaults to 5).'')]),
              (''env_path'', text_schema [(''minLength'', JNumber 1), (''maxLength'', JNumber 4096),
                 (''pattern'', JText (''^[^'' @ [CHR 0x0D, CHR 0x0A] @ '']+$'')),
                 (''description'', JText (''Optional single-line .env path for approval context '' @
                    ''(example: demo-envs/github.env).''))])]),
           (''examples'', JArray [JMap
             [(''intent'', JText ''run_tests''),
              (''command'', JArray [JText ''make'', JText ''demo-print-github-token'']),
              (''env_path'', JText ''demo-envs/github.env''), (''ttl_minutes'', JNumber 5)]])])]])]"

text \<open>The call of a tool: refused with an error, or registered and started.\<close>

definition tools_call :: "mcp_outside \<Rightarrow> rpc_req \<Rightarrow> mcp_server \<Rightarrow> mcp_server" where
  "tools_call mo rq s =
     (let i = rpc_id rq in
      if i = JNull then s
      else if is_null_or_empty_params (rpc_params rq)
      then rpc_error i (-32602) ''invalid params: tools/call params object is required'' s
      else case mo_call mo (rpc_params rq) of
        Inl e \<Rightarrow> rpc_error i (-32602) (err_msg e) s
      | Inr p \<Rightarrow>
          if trim_space (cp_name p) = ''''
          then rpc_error i (-32602) ''invalid params: tools/call.name is required'' s
          else if cp_name p \<noteq> ''execute_with_intent'' then rpc_error i (-32601) ''unknown tool'' s
          else case rpc_request_key (mo_floats mo) i of
            None \<Rightarrow> rpc_error i (-32600) ''invalid request id'' s
          | Some key \<Rightarrow>
              (case register_in_flight key i s of
                 (False, s) \<Rightarrow> rpc_error i (-32600) ''duplicate in-flight request id'' s
               | (True, s) \<Rightarrow> s\<lparr>mx_started := mx_started s @ [(key, cp_arguments p)]\<rparr>))"

section \<open>The loop\<close>

definition handle_rpc :: "mcp_outside \<Rightarrow> rpc_req \<Rightarrow> mcp_server \<Rightarrow> mcp_server" where
  "handle_rpc mo rq s =
     (let i = rpc_id rq; m = rpc_method rq; acknowledge = reply i (JMap []) in
      if m \<in> {''ping'', ''initialized'', ''notifications/initialized'', ''shutdown''} then acknowledge s
      else if m = ''notifications/cancelled'' then acknowledge (cancel_in_flight mo (rpc_params rq) s)
      else if m = ''exit'' then stop_reading (acknowledge s)
      else if m = ''initialize'' then
        reply i (JMap [(''protocolVersion'', JText (select_protocol_version (rpc_params rq))),
          (''capabilities'', JMap [(''tools'', JMap [])]),
          (''serverInfo'', JMap [(''name'', JText ''promptlock-mcp''), (''version'', JText (mo_version mo))])]) s
      else if m = ''tools/list'' then reply i tools_list s
      else if m = ''resources/list'' then reply i (JMap [(''resources'', JArray [])]) s
      else if m = ''prompts/list'' then reply i (JMap [(''prompts'', JArray [])]) s
      else if m = ''tools/call'' then tools_call mo rq s
      else if i = JNull then s else rpc_error i (-32601) ''method not found'' s)"

text \<open>One line of the input.\<close>

definition read_line :: "mcp_outside \<Rightarrow> string \<Rightarrow> mcp_server \<Rightarrow> mcp_server" where
  "read_line mo raw s =
     (let line = trim_space raw in
      if line = '''' then s
      else if has_prefix line ''['' then rpc_error JNull (-32600) ''batch requests are not supported'' s
      else case mo_request mo line of
        Inl e \<Rightarrow> rpc_error JNull (-32700) (err_msg e) s
      | Inr rq \<Rightarrow>
          if \<not> is_valid_rpc_request_id (mo_floats mo) (rpc_id rq)
          then rpc_error JNull (-32600) ''invalid request id'' s
          else if rpc_version rq \<noteq> ''2.0'' \<or> rpc_method rq = ''''
          then rpc_error (rpc_id rq) (-32600) ''invalid request'' s
          else handle_rpc mo rq s)"

text \<open>
  A call that ended answers its request, and leaves the table; the two are taken together, with no
  line read between them.
\<close>

definition call_ended :: "string \<Rightarrow> gerror + string \<Rightarrow> mcp_server \<Rightarrow> mcp_server" where
  "call_ended key r s =
     (case go_get (mx_inflight s) key of
        None \<Rightarrow> s
      | Some i \<Rightarrow>
          unregister_in_flight key
            (case r of
               Inl e \<Rightarrow> rpc_error i (-32000) (err_msg e) s
             | Inr text \<Rightarrow> emit i (Inr (JMap [(''content'', JArray [JMap
                   [(''type'', JText ''text''), (''text'', JText text)]])])) s))"

text \<open>
  What happens to the server: a line, the end of the input with the error of the scanner (a line
  over 1 MiB, or a failing read), or the end of a call. A server that has stopped does nothing.
\<close>

datatype mcp_event = InputLine string | InputEnd "gerror option" | CallEnded string "gerror + string"

fun mcp_step :: "mcp_outside \<Rightarrow> mcp_event \<Rightarrow> mcp_server \<Rightarrow> mcp_server" where
  "mcp_step mo (InputLine raw) s = (if mx_running s then read_line mo raw s else s)"
| "mcp_step mo (InputEnd e) s =
     (if \<not> mx_running s then s
      else stop_reading (case e of
          None \<Rightarrow> s
        | Some e \<Rightarrow> rpc_error JNull (-32001) (''stdin scanner error: '' @ err_msg e) s))"
| "mcp_step mo (CallEnded key r) s = (if mx_running s then call_ended key r s else s)"

definition mcp_run :: "mcp_outside \<Rightarrow> mcp_event list \<Rightarrow> mcp_server" where
  "mcp_run mo evs = fold (mcp_step mo) evs new_mcp_server"

section \<open>The arguments of the tool\<close>

record exec_args =
  xa_intent :: string
  xa_cmd :: "string list"
  xa_ttl :: int
  xa_env_path :: string

definition intent_char :: "char \<Rightarrow> bool" where
  "intent_char c \<longleftrightarrow> c = CHR ''_'' \<or> c = CHR ''-'' \<or> alpha c \<or> dec_digit c"

definition one_line :: "string \<Rightarrow> bool" where
  "one_line s \<longleftrightarrow> \<not> contains_any s [CHR 0x0D, CHR 0x0A]"

fun command_arguments :: "jval list \<Rightarrow> gerror + string list" where
  "command_arguments [] = Inr []"
| "command_arguments (x # xs) =
     (case x of
        JText raw \<Rightarrow>
          (let s = trim_space raw in
           if s = '''' \<or> 256 < length s \<or> \<not> one_line s then Inl (Plain ''invalid command argument'')
           else case command_arguments xs of Inl e \<Rightarrow> Inl e | Inr cmd \<Rightarrow> Inr (s # cmd))
      | _ \<Rightarrow> Inl (Plain ''invalid command argument''))"

definition ttl_argument :: "float_forms \<Rightarrow> jval option \<Rightarrow> gerror + int" where
  "ttl_argument ff v =
     (let err = Inl (Plain ''ttl_minutes out of range (1..60)'');
          checked = (\<lambda>ttl. if ttl < 1 \<or> 60 < ttl then err else Inr ttl)
      in case v of
           None \<Rightarrow> checked 5
         | Some (JNumber q) \<Rightarrow> if \<not> whole q then err else checked (float_to_int ff q)
         | Some _ \<Rightarrow> err)"

definition env_path_argument :: "jval option \<Rightarrow> gerror + string" where
  "env_path_argument v =
     (case v of
        None \<Rightarrow> Inr ''''
      | Some (JText raw) \<Rightarrow>
          (let p = trim_space raw in
           if p = '''' \<or> 4096 < length p \<or> \<not> one_line p
           then Inl (Plain ''env_path must be a single-line path (1..4096 chars)'') else Inr p)
      | Some _ \<Rightarrow> Inl (Plain ''env_path must be a string''))"

definition intent_argument :: "jval option \<Rightarrow> gerror + string" where
  "intent_argument v =
     (let intent = (case v of Some (JText s) \<Rightarrow> trim_space s | _ \<Rightarrow> '''') in
      if intent = '''' \<or> 64 < length intent then Inl (Plain ''intent is required (1..64 chars)'')
      else if \<not> list_all intent_char intent
      then Inl (Plain ''intent contains invalid characters (allowed: A-Z a-z 0-9 _ -)'')
      else Inr intent)"

definition parse_and_validate_exec_args :: "float_forms \<Rightarrow> jval go_map \<Rightarrow> gerror + exec_args" where
  "parse_and_validate_exec_args ff m =
     (case intent_argument (go_get m ''intent'') of
        Inl e \<Rightarrow> Inl e
      | Inr intent \<Rightarrow>
     (case go_get m ''command'' of
        Some (JArray parts) \<Rightarrow>
          if parts = [] \<or> 32 < length parts
          then Inl (Plain ''command array is required (1..32 parts)'')
          else (case command_arguments parts of
             Inl e \<Rightarrow> Inl e
           | Inr cmd \<Rightarrow>
          (case ttl_argument ff (go_get m ''ttl_minutes'') of
             Inl e \<Rightarrow> Inl e
           | Inr ttl \<Rightarrow>
          (case env_path_argument (go_get m ''env_path'') of
             Inl e \<Rightarrow> Inl e
           | Inr env_path \<Rightarrow>
               Inr \<lparr>xa_intent = intent, xa_cmd = cmd, xa_ttl = ttl, xa_env_path = env_path\<rparr>)))
      | _ \<Rightarrow> Inl (Plain ''command array is required (1..32 parts)'')))"

section \<open>What the tool accepts\<close>

definition good_argument :: "string \<Rightarrow> bool" where
  "good_argument s \<longleftrightarrow> s \<noteq> '''' \<and> length s \<le> 256 \<and> one_line s"

lemma command_arguments_good:
  "command_arguments parts = Inr cmd \<Longrightarrow> length cmd = length parts \<and> list_all good_argument cmd"
  by (induction parts arbitrary: cmd rule: command_arguments.induct)
    (auto simp: good_argument_def Let_def split: jval.splits if_splits sum.splits)

text \<open>
  Arguments the adapter accepts are within the bounds it tells its clients: an intent of 1 to
  64 letters, digits, underscores and dashes, a command of 1 to 32 non-blank single-line parts of
  at most 256 bytes, a duration of 1 to 60 minutes, and a single-line path of at most 4096 bytes
  or none.
\<close>

theorem accepted_arguments_bounded:
  assumes "parse_and_validate_exec_args ff m = Inr a"
  shows "0 < length (xa_intent a) \<and> length (xa_intent a) \<le> 64 \<and> list_all intent_char (xa_intent a) \<and>
    0 < length (xa_cmd a) \<and> length (xa_cmd a) \<le> 32 \<and> list_all good_argument (xa_cmd a) \<and>
    1 \<le> xa_ttl a \<and> xa_ttl a \<le> 60 \<and> length (xa_env_path a) \<le> 4096 \<and> one_line (xa_env_path a)"
proof -
  obtain parts cmd intent ttl p where i: "intent_argument (go_get m ''intent'') = Inr intent"
    and parts: "parts \<noteq> []" "length parts \<le> 32" and c: "command_arguments parts = Inr cmd"
    and t: "ttl_argument ff (go_get m ''ttl_minutes'') = Inr ttl"
    and e: "env_path_argument (go_get m ''env_path'') = Inr p"
    and a: "a = \<lparr>xa_intent = intent, xa_cmd = cmd, xa_ttl = ttl, xa_env_path = p\<rparr>"
    using assms unfolding parse_and_validate_exec_args_def
    by (auto split: sum.splits option.splits jval.splits if_splits)
  have "intent \<noteq> [] \<and> length intent \<le> 64 \<and> list_all intent_char intent"
    using i by (auto simp: intent_argument_def Let_def split: if_splits)
  moreover have "1 \<le> ttl \<and> ttl \<le> 60"
    using t by (auto simp: ttl_argument_def Let_def split: option.splits jval.splits if_splits)
  moreover have "length p \<le> 4096 \<and> one_line p"
    using e by (auto simp: env_path_argument_def Let_def one_line_def contains_any_def
        split: option.splits jval.splits if_splits)
  ultimately show ?thesis using parts command_arguments_good [OF c] by (auto simp: a)
qed

section \<open>Every request is answered once\<close>

lemma values_set:
  "go_get m k = None \<Longrightarrow> image_mset snd (mset (go_set m k v)) = add_mset v (image_mset snd (mset m))"
  by (induction m) (auto split: if_splits)

lemma values_delete:
  "wf_map m \<Longrightarrow> go_get m k = Some v \<Longrightarrow>
     add_mset v (image_mset snd (mset (go_delete m k))) = image_mset snd (mset m)"
proof (induction m)
  case (Cons x m)
  obtain k' v' where x: "x = (k', v')" by (cases x)
  show ?case
  proof (cases "k' = k")
    case True
    with Cons.prems have "k \<notin> fst ` set m" "v' = v" by (auto simp: x wf_map_def)
    then have "go_delete m k = m" by (simp add: delete_id)
    then show ?thesis using True \<open>v' = v\<close> by (simp add: x)
  next
    case False
    with Cons show ?thesis by (simp add: x wf_map_def)
  qed
qed simp

text \<open>The identifier a line has to be answered with, if at all.\<close>

definition line_answer :: "mcp_outside \<Rightarrow> string \<Rightarrow> jval option" where
  "line_answer mo raw =
     (let line = trim_space raw in
      if line = '''' then None
      else if has_prefix line ''['' then Some JNull
      else case mo_request mo line of
        Inl _ \<Rightarrow> Some JNull
      | Inr rq \<Rightarrow>
          if \<not> is_valid_rpc_request_id (mo_floats mo) (rpc_id rq) then Some JNull
          else if rpc_version rq \<noteq> ''2.0'' \<or> rpc_method rq = '''' then Some (rpc_id rq)
          else if rpc_id rq = JNull then None else Some (rpc_id rq))"

definition event_answers :: "mcp_outside \<Rightarrow> mcp_event \<Rightarrow> jval multiset" where
  "event_answers mo ev =
     (case ev of
        InputLine raw \<Rightarrow> (case line_answer mo raw of None \<Rightarrow> {#} | Some i \<Rightarrow> {#i#})
      | InputEnd e \<Rightarrow> (if e = None then {#} else {#JNull#})
      | CallEnded _ _ \<Rightarrow> {#})"

fun asked :: "mcp_outside \<Rightarrow> mcp_event list \<Rightarrow> mcp_server \<Rightarrow> jval multiset" where
  "asked mo [] s = {#}"
| "asked mo (ev # evs) s = (if mx_running s then event_answers mo ev else {#}) + asked mo evs (mcp_step mo ev s)"

text \<open>The requests the server knows of: those it answered and those in flight.\<close>

definition known :: "mcp_server \<Rightarrow> jval multiset" where
  "known s = mset (map resp_id (mx_out s)) + mset (map snd (mx_inflight s))"

definition takes :: "mcp_server \<Rightarrow> jval multiset \<Rightarrow> mcp_server \<Rightarrow> bool" where
  "takes s A s' \<longleftrightarrow> known s' = known s + A \<and> (wf_map (mx_inflight s) \<longrightarrow> wf_map (mx_inflight s'))"

lemma takes_same [simp]: "takes s {#} s"
  by (simp add: takes_def)

lemma takes_emit [simp]: "takes s {#i#} (emit i b s)" "takes s {#i#} (rpc_error i code msg s)"
  by (simp_all add: takes_def known_def emit_def rpc_error_def)

text \<open>What answers an identifier that is not \<open>null\<close>.\<close>

definition wanted :: "jval \<Rightarrow> jval multiset" where
  "wanted i = (if i = JNull then {#} else {#i#})"

lemma wanted_option: "(case (if i = JNull then None else Some i) of None \<Rightarrow> {#} | Some i \<Rightarrow> {#i#}) = wanted i"
  by (simp add: wanted_def)

lemma takes_reply: "takes s (wanted i) (reply i v s)"
  by (simp add: reply_def wanted_def)

lemma takes_stopped [simp]: "takes s A (stop_reading s') = takes s A s'"
  by (simp add: takes_def known_def stop_reading_def cancel_all_in_flight_def)

lemma takes_cancelled: "takes (cancel_in_flight mo params s) A s' = takes s A s'"
  by (simp add: takes_def known_def cancel_in_flight_def split: option.split)

lemma takes_call: "takes s (wanted (rpc_id rq)) (tools_call mo rq s)"
proof -
  have r: "takes s {#i#} (s\<lparr>mx_inflight := go_set (mx_inflight s) key i, mx_started := st\<rparr>)"
    if "go_get (mx_inflight s) key = None" for key i st
    using that by (simp add: takes_def known_def values_set)
  show ?thesis
    by (auto simp: tools_call_def register_in_flight_def Let_def r wanted_def split: sum.split option.split)
qed

lemma takes_handle: "takes s (wanted (rpc_id rq)) (handle_rpc mo rq s)"
proof -
  have c: "takes s (wanted (rpc_id rq)) (reply (rpc_id rq) (JMap []) (cancel_in_flight mo (rpc_params rq) s))"
    using takes_reply [of "cancel_in_flight mo (rpc_params rq) s" "rpc_id rq" "JMap []"]
    by (simp add: takes_cancelled)
  have u: "takes s (wanted (rpc_id rq))
      (if rpc_id rq = JNull then s else rpc_error (rpc_id rq) (-32601) ''method not found'' s)"
    by (simp add: wanted_def)
  show ?thesis unfolding handle_rpc_def Let_def by (simp only: takes_stopped takes_call takes_reply c u split: if_split) simp
qed

lemma takes_line:
  "takes s (case line_answer mo raw of None \<Rightarrow> {#} | Some i \<Rightarrow> {#i#}) (read_line mo raw s)"
proof (cases "mo_request mo (trim_space raw)")
  case (Inr rq)
  then show ?thesis
    by (simp add: read_line_def line_answer_def Let_def wanted_option takes_handle)
qed (simp add: read_line_def line_answer_def Let_def)

lemma takes_ended:
  assumes "wf_map (mx_inflight s)" shows "takes s {#} (call_ended key r s)"
proof (cases "go_get (mx_inflight s) key")
  case None
  then show ?thesis by (simp add: call_ended_def)
next
  case (Some i)
  with assms have v: "add_mset i (image_mset snd (mset (go_delete (mx_inflight s) key))) =
      image_mset snd (mset (mx_inflight s))"
    by (rule values_delete)
  show ?thesis using Some assms v [symmetric]
    by (auto simp: call_ended_def unregister_in_flight_def takes_def known_def emit_def rpc_error_def
        split: sum.split)
qed

lemma takes_step:
  assumes "wf_map (mx_inflight s)"
  shows "takes s (if mx_running s then event_answers mo ev else {#}) (mcp_step mo ev s)"
proof (cases ev)
  case (InputLine raw)
  then show ?thesis using takes_line [of s mo raw] by (simp add: event_answers_def)
next
  case (InputEnd e)
  then show ?thesis by (cases e) (simp_all add: event_answers_def)
next
  case (CallEnded key r)
  then show ?thesis using takes_ended [OF assms] by (simp add: event_answers_def)
qed

lemma takes_run:
  "wf_map (mx_inflight s) \<Longrightarrow> takes s (asked mo evs s) (fold (mcp_step mo) evs s)"
proof (induction evs arbitrary: s)
  case (Cons ev evs)
  note t = takes_step [OF Cons.prems, of mo ev]
  then have "wf_map (mx_inflight (mcp_step mo ev s))" using Cons.prems by (simp add: takes_def)
  from Cons.IH [OF this] t show ?case by (simp add: takes_def add.assoc)
qed simp

text \<open>
  C30: over any sequence of lines and ended calls, the requests that were answered and those in
  flight are exactly the ones that ask for an answer, each once and under its own identifier;
  a notification is never answered, a line that is no request is answered with no identifier, and
  no two calls in flight share a key.
\<close>

theorem every_request_answered_once:
  "mset (map resp_id (mx_out (mcp_run mo evs))) + mset (map snd (mx_inflight (mcp_run mo evs))) =
     asked mo evs new_mcp_server \<and> wf_map (mx_inflight (mcp_run mo evs))"
proof -
  have "takes new_mcp_server (asked mo evs new_mcp_server) (mcp_run mo evs)"
    unfolding mcp_run_def by (rule takes_run) (simp add: new_mcp_server_def)
  then show ?thesis by (simp add: takes_def known_def new_mcp_server_def)
qed

section \<open>Witnesses\<close>

definition plain_floats :: float_forms where
  "plain_floats = \<lparr>ff_int = \<lambda>_. - (2 ^ 63), ff_text = \<lambda>_. ''0.5''\<rparr>"

theorem accepted_arguments_bounded_witness:
  "\<exists>a. parse_and_validate_exec_args plain_floats
     [(''intent'', JText ''run_tests''), (''command'', JArray [JText ''make'', JText '' test '']),
      (''ttl_minutes'', JNumber 7)] = Inr a \<and> xa_ttl a \<le> 60 \<and> length (xa_cmd a) \<le> 32"
proof -
  let ?m = "[(''intent'', JText ''run_tests''), (''command'', JArray [JText ''make'', JText '' test '']),
      (''ttl_minutes'', JNumber 7)]"
  have "case parse_and_validate_exec_args plain_floats ?m of Inl _ \<Rightarrow> False | Inr a \<Rightarrow> True" by code_simp
  then obtain a where "parse_and_validate_exec_args plain_floats ?m = Inr a" by (auto split: sum.splits)
  from accepted_arguments_bounded [OF this] this show ?thesis by blast
qed

end
