(* ===== verification/McpClient.thy ===== *)
theory McpClient
  imports McpServer StartChecks
begin

text \<open>
  The tool of the MCP adapter (\<open>executeWithIntent\<close> of \<open>cmd/promptlock-mcp/main.go\<close>): it resolves an
  intent, asks the broker for a lease, waits for the decision, and has the broker run the command.
  The wait is a loop of unknown length, \<open>None\<close> when it does not end; a call that is cancelled
  withdraws its request.
\<close>

section \<open>Waiting\<close>

text \<open>
  The loop of both clients: a check that may decide, then the clock, then a pause. \<open>expired\<close> is the
  result after the deadline.
\<close>

partial_function (option) poll_until ::
  "('w \<Rightarrow> 'r option \<times> 'w) \<Rightarrow> ('w \<Rightarrow> int \<times> 'w) \<Rightarrow> int \<Rightarrow> ('w \<Rightarrow> 'w) \<Rightarrow> 'r \<Rightarrow> 'w \<Rightarrow> ('r \<times> 'w) option"
where
  "poll_until check now deadline pause expired w =
     (case check w of
        (Some r, w) \<Rightarrow> Some (r, w)
      | (None, w) \<Rightarrow>
          (case now w of
             (t, w) \<Rightarrow>
               if deadline < t then Some (expired, w)
               else poll_until check now deadline pause expired (pause w)))"

text \<open>It ends when time passes: every round takes a step of the clock, or the next check decides.\<close>

lemma poll_until_ends:
  fixes clock :: "'w \<Rightarrow> int"
  assumes "\<And>w r w'. check w = (r, w') \<Longrightarrow> clock w \<le> clock w'"
    and "\<And>w t w'. now w = (t, w') \<Longrightarrow> clock w \<le> clock w' \<and> clock w \<le> t"
    and "\<And>w. clock w < clock (pause w) \<or> fst (check (pause w)) \<noteq> None"
  shows "\<exists>r. poll_until check now deadline pause expired w = Some r"
proof (induction "nat (deadline + 1 - clock w)" arbitrary: w rule: less_induct)
  case less
  obtain r w1 where c: "check w = (r, w1)" by (cases "check w")
  obtain t w2 where n: "now w1 = (t, w2)" by (cases "now w1")
  show ?case
  proof (cases "r = None \<and> t \<le> deadline")
    case False
    then show ?thesis by (subst poll_until.simps) (auto simp: c n split: option.split)
  next
    case True
    have u: "poll_until check now deadline pause expired w =
        poll_until check now deadline pause expired (pause w2)"
      using True by (subst poll_until.simps) (simp add: c n)
    show ?thesis
    proof (cases "fst (check (pause w2)) = None")
      case False
      then show ?thesis
        unfolding u by (subst poll_until.simps) (auto simp: case_prod_beta split: option.split)
    next
      case pausing: True
      have "clock w \<le> clock w2" "clock w \<le> deadline" "clock w2 < clock (pause w2)"
        using assms(1) [OF c] assms(2) [OF n] assms(3) [of w2] pausing True by auto
      then have "nat (deadline + 1 - clock (pause w2)) < nat (deadline + 1 - clock w)" by linarith
      from less [OF this] show ?thesis unfolding u .
    qed
  qed
qed

section \<open>The world of a call\<close>

text \<open>
  \<open>mw_pause\<close> waits for a duration or until the call is cancelled; \<open>mw_getwd\<close> is empty when the
  directory is not known. The decoders say what \<open>json.Decoder.Decode\<close> makes of an answer.
\<close>

record 'w mcp_world =
  mw_web :: "'w web"
  mw_env :: "string go_map"
  mw_stat :: "string \<Rightarrow> 'w \<Rightarrow> bool"
  mw_getwd :: "'w \<Rightarrow> string"
  mw_now :: "'w \<Rightarrow> int \<times> 'w"
  mw_pause :: "int \<Rightarrow> 'w \<Rightarrow> 'w"
  mw_cancelled :: "'w \<Rightarrow> bool"
  mw_floats :: float_forms
  mw_secrets :: "gerror + string \<Rightarrow> gerror + string list option"
  mw_request_id :: "gerror + string \<Rightarrow> gerror + string"
  mw_status :: "gerror + string \<Rightarrow> gerror + string"
  mw_lease_token :: "gerror + string \<Rightarrow> gerror + string"
  mw_exec :: "gerror + string \<Rightarrow> gerror + int \<times> string"
  mw_any :: "gerror + string \<Rightarrow> gerror + unit"

definition sha_of :: "string list \<Rightarrow> string" where
  "sha_of parts = sha256_hex (join [CHR 0x00] parts)"

definition env_int_default :: "string go_map \<Rightarrow> string \<Rightarrow> int \<Rightarrow> int" where
  "env_int_default env k d =
     (let v = trim_space (getenv env k) in
      if v = '''' then d else case atoi v of Inl _ \<Rightarrow> d | Inr n \<Rightarrow> n)"

definition json_strings :: "string list option \<Rightarrow> string" where
  "json_strings xs =
     (case xs of None \<Rightarrow> ''null'' | Some ss \<Rightarrow> ''['' @ join '','' (map json_quote ss) @ '']'')"

definition json_text_map :: "string go_map \<Rightarrow> string" where
  "json_text_map m = json_object (sort_keys m)"

definition is_unknown_intent_error :: "gerror \<Rightarrow> bool" where
  "is_unknown_intent_error e \<longleftrightarrow> contains (to_lower (err_msg e)) ''unknown intent''"

definition unknown_intent_hint :: string where
  "unknown_intent_hint =
     ''intent must be a configured intent id (for example run_tests); check broker config.intents '' @
     ''or your quickstart setup''"

text \<open>An error, unless the call was cancelled in the meantime.\<close>

definition unless_cancelled :: "'w mcp_world \<Rightarrow> 'w \<Rightarrow> gerror \<Rightarrow> gerror" where
  "unless_cancelled mw w e = (if mw_cancelled mw w then Plain ''request cancelled'' else e)"

section \<open>The stages of a call\<close>

definition status_path :: "string \<Rightarrow> string" where
  "status_path i = ''/v1/requests/status?request_id='' @ i"

text \<open>One round of the wait: it decides when the call is cancelled, the broker fails, or it decided.\<close>

definition approval_check ::
  "'w mcp_world \<Rightarrow> broker_transport \<Rightarrow> string \<Rightarrow> string \<Rightarrow> 'w \<Rightarrow> (gerror + unit) option \<times> 'w" where
  "approval_check mw b session i w =
     (if mw_cancelled mw w then (Some (Inl (Plain ''request cancelled'')), w)
      else case get_auth (mw_web mw) b (status_path i) session (mw_status mw) w of
        (Inl e, w) \<Rightarrow> (Some (Inl (unless_cancelled mw w e)), w)
      | (Inr status, w) \<Rightarrow>
          ((if status = ''denied'' then Some (Inl (Plain ''request denied''))
            else if status = ''approved'' then Some (Inr ()) else None), w))"

definition wait_approval ::
  "'w mcp_world \<Rightarrow> broker_transport \<Rightarrow> string \<Rightarrow> string \<Rightarrow> 'w \<Rightarrow> ((gerror + unit) \<times> 'w) option" where
  "wait_approval mw b session i w =
     (let secs = env_int_default (mw_env mw) ''PROMPTLOCK_APPROVAL_TIMEOUT_SEC'' 120;
          secs = (if secs < 1 then 1 else secs)
      in case mw_now mw w of
           (t, w) \<Rightarrow> poll_until (approval_check mw b session i) (mw_now mw) (t + dur_mult secs second)
             (mw_pause mw (2 * second)) (Inl (Plain ''approval timeout'')) w)"

definition lease_and_execute ::
  "'w mcp_world \<Rightarrow> broker_transport \<Rightarrow> string \<Rightarrow> string \<Rightarrow> exec_args \<Rightarrow> string list option \<Rightarrow> string \<Rightarrow>
   string \<Rightarrow> 'w \<Rightarrow> (gerror + string) \<times> 'w" where
  "lease_and_execute mw b session i a secrets fp wdfp w =
     (case get_auth (mw_web mw) b (''/v1/leases/by-request?request_id='' @ i) session (mw_lease_token mw) w of
        (Inl e, w) \<Rightarrow> (Inl (unless_cancelled mw w e), w)
      | (Inr lease_tok, w) \<Rightarrow>
          (case post_auth (mw_web mw) b ''/v1/leases/execute'' session
              (json_text_map [(''lease_token'', json_quote lease_tok), (''intent'', json_quote (xa_intent a)),
                 (''command'', json_strings (Some (xa_cmd a))), (''secrets'', json_strings secrets),
                 (''command_fingerprint'', json_quote fp), (''workdir_fingerprint'', json_quote wdfp)])
              (mw_exec mw) w of
             (Inl e, w) \<Rightarrow> (Inl (unless_cancelled mw w e), w)
           | (Inr (code, text), w) \<Rightarrow> (Inr (''exit='' @ itoa code @ [new_line] @ text), w)))"

definition cancel_pending_request ::
  "'w mcp_world \<Rightarrow> broker_transport \<Rightarrow> string \<Rightarrow> string \<Rightarrow> 'w \<Rightarrow> (gerror + unit) \<times> 'w" where
  "cancel_pending_request mw b session i w =
     post_auth (mw_web mw) b (''/v1/leases/cancel?request_id='' @ query_escape i) session
       (json_text_map [(''reason'', json_quote ''mcp notification cancelled'')]) (mw_any mw) w"

text \<open>
  What is deferred once there is a request: a call that was cancelled before its approval withdraws
  it. Whether the broker did is not looked at; that it is given two seconds is a part of how the
  exchange turns out.
\<close>

definition withdraw_if_cancelled ::
  "'w mcp_world \<Rightarrow> broker_transport \<Rightarrow> string \<Rightarrow> string \<Rightarrow> bool \<Rightarrow> 'w \<Rightarrow> 'w" where
  "withdraw_if_cancelled mw b session i approved w =
     (let request_id = trim_space i in
      if \<not> mw_cancelled mw w \<or> approved \<or> request_id = '''' then w
      else snd (cancel_pending_request mw b session request_id w))"

definition after_request ::
  "'w mcp_world \<Rightarrow> broker_transport \<Rightarrow> string \<Rightarrow> string \<Rightarrow> exec_args \<Rightarrow> string list option \<Rightarrow> string \<Rightarrow>
   string \<Rightarrow> 'w \<Rightarrow> ((gerror + string) \<times> 'w) option" where
  "after_request mw b session i a secrets fp wdfp w =
     (case wait_approval mw b session i w of
        None \<Rightarrow> None
      | Some (Inl e, w) \<Rightarrow> Some (Inl e, withdraw_if_cancelled mw b session i False w)
      | Some (Inr _, w) \<Rightarrow>
          (case lease_and_execute mw b session i a secrets fp wdfp w of
             (r, w) \<Rightarrow> Some (r, withdraw_if_cancelled mw b session i True w)))"

definition lease_request_json ::
  "'w mcp_world \<Rightarrow> exec_args \<Rightarrow> string list option \<Rightarrow> string \<Rightarrow> string \<Rightarrow> string" where
  "lease_request_json mw a secrets fp wdfp =
     json_text_map
       ([(''agent_id'', json_quote (env_default (mw_env mw) ''PROMPTLOCK_AGENT_ID'' ''mcp-agent'')),
         (''task_id'', json_quote (env_default (mw_env mw) ''PROMPTLOCK_TASK_ID'' ''mcp-task'')),
         (''intent'', json_quote (xa_intent a)), (''reason'', json_quote ''mcp execute_with_intent''),
         (''ttl_minutes'', itoa (xa_ttl a)), (''secrets'', json_strings secrets),
         (''command_fingerprint'', json_quote fp), (''workdir_fingerprint'', json_quote wdfp)] @
        (if xa_env_path a = '''' then [] else [(''env_path'', json_quote (xa_env_path a))]))"

text \<open>The call from its arguments on, with the session it acts for and the transport.\<close>

definition execute_validated ::
  "'w mcp_world \<Rightarrow> broker_transport \<Rightarrow> string \<Rightarrow> exec_args \<Rightarrow> 'w \<Rightarrow> ((gerror + string) \<times> 'w) option" where
  "execute_validated mw b session a w =
     (case post_auth (mw_web mw) b ''/v1/intents/resolve'' session
         (json_text_map [(''intent'', json_quote (xa_intent a))]) (mw_secrets mw) w of
        (Inl e, w) \<Rightarrow>
          Some (Inl (if mw_cancelled mw w then Plain ''request cancelled''
              else if is_unknown_intent_error e then Wrapped e (err_msg e @ '': '' @ unknown_intent_hint)
              else e), w)
      | (Inr secrets, w) \<Rightarrow>
          (let fp = sha_of (xa_cmd a); wdfp = sha_of [mw_getwd mw w] in
           case post_auth (mw_web mw) b ''/v1/leases/request'' session
             (lease_request_json mw a secrets fp wdfp) (mw_request_id mw) w of
             (Inl e, w) \<Rightarrow> Some (Inl (unless_cancelled mw w e), w)
           | (Inr i, w) \<Rightarrow> after_request mw b session i a secrets fp wdfp w))"

definition execute_with_intent ::
  "'w mcp_world \<Rightarrow> jval go_map \<Rightarrow> 'w \<Rightarrow> ((gerror + string) \<times> 'w) option" where
  "execute_with_intent mw args w =
     (case resolve_broker_transport (mw_env mw) (mw_stat mw) w of
        Inl e \<Rightarrow> Some (Inl e, w)
      | Inr b \<Rightarrow>
          (let session = effective_env (mw_env mw) ''PROMPTLOCK_SESSION_TOKEN'' in
           if session = '''' then Some (Inl (Plain ''PROMPTLOCK_SESSION_TOKEN is required''), w)
           else case parse_and_validate_exec_args (mw_floats mw) args of
             Inl e \<Rightarrow> Some (Inl e, w)
           | Inr a \<Rightarrow> execute_validated mw b session a w))"

end
