(* ===== verification/McpProps.thy ===== *)
theory McpProps
  imports McpClient
begin

text \<open>
  What a call of the tool does to the broker and whether it ends. The exchanges of a call are
  recorded beside its world, so that a theorem can speak of all of them and of their order.
\<close>

section \<open>Recording exchanges\<close>

type_synonym transcript = "(http_exchange \<times> (http_failure + http_answer)) list"

definition recording_web :: "'w web \<Rightarrow> ('w \<times> transcript) web" where
  "recording_web web =
     \<lparr>wb_check_url = wb_check_url web,
      wb_do = \<lambda>d x (w, tr). case wb_do web d x w of (r, w) \<Rightarrow> (r, (w, tr @ [(x, r)]))\<rparr>"

definition recording :: "'w mcp_world \<Rightarrow> ('w \<times> transcript) mcp_world" where
  "recording mw =
     \<lparr>mw_web = recording_web (mw_web mw), mw_env = mw_env mw, mw_stat = \<lambda>p w. mw_stat mw p (fst w),
      mw_getwd = \<lambda>w. mw_getwd mw (fst w),
      mw_now = \<lambda>(w, tr). (case mw_now mw w of (t, w) \<Rightarrow> (t, (w, tr))),
      mw_pause = \<lambda>n (w, tr). (mw_pause mw n w, tr), mw_cancelled = \<lambda>w. mw_cancelled mw (fst w),
      mw_floats = mw_floats mw, mw_secrets = mw_secrets mw, mw_request_id = mw_request_id mw,
      mw_status = mw_status mw, mw_lease_token = mw_lease_token mw, mw_exec = mw_exec mw,
      mw_any = mw_any mw\<rparr>"

lemma recording_simps [simp]:
  "mw_web (recording mw) = recording_web (mw_web mw)" "mw_env (recording mw) = mw_env mw"
  "mw_stat (recording mw) p w = mw_stat mw p (fst w)" "mw_getwd (recording mw) w = mw_getwd mw (fst w)"
  "mw_cancelled (recording mw) w = mw_cancelled mw (fst w)" "mw_floats (recording mw) = mw_floats mw"
  "mw_secrets (recording mw) = mw_secrets mw" "mw_request_id (recording mw) = mw_request_id mw"
  "mw_status (recording mw) = mw_status mw" "mw_lease_token (recording mw) = mw_lease_token mw"
  "mw_exec (recording mw) = mw_exec mw" "mw_any (recording mw) = mw_any mw"
  "snd (mw_pause (recording mw) n w) = snd w" "snd (snd (mw_now (recording mw) w)) = snd w"
  by (simp_all add: recording_def case_prod_beta)

text \<open>An answer that was decoded to \<open>v\<close>.\<close>

definition answered :: "(gerror + string \<Rightarrow> gerror + 'a) \<Rightarrow> http_failure + http_answer \<Rightarrow> 'a \<Rightarrow> bool" where
  "answered dec ans v \<longleftrightarrow> (\<exists>a. ans = Inr a \<and> ha_status a < 300 \<and> dec (ha_body a) = Inr v)"

text \<open>What one exchange adds to the transcript, and what it gave.\<close>

definition exchanged ::
  "http_exchange \<Rightarrow> (gerror + string \<Rightarrow> gerror + 'a) \<Rightarrow> transcript \<Rightarrow> gerror + 'a \<Rightarrow> transcript \<Rightarrow> bool" where
  "exchanged x dec tr r tr' \<longleftrightarrow>
     (tr' = tr \<and> (\<exists>e. r = Inl e)) \<or>
     (\<exists>ans. tr' = tr @ [(x, ans)] \<and> (\<forall>v. r = Inr v \<longleftrightarrow> answered dec ans v))"

lemma exchange_recorded:
  assumes "exchange (recording_web web) b x w = (r, w')"
  shows "snd w' = snd w \<and> (\<exists>e. r = Inl e) \<or>
    (\<exists>ans. snd w' = snd w @ [(x, ans)] \<and>
       (\<forall>body. r = Inr body \<longleftrightarrow> (\<exists>a. ans = Inr a \<and> ha_status a < 300 \<and> ha_body a = body)))"
proof (cases "wb_check_url web (hx_url x)")
  case (Some e)
  with assms show ?thesis by (auto simp: exchange_def recording_web_def)
next
  case None
  obtain ans w1 where d: "wb_do web (broker_dial b) x (fst w) = (ans, w1)"
    by (cases "wb_do web (broker_dial b) x (fst w)")
  then have "wb_do (recording_web web) (broker_dial b) x w = (ans, (w1, snd w @ [(x, ans)]))"
    by (simp add: recording_web_def case_prod_beta)
  with assms None show ?thesis
    by (auto simp: exchange_def recording_web_def split: sum.splits if_splits)
qed

lemma exchanged_decoded:
  assumes "exchange (recording_web web) b x w = (q, w')"
  shows "exchanged x dec (snd w) (case q of Inl e \<Rightarrow> Inl e | Inr body \<Rightarrow> dec body) (snd w')"
proof (cases q)
  case (Inl e)
  with exchange_recorded [OF assms] show ?thesis by (auto simp: exchanged_def answered_def)
next
  case (Inr body)
  with exchange_recorded [OF assms] obtain ans where
    t: "snd w' = snd w @ [(x, ans)]" and
    iff: "\<forall>body'. body = body' \<longleftrightarrow> (\<exists>a. ans = Inr a \<and> ha_status a < 300 \<and> ha_body a = body')"
    by auto
  from iff obtain a where "ans = Inr a" "ha_status a < 300" "ha_body a = body" by blast
  with t Inr show ?thesis by (simp add: exchanged_def answered_def)
qed

lemma post_recorded:
  assumes "post_auth (recording_web web) b path token body dec w = (r, w')"
  shows "exchanged (post_exchange b path token body) dec (snd w) r (snd w')"
proof -
  obtain q w1 where x: "exchange (recording_web web) b (post_exchange b path token body) w = (q, w1)"
    by (cases "exchange (recording_web web) b (post_exchange b path token body) w")
  show ?thesis using assms x exchanged_decoded [OF x, of dec]
    by (simp add: post_auth_def split: sum.splits)
qed

lemma get_recorded:
  assumes "get_auth (recording_web web) b path token dec w = (r, w')"
  shows "exchanged (get_exchange b path token) dec (snd w) r (snd w')"
proof -
  obtain q w1 where x: "exchange (recording_web web) b (get_exchange b path token) w = (q, w1)"
    by (cases "exchange (recording_web web) b (get_exchange b path token) w")
  show ?thesis using assms x exchanged_decoded [OF x, of dec]
    by (simp add: get_auth_def split: sum.splits)
qed

section \<open>What the wait does\<close>

lemma poll_until_steps:
  fixes check :: "'w \<Rightarrow> 'r option \<times> 'w"
  assumes ret: "poll_until check now deadline pause expired w = Some (r, w')"
    and "\<And>w. R w w" and "\<And>u v w. R u v \<Longrightarrow> R v w \<Longrightarrow> R u w"
    and "\<And>w. R w (snd (check w))" and "\<And>w. R w (snd (now w))" and "\<And>w. R w (pause w)"
  shows "R w w' \<and> (r = expired \<or> (\<exists>v. R w v \<and> check v = (Some r, w')))"
proof -
  let ?P = "\<lambda>check now deadline pause expired w x. (\<forall>w. R w (snd (check w))) \<longrightarrow> (\<forall>w. R w (snd (now w))) \<longrightarrow>
      (\<forall>w. R w (pause w)) \<longrightarrow>
      R w (snd x) \<and> (fst x = expired \<or> (\<exists>v. R w v \<and> check v = (Some (fst x), snd x)))"
  have "?P check now deadline pause expired w (r, w')"
  proof (rule poll_until.raw_induct [where P = ?P, OF _ ret], intro impI)
    fix f :: "('w \<Rightarrow> 'r option \<times> 'w) \<Rightarrow> ('w \<Rightarrow> int \<times> 'w) \<Rightarrow> int \<Rightarrow> ('w \<Rightarrow> 'w) \<Rightarrow> 'r \<Rightarrow> 'w \<Rightarrow> ('r \<times> 'w) option"
    fix check :: "'w \<Rightarrow> 'r option \<times> 'w" and now deadline pause expired w y
    assume IH: "\<And>check now deadline pause expired w y. f check now deadline pause expired w = Some y \<Longrightarrow>
        ?P check now deadline pause expired w y"
      and eq: "(case check w of (None, w) \<Rightarrow> (case now w of (t, w) \<Rightarrow>
            if deadline < t then Some (expired, w) else f check now deadline pause expired (pause w))
          | (Some r, w) \<Rightarrow> Some (r, w)) = Some y"
      and steps: "\<forall>w. R w (snd (check w))" "\<forall>w. R w (snd (now w))" "\<forall>w. R w (pause w)"
    obtain o' w1 where c: "check w = (o', w1)" by (cases "check w")
    obtain t w2 where n: "now w1 = (t, w2)" by (cases "now w1")
    have "R w w1" "R w1 w2" using steps(1,2) c n by (metis snd_conv)+
    then have r12: "R w w2" by (rule assms(3))
    show "R w (snd y) \<and> (fst y = expired \<or> (\<exists>v. R w v \<and> check v = (Some (fst y), snd y)))"
    proof (cases o')
      case (Some q)
      with eq c have "y = (q, w1)" by simp
      then show ?thesis using c Some \<open>R w w1\<close> assms(2) by auto
    next
      case None
      show ?thesis
      proof (cases "deadline < t")
        case True
        with eq c n None r12 show ?thesis by auto
      next
        case False
        with eq c n None have "f check now deadline pause expired (pause w2) = Some y" by simp
        from IH [OF this] steps have i: "R (pause w2) (snd y)"
          "fst y = expired \<or> (\<exists>v. R (pause w2) v \<and> check v = (Some (fst y), snd y))" by blast+
        have "R w (pause w2)" using assms(3) [OF r12] steps(3) by blast
        then show ?thesis using i assms(3) by blast
      qed
    qed
  qed
  then show ?thesis using assms(4-6) by simp
qed

section \<open>The wait ends\<close>

lemma exchange_clock:
  assumes "\<And>d x w. clock w \<le> (clock (snd (wb_do web d x w)) :: int)"
  shows "clock w \<le> clock (snd (exchange web b x w))"
  using assms by (auto simp: exchange_def case_prod_beta split: option.split sum.split)

lemma get_clock:
  assumes "\<And>d x w. clock w \<le> (clock (snd (wb_do web d x w)) :: int)"
  shows "clock w \<le> clock (snd (get_auth web b path token dec w))"
  using exchange_clock [of clock web, OF assms] by (auto simp: get_auth_def case_prod_beta split: sum.split)

lemma check_clock:
  assumes "\<And>d x w. clock w \<le> (clock (snd (wb_do (mw_web mw) d x w)) :: int)"
  shows "clock w \<le> clock (snd (approval_check mw b session i w))"
  using get_clock [of clock "mw_web mw", OF assms]
  by (auto simp: approval_check_def case_prod_beta split: sum.split)

lemma check_cancelled: "mw_cancelled mw w \<Longrightarrow> fst (approval_check mw b session i w) \<noteq> None"
  by (simp add: approval_check_def)

lemma wait_ends:
  fixes clock :: "'w \<Rightarrow> int"
  assumes "\<And>d x w. clock w \<le> clock (snd (wb_do (mw_web mw) d x w))"
    and "\<And>w. clock w \<le> fst (mw_now mw w) \<and> clock w \<le> clock (snd (mw_now mw w))"
    and "\<And>w. clock w < clock (mw_pause mw (2 * second) w) \<or> mw_cancelled mw (mw_pause mw (2 * second) w)"
  shows "\<exists>r. wait_approval mw b session i w = Some r"
proof -
  have "\<exists>r. poll_until (approval_check mw b session i) (mw_now mw) deadline (mw_pause mw (2 * second)) e w = Some r"
    for deadline e w
  proof (rule poll_until_ends [of _ clock])
    show "clock w \<le> clock w'" if "approval_check mw b session i w = (r, w')" for w r w'
      using check_clock [of clock mw w b session i, OF assms(1)] that by simp
    show "clock w \<le> clock w' \<and> clock w \<le> t" if "mw_now mw w = (t, w')" for w t w'
      using assms(2) [of w] that by simp
    show "clock w < clock (mw_pause mw (2 * second) w) \<or>
        fst (approval_check mw b session i (mw_pause mw (2 * second) w)) \<noteq> None" for w
      using assms(3) [of w] check_cancelled [of mw "mw_pause mw (2 * second) w" b session i] by argo
  qed
  then show ?thesis by (auto simp: wait_approval_def Let_def case_prod_beta)
qed

text \<open>
  C29: a call of the tool returns. Whatever the broker answers and for as long as it leaves the
  request undecided, the loop that waits for the approval ends: it is enough that the clock is not
  turned back, and that a pause of two seconds is seen on it or was cut short by a cancellation.
\<close>

theorem tool_call_ends:
  fixes clock :: "'w \<Rightarrow> int"
  assumes "\<And>d x w. clock w \<le> clock (snd (wb_do (mw_web mw) d x w))"
    and "\<And>w. clock w \<le> fst (mw_now mw w) \<and> clock w \<le> clock (snd (mw_now mw w))"
    and "\<And>w. clock w < clock (mw_pause mw (2 * second) w) \<or> mw_cancelled mw (mw_pause mw (2 * second) w)"
  shows "\<exists>r. execute_with_intent mw args w = Some r"
proof -
  have v: "\<exists>r. after_request mw b session i a secrets fp wdfp w = Some r" for b session i a secrets fp wdfp w
  proof -
    obtain q where "wait_approval mw b session i w = Some q"
      using wait_ends [of clock mw b session i w, OF assms] by blast
    then show ?thesis by (simp add: after_request_def case_prod_beta split: sum.split)
  qed
  have "\<exists>r. execute_validated mw b session a w = Some r" for b session a w
    using v by (auto simp: execute_validated_def case_prod_beta Let_def split: sum.split)
  then show ?thesis by (auto simp: execute_with_intent_def Let_def split: sum.split)
qed

section \<open>What a call does\<close>

definition request_exchange :: "broker_transport \<Rightarrow> string \<Rightarrow> string \<Rightarrow> http_exchange" where
  "request_exchange b session body = post_exchange b ''/v1/leases/request'' session body"

definition is_execute :: "broker_transport \<Rightarrow> http_exchange \<Rightarrow> bool" where
  "is_execute b x \<longleftrightarrow> hx_method x = ''POST'' \<and> hx_url x = broker_request_url b ''/v1/leases/execute''"

definition withdrawal :: "broker_transport \<Rightarrow> string \<Rightarrow> string \<Rightarrow> http_exchange" where
  "withdrawal b session i =
     post_exchange b (''/v1/leases/cancel?request_id='' @ query_escape i) session
       (json_text_map [(''reason'', json_quote ''mcp notification cancelled'')])"

definition approved_in :: "'w mcp_world \<Rightarrow> broker_transport \<Rightarrow> string \<Rightarrow> string \<Rightarrow> transcript \<Rightarrow> bool" where
  "approved_in mw b session i tr \<longleftrightarrow>
     (\<exists>ans. (get_exchange b (status_path i) session, ans) \<in> set tr \<and> answered (mw_status mw) ans ''approved'')"

text \<open>The exchanges of a stage, all among those \<open>X\<close>.\<close>

definition grows :: "http_exchange set \<Rightarrow> transcript \<Rightarrow> transcript \<Rightarrow> bool" where
  "grows X tr tr' \<longleftrightarrow> (\<exists>more. tr' = tr @ more \<and> fst ` set more \<subseteq> X)"

lemma grows_refl [simp]: "grows X tr tr" by (simp add: grows_def)

lemma grows_trans: "grows X tr tr' \<Longrightarrow> grows X tr' tr'' \<Longrightarrow> grows X tr tr''"
  by (force simp: grows_def)

lemma grows_one [simp]: "grows {x} tr (tr @ [(x, a)])" by (simp add: grows_def)

lemma exchanged_grows: "exchanged x dec tr r tr' \<Longrightarrow> grows {x} tr tr'"
  by (auto simp: exchanged_def)

lemma check_recorded:
  assumes "approval_check (recording mw) b session i w = (q, w')"
  shows "grows {get_exchange b (status_path i) session} (snd w) (snd w') \<and>
    (q = Some (Inr ()) \<longrightarrow>
       (\<exists>ans. snd w' = snd w @ [(get_exchange b (status_path i) session, ans)] \<and>
          answered (mw_status mw) ans ''approved''))"
proof (cases "mw_cancelled mw (fst w)")
  case False
  obtain r w1 where g: "get_auth (recording_web (mw_web mw)) b (status_path i) session (mw_status mw) w = (r, w1)"
    by (cases "get_auth (recording_web (mw_web mw)) b (status_path i) session (mw_status mw) w")
  from get_recorded [OF g] have e: "exchanged (get_exchange b (status_path i) session) (mw_status mw) (snd w) r (snd w1)" .
  have "w' = w1" "q = Some (Inr ()) \<longrightarrow> r = Inr ''approved''"
    using assms False g by (auto simp: approval_check_def split: sum.splits if_splits)
  with e exchanged_grows [OF e] show ?thesis by (auto simp: exchanged_def)
qed (use assms in \<open>auto simp: approval_check_def\<close>)

lemma wait_recorded:
  assumes "wait_approval (recording mw) b session i w = Some (q, w')"
  shows "\<exists>waited. snd w' = snd w @ waited \<and> fst ` set waited \<subseteq> {get_exchange b (status_path i) session} \<and>
    (q = Inr () \<longrightarrow> approved_in mw b session i waited)"
proof -
  let ?R = "\<lambda>u v. grows {get_exchange b (status_path i) session} (snd u) (snd v)"
  obtain t w1 d where n: "mw_now (recording mw) w = (t, w1)"
    and p: "poll_until (approval_check (recording mw) b session i) (mw_now (recording mw)) d
      (mw_pause (recording mw) (2 * second)) (Inl (Plain ''approval timeout'')) w1 = Some (q, w')"
    using assms by (cases "mw_now (recording mw) w") (simp add: wait_approval_def Let_def)
  have w1: "snd w1 = snd w" using n recording_simps(14) [of mw w] by simp
  have steps: "?R w1 w' \<and> (q = Inl (Plain ''approval timeout'') \<or>
      (\<exists>v. ?R w1 v \<and> approval_check (recording mw) b session i v = (Some q, w')))"
  proof (rule poll_until_steps [OF p])
    show "?R u (snd (approval_check (recording mw) b session i u))" for u
      using check_recorded [of mw b session i u] by (metis prod.collapse)
  qed (auto intro: grows_trans)
  show ?thesis
  proof (cases "q = Inr ()")
    case False
    with steps show ?thesis by (auto simp: grows_def w1)
  next
    case True
    with steps obtain v where v: "?R w v" "approval_check (recording mw) b session i v = (Some q, w')"
      by (auto simp: w1)
    with check_recorded [OF v(2)] True obtain m ans where
      "snd w' = snd w @ m @ [(get_exchange b (status_path i) session, ans)]"
      "fst ` set m \<subseteq> {get_exchange b (status_path i) session}" "answered (mw_status mw) ans ''approved''"
      by (auto simp: grows_def)
    then show ?thesis
      by (intro exI [of _ "m @ [(get_exchange b (status_path i) session, ans)]"]) (auto simp: approved_in_def)
  qed
qed

text \<open>A list of exchanges that is empty, or one that satisfies \<open>P\<close>.\<close>

definition at_most_one :: "(http_exchange \<Rightarrow> bool) \<Rightarrow> transcript \<Rightarrow> bool" where
  "at_most_one P tr \<longleftrightarrow> tr = [] \<or> (\<exists>x ans. tr = [(x, ans)] \<and> P x)"

lemma exchanged_one: "exchanged x dec tr r tr' \<Longrightarrow> \<exists>more. tr' = tr @ more \<and> at_most_one ((=) x) more"
  by (auto simp: exchanged_def at_most_one_def)

lemma lease_recorded:
  assumes "lease_and_execute (recording mw) b session i a secrets fp wdfp w = (r, w')"
  shows "\<exists>l e. snd w' = snd w @ l @ e \<and> at_most_one (\<lambda>x. hx_method x = ''GET'') l \<and> at_most_one (is_execute b) e"
proof -
  let ?lp = "''/v1/leases/by-request?request_id='' @ i"
  obtain q w1 where g: "get_auth (recording_web (mw_web mw)) b ?lp session (mw_lease_token mw) w = (q, w1)"
    by (cases "get_auth (recording_web (mw_web mw)) b ?lp session (mw_lease_token mw) w")
  from exchanged_one [OF get_recorded [OF g]] obtain l where
    l: "snd w1 = snd w @ l" "at_most_one (\<lambda>x. hx_method x = ''GET'') l"
    by (auto simp: at_most_one_def get_exchange_def)
  show ?thesis
  proof (cases q)
    case (Inl e)
    with assms g have "w' = w1" by (simp add: lease_and_execute_def)
    with l show ?thesis by (intro exI [of _ l] exI [of _ "[]"]) (simp add: at_most_one_def)
  next
    case (Inr tok)
    let ?body = "json_text_map [(''lease_token'', json_quote tok), (''intent'', json_quote (xa_intent a)),
                 (''command'', json_strings (Some (xa_cmd a))), (''secrets'', json_strings secrets),
                 (''command_fingerprint'', json_quote fp), (''workdir_fingerprint'', json_quote wdfp)]"
    obtain q2 w2 where p: "post_auth (recording_web (mw_web mw)) b ''/v1/leases/execute'' session ?body (mw_exec mw) w1 = (q2, w2)"
      by (cases "post_auth (recording_web (mw_web mw)) b ''/v1/leases/execute'' session ?body (mw_exec mw) w1")
    with assms g Inr have "w' = w2" by (simp add: lease_and_execute_def case_prod_beta split: sum.splits)
    moreover from exchanged_one [OF post_recorded [OF p]] obtain e where
      "snd w2 = snd w1 @ e" "at_most_one (is_execute b) e"
      by (auto simp: at_most_one_def post_exchange_def is_execute_def)
    ultimately show ?thesis using l by auto
  qed
qed

lemma withdraw_recorded:
  "\<exists>c. snd (withdraw_if_cancelled (recording mw) b session i approved w) = snd w @ c \<and>
     at_most_one (\<lambda>x. x = withdrawal b session (trim_space i)) c \<and> (approved \<longrightarrow> c = []) \<and>
     (c = [] \<longrightarrow> approved \<or> trim_space i = '''' \<or>
        wb_check_url (mw_web mw) (hx_url (withdrawal b session (trim_space i))) \<noteq> None \<or>
        \<not> mw_cancelled mw (fst (withdraw_if_cancelled (recording mw) b session i approved w)))"
proof (cases "\<not> mw_cancelled mw (fst w) \<or> approved \<or> trim_space i = ''''")
  case True
  then show ?thesis by (auto simp: withdraw_if_cancelled_def Let_def at_most_one_def)
next
  case False
  obtain q w1 where p: "cancel_pending_request (recording mw) b session (trim_space i) w = (q, w1)"
    by (cases "cancel_pending_request (recording mw) b session (trim_space i) w")
  from p have e: "exchanged (withdrawal b session (trim_space i)) (mw_any mw) (snd w) q (snd w1)"
    by (simp add: cancel_pending_request_def withdrawal_def post_recorded)
  have u: "withdraw_if_cancelled (recording mw) b session i approved w = w1"
    using False p by (simp add: withdraw_if_cancelled_def Let_def)
  have n: "wb_check_url (mw_web mw) (hx_url (withdrawal b session (trim_space i))) \<noteq> None"
    if same: "snd w1 = snd w"
  proof
    assume "wb_check_url (mw_web mw) (hx_url (withdrawal b session (trim_space i))) = None"
    with p have "snd w1 \<noteq> snd w"
      by (auto simp: cancel_pending_request_def withdrawal_def [symmetric] post_auth_def exchange_def
          recording_web_def case_prod_beta withdrawal_def split: sum.splits if_splits)
    with same show False by simp
  qed
  from e n False show ?thesis unfolding u
    by (auto simp: exchanged_def at_most_one_def)
qed

text \<open>What follows a request that was answered with \<open>i\<close>.\<close>

definition follows_request ::
  "'w mcp_world \<Rightarrow> broker_transport \<Rightarrow> string \<Rightarrow> string \<Rightarrow> 'w \<Rightarrow> transcript \<Rightarrow> bool" where
  "follows_request mw b session i w' tr \<longleftrightarrow>
     (\<exists>waited. fst ` set waited \<subseteq> {get_exchange b (status_path i) session} \<and>
        ((\<exists>l e. tr = waited @ l @ e \<and> approved_in mw b session i waited \<and>
            at_most_one (\<lambda>x. hx_method x = ''GET'') l \<and> at_most_one (is_execute b) e) \<or>
         (\<exists>c. tr = waited @ c \<and> at_most_one (\<lambda>x. x = withdrawal b session (trim_space i)) c \<and>
            (c = [] \<longrightarrow> trim_space i = '''' \<or>
               wb_check_url (mw_web mw) (hx_url (withdrawal b session (trim_space i))) \<noteq> None \<or>
               \<not> mw_cancelled mw w'))))"

lemma after_recorded:
  assumes "after_request (recording mw) b session i a secrets fp wdfp w = Some (r, w')"
  shows "\<exists>tr. snd w' = snd w @ tr \<and> follows_request mw b session i (fst w') tr"
proof -
  obtain q w1 where wait: "wait_approval (recording mw) b session i w = Some (q, w1)"
    using assms by (cases "wait_approval (recording mw) b session i w") (auto simp: after_request_def)
  from wait_recorded [OF wait] obtain waited where
    wt: "snd w1 = snd w @ waited" "fst ` set waited \<subseteq> {get_exchange b (status_path i) session}"
      "q = Inr () \<longrightarrow> approved_in mw b session i waited" by blast
  show ?thesis
  proof (cases q)
    case (Inl e)
    with assms wait have w': "w' = withdraw_if_cancelled (recording mw) b session i False w1"
      by (simp add: after_request_def)
    from withdraw_recorded [of mw b session i False w1] obtain c where
      c: "snd w' = snd w1 @ c" "at_most_one (\<lambda>x. x = withdrawal b session (trim_space i)) c"
      "c = [] \<longrightarrow> trim_space i = '''' \<or>
        wb_check_url (mw_web mw) (hx_url (withdrawal b session (trim_space i))) \<noteq> None \<or>
        \<not> mw_cancelled mw (fst w')"
      unfolding w' by auto
    have "follows_request mw b session i (fst w') (waited @ c)"
      unfolding follows_request_def
      by (intro exI [of _ waited] conjI wt(2) disjI2 exI [of _ c] c(2,3) refl)
    with wt c show ?thesis by auto
  next
    case (Inr u)
    obtain r2 w2 where le: "lease_and_execute (recording mw) b session i a secrets fp wdfp w1 = (r2, w2)"
      by (cases "lease_and_execute (recording mw) b session i a secrets fp wdfp w1")
    with assms wait Inr have w': "w' = withdraw_if_cancelled (recording mw) b session i True w2"
      by (simp add: after_request_def)
    from withdraw_recorded [of mw b session i True w2] have "snd w' = snd w2" unfolding w' by auto
    with lease_recorded [OF le] wt Inr obtain l e where
      le: "snd w' = snd w @ waited @ l @ e" "approved_in mw b session i waited"
      "at_most_one (\<lambda>x. hx_method x = ''GET'') l" "at_most_one (is_execute b) e"
      by auto
    have "follows_request mw b session i (fst w') (waited @ l @ e)"
      unfolding follows_request_def
      by (intro exI [of _ waited] conjI wt(2) disjI1 exI [of _ l] exI [of _ e] le(2-4) refl)
    with le(1) show ?thesis by blast
  qed
qed

definition resolve_exchange :: "broker_transport \<Rightarrow> string \<Rightarrow> string \<Rightarrow> http_exchange" where
  "resolve_exchange b session intent =
     post_exchange b ''/v1/intents/resolve'' session (json_text_map [(''intent'', json_quote intent)])"

text \<open>All exchanges of a call, in their order.\<close>

lemma validated_recorded:
  assumes "execute_validated (recording mw) b session a w = Some (r, w')"
  shows "\<exists>pre more body. snd w' = snd w @ pre @ more \<and>
    at_most_one (\<lambda>x. x = resolve_exchange b session (xa_intent a)) pre \<and>
    (at_most_one (\<lambda>x. x = request_exchange b session body) more \<and>
       (\<forall>x ans i. (x, ans) \<in> set more \<longrightarrow> \<not> answered (mw_request_id mw) ans i) \<or>
     (\<exists>i given rest. more = (request_exchange b session body, given) # rest \<and>
        answered (mw_request_id mw) given i \<and> follows_request mw b session i (fst w') rest))"
proof -
  let ?x = "resolve_exchange b session (xa_intent a)"
  obtain q w1 where p: "post_auth (recording_web (mw_web mw)) b ''/v1/intents/resolve'' session
      (json_text_map [(''intent'', json_quote (xa_intent a))]) (mw_secrets mw) w = (q, w1)"
    by (cases "post_auth (recording_web (mw_web mw)) b ''/v1/intents/resolve'' session
      (json_text_map [(''intent'', json_quote (xa_intent a))]) (mw_secrets mw) w")
  from exchanged_one [OF post_recorded [OF p]] obtain pre where
    pre: "snd w1 = snd w @ pre" "at_most_one (\<lambda>x. x = ?x) pre"
    by (auto simp: resolve_exchange_def at_most_one_def)
  show ?thesis
  proof (cases q)
    case (Inl e)
    with assms p have "w' = w1" by (simp add: execute_validated_def)
    with pre show ?thesis by (intro exI [of _ pre] exI [of _ "[]"]) (auto simp: at_most_one_def)
  next
    case (Inr secrets)
    let ?fp = "sha_of (xa_cmd a)" and ?wd = "sha_of [mw_getwd mw (fst w1)]"
    let ?body = "lease_request_json (recording mw) a secrets ?fp ?wd"
    obtain q2 w2 where p2: "post_auth (recording_web (mw_web mw)) b ''/v1/leases/request'' session
        ?body (mw_request_id mw) w1 = (q2, w2)"
      by (cases "post_auth (recording_web (mw_web mw)) b ''/v1/leases/request'' session
        ?body (mw_request_id mw) w1")
    from post_recorded [OF p2]
    have e2: "exchanged (request_exchange b session ?body) (mw_request_id mw) (snd w1) q2 (snd w2)"
      by (simp add: request_exchange_def)
    show ?thesis
    proof (cases q2)
      case (Inl e)
      with assms p p2 Inr have "w' = w2" by (simp add: execute_validated_def Let_def)
      with e2 Inl pre obtain more where "snd w' = snd w @ pre @ more"
        "at_most_one (\<lambda>x. x = request_exchange b session ?body) more"
        "\<forall>x ans i. (x, ans) \<in> set more \<longrightarrow> \<not> answered (mw_request_id mw) ans i"
        by (auto simp: exchanged_def at_most_one_def)
      with pre(2) show ?thesis by blast
    next
      case (Inr i)
      with e2 obtain given where a: "snd w2 = snd w1 @ [(request_exchange b session ?body, given)]"
        "answered (mw_request_id mw) given i" by (auto simp: exchanged_def)
      from assms p p2 \<open>q = Inr secrets\<close> Inr
      have "after_request (recording mw) b session i a secrets ?fp ?wd w2 = Some (r, w')"
        by (simp add: execute_validated_def Let_def)
      from after_recorded [OF this] obtain tr where
        "snd w' = snd w2 @ tr" "follows_request mw b session i (fst w') tr" by blast
      with a pre show ?thesis
        by (intro exI [of _ pre] exI [of _ "(request_exchange b session ?body, given) # tr"] exI [of _ ?body])
          auto
    qed
  qed
qed

section \<open>The command and the cancellation\<close>

lemma recording_transport:
  "resolve_broker_transport env (mw_stat (recording mw)) (w, tr) = resolve_broker_transport env (mw_stat mw) w"
  unfolding resolve_broker_transport_def Let_def recording_simps fst_conv ..

lemma call_recorded:
  assumes "execute_with_intent (recording mw) args (w, []) = Some (r, w', tr)"
    and "resolve_broker_transport (mw_env mw) (mw_stat mw) w = Inr b"
  obtains (quiet) "tr = []"
  | (called) a where "execute_validated (recording mw) b (effective_env (mw_env mw) ''PROMPTLOCK_SESSION_TOKEN'')
        a (w, []) = Some (r, w', tr)"
  using assms by (auto simp: execute_with_intent_def Let_def recording_transport
      split: if_splits sum.splits intro: quiet called)

lemma broker_urls:
  "broker_request_url b (CHR ''/'' # p) = broker_request_url b (CHR ''/'' # q) \<longleftrightarrow> p = q"
  by (simp add: broker_request_url_def Let_def has_prefix_def)

lemma not_execute [simp]:
  "\<not> is_execute b (resolve_exchange b s v)" "\<not> is_execute b (request_exchange b s body)"
  "\<not> is_execute b (get_exchange b p s)" "\<not> is_execute b (withdrawal b s i)"
  by (simp_all add: is_execute_def resolve_exchange_def request_exchange_def get_exchange_def withdrawal_def
      post_exchange_def broker_urls)

lemma not_request [simp]:
  "request_exchange b s body \<noteq> resolve_exchange b s v" "request_exchange b s body \<noteq> get_exchange b p s"
  "request_exchange b s body \<noteq> withdrawal b s i" "\<not> hx_method (request_exchange b s body) = ''GET''"
  by (simp_all add: resolve_exchange_def request_exchange_def get_exchange_def withdrawal_def
      post_exchange_def broker_urls)

lemma answered_unique: "answered dec ans v \<Longrightarrow> answered dec ans v' \<Longrightarrow> v = v'"
  by (auto simp: answered_def)

lemma at_most_one_mem: "at_most_one P tr \<Longrightarrow> (x, ans) \<in> set tr \<Longrightarrow> tr = [(x, ans)] \<and> P x"
  by (auto simp: at_most_one_def)

lemma at_most_one_not: "at_most_one P tr \<Longrightarrow> \<not> P x \<Longrightarrow> (x, ans) \<notin> set tr"
  by (auto simp: at_most_one_def)

lemma waited_not: "fst ` set tr \<subseteq> {y} \<Longrightarrow> x \<noteq> y \<Longrightarrow> (x, ans) \<notin> set tr"
  by force

lemma execute_is_other: "is_execute b x \<Longrightarrow> \<not> is_execute b y \<Longrightarrow> x \<noteq> y"
  by blast

lemma execute_is_post: "is_execute b x \<Longrightarrow> hx_method x \<noteq> ''GET''"
  by (simp add: is_execute_def)

lemma follows_execute:
  assumes "follows_request mw b session i w' tr" "(x, ans) \<in> set tr" "is_execute b x"
  shows "\<exists>pre. tr = pre @ [(x, ans)] \<and> approved_in mw b session i pre"
proof -
  from assms(1) obtain waited where
    w: "fst ` set waited \<subseteq> {get_exchange b (status_path i) session}"
      "(\<exists>l e. tr = waited @ l @ e \<and> approved_in mw b session i waited \<and>
            at_most_one (\<lambda>x. hx_method x = ''GET'') l \<and> at_most_one (is_execute b) e) \<or>
       (\<exists>c. tr = waited @ c \<and> at_most_one (\<lambda>x. x = withdrawal b session (trim_space i)) c)"
    unfolding follows_request_def by blast
  have n: "(x, ans) \<notin> set waited"
    by (rule waited_not [OF w(1) execute_is_other [OF assms(3)]]) simp
  from w(2) show ?thesis
  proof (elim disjE exE conjE)
    fix l e assume t: "tr = waited @ l @ e" and a: "approved_in mw b session i waited"
      and l: "at_most_one (\<lambda>x. hx_method x = ''GET'') l" and e: "at_most_one (is_execute b) e"
    have "(x, ans) \<notin> set l" by (rule at_most_one_not [OF l execute_is_post [OF assms(3)]])
    with assms(2) t n have "(x, ans) \<in> set e" by auto
    from at_most_one_mem [OF e this] t a show ?thesis
      by (intro exI [of _ "waited @ l"]) (auto simp: approved_in_def)
  next
    fix c assume t: "tr = waited @ c" and c: "at_most_one (\<lambda>x. x = withdrawal b session (trim_space i)) c"
    have "(x, ans) \<notin> set c" by (rule at_most_one_not [OF c execute_is_other [OF assms(3)]]) simp
    with assms(2) t n show ?thesis by auto
  qed
qed

lemma follows_no_request:
  assumes "follows_request mw b session i w' tr"
  shows "(request_exchange b session body, ans) \<notin> set tr"
proof -
  from assms obtain waited where
    w: "fst ` set waited \<subseteq> {get_exchange b (status_path i) session}"
      "(\<exists>l e. tr = waited @ l @ e \<and> at_most_one (\<lambda>x. hx_method x = ''GET'') l \<and> at_most_one (is_execute b) e) \<or>
       (\<exists>c. tr = waited @ c \<and> at_most_one (\<lambda>x. x = withdrawal b session (trim_space i)) c)"
    unfolding follows_request_def by blast
  have "(request_exchange b session body, ans) \<notin> set waited"
    by (rule waited_not [OF w(1)]) simp
  with w(2) show ?thesis
    by (auto dest!: at_most_one_not [of _ _ "request_exchange b session body" ans])
qed

text \<open>
  C27: the command is sent to the broker only after an approval. Whatever the broker answers and
  whenever the call is cancelled, an exchange that has the broker execute the command is the last
  one of its call; before it the call's own request was answered with an identifier, and the
  status of that very identifier was read and was ''approved''.
\<close>

theorem command_sent_only_after_approval:
  assumes "execute_with_intent (recording mw) args (w, []) = Some (r, w', tr)"
    and "resolve_broker_transport (mw_env mw) (mw_stat mw) w = Inr b"
    and "(x, ans) \<in> set tr" and "is_execute b x"
  shows "\<exists>pre i body given.
    let session = effective_env (mw_env mw) ''PROMPTLOCK_SESSION_TOKEN'' in
      tr = pre @ [(x, ans)] \<and>
      (request_exchange b session body, given) \<in> set pre \<and> answered (mw_request_id mw) given i \<and>
      approved_in mw b session i pre"
proof (rule call_recorded [OF assms(1,2)])
  fix a
  let ?s = "effective_env (mw_env mw) ''PROMPTLOCK_SESSION_TOKEN''"
  assume "execute_validated (recording mw) b ?s a (w, []) = Some (r, w', tr)"
  from validated_recorded [OF this, unfolded snd_conv fst_conv append_Nil] obtain pre more body where
    t: "tr = pre @ more" and p: "at_most_one (\<lambda>x. x = resolve_exchange b ?s (xa_intent a)) pre" and
    m: "at_most_one (\<lambda>x. x = request_exchange b ?s body) more \<or>
      (\<exists>i given rest. more = (request_exchange b ?s body, given) # rest \<and>
         answered (mw_request_id mw) given i \<and> follows_request mw b ?s i w' rest)"
    by blast
  have "(x, ans) \<notin> set pre" by (rule at_most_one_not [OF p execute_is_other [OF assms(4)]]) simp
  with assms(3) t have x: "(x, ans) \<in> set more" by auto
  have "\<not> at_most_one (\<lambda>x. x = request_exchange b ?s body) more"
  proof
    assume one: "at_most_one (\<lambda>x. x = request_exchange b ?s body) more"
    have "(x, ans) \<notin> set more" by (rule at_most_one_not [OF one execute_is_other [OF assms(4)]]) simp
    with x show False by blast
  qed
  with m obtain i given rest where
    i: "more = (request_exchange b ?s body, given) # rest" "answered (mw_request_id mw) given i"
      "follows_request mw b ?s i w' rest" by blast
  with x assms(4) have "(x, ans) \<in> set rest" by auto
  from follows_execute [OF i(3) this assms(4)] obtain q where
    "rest = q @ [(x, ans)]" "approved_in mw b ?s i q" by blast
  with i t show ?thesis unfolding Let_def
    by (intro exI [of _ "pre @ (request_exchange b ?s body, given) # q"] exI [of _ i] exI [of _ body]
        exI [of _ given]) (auto simp: approved_in_def)
qed (use assms(3) in simp)

text \<open>
  C28: a call that is cancelled while its request is undecided withdraws it: if the request was
  answered with an identifier, no status that was read was ''approved'', and the call is cancelled
  when it returns, its last exchange is the cancellation of that identifier at the broker.
\<close>

theorem cancelled_call_withdraws:
  fixes b :: broker_transport
  assumes "execute_with_intent (recording mw) args (w, []) = Some (r, w', tr)"
    and "resolve_broker_transport (mw_env mw) (mw_stat mw) w = Inr b"
    and "session = effective_env (mw_env mw) ''PROMPTLOCK_SESSION_TOKEN''"
    and "(request_exchange b session body, given) \<in> set tr" and "answered (mw_request_id mw) given i"
    and "\<not> approved_in mw b session i tr" and "mw_cancelled mw w'" and "trim_space i \<noteq> ''''"
    and "wb_check_url (mw_web mw) (hx_url (withdrawal b session (trim_space i))) = None"
  shows "\<exists>pre ans. tr = pre @ [(withdrawal b session (trim_space i), ans)]"
proof (rule call_recorded [OF assms(1,2)])
  fix a
  assume "execute_validated (recording mw) b (effective_env (mw_env mw) ''PROMPTLOCK_SESSION_TOKEN'') a (w, [])
    = Some (r, w', tr)"
  from validated_recorded [OF this, folded assms(3), unfolded snd_conv fst_conv append_Nil] obtain pre more body' where
    t: "tr = pre @ more" and p: "at_most_one (\<lambda>x. x = resolve_exchange b session (xa_intent a)) pre" and
    m: "(\<forall>x ans i. (x, ans) \<in> set more \<longrightarrow> \<not> answered (mw_request_id mw) ans i) \<or>
      (\<exists>i given rest. more = (request_exchange b session body', given) # rest \<and>
         answered (mw_request_id mw) given i \<and> follows_request mw b session i w' rest)"
    by blast
  have "(request_exchange b session body, given) \<notin> set pre" by (rule at_most_one_not [OF p]) simp
  with assms(4) t have q: "(request_exchange b session body, given) \<in> set more" by auto
  with m assms(5) obtain j given' rest where
    j: "more = (request_exchange b session body', given') # rest" "answered (mw_request_id mw) given' j"
      "follows_request mw b session j w' rest" by blast
  have "(request_exchange b session body, given) \<notin> set rest" by (rule follows_no_request [OF j(3)])
  with q j(1) have "given = given'" by auto
  with j(2) assms(5) have "j = i" by (auto intro: answered_unique)
  have "\<not> approved_in mw b session i rest" using assms(6) t j(1) by (auto simp: approved_in_def)
  with j(3) assms(7-9) obtain waited c where
    "rest = waited @ c" "at_most_one (\<lambda>x. x = withdrawal b session (trim_space i)) c" "c \<noteq> []"
    unfolding follows_request_def \<open>j = i\<close> by (auto simp: approved_in_def)
  with t j(1) show ?thesis by (auto simp: at_most_one_def)
qed (use assms(4) in simp)

section \<open>A call to an example broker\<close>

text \<open>
  Every exchange succeeds with the same body, which is the status of the request; the world counts
  the exchanges and pauses, and is cancelled from a count on.
\<close>

definition demo_web :: "string \<Rightarrow> int web" where
  "demo_web st =
     \<lparr>wb_check_url = \<lambda>_. None,
      wb_do = \<lambda>_ _ w. (Inr \<lparr>ha_status = 200, ha_status_line = ''200 OK'', ha_body = Inr st\<rparr>, w + 1)\<rparr>"

definition demo_call :: "string \<Rightarrow> int \<Rightarrow> int mcp_world" where
  "demo_call st limit =
     \<lparr>mw_web = demo_web st,
      mw_env = [(''PROMPTLOCK_SESSION_TOKEN'', ''sess_1''), (''PROMPTLOCK_BROKER_URL'', ''http://b'')],
      mw_stat = \<lambda>_ _. False, mw_getwd = \<lambda>_. ''/work'', mw_now = \<lambda>w. (w, w), mw_pause = \<lambda>_ w. w + 1,
      mw_cancelled = \<lambda>w. limit \<le> w, mw_floats = plain_floats, mw_secrets = \<lambda>_. Inr (Some [''npm'']),
      mw_request_id = \<lambda>_. Inr ''req_1'', mw_status = \<lambda>body. body, mw_lease_token = \<lambda>_. Inr ''lease_1'',
      mw_exec = \<lambda>_. Inr (0, ''ok''), mw_any = \<lambda>_. Inr ()\<rparr>"

definition demo_arguments :: "jval go_map" where
  "demo_arguments = [(''intent'', JText ''run_tests''), (''command'', JArray [JText ''make'', JText ''test''])]"

definition demo_broker :: broker_transport where
  "demo_broker = \<lparr>br_base_url = ''http://b'', br_unix_socket = ''''\<rparr>"

theorem tool_call_ends_witness: "\<exists>r. execute_with_intent (demo_call ''pending'' 1000) demo_arguments 0 = Some r"
  by (rule tool_call_ends [of "\<lambda>w. w"]) (simp_all add: demo_call_def demo_web_def)

lemma demo_simps [simp]:
  "mw_web (demo_call st n) = demo_web st" "mw_getwd (demo_call st n) = (\<lambda>_. ''/work'')"
  "mw_cancelled (demo_call st n) w \<longleftrightarrow> n \<le> w" "mw_floats (demo_call st n) = plain_floats"
  "mw_secrets (demo_call st n) = (\<lambda>_. Inr (Some [''npm'']))" "mw_request_id (demo_call st n) = (\<lambda>_. Inr ''req_1'')"
  "mw_status (demo_call st n) = (\<lambda>body. body)" "mw_lease_token (demo_call st n) = (\<lambda>_. Inr ''lease_1'')"
  "mw_exec (demo_call st n) = (\<lambda>_. Inr (0, ''ok''))" "mw_any (demo_call st n) = (\<lambda>_. Inr ())"
  "mw_now (recording (demo_call st n)) (w, tr) = (w, w, tr)"
  "mw_pause (recording (demo_call st n)) d (w, tr) = (w + 1, tr)"
  by (simp_all add: demo_call_def recording_def)

definition demo_answer :: "string \<Rightarrow> http_failure + http_answer" where
  "demo_answer st = Inr \<lparr>ha_status = 200, ha_status_line = ''200 OK'', ha_body = Inr st\<rparr>"

lemma demo_exchanges [simp]:
  "post_auth (recording_web (demo_web st)) b p t body dec (w, tr) =
     (dec (Inr st), (w + 1, tr @ [(post_exchange b p t body, demo_answer st)]))"
  "get_auth (recording_web (demo_web st)) b p t dec (w, tr) =
     (dec (Inr st), (w + 1, tr @ [(get_exchange b p t, demo_answer st)]))"
  by (simp_all add: post_auth_def get_auth_def exchange_def recording_web_def demo_web_def demo_answer_def)

lemma demo_answered [simp]: "answered dec (demo_answer st) v \<longleftrightarrow> dec (Inr st) = Inr v"
  by (simp add: answered_def demo_answer_def)

lemma demo_arguments_accepted: "\<exists>a. parse_and_validate_exec_args plain_floats demo_arguments = Inr a"
proof -
  have "case parse_and_validate_exec_args plain_floats demo_arguments of Inl _ \<Rightarrow> False | Inr a \<Rightarrow> True" by code_simp
  then show ?thesis by (auto split: sum.splits)
qed

lemma demo_session: "effective_env (mw_env (demo_call st n)) ''PROMPTLOCK_SESSION_TOKEN'' = ''sess_1''"
  unfolding demo_call_def mcp_world.simps by code_simp

lemma demo_transport: "resolve_broker_transport (mw_env (demo_call st n)) (mw_stat (demo_call st n)) w = Inr demo_broker"
proof -
  have "resolve_broker_transport [(''PROMPTLOCK_SESSION_TOKEN'', ''sess_1''), (''PROMPTLOCK_BROKER_URL'', ''http://b'')]
      (\<lambda>_ _. False) () = Inr demo_broker" by code_simp
  then show ?thesis by (simp add: resolve_broker_transport_def demo_call_def)
qed

lemma demo_deadline: "env_int_default (mw_env (demo_call st n)) ''PROMPTLOCK_APPROVAL_TIMEOUT_SEC'' 120 = 120"
  unfolding demo_call_def mcp_world.simps by code_simp

lemma demo_request_id: "trim_space ''req_1'' = ''req_1''" by code_simp

lemma demo_run:
  "\<exists>a. execute_with_intent (recording (demo_call st n)) demo_arguments (w, []) =
    execute_validated (recording (demo_call st n)) demo_broker ''sess_1'' a (w, [])"
  using demo_arguments_accepted
  by (auto simp: execute_with_intent_def Let_def recording_transport demo_transport demo_session)

lemma demo_wait:
  "wait_approval (recording (demo_call st n)) b s i (w, tr) =
     poll_until (approval_check (recording (demo_call st n)) b s i) (mw_now (recording (demo_call st n)))
       (w + 120 * second) (mw_pause (recording (demo_call st n)) (2 * second))
       (Inl (Plain ''approval timeout'')) (w, tr)"
  using demo_deadline [of st n] by (simp add: wait_approval_def dur_mult_def second_def wrap64_def)

lemma demo_polled:
  "poll_until (approval_check (recording (demo_call st n)) b s i) (mw_now (recording (demo_call st n))) d p e (w, tr) =
     (if n \<le> w then Some (Inl (Plain ''request cancelled''), w, tr)
      else let tr' = tr @ [(get_exchange b (status_path i) s, demo_answer st)] in
        if st = ''denied''
        then Some (Inl (Plain ''request denied''), w + 1, tr')
        else if st = ''approved'' then Some (Inr (), w + 1, tr')
        else if d < w + 1 then Some (e, w + 1, tr')
        else poll_until (approval_check (recording (demo_call st n)) b s i)
          (mw_now (recording (demo_call st n))) d p e (p (w + 1, tr')))"
  by (subst poll_until.simps) (simp add: approval_check_def Let_def)

theorem command_sent_only_after_approval_witness:
  "\<exists>r w' tr x ans pre i body given.
     execute_with_intent (recording (demo_call ''approved'' 1000)) demo_arguments (0, []) = Some (r, w', tr) \<and>
     is_execute demo_broker x \<and> tr = pre @ [(x, ans)] \<and>
     (request_exchange demo_broker ''sess_1'' body, given) \<in> set pre \<and>
     approved_in (demo_call ''approved'' 1000) demo_broker ''sess_1'' i pre"
proof -
  let ?mw = "demo_call ''approved'' 1000"
  obtain a where e: "execute_with_intent (recording ?mw) demo_arguments (0, []) =
      execute_validated (recording ?mw) demo_broker ''sess_1'' a (0, [])"
    using demo_run by blast
  let ?x = "post_exchange demo_broker ''/v1/leases/execute'' ''sess_1''
      (json_text_map [(''lease_token'', json_quote ''lease_1''), (''intent'', json_quote (xa_intent a)),
         (''command'', json_strings (Some (xa_cmd a))), (''secrets'', json_strings (Some [''npm''])),
         (''command_fingerprint'', json_quote (sha_of (xa_cmd a))),
         (''workdir_fingerprint'', json_quote (sha_of [''/work'']))])"
  obtain r w' tr where run: "execute_with_intent (recording ?mw) demo_arguments (0, []) = Some (r, w', tr)"
    and x: "(?x, demo_answer ''approved'') \<in> set tr"
    unfolding e by (simp add: execute_validated_def Let_def after_request_def demo_wait demo_polled lease_and_execute_def
        withdraw_if_cancelled_def)
  have x2: "is_execute demo_broker ?x" by (simp add: is_execute_def post_exchange_def)
  from command_sent_only_after_approval [OF run demo_transport x x2, unfolded demo_session Let_def]
  obtain pre i body given where "tr = pre @ [(?x, demo_answer ''approved'')]" "(request_exchange demo_broker ''sess_1'' body, given) \<in> set pre"
    "approved_in ?mw demo_broker ''sess_1'' i pre" by blast
  with run x2 show ?thesis by blast
qed

theorem cancelled_call_withdraws_witness:
  "\<exists>r w' tr pre ans.
     execute_with_intent (recording (demo_call ''pending'' 3)) demo_arguments (0, []) = Some (r, w', tr) \<and>
     tr = pre @ [(withdrawal demo_broker ''sess_1'' ''req_1'', ans)]"
proof -
  let ?mw = "demo_call ''pending'' 3"
  obtain a where e: "execute_with_intent (recording ?mw) demo_arguments (0, []) =
      execute_validated (recording ?mw) demo_broker ''sess_1'' a (0, [])"
    using demo_run by blast
  let ?body = "lease_request_json (recording ?mw) a (Some [''npm'']) (sha_of (xa_cmd a)) (sha_of [''/work''])"
  obtain r w' tr where run: "execute_with_intent (recording ?mw) demo_arguments (0, []) = Some (r, w', tr)"
    and req: "(request_exchange demo_broker ''sess_1'' ?body, demo_answer ''pending'') \<in> set tr"
    and st: "\<not> approved_in ?mw demo_broker ''sess_1'' ''req_1'' tr" and c: "mw_cancelled ?mw w'"
    unfolding e
    by (simp add: execute_validated_def Let_def after_request_def demo_wait demo_polled second_def
        withdraw_if_cancelled_def demo_request_id cancel_pending_request_def request_exchange_def approved_in_def
        post_exchange_def get_exchange_def)
  have "wb_check_url (mw_web ?mw) u = None" for u by (simp add: demo_web_def)
  then have "\<exists>pre ans. tr = pre @ [(withdrawal demo_broker ''sess_1'' (trim_space ''req_1''), ans)]"
    by (intro cancelled_call_withdraws [OF run demo_transport demo_session [symmetric] req _ st c])
      (simp_all add: demo_request_id)
  with run show ?thesis by (auto simp: demo_request_id)
qed

end
