(* ===== verification/Setup.thy ===== *)
theory Setup
  imports McpServer Startup
begin

text \<open>
  The workspace setup of the command line (\<open>cmd/promptlock/setup.go\<close>) and how later commands find
  it again (\<open>cmd/promptlock/workspace_setup_autodetect.go\<close>): where a workspace keeps its state, the
  configuration and the environment file that are written, bringing the paths of both up to date,
  and reading the exports back. The operating system is a parameter.
\<close>

section \<open>The operating system\<close>

text \<open>
  Paths are resolved by \<open>hs_abs\<close>; \<open>hs_exists\<close> says whether \<open>os.Stat\<close> succeeds. A private file has
  mode 0600, a private directory 0700; each is created and then given its mode. The codec of
  JSON objects and of the configuration are parameters, too.
\<close>

record 'w host =
  hs_env :: "string go_map"
  hs_goos :: string
  hs_getwd :: "'w \<Rightarrow> gerror + string"
  hs_abs :: "string \<Rightarrow> 'w \<Rightarrow> gerror + string"
  hs_home :: "'w \<Rightarrow> gerror + string"
  hs_exists :: "string \<Rightarrow> 'w \<Rightarrow> bool"
  hs_read :: "string \<Rightarrow> 'w \<Rightarrow> gerror + string option"
  hs_write :: "string \<Rightarrow> string \<Rightarrow> 'w \<Rightarrow> gerror option \<times> 'w"
  hs_mkdir_all :: "string \<Rightarrow> 'w \<Rightarrow> gerror option \<times> 'w"
  hs_chmod :: "string \<Rightarrow> int \<Rightarrow> 'w \<Rightarrow> gerror option \<times> 'w"
  hs_random :: "nat \<Rightarrow> 'w \<Rightarrow> (gerror + string) \<times> 'w"
  hs_decode_object :: "string \<Rightarrow> gerror + jval go_map option"
  hs_encode_object :: "jval go_map \<Rightarrow> gerror + string"
  hs_decode_config :: "string \<Rightarrow> config \<Rightarrow> gerror + config"

text \<open>A step that may fail, its error put behind a text.\<close>

definition wrapped :: "string \<Rightarrow> gerror option \<times> 'w \<Rightarrow> (gerror + unit) \<times> 'w" where
  "wrapped what r =
     (case r of
        (None, w) \<Rightarrow> (Inr (), w)
      | (Some e, w) \<Rightarrow> (Inl (Wrapped e (what @ '': '' @ err_msg e)), w))"

definition wrap_error :: "string \<Rightarrow> gerror + 'a \<Rightarrow> gerror + 'a" where
  "wrap_error what r =
     (case r of Inl e \<Rightarrow> Inl (Wrapped e (what @ '': '' @ err_msg e)) | Inr x \<Rightarrow> Inr x)"

definition file_exists :: "'w host \<Rightarrow> string \<Rightarrow> 'w \<Rightarrow> bool" where
  "file_exists sy path w \<longleftrightarrow> trim_space path \<noteq> '''' \<and> hs_exists sy path w"

definition write_private_file :: "'w host \<Rightarrow> string \<Rightarrow> string \<Rightarrow> 'w \<Rightarrow> gerror option \<times> 'w" where
  "write_private_file sy path body w =
     (case hs_write sy path body w of
        (Some e, w) \<Rightarrow> (Some e, w)
      | (None, w) \<Rightarrow> hs_chmod sy path 384 w)"

section \<open>Texts\<close>

definition default_if_empty :: "string \<Rightarrow> string \<Rightarrow> string" where
  "default_if_empty v fallback = (if trim_space v = '''' then fallback else trim_space v)"

definition apostrophe :: char where "apostrophe = CHR 0x27"

text \<open>What an apostrophe becomes inside single quotes of a shell.\<close>

definition apostrophe_quoted :: string where
  "apostrophe_quoted = [apostrophe, CHR 0x5C, apostrophe, apostrophe]"

definition shell_quote :: "string \<Rightarrow> string" where
  "shell_quote v =
     [apostrophe] @ concat (map (\<lambda>c. if c = apostrophe then apostrophe_quoted else [c]) v) @ [apostrophe]"

text \<open>\<open>strings.ReplaceAll\<close> of a non-empty text.\<close>

function replace_text :: "string \<Rightarrow> string \<Rightarrow> string \<Rightarrow> string" where
  "replace_text old new [] = []"
| "replace_text old new (c # cs) =
     (if old \<noteq> '''' \<and> has_prefix (c # cs) old then new @ replace_text old new (drop (length old) (c # cs))
      else c # replace_text old new cs)"
  by pat_completeness auto
termination
  by (relation "measure (\<lambda>(old, new, s). length s)") auto

definition must_port :: "string \<Rightarrow> string" where
  "must_port address =
     (case split_host_port (trim_space address) of None \<Rightarrow> '''' | Some (_, port) \<Rightarrow> port)"

definition docker_bridge_url :: "string \<Rightarrow> string" where
  "docker_bridge_url address =
     (let port = must_port address in
      if port = '''' \<or> port = ''0'' then '''' else ''http://host.docker.internal:'' @ port)"

definition docker_bridge_url_expression :: "string \<Rightarrow> string" where
  "docker_bridge_url_expression address =
     (let port = must_port address in
      if port = '''' \<or> port = ''0'' then '''' else ''http://${PROMPTLOCK_DOCKER_HOST_ALIAS}:'' @ port)"

definition setup_secret_env_name :: "string \<Rightarrow> string" where
  "setup_secret_env_name name = ''PROMPTLOCK_SECRET_'' @ to_upper (trim_space name)"

text \<open>Runs of other runes than letters and digits become one dash.\<close>

fun slug_runes :: "bool \<Rightarrow> string list \<Rightarrow> string" where
  "slug_runes last_dash [] = ''''"
| "slug_runes last_dash (r # rs) =
     (case r of
        [c] \<Rightarrow>
          if (CHR ''a'' \<le> c \<and> c \<le> CHR ''z'') \<or> dec_digit c then c # slug_runes False rs
          else (if last_dash then '''' else ''-'') @ slug_runes True rs
      | _ \<Rightarrow> (if last_dash then '''' else ''-'') @ slug_runes True rs)"

definition trim_dashes :: "string \<Rightarrow> string" where
  "trim_dashes s = rev (dropWhile (\<lambda>c. c = CHR ''-'') (rev (dropWhile (\<lambda>c. c = CHR ''-'') s)))"

definition sanitize_workspace_slug :: "string \<Rightarrow> string" where
  "sanitize_workspace_slug name =
     (let trimmed = to_lower (trim_space name) in
      if trimmed = '''' then ''workspace''
      else let out = trim_dashes (slug_runes False (runes trimmed)) in
        if out = '''' then ''workspace'' else out)"

section \<open>Where a workspace keeps its state\<close>

record setup_options =
  so_state_dir :: string
  so_intent :: string
  so_secret :: string
  so_allow_domain :: string
  so_demo_secret_value :: string
  so_output_mode :: string

record setup_layout =
  sl_workspace_root :: string
  sl_workspace_slug :: string
  sl_workspace_id :: string
  sl_instance_dir :: string
  sl_socket_dir :: string
  sl_config_path :: string
  sl_env_path :: string
  sl_audit_path :: string
  sl_state_store_path :: string
  sl_auth_store_path :: string
  sl_agent_socket_path :: string
  sl_operator_socket_path :: string
  sl_agent_bridge_address :: string

text \<open>The elements of an absolute path, last first: the first that holds a project, or the root.\<close>

fun workspace_root_from :: "'w host \<Rightarrow> 'w \<Rightarrow> string list \<Rightarrow> string" where
  "workspace_root_from sy w [] = path_of True []"
| "workspace_root_from sy w (c # cs) =
     (let current = path_of True (rev (c # cs)) in
      if file_exists sy (path_join [current, ''.git'']) w \<or> file_exists sy (path_join [current, ''go.mod'']) w
      then current else workspace_root_from sy w cs)"

definition detect_workspace_root :: "'w host \<Rightarrow> string \<Rightarrow> 'w \<Rightarrow> gerror + string" where
  "detect_workspace_root sy start w =
     (case hs_abs sy start w of
        Inl e \<Rightarrow> Inl (Wrapped e (''resolve workspace path '' @ start @ '': '' @ err_msg e))
      | Inr p \<Rightarrow> Inr (workspace_root_from sy w (rev (components p))))"

definition promptlock_state_home :: "'w host \<Rightarrow> string \<Rightarrow> 'w \<Rightarrow> gerror + string" where
  "promptlock_state_home sy explicit w =
     (let trimmed = trim_space explicit; xdg = trim_space (getenv (hs_env sy) ''XDG_STATE_HOME'');
          abs = (\<lambda>what p. case hs_abs sy p w of
            Inl e \<Rightarrow> Inl (Wrapped e (what @ p @ '': '' @ err_msg e)) | Inr q \<Rightarrow> Inr (path_clean q))
      in if trimmed \<noteq> '''' then abs ''resolve state dir '' trimmed
         else if xdg \<noteq> '''' then abs ''resolve XDG_STATE_HOME '' xdg
         else case hs_home sy w of
           Inl e \<Rightarrow> Inl (Wrapped e (''resolve home directory for state storage: '' @ err_msg e))
         | Inr home \<Rightarrow> Inr (path_join [home, ''.local'', ''state'']))"

definition workspace_socket_dir :: "string \<Rightarrow> string \<Rightarrow> string \<Rightarrow> string" where
  "workspace_socket_dir goos state_home workspace_id =
     (if equal_fold (trim_space goos) ''windows''
      then path_join [state_home, ''promptlock'', ''sockets'', workspace_id]
      else path_join [''/'', ''tmp'', ''promptlock'', workspace_id])"

definition build_workspace_setup_layout :: "'w host \<Rightarrow> string \<Rightarrow> string \<Rightarrow> 'w \<Rightarrow> gerror + setup_layout" where
  "build_workspace_setup_layout sy cwd state_dir w =
     (if trim_space cwd = '''' then Inl (Plain ''working directory is required'')
      else case detect_workspace_root sy cwd w of
        Inl e \<Rightarrow> Inl e
      | Inr top_dir \<Rightarrow>
     (case promptlock_state_home sy state_dir w of
        Inl e \<Rightarrow> Inl e
      | Inr state_home \<Rightarrow>
          (let slug = sanitize_workspace_slug (path_base top_dir);
               short_hash = take 10 (sha256_hex (path_clean top_dir));
               workspace_id = slug @ ''-'' @ short_hash;
               instance_dir = path_join [state_home, ''promptlock'', ''workspaces'', workspace_id];
               socket_dir = workspace_socket_dir (hs_goos sy) state_home workspace_id
           in Inr \<lparr>sl_workspace_root = top_dir, sl_workspace_slug = slug, sl_workspace_id = workspace_id,
                sl_instance_dir = instance_dir, sl_socket_dir = socket_dir,
                sl_config_path = path_join [instance_dir, ''config.json''],
                sl_env_path = path_join [instance_dir, ''instance.env''],
                sl_audit_path = path_join [instance_dir, ''audit.jsonl''],
                sl_state_store_path = path_join [instance_dir, ''state-store.json''],
                sl_auth_store_path = path_join [instance_dir, ''auth-store.json''],
                sl_agent_socket_path = path_join [socket_dir, ''agent.sock''],
                sl_operator_socket_path = path_join [socket_dir, ''operator.sock''],
                sl_agent_bridge_address = default_agent_bridge_address_for (hs_goos sy)\<rparr>)))"

section \<open>What is written\<close>

definition setup_intent :: "setup_options \<Rightarrow> string" where
  "setup_intent o' = default_if_empty (so_intent o') ''run_tests''"

definition setup_secret :: "setup_options \<Rightarrow> string" where
  "setup_secret o' = default_if_empty (so_secret o') ''github_token''"

definition setup_output_mode :: "setup_options \<Rightarrow> string" where
  "setup_output_mode o' = default_if_empty (so_output_mode o') ''raw''"

definition texts :: "string list \<Rightarrow> jval" where
  "texts ss = JArray (map JText ss)"

definition setup_config_document :: "setup_layout \<Rightarrow> setup_options \<Rightarrow> string \<Rightarrow> jval go_map" where
  "setup_config_document l o' operator_token =
     [(''security_profile'', JText ''hardened''), (''address'', JText ''127.0.0.1:8765''),
      (''agent_unix_socket'', JText (sl_agent_socket_path l)),
      (''operator_unix_socket'', JText (sl_operator_socket_path l)),
      (''audit_path'', JText (sl_audit_path l)),
      (''state_store_file'', JText (sl_state_store_path l)),
      (''state_store'', JMap [(''type'', JText ''file'')]),
      (''auth'', JMap
         [(''enable_auth'', JLogic True), (''operator_token'', JText operator_token),
          (''allow_plaintext_secret_return'', JLogic False),
          (''store_file'', JText (sl_auth_store_path l)),
          (''store_encryption_key_env'', JText ''PROMPTLOCK_AUTH_STORE_KEY'')]),
      (''secret_source'', JMap
         [(''type'', JText ''env''), (''env_prefix'', JText ''PROMPTLOCK_SECRET_''),
          (''in_memory_hardened'', JText ''fail'')]),
      (''execution_policy'', JMap [(''output_security_mode'', JText (setup_output_mode o'))]),
      (''network_egress_policy'', JMap
         [(''enabled'', JLogic True), (''require_intent_match'', JLogic True),
          (''intent_allow_domains'', JMap
             [(setup_intent o', texts [default_if_empty (so_allow_domain o') ''api.github.com''])]),
          (''deny_substrings'',
             texts [''169.254.169.254'', ''metadata.google.internal'', ''localhost'', ''127.0.0.1''])]),
      (''intents'', JMap [(setup_intent o', texts [setup_secret o'])])] @
     (if trim_space (sl_agent_bridge_address l) = '''' then []
      else [(''agent_bridge_address'', JText (sl_agent_bridge_address l))])"

definition build_workspace_setup_config ::
  "'w host \<Rightarrow> setup_layout \<Rightarrow> setup_options \<Rightarrow> string \<Rightarrow> gerror + string" where
  "build_workspace_setup_config sy l o' operator_token =
     (case hs_encode_object sy (setup_config_document l o' operator_token) of
        Inl e \<Rightarrow> Inl (Wrapped e (''marshal setup config: '' @ err_msg e))
      | Inr b \<Rightarrow> Inr (b @ [new_line]))"

definition quotation :: char where "quotation = CHR 0x22"

definition export_line :: "string \<Rightarrow> string \<Rightarrow> string" where
  "export_line name value = ''export '' @ name @ ''='' @ value"

text \<open>The exports of the bridge, with their values as they are written.\<close>

definition bridge_exports :: "setup_layout \<Rightarrow> (string \<times> string) list" where
  "bridge_exports l =
     (if trim_space (sl_agent_bridge_address l) = '''' then []
      else
        [(''PROMPTLOCK_AGENT_BRIDGE_ADDRESS'', shell_quote (sl_agent_bridge_address l)),
         (''PROMPTLOCK_DOCKER_HOST_ALIAS'',
            [quotation] @ ''${PROMPTLOCK_DOCKER_HOST_ALIAS:-host.docker.internal}'' @ [quotation])] @
        (let url = docker_bridge_url_expression (sl_agent_bridge_address l) in
         if url = '''' then []
         else [(''PROMPTLOCK_DOCKER_AGENT_BRIDGE_URL'', [quotation] @ url @ [quotation])]))"

definition build_workspace_setup_env_file ::
  "setup_layout \<Rightarrow> setup_options \<Rightarrow> string \<Rightarrow> string \<Rightarrow> string" where
  "build_workspace_setup_env_file l o' operator_token auth_key =
     join [new_line]
       ([''# Generated by `promptlock setup` for a local hardened Docker quickstart.'',
         ''# This file stays outside the repo so supported config/state do not live in the agent workspace.'',
         ''# Replace the demo secret value before real use.''] @
        map (\<lambda>(n, v). export_line n (shell_quote v))
          [(''PROMPTLOCK_SETUP_WORKSPACE_ROOT'', sl_workspace_root l),
           (''PROMPTLOCK_SETUP_INSTANCE_DIR'', sl_instance_dir l),
           (''PROMPTLOCK_SETUP_SOCKET_DIR'', sl_socket_dir l), (''PROMPTLOCK_CONFIG'', sl_config_path l),
           (''PROMPTLOCK_AGENT_UNIX_SOCKET'', sl_agent_socket_path l),
           (''PROMPTLOCK_OPERATOR_UNIX_SOCKET'', sl_operator_socket_path l),
           (''PROMPTLOCK_OPERATOR_TOKEN'', operator_token), (''PROMPTLOCK_AUTH_STORE_KEY'', auth_key),
           (setup_secret_env_name (setup_secret o'),
            default_if_empty (so_demo_secret_value o') ''demo_github_token_value'')] @
        map (\<lambda>(n, v). export_line n v) (bridge_exports l) @ [''''])"

section \<open>Bringing the paths up to date\<close>

definition set_map_string_value :: "string \<Rightarrow> string \<Rightarrow> jval go_map \<Rightarrow> jval go_map \<times> bool" where
  "set_map_string_value key want doc =
     (let got = (case go_get doc key of Some (JText s) \<Rightarrow> s | _ \<Rightarrow> '''') in
      if got = want then (doc, False) else (go_set doc key (JText want), True))"

text \<open>A document that is \<open>null\<close> has no map to write to, and stays.\<close>

definition refreshed_document :: "setup_layout \<Rightarrow> jval go_map \<Rightarrow> jval go_map \<times> bool" where
  "refreshed_document l doc =
     (case set_map_string_value ''agent_unix_socket'' (sl_agent_socket_path l) doc of (doc, c1) \<Rightarrow>
      case set_map_string_value ''operator_unix_socket'' (sl_operator_socket_path l) doc of (doc, c2) \<Rightarrow>
      case (if trim_space (sl_agent_bridge_address l) \<noteq> ''''
            then set_map_string_value ''agent_bridge_address'' (sl_agent_bridge_address l) doc
            else (go_delete doc ''agent_bridge_address'', go_get doc ''agent_bridge_address'' \<noteq> None)) of
        (doc, c3) \<Rightarrow> (doc, c1 \<or> c2 \<or> c3))"

text \<open>A file that vanished since it was seen to exist cannot be read either.\<close>

definition read_existing_file :: "'w host \<Rightarrow> string \<Rightarrow> string \<Rightarrow> 'w \<Rightarrow> gerror + string" where
  "read_existing_file sy what path w =
     wrap_error (''read existing setup '' @ what @ '' '' @ path)
       (case hs_read sy path w of
          Inl e \<Rightarrow> Inl e
        | Inr None \<Rightarrow> Inl (Plain (''open '' @ path @ '': no such file or directory''))
        | Inr (Some body) \<Rightarrow> Inr body)"

definition refresh_config_paths :: "'w host \<Rightarrow> setup_layout \<Rightarrow> 'w \<Rightarrow> (gerror + bool) \<times> 'w" where
  "refresh_config_paths sy l w =
     (case read_existing_file sy ''config'' (sl_config_path l) w of
        Inl e \<Rightarrow> (Inl e, w)
      | Inr b \<Rightarrow>
     (case wrap_error (''decode existing setup config '' @ sl_config_path l) (hs_decode_object sy b) of
        Inl e \<Rightarrow> (Inl e, w)
      | Inr None \<Rightarrow> (Inr False, w)
      | Inr (Some doc) \<Rightarrow>
     (case refreshed_document l doc of (doc, changed) \<Rightarrow>
        if \<not> changed then (Inr False, w)
        else case wrap_error (''marshal refreshed setup config '' @ sl_config_path l) (hs_encode_object sy doc) of
          Inl e \<Rightarrow> (Inl e, w)
        | Inr updated \<Rightarrow>
            and_then (wrapped (''write refreshed setup config '' @ sl_config_path l)
              (write_private_file sy (sl_config_path l) (updated @ [new_line]) w)) (\<lambda>_ w. (Inr True, w)))))"

definition desired_path_exports :: "setup_layout \<Rightarrow> (string \<times> string) list" where
  "desired_path_exports l =
     [(''PROMPTLOCK_SETUP_SOCKET_DIR'', shell_quote (sl_socket_dir l)),
      (''PROMPTLOCK_CONFIG'', shell_quote (sl_config_path l)),
      (''PROMPTLOCK_AGENT_UNIX_SOCKET'', shell_quote (sl_agent_socket_path l)),
      (''PROMPTLOCK_OPERATOR_UNIX_SOCKET'', shell_quote (sl_operator_socket_path l))] @ bridge_exports l"

definition setup_export_name :: "string \<Rightarrow> string option" where
  "setup_export_name line =
     (let trimmed = trim_space line in
      if \<not> has_prefix trimmed ''export '' then None
      else case cut (trim_prefix trimmed ''export '') (CHR ''='') of
        (name, _, found) \<Rightarrow> if found then Some (trim_space name) else None)"

definition managed_export_names :: "string list" where
  "managed_export_names =
     [''PROMPTLOCK_SETUP_SOCKET_DIR'', ''PROMPTLOCK_CONFIG'', ''PROMPTLOCK_AGENT_UNIX_SOCKET'',
      ''PROMPTLOCK_OPERATOR_UNIX_SOCKET'', ''PROMPTLOCK_AGENT_BRIDGE_ADDRESS'',
      ''PROMPTLOCK_DOCKER_HOST_ALIAS'', ''PROMPTLOCK_DOCKER_AGENT_BRIDGE_URL'']"

text \<open>A line of the file: kept, replaced by the export it should hold, or dropped.\<close>

definition sync_line :: "(string \<times> string) list \<Rightarrow> string \<Rightarrow> string list" where
  "sync_line exports line =
     (case setup_export_name (trim_space line) of
        None \<Rightarrow> [line]
      | Some name \<Rightarrow>
          if name \<notin> set managed_export_names then [line]
          else case map_of (rev exports) name of None \<Rightarrow> [] | Some v \<Rightarrow> [export_line name v])"

definition present_exports :: "string list \<Rightarrow> string list" where
  "present_exports lines = List.map_filter (\<lambda>line. setup_export_name (trim_space line)) lines"

definition sync_setup_export_lines :: "(string \<times> string) list \<Rightarrow> string list \<Rightarrow> string list \<times> bool" where
  "sync_setup_export_lines exports lines =
     (let lines = (if lines = [] then [''''] else lines);
          kept = concat (map (sync_line exports) lines);
          missing = map (\<lambda>(n, v). export_line n v)
            (filter (\<lambda>(n, _). n \<notin> set (present_exports lines) \<or> n \<notin> set managed_export_names) exports);
          cut_at = (if kept \<noteq> [] \<and> last kept = '''' then length kept - 1 else length kept)
      in (take cut_at kept @ missing @ drop cut_at kept, kept \<noteq> lines \<or> missing \<noteq> []))"

definition refresh_env_paths :: "'w host \<Rightarrow> setup_layout \<Rightarrow> 'w \<Rightarrow> (gerror + bool) \<times> 'w" where
  "refresh_env_paths sy l w =
     (case read_existing_file sy ''env file'' (sl_env_path l) w of
        Inl e \<Rightarrow> (Inl e, w)
      | Inr b \<Rightarrow>
     (case sync_setup_export_lines (desired_path_exports l) (split_char new_line b) of (lines, changed) \<Rightarrow>
        if \<not> changed then (Inr False, w)
        else and_then (wrapped (''write refreshed setup env file '' @ sl_env_path l)
          (write_private_file sy (sl_env_path l) (join [new_line] lines) w)) (\<lambda>_ w. (Inr True, w))))"

section \<open>The command\<close>

definition ensure_workspace_socket_dir :: "'w host \<Rightarrow> string \<Rightarrow> 'w \<Rightarrow> (gerror + unit) \<times> 'w" where
  "ensure_workspace_socket_dir sy path w =
     (if trim_space path = '''' then (Inl (Plain ''workspace socket dir is required''), w)
      else and_then (wrapped (''create workspace socket dir '' @ path) (hs_mkdir_all sy path w)) (\<lambda>_ w.
        wrapped (''chmod workspace socket dir '' @ path) (hs_chmod sy path 448 w)))"

definition generate_setup_token :: "'w host \<Rightarrow> string \<Rightarrow> nat \<Rightarrow> 'w \<Rightarrow> (gerror + string) \<times> 'w" where
  "generate_setup_token sy pre n w =
     and_then (hs_random sy n w) (\<lambda>b w. (Inr (pre @ concat (map hex_byte b)), w))"

record setup_result =
  sr_created :: bool
  sr_layout :: setup_layout
  sr_docker_bridge_url :: string
  sr_intent :: string
  sr_secret :: string
  sr_output_mode :: string
  sr_agent_id :: string
  sr_container_id :: string
  sr_task_id :: string
  sr_image :: string

definition new_workspace_setup_result :: "setup_layout \<Rightarrow> setup_options \<Rightarrow> bool \<Rightarrow> setup_result" where
  "new_workspace_setup_result l o' created =
     \<lparr>sr_created = created, sr_layout = l,
      sr_docker_bridge_url = docker_bridge_url (sl_agent_bridge_address l),
      sr_intent = setup_intent o', sr_secret = setup_secret o', sr_output_mode = setup_output_mode o',
      sr_agent_id = sl_workspace_id l @ ''-agent'', sr_container_id = sl_workspace_id l @ ''-container-1'',
      sr_task_id = sl_workspace_id l @ ''-quickstart'', sr_image = ''promptlock-agent-lab''\<rparr>"

definition create_workspace_setup ::
  "'w host \<Rightarrow> setup_layout \<Rightarrow> setup_options \<Rightarrow> 'w \<Rightarrow> (gerror + setup_result) \<times> 'w" where
  "create_workspace_setup sy l o' w =
     and_then (wrapped (''create workspace instance dir '' @ sl_instance_dir l)
       (hs_mkdir_all sy (sl_instance_dir l) w)) (\<lambda>_ w.
     and_then (wrapped (''chmod workspace instance dir '' @ sl_instance_dir l)
       (hs_chmod sy (sl_instance_dir l) 448 w)) (\<lambda>_ w.
     and_then (ensure_workspace_socket_dir sy (sl_socket_dir l) w) (\<lambda>_ w.
     and_then (case generate_setup_token sy ''op_'' 16 w of
       (r, w) \<Rightarrow> (wrap_error ''generate operator token'' r, w)) (\<lambda>operator_token w.
     and_then (case generate_setup_token sy '''' 32 w of
       (r, w) \<Rightarrow> (wrap_error ''generate auth store key'' r, w)) (\<lambda>auth_key w.
     and_then (build_workspace_setup_config sy l o' operator_token, w) (\<lambda>body w.
     and_then (wrapped (''write setup config '' @ sl_config_path l)
       (write_private_file sy (sl_config_path l) body w)) (\<lambda>_ w.
     and_then (wrapped (''write setup env file '' @ sl_env_path l)
       (write_private_file sy (sl_env_path l) (build_workspace_setup_env_file l o' operator_token auth_key) w))
       (\<lambda>_ w. (Inr (new_workspace_setup_result l o' True), w)))))))))"

definition ensure_workspace_setup ::
  "'w host \<Rightarrow> string \<Rightarrow> setup_options \<Rightarrow> 'w \<Rightarrow> (gerror + setup_result) \<times> 'w" where
  "ensure_workspace_setup sy cwd o' w =
     (case build_workspace_setup_layout sy cwd (so_state_dir o') w of
        Inl e \<Rightarrow> (Inl e, w)
      | Inr l \<Rightarrow>
          (let config_exists = file_exists sy (sl_config_path l) w;
               env_exists = file_exists sy (sl_env_path l) w;
               other = (file_exists sy (sl_auth_store_path l) w \<or> file_exists sy (sl_state_store_path l) w \<or>
                 file_exists sy (sl_audit_path l) w)
           in if config_exists \<and> env_exists then
                and_then (ensure_workspace_socket_dir sy (sl_socket_dir l) w) (\<lambda>_ w.
                and_then (refresh_config_paths sy l w) (\<lambda>_ w.
                and_then (refresh_env_paths sy l w) (\<lambda>_ w.
                  (Inr (new_workspace_setup_result l o' False), w))))
              else if config_exists \<or> env_exists \<or> other then
                (Inl (Plain (''incomplete existing workspace setup under '' @ sl_instance_dir l @
                   ''; remove it manually before re-running promptlock setup'')), w)
              else create_workspace_setup sy l o' w))"

section \<open>Finding the setup again\<close>

definition detect_workspace_setup_layout :: "'w host \<Rightarrow> 'w \<Rightarrow> setup_layout option" where
  "detect_workspace_setup_layout sy w =
     (case hs_getwd sy w of
        Inl _ \<Rightarrow> None
      | Inr cwd \<Rightarrow>
          (case build_workspace_setup_layout sy cwd '''' w of
             Inl _ \<Rightarrow> None
           | Inr l \<Rightarrow>
               if file_exists sy (sl_config_path l) w \<and> file_exists sy (sl_env_path l) w then Some l else None))"

definition resolved_setup_config_path :: "'w host \<Rightarrow> string \<Rightarrow> 'w \<Rightarrow> string" where
  "resolved_setup_config_path sy explicit w =
     (if trim_space explicit \<noteq> '''' then trim_space explicit
      else case detect_workspace_setup_layout sy w of None \<Rightarrow> '''' | Some l \<Rightarrow> sl_config_path l)"

definition load_workspace_setup_config :: "'w host \<Rightarrow> string \<Rightarrow> 'w \<Rightarrow> config option" where
  "load_workspace_setup_config sy path w =
     (let trimmed = trim_space path in
      if trimmed = '''' then None
      else case load_config (hs_decode_config sy) (hs_goos sy) trimmed (hs_read sy trimmed w) of
        Inl _ \<Rightarrow> None
      | Inr c \<Rightarrow> Some c)"

datatype broker_role = RoleAgent | RoleOperator

definition workspace_setup_broker_socket :: "'w host \<Rightarrow> broker_role \<Rightarrow> string \<Rightarrow> 'w \<Rightarrow> string" where
  "workspace_setup_broker_socket sy role config_path w =
     (case load_workspace_setup_config sy (resolved_setup_config_path sy config_path w) w of
        None \<Rightarrow> ''''
      | Some c \<Rightarrow>
          (let own = trim_space (case role of
                 RoleOperator \<Rightarrow> cf_operator_unix_socket c | RoleAgent \<Rightarrow> cf_agent_unix_socket c)
           in if own \<noteq> '''' then own else trim_space (cf_unix_socket c)))"

definition default_operator_token :: "'w host \<Rightarrow> 'w \<Rightarrow> string" where
  "default_operator_token sy w =
     (let token = trim_space (getenv (hs_env sy) ''PROMPTLOCK_OPERATOR_TOKEN'') in
      if token \<noteq> '''' then token
      else case load_workspace_setup_config sy
          (resolved_setup_config_path sy (getenv (hs_env sy) ''PROMPTLOCK_CONFIG'') w) w of
        None \<Rightarrow> ''''
      | Some c \<Rightarrow> trim_space (ac_operator_token (cf_auth c)))"

definition workspace_setup_env_file_path :: "'w host \<Rightarrow> string \<Rightarrow> 'w \<Rightarrow> string" where
  "workspace_setup_env_file_path sy config_path w =
     (let trimmed = trim_space config_path in
      if trimmed \<noteq> '''' then path_join [path_dir trimmed, ''instance.env'']
      else case detect_workspace_setup_layout sy w of None \<Rightarrow> '''' | Some l \<Rightarrow> sl_env_path l)"

definition unquoted :: "string \<Rightarrow> string" where
  "unquoted s = take (length s - 2) (tl s)"

definition parse_setup_export_value :: "string \<Rightarrow> string option" where
  "parse_setup_export_value raw =
     (let trimmed = trim_space raw in
      if trimmed = '''' then Some ''''
      else if has_prefix trimmed [apostrophe] \<and> has_suffix trimmed [apostrophe] \<and> 2 \<le> length trimmed
      then Some (replace_text apostrophe_quoted [apostrophe] (unquoted trimmed))
      else if has_prefix trimmed [quotation] \<and> has_suffix trimmed [quotation] \<and> 2 \<le> length trimmed
      then (if contains (unquoted trimmed) ''${'' then None else Some (unquoted trimmed))
      else if contains_any trimmed ''$`'' then None else Some trimmed)"

definition parse_setup_export_line :: "string \<Rightarrow> (string \<times> string) option" where
  "parse_setup_export_line line =
     (case setup_export_name (trim_space line) of
        None \<Rightarrow> None
      | Some name \<Rightarrow>
          (case cut (trim_prefix (trim_space line) ''export '') (CHR ''='') of
             (_, raw, found) \<Rightarrow>
               if \<not> found then None
               else case parse_setup_export_value raw of None \<Rightarrow> None | Some v \<Rightarrow> Some (name, v)))"

text \<open>The exports of a file; a later line overrides an earlier one.\<close>

definition setup_exports :: "string \<Rightarrow> string go_map" where
  "setup_exports body =
     fold (\<lambda>line m. case parse_setup_export_line line of None \<Rightarrow> m | Some (n, v) \<Rightarrow> go_set m n v)
       (split_char new_line body) []"

definition load_setup_env_exports :: "'w host \<Rightarrow> string \<Rightarrow> 'w \<Rightarrow> string go_map" where
  "load_setup_env_exports sy config_path w =
     (let path = workspace_setup_env_file_path sy config_path w in
      if trim_space path = '''' then []
      else case hs_read sy path w of
        Inr (Some body) \<Rightarrow> setup_exports body
      | _ \<Rightarrow> [])"

text \<open>
  The process environment completed by the exports: a variable with a value is kept. The order of
  the exports is that of a Go map; the model takes that of the file.
\<close>

definition merge_missing_env :: "string list \<Rightarrow> string go_map \<Rightarrow> string list" where
  "merge_missing_env env exports =
     (let seen = fold (\<lambda>kv m. case cut kv (CHR ''='') of
            (n, v, found) \<Rightarrow> if found then go_set m (trim_space n) (trim_space v \<noteq> '''') else m) env []
      in env @ map (\<lambda>(n, v). n @ ''='' @ v) (filter (\<lambda>(n, _). go_get seen n \<noteq> Some True) exports))"

section \<open>What is written is read back\<close>

lemma has_prefix_first: "has_prefix (a # u) w \<Longrightarrow> w \<noteq> [] \<Longrightarrow> a \<in> set w"
  by (cases w) (auto simp: has_prefix_def)

lemma trim_edges:
  assumes "list_all (\<lambda>w. a \<notin> set w \<and> b \<notin> set w) space_runes"
  shows "trim_space (a # m @ [b]) = a # m @ [b]"
proof -
  have "leading_rune space_runes (a # m @ [b]) = None"
    using assms by (auto simp: leading_rune_None list_all_iff dest: has_prefix_first)
  moreover have "leading_rune (map rev space_runes) (b # rev m @ [a]) = None"
    using assms by (auto simp: leading_rune_None list_all_iff dest: has_prefix_first)
  ultimately show ?thesis by (simp add: trim_space_def trim_left_def trim_right_def trim_runes_None)
qed

lemma no_space_edges:
  "list_all (\<lambda>w. CHR ''e'' \<notin> set w \<and> apostrophe \<notin> set w) space_runes"
  "list_all (\<lambda>w. CHR ''e'' \<notin> set w \<and> quotation \<notin> set w) space_runes"
  "list_all (\<lambda>w. apostrophe \<notin> set w \<and> apostrophe \<notin> set w) space_runes"
  "list_all (\<lambda>w. quotation \<notin> set w \<and> quotation \<notin> set w) space_runes"
  by code_simp+

lemma trim_quoted [simp]:
  "trim_space (apostrophe # m @ [apostrophe]) = apostrophe # m @ [apostrophe]"
  "trim_space (quotation # m @ [quotation]) = quotation # m @ [quotation]"
  by (rule trim_edges, rule no_space_edges)+

lemma trim_export:
  "trim_space (export_line n (apostrophe # m @ [apostrophe])) = export_line n (apostrophe # m @ [apostrophe])"
  "trim_space (export_line n (quotation # m @ [quotation])) = export_line n (quotation # m @ [quotation])"
  using trim_edges [OF no_space_edges(1), of "''xport '' @ n @ ''='' @ apostrophe # m"]
    trim_edges [OF no_space_edges(2), of "''xport '' @ n @ ''='' @ quotation # m"]
  by (simp_all add: export_line_def)

text \<open>Unquoting what was quoted for the shell.\<close>

lemma replace_skip: "c \<noteq> apostrophe \<Longrightarrow>
    replace_text apostrophe_quoted new (c # s) = c # replace_text apostrophe_quoted new s"
  by (simp add: has_prefix_def apostrophe_quoted_def)

lemma replace_match: "replace_text apostrophe_quoted new (apostrophe_quoted @ s) = new @ replace_text apostrophe_quoted new s"
  by (simp add: has_prefix_def apostrophe_quoted_def)

lemma replace_quoted:
  "replace_text apostrophe_quoted [apostrophe]
     (concat (map (\<lambda>c. if c = apostrophe then apostrophe_quoted else [c]) v)) = v"
  by (induction v) (simp_all add: replace_skip replace_match del: replace_text.simps(2))

lemma shell_quote_shape: "\<exists>m. shell_quote v = apostrophe # m @ [apostrophe]"
  by (simp add: shell_quote_def)

lemma value_round_trip: "parse_setup_export_value (shell_quote v) = Some v"
proof -
  let ?m = "concat (map (\<lambda>c. if c = apostrophe then apostrophe_quoted else [c]) v)"
  have q: "shell_quote v = apostrophe # ?m @ [apostrophe]" by (simp add: shell_quote_def)
  have "unquoted (apostrophe # ?m @ [apostrophe]) = ?m" by (simp add: unquoted_def)
  moreover have "has_prefix (apostrophe # ?m @ [apostrophe]) [apostrophe]"
    "has_suffix (apostrophe # ?m @ [apostrophe]) [apostrophe]"
    by (simp_all add: has_prefix_def has_suffix_def)
  ultimately show ?thesis unfolding q parse_setup_export_value_def Let_def trim_quoted
    by (simp add: replace_quoted)
qed

text \<open>A name of an export: it is trimmed, and has no blank or equals sign.\<close>

definition export_name :: "string \<Rightarrow> bool" where
  "export_name n \<longleftrightarrow> trim_space n = n \<and> CHR ''='' \<notin> set n"

lemma cut_export:
  "CHR ''='' \<notin> set n \<Longrightarrow>
     cut (trim_prefix (export_line n v) ''export '') (CHR ''='') = (n, v, True)"
  by (simp add: export_line_def trim_prefix_def has_prefix_def cut_found)

lemma prefix_export: "has_prefix (export_line n v) ''export ''"
  by (simp add: export_line_def has_prefix_def)

lemma name_of_export:
  assumes "export_name n" "trim_space (export_line n v) = export_line n v"
  shows "setup_export_name (export_line n v) = Some n"
  using assms by (simp add: setup_export_name_def cut_export prefix_export export_name_def Let_def)

lemma line_round_trip:
  assumes "export_name n"
  shows "parse_setup_export_line (export_line n (shell_quote v)) = Some (n, v)"
proof -
  obtain m where "shell_quote v = apostrophe # m @ [apostrophe]" using shell_quote_shape by blast
  then have t: "trim_space (export_line n (shell_quote v)) = export_line n (shell_quote v)"
    by (simp add: trim_export)
  show ?thesis using assms value_round_trip [of v]
    by (simp add: parse_setup_export_line_def t name_of_export cut_export export_name_def)
qed

lemma exports_get:
  assumes "\<And>line x. line \<in> set ls \<Longrightarrow> parse_setup_export_line line = Some (n, x) \<Longrightarrow> x = v"
    and "(\<exists>line\<in>set ls. parse_setup_export_line line = Some (n, v)) \<or> go_get m n = Some v"
  shows "go_get (fold (\<lambda>line m. case parse_setup_export_line line of None \<Rightarrow> m | Some (n, v) \<Rightarrow> go_set m n v) ls m) n
    = Some v"
  using assms
proof (induction ls arbitrary: m)
  case (Cons line ls)
  let ?m = "case parse_setup_export_line line of None \<Rightarrow> m | Some (n, v) \<Rightarrow> go_set m n v"
  have "(\<exists>line\<in>set ls. parse_setup_export_line line = Some (n, v)) \<or> go_get ?m n = Some v"
    using Cons.prems(2) Cons.prems(1) [of line] by (auto split: option.split)
  then show ?case using Cons.IH [of ?m] Cons.prems(1) by auto
qed simp

lemma parsed_name: "parse_setup_export_line line = Some (n, v) \<Longrightarrow> setup_export_name (trim_space line) = Some n"
  by (auto simp: parse_setup_export_line_def split: option.splits prod.splits if_splits)

definition quoted_value :: "string \<Rightarrow> bool" where
  "quoted_value v \<longleftrightarrow> (\<exists>m. v = apostrophe # m @ [apostrophe]) \<or> (\<exists>m. v = quotation # m @ [quotation])"

lemma trim_export_quoted: "quoted_value v \<Longrightarrow> trim_space (export_line n v) = export_line n v"
  by (auto simp: quoted_value_def trim_export)

text \<open>The exports that setup manages: different names, and quoted values.\<close>

lemma managed_names_ok: "list_all export_name managed_export_names"
  by code_simp

lemma desired_names: "set (map fst (desired_path_exports l)) \<subseteq> set managed_export_names"
  by (auto simp: desired_path_exports_def bridge_exports_def managed_export_names_def Let_def)

lemma desired_distinct: "distinct (map fst (desired_path_exports l))"
  by (simp add: desired_path_exports_def bridge_exports_def Let_def)

lemma desired_quoted: "(n, v) \<in> set (desired_path_exports l) \<Longrightarrow> quoted_value v"
  using shell_quote_shape
  by (auto simp: desired_path_exports_def bridge_exports_def quoted_value_def Let_def split: if_splits)

lemma desired_map: "map_of (rev (desired_path_exports l)) n = Some v \<longleftrightarrow> (n, v) \<in> set (desired_path_exports l)"
proof -
  have "distinct (map fst (rev (desired_path_exports l)))"
    using desired_distinct by (simp add: rev_map [symmetric])
  then show ?thesis by (simp add: map_of_eq_Some_iff)
qed

lemma synced_line:
  assumes "line' \<in> set (sync_line (desired_path_exports l) line)"
    and "setup_export_name (trim_space line') = Some n" "n \<in> set managed_export_names"
  shows "\<exists>v. line' = export_line n v \<and> (n, v) \<in> set (desired_path_exports l)"
proof (cases "setup_export_name (trim_space line)")
  case None
  with assms show ?thesis by (simp add: sync_line_def)
next
  case (Some k)
  show ?thesis
  proof (cases "k \<in> set managed_export_names")
    case False
    with assms Some show ?thesis by (simp add: sync_line_def)
  next
    case True
    with assms(1) Some obtain v where "line' = export_line k v" "go_get (rev (desired_path_exports l)) k = Some v"
      by (cases "go_get (rev (desired_path_exports l)) k") (simp_all add: sync_line_def)
    then have v: "line' = export_line k v" "(k, v) \<in> set (desired_path_exports l)"
      by (simp_all only: desired_map)
    have "export_name k" using True managed_names_ok by (simp add: list_all_iff)
    then have "setup_export_name (trim_space line') = Some k"
      using v by (simp add: trim_export_quoted desired_quoted name_of_export)
    with assms(2) v show ?thesis by auto
  qed
qed

lemma sync_line_cases:
  assumes "x \<in> set (sync_line (desired_path_exports l) line)"
  shows "x = line \<or> (\<exists>k y. x = export_line k y \<and> (k, y) \<in> set (desired_path_exports l))"
proof (cases "setup_export_name (trim_space line)")
  case None
  with assms show ?thesis by (simp add: sync_line_def)
next
  case (Some k)
  show ?thesis
  proof (cases "go_get (rev (desired_path_exports l)) k")
    case (Some y)
    with assms \<open>setup_export_name (trim_space line) = Some k\<close> desired_map [of l k y] show ?thesis
      by (auto simp: sync_line_def split: if_splits)
  qed (use assms Some in \<open>auto simp: sync_line_def split: if_splits\<close>)
qed

lemma synced_lines:
  assumes "line' \<in> set (fst (sync_setup_export_lines exports lines))" "lines \<noteq> []"
  shows "(\<exists>line\<in>set lines. line' \<in> set (sync_line exports line)) \<or>
    (\<exists>(n, v)\<in>set exports. line' = export_line n v)"
  using assms by (auto simp: sync_setup_export_lines_def Let_def dest!: in_set_takeD in_set_dropD)

lemma synced_present:
  assumes "(n, v) \<in> set (desired_path_exports l)" "lines \<noteq> []"
  shows "export_line n v \<in> set (fst (sync_setup_export_lines (desired_path_exports l) lines))"
proof -
  let ?kept = "concat (map (sync_line (desired_path_exports l)) lines)"
  have m: "n \<in> set managed_export_names" using assms(1) desired_names [of l] by force
  have all: "set xs = set (take k xs) \<union> set (drop k xs)" for k and xs :: "string list"
    by (metis append_take_drop_id set_append)
  show ?thesis
  proof (cases "n \<in> set (present_exports lines)")
    case True
    then obtain line where line: "line \<in> set lines" "setup_export_name (trim_space line) = Some n"
      by (auto simp: present_exports_def map_filter_def)
    have "export_line n v \<in> set (sync_line (desired_path_exports l) line)"
      using line(2) m assms(1) desired_map [of l n v] by (simp add: sync_line_def)
    with line(1) have "export_line n v \<in> set ?kept" by auto
    with all [of ?kept] assms(2) show ?thesis
      by (auto simp: sync_setup_export_lines_def Let_def)
  next
    case False
    with assms(1) have "export_line n v \<in> set (map (\<lambda>(n, v). export_line n v)
        (filter (\<lambda>(n, _). n \<notin> set (present_exports lines) \<or> n \<notin> set managed_export_names)
          (desired_path_exports l)))"
      by force
    with assms(2) show ?thesis by (auto simp: sync_setup_export_lines_def Let_def)
  qed
qed

definition path_values :: "setup_layout \<Rightarrow> string go_map" where
  "path_values l =
     [(''PROMPTLOCK_SETUP_SOCKET_DIR'', sl_socket_dir l), (''PROMPTLOCK_CONFIG'', sl_config_path l),
      (''PROMPTLOCK_AGENT_UNIX_SOCKET'', sl_agent_socket_path l),
      (''PROMPTLOCK_OPERATOR_UNIX_SOCKET'', sl_operator_socket_path l)]"

lemma path_values_desired: "(n, v) \<in> set (path_values l) \<Longrightarrow> (n, shell_quote v) \<in> set (desired_path_exports l)"
  by (auto simp: path_values_def desired_path_exports_def)

text \<open>
  C35: an environment file that is brought up to date gives the current paths to every later
  command: whatever was in the file, reading the exports of the result finds the directory of the
  sockets, the configuration and both sockets as the layout has them, characters special to the
  shell included. The values written must fit a line.
\<close>

theorem refreshed_env_file_reads_back:
  assumes "(n, v) \<in> set (path_values l)"
    and "\<forall>(k, x)\<in>set (desired_path_exports l). new_line \<notin> set x"
  shows "go_get (setup_exports
      (join [new_line] (fst (sync_setup_export_lines (desired_path_exports l) (split_char new_line body))))) n = Some v"
proof -
  let ?e = "desired_path_exports l" and ?lines = "split_char new_line body"
  let ?out = "fst (sync_setup_export_lines ?e ?lines)"
  have e: "(n, shell_quote v) \<in> set ?e" by (rule path_values_desired [OF assms(1)])
  have m: "n \<in> set managed_export_names" using e desired_names [of l] by force
  have named: "export_name k" if "k \<in> set managed_export_names" for k
    using that managed_names_ok by (simp add: list_all_iff)
  have here: "export_line n (shell_quote v) \<in> set ?out" by (rule synced_present [OF e]) simp
  have flat: "new_line \<notin> set (export_line k x)" if "(k, x) \<in> set ?e" for k x
  proof -
    have "k \<in> set managed_export_names" using that desired_names [of l] by force
    then have "new_line \<notin> set k" by (auto simp: managed_export_names_def new_line_def)
    with that assms(2) show ?thesis by (auto simp: export_line_def new_line_def)
  qed
  have lines: "\<forall>x\<in>set ?out. new_line \<notin> set x"
  proof
    fix x assume "x \<in> set ?out"
    from synced_lines [OF this split_char_nonempty] show "new_line \<notin> set x"
    proof (elim disjE bexE)
      fix line assume line: "line \<in> set ?lines" and x: "x \<in> set (sync_line ?e line)"
      have "x = line \<or> (\<exists>k y. x = export_line k y \<and> (k, y) \<in> set ?e)"
        by (rule sync_line_cases [OF x])
      with line flat show ?thesis using split_char_no_sep by blast
    qed (auto simp: flat)
  qed
  have s: "split_char new_line (join [new_line] ?out) = ?out"
    by (rule split_char_join) (use here lines in auto)
  have one: "x = v" if line: "line \<in> set ?out" "parse_setup_export_line line = Some (n, x)" for line x
  proof -
    have "\<exists>y. line = export_line n y \<and> (n, y) \<in> set ?e"
      using synced_lines [OF line(1) split_char_nonempty]
    proof (elim disjE bexE)
      fix old assume "line \<in> set (sync_line ?e old)"
      from synced_line [OF this parsed_name [OF line(2)] m] show ?thesis .
    next
      fix p assume p: "p \<in> set ?e" "case p of (k, y) \<Rightarrow> line = export_line k y"
      then obtain k y where k: "(k, y) \<in> set ?e" "line = export_line k y" by (cases p) auto
      then have "k \<in> set managed_export_names" using desired_names [of l] by force
      then have "setup_export_name (trim_space line) = Some k"
        using k by (simp add: trim_export_quoted desired_quoted name_of_export named)
      with parsed_name [OF line(2)] k show ?thesis by auto
    qed
    then obtain y where y: "line = export_line n y" "(n, y) \<in> set ?e" by blast
    with e have "y = shell_quote v" using desired_map [of l n] by (metis option.inject)
    with y(1) line(2) line_round_trip [OF named [OF m], of v] show ?thesis by simp
  qed
  show ?thesis unfolding setup_exports_def s
    by (rule exports_get) (use one here line_round_trip [OF named [OF m]] in blast)+
qed

definition demo_layout :: setup_layout where
  "demo_layout =
     \<lparr>sl_workspace_root = ''/w'', sl_workspace_slug = ''w'', sl_workspace_id = ''w-1'', sl_instance_dir = ''/s'',
      sl_socket_dir = ''/tmp/it'' @ [apostrophe] @ ''s'', sl_config_path = ''/s/config.json'', sl_env_path = ''/s/instance.env'',
      sl_audit_path = ''/s/audit.jsonl'', sl_state_store_path = ''/s/state-store.json'',
      sl_auth_store_path = ''/s/auth-store.json'', sl_agent_socket_path = ''/tmp/a.sock'',
      sl_operator_socket_path = ''/tmp/o.sock'', sl_agent_bridge_address = ''127.0.0.1:0''\<rparr>"

theorem refreshed_env_file_reads_back_witness:
  "go_get (setup_exports (join [new_line] (fst (sync_setup_export_lines (desired_path_exports demo_layout)
     (split_char new_line (export_line ''PROMPTLOCK_SETUP_SOCKET_DIR'' ''old'')))))) ''PROMPTLOCK_SETUP_SOCKET_DIR'' =
     Some (''/tmp/it'' @ [apostrophe] @ ''s'')"
proof (rule refreshed_env_file_reads_back)
  show "(''PROMPTLOCK_SETUP_SOCKET_DIR'', ''/tmp/it'' @ [apostrophe] @ ''s'') \<in> set (path_values demo_layout)"
    by (simp add: path_values_def demo_layout_def)
  show "\<forall>(k, x)\<in>set (desired_path_exports demo_layout). new_line \<notin> set x" by code_simp
qed

end
