(* ===== verification/WatchText.thy ===== *)
theory WatchText
  imports GoStrings
begin

text \<open>
  The text of a request as the command line shows it to the operator: escaping what a terminal
  would obey (\<open>cmd/promptlock/common.go\<close>), shortening and summaries
  (\<open>cmd/promptlock/watch_present.go\<close>). The text comes from agents; the lemmas show that what is
  shown has no control character and a bounded length.
\<close>

section \<open>Escaping\<close>

text \<open>The code point of a rune that is given by its encoding.\<close>

definition rune_value :: "string \<Rightarrow> nat" where
  "rune_value r =
     (case r of
        [a] \<Rightarrow> byte a
      | [a, b] \<Rightarrow> (byte a mod 32) * 64 + byte b mod 64
      | [a, b, c] \<Rightarrow> ((byte a mod 16) * 64 + byte b mod 64) * 64 + byte c mod 64
      | [a, b, c, d] \<Rightarrow> (((byte a mod 8) * 64 + byte b mod 64) * 64 + byte c mod 64) * 64 + byte d mod 64
      | _ \<Rightarrow> 0)"

function show_hex :: "nat \<Rightarrow> string" where
  "show_hex n = (if n < 16 then [hex_digit n] else show_hex (n div 16) @ [hex_digit (n mod 16)])"
  by pat_completeness auto
termination
  by (relation "measure id") auto

declare show_hex.simps [simp del]

text \<open>The verb \<open>%04x\<close>.\<close>

definition hex4 :: "nat \<Rightarrow> string" where
  "hex4 n = (let h = show_hex n in replicate (4 - length h) (CHR ''0'') @ h)"

text \<open>
  \<open>unicode.IsPrint\<close>: exact up to \<open>U+00FF\<close>; the tables of the runes above are a parameter.
\<close>

definition is_print :: "(string \<Rightarrow> bool) \<Rightarrow> string \<Rightarrow> bool" where
  "is_print up r =
     (case r of
        [c] \<Rightarrow> 0x20 \<le> byte c \<and> byte c < 0x7F
      | [c, d] \<Rightarrow>
          if byte c = 0xC2 then 0xA0 < byte d \<and> byte d \<noteq> 0xAD else if byte c = 0xC3 then True else up r
      | _ \<Rightarrow> up r)"

definition escape_rune :: "(string \<Rightarrow> bool) \<Rightarrow> string \<Rightarrow> string" where
  "escape_rune up r =
     (if r = [CHR 0x0A] then [CHR 0x5C, CHR ''n'']
      else if r = [CHR 0x0D] then [CHR 0x5C, CHR ''r'']
      else if r = [CHR 0x09] then [CHR 0x5C, CHR ''t'']
      else if length r = 1 \<and> (byte (hd r) < 0x20 \<or> byte (hd r) = 0x7F)
      then [CHR 0x5C, CHR ''x''] @ hex_byte (hd r)
      else if \<not> is_print up r then [CHR 0x5C, CHR ''u''] @ hex4 (rune_value r)
      else r)"

definition sanitize_terminal_text :: "(string \<Rightarrow> bool) \<Rightarrow> string \<Rightarrow> string" where
  "sanitize_terminal_text up value = concat (map (escape_rune up) (runes value))"

text \<open>The same function under a second name.\<close>

definition sanitize_watch_text :: "(string \<Rightarrow> bool) \<Rightarrow> string \<Rightarrow> string" where
  "sanitize_watch_text up value = concat (map (escape_rune up) (runes value))"

definition watch_trim_and_sanitize :: "(string \<Rightarrow> bool) \<Rightarrow> string \<Rightarrow> string" where
  "watch_trim_and_sanitize up value = sanitize_watch_text up (trim_space value)"

section \<open>Shortening\<close>

definition watch_detail_value_limit :: int where "watch_detail_value_limit = 96"
definition watch_summary_value_limit :: int where "watch_summary_value_limit = 56"
definition watch_id_short_limit :: nat where "watch_id_short_limit = 24"
definition watch_secrets_preview_max :: nat where "watch_secrets_preview_max = 2"

definition watch_join_sanitized :: "(string \<Rightarrow> bool) \<Rightarrow> string list \<Rightarrow> string" where
  "watch_join_sanitized up values =
     (if values = [] then ''(none)'' else join '', '' (map (watch_trim_and_sanitize up) values))"

definition watch_truncate :: "string \<Rightarrow> int \<Rightarrow> string" where
  "watch_truncate value limit =
     (if limit \<le> 0 then ''''
      else let rs = runes value in
        if int (length rs) \<le> limit then value
        else if limit \<le> 3 then concat (take (nat limit) rs)
        else concat (take (nat limit - 3) rs) @ ''...'')"

definition watch_short_id :: "(string \<Rightarrow> bool) \<Rightarrow> string \<Rightarrow> string" where
  "watch_short_id up value =
     (let safe = watch_trim_and_sanitize up value; rs = runes safe in
      if length rs \<le> watch_id_short_limit then safe
      else concat (take 14 rs) @ ''...'' @ concat (drop (length rs - 8) rs))"

definition watch_display_value :: "(string \<Rightarrow> bool) \<Rightarrow> string \<Rightarrow> string" where
  "watch_display_value up value = watch_truncate (watch_trim_and_sanitize up value) watch_detail_value_limit"

definition watch_summary_value :: "(string \<Rightarrow> bool) \<Rightarrow> string \<Rightarrow> string" where
  "watch_summary_value up value = watch_truncate (watch_trim_and_sanitize up value) watch_summary_value_limit"

section \<open>Summaries\<close>

text \<open>A request as the broker lists it.\<close>

record pending_item =
  pi_id :: string
  pi_agent_id :: string
  pi_task_id :: string
  pi_intent :: string
  pi_reason :: string
  pi_ttl_minutes :: int
  pi_secrets :: "string list"
  pi_command_fingerprint :: string
  pi_workdir_fingerprint :: string
  pi_command_summary :: string
  pi_workdir_summary :: string
  pi_env_path :: string
  pi_env_path_canonical :: string

text \<open>A part of a summary, left out when the value is empty.\<close>

definition labelled :: "string \<Rightarrow> string \<Rightarrow> string list" where
  "labelled label value = (if value = '''' then [] else [label @ value])"

definition watch_request_context_parts :: "(string \<Rightarrow> bool) \<Rightarrow> pending_item \<Rightarrow> string list" where
  "watch_request_context_parts up it =
     labelled ''command='' (watch_summary_value up (pi_command_summary it)) @
     labelled ''workdir='' (watch_summary_value up (pi_workdir_summary it)) @
     labelled ''env_path='' (watch_summary_value up (pi_env_path it)) @
     labelled ''reason='' (watch_summary_value up (pi_reason it))"

definition watch_queue_summary :: "(string \<Rightarrow> bool) \<Rightarrow> pending_item \<Rightarrow> string" where
  "watch_queue_summary up it =
     join '' | ''
       ([watch_short_id up (pi_id it), ''agent='' @ watch_summary_value up (pi_agent_id it),
         ''task='' @ watch_summary_value up (pi_task_id it)] @ watch_request_context_parts up it)"

definition watch_secrets_summary :: "(string \<Rightarrow> bool) \<Rightarrow> string list \<Rightarrow> string" where
  "watch_secrets_summary up values =
     (let safe = filter (\<lambda>v. v \<noteq> '''') (map (watch_summary_value up) values);
          parts = take watch_secrets_preview_max safe
      in if parts = [] then ''''
         else join '', '' parts @
           (if length parts < length safe
            then '', +'' @ itoa (int (length safe - length parts)) @ '' more'' else ''''))"

definition watch_decision_summary :: "(string \<Rightarrow> bool) \<Rightarrow> pending_item \<Rightarrow> string" where
  "watch_decision_summary up it =
     (let parts = labelled ''task='' (watch_summary_value up (pi_task_id it)) @
            watch_request_context_parts up it @
            labelled ''secrets='' (watch_secrets_summary up (pi_secrets it));
          parts = (if parts = [] then labelled ''agent='' (watch_summary_value up (pi_agent_id it)) else parts)
      in if parts = [] then ''pending request'' else join '' | '' parts)"

datatype watch_action = ActionApprove | ActionDeny

fun watch_action_text :: "watch_action \<Rightarrow> string" where
  "watch_action_text ActionApprove = ''approve''"
| "watch_action_text ActionDeny = ''deny''"

fun watch_action_past_tense :: "watch_action \<Rightarrow> string" where
  "watch_action_past_tense ActionApprove = ''approved''"
| "watch_action_past_tense ActionDeny = ''denied''"

definition watch_action_pending_message :: "(string \<Rightarrow> bool) \<Rightarrow> watch_action \<Rightarrow> pending_item \<Rightarrow> string" where
  "watch_action_pending_message up action it =
     (let summary = watch_decision_summary up it in
      if summary = '''' then watch_action_text action @ '' pending''
      else watch_action_text action @ '' pending: '' @ summary)"

definition watch_action_status_message :: "(string \<Rightarrow> bool) \<Rightarrow> watch_action \<Rightarrow> pending_item \<Rightarrow> string" where
  "watch_action_status_message up action it =
     (let summary = watch_decision_summary up it in
      if summary = '''' then watch_action_past_tense action
      else watch_action_past_tense action @ '': '' @ summary)"

section \<open>Safe text\<close>

text \<open>Text made of well-formed runes none of which is a control character.\<close>

definition plain_rune :: "string \<Rightarrow> bool" where
  "plain_rune r \<longleftrightarrow> rune_ok r \<and> \<not> is_control_rune r"

definition safe_text :: "string \<Rightarrow> bool" where
  "safe_text s \<longleftrightarrow> (\<exists>rs. s = concat rs \<and> list_all plain_rune rs)"

lemma safe_text_runes: "safe_text s \<longleftrightarrow> valid_utf8 s \<and> list_all plain_rune (runes s)"
proof
  assume "safe_text s"
  then obtain rs where rs: "s = concat rs" "list_all plain_rune rs" by (auto simp: safe_text_def)
  then have ok: "\<And>r. r \<in> set rs \<Longrightarrow> rune_ok r" by (simp add: list_all_iff plain_rune_def)
  have "rune_spans (concat rs) = map (Pair True) rs"
    using ok by (induction rs) (simp_all add: rune_spans_append)
  with rs runes_concat [OF ok] show "valid_utf8 s \<and> list_all plain_rune (runes s)"
    by (simp add: valid_utf8_def list_all_iff)
next
  assume "valid_utf8 s \<and> list_all plain_rune (runes s)"
  then show "safe_text s" unfolding safe_text_def using concat_runes by metis
qed

lemma safe_Nil [simp]: "safe_text []"
  by (auto simp: safe_text_def intro: exI [of _ "[]"])

lemma safe_append [intro]: "safe_text s \<Longrightarrow> safe_text t \<Longrightarrow> safe_text (s @ t)"
  unfolding safe_text_def by (metis concat_append list_all_append)

lemma safe_rune: "plain_rune r \<Longrightarrow> safe_text r"
  by (auto simp: safe_text_def intro: exI [of _ "[r]"])

lemma safe_concat: "list_all safe_text ss \<Longrightarrow> safe_text (concat ss)"
  by (induction ss) auto

lemma plain_char [simp]: "plain_rune [c] \<longleftrightarrow> 0x20 \<le> byte c \<and> byte c < 0x7F"
  by (auto simp: plain_rune_def rune_ok_def rune_width_def is_control_rune_def)

lemma safe_ascii: "list_all (\<lambda>c. 0x20 \<le> byte c \<and> byte c < 0x7F) s \<Longrightarrow> safe_text s"
proof (induction s)
  case (Cons c s)
  then have "safe_text [c]" by (intro safe_rune) simp
  moreover have "safe_text s" using Cons by simp
  ultimately have "safe_text ([c] @ s)" by (rule safe_append)
  then show ?case by simp
qed simp

lemma safe_if: "safe_text s \<Longrightarrow> safe_text t \<Longrightarrow> safe_text (if b then s else t)"
  by simp

lemma safe_Cons: "0x20 \<le> byte c \<Longrightarrow> byte c < 0x7F \<Longrightarrow> safe_text s \<Longrightarrow> safe_text (c # s)"
  using safe_append [of "[c]" s] safe_rune [of "[c]"] by simp

lemma safe_join: "safe_text sep \<Longrightarrow> list_all safe_text ss \<Longrightarrow> safe_text (join sep ss)"
  by (induction sep ss rule: join.induct) auto

abbreviation ascii_print :: "string \<Rightarrow> bool" where
  "ascii_print s \<equiv> list_all (\<lambda>c. 0x20 \<le> byte c \<and> byte c < 0x7F) s"

lemma ascii_hex_digit: "n < 16 \<Longrightarrow> 0x20 \<le> byte (hex_digit n) \<and> byte (hex_digit n) < 0x7F"
  by (auto simp: hex_digit_def)

lemma ascii_hex_byte: "ascii_print (hex_byte c)"
proof -
  have "byte c div 16 < 16" by (simp add: div_less_iff_less_mult)
  then show ?thesis using ascii_hex_digit [of "byte c div 16"] ascii_hex_digit [of "byte c mod 16"]
    by (simp add: hex_byte_def)
qed

lemma ascii_show_hex: "ascii_print (show_hex n)"
proof (induction n rule: show_hex.induct)
  case (1 n)
  then show ?case using ascii_hex_digit [of n] ascii_hex_digit [of "n mod 16"]
    by (subst show_hex.simps) simp
qed

lemma ascii_show_nat: "ascii_print (show_nat n)"
proof (induction n rule: show_nat.induct)
  case (1 n)
  have d: "byte (char_of (48 + k)) = 48 + k" if "k < 10" for k :: nat using that by simp
  have "ascii_print [char_of (48 + n mod 10)]" using d [of "n mod 10"] by simp
  with 1 d [of n] show ?case by (subst show_nat.simps) (simp del: of_char_of)
qed

lemma ascii_itoa: "ascii_print (itoa n)"
  by (simp add: itoa_def ascii_show_nat)

lemma ascii_hex4: "ascii_print (hex4 n)"
  using ascii_show_hex [of n] by (auto simp: hex4_def Let_def list_all_iff)

lemma runes_ok: "r \<in> set (runes s) \<Longrightarrow> rune_ok r"
  by (auto simp: runes_def rune_ok_error dest: rune_spans_ok split: if_splits)

lemma print_plain:
  assumes "rune_ok r" "is_print up r"
  shows "plain_rune r"
proof -
  have "\<not> is_control_rune r"
    using assms(2) by (auto simp: is_print_def is_control_rune_def in_range_def split: list.splits if_splits)
  with assms(1) show ?thesis by (simp add: plain_rune_def)
qed

lemma escape_safe:
  assumes "rune_ok r" shows "safe_text (escape_rune up r)"
proof -
  have x: "safe_text ([CHR 0x5C, CHR ''x''] @ hex_byte (hd r))" "safe_text ([CHR 0x5C, CHR ''u''] @ hex4 (rune_value r))"
    by (rule safe_ascii, simp add: ascii_hex_byte ascii_hex4)+
  have k: "safe_text [CHR 0x5C, CHR ''n'']" "safe_text [CHR 0x5C, CHR ''r'']" "safe_text [CHR 0x5C, CHR ''t'']"
    by (rule safe_ascii, simp)+
  show ?thesis unfolding escape_rune_def
    using x k safe_rune [OF print_plain [OF assms]] by (simp del: append.simps)
qed

lemma sanitize_safe: "safe_text (sanitize_watch_text up s)"
  unfolding sanitize_watch_text_def
  by (rule safe_concat) (auto simp: list_all_iff intro: escape_safe runes_ok)

lemma trim_sanitize_safe [simp]: "safe_text (watch_trim_and_sanitize up s)"
  by (simp add: watch_trim_and_sanitize_def sanitize_safe)

text \<open>A cut of safe text is safe, and as long as it says.\<close>

lemma plain_ok: "list_all plain_rune rs \<Longrightarrow> runes (concat rs) = rs"
  by (rule runes_concat) (simp add: list_all_iff plain_rune_def)

lemma take_all: "list_all P xs \<Longrightarrow> list_all P (take n xs)"
  by (auto simp: list_all_iff dest: in_set_takeD)

lemma truncate_shown:
  assumes "safe_text s" "0 \<le> n"
  shows "safe_text (watch_truncate s n) \<and> int (length (runes (watch_truncate s n))) \<le> n"
proof -
  have p: "list_all plain_rune (runes s)" using assms(1) by (simp add: safe_text_runes)
  have dots: "''...'' = concat [''.'', ''.'', ''.'']" "list_all plain_rune [''.'', ''.'', ''.'']" by simp_all
  have cut: "safe_text (concat (take k (runes s)))" "runes (concat (take k (runes s))) = take k (runes s)"
    "safe_text (concat (take k (runes s)) @ ''...'')"
    "length (runes (concat (take k (runes s)) @ ''...'')) \<le> k + 3" for k
  proof -
    have q: "list_all plain_rune (take k (runes s))" by (rule take_all [OF p])
    then show a: "safe_text (concat (take k (runes s)))" "runes (concat (take k (runes s))) = take k (runes s)"
      by (auto simp: safe_text_def plain_ok)
    have e: "concat (take k (runes s)) @ ''...'' = concat (take k (runes s) @ [''.'', ''.'', ''.''])" by simp
    have "list_all plain_rune (take k (runes s) @ [''.'', ''.'', ''.''])" using q by simp
    then show "safe_text (concat (take k (runes s)) @ ''...'')"
      "length (runes (concat (take k (runes s)) @ ''...'')) \<le> k + 3"
      unfolding e by (auto simp: safe_text_def plain_ok simp del: concat_append)
  qed
  show ?thesis using assms cut(1,2) [of "nat n"] cut(3,4) [of "nat n - 3"]
    by (auto simp: watch_truncate_def Let_def)
qed

lemma display_safe [simp]: "safe_text (watch_display_value up s)"
  and display_short: "length (runes (watch_display_value up s)) \<le> 96"
  using truncate_shown [of "watch_trim_and_sanitize up s" watch_detail_value_limit]
  by (simp_all add: watch_display_value_def watch_detail_value_limit_def)

lemma summary_safe [simp]: "safe_text (watch_summary_value up s)"
  using truncate_shown [of "watch_trim_and_sanitize up s" watch_summary_value_limit]
  by (simp add: watch_summary_value_def watch_summary_value_limit_def)

lemma safe_comma [simp]: "safe_text '', ''" "safe_text '' | ''" "safe_text ''(none)''"
  by (rule safe_ascii, simp)+

lemma join_sanitized_safe [simp]: "safe_text (watch_join_sanitized up vs)"
  by (simp add: watch_join_sanitized_def list_all_iff safe_join)

lemma safe_labelled [intro]: "safe_text label \<Longrightarrow> safe_text v \<Longrightarrow> list_all safe_text (labelled label v)"
  by (auto simp: labelled_def)

lemma safe_labels [simp]:
  "safe_text ''command=''" "safe_text ''workdir=''" "safe_text ''env_path=''" "safe_text ''reason=''"
  "safe_text ''task=''" "safe_text ''secrets=''" "safe_text ''agent=''" "safe_text ''pending request''"
  "safe_text '', +''" "safe_text '' more''"
  by (rule safe_ascii, simp)+

lemma safe_itoa [simp]: "safe_text (itoa n)"
  by (rule safe_ascii [OF ascii_itoa])

lemma context_parts_safe: "list_all safe_text (watch_request_context_parts up it)"
  unfolding watch_request_context_parts_def list_all_append by (intro conjI safe_labelled) simp_all

lemma secrets_summary_safe [simp]: "safe_text (watch_secrets_summary up vs)"
proof -
  let ?parts = "take watch_secrets_preview_max (filter (\<lambda>v. v \<noteq> '''') (map (watch_summary_value up) vs))"
  have "list_all safe_text ?parts" by (rule take_all) (auto simp: list_all_iff)
  then have p: "safe_text (join '', '' ?parts)" by (intro safe_join) simp_all
  have q: "safe_text ('', +'' @ itoa n @ '' more'')" for n by (intro safe_append) simp_all
  show ?thesis unfolding watch_secrets_summary_def Let_def
    by (intro safe_if safe_append p q safe_Nil)
qed

lemma decision_summary_safe: "safe_text (watch_decision_summary up it)"
proof -
  have "list_all safe_text (labelled ''task='' (watch_summary_value up (pi_task_id it)) @
      watch_request_context_parts up it @ labelled ''secrets='' (watch_secrets_summary up (pi_secrets it)))"
    "list_all safe_text (labelled ''agent='' (watch_summary_value up (pi_agent_id it)))"
    unfolding list_all_append by (intro conjI safe_labelled context_parts_safe; simp)+
  then show ?thesis by (auto simp: watch_decision_summary_def Let_def intro!: safe_join)
qed

lemma status_message_safe: "safe_text (watch_action_status_message up a it)"
proof -
  have "safe_text (watch_action_past_tense a)" "safe_text '': ''"
    by (cases a; rule safe_ascii; simp)+
  then show ?thesis
    by (auto simp: watch_action_status_message_def Let_def decision_summary_safe intro!: safe_append safe_Cons)
qed

end
