(* ===== verification/CliBroker.thy ===== *)
theory CliBroker
  imports Setup WatchText
begin

text \<open>
  How the command line reaches the broker (\<open>cmd/promptlock/broker.go\<close>): the transport it selects for
  an agent or for the operator, and its calls.
\<close>

section \<open>Selecting a transport\<close>

record broker_selection =
  bs_base_url :: string
  bs_unix_socket :: string

text \<open>
  The outside of the command line: the host, the HTTP client, \<open>os.Stat\<close> of a socket (\<open>Inr None\<close> when
  there is no file, else whether it is a socket), and the runes a terminal prints.
\<close>

record 'w cli =
  cl_host :: "'w host"
  cl_web :: "'w web"
  cl_socket :: "string \<Rightarrow> 'w \<Rightarrow> gerror + bool option"
  cl_print :: "string \<Rightarrow> bool"

abbreviation cl_env :: "'w cli \<Rightarrow> string go_map" where
  "cl_env cl \<equiv> hs_env (cl_host cl)"

text \<open>\<open>Inl None\<close> is the sentinel for a file that is no socket.\<close>

definition broker_socket_exists :: "'w cli \<Rightarrow> string \<Rightarrow> 'w \<Rightarrow> gerror option + bool" where
  "broker_socket_exists cl path w =
     (if trim_space path = '''' then Inr False
      else case cl_socket cl path w of
        Inl e \<Rightarrow> Inl (Some e)
      | Inr None \<Rightarrow> Inr False
      | Inr (Some is_socket) \<Rightarrow> if is_socket then Inr True else Inl None)"

definition default_broker_url :: string where
  "default_broker_url = ''http://127.0.0.1:8765''"

definition normalize_broker_url :: "'w cli \<Rightarrow> string \<Rightarrow> string" where
  "normalize_broker_url cl explicit =
     (let env_url = trim_space (getenv (cl_env cl) ''PROMPTLOCK_BROKER_URL'') in
      if trim_space explicit \<noteq> '''' then trim_space explicit
      else if env_url \<noteq> '''' then env_url else default_broker_url)"

definition role_specific_broker_unix_socket :: "'w cli \<Rightarrow> broker_role \<Rightarrow> string" where
  "role_specific_broker_unix_socket cl role =
     trim_space (getenv (cl_env cl) (case role of
       RoleOperator \<Rightarrow> ''PROMPTLOCK_OPERATOR_UNIX_SOCKET'' | RoleAgent \<Rightarrow> ''PROMPTLOCK_AGENT_UNIX_SOCKET''))"

definition default_broker_unix_socket :: "broker_role \<Rightarrow> string" where
  "default_broker_unix_socket role =
     (case role of
        RoleOperator \<Rightarrow> ''/tmp/promptlock-operator.sock'' | RoleAgent \<Rightarrow> ''/tmp/promptlock-agent.sock'')"

fun role_text :: "broker_role \<Rightarrow> string" where
  "role_text RoleAgent = ''agent''"
| "role_text RoleOperator = ''operator''"

text \<open>A socket that must be there: \<open>what\<close> names it, \<open>hint\<close> says what else to do.\<close>

definition socket_or_error ::
  "'w cli \<Rightarrow> string \<Rightarrow> string \<Rightarrow> string \<Rightarrow> 'w \<Rightarrow> gerror + bool" where
  "socket_or_error cl what hint path w =
     (case broker_socket_exists cl path w of
        Inl None \<Rightarrow> Inl (Plain (what @ '' path '' @ path @ '' is not a unix socket; '' @ hint))
      | Inl (Some e) \<Rightarrow> Inl (Wrapped e (''validate '' @ what @ '' path '' @ path @ '': '' @ err_msg e))
      | Inr ready \<Rightarrow> Inr ready)"

definition named_socket ::
  "'w cli \<Rightarrow> string \<Rightarrow> string \<Rightarrow> string \<Rightarrow> string \<Rightarrow> 'w \<Rightarrow> gerror + broker_selection" where
  "named_socket cl what hint url path w =
     (case socket_or_error cl what hint path w of
        Inl e \<Rightarrow> Inl e
      | Inr ready \<Rightarrow>
          if \<not> ready then Inl (Plain (what @ '' not found at '' @ path @ ''; '' @ hint))
          else Inr \<lparr>bs_base_url = normalize_broker_url cl url, bs_unix_socket = path\<rparr>)"

definition role_socket :: "'w cli \<Rightarrow> broker_role \<Rightarrow> string \<Rightarrow> 'w \<Rightarrow> gerror + broker_selection" where
  "role_socket cl role path w =
     (let what = role_text role @ '' broker unix socket'';
          hint = ''set --broker or PROMPTLOCK_BROKER_URL for explicit TCP transport'';
          env_url = trim_space (getenv (cl_env cl) ''PROMPTLOCK_BROKER_URL'')
      in case socket_or_error cl what hint path w of
           Inl e \<Rightarrow> Inl e
         | Inr True \<Rightarrow> Inr \<lparr>bs_base_url = normalize_broker_url cl '''', bs_unix_socket = path\<rparr>
         | Inr False \<Rightarrow>
             if env_url \<noteq> '''' then Inr \<lparr>bs_base_url = env_url, bs_unix_socket = ''''\<rparr>
             else Inl (Plain (what @ '' not found at '' @ path @ ''; '' @ hint)))"

definition resolve_broker_selection ::
  "'w cli \<Rightarrow> broker_role \<Rightarrow> string \<Rightarrow> string \<Rightarrow> 'w \<Rightarrow> gerror + broker_selection" where
  "resolve_broker_selection cl role base_url unix_socket w =
     (let explicit_url = trim_space base_url; explicit_unix = trim_space unix_socket;
          compat = trim_space (getenv (cl_env cl) ''PROMPTLOCK_BROKER_UNIX_SOCKET'');
          role_unix = role_specific_broker_unix_socket cl role;
          setup_unix = workspace_setup_broker_socket (cl_host cl) role (getenv (cl_env cl) ''PROMPTLOCK_CONFIG'') w
      in if explicit_unix \<noteq> '''' then
           named_socket cl ''broker unix socket''
             ''provide an existing --broker-unix-socket path or use --broker for explicit TCP transport''
             explicit_url explicit_unix w
         else if explicit_url \<noteq> '''' then
           Inr \<lparr>bs_base_url = normalize_broker_url cl explicit_url, bs_unix_socket = ''''\<rparr>
         else if compat \<noteq> '''' then
           named_socket cl ''compat broker unix socket''
             (''unset PROMPTLOCK_BROKER_UNIX_SOCKET or provide --broker-unix-socket/--broker for an '' @
              ''explicit transport'') explicit_url compat w
         else if role_unix \<noteq> '''' then role_socket cl role role_unix w
         else if setup_unix \<noteq> '''' then role_socket cl role setup_unix w
         else role_socket cl role (default_broker_unix_socket role) w)"

text \<open>The flags of a command: a URL and the path of a socket.\<close>

definition resolve_flags :: "'w cli \<Rightarrow> string \<times> string \<Rightarrow> broker_role \<Rightarrow> 'w \<Rightarrow> gerror + broker_selection" where
  "resolve_flags cl flags role w =
     resolve_broker_selection cl role (trim_space (fst flags)) (trim_space (snd flags)) w"

section \<open>Calls\<close>

definition build_url :: "broker_selection \<Rightarrow> string \<Rightarrow> string" where
  "build_url b path =
     (if has_prefix path ''http://'' \<or> has_prefix path ''https://'' then path
      else let base = (if trim_space (bs_unix_socket b) \<noteq> '''' then ''http://promptlock'' else bs_base_url b) in
        rev (dropWhile (\<lambda>c. c = CHR ''/'') (rev base)) @ path)"

definition http_dial :: "broker_selection \<Rightarrow> string option" where
  "http_dial b = (if bs_unix_socket b \<noteq> '''' then Some (bs_unix_socket b) else None)"

definition request_error :: "http_failure \<Rightarrow> gerror" where
  "request_error f = (if snd f then Plain ''broker request timed out after 10s'' else fst f)"

text \<open>A body that breaks off counts as empty here.\<close>

definition response_error :: "(string \<Rightarrow> bool) \<Rightarrow> string \<Rightarrow> http_answer \<Rightarrow> gerror" where
  "response_error up what a =
     (let body = (case ha_body a of Inl _ \<Rightarrow> '''' | Inr body \<Rightarrow> take 4096 body);
          msg = trim_space (sanitize_terminal_text up body)
      in if msg = '''' then Plain (what @ '': '' @ ha_status_line a)
         else Plain (what @ '': '' @ msg @ '' ('' @ ha_status_line a @ '')''))"

definition bearer_header :: "string \<Rightarrow> (string \<times> string) list" where
  "bearer_header bearer = (if bearer \<noteq> '''' then [(''Authorization'', ''Bearer '' @ bearer)] else [])"

definition send ::
  "'w cli \<Rightarrow> broker_selection \<Rightarrow> http_exchange \<Rightarrow> 'w \<Rightarrow> (gerror + http_answer) \<times> 'w" where
  "send cl b x w =
     (case wb_check_url (cl_web cl) (hx_url x) of
        Some e \<Rightarrow> (Inl e, w)
      | None \<Rightarrow>
          (case wb_do (cl_web cl) (http_dial b) x w of
             (Inl f, w) \<Rightarrow> (Inl (request_error f), w)
           | (Inr a, w) \<Rightarrow> (Inr a, w)))"

text \<open>The answer is decoded by \<open>dec\<close>.\<close>

definition decoded_answer ::
  "'w cli \<Rightarrow> string \<Rightarrow> (gerror + string \<Rightarrow> gerror + 'a) \<Rightarrow> (gerror + http_answer) \<times> 'w \<Rightarrow> (gerror + 'a) \<times> 'w" where
  "decoded_answer cl what dec r =
     and_then r (\<lambda>a w.
       (if 300 \<le> ha_status a then Inl (response_error (cl_print cl) what a) else dec (ha_body a), w))"

definition post_json_auth ::
  "'w cli \<Rightarrow> broker_selection \<Rightarrow> string \<Rightarrow> string \<Rightarrow> string \<Rightarrow> (gerror + string \<Rightarrow> gerror + 'a) \<Rightarrow> 'w \<Rightarrow>
   (gerror + 'a) \<times> 'w" where
  "post_json_auth cl b path bearer body dec w =
     decoded_answer cl ''request failed'' dec
       (send cl b \<lparr>hx_method = ''POST'', hx_url = build_url b path,
           hx_headers = (''Content-Type'', ''application/json'') # bearer_header bearer,
           hx_body = Some body, hx_timeout = broker_client_timeout\<rparr> w)"

definition cli_get ::
  "'w cli \<Rightarrow> broker_selection \<Rightarrow> string \<Rightarrow> string \<Rightarrow> 'w \<Rightarrow> (gerror + http_answer) \<times> 'w" where
  "cli_get cl b path bearer w =
     send cl b \<lparr>hx_method = ''GET'', hx_url = build_url b path, hx_headers = bearer_header bearer,
       hx_body = None, hx_timeout = broker_client_timeout\<rparr> w"

record capabilities =
  cb_auth_enabled :: bool
  cb_allow_plaintext :: bool
  cb_agent_bridge_address :: string
  cb_env_path_enabled :: "bool option"

definition broker_capabilities ::
  "'w cli \<Rightarrow> (gerror + string \<Rightarrow> gerror + capabilities) \<Rightarrow> broker_selection \<Rightarrow> 'w \<Rightarrow> (gerror + capabilities) \<times> 'w"
where
  "broker_capabilities cl dec b w =
     decoded_answer cl ''capabilities request failed'' dec (cli_get cl b ''/v1/meta/capabilities'' '''' w)"

text \<open>A text of the answer that must not be empty.\<close>

definition not_empty :: "string \<Rightarrow> (gerror + string) \<times> 'w \<Rightarrow> (gerror + string) \<times> 'w" where
  "not_empty what r = and_then r (\<lambda>s w. (if s = '''' then Inl (Plain what) else Inr s, w))"

definition approve ::
  "'w cli \<Rightarrow> (gerror + string \<Rightarrow> gerror + string) \<Rightarrow> broker_selection \<Rightarrow> string \<Rightarrow> string \<Rightarrow> int \<Rightarrow> 'w \<Rightarrow>
   (gerror + string) \<times> 'w" where
  "approve cl dec b token request_id ttl w =
     not_empty ''empty lease_token''
       (post_json_auth cl b (''/v1/leases/approve?request_id='' @ request_id) token
          (json_object [(''ttl_minutes'', itoa ttl)]) dec w)"

definition deny ::
  "'w cli \<Rightarrow> (gerror + string \<Rightarrow> gerror + unit) \<Rightarrow> broker_selection \<Rightarrow> string \<Rightarrow> string \<Rightarrow> string \<Rightarrow> 'w \<Rightarrow>
   (gerror + unit) \<times> 'w" where
  "deny cl dec b token request_id reason w =
     post_json_auth cl b (''/v1/leases/deny?request_id='' @ request_id) token
       (json_object [(''reason'', json_quote reason)]) dec w"

definition list_pending ::
  "'w cli \<Rightarrow> (gerror + string \<Rightarrow> gerror + pending_item list) \<Rightarrow> broker_selection \<Rightarrow> string \<Rightarrow> 'w \<Rightarrow>
   (gerror + pending_item list) \<times> 'w" where
  "list_pending cl dec b token w =
     decoded_answer cl ''pending request failed'' dec (cli_get cl b ''/v1/requests/pending'' token w)"

end
