(* ===== verification/Watch.thy ===== *)
theory Watch
  imports CliBroker
begin

text \<open>
  The operator's view of pending requests (\<open>cmd/promptlock/watch.go\<close> and, for the actions,
  \<open>cmd/promptlock/watch_tui.go\<close>): the screen of a request, the loop that shows one request after
  the other and asks for a decision on a line of input, and what a decision sends to the broker.
\<close>

section \<open>The client\<close>

record 'w watch_client =
  wc_list :: "'w \<Rightarrow> (gerror + pending_item list) \<times> 'w"
  wc_approve :: "string \<Rightarrow> int \<Rightarrow> 'w \<Rightarrow> gerror option \<times> 'w"
  wc_deny :: "string \<Rightarrow> string \<Rightarrow> 'w \<Rightarrow> gerror option \<times> 'w"

definition failure_of :: "(gerror + 'a) \<times> 'w \<Rightarrow> gerror option \<times> 'w" where
  "failure_of r = (case r of (Inl e, w) \<Rightarrow> (Some e, w) | (Inr _, w) \<Rightarrow> (None, w))"

definition broker_watch_client ::
  "'w cli \<Rightarrow> (gerror + string \<Rightarrow> gerror + pending_item list) \<Rightarrow> (gerror + string \<Rightarrow> gerror + string) \<Rightarrow>
   (gerror + string \<Rightarrow> gerror + unit) \<Rightarrow> broker_selection \<Rightarrow> string \<Rightarrow> 'w watch_client" where
  "broker_watch_client cl dec_list dec_token dec_any b token =
     \<lparr>wc_list = list_pending cl dec_list b token,
      wc_approve = \<lambda>i ttl w. failure_of (approve cl dec_token b token i ttl w),
      wc_deny = \<lambda>i reason w. failure_of (deny cl dec_any b token i reason w)\<rparr>"

definition execute_watch_action ::
  "'w watch_client \<Rightarrow> pending_item \<Rightarrow> watch_action \<Rightarrow> int \<Rightarrow> 'w \<Rightarrow> (gerror + string) \<times> 'w" where
  "execute_watch_action wc it action ttl w =
     (case action of
        ActionApprove \<Rightarrow>
          (case wc_approve wc (pi_id it) ttl w of
             (Some e, w) \<Rightarrow> (Inl e, w) | (None, w) \<Rightarrow> (Inr (''approved '' @ pi_id it), w))
      | ActionDeny \<Rightarrow>
          (case wc_deny wc (pi_id it) ''denied by operator'' w of
             (Some e, w) \<Rightarrow> (Inl e, w) | (None, w) \<Rightarrow> (Inr (''denied '' @ pi_id it), w)))"

section \<open>The screen\<close>

text \<open>The interval and the time are shown as texts.\<close>

record watch_view =
  wv_target :: string
  wv_poll :: string
  wv_now :: string
  wv_pending :: nat
  wv_current :: "pending_item option"
  wv_more :: int
  wv_message :: string

definition ansi_clear_screen :: string where
  "ansi_clear_screen = [CHR 0x1B] @ ''[2J'' @ [CHR 0x1B] @ ''[H''"

text \<open>A line that is shown when the field is not blank.\<close>

definition filled_line :: "(string \<Rightarrow> bool) \<Rightarrow> string \<Rightarrow> string \<Rightarrow> string list" where
  "filled_line up label value =
     (if trim_space value = '''' then [] else [label @ watch_display_value up value])"

definition request_lines :: "(string \<Rightarrow> bool) \<Rightarrow> pending_item \<Rightarrow> int \<Rightarrow> string list" where
  "request_lines up it more_queued =
     [''Request '' @ watch_display_value up (pi_id it),
      ''Agent: '' @ watch_display_value up (pi_agent_id it),
      ''Task: '' @ watch_display_value up (pi_task_id it),
      ''TTL: '' @ itoa (pi_ttl_minutes it) @ '' minutes''] @
     filled_line up ''Intent: '' (pi_intent it) @
     [''Reason: '' @ watch_display_value up (pi_reason it),
      ''Secrets: '' @ watch_join_sanitized up (pi_secrets it)] @
     filled_line up ''Command: '' (pi_command_summary it) @
     filled_line up ''Workdir: '' (pi_workdir_summary it) @
     [''Command FP: '' @ watch_display_value up (pi_command_fingerprint it),
      ''Workdir FP: '' @ watch_display_value up (pi_workdir_fingerprint it)] @
     filled_line up ''Env Path: '' (pi_env_path it) @
     filled_line up ''Env Path Canonical: '' (pi_env_path_canonical it) @
     (if 0 < more_queued then [''Queued after this: '' @ itoa more_queued] else []) @
     ['''', ''Action: y=yes n=no s=skip q=quit'']"

definition screen_lines :: "(string \<Rightarrow> bool) \<Rightarrow> watch_view \<Rightarrow> string list" where
  "screen_lines up v =
     [''PromptLock Watch'', ''Broker: '' @ watch_display_value up (wv_target v),
      ''Poll: '' @ wv_poll v @ '' | Time: '' @ wv_now v, ''Pending: '' @ itoa (int (wv_pending v)), ''''] @
     (case wv_current v of
        None \<Rightarrow>
          [watch_display_value up (wv_message v)] @
          (if wv_pending v = 0 then [''Waiting for the next approval request.''] else []) @
          ['''', ''Action: q=quit'']
      | Some it \<Rightarrow> request_lines up it (wv_more v))"

definition render_watch_screen :: "(string \<Rightarrow> bool) \<Rightarrow> watch_view \<Rightarrow> bool \<Rightarrow> string" where
  "render_watch_screen up v clear =
     (if clear then ansi_clear_screen else '''') @ concat (map (\<lambda>l. l @ [new_line]) (screen_lines up v))"

definition format_pending_list_line :: "(string \<Rightarrow> bool) \<Rightarrow> pending_item \<Rightarrow> string" where
  "format_pending_list_line up it =
     watch_display_value up (pi_id it) @ '' | agent='' @ watch_display_value up (pi_agent_id it) @
     '' task='' @ watch_display_value up (pi_task_id it) @ '' ttl='' @ itoa (pi_ttl_minutes it) @
     concat (filled_line up '' | intent='' (pi_intent it)) @
     '' | secrets='' @ watch_join_sanitized up (pi_secrets it) @
     '' | reason='' @ watch_display_value up (pi_reason it) @
     '' | command_fp='' @ watch_display_value up (pi_command_fingerprint it) @
     '' | workdir_fp='' @ watch_display_value up (pi_workdir_fingerprint it) @
     concat (filled_line up '' | command='' (pi_command_summary it)) @
     concat (filled_line up '' | workdir='' (pi_workdir_summary it)) @
     concat (filled_line up '' | env_path='' (pi_env_path it)) @
     concat (filled_line up '' | env_path_canonical='' (pi_env_path_canonical it))"

section \<open>Choosing what to show\<close>

definition visible_watch_items :: "pending_item list \<Rightarrow> string list \<Rightarrow> pending_item list" where
  "visible_watch_items items skipped = filter (\<lambda>it. pi_id it \<notin> set skipped) items"

definition prune_watch_skipped :: "string list \<Rightarrow> pending_item list \<Rightarrow> string list" where
  "prune_watch_skipped skipped items = filter (\<lambda>i. i \<in> set (map pi_id items)) skipped"

definition unskipped_pending_count :: "pending_item list \<Rightarrow> string list \<Rightarrow> nat" where
  "unskipped_pending_count items skipped = length (filter (\<lambda>it. pi_id it \<notin> set skipped) items)"

definition select_watch_item ::
  "pending_item list \<Rightarrow> string list \<Rightarrow> pending_item option \<times> int \<times> string" where
  "select_watch_item items skipped =
     (case find (\<lambda>it. pi_id it \<notin> set skipped) items of
        Some it \<Rightarrow> (Some it, int (unskipped_pending_count items skipped) - 1, '''')
      | None \<Rightarrow>
          (None, 0,
           if items = [] then ''Watching for pending requests...''
           else ''All current pending requests have been skipped. New requests will still appear; '' @
             ''skipped requests stay hidden until they leave the queue.''))"

definition pending_membership_signature :: "pending_item list \<Rightarrow> string" where
  "pending_membership_signature items = join [CHR 0x00] (sort (map pi_id items))"

definition watch_render_key :: "string \<Rightarrow> pending_item option \<Rightarrow> int \<Rightarrow> string \<Rightarrow> string" where
  "watch_render_key signature current more_queued message =
     (case current of
        None \<Rightarrow> ''waiting|'' @ signature @ ''|'' @ message
      | Some it \<Rightarrow> ''item|'' @ signature @ ''|'' @ pi_id it @ ''|'' @ itoa more_queued)"

section \<open>The decision\<close>

datatype watch_decision = DecideApprove | DecideDeny | DecideSkip | DecideQuit

datatype read_end = LineRead | InputClosed | InputFailed gerror

text \<open>
  The terminal: a line of input with what ended it, text that is written, the clock as a text, and a
  pause.
\<close>

record 'w terminal =
  tm_read :: "'w \<Rightarrow> (string \<times> read_end) \<times> 'w"
  tm_write :: "string \<Rightarrow> 'w \<Rightarrow> 'w"
  tm_now :: "'w \<Rightarrow> string \<times> 'w"
  tm_pause :: "int \<Rightarrow> 'w \<Rightarrow> 'w"

definition decision_of :: "string \<Rightarrow> watch_decision option" where
  "decision_of line =
     (let t = to_lower (trim_space line) in
      if t = ''y'' \<or> t = ''yes'' then Some DecideApprove
      else if t = ''n'' \<or> t = ''no'' then Some DecideDeny
      else if t = ''s'' \<or> t = ''skip'' then Some DecideSkip
      else if t = ''q'' \<or> t = ''quit'' then Some DecideQuit else None)"

definition action_prompt :: string where
  "action_prompt = ''Action? [y]es / [n]o / [s]kip / [q]uit: ''"

definition action_hint :: string where
  "action_hint = ''Enter y, n, s, or q.'' @ [new_line]"

text \<open>\<open>None\<close> inside the result is the end of the input.\<close>

partial_function (option) prompt_watch_decision ::
  "'w terminal \<Rightarrow> 'w \<Rightarrow> (watch_decision option \<times> 'w) option" where
  "prompt_watch_decision tm w =
     (case tm_read tm (tm_write tm action_prompt w) of
        ((line, ended), w) \<Rightarrow>
          (case decision_of line of
             Some d \<Rightarrow> Some (Some d, w)
           | None \<Rightarrow>
               if ended = InputClosed then Some (None, w)
               else prompt_watch_decision tm (tm_write tm action_hint w)))"

section \<open>The loop\<close>

record watch_options =
  wo_target :: string
  wo_poll_interval :: int
  wo_poll_text :: string
  wo_default_ttl :: int
  wo_once :: bool
  wo_interactive :: bool
  wo_clear :: bool

record watch_loop_state =
  wl_signature :: string
  wl_skipped :: "string list"
  wl_last_key :: string

definition watch_loop_start :: watch_loop_state where
  "watch_loop_start = \<lparr>wl_signature = '''', wl_skipped = [], wl_last_key = ''''\<rparr>"

text \<open>Acting on a request, and telling how it went.\<close>

definition act_on ::
  "(string \<Rightarrow> bool) \<Rightarrow> 'w watch_client \<Rightarrow> watch_options \<Rightarrow> 'w terminal \<Rightarrow> pending_item \<Rightarrow> watch_action \<Rightarrow> 'w \<Rightarrow> 'w"
where
  "act_on up wc wo tm it action w =
     (case execute_watch_action wc it action (wo_default_ttl wo) w of
        (Inl e, w) \<Rightarrow>
          tm_write tm (watch_action_text action @ '' failed: '' @ sanitize_terminal_text up (err_msg e) @ [new_line]) w
      | (Inr status, w) \<Rightarrow> tm_write tm (status @ [new_line]) w)"

text \<open>
  What follows the screen of a request. The result is \<open>Inl\<close> when the loop ends, with its error,
  else the state it goes on with.
\<close>

definition decide ::
  "(string \<Rightarrow> bool) \<Rightarrow> 'w watch_client \<Rightarrow> watch_options \<Rightarrow> 'w terminal \<Rightarrow> pending_item \<Rightarrow> watch_loop_state \<Rightarrow> 'w \<Rightarrow>
   ((gerror option + watch_loop_state) \<times> 'w) option" where
  "decide up wc wo tm it st w =
     (case prompt_watch_decision tm w of
        None \<Rightarrow> None
      | Some (None, w) \<Rightarrow>
          Some (Inl None,
            tm_write tm ([new_line] @ ''stdin closed; leaving pending requests untouched'' @ [new_line]) w)
      | Some (Some DecideApprove, w) \<Rightarrow> Some (Inr (st\<lparr>wl_last_key := ''''\<rparr>), act_on up wc wo tm it ActionApprove w)
      | Some (Some DecideDeny, w) \<Rightarrow> Some (Inr (st\<lparr>wl_last_key := ''''\<rparr>), act_on up wc wo tm it ActionDeny w)
      | Some (Some DecideSkip, w) \<Rightarrow>
          Some (Inr (st\<lparr>wl_skipped := pi_id it # wl_skipped st, wl_last_key := ''''\<rparr>), w)
      | Some (Some DecideQuit, w) \<Rightarrow>
          Some (Inl None, tm_write tm (''watch exited; leaving pending requests untouched'' @ [new_line]) w))"

definition watch_iteration ::
  "(string \<Rightarrow> bool) \<Rightarrow> 'w watch_client \<Rightarrow> watch_options \<Rightarrow> 'w terminal \<Rightarrow> watch_loop_state \<Rightarrow> 'w \<Rightarrow>
   ((gerror option + watch_loop_state) \<times> 'w) option" where
  "watch_iteration up wc wo tm st w =
     (case wc_list wc w of
        (Inl e, w) \<Rightarrow> Some (Inl (Some e), w)
      | (Inr items, w) \<Rightarrow>
          (let signature = pending_membership_signature items;
               skipped = prune_watch_skipped (wl_skipped st) items;
               (current, more_queued, message) = select_watch_item items skipped;
               key = watch_render_key signature current more_queued message;
               w = (if key = wl_last_key st then w
                    else case tm_now tm w of
                      (now, w) \<Rightarrow> tm_write tm (render_watch_screen up
                        \<lparr>wv_target = wo_target wo, wv_poll = wo_poll_text wo, wv_now = now,
                         wv_pending = length items, wv_current = current, wv_more = more_queued,
                         wv_message = message\<rparr> (wo_clear wo)) w);
               st = \<lparr>wl_signature = signature, wl_skipped = skipped, wl_last_key = key\<rparr>
           in case current of
                None \<Rightarrow>
                  if wo_once wo then Some (Inl None, w) else Some (Inr st, tm_pause tm (wo_poll_interval wo) w)
              | Some it \<Rightarrow> decide up wc wo tm it st w))"

definition watch_broker_target :: "broker_selection \<Rightarrow> string" where
  "watch_broker_target b =
     (if trim_space (bs_unix_socket b) \<noteq> '''' then ''unix://'' @ bs_unix_socket b else bs_base_url b)"

text \<open>Without flags and variables for the broker, \<open>watch\<close> starts a daemon of its own.\<close>

definition should_watch_autostart_daemon :: "string go_map \<Rightarrow> bool \<Rightarrow> string \<times> string \<Rightarrow> bool" where
  "should_watch_autostart_daemon env external flags \<longleftrightarrow>
     \<not> external \<and> trim_space (fst flags) = '''' \<and> trim_space (snd flags) = '''' \<and>
     trim_space (getenv env ''PROMPTLOCK_BROKER_URL'') = '''' \<and>
     trim_space (getenv env ''PROMPTLOCK_BROKER_UNIX_SOCKET'') = ''''"

text \<open>A broker that cannot use environment files does not serve an operator who expects it to.\<close>

definition validate_watch_env_path_expectation ::
  "'w cli \<Rightarrow> (gerror + string \<Rightarrow> gerror + capabilities) \<Rightarrow> broker_selection \<Rightarrow> 'w \<Rightarrow> gerror option \<times> 'w" where
  "validate_watch_env_path_expectation cl dec b w =
     (let expected = trim_space (getenv (cl_env cl) ''PROMPTLOCK_ENV_PATH_ROOT'');
          failed = ''watch env-path preflight failed: '';
          setting = ''PROMPTLOCK_ENV_PATH_ROOT='' @ quote expected
      in if expected = '''' then (None, w)
         else case broker_capabilities cl dec b w of
           (Inl e, w) \<Rightarrow> (Some (Wrapped e (failed @ err_msg e)), w)
         | (Inr caps, w) \<Rightarrow>
             ((case cb_env_path_enabled caps of
                 None \<Rightarrow> Some (Plain (failed @ ''broker '' @ watch_broker_target b @
                    '' does not advertise env_path_enabled; cannot verify '' @ setting @ '' compatibility''))
               | Some False \<Rightarrow> Some (Plain (failed @ ''broker '' @ watch_broker_target b @
                    '' has env_path disabled while '' @ setting @ '' is set; restart the daemon from the '' @
                    ''same shell so it inherits that value, for example: '' @ setting @
                    '' promptlock daemon stop && '' @ setting @ '' promptlock daemon start''))
               | Some True \<Rightarrow> None), w))"

text \<open>The subcommands that act once; the result is what they print.\<close>

definition operator_broker ::
  "'w cli \<Rightarrow> (gerror + string \<Rightarrow> gerror + capabilities) \<Rightarrow> string \<times> string \<Rightarrow> 'w \<Rightarrow> (gerror + broker_selection) \<times> 'w"
where
  "operator_broker cl dec flags w =
     and_then (resolve_flags cl flags RoleOperator w, w) (\<lambda>b w.
       case validate_watch_env_path_expectation cl dec b w of (e, w) \<Rightarrow> (unless_error e b, w))"

definition run_watch_list ::
  "'w cli \<Rightarrow> (gerror + string \<Rightarrow> gerror + capabilities) \<Rightarrow> (gerror + string \<Rightarrow> gerror + pending_item list) \<Rightarrow>
   string \<times> string \<Rightarrow> string \<Rightarrow> 'w \<Rightarrow> (gerror + string list) \<times> 'w" where
  "run_watch_list cl dec_caps dec_list flags token w =
     and_then (operator_broker cl dec_caps flags w) (\<lambda>b w.
     and_then (list_pending cl dec_list b token w) (\<lambda>items w.
       (Inr (if items = [] then [''no pending requests'']
             else map (format_pending_list_line (cl_print cl)) items), w)))"

definition run_watch_allow ::
  "'w cli \<Rightarrow> (gerror + string \<Rightarrow> gerror + capabilities) \<Rightarrow> (gerror + string \<Rightarrow> gerror + string) \<Rightarrow>
   string \<times> string \<Rightarrow> string \<Rightarrow> int \<Rightarrow> string list \<Rightarrow> 'w \<Rightarrow> (gerror + string) \<times> 'w" where
  "run_watch_allow cl dec_caps dec_token flags token ttl args w =
     (case args of
        [] \<Rightarrow> (Inl (Plain (''usage: promptlock watch allow [--broker URL | --broker-unix-socket PATH] '' @
           ''[--ttl N] <request_id>'')), w)
      | i # _ \<Rightarrow>
          and_then (operator_broker cl dec_caps flags w) (\<lambda>b w.
          and_then (approve cl dec_token b token i ttl w) (\<lambda>_ w. (Inr (''approved '' @ i), w))))"

definition run_watch_deny ::
  "'w cli \<Rightarrow> (gerror + string \<Rightarrow> gerror + capabilities) \<Rightarrow> (gerror + string \<Rightarrow> gerror + unit) \<Rightarrow>
   string \<times> string \<Rightarrow> string \<Rightarrow> string \<Rightarrow> string list \<Rightarrow> 'w \<Rightarrow> (gerror + string) \<times> 'w" where
  "run_watch_deny cl dec_caps dec_any flags token reason args w =
     (case args of
        [] \<Rightarrow> (Inl (Plain (''usage: promptlock watch deny [--broker URL | --broker-unix-socket PATH] '' @
           ''[--reason TEXT] <request_id>'')), w)
      | i # _ \<Rightarrow>
          and_then (operator_broker cl dec_caps flags w) (\<lambda>b w.
          and_then (deny cl dec_any b token i reason w) (\<lambda>_ w. (Inr (''denied '' @ i), w))))"

partial_function (option) run_watch_loop ::
  "(string \<Rightarrow> bool) \<Rightarrow> 'w watch_client \<Rightarrow> watch_options \<Rightarrow> 'w terminal \<Rightarrow> watch_loop_state \<Rightarrow> 'w \<Rightarrow>
   (gerror option \<times> 'w) option" where
  "run_watch_loop up wc wo tm st w =
     (case watch_iteration up wc wo tm st w of
        None \<Rightarrow> None
      | Some (Inl r, w) \<Rightarrow> Some (r, w)
      | Some (Inr st, w) \<Rightarrow> run_watch_loop up wc wo tm st w)"

section \<open>What the screen shows\<close>

lemma safe_no_new_line:
  assumes "safe_text s" shows "new_line \<notin> set s"
proof -
  from assms obtain rs where rs: "s = concat rs" "list_all plain_rune rs" by (auto simp: safe_text_def)
  have "new_line \<notin> set r" if "plain_rune r" for r
  proof (cases "length r = 1")
    case True
    then obtain c where "r = [c]" by (auto simp: length_Suc_conv)
    with that show ?thesis by (auto simp: new_line_def)
  next
    case False
    with that rune_ok_multibyte [of r] show ?thesis by (auto simp: plain_rune_def new_line_def)
  qed
  with rs show ?thesis by (auto simp: list_all_iff)
qed

lemma filled_line_safe: "safe_text label \<Longrightarrow> list_all safe_text (filled_line up label value)"
  by (simp add: filled_line_def safe_append)

lemma request_lines_safe: "list_all safe_text (request_lines up it n)"
proof -
  have k: "safe_text ''Request ''" "safe_text ''Agent: ''" "safe_text ''Task: ''" "safe_text ''TTL: ''"
    "safe_text '' minutes''" "safe_text ''Intent: ''" "safe_text ''Reason: ''" "safe_text ''Secrets: ''"
    "safe_text ''Command: ''" "safe_text ''Workdir: ''" "safe_text ''Command FP: ''" "safe_text ''Workdir FP: ''"
    "safe_text ''Env Path: ''" "safe_text ''Env Path Canonical: ''" "safe_text ''Queued after this: ''"
    "safe_text ''Action: y=yes n=no s=skip q=quit''"
    by (rule safe_ascii, simp)+
  show ?thesis
    unfolding request_lines_def list_all_append list.pred_inject
    by (intro conjI filled_line_safe k TrueI safe_append display_safe join_sanitized_safe safe_itoa safe_Nil)
      (simp_all add: k safe_append del: append.simps)
qed

lemma screen_lines_safe:
  assumes "safe_text (wv_poll v)" "safe_text (wv_now v)"
  shows "list_all safe_text (screen_lines up v)"
proof -
  have k: "safe_text ''PromptLock Watch''" "safe_text ''Broker: ''" "safe_text ''Poll: ''"
    "safe_text '' | Time: ''" "safe_text ''Pending: ''" "safe_text ''Waiting for the next approval request.''"
    "safe_text ''Action: q=quit''"
    by (rule safe_ascii, simp)+
  have h: "safe_text (''Poll: '' @ wv_poll v @ '' | Time: '' @ wv_now v)"
    "safe_text (''Broker: '' @ watch_display_value up (wv_target v))"
    "safe_text (''Pending: '' @ itoa (int (wv_pending v)))"
    by (intro safe_append k assms display_safe safe_itoa)+
  show ?thesis
    unfolding screen_lines_def list_all_append
    using k h request_lines_safe by (simp del: append.simps split: option.split)
qed

text \<open>The labels of the lines that show one text of the request or of the broker.\<close>

definition field_labels :: "string list" where
  "field_labels = [''Request '', ''Agent: '', ''Task: '', ''Intent: '', ''Reason: '', ''Command: '',
     ''Workdir: '', ''Command FP: '', ''Workdir FP: '', ''Env Path: '', ''Env Path Canonical: '', ''Broker: '']"

text \<open>A line with such a label is cut; every other line of a request has a label of its own.\<close>

definition cut_line :: "string \<Rightarrow> bool" where
  "cut_line l \<longleftrightarrow> (\<forall>label\<in>set field_labels. \<forall>shown. l = label @ shown \<longrightarrow> length (runes shown) \<le> 96)"

lemma cut_other:
  assumes "list_all (\<lambda>label. \<not> prefix label head \<and> \<not> prefix head label) field_labels"
  shows "cut_line (head @ t)"
  using assms unfolding cut_line_def list_all_iff
  by (metis append_eq_append_conv2 prefixI)

lemma cut_field:
  assumes "list_all (\<lambda>label. label = head \<or> \<not> prefix label head \<and> \<not> prefix head label) field_labels"
    and "length (runes value) \<le> 96"
  shows "cut_line (head @ value)"
  unfolding cut_line_def
proof (intro ballI allI impI)
  fix label shown assume l: "label \<in> set field_labels" and e: "head @ value = label @ shown"
  from e have "prefix label head \<or> prefix head label"
    by (metis append_eq_append_conv2 prefixI)
  with l assms(1) have "label = head" by (auto simp: list_all_iff)
  with e assms(2) show "length (runes shown) \<le> 96" by simp
qed

lemma cut_message:
  assumes "length (runes value) \<le> 96" shows "cut_line value"
  unfolding cut_line_def
proof (intro ballI allI impI)
  fix label shown assume "label \<in> set field_labels" and v: "value = label @ shown"
  then have "list_all (\<lambda>c. byte c < 0x80) label" by (auto simp: field_labels_def)
  then have "length (runes (label @ shown)) = length label + length (runes shown)"
    by (induction label) (simp_all add: runes_def rune_width_def)
  with assms v show "length (runes shown) \<le> 96" by simp
qed

lemma cut_empty: "cut_line []"
  by (rule cut_message) (simp add: runes_def)

lemma cut_filled:
  assumes "list_all (\<lambda>label. label = head \<or> \<not> prefix label head \<and> \<not> prefix head label) field_labels"
  shows "list_all cut_line (filled_line up head x)"
  using cut_field [OF assms display_short] by (simp add: filled_line_def)

lemma request_lines_cut: "list_all cut_line (request_lines up it n)"
proof -
  have a: "cut_line ''Action: y=yes n=no s=skip q=quit''"
    using cut_other [of "''Action: y=yes n=no s=skip q=quit''" "[]"] by (simp add: field_labels_def)
  have q: "cut_line (''Queued after this: '' @ t)" for t
    by (rule cut_other) (simp add: field_labels_def)
  then have q: "list_all cut_line (if 0 < n then [''Queued after this: '' @ t] else [])" for t
    by (simp del: append.simps)
  show ?thesis
    unfolding request_lines_def list_all_append list.pred_inject
    by (intro conjI TrueI cut_filled cut_field [OF _ display_short] cut_empty a q cut_other)
      (simp_all add: field_labels_def)
qed

lemma screen_lines_cut: "list_all cut_line (screen_lines up v)"
proof -
  have k: "cut_line ''PromptLock Watch''" "cut_line ''Waiting for the next approval request.''"
    "cut_line ''Action: q=quit''"
    using cut_other [of "''PromptLock Watch''" "[]"]
      cut_other [of "''Waiting for the next approval request.''" "[]"] cut_other [of "''Action: q=quit''" "[]"]
    by (simp_all add: field_labels_def)
  have h: "cut_line (''Broker: '' @ watch_display_value up (wv_target v))"
    "cut_line (''Poll: '' @ wv_poll v @ '' | Time: '' @ wv_now v)"
    "cut_line (''Pending: '' @ itoa (int (wv_pending v)))"
    by (rule cut_field [OF _ display_short] cut_other, simp add: field_labels_def)+
  have m: "cut_line (watch_display_value up (wv_message v))" by (rule cut_message [OF display_short])
  show ?thesis
    unfolding screen_lines_def list_all_append
    using k h m cut_empty request_lines_cut by (simp del: append.simps split: option.split)
qed

text \<open>
  C33: whatever text a request holds, what the operator sees of it is that text and nothing else: no
  line of the screen has a control character or an escape sequence, the screen consists of exactly
  the lines of its layout, so that a request cannot add a line of its own, and on every line
  labelled as one field of the request or as the broker's address, at most 96 characters follow
  the label. The line of the secrets is not cut: it names each of them.
\<close>

theorem request_screen_is_safe:
  assumes "safe_text (wv_poll v)" "safe_text (wv_now v)"
  shows "list_all safe_text (screen_lines up v) \<and>
    split_char new_line (render_watch_screen up v False) = screen_lines up v @ [''''] \<and>
    (\<forall>label\<in>set field_labels. \<forall>shown.
       label @ shown \<in> set (screen_lines up v) \<longrightarrow> length (runes shown) \<le> 96) \<and>
    (\<forall>it. wv_current v = Some it \<longrightarrow> pi_secrets it \<noteq> [] \<longrightarrow>
       ''Secrets: '' @ join '', '' (map (watch_trim_and_sanitize up) (pi_secrets it)) \<in> set (screen_lines up v))"
proof -
  have s: "list_all safe_text (screen_lines up v)" by (rule screen_lines_safe [OF assms])
  have "split_char new_line (concat (map (\<lambda>l. l @ [new_line]) ls)) = ls @ ['''']"
    if "list_all safe_text ls" for ls
    using that
  proof (induction ls)
    case Nil
    show ?case by (simp add: split_char_single)
  next
    case (Cons l ls)
    then show ?case
      using safe_no_new_line [of l] by (simp add: split_char_append)
  qed
  with s have "split_char new_line (render_watch_screen up v False) = screen_lines up v @ ['''']"
    by (simp add: render_watch_screen_def)
  moreover have "list_all cut_line (screen_lines up v)" by (rule screen_lines_cut)
  then have "\<forall>label\<in>set field_labels. \<forall>shown.
      label @ shown \<in> set (screen_lines up v) \<longrightarrow> length (runes shown) \<le> 96"
    by (auto simp: list_all_iff cut_line_def)
  moreover have "''Secrets: '' @ join '', '' (map (watch_trim_and_sanitize up) (pi_secrets it)) \<in> set (screen_lines up v)"
    if "wv_current v = Some it" "pi_secrets it \<noteq> []" for it
    using that by (simp add: screen_lines_def request_lines_def watch_join_sanitized_def)
  ultimately show ?thesis using s by blast
qed

definition hostile_item :: pending_item where
  "hostile_item =
     \<lparr>pi_id = ''req_1'', pi_agent_id = ''a'' @ [new_line] @ ''Secrets: (none)'', pi_task_id = replicate 200 (CHR ''t''), pi_intent = '''',
      pi_reason = [CHR 0x1B] @ ''[2Jok'', pi_ttl_minutes = 5, pi_secrets = [''npm''],
      pi_command_fingerprint = ''f'', pi_workdir_fingerprint = ''w'', pi_command_summary = ''rm -rf /'',
      pi_workdir_summary = '''', pi_env_path = '''', pi_env_path_canonical = ''''\<rparr>"

definition hostile_view :: watch_view where
  "hostile_view =
     \<lparr>wv_target = ''unix:///o.sock'', wv_poll = ''3s'', wv_now = ''12:00'', wv_pending = 1,
      wv_current = Some hostile_item, wv_more = 0, wv_message = ''''\<rparr>"

theorem request_screen_is_safe_witness:
  "list_all safe_text (screen_lines (\<lambda>_. True) hostile_view) \<and>
   (\<exists>shown. ''Task: '' @ shown \<in> set (screen_lines (\<lambda>_. True) hostile_view) \<and> length (runes shown) \<le> 96) \<and>
   ''Secrets: npm'' \<in> set (screen_lines (\<lambda>_. True) hostile_view)"
proof -
  have s: "safe_text (wv_poll hostile_view)" "safe_text (wv_now hostile_view)"
    by (simp_all add: hostile_view_def safe_ascii)
  let ?task = "watch_display_value (\<lambda>_. True) (pi_task_id hostile_item)"
  have "''Task: '' \<in> set field_labels" by (simp add: field_labels_def)
  moreover have "''Task: '' @ ?task \<in> set (screen_lines (\<lambda>_. True) hostile_view)"
    by (simp add: screen_lines_def hostile_view_def request_lines_def)
  moreover have "wv_current hostile_view = Some hostile_item" "pi_secrets hostile_item = [''npm'']"
    by (simp_all add: hostile_view_def hostile_item_def)
  moreover have "watch_trim_and_sanitize (\<lambda>_. True) ''npm'' = ''npm''" by code_simp
  ultimately show ?thesis using request_screen_is_safe [OF s, of "\<lambda>_. True"] by auto
qed

end
