(* ===== verification/WatchProps.thy ===== *)
theory WatchProps
  imports Watch
begin

text \<open>
  The plain loop of \<open>watch\<close> sends the decision on a request only when that request is what the
  operator has on the screen; and what happens when the input fails.
\<close>

section \<open>Recording what is shown and sent\<close>

datatype watch_event = Wrote string | Sent watch_action string

type_synonym watch_trace = "watch_event list"

definition recording_terminal :: "'w terminal \<Rightarrow> ('w \<times> watch_trace) terminal" where
  "recording_terminal tm =
     \<lparr>tm_read = \<lambda>(w, tr). (case tm_read tm w of (r, w) \<Rightarrow> (r, (w, tr))),
      tm_write = \<lambda>s (w, tr). (tm_write tm s w, tr @ [Wrote s]),
      tm_now = \<lambda>(w, tr). (case tm_now tm w of (r, w) \<Rightarrow> (r, (w, tr))),
      tm_pause = \<lambda>d (w, tr). (tm_pause tm d w, tr)\<rparr>"

definition recording_client :: "'w watch_client \<Rightarrow> ('w \<times> watch_trace) watch_client" where
  "recording_client wc =
     \<lparr>wc_list = \<lambda>(w, tr). (case wc_list wc w of (r, w) \<Rightarrow> (r, (w, tr))),
      wc_approve = \<lambda>i ttl (w, tr).
        (case wc_approve wc i ttl w of (r, w) \<Rightarrow> (r, (w, tr @ [Sent ActionApprove i]))),
      wc_deny = \<lambda>i reason (w, tr).
        (case wc_deny wc i reason w of (r, w) \<Rightarrow> (r, (w, tr @ [Sent ActionDeny i])))\<rparr>"

lemma recording_terminal_simps [simp]:
  "snd (tm_write (recording_terminal tm) s w) = snd w @ [Wrote s]"
  "snd (snd (tm_read (recording_terminal tm) w)) = snd w"
  "snd (snd (tm_now (recording_terminal tm) w)) = snd w"
  "snd (tm_pause (recording_terminal tm) d w) = snd w"
  by (simp_all add: recording_terminal_def case_prod_beta)

lemma recording_client_simps [simp]:
  "snd (snd (wc_list (recording_client wc) w)) = snd w"
  "snd (snd (wc_approve (recording_client wc) i ttl w)) = snd w @ [Sent ActionApprove i]"
  "snd (snd (wc_deny (recording_client wc) i reason w)) = snd w @ [Sent ActionDeny i]"
  by (simp_all add: recording_client_def case_prod_beta)

section \<open>Prompts\<close>

definition prompt_events :: "watch_trace \<Rightarrow> bool" where
  "prompt_events tr \<longleftrightarrow> set tr \<subseteq> {Wrote action_prompt, Wrote action_hint}"

lemma prompt_recorded:
  assumes "prompt_watch_decision (recording_terminal tm) w = Some (d, w')"
  shows "\<exists>asks. snd w' = snd w @ asks \<and> prompt_events asks"
proof -
  let ?P = "\<lambda>t w x. t = recording_terminal tm \<longrightarrow>
    (\<exists>asks. snd (snd x) = snd w @ asks \<and> prompt_events asks)"
  have "?P (recording_terminal tm) w (d, w')"
  proof (rule prompt_watch_decision.raw_induct [where P = ?P, OF _ assms], intro impI)
    fix f :: "('a \<times> watch_trace) terminal \<Rightarrow> 'a \<times> watch_trace \<Rightarrow> (watch_decision option \<times> ('a \<times> watch_trace)) option"
    fix t w x
    assume IH: "\<And>t w x. f t w = Some x \<Longrightarrow> ?P t w x" and t: "t = recording_terminal tm"
      and eq: "(case tm_read t (tm_write t action_prompt w) of
        ((line, ended), w) \<Rightarrow>
          (case decision_of line of
             Some d \<Rightarrow> Some (Some d, w)
           | None \<Rightarrow> if ended = InputClosed then Some (None, w) else f t (tm_write t action_hint w))) = Some x"
    obtain line ended w1 where r: "tm_read t (tm_write t action_prompt w) = ((line, ended), w1)"
      by (metis prod.exhaust)
    have "snd w1 = snd (snd (tm_read t (tm_write t action_prompt w)))" by (simp add: r)
    also have "\<dots> = snd w @ [Wrote action_prompt]" unfolding t by simp
    finally have w1: "snd w1 = snd w @ [Wrote action_prompt]" .
    show "\<exists>asks. snd (snd x) = snd w @ asks \<and> prompt_events asks"
    proof (cases "decision_of line = None \<and> ended \<noteq> InputClosed")
      case False
      with eq r w1 show ?thesis by (auto simp: prompt_events_def split: option.splits if_splits)
    next
      case True
      with eq r have "f t (tm_write t action_hint w1) = Some x" by simp
      from IH [OF this] t obtain asks where
        "snd (snd x) = snd (tm_write t action_hint w1) @ asks" "prompt_events asks" by blast
      with w1 t show ?thesis
        by (intro exI [of _ "[Wrote action_prompt, Wrote action_hint] @ asks"]) (simp add: prompt_events_def)
    qed
  qed
  then show ?thesis by simp
qed

text \<open>
  C34: when reading the input fails with another error than its end, the prompt is never left: the
  error is taken for a wrong answer and the input is read again, for ever.
\<close>

theorem failing_input_prompts_for_ever:
  fixes tm :: "'w terminal"
  assumes "\<And>w. \<exists>e. fst (tm_read tm w) = ('''', InputFailed e)"
  shows "prompt_watch_decision tm w = None"
proof (rule ccontr)
  assume "prompt_watch_decision tm w \<noteq> None"
  then obtain x where x: "prompt_watch_decision tm w = Some x" by blast
  let ?P = "\<lambda>t w x. t = tm \<longrightarrow> False"
  have "?P tm w x"
  proof (rule prompt_watch_decision.raw_induct [where P = ?P, OF _ x], intro impI)
    fix f :: "'w terminal \<Rightarrow> 'w \<Rightarrow> (watch_decision option \<times> 'w) option" and t w x
    assume IH: "\<And>t w x. f t w = Some x \<Longrightarrow> ?P t w x" and t: "t = tm"
      and eq: "(case tm_read t (tm_write t action_prompt w) of
        ((line, ended), w) \<Rightarrow>
          (case decision_of line of
             Some d \<Rightarrow> Some (Some d, w)
           | None \<Rightarrow> if ended = InputClosed then Some (None, w) else f t (tm_write t action_hint w))) = Some x"
    obtain e w1 where "tm_read t (tm_write t action_prompt w) = (('''', InputFailed e), w1)"
      using assms [of "tm_write t action_prompt w"] t by (metis prod.collapse)
    moreover have "decision_of '''' = None" by code_simp
    ultimately have "f t (tm_write t action_hint w1) = Some x" using eq by simp
    from IH [OF this] t show False by simp
  qed
  then show False by simp
qed

section \<open>Decisions follow their screen\<close>

text \<open>The request on the screen: written last, but for prompts.\<close>

definition on_screen :: "(string \<Rightarrow> bool) \<Rightarrow> bool \<Rightarrow> string \<Rightarrow> watch_trace \<Rightarrow> bool" where
  "on_screen up clear i tr \<longleftrightarrow>
     (\<exists>before v it asks. tr = before @ Wrote (render_watch_screen up v clear) # asks \<and>
        wv_current v = Some it \<and> pi_id it = i \<and> prompt_events asks)"

definition decisions_on_screen :: "(string \<Rightarrow> bool) \<Rightarrow> bool \<Rightarrow> watch_trace \<Rightarrow> bool" where
  "decisions_on_screen up clear tr \<longleftrightarrow>
     (\<forall>before action i later. tr = before @ Sent action i # later \<longrightarrow> on_screen up clear i before)"

lemma decisions_wrote: "decisions_on_screen up clear tr \<Longrightarrow> decisions_on_screen up clear (tr @ [Wrote s])"
  unfolding decisions_on_screen_def
proof (intro allI impI)
  fix before b j later
  assume all: "\<forall>before action i later. tr = before @ Sent action i # later \<longrightarrow> on_screen up clear i before"
    and e: "tr @ [Wrote s] = before @ Sent b j # later"
  from e obtain later' where "tr = before @ Sent b j # later'" by (cases later rule: rev_cases) auto
  with all show "on_screen up clear j before" by blast
qed

lemma decisions_prompts:
  "decisions_on_screen up clear tr \<Longrightarrow> prompt_events asks \<Longrightarrow> decisions_on_screen up clear (tr @ asks)"
proof (induction asks rule: rev_induct)
  case (snoc a asks)
  then obtain s where "a = Wrote s" by (auto simp: prompt_events_def)
  with snoc show ?case
    using decisions_wrote [of up clear "tr @ asks" s] by (auto simp: prompt_events_def)
qed simp

lemma decisions_sent:
  assumes "decisions_on_screen up clear tr" "on_screen up clear i tr"
  shows "decisions_on_screen up clear (tr @ [Sent action i])"
  unfolding decisions_on_screen_def
proof (intro allI impI)
  fix before b j later assume e: "tr @ [Sent action i] = before @ Sent b j # later"
  show "on_screen up clear j before"
  proof (cases later rule: rev_cases)
    case Nil
    with e assms(2) show ?thesis by simp
  next
    case (snoc later' z)
    with e have "tr = before @ Sent b j # later'" by simp
    with assms(1) show ?thesis by (simp add: decisions_on_screen_def)
  qed
qed

lemma acting_recorded:
  "\<exists>s. snd (act_on up (recording_client wc) wo (recording_terminal tm) it action w) =
     snd w @ [Sent action (pi_id it), Wrote s]"
proof -
  obtain r w1 where x: "execute_watch_action (recording_client wc) it action (wo_default_ttl wo) w = (r, w1)"
    by (cases "execute_watch_action (recording_client wc) it action (wo_default_ttl wo) w")
  have "snd w1 = snd w @ [Sent action (pi_id it)]"
    using x recording_client_simps(2) [of wc "pi_id it" "wo_default_ttl wo" w]
      recording_client_simps(3) [of wc "pi_id it" "''denied by operator''" w]
    by (cases action) (auto simp: execute_watch_action_def case_prod_beta split: option.splits)
  then show ?thesis by (cases r) (simp_all add: act_on_def x)
qed

definition no_item_key :: "string \<Rightarrow> bool" where
  "no_item_key k \<longleftrightarrow> k = '''' \<or> (\<exists>x. k = ''waiting|'' @ x)"

definition loop_ok :: "(string \<Rightarrow> bool) \<Rightarrow> bool \<Rightarrow> watch_loop_state \<Rightarrow> watch_trace \<Rightarrow> bool" where
  "loop_ok up clear st tr \<longleftrightarrow> decisions_on_screen up clear tr \<and> no_item_key (wl_last_key st)"

lemma decide_recorded:
  assumes "decide up (recording_client wc) wo (recording_terminal tm) it st w = Some (r, w')"
    and "decisions_on_screen up clear (snd w)"
    and "\<And>asks. prompt_events asks \<Longrightarrow> on_screen up clear (pi_id it) (snd w @ asks)"
  shows "decisions_on_screen up clear (snd w') \<and> (\<forall>st'. r = Inr st' \<longrightarrow> no_item_key (wl_last_key st'))"
proof -
  obtain d w1 where p: "prompt_watch_decision (recording_terminal tm) w = Some (d, w1)"
    using assms(1) by (cases "prompt_watch_decision (recording_terminal tm) w") (auto simp: decide_def)
  from prompt_recorded [OF p] obtain asks where a: "snd w1 = snd w @ asks" "prompt_events asks" by blast
  have d1: "decisions_on_screen up clear (snd w1)" unfolding a(1) by (rule decisions_prompts [OF assms(2) a(2)])
  have on: "on_screen up clear (pi_id it) (snd w1)" unfolding a(1) by (rule assms(3) [OF a(2)])
  have act: "decisions_on_screen up clear (snd (act_on up (recording_client wc) wo (recording_terminal tm) it action w1))"
    for action
    using acting_recorded [of up wc wo tm it action w1] decisions_wrote [OF decisions_sent [OF d1 on]]
    by fastforce
  show ?thesis
    using assms(1) p d1 act
    by (auto simp: decide_def no_item_key_def intro: decisions_wrote split: option.splits watch_decision.splits)
qed

lemma item_key: "watch_render_key g (Some it) n msg \<noteq> k \<or> \<not> no_item_key k"
  by (auto simp: no_item_key_def watch_render_key_def)

lemma screen_on: 
  assumes "wv_current v = Some it" "prompt_events asks"
  shows "on_screen up clear (pi_id it) ((tr @ [Wrote (render_watch_screen up v clear)]) @ asks)"
  unfolding on_screen_def using assms by auto

lemma iteration_recorded:
  assumes run: "watch_iteration up (recording_client wc) wo (recording_terminal tm) st w = Some (r, w')"
    and ok: "loop_ok up (wo_clear wo) st (snd w)"
  shows "decisions_on_screen up (wo_clear wo) (snd w') \<and>
    (\<forall>st'. r = Inr st' \<longrightarrow> loop_ok up (wo_clear wo) st' (snd w'))"
proof -
  note d = ok [unfolded loop_ok_def, THEN conjunct1] and key = ok [unfolded loop_ok_def, THEN conjunct2]
  obtain ans w1 where ls: "wc_list (recording_client wc) w = (ans, w1)"
    by (cases "wc_list (recording_client wc) w")
  have w1: "snd w1 = snd w" using recording_client_simps(1) [of wc w] by (simp add: ls)
  show ?thesis
  proof (cases ans)
    case (Inl e)
    with run ls d w1 show ?thesis by (auto simp: watch_iteration_def)
  next
    case (Inr items)
    let ?g = "pending_membership_signature items" and ?sk = "prune_watch_skipped (wl_skipped st) items"
    obtain cur more_queued msg where s: "select_watch_item items ?sk = (cur, more_queued, msg)"
      by (metis prod.exhaust)
    let ?k = "watch_render_key ?g cur more_queued msg"
    obtain now w2 where n: "tm_now (recording_terminal tm) w1 = (now, w2)"
      by (cases "tm_now (recording_terminal tm) w1")
    have w2: "snd w2 = snd w" using recording_terminal_simps(3) [of tm w1] by (simp add: n w1)
    let ?v = "\<lparr>wv_target = wo_target wo, wv_poll = wo_poll_text wo, wv_now = now, wv_pending = length items,
        wv_current = cur, wv_more = more_queued, wv_message = msg\<rparr>"
    let ?w3 = "if ?k = wl_last_key st then w1
        else tm_write (recording_terminal tm) (render_watch_screen up ?v (wo_clear wo)) w2"
    let ?st = "\<lparr>wl_signature = ?g, wl_skipped = ?sk, wl_last_key = ?k\<rparr>"
    have d3: "decisions_on_screen up (wo_clear wo) (snd ?w3)"
      using d w1 w2 decisions_wrote [OF d] by simp
    show ?thesis
    proof (cases cur)
      case None
      then have "no_item_key ?k" by (simp add: no_item_key_def watch_render_key_def)
      with run ls Inr s n None d3 show ?thesis
        by (auto simp: watch_iteration_def Let_def loop_ok_def split: if_splits)
    next
      case (Some it)
      have "?k \<noteq> wl_last_key st" using item_key [of ?g it more_queued msg "wl_last_key st"] key Some by simp
      then have w3: "?w3 = tm_write (recording_terminal tm) (render_watch_screen up ?v (wo_clear wo)) w2" by simp
      have "decide up (recording_client wc) wo (recording_terminal tm) it ?st ?w3 = Some (r, w')"
        using run ls Inr s n Some by (simp add: watch_iteration_def Let_def split: if_splits)
      from decide_recorded [OF this d3] show ?thesis
        using screen_on [of ?v it] Some unfolding w3 by (simp add: loop_ok_def w2)
    qed
  qed
qed

text \<open>The states of a run of the loop, which may go on for ever.\<close>

inductive watch_reaches ::
  "(string \<Rightarrow> bool) \<Rightarrow> 'w watch_client \<Rightarrow> watch_options \<Rightarrow> 'w terminal \<Rightarrow> 'w \<Rightarrow> watch_loop_state \<Rightarrow> 'w \<Rightarrow> bool"
  for up wc wo tm w0 where
  watch_starts: "watch_reaches up wc wo tm w0 watch_loop_start w0"
| watch_goes_on: "watch_reaches up wc wo tm w0 st w \<Longrightarrow> watch_iteration up wc wo tm st w = Some (Inr st', w') \<Longrightarrow>
    watch_reaches up wc wo tm w0 st' w'"

lemma reached_ok:
  "watch_reaches up (recording_client wc) wo (recording_terminal tm) w0 st w \<Longrightarrow> snd w0 = [] \<Longrightarrow>
     loop_ok up (wo_clear wo) st (snd w)"
proof (induction rule: watch_reaches.induct)
  case watch_starts
  then show ?case
    by (simp add: loop_ok_def decisions_on_screen_def no_item_key_def watch_loop_start_def)
next
  case (watch_goes_on st w st' w')
  then show ?case using iteration_recorded by blast
qed

text \<open>
  C31: in every run of the plain loop, whatever the broker lists from one round to the next and
  whatever is typed, an approval or a denial is sent only for the request whose screen was written
  last, with nothing but prompts after it.
\<close>

theorem decisions_follow_their_screen:
  assumes "watch_reaches up (recording_client wc) wo (recording_terminal tm) (w0, []) st w"
    and "watch_iteration up (recording_client wc) wo (recording_terminal tm) st w = Some (r, (w', tr))"
    and "tr = before @ Sent action i # later"
  shows "on_screen up (wo_clear wo) i before"
proof -
  have "loop_ok up (wo_clear wo) st (snd w)" by (rule reached_ok [OF assms(1)]) simp
  from iteration_recorded [OF assms(2) this] have "decisions_on_screen up (wo_clear wo) tr" by simp
  with assms(3) show ?thesis by (simp add: decisions_on_screen_def)
qed

section \<open>A terminal that answers\<close>

definition demo_watch_client :: "unit watch_client" where
  "demo_watch_client =
     \<lparr>wc_list = \<lambda>w. (Inr [hostile_item], w), wc_approve = \<lambda>_ _ w. (None, w), wc_deny = \<lambda>_ _ w. (None, w)\<rparr>"

definition demo_terminal :: "string \<Rightarrow> unit terminal" where
  "demo_terminal line =
     \<lparr>tm_read = \<lambda>w. ((line, if line = '''' then InputFailed (Plain ''input/output error'') else LineRead), w),
      tm_write = \<lambda>_ w. w, tm_now = \<lambda>w. (''12:00'', w), tm_pause = \<lambda>_ w. w\<rparr>"

definition demo_watch_options :: watch_options where
  "demo_watch_options =
     \<lparr>wo_target = ''unix:///o.sock'', wo_poll_interval = 3 * second, wo_poll_text = ''3s'', wo_default_ttl = 5,
      wo_once = False, wo_interactive = False, wo_clear = False\<rparr>"

theorem failing_input_prompts_for_ever_witness: "prompt_watch_decision (demo_terminal '''') () = None"
  by (rule failing_input_prompts_for_ever) (simp add: demo_terminal_def)

lemma demo_decision:
  "prompt_watch_decision (recording_terminal (demo_terminal ''y'')) ((), tr) =
     Some (Some DecideApprove, ((), tr @ [Wrote action_prompt]))"
proof -
  have "decision_of ''y'' = Some DecideApprove" by code_simp
  then show ?thesis
    by (subst prompt_watch_decision.simps) (simp add: recording_terminal_def demo_terminal_def)
qed

theorem decisions_follow_their_screen_witness:
  "\<exists>before later. snd (snd (the (watch_iteration (\<lambda>_. True) (recording_client demo_watch_client) demo_watch_options
      (recording_terminal (demo_terminal ''y'')) watch_loop_start ((), [])))) =
     before @ Sent ActionApprove ''req_1'' # later \<and> on_screen (\<lambda>_. True) False ''req_1'' before"
proof -
  let ?c = "recording_client demo_watch_client" and ?t = "recording_terminal (demo_terminal ''y'')"
  have c: "wc_list ?c ((), tr) = (Inr [hostile_item], ((), tr))"
    "wc_approve ?c k ttl ((), tr) = (None, ((), tr @ [Sent ActionApprove k]))" for k ttl tr
    by (simp_all add: recording_client_def demo_watch_client_def)
  have t: "tm_now ?t ((), tr) = (''12:00'', ((), tr))" "tm_write ?t s ((), tr) = ((), tr @ [Wrote s])" for s tr
    by (simp_all add: recording_terminal_def demo_terminal_def)
  have h: "pi_id hostile_item = ''req_1''" by (simp add: hostile_item_def)
  have s: "select_watch_item [hostile_item] [] = (Some hostile_item, 0, '''')"
    by (simp add: select_watch_item_def unskipped_pending_count_def)
  have k: "watch_render_key g (Some it) n m \<noteq> ''''" for g it n m by (simp add: watch_render_key_def)
  obtain st x where "watch_iteration (\<lambda>_. True) ?c demo_watch_options ?t watch_loop_start ((), []) =
      decide (\<lambda>_. True) ?c demo_watch_options ?t hostile_item st ((), [Wrote x])"
    by (simp add: watch_iteration_def Let_def c s t k watch_loop_start_def prune_watch_skipped_def)
  then have "\<exists>r before later. watch_iteration (\<lambda>_. True) ?c demo_watch_options ?t watch_loop_start ((), []) =
      Some (r, ((), before @ Sent ActionApprove ''req_1'' # later))"
    by (simp add: decide_def demo_decision act_on_def execute_watch_action_def c t h)
      (rule exI [of _ "[Wrote x, Wrote action_prompt]"], simp)
  then obtain r before later where e: "watch_iteration (\<lambda>_. True) ?c demo_watch_options ?t watch_loop_start ((), []) =
      Some (r, ((), before @ Sent ActionApprove ''req_1'' # later))" by blast
  have "on_screen (\<lambda>_. True) (wo_clear demo_watch_options) ''req_1'' before"
    by (rule decisions_follow_their_screen [OF watch_starts e refl])
  with e show ?thesis by (auto simp: demo_watch_options_def)
qed

end
