(* ===== verification/WatchTui.thy ===== *)
theory WatchTui
  imports Watch
begin

text \<open>
  The interactive view of pending requests (\<open>cmd/promptlock/watch_tui.go\<close> and
  \<open>cmd/promptlock/watch_tui_render.go\<close>): a model that is updated by messages and gives commands,
  whose results come back as messages. The runtime that delivers them and the styles are the
  library's; a style is a parameter of what is rendered.
\<close>

section \<open>The model\<close>

text \<open>The history holds the time of an entry as it is shown.\<close>

record watch_tui_model =
  tu_items :: "pending_item list"
  tu_signature :: string
  tu_skipped :: "string list"
  tu_selected :: string
  tu_history_offset :: int
  tu_status :: string
  tu_action_pending :: bool
  tu_pending_action :: string
  tu_history :: "(string \<times> string) list"
  tu_fatal :: "gerror option"

definition new_watch_tui_model :: watch_tui_model where
  "new_watch_tui_model =
     \<lparr>tu_items = [], tu_signature = '''', tu_skipped = [], tu_selected = '''', tu_history_offset = 0,
      tu_status = '''', tu_action_pending = False, tu_pending_action = '''', tu_history = [], tu_fatal = None\<rparr>"

datatype tui_msg =
    PendingResult "gerror + pending_item list"
  | PollTick
  | ActionResult watch_action string string "gerror + string"
  | KeyPressed string
  | OtherMessage

datatype tui_cmd = FetchPending | StartTick | RunAction pending_item watch_action | QuitProgram

text \<open>What the program starts with.\<close>

definition tui_init :: "tui_cmd list" where
  "tui_init = [FetchPending, StartTick]"

section \<open>Selection\<close>

definition selected_watch_item :: "pending_item list \<Rightarrow> string \<Rightarrow> (pending_item \<times> nat) option" where
  "selected_watch_item items selected =
     (case items of
        [] \<Rightarrow> None
      | first # _ \<Rightarrow>
          (case find (\<lambda>n. pi_id (items ! n) = selected) [0..<length items] of
             Some n \<Rightarrow> Some (items ! n, n)
           | None \<Rightarrow> Some (first, 0)))"

definition tui_queue :: "watch_tui_model \<Rightarrow> pending_item list" where
  "tui_queue m = visible_watch_items (tu_items m) (tu_skipped m)"

definition selected_item :: "watch_tui_model \<Rightarrow> pending_item option" where
  "selected_item m = map_option fst (selected_watch_item (tui_queue m) (tu_selected m))"

definition ensure_selection :: "watch_tui_model \<Rightarrow> watch_tui_model" where
  "ensure_selection m =
     (case tui_queue m of
        [] \<Rightarrow> m\<lparr>tu_selected := ''''\<rparr>
      | first # _ \<Rightarrow>
          if tu_selected m \<in> set (map pi_id (tui_queue m)) then m else m\<lparr>tu_selected := pi_id first\<rparr>)"

definition move_selection :: "int \<Rightarrow> watch_tui_model \<Rightarrow> watch_tui_model" where
  "move_selection delta m =
     (let queue = tui_queue m in
      case selected_watch_item queue (tu_selected m) of
        None \<Rightarrow> m\<lparr>tu_selected := ''''\<rparr>
      | Some (_, idx) \<Rightarrow>
          (let nxt = int idx + delta;
               nxt = (if nxt < 0 then 0 else nxt);
               nxt = (if int (length queue) \<le> nxt then int (length queue) - 1 else nxt)
           in m\<lparr>tu_selected := pi_id (queue ! nat nxt)\<rparr>))"

definition watch_history_render_limit :: int where "watch_history_render_limit = 6"

definition scroll_history :: "int \<Rightarrow> watch_tui_model \<Rightarrow> watch_tui_model" where
  "scroll_history delta m =
     (let max_offset = max 0 (int (length (tu_history m)) - watch_history_render_limit);
          offset = max 0 (tu_history_offset m + delta)
      in m\<lparr>tu_history_offset := min offset max_offset\<rparr>)"

definition append_history :: "string \<Rightarrow> string \<Rightarrow> watch_tui_model \<Rightarrow> watch_tui_model" where
  "append_history now text m =
     (if trim_space text = '''' then m else m\<lparr>tu_history := tu_history m @ [(now, text)]\<rparr>)"

section \<open>Updates\<close>

definition apply_pending_items :: "pending_item list \<Rightarrow> watch_tui_model \<Rightarrow> watch_tui_model" where
  "apply_pending_items items m =
     ensure_selection (m\<lparr>tu_items := items, tu_signature := pending_membership_signature items,
       tu_skipped := prune_watch_skipped (tu_skipped m) items\<rparr>)"

definition skip_current :: "(string \<Rightarrow> bool) \<Rightarrow> string \<Rightarrow> watch_tui_model \<Rightarrow> watch_tui_model" where
  "skip_current up now m =
     (case selected_item m of
        None \<Rightarrow> m
      | Some it \<Rightarrow>
          (let status = ''skipped: '' @ watch_decision_summary up it in
           ensure_selection (append_history now status
             (m\<lparr>tu_skipped := pi_id it # tu_skipped m, tu_status := status\<rparr>))))"

definition start_action ::
  "(string \<Rightarrow> bool) \<Rightarrow> watch_action \<Rightarrow> watch_tui_model \<Rightarrow> watch_tui_model \<times> tui_cmd list" where
  "start_action up action m =
     (case selected_item m of
        None \<Rightarrow> (m, [])
      | Some it \<Rightarrow>
          (let pending = watch_action_pending_message up action it in
           (m\<lparr>tu_action_pending := True, tu_pending_action := pending, tu_status := pending\<rparr>,
            [RunAction it action])))"

definition browse_key ::
  "(string \<Rightarrow> bool) \<Rightarrow> string \<Rightarrow> string \<Rightarrow> watch_tui_model \<Rightarrow> watch_tui_model \<times> tui_cmd list" where
  "browse_key up now key m =
     (if key = ''ctrl+c'' \<or> key = ''q'' then
        (m\<lparr>tu_status := ''watch exited; leaving pending requests untouched''\<rparr>, [QuitProgram])
      else if key = ''j'' then (move_selection 1 m, [])
      else if key = ''k'' then (move_selection (-1) m, [])
      else if key = ''up'' \<or> key = ''['' then (scroll_history 1 m, [])
      else if key = ''down'' \<or> key = '']'' then (scroll_history (-1) m, [])
      else if key = ''s'' then (skip_current up now m, [])
      else (m, []))"

definition handle_key ::
  "(string \<Rightarrow> bool) \<Rightarrow> string \<Rightarrow> string \<Rightarrow> watch_tui_model \<Rightarrow> watch_tui_model \<times> tui_cmd list" where
  "handle_key up now key m =
     (if tu_action_pending m then (m\<lparr>tu_status := tu_pending_action m\<rparr>, [])
      else if key = ''y'' then start_action up ActionApprove m
      else if key = ''n'' then start_action up ActionDeny m
      else browse_key up now key m)"

definition tui_update ::
  "(string \<Rightarrow> bool) \<Rightarrow> string \<Rightarrow> tui_msg \<Rightarrow> watch_tui_model \<Rightarrow> watch_tui_model \<times> tui_cmd list" where
  "tui_update up now msg m =
     (case msg of
        PendingResult (Inl e) \<Rightarrow> (m\<lparr>tu_fatal := Some e\<rparr>, [QuitProgram])
      | PendingResult (Inr items) \<Rightarrow> (apply_pending_items items m, [])
      | PollTick \<Rightarrow> (m, [FetchPending, StartTick])
      | ActionResult action request_id summary r \<Rightarrow>
          (let m = m\<lparr>tu_action_pending := False, tu_pending_action := ''''\<rparr> in
           case r of
             Inl e \<Rightarrow>
               (let subject = (if trim_space summary \<noteq> '''' then summary else request_id) in
                (m\<lparr>tu_status := sanitize_terminal_text up
                    (watch_action_text action @ '' failed: '' @ subject @ '': '' @ err_msg e)\<rparr>, []))
           | Inr status \<Rightarrow> (append_history now status (m\<lparr>tu_status := status\<rparr>), [FetchPending]))
      | KeyPressed key \<Rightarrow> handle_key up now key m
      | OtherMessage \<Rightarrow> (m, []))"

text \<open>The commands that call the broker, and their messages.\<close>

definition watch_fetch_pending_cmd :: "'w watch_client \<Rightarrow> 'w \<Rightarrow> tui_msg \<times> 'w" where
  "watch_fetch_pending_cmd wc w = (case wc_list wc w of (r, w) \<Rightarrow> (PendingResult r, w))"

definition watch_action_cmd ::
  "(string \<Rightarrow> bool) \<Rightarrow> 'w watch_client \<Rightarrow> pending_item \<Rightarrow> watch_action \<Rightarrow> int \<Rightarrow> 'w \<Rightarrow> tui_msg \<times> 'w" where
  "watch_action_cmd up wc it action ttl w =
     (case execute_watch_action wc it action ttl w of
        (r, w) \<Rightarrow>
          (ActionResult action (pi_id it) (watch_decision_summary up it)
             (case r of Inl e \<Rightarrow> Inl e | Inr _ \<Rightarrow> Inr (watch_action_status_message up action it)), w))"

text \<open>An interval that is no duration counts as three seconds.\<close>

definition poll_tick_interval :: "int \<Rightarrow> int" where
  "poll_tick_interval interval = (if interval \<le> 0 then 3 * second else interval)"

section \<open>The view\<close>

definition watch_queue_message :: "nat \<Rightarrow> nat \<Rightarrow> string" where
  "watch_queue_message pending visible =
     (if pending = 0 then ''Watching for pending requests...''
      else if visible = 0 then ''All current pending requests are deferred with skip. New requests will '' @
        ''still appear; skipped requests stay hidden until they leave the queue.''
      else '''')"

record watch_tui_view =
  vt_pending :: nat
  vt_queue :: "pending_item list"
  vt_current :: "pending_item option"
  vt_selected :: nat
  vt_skipped :: nat
  vt_message :: string
  vt_status :: string
  vt_history :: "(string \<times> string) list"
  vt_history_offset :: int
  vt_action_pending :: bool

definition tui_view :: "watch_tui_model \<Rightarrow> watch_tui_view" where
  "tui_view m =
     (let queue = tui_queue m; sel = selected_watch_item queue (tu_selected m) in
      \<lparr>vt_pending = length (tu_items m), vt_queue = queue, vt_current = map_option fst sel,
       vt_selected = (case sel of None \<Rightarrow> 0 | Some (_, n) \<Rightarrow> n), vt_skipped = length (remdups (tu_skipped m)),
       vt_message = watch_queue_message (length (tu_items m)) (length queue), vt_status = tu_status m,
       vt_history = tu_history m, vt_history_offset = tu_history_offset m,
       vt_action_pending = tu_action_pending m\<rparr>)"

definition detail_line :: "(string \<Rightarrow> string) \<Rightarrow> string \<Rightarrow> string \<Rightarrow> string" where
  "detail_line bold label value = bold (label @ '':'') @ '' '' @ value"

definition filled_detail :: "(string \<Rightarrow> string) \<Rightarrow> (string \<Rightarrow> bool) \<Rightarrow> string \<Rightarrow> string \<Rightarrow> string list" where
  "filled_detail bold up label value =
     (if trim_space value = '''' then [] else [detail_line bold label (watch_display_value up value)])"

definition tui_body_lines :: "(string \<Rightarrow> string) \<Rightarrow> (string \<Rightarrow> bool) \<Rightarrow> watch_tui_view \<Rightarrow> string list" where
  "tui_body_lines bold up v =
     (case vt_current v of
        None \<Rightarrow> [vt_message v] @ (if vt_pending v = 0 then [''Waiting for the next approval request.''] else [])
      | Some it \<Rightarrow>
          [''Current request'',
           detail_line bold ''Request'' (watch_display_value up (pi_id it)),
           detail_line bold ''Agent'' (watch_display_value up (pi_agent_id it)),
           detail_line bold ''Task'' (watch_display_value up (pi_task_id it)),
           detail_line bold ''TTL'' (itoa (pi_ttl_minutes it) @ '' minutes'')] @
          (if vt_queue v = [] then []
           else [detail_line bold ''Queue'' (itoa (int (length (vt_queue v))) @ '' pending | selected '' @
             itoa (int (vt_selected v) + 1) @ '' of '' @ itoa (int (length (vt_queue v))))]) @
          filled_detail bold up ''Intent'' (pi_intent it) @
          [detail_line bold ''Reason'' (watch_display_value up (pi_reason it)),
           detail_line bold ''Secrets'' (watch_join_sanitized up (pi_secrets it))] @
          filled_detail bold up ''Command'' (pi_command_summary it) @
          filled_detail bold up ''Workdir'' (pi_workdir_summary it) @
          [detail_line bold ''Command FP'' (watch_display_value up (pi_command_fingerprint it)),
           detail_line bold ''Workdir FP'' (watch_display_value up (pi_workdir_fingerprint it))] @
          filled_detail bold up ''Env Path'' (pi_env_path it) @
          filled_detail bold up ''Env Path Canonical'' (pi_env_path_canonical it))"

definition tui_history_lines :: "(string \<Rightarrow> string) \<Rightarrow> (string \<Rightarrow> bool) \<Rightarrow> watch_tui_view \<Rightarrow> string list" where
  "tui_history_lines bold up v =
     (let n = int (length (vt_history v));
          upto = max 0 (n - vt_history_offset v);
          start = max 0 (upto - watch_history_render_limit)
      in if vt_history v = [] then []
         else [bold ''Recent activity''] @
           (if 0 < start then [itoa start @ '' earlier events not shown''] else []) @
           (if upto < n then [itoa (n - upto) @ '' newer events not shown''] else []) @
           map (\<lambda>(t, text). t @ '' '' @ watch_display_value up text)
             (take (nat (upto - start)) (drop (nat start) (vt_history v))))"

definition tui_queue_lines :: "(string \<Rightarrow> string) \<Rightarrow> (string \<Rightarrow> bool) \<Rightarrow> watch_tui_view \<Rightarrow> string list" where
  "tui_queue_lines bold up v =
     (let queue = vt_queue v;
          limit = min (length queue) 5;
          start = (if limit \<le> vt_selected v then vt_selected v - limit + 1 else 0);
          start = (if length queue < start + limit then length queue - limit else start);
          entry = (\<lambda>n. (if n = vt_selected v then ''>'' else '' '') @ '' '' @ itoa (int n + 1) @ ''. '' @
            watch_queue_summary up (queue ! n))
      in if length queue \<le> 1 \<and> vt_skipped v = 0 then []
         else [bold ''Pending queue''] @
           (if queue = [] then [''No active queue items selected.'']
            else map entry [start..<start + limit] @
              (if limit < length queue
               then [itoa (int (length queue) - int limit) @ '' more pending items not shown''] else [])) @
           (if 0 < vt_skipped v then [itoa (int (vt_skipped v)) @ '' deferred with skip''] else []))"

definition tui_status_line :: "(string \<Rightarrow> bool) \<Rightarrow> watch_tui_view \<Rightarrow> string" where
  "tui_status_line up v =
     (if trim_space (vt_status v) \<noteq> '''' then ''Status: '' @ sanitize_terminal_text up (vt_status v)
      else if trim_space (vt_message v) \<noteq> '''' then ''Status: '' @ sanitize_terminal_text up (vt_message v)
      else ''Status: ready'')"

section \<open>The program\<close>

text \<open>
  The runtime, as the states it can reach: the model, the commands under way, and the messages so far.
  A key may be pressed at any time; a command under way gives its message at any time, whatever
  the broker answers. After \<open>QuitProgram\<close> nothing is delivered.
\<close>

fun message_of :: "tui_cmd \<Rightarrow> tui_msg \<Rightarrow> bool" where
  "message_of FetchPending msg = (case msg of PendingResult _ \<Rightarrow> True | _ \<Rightarrow> False)"
| "message_of StartTick msg = (msg = PollTick)"
| "message_of (RunAction it a) msg = (case msg of ActionResult b i _ _ \<Rightarrow> b = a \<and> i = pi_id it | _ \<Rightarrow> False)"
| "message_of QuitProgram msg = False"

inductive tui_reaches ::
  "(string \<Rightarrow> bool) \<Rightarrow> watch_tui_model \<Rightarrow> tui_cmd multiset \<Rightarrow> tui_msg list \<Rightarrow> bool"
  for up where
  tui_starts: "tui_reaches up new_watch_tui_model (mset tui_init) []"
| tui_key: "tui_reaches up m cmds tr \<Longrightarrow> QuitProgram \<notin># cmds \<Longrightarrow>
    tui_update up now (KeyPressed key) m = (m', new) \<Longrightarrow>
    tui_reaches up m' (cmds + mset new) (tr @ [KeyPressed key])"
| tui_result: "tui_reaches up m cmds tr \<Longrightarrow> QuitProgram \<notin># cmds \<Longrightarrow> c \<in># cmds \<Longrightarrow> message_of c msg \<Longrightarrow>
    tui_update up now msg m = (m', new) \<Longrightarrow>
    tui_reaches up m' (cmds - {#c#} + mset new) (tr @ [msg])"

definition is_action :: "tui_cmd \<Rightarrow> bool" where
  "is_action c \<longleftrightarrow> (\<exists>it a. c = RunAction it a)"

lemma is_action_simps [simp]:
  "is_action (RunAction it a)" "\<not> is_action FetchPending" "\<not> is_action StartTick" "\<not> is_action QuitProgram"
  by (simp_all add: is_action_def)

definition actions :: "tui_cmd multiset \<Rightarrow> nat" where
  "actions cmds = size (filter_mset is_action cmds)"

lemma actions_simps [simp]:
  "actions (A + B) = actions A + actions B" "actions {#} = 0"
  "actions (add_mset c A) = (if is_action c then Suc (actions A) else actions A)"
  by (simp_all add: actions_def)

lemma actions_remove: "c \<in># cmds \<Longrightarrow> actions (cmds - {#c#}) = (if is_action c then actions cmds - 1 else actions cmds)"
  by (auto simp: actions_def size_Diff_singleton)

text \<open>Which updates change that an action is under way, and the actions they start.\<close>

lemma ensure_selection_pending [simp]: "tu_action_pending (ensure_selection m) = tu_action_pending m"
  by (simp add: ensure_selection_def split: list.split)

lemma selection_pending [simp]:
  "tu_action_pending (move_selection d m) = tu_action_pending m"
  "tu_action_pending (scroll_history d m) = tu_action_pending m"
  "tu_action_pending (append_history now text m) = tu_action_pending m"
  "tu_action_pending (apply_pending_items items m) = tu_action_pending m"
  by (simp_all add: move_selection_def scroll_history_def append_history_def apply_pending_items_def Let_def
      split: option.split)

lemma skip_pending [simp]: "tu_action_pending (skip_current up now m) = tu_action_pending m"
  by (simp add: skip_current_def Let_def split: option.split)

lemma browse_pending:
  "tu_action_pending (fst (browse_key up now key m)) = tu_action_pending m \<and>
   (\<forall>c\<in>set (snd (browse_key up now key m)). c = QuitProgram)"
  by (simp add: browse_key_def)

lemma handle_key_cases:
  assumes "handle_key up now key m = (m', new)"
  obtains (none) "tu_action_pending m' = tu_action_pending m" "actions (mset new) = 0" "\<forall>c\<in>set new. c = QuitProgram"
  | (starts) it a where "\<not> tu_action_pending m" "key = (case a of ActionApprove \<Rightarrow> ''y'' | ActionDeny \<Rightarrow> ''n'')"
      "selected_item m = Some it" "new = [RunAction it a]" "tu_action_pending m'"
proof -
  have quits: "actions (mset cs) = 0" if "\<forall>c\<in>set cs. c = QuitProgram" for cs
    using that by (induction cs) auto
  have act: thesis if "start_action up a m = (m', new)" "\<not> tu_action_pending m"
    "key = (case a of ActionApprove \<Rightarrow> ''y'' | ActionDeny \<Rightarrow> ''n'')" for a
    using that none starts by (cases "selected_item m") (auto simp: start_action_def Let_def)
  show thesis
  proof (cases "tu_action_pending m")
    case True
    with assms none show thesis by (auto simp: handle_key_def)
  next
    case unlocked: False
    consider "key = ''y''" | "key = ''n''" | "key \<noteq> ''y''" "key \<noteq> ''n''" by blast
    then show thesis
    proof cases
      case 3
      with assms unlocked have "browse_key up now key m = (m', new)" by (simp add: handle_key_def)
      with browse_pending [of up now key m] quits [of new] none show thesis by simp
    qed (use assms unlocked act [of ActionApprove] act [of ActionDeny] in \<open>simp_all add: handle_key_def\<close>)
  qed
qed

lemma key_pending:
  assumes "handle_key up now key m = (m', new)"
  shows "actions (mset new) = (if tu_action_pending m' \<and> \<not> tu_action_pending m then 1 else 0) \<and>
    (tu_action_pending m \<longrightarrow> tu_action_pending m')"
  using assms by (rule handle_key_cases) auto

lemma key_action:
  assumes "handle_key up now key m = (m', new)" "RunAction it a \<in> set new"
  shows "\<not> tu_action_pending m \<and> key = (case a of ActionApprove \<Rightarrow> ''y'' | ActionDeny \<Rightarrow> ''n'') \<and>
    selected_item m = Some it"
  using assms(1) by (rule handle_key_cases) (use assms(2) in auto)

lemma selected_is_visible:
  assumes "selected_item m = Some it"
  shows "it \<in> set (tu_items m) \<and> pi_id it \<notin> set (tu_skipped m)"
proof -
  have "it \<in> set (tui_queue m)"
  proof (cases "find (\<lambda>n. pi_id (tui_queue m ! n) = tu_selected m) [0..<length (tui_queue m)]")
    case None
    with assms show ?thesis
      by (cases "tui_queue m") (simp_all add: selected_item_def selected_watch_item_def)
  next
    case (Some n)
    then have "n < length (tui_queue m)" by (auto simp: find_Some_iff simp del: upt_Suc)
    moreover have "it = tui_queue m ! n"
      using assms Some by (cases "tui_queue m") (simp_all add: selected_item_def selected_watch_item_def)
    ultimately show ?thesis by simp
  qed
  then show ?thesis by (simp add: tui_queue_def visible_watch_items_def)
qed

lemma message_pending:
  assumes "tui_update up now msg m = (m', new)" "message_of c msg"
  shows "actions (mset new) = 0 \<and> (tu_action_pending m' \<longleftrightarrow> tu_action_pending m \<and> \<not> is_action c)"
  using assms by (cases c) (auto simp: tui_update_def Let_def split: tui_msg.splits sum.splits)

lemma reached_pending:
  "tui_reaches up m cmds tr \<Longrightarrow> actions cmds = (if tu_action_pending m then 1 else 0)"
proof (induction rule: tui_reaches.induct)
  case tui_starts
  then show ?case by (simp add: new_watch_tui_model_def tui_init_def)
next
  case (tui_key m cmds tr now key m' new)
  then show ?case using key_pending [of up now key m m' new] by (auto simp: tui_update_def)
next
  case (tui_result m cmds tr c msg now m' new)
  note p = message_pending [OF tui_result(5,4)]
  show ?case using tui_result.IH p actions_remove [OF tui_result(3)] by auto
qed

text \<open>
  C32: the interactive view sends a decision only when the operator asks for it, for the request it
  shows as the current one, and one at a time: in every state the program can reach, an approval or a
  denial is under way exactly when the input is locked, at most one is, and a further one is only
  started by the key y or n on the unlocked input, for the current request of the view, which is
  pending and was not skipped.
\<close>

theorem tui_decides_for_the_current_request:
  assumes "tui_reaches up m cmds tr"
  shows "actions cmds = (if tu_action_pending m then 1 else 0) \<and>
    (\<forall>now msg m' new it a. tui_update up now msg m = (m', new) \<and> RunAction it a \<in> set new \<longrightarrow>
       msg = KeyPressed (case a of ActionApprove \<Rightarrow> ''y'' | ActionDeny \<Rightarrow> ''n'') \<and> actions cmds = 0 \<and>
       vt_current (tui_view m) = Some it \<and> it \<in> set (tu_items m) \<and> pi_id it \<notin> set (tu_skipped m))"
proof (intro conjI allI impI)
  note p = reached_pending [OF assms]
  show "actions cmds = (if tu_action_pending m then 1 else 0)" by (rule p)
  fix now msg m' new it a
  assume u: "tui_update up now msg m = (m', new) \<and> RunAction it a \<in> set new"
  then obtain key where k: "msg = KeyPressed key" "handle_key up now key m = (m', new)"
    by (auto simp: tui_update_def Let_def split: tui_msg.splits sum.splits)
  from key_action [OF k(2)] u have a: "\<not> tu_action_pending m"
    "key = (case a of ActionApprove \<Rightarrow> ''y'' | ActionDeny \<Rightarrow> ''n'')" "selected_item m = Some it" by blast+
  show "msg = KeyPressed (case a of ActionApprove \<Rightarrow> ''y'' | ActionDeny \<Rightarrow> ''n'')" using k(1) a(2) by simp
  show "actions cmds = 0" using p a(1) by simp
  show "vt_current (tui_view m) = Some it" using a(3) by (simp add: tui_view_def Let_def selected_item_def)
  show "it \<in> set (tu_items m)" "pi_id it \<notin> set (tu_skipped m)" using selected_is_visible [OF a(3)] by blast+
qed

theorem tui_decides_for_the_current_request_witness:
  "\<exists>m cmds tr. tui_reaches (\<lambda>_. True) m cmds tr \<and> actions cmds = 1 \<and> tu_action_pending m"
proof -
  let ?up = "\<lambda>_. True"
  obtain m1 where m1: "tui_update ?up ''t'' (PendingResult (Inr [hostile_item])) new_watch_tui_model = (m1, [])"
    and i: "selected_item m1 = Some hostile_item" "\<not> tu_action_pending m1"
    by (simp add: tui_update_def apply_pending_items_def ensure_selection_def tui_queue_def visible_watch_items_def
        prune_watch_skipped_def new_watch_tui_model_def selected_item_def selected_watch_item_def)
  have r1: "tui_reaches ?up m1 (mset tui_init - {#FetchPending#} + mset []) ([] @ [PendingResult (Inr [hostile_item])])"
    by (rule tui_result [OF tui_starts _ _ _ m1]) (simp_all add: tui_init_def)
  obtain m2 new where m2: "tui_update ?up ''t'' (KeyPressed ''y'') m1 = (m2, new)" "tu_action_pending m2"
    using i by (simp add: tui_update_def handle_key_def start_action_def Let_def)
  have r2: "tui_reaches ?up m2 (mset tui_init - {#FetchPending#} + mset [] + mset new)
      (([] @ [PendingResult (Inr [hostile_item])]) @ [KeyPressed ''y''])"
    by (rule tui_key [OF r1 _ m2(1)]) (simp add: tui_init_def)
  from tui_decides_for_the_current_request [OF r2] m2(2) have "actions (mset tui_init - {#FetchPending#} + mset [] + mset new) = 1"
    by simp
  with r2 m2(2) show ?thesis by blast
qed

end
