(* ===== verification/CliExec.thy ===== *)
theory CliExec
  imports CliBroker McpClient Execution
begin

text \<open>
  The command \<open>exec\<close> of the command line (\<open>cmd/promptlock/exec.go\<close>) with its helpers
  (\<open>cmd/promptlock/common.go\<close>, \<open>cmd/promptlock/exec_env.go\<close>), and \<open>audit-verify\<close>
  (\<open>cmd/promptlock/audit_cmd.go\<close>). Flags come parsed.
\<close>

section \<open>Helpers\<close>

definition command_fingerprint :: "string list \<Rightarrow> string" where
  "command_fingerprint cmd = sha256_hex (join [CHR 0x00] cmd)"

definition workdir_fingerprint :: "'w host \<Rightarrow> 'w \<Rightarrow> gerror + string" where
  "workdir_fingerprint sy w = (case hs_getwd sy w of Inl e \<Rightarrow> Inl e | Inr wd \<Rightarrow> Inr (sha256_hex wd))"

definition risky_patterns :: "string list" where
  "risky_patterns = [''printenv'', '' env'', ''/proc/'', ''environ'', ''set '']"

definition detect_risky_command :: "string list \<Rightarrow> string" where
  "detect_risky_command cmd =
     (let joined = to_lower (join '' '' cmd) in
      case find (\<lambda>r. contains joined r) risky_patterns of
        None \<Rightarrow> ''''
      | Some r \<Rightarrow> ''contains risky pattern '' @ quote (trim_space r))"

text \<open>What follows the first \<open>--\<close>, or everything.\<close>

definition after_separator :: "string list \<Rightarrow> string list" where
  "after_separator args = (if ''--'' \<in> set args then tl (dropWhile (\<lambda>a. a \<noteq> ''--'') args) else args)"

definition csv_secrets :: "string \<Rightarrow> string list" where
  "csv_secrets s = filter (\<lambda>x. x \<noteq> '''') (map trim_space (split_char (CHR '','') s))"

section \<open>Calls\<close>

record exec_decoders =
  xd_secrets :: "gerror + string \<Rightarrow> gerror + string list option"
  xd_request_id :: "gerror + string \<Rightarrow> gerror + string"
  xd_lease_token :: "gerror + string \<Rightarrow> gerror + string"
  xd_value :: "gerror + string \<Rightarrow> gerror + string"
  xd_status :: "gerror + string \<Rightarrow> gerror + string"
  xd_capabilities :: "gerror + string \<Rightarrow> gerror + capabilities"
  xd_exec :: "gerror + string \<Rightarrow> gerror + int \<times> string"

definition resolve_intent ::
  "'w cli \<Rightarrow> exec_decoders \<Rightarrow> broker_selection \<Rightarrow> string \<Rightarrow> string \<Rightarrow> 'w \<Rightarrow> (gerror + string list) \<times> 'w" where
  "resolve_intent cl xd b token intent w =
     and_then (post_json_auth cl b ''/v1/intents/resolve'' token
         (json_object [(''intent'', json_quote intent)]) (xd_secrets xd) w)
       (\<lambda>secrets w. (Inr (case secrets of None \<Rightarrow> [] | Some ss \<Rightarrow> ss), w))"

text \<open>A field of a request that is left out when it is empty.\<close>

definition omit_if_empty :: "string \<Rightarrow> string \<Rightarrow> (string \<times> string) list" where
  "omit_if_empty key v = (if v = '''' then [] else [(key, json_quote v)])"

record lease_request_body =
  lq_agent :: string
  lq_task :: string
  lq_intent :: string
  lq_reason :: string
  lq_ttl :: int
  lq_secrets :: "string list"
  lq_command_fp :: string
  lq_workdir_fp :: string
  lq_command_summary :: string
  lq_workdir_summary :: string
  lq_env_path :: string

definition lease_request_text :: "lease_request_body \<Rightarrow> string" where
  "lease_request_text q =
     json_object
       ([(''agent_id'', json_quote (lq_agent q)), (''task_id'', json_quote (lq_task q))] @
        omit_if_empty ''intent'' (lq_intent q) @
        [(''reason'', json_quote (lq_reason q)), (''ttl_minutes'', itoa (lq_ttl q)),
         (''secrets'', json_strings (Some (lq_secrets q))),
         (''command_fingerprint'', json_quote (lq_command_fp q)),
         (''workdir_fingerprint'', json_quote (lq_workdir_fp q))] @
        omit_if_empty ''command_summary'' (lq_command_summary q) @
        omit_if_empty ''workdir_summary'' (lq_workdir_summary q) @
        omit_if_empty ''env_path'' (lq_env_path q))"

definition request_lease ::
  "'w cli \<Rightarrow> exec_decoders \<Rightarrow> broker_selection \<Rightarrow> string \<Rightarrow> lease_request_body \<Rightarrow> 'w \<Rightarrow> (gerror + string) \<times> 'w" where
  "request_lease cl xd b token q w =
     not_empty ''empty request_id''
       (post_json_auth cl b ''/v1/leases/request'' token (lease_request_text q) (xd_request_id xd) w)"

definition access_secret_value ::
  "'w cli \<Rightarrow> exec_decoders \<Rightarrow> broker_selection \<Rightarrow> string \<Rightarrow> string \<Rightarrow> string \<Rightarrow> string \<Rightarrow> string \<Rightarrow> 'w \<Rightarrow>
   (gerror + string) \<times> 'w" where
  "access_secret_value cl xd b token lease secret fp wdfp w =
     post_json_auth cl b ''/v1/leases/access'' token
       (json_text_map [(''lease_token'', json_quote lease), (''secret'', json_quote secret),
          (''command_fingerprint'', json_quote fp), (''workdir_fingerprint'', json_quote wdfp)])
       (xd_value xd) w"

definition fetch_lease_by_request ::
  "'w cli \<Rightarrow> exec_decoders \<Rightarrow> broker_selection \<Rightarrow> string \<Rightarrow> string \<Rightarrow> 'w \<Rightarrow> (gerror + string) \<times> 'w" where
  "fetch_lease_by_request cl xd b token i w =
     not_empty ''empty lease token from approved request''
       (decoded_answer cl ''fetch lease failed'' (xd_lease_token xd)
          (cli_get cl b (''/v1/leases/by-request?request_id='' @ i) token w))"

definition cli_request_status ::
  "'w cli \<Rightarrow> exec_decoders \<Rightarrow> broker_selection \<Rightarrow> string \<Rightarrow> string \<Rightarrow> 'w \<Rightarrow> (gerror + string) \<times> 'w" where
  "cli_request_status cl xd b token i w =
     decoded_answer cl ''status check failed'' (xd_status xd)
       (cli_get cl b (''/v1/requests/status?request_id='' @ i) token w)"

text \<open>One round of the wait; an approval is followed by fetching its lease.\<close>

definition cli_approval_check ::
  "'w cli \<Rightarrow> exec_decoders \<Rightarrow> broker_selection \<Rightarrow> string \<Rightarrow> string \<Rightarrow> 'w \<Rightarrow> (gerror + string) option \<times> 'w" where
  "cli_approval_check cl xd b token i w =
     (case cli_request_status cl xd b token i w of
        (Inl e, w) \<Rightarrow> (Some (Inl e), w)
      | (Inr status, w) \<Rightarrow>
          if status = ''approved''
          then (case fetch_lease_by_request cl xd b token i w of (r, w) \<Rightarrow> (Some r, w))
          else if status = ''denied'' then (Some (Inl (Plain (''request denied: '' @ i))), w)
          else (None, w))"

record 'w exec_world =
  xe_now :: "'w \<Rightarrow> int \<times> 'w"
  xe_sleep :: "int \<Rightarrow> 'w \<Rightarrow> 'w"
  xe_environ :: "string list"
  xe_run :: "string list \<Rightarrow> string list \<Rightarrow> 'w \<Rightarrow> (gerror + int) \<times> 'w"

definition wait_for_approval ::
  "'w cli \<Rightarrow> exec_decoders \<Rightarrow> 'w exec_world \<Rightarrow> broker_selection \<Rightarrow> string \<Rightarrow> string \<Rightarrow> int \<Rightarrow> int \<Rightarrow> 'w \<Rightarrow>
   ((gerror + string) \<times> 'w) option" where
  "wait_for_approval cl xd xe b token i timeout poll w =
     (case xe_now xe w of
        (t, w) \<Rightarrow>
          poll_until (cli_approval_check cl xd b token i) (xe_now xe) (t + timeout) (xe_sleep xe poll)
            (Inl (Plain (''approval timeout for request '' @ i))) w)"

definition validate_exec_preconditions :: "capabilities \<Rightarrow> string \<Rightarrow> bool \<Rightarrow> gerror option" where
  "validate_exec_preconditions caps token broker_exec =
     (if cb_auth_enabled caps \<and> trim_space token = '''' then
        Some (Plain ''broker requires session token; provide --session-token or PROMPTLOCK_SESSION_TOKEN'')
      else if cb_auth_enabled caps \<and> \<not> cb_allow_plaintext caps \<and> \<not> broker_exec then
        Some (Plain ''broker policy disables plaintext secret return; re-run with --broker-exec'')
      else None)"

definition execute_with_secret ::
  "'w cli \<Rightarrow> exec_decoders \<Rightarrow> broker_selection \<Rightarrow> string \<Rightarrow> string \<Rightarrow> string \<Rightarrow> string list \<Rightarrow> string list \<Rightarrow>
   string \<Rightarrow> string \<Rightarrow> 'w \<Rightarrow> (gerror + int \<times> string) \<times> 'w" where
  "execute_with_secret cl xd b token lease intent cmd secrets fp wdfp w =
     post_json_auth cl b ''/v1/leases/execute'' token
       (json_text_map [(''lease_token'', json_quote lease), (''intent'', json_quote intent),
          (''command'', json_strings (Some cmd)), (''secrets'', json_strings (Some secrets)),
          (''command_fingerprint'', json_quote fp), (''workdir_fingerprint'', json_quote wdfp)])
       (xd_exec xd) w"

section \<open>The command\<close>

record exec_flags =
  ef_broker :: "string \<times> string"
  ef_agent :: string
  ef_task :: string
  ef_token :: string
  ef_reason :: string
  ef_ttl :: int
  ef_intent :: string
  ef_env_path :: string
  ef_secrets :: string
  ef_auto_approve :: bool
  ef_wait :: int
  ef_poll :: int
  ef_allow_risky :: bool
  ef_broker_exec :: bool
  ef_args :: "string list"

text \<open>
  How the command ends: with an error, which is printed and exits with 1, with the usage, which
  exits with 2, or with the exit code of the command and what the broker returned of its output.
\<close>

datatype exec_end = Failed gerror | MissingCommand | Ended int string

definition exec_secrets ::
  "'w cli \<Rightarrow> exec_decoders \<Rightarrow> exec_flags \<Rightarrow> broker_selection \<Rightarrow> 'w \<Rightarrow> (gerror + string list) \<times> 'w" where
  "exec_secrets cl xd f b w =
     and_then (if ef_intent f \<noteq> '''' then resolve_intent cl xd b (ef_token f) (ef_intent f) w
         else (Inr (csv_secrets (ef_secrets f)), w))
       (\<lambda>secrets w.
          (if secrets = [] then Inl (Plain ''no secrets resolved; use --intent or --secrets'') else Inr secrets, w))"

text \<open>What is checked before a lease is asked for; a broker that does not tell is not refused.\<close>

definition exec_preconditions ::
  "'w cli \<Rightarrow> exec_decoders \<Rightarrow> exec_flags \<Rightarrow> broker_selection \<Rightarrow> 'w \<Rightarrow> (gerror + unit) \<times> 'w" where
  "exec_preconditions cl xd f b w =
     (case broker_capabilities cl (xd_capabilities xd) b w of
        (caps, w) \<Rightarrow>
          (case (case caps of Inl _ \<Rightarrow> None
                 | Inr c \<Rightarrow> validate_exec_preconditions c (ef_token f) (ef_broker_exec f)) of
             Some e \<Rightarrow> (Inl e, w)
           | None \<Rightarrow>
               (if ef_broker_exec f \<and> trim_space (ef_intent f) = ''''
                then Inl (Plain ''--broker-exec requires --intent for intent-aware policy enforcement'')
                else Inr (), w)))"

definition exec_request ::
  "exec_flags \<Rightarrow> string list \<Rightarrow> string list \<Rightarrow> string \<Rightarrow> string \<Rightarrow> lease_request_body" where
  "exec_request f cmd secrets wdfp wd =
     \<lparr>lq_agent = ef_agent f, lq_task = ef_task f, lq_intent = trim_space (ef_intent f), lq_reason = ef_reason f,
      lq_ttl = ef_ttl f, lq_secrets = secrets, lq_command_fp = command_fingerprint cmd, lq_workdir_fp = wdfp,
      lq_command_summary = summarize_command_args cmd, lq_workdir_summary = summarize_workdir_path wd,
      lq_env_path = trim_space (ef_env_path f)\<rparr>"

text \<open>The lease: approved at once, which is for demonstrations, or waited for.\<close>

definition exec_lease ::
  "'w cli \<Rightarrow> exec_decoders \<Rightarrow> 'w exec_world \<Rightarrow> exec_flags \<Rightarrow> broker_selection \<Rightarrow> string \<Rightarrow> 'w \<Rightarrow>
   ((gerror + string) \<times> 'w) option" where
  "exec_lease cl xd xe f b i w =
     (if ef_auto_approve f then
        Some (if getenv (cl_env cl) ''PROMPTLOCK_DEV_MODE'' \<noteq> ''1''
          then (Inl (Plain ''--auto-approve is disabled unless PROMPTLOCK_DEV_MODE=1''), w)
          else and_then (resolve_flags cl (ef_broker f) RoleOperator w, w) (\<lambda>op w.
            approve cl (xd_lease_token xd) op (getenv (cl_env cl) ''PROMPTLOCK_OPERATOR_TOKEN'') i (ef_ttl f) w))
      else wait_for_approval cl xd xe b (ef_token f) i (ef_wait f) (ef_poll f) w)"

fun leased_values ::
  "'w cli \<Rightarrow> exec_decoders \<Rightarrow> broker_selection \<Rightarrow> string \<Rightarrow> string \<Rightarrow> string \<Rightarrow> string \<Rightarrow> string list \<Rightarrow> string go_map \<Rightarrow>
   'w \<Rightarrow> (gerror + string go_map) \<times> 'w" where
  "leased_values cl xd b token lease fp wdfp [] m w = (Inr m, w)"
| "leased_values cl xd b token lease fp wdfp (s # ss) m w =
     and_then (access_secret_value cl xd b token lease s fp wdfp w) (\<lambda>v w.
       leased_values cl xd b token lease fp wdfp ss (go_set m s v) w)"

definition ended_by :: "(gerror + exec_end) \<times> 'w \<Rightarrow> exec_end \<times> 'w" where
  "ended_by r = (case r of (Inl e, w) \<Rightarrow> (Failed e, w) | (Inr x, w) \<Rightarrow> (x, w))"

text \<open>With the lease: the broker executes, or the secrets are fetched and the command runs here.\<close>

definition exec_with_lease ::
  "'w cli \<Rightarrow> exec_decoders \<Rightarrow> 'w exec_world \<Rightarrow> exec_flags \<Rightarrow> broker_selection \<Rightarrow> string \<Rightarrow> string list \<Rightarrow> string list \<Rightarrow>
   string \<Rightarrow> 'w \<Rightarrow> exec_end \<times> 'w" where
  "exec_with_lease cl xd xe f b lease cmd secrets wdfp w =
     ended_by
       (if ef_broker_exec f then
          and_then (execute_with_secret cl xd b (ef_token f) lease (ef_intent f) cmd secrets
            (command_fingerprint cmd) wdfp w) (\<lambda>(code, output) w. (Inr (Ended code output), w))
        else
          and_then (leased_values cl xd b (ef_token f) lease (command_fingerprint cmd) wdfp secrets [] w) (\<lambda>vals w.
          and_then (xe_run xe cmd (build_execution_environment (xe_environ xe) vals) w) (\<lambda>code w.
            (Inr (Ended code ''''), w))))"

definition run_exec ::
  "'w cli \<Rightarrow> exec_decoders \<Rightarrow> 'w exec_world \<Rightarrow> exec_flags \<Rightarrow> 'w \<Rightarrow> (exec_end \<times> 'w) option" where
  "run_exec cl xd xe f w =
     (case resolve_flags cl (ef_broker f) RoleAgent w of
        Inl e \<Rightarrow> Some (Failed e, w)
      | Inr b \<Rightarrow>
     (let cmd = after_separator (ef_args f); risk = detect_risky_command cmd in
      if cmd = [] then Some (MissingCommand, w)
      else if \<not> ef_allow_risky f \<and> risk \<noteq> '''' then
        Some (Failed (Plain (''blocked by command policy: '' @ risk @ '' (use --allow-risky-command to override)'')), w)
      else case and_then (exec_secrets cl xd f b w) (\<lambda>secrets w.
            and_then (exec_preconditions cl xd f b w) (\<lambda>_ w.
            and_then (workdir_fingerprint (cl_host cl) w, w) (\<lambda>wdfp w.
            and_then (hs_getwd (cl_host cl) w, w) (\<lambda>wd w.
            and_then (request_lease cl xd b (ef_token f) (exec_request f cmd secrets wdfp wd) w) (\<lambda>i w.
              (Inr (secrets, wdfp, i), w)))))) of
        (Inl e, w) \<Rightarrow> Some (Failed e, w)
      | (Inr (secrets, wdfp, i), w) \<Rightarrow>
          (case exec_lease cl xd xe f b i w of
             None \<Rightarrow> None
           | Some (Inl e, w) \<Rightarrow> Some (Failed e, w)
           | Some (Inr lease, w) \<Rightarrow> Some (exec_with_lease cl xd xe f b lease cmd secrets wdfp w))))"

section \<open>Verifying the audit log\<close>

definition default_audit_verify_path :: "'w host \<Rightarrow> 'w \<Rightarrow> string" where
  "default_audit_verify_path sy w =
     (case load_workspace_setup_config sy
         (resolved_setup_config_path sy (getenv (hs_env sy) ''PROMPTLOCK_CONFIG'') w) w of
        None \<Rightarrow> ''''
      | Some c \<Rightarrow> trim_space (cf_audit_path c))"

definition read_audit :: "'w host \<Rightarrow> string \<Rightarrow> (string \<Rightarrow> gerror + 'a) \<Rightarrow> 'w \<Rightarrow> gerror + 'a" where
  "read_audit sy path verify w =
     (case hs_read sy path w of
        Inl e \<Rightarrow> Inl e
      | Inr None \<Rightarrow> Inl (Plain (''open '' @ path @ '': no such file or directory''))
      | Inr (Some content) \<Rightarrow> verify content)"

text \<open>The text that is printed. A checkpoint that cannot be read or is blank is not looked at.\<close>

definition run_audit_verify ::
  "'w host \<Rightarrow> 'w file_system \<Rightarrow> string \<Rightarrow> string \<Rightarrow> bool \<Rightarrow> bool \<Rightarrow> 'w \<Rightarrow> (gerror + string) \<times> 'w" where
  "run_audit_verify sy fs audit_path checkpoint print_file write w =
     (let path = (if trim_space audit_path = '''' then default_audit_verify_path sy w else audit_path) in
      if trim_space path = '''' then
        (Inl (Plain ''--file is required (or run from a workspace with promptlock setup)''), w)
      else if print_file then (Inr path, w)
      else
        let (prev, w) = (if checkpoint = '''' then ('''', w)
              else case read_checkpoint fs checkpoint w of (Inl _, w) \<Rightarrow> ('''', w) | (Inr p, w) \<Rightarrow> (p, w));
            verify = (if trim_space prev \<noteq> '''' then (\<lambda>c. verify_file_anchored c prev) else verify_file)
        in and_then (read_audit sy path verify w, w) (\<lambda>(lst, count) w.
           and_then (if checkpoint \<noteq> '''' \<and> write
               then (case write_checkpoint fs checkpoint lst w of (e, w) \<Rightarrow> (unless_error e (), w))
               else (Inr (), w)) (\<lambda>_ w.
             (Inr (''audit verify ok: records='' @ itoa (int count) @ '' last_hash='' @ lst), w))))"

end
