(* ===== verification/Spec2Isabelle.thy ===== *)
theory Spec2Isabelle
  imports AuditChainProps DaemonProps StartupProps McpProps WatchProps WatchTui CliExec
begin

text \<open>
  PromptLock (Go, \<open>src/\<close>) is a broker: agents ask for time-limited leases on secrets, a human
  operator approves or denies, and an agent with a lease has the broker run a command with the
  secrets in its environment. This development models the broker daemon \<open>promptlockd\<close> from
  its configuration file and its checks at the start to the answers of its listeners, and the
  adapter through which a model asks for leases, and proves what they promise.

  The parts and the theories that model them

  \<^item> What Go's library does for the broker: \<open>Prelude\<close> (64-bit integers, durations, association
    lists as Go maps), \<open>GoStrings\<close>, \<open>GoPaths\<close>, \<open>GoJson\<close>, \<open>Base64\<close>, \<open>Sha256\<close>, \<open>NetAddr\<close>.
  \<^item> Domain and ports (\<open>internal/core\<close>): \<open>Errors\<close>, \<open>Domain\<close>, \<open>Ports\<close>. A Go interface is a
    record of functions over a state; the contracts of the stores are locales.
  \<^item> Adapters (\<open>internal/adapters/memory\<close>, \<open>internal/adapters/audit\<close>): \<open>MemoryStore\<close>, which
    interprets the locales of \<open>Ports\<close>; \<open>AuditSanitize\<close>, \<open>AuditChain\<close> and \<open>AuditChainProps\<close>, the
    audit log as a hash chain and its verifier.
  \<^item> Application (\<open>internal/app\<close>): \<open>RequestPolicy\<close>, \<open>Service\<close>, \<open>LeaseService\<close>,
    \<open>LeaseThrottle\<close>, \<open>ExecutionSecrets\<close>, \<open>AuthLifecycle\<close>; the control plane \<open>ProcessEnv\<close>,
    \<open>NetPolicy\<close>, \<open>ControlPolicy\<close>, \<open>Output\<close>; and the use cases in \<open>Execution\<close>.
  \<^item> Credentials (\<open>internal/auth\<close>): \<open>AuthStore\<close>, \<open>AtomicFile\<close>, \<open>Persistence\<close>.
  \<^item> The daemon (\<open>cmd/promptlockd\<close>): \<open>RateLimit\<close>, \<open>Daemon\<close> (state, durability gate, persistence,
    cleanup), \<open>Outside\<close>, \<open>Http\<close> and \<open>Handlers\<close>, \<open>Server\<close> (routes, calls, events).
  \<^item> Configuration and backends: \<open>Config\<close> (\<open>internal/config\<close>), \<open>EnvPath\<close> (environment files,
    \<open>internal/adapters/envpath\<close>), \<open>LaunchEnv\<close> (\<open>internal/mcplaunchenv\<close>, \<open>internal/sopsenv\<close>),
    \<open>Backends\<close> (secrets from variables, a file or a service, state in a service).
  \<^item> The start (\<open>cmd/promptlockd\<close>): \<open>StartChecks\<close> (overrides and checks) and \<open>Startup\<close>, where \<open>run\<close>
    composes the stages of \<open>main.go\<close> in their order up to the open listeners; its result is the
    setup and the first state that \<open>Server\<close> takes over.

  \<^item> The MCP adapter (\<open>cmd/promptlock-mcp\<close>): \<open>BrokerClient\<close> (how it reaches the broker), \<open>McpServer\<close>
    (the loop over JSON-RPC lines, the calls in flight, the arguments of the tool), \<open>McpClient\<close>
    (a call of the tool: intent, request, the wait for the decision, lease, execution, withdrawal).
  \<^item> The command line (\<open>cmd/promptlock\<close>): \<open>Setup\<close> (the state of a workspace and how other commands
    find it), \<open>CliBroker\<close> (the broker a command calls), \<open>CliExec\<close> (\<open>exec\<close>, \<open>audit-verify\<close>), \<open>WatchText\<close>,
    \<open>Watch\<close> and \<open>WatchTui\<close> (what the operator sees of a request and decides).

  A function of the source keeps its name, in lower case with underscores; a struct is a record
  whose fields carry a short prefix. An \<open>error\<close> result is an option or a sum. A method that
  changes its receiver returns the changed state.

  The specifications and what is proved against them

  \<^item> \<open>LeaseSpec\<close>: a book of requests and leases and the steps created, approved, denied and
    cancelled, with its invariant by rule induction. \<open>AuthSpec\<close>: the auth store and its five steps.
  \<^item> \<open>BrokerContract\<close> and \<open>AuthContract\<close> state, as the locales \<open>broker_ports\<close> and \<open>auth_ports\<close>,
    what the services need of what they are wired to. Inside the locales \<open>LeaseContract\<close>,
    \<open>AccessContract\<close>, \<open>ThrottleContract\<close> and \<open>ExecSecretsContract\<close> show that each operation either
    takes exactly one step of its specification and leaves its audit event, or returns an error
    and leaves its stores as they were. \<open>DaemonContract\<close> interprets both on the daemon's own state.
  \<^item> \<open>ServerFrame\<close>, \<open>ServerContract\<close>, \<open>ServerReads\<close>, \<open>ServerExec\<close>, \<open>ServerAuth\<close>: the same for each
    handler, with the caller that may take the step. \<open>ServerRun\<close> puts them together: every answer
    of every listener, and every run of the daemon by rule induction over \<open>daemon_run\<close>.
  \<^item> \<open>CallerProps\<close> and \<open>DaemonProps\<close> hold the properties of the daemon as a whole, on the concrete
    daemon of \<open>DaemonExample\<close>; \<open>StartupProps\<close> those of a daemon that \<open>run\<close> has started, so that the
    invariants of the runs hold from the configuration file on. The properties of a component
    stand in its own theory.
  \<^item> \<open>McpServer\<close> shows that every request is answered once; \<open>McpProps\<close> records the exchanges of a
    call beside its world and shows their order, that a cancelled call withdraws its request, and
    that a call returns.
  \<^item> \<open>Watch\<close>, \<open>WatchProps\<close> and \<open>WatchTui\<close> show, for both faces of \<open>watch\<close>, that the text of a request
    cannot forge what the operator sees and that a decision is for the request shown; \<open>Setup\<close>, that
    an environment file brought up to date is read back.

  Parameters and assumptions

  The outside of the process is a value of any type, and the clock, the random generator, the
  files, the sockets, the HTTP client, the start of a process and the codec (the JSON texts of three structs
  and AES-GCM) are functions on it, the fields of \<open>outside\<close> and \<open>exec_config\<close>. The only law asked
  of them is that paths are absolute after symbolic links were followed, that parsing and opening undo printing and sealing, and, for a run, that random
  identifiers are new (\<open>ids_fresh\<close>). Files may fail at every call. Where SHA-256 matters, a
  theorem names the two texts that would have to collide.

  The mutexes of the code have no counterpart: an operation is one function on the state. A run is
  a sequence of calls and passes of the cleanup, so a handler's reads of the gate and of the
  limiter are taken together with the call they guard, and no lease runs out during a call other
  than by what the clock shows at its reads.

  Nothing here has fuel: recursions are structural or come with a measure. The loops of unknown
  length are partial functions: the wait for an approval (\<open>poll_until\<close>), of which \<open>tool_call_ends\<close>
  proves that it returns, and the prompt and the loop of \<open>watch\<close>, which need not.

  Not modelled

  Of the command line the parsing of flags, help texts, the container launcher, the start of a
  daemon and the drawing of the terminal; the launcher of the MCP adapter and the tools, which call
  the broker or the repository; the loop that serves HTTP and its shutdown; decoding JSON into the
  configuration; the calls that lock a file; the storage report and the pseudo-terminal. With an
  external state store the requests and leases live in the service: its operations are in
  \<open>Backends\<close>, and the runs of \<open>Server\<close> are about a daemon that keeps its state itself. Of the runes beyond ASCII,
  case mapping changes those whose image is ASCII and leaves the others, where Go consults the
  Unicode tables.
\<close>

end
